(* ===== verification/Py_Prelude.thy ===== *)
theory Py_Prelude
  imports Main "HOL-Library.AList" "HOL-Library.Word"
begin

text \<open>
  Shared vocabulary of the development: the parts of the Python runtime that the
  framework's code uses, as executable HOL functions, with the lemmas the component
  theories build on.

  \<^item> Exceptions are the values of \<open>py_error\<close> (with the one exception class the framework
    defines and catches, \<^verbatim>\<open>MemcachedError\<close>, with its status and message); a fallible function returns
    \<open>'a res\<close> (\<open>Inl\<close> the exception, \<open>Inr\<close> the result), sequenced by \<open>rbind\<close>
    and iterated by \<open>rfold\<close> (a \<^verbatim>\<open>for\<close> loop whose body may raise).
  \<^item> A \<^verbatim>\<open>dict\<close> is an association list with distinct keys; \<open>map_of\<close> is its lookup,
    \<open>AList.update\<close> its item assignment and \<open>AList.delete\<close> its \<^verbatim>\<open>del\<close>. Iteration
    over a dict is iteration over the list; no theorem depends on which order it has.
  \<^item> A \<^verbatim>\<open>str\<close> is a \<open>string\<close>; the string methods used by the code are defined below.
  \<^item> Logging and printing have no value and are left out throughout.
\<close>

section \<open>Exceptions and results\<close>

datatype py_error =
    KeyError
  | IndexError
  | ValueError
  | TypeError
  | AttributeError
  | StructError
  | StopIteration
  | EOFError
  | AssertionError
  | ZeroDivisionError
  | UnboundLocalError
  | RuntimeError
  | MemcachedError int string
  | Raised string

type_synonym 'a res = "py_error + 'a"

named_theorems res_simps \<open>rewriting of results of fallible operations\<close>

definition rbind :: "'a res \<Rightarrow> ('a \<Rightarrow> 'b res) \<Rightarrow> 'b res" where
  "rbind m f = (case m of Inl e \<Rightarrow> Inl e | Inr x \<Rightarrow> f x)"

lemma rbind_Inl [simp, res_simps]: "rbind (Inl e) f = Inl e"
  by (simp add: rbind_def)

lemma rbind_Inr [simp, res_simps]: "rbind (Inr x) f = f x"
  by (simp add: rbind_def)

lemma rbind_eq_Inr [res_simps]:
  "rbind m f = Inr y \<longleftrightarrow> (\<exists>x. m = Inr x \<and> f x = Inr y)"
  by (cases m) auto

lemma rbind_eq_Inl [res_simps]:
  "rbind m f = Inl e \<longleftrightarrow> m = Inl e \<or> (\<exists>x. m = Inr x \<and> f x = Inl e)"
  by (cases m) auto

lemma rbind_assoc: "rbind (rbind m f) g = rbind m (\<lambda>x. rbind (f x) g)"
  by (cases m) auto

lemma rbind_cong [fundef_cong]:
  "m = m' \<Longrightarrow> (\<And>x. m' = Inr x \<Longrightarrow> f x = f' x) \<Longrightarrow> rbind m f = rbind m' f'"
  by (cases m') auto

definition of_option :: "py_error \<Rightarrow> 'a option \<Rightarrow> 'a res" where
  "of_option e m = (case m of None \<Rightarrow> Inl e | Some x \<Rightarrow> Inr x)"

lemma of_option_simps [simp, res_simps]:
  "of_option e None = Inl e" "of_option e (Some x) = Inr x"
  by (simp_all add: of_option_def)

lemma of_option_eq_Inr [simp, res_simps]: "of_option e m = Inr x \<longleftrightarrow> m = Some x"
  by (cases m) auto

definition is_ok :: "'a res \<Rightarrow> bool" where
  "is_ok m = (case m of Inl _ \<Rightarrow> False | Inr _ \<Rightarrow> True)"

lemma is_ok_simps [simp]: "is_ok (Inr x)" "\<not> is_ok (Inl e)"
  by (simp_all add: is_ok_def)

fun rfold :: "('s \<Rightarrow> 'a \<Rightarrow> 's res) \<Rightarrow> 's \<Rightarrow> 'a list \<Rightarrow> 's res" where
  "rfold f s [] = Inr s"
| "rfold f s (x # xs) = rbind (f s x) (\<lambda>s'. rfold f s' xs)"

lemma rfold_append: "rfold f s (xs @ ys) = rbind (rfold f s xs) (\<lambda>s'. rfold f s' ys)"
  by (induction xs arbitrary: s) (auto simp: rbind_assoc)

lemma rfold_invariant:
  assumes "rfold f s xs = Inr t" and "P s"
    and "\<And>s x s'. P s \<Longrightarrow> x \<in> set xs \<Longrightarrow> f s x = Inr s' \<Longrightarrow> P s'"
  shows "P t"
  using assms
proof (induction xs arbitrary: s)
  case Nil
  then show ?case by simp
next
  case (Cons x xs)
  from Cons.prems(1) obtain s' where s': "f s x = Inr s'" "rfold f s' xs = Inr t"
    by (auto simp: rbind_eq_Inr)
  have "P s'" by (rule Cons.prems(3) [OF Cons.prems(2) _ s'(1)]) simp
  moreover have "\<And>s x s'. P s \<Longrightarrow> x \<in> set xs \<Longrightarrow> f s x = Inr s' \<Longrightarrow> P s'"
    by (rule Cons.prems(3)) simp_all
  ultimately show ?case by (rule Cons.IH [OF s'(2)])
qed

fun rmap :: "('a \<Rightarrow> 'b res) \<Rightarrow> 'a list \<Rightarrow> 'b list res" where
  "rmap f [] = Inr []"
| "rmap f (x # xs) = rbind (f x) (\<lambda>y. rbind (rmap f xs) (\<lambda>ys. Inr (y # ys)))"

lemma rmap_length: "rmap f xs = Inr ys \<Longrightarrow> length ys = length xs"
  by (induction xs arbitrary: ys) (auto simp: rbind_eq_Inr)

lemma rmap_Inr: "(\<And>x. x \<in> set xs \<Longrightarrow> f x = Inr (g x)) \<Longrightarrow> rmap f xs = Inr (map g xs)"
  by (induction xs) auto


section \<open>Dictionaries\<close>

type_synonym ('k, 'v) dict = "('k \<times> 'v) list"

named_theorems dict_simps \<open>lookup after an update of a dictionary\<close>

abbreviation dict_keys :: "('k, 'v) dict \<Rightarrow> 'k list" where
  "dict_keys d \<equiv> map fst d"

definition dict_wf :: "('k, 'v) dict \<Rightarrow> bool" where
  "dict_wf d \<longleftrightarrow> distinct (dict_keys d)"

definition dict_has :: "('k, 'v) dict \<Rightarrow> 'k \<Rightarrow> bool" where
  "dict_has d k \<longleftrightarrow> map_of d k \<noteq> None"

definition dict_lookup :: "('k, 'v) dict \<Rightarrow> 'k \<Rightarrow> 'v res" where
  "dict_lookup d k = of_option KeyError (map_of d k)"

definition dict_get :: "('k, 'v) dict \<Rightarrow> 'k \<Rightarrow> 'v \<Rightarrow> 'v" where
  "dict_get d k v = (case map_of d k of None \<Rightarrow> v | Some x \<Rightarrow> x)"

lemma map_of_dict_update [simp, dict_simps]:
  "map_of (AList.update k v d) = (map_of d)(k \<mapsto> v)"
  by (simp add: update_conv')

lemma map_of_dict_delete [simp, dict_simps]:
  "map_of (AList.delete k d) = (map_of d)(k := None)"
  by (simp add: delete_conv')

lemma dict_wf_Nil [simp]: "dict_wf []"
  by (simp add: dict_wf_def)

lemma dict_wf_update [simp, intro]: "dict_wf d \<Longrightarrow> dict_wf (AList.update k v d)"
  by (simp add: dict_wf_def distinct_update)

lemma dict_wf_delete [simp, intro]: "dict_wf d \<Longrightarrow> dict_wf (AList.delete k d)"
  by (simp add: dict_wf_def distinct_delete)

lemma update_new: "k \<notin> fst ` set d \<Longrightarrow> AList.update k v d = d @ [(k, v)]"
  by (induction d) auto

lemma dict_has_update [simp, dict_simps]:
  "dict_has (AList.update k v d) k' \<longleftrightarrow> k' = k \<or> dict_has d k'"
  by (simp add: dict_has_def)

lemma dict_has_delete [simp, dict_simps]:
  "dict_has (AList.delete k d) k' \<longleftrightarrow> k' \<noteq> k \<and> dict_has d k'"
  by (simp add: dict_has_def)

lemma dict_has_iff_keys: "dict_has d k \<longleftrightarrow> k \<in> set (dict_keys d)"
  by (simp add: dict_has_def map_of_eq_None_iff)

lemma dict_wf_map_of: "dict_wf d \<Longrightarrow> map_of d k = Some v \<longleftrightarrow> (k, v) \<in> set d"
  by (simp add: dict_wf_def)

lemma dict_lookup_eq_Inr [simp, res_simps]: "dict_lookup d k = Inr v \<longleftrightarrow> map_of d k = Some v"
  by (simp add: dict_lookup_def)

lemma dict_lookup_missing [res_simps]: "map_of d k = None \<Longrightarrow> dict_lookup d k = Inl KeyError"
  by (simp add: dict_lookup_def)

text \<open>\<^verbatim>\<open>d.update(e)\<close>: the entries of \<open>e\<close> are assigned one after the other.\<close>

definition dict_update_all :: "('k, 'v) dict \<Rightarrow> ('k, 'v) dict \<Rightarrow> ('k, 'v) dict" where
  "dict_update_all d e = fold (\<lambda>(k, v). AList.update k v) e d"

lemma dict_wf_update_all [simp, intro]: "dict_wf d \<Longrightarrow> dict_wf (dict_update_all d e)"
  by (induction e arbitrary: d) (auto simp: dict_update_all_def)

lemma map_of_dict_update_all:
  "dict_wf e \<Longrightarrow> map_of (dict_update_all d e) = map_of d ++ map_of e"
proof (induction e arbitrary: d)
  case Nil
  then show ?case by (simp add: dict_update_all_def)
next
  case (Cons p e)
  obtain k v where p: "p = (k, v)" by force
  with Cons.prems have wf: "dict_wf e" and k: "map_of e k = None"
    by (auto simp: dict_wf_def map_of_eq_None_iff)
  have "map_of (dict_update_all d (p # e)) = (map_of d)(k \<mapsto> v) ++ map_of e"
    using Cons.IH [OF wf, of "AList.update k v d"] p by (simp add: dict_update_all_def fun_upd_def)
  also have "\<dots> = map_of d ++ map_of (p # e)"
    using k p by (auto simp: map_add_def fun_eq_iff split: option.splits)
  finally show ?case .
qed


section \<open>Strings\<close>

named_theorems str_simps \<open>rewriting of the string operations\<close>

abbreviation comma :: char where "comma \<equiv> CHR '',''"
abbreviation equals_sign :: char where "equals_sign \<equiv> CHR ''=''"

definition py_ws :: "char \<Rightarrow> bool" where
  "py_ws c \<longleftrightarrow> c \<in> set [CHR '' '', CHR 0x09, CHR 0x0A, CHR 0x0B, CHR 0x0C, CHR 0x0D]"

definition startswith :: "string \<Rightarrow> string \<Rightarrow> bool" where
  "startswith s p \<longleftrightarrow> take (length p) s = p"

definition endswith :: "string \<Rightarrow> string \<Rightarrow> bool" where
  "endswith s p \<longleftrightarrow> startswith (rev s) (rev p)"

fun in_str :: "string \<Rightarrow> string \<Rightarrow> bool" where
  "in_str p [] \<longleftrightarrow> p = []"
| "in_str p (c # s) \<longleftrightarrow> startswith (c # s) p \<or> in_str p s"

definition py_rstrip :: "(char \<Rightarrow> bool) \<Rightarrow> string \<Rightarrow> string" where
  "py_rstrip p s = rev (dropWhile p (rev s))"

definition py_strip :: "string \<Rightarrow> string" where
  "py_strip s = py_rstrip py_ws (dropWhile py_ws s)"

fun py_split :: "char \<Rightarrow> string \<Rightarrow> string list" where
  "py_split c [] = [[]]"
| "py_split c (x # xs) =
     (if x = c then [] # py_split c xs
      else (case py_split c xs of [] \<Rightarrow> [[x]] | y # ys \<Rightarrow> (x # y) # ys))"

fun py_join :: "string \<Rightarrow> string list \<Rightarrow> string" where
  "py_join sep [] = []"
| "py_join sep [x] = x"
| "py_join sep (x # y # zs) = x @ sep @ py_join sep (y # zs)"

fun replace_first :: "char \<Rightarrow> char \<Rightarrow> string \<Rightarrow> string" where
  "replace_first a b [] = []"
| "replace_first a b (x # xs) = (if x = a then b # xs else x # replace_first a b xs)"

definition lower_char :: "char \<Rightarrow> char" where
  "lower_char c = (if (65::nat) \<le> of_char c \<and> of_char c \<le> (90::nat) then char_of (of_char c + (32::nat)) else c)"

definition py_lower :: "string \<Rightarrow> string" where
  "py_lower s = map lower_char s"

fun nat_str :: "nat \<Rightarrow> string" where
  "nat_str n = (if n < 10 then [char_of (48 + n)] else nat_str (n div 10) @ [char_of (48 + n mod 10)])"

declare nat_str.simps [simp del]

definition int_str :: "int \<Rightarrow> string" where
  "int_str i = (if i < 0 then CHR ''-'' # nat_str (nat (- i)) else nat_str (nat i))"

text \<open>\<^verbatim>\<open>int(s, base)\<close> for base 10 and 16: surrounding white space, a sign and (base 16) the prefix
  \<^verbatim>\<open>0x\<close> are accepted, anything else that is not a digit is a \<^verbatim>\<open>ValueError\<close>.\<close>

definition digit_val :: "char \<Rightarrow> nat option" where
  "digit_val c = (let n = of_char (lower_char c) in
     if 48 \<le> n \<and> n \<le> 57 then Some (n - 48) else if 97 \<le> n \<and> n \<le> 122 then Some (n - 87) else None)"

fun digits_val :: "nat \<Rightarrow> string \<Rightarrow> nat \<Rightarrow> nat option" where
  "digits_val base [] acc = Some acc"
| "digits_val base (c # cs) acc =
     (case digit_val c of
        None \<Rightarrow> None
      | Some d \<Rightarrow> if d < base then digits_val base cs (acc * base + d) else None)"

definition py_nat :: "nat \<Rightarrow> string \<Rightarrow> nat res" where
  "py_nat base s =
     (let t = (if base = 16 \<and> py_lower (take 2 s) = ''0x'' then drop 2 s else s) in
      if t = [] then Inl ValueError else of_option ValueError (digits_val base t 0))"

definition py_int :: "nat \<Rightarrow> string \<Rightarrow> int res" where
  "py_int base s =
     (case py_strip s of
        [] \<Rightarrow> Inl ValueError
      | c # cs \<Rightarrow>
          if c = CHR ''-'' then rbind (py_nat base cs) (\<lambda>n. Inr (- int n))
          else if c = CHR ''+'' then rbind (py_nat base cs) (\<lambda>n. Inr (int n))
          else rbind (py_nat base (c # cs)) (\<lambda>n. Inr (int n)))"

text \<open>\<^verbatim>\<open>s[a:b]\<close> for indices that are not negative.\<close>

definition py_slice :: "nat \<Rightarrow> nat \<Rightarrow> 'a list \<Rightarrow> 'a list" where
  "py_slice a b s = take (b - a) (drop a s)"

text \<open>\<^verbatim>\<open>s.zfill(w)\<close> on a string of digits, \<^verbatim>\<open>s.ljust(w, c)\<close> and \<^verbatim>\<open>s.rjust(w, c)\<close>:
  no padding when the width is not larger than the string.\<close>

definition ljust :: "string \<Rightarrow> int \<Rightarrow> char \<Rightarrow> string" where
  "ljust s w c = s @ replicate (nat (w - int (length s))) c"

definition rjust :: "string \<Rightarrow> int \<Rightarrow> char \<Rightarrow> string" where
  "rjust s w c = replicate (nat (w - int (length s))) c @ s"

definition zfill :: "string \<Rightarrow> int \<Rightarrow> string" where
  "zfill s w = rjust s w CHR ''0''"

lemma length_ljust: "int (length (ljust s w c)) = max (int (length s)) w"
  by (simp add: ljust_def)

lemma length_rjust: "int (length (rjust s w c)) = max (int (length s)) w"
  by (simp add: rjust_def)

lemma py_split_ne [simp]: "py_split c s \<noteq> []"
  by (induction s) (auto split: list.splits)

lemma py_join_split: "py_join [c] (py_split c s) = s"
proof (induction s)
  case (Cons x xs)
  obtain y ys where s: "py_split c xs = y # ys"
    using py_split_ne [of c xs] by (cases "py_split c xs") auto
  from Cons s have "py_join [c] (y # ys) = xs" by simp
  with s show ?case by (cases ys) auto
qed simp

lemma py_split_no_sep: "c \<notin> set s \<Longrightarrow> py_split c s = [s]"
  by (induction s) auto

lemma py_split_append: "c \<notin> set s \<Longrightarrow> py_split c (s @ c # t) = s # py_split c t"
  by (induction s) auto

lemma py_split_join:
  "xs \<noteq> [] \<Longrightarrow> \<forall>x\<in>set xs. c \<notin> set x \<Longrightarrow> py_split c (py_join [c] xs) = xs"
proof (induction xs rule: induct_list012)
  case (3 x y zs)
  then show ?case by (simp add: py_split_append)
qed (simp_all add: py_split_no_sep)

lemma py_split_pieces: "x \<in> set (py_split c s) \<Longrightarrow> c \<notin> set x"
proof (induction s arbitrary: x)
  case (Cons a s)
  then show ?case by (cases "py_split c s") (auto split: if_splits)
qed simp

lemma startswith_append [simp]: "startswith (p @ s) p"
  by (simp add: startswith_def)

lemma startswith_iff: "startswith s p \<longleftrightarrow> (\<exists>t. s = p @ t)"
  by (metis append_take_drop_id startswith_append startswith_def)

lemma in_str_iff: "in_str p s \<longleftrightarrow> (\<exists>a b. s = a @ p @ b)"
proof (induction s)
  case Nil
  then show ?case by auto
next
  case (Cons c s)
  have "(\<exists>a b. c # s = a @ p @ b) \<longleftrightarrow> (\<exists>b. c # s = p @ b) \<or> (\<exists>a b. s = a @ p @ b)"
    by (metis (no_types, opaque_lifting) append_Cons append_Nil list.inject neq_Nil_conv)
  with Cons show ?case by (simp add: startswith_iff)
qed


lemma digit_val_digit: "d < 10 \<Longrightarrow> digit_val (char_of (48 + d)) = Some d"
  by (simp add: digit_val_def lower_char_def Let_def)

lemma digits_val_append:
  "digits_val base (s @ t) acc =
     (case digits_val base s acc of None \<Rightarrow> None | Some a \<Rightarrow> digits_val base t a)"
  by (induction s arbitrary: acc) (auto split: option.splits)

lemma digits_val_nat_str: "digits_val 10 (nat_str n) 0 = Some n"
proof (induction n rule: nat_str.induct)
  case (1 n)
  show ?case
  proof (cases "n < 10")
    case True
    then show ?thesis by (simp add: nat_str.simps [of n] digit_val_digit)
  next
    case False
    have "digit_val (char_of (48 + n mod 10)) = Some (n mod 10)" by (rule digit_val_digit) simp
    with False 1 show ?thesis by (subst nat_str.simps) (simp add: digits_val_append)
  qed
qed

lemma nat_str_inj: "nat_str m = nat_str n \<longleftrightarrow> m = n"
  by (metis digits_val_nat_str option.inject)

lemma nat_str_ne [simp]: "nat_str n \<noteq> []"
  by (subst nat_str.simps) simp

lemma nat_str_chars: "c \<in> set (nat_str n) \<Longrightarrow> \<exists>d<(10::nat). c = char_of (48 + d)"
proof (induction n rule: nat_str.induct)
  case (1 n)
  show ?case
  proof (cases "n < 10")
    case False
    then have "c \<in> set (nat_str (n div 10)) \<or> c = char_of (48 + n mod 10)"
      using "1.prems" by (subst (asm) nat_str.simps) auto
    then show ?thesis
    proof
      assume "c = char_of (48 + n mod 10)"
      then show ?thesis by (intro exI [of _ "n mod 10"]) simp
    qed (use "1.IH" False in blast)
  qed (use 1 in \<open>auto simp: nat_str.simps [of n]\<close>)
qed

end
