(* ===== verification/Crc32.thy ===== *)
theory Crc32
  imports Py_Prelude
begin

unbundle bit_operations_syntax

text \<open>
  The hash that decides which vbucket a document belongs to.

  \<^item> \<open>crc32tab\<close> and \<open>crc32_hash\<close> are \<^verbatim>\<open>src/lib/crc32.py\<close>: the table-driven CRC over
    Python's unbounded integers (\<open>int\<close>, with \<open>NOT\<close> as Python's \<^verbatim>\<open>~\<close>).
  \<^item> \<open>zlib_crc32\<close> is the standard library's \<^verbatim>\<open>zlib.crc32\<close>: the CRC-32 of the reflected
    polynomial \<^verbatim>\<open>0xEDB88320\<close>, bit by bit, read as a signed 32-bit integer as the
    Python 2 runtimes return it.
  \<^item> \<open>get_vbucket_num_for_key\<close> is \<^verbatim>\<open>BucketUtils.get_vbucket_num_for_key\<close>; the same
    expression occurs in the document generators and in the memcached client.

  The lemmas show that the table is the one the polynomial generates, that the table-driven
  loop computes the bitwise CRC, that \<open>crc32_hash\<close> is therefore the hash the other
  components take from \<open>zlib\<close>, and that a vbucket number is in range.
\<close>

section \<open>The table and the loop of crc32.py\<close>

definition crc32tab :: "int list" where
  "crc32tab = [
   0x00000000, 0x77073096, 0xee0e612c, 0x990951ba, 0x076dc419, 0x706af48f,
   0xe963a535, 0x9e6495a3, 0x0edb8832, 0x79dcb8a4, 0xe0d5e91e, 0x97d2d988,
   0x09b64c2b, 0x7eb17cbd, 0xe7b82d07, 0x90bf1d91, 0x1db71064, 0x6ab020f2,
   0xf3b97148, 0x84be41de, 0x1adad47d, 0x6ddde4eb, 0xf4d4b551, 0x83d385c7,
   0x136c9856, 0x646ba8c0, 0xfd62f97a, 0x8a65c9ec, 0x14015c4f, 0x63066cd9,
   0xfa0f3d63, 0x8d080df5, 0x3b6e20c8, 0x4c69105e, 0xd56041e4, 0xa2677172,
   0x3c03e4d1, 0x4b04d447, 0xd20d85fd, 0xa50ab56b, 0x35b5a8fa, 0x42b2986c,
   0xdbbbc9d6, 0xacbcf940, 0x32d86ce3, 0x45df5c75, 0xdcd60dcf, 0xabd13d59,
   0x26d930ac, 0x51de003a, 0xc8d75180, 0xbfd06116, 0x21b4f4b5, 0x56b3c423,
   0xcfba9599, 0xb8bda50f, 0x2802b89e, 0x5f058808, 0xc60cd9b2, 0xb10be924,
   0x2f6f7c87, 0x58684c11, 0xc1611dab, 0xb6662d3d, 0x76dc4190, 0x01db7106,
   0x98d220bc, 0xefd5102a, 0x71b18589, 0x06b6b51f, 0x9fbfe4a5, 0xe8b8d433,
   0x7807c9a2, 0x0f00f934, 0x9609a88e, 0xe10e9818, 0x7f6a0dbb, 0x086d3d2d,
   0x91646c97, 0xe6635c01, 0x6b6b51f4, 0x1c6c6162, 0x856530d8, 0xf262004e,
   0x6c0695ed, 0x1b01a57b, 0x8208f4c1, 0xf50fc457, 0x65b0d9c6, 0x12b7e950,
   0x8bbeb8ea, 0xfcb9887c, 0x62dd1ddf, 0x15da2d49, 0x8cd37cf3, 0xfbd44c65,
   0x4db26158, 0x3ab551ce, 0xa3bc0074, 0xd4bb30e2, 0x4adfa541, 0x3dd895d7,
   0xa4d1c46d, 0xd3d6f4fb, 0x4369e96a, 0x346ed9fc, 0xad678846, 0xda60b8d0,
   0x44042d73, 0x33031de5, 0xaa0a4c5f, 0xdd0d7cc9, 0x5005713c, 0x270241aa,
   0xbe0b1010, 0xc90c2086, 0x5768b525, 0x206f85b3, 0xb966d409, 0xce61e49f,
   0x5edef90e, 0x29d9c998, 0xb0d09822, 0xc7d7a8b4, 0x59b33d17, 0x2eb40d81,
   0xb7bd5c3b, 0xc0ba6cad, 0xedb88320, 0x9abfb3b6, 0x03b6e20c, 0x74b1d29a,
   0xead54739, 0x9dd277af, 0x04db2615, 0x73dc1683, 0xe3630b12, 0x94643b84,
   0x0d6d6a3e, 0x7a6a5aa8, 0xe40ecf0b, 0x9309ff9d, 0x0a00ae27, 0x7d079eb1,
   0xf00f9344, 0x8708a3d2, 0x1e01f268, 0x6906c2fe, 0xf762575d, 0x806567cb,
   0x196c3671, 0x6e6b06e7, 0xfed41b76, 0x89d32be0, 0x10da7a5a, 0x67dd4acc,
   0xf9b9df6f, 0x8ebeeff9, 0x17b7be43, 0x60b08ed5, 0xd6d6a3e8, 0xa1d1937e,
   0x38d8c2c4, 0x4fdff252, 0xd1bb67f1, 0xa6bc5767, 0x3fb506dd, 0x48b2364b,
   0xd80d2bda, 0xaf0a1b4c, 0x36034af6, 0x41047a60, 0xdf60efc3, 0xa867df55,
   0x316e8eef, 0x4669be79, 0xcb61b38c, 0xbc66831a, 0x256fd2a0, 0x5268e236,
   0xcc0c7795, 0xbb0b4703, 0x220216b9, 0x5505262f, 0xc5ba3bbe, 0xb2bd0b28,
   0x2bb45a92, 0x5cb36a04, 0xc2d7ffa7, 0xb5d0cf31, 0x2cd99e8b, 0x5bdeae1d,
   0x9b64c2b0, 0xec63f226, 0x756aa39c, 0x026d930a, 0x9c0906a9, 0xeb0e363f,
   0x72076785, 0x05005713, 0x95bf4a82, 0xe2b87a14, 0x7bb12bae, 0x0cb61b38,
   0x92d28e9b, 0xe5d5be0d, 0x7cdcefb7, 0x0bdbdf21, 0x86d3d2d4, 0xf1d4e242,
   0x68ddb3f8, 0x1fda836e, 0x81be16cd, 0xf6b9265b, 0x6fb077e1, 0x18b74777,
   0x88085ae6, 0xff0f6a70, 0x66063bca, 0x11010b5c, 0x8f659eff, 0xf862ae69,
   0x616bffd3, 0x166ccf45, 0xa00ae278, 0xd70dd2ee, 0x4e048354, 0x3903b3c2,
   0xa7672661, 0xd06016f7, 0x4969474d, 0x3e6e77db, 0xaed16a4a, 0xd9d65adc,
   0x40df0b66, 0x37d83bf0, 0xa9bcae53, 0xdebb9ec5, 0x47b2cf7f, 0x30b5ffe9,
   0xbdbdf21c, 0xcabac28a, 0x53b39330, 0x24b4a3a6, 0xbad03605, 0xcdd70693,
   0x54de5729, 0x23d967bf, 0xb3667a2e, 0xc4614ab8, 0x5d681b02, 0x2a6f2b94,
   0xb40bbe37, 0xc30c8ea1, 0x5a05df1b, 0x2d02ef8d]"

definition crc_step :: "int \<Rightarrow> char \<Rightarrow> int" where
  "crc_step crc ch =
     (drop_bit 8 crc) XOR (crc32tab ! nat ((crc XOR of_char ch) AND 0xff))"

definition crc32_hash :: "string \<Rightarrow> int" where
  "crc32_hash key =
     (let crc = foldl crc_step (2 ^ 32 - 1) key
      in (drop_bit 16 (NOT crc)) AND 0x7fff)"


section \<open>The reference CRC\<close>

definition crc_bit :: "32 word \<Rightarrow> 32 word" where
  "crc_bit c = (if bit c 0 then drop_bit 1 c XOR 0xEDB88320 else drop_bit 1 c)"

definition crc_byte :: "32 word \<Rightarrow> 32 word" where
  "crc_byte c = (crc_bit ^^ 8) c"

definition crc_ref :: "32 word \<Rightarrow> string \<Rightarrow> 32 word" where
  "crc_ref c key = foldl (\<lambda>c ch. crc_byte (c XOR of_char ch)) c key"

definition zlib_crc32 :: "string \<Rightarrow> int" where
  "zlib_crc32 key = sint (NOT (crc_ref (- 1) key))"

lemma crc32tab_length [simp]: "length crc32tab = 256"
  by (simp add: crc32tab_def)

text \<open>The bit step on integers; its rules compute on numerals only.\<close>

definition crc_bit_int :: "int \<Rightarrow> int" where
  "crc_bit_int c = (if odd c then (c div 2) XOR 0xEDB88320 else c div 2)"

definition crc_byte_int :: "int \<Rightarrow> int" where
  "crc_byte_int c = crc_bit_int (crc_bit_int (crc_bit_int (crc_bit_int
     (crc_bit_int (crc_bit_int (crc_bit_int (crc_bit_int c)))))))"

lemma crc_bit_int_numeral:
  "crc_bit_int 0 = 0"
  "crc_bit_int 1 = 0xEDB88320"
  "crc_bit_int (numeral (Num.Bit0 n)) = numeral n"
  "crc_bit_int (numeral (Num.Bit1 n)) = numeral n XOR 0xEDB88320"
  by (simp_all add: crc_bit_int_def)

text \<open>Every entry of the table is the polynomial's value for its index.\<close>

lemma crc32tab_generated: "crc32tab = map crc_byte_int [0..255]"
  by (simp add: crc32tab_def crc_byte_int_def crc_bit_int_numeral upto_rec1)

lemma crc32tab_nth:
  assumes "0 \<le> i" and "i \<le> 255"
  shows "crc32tab ! nat i = crc_byte_int i"
proof -
  have "nat i < length [0..255]" using assms by simp
  moreover have "[0..255] ! nat i = i" using assms by (subst nth_upto) auto
  ultimately show ?thesis by (simp add: crc32tab_generated)
qed

lemma uint_drop_bit: "uint (drop_bit n (w :: 32 word)) = drop_bit n (uint w)"
  by (rule bit_eqI) (auto simp: bit_simps dest: bit_imp_le_length)

lemma uint_crc_bit: "uint (crc_bit c) = crc_bit_int (uint c)"
proof -
  have "uint (drop_bit 1 c) = uint c div 2"
    by (simp only: uint_drop_bit) (simp add: drop_bit_Suc)
  moreover have "bit c 0 \<longleftrightarrow> odd (uint c)"
    by (metis bit_0 bit_uint_iff len_gt_0)
  ultimately show ?thesis
    by (simp add: crc_bit_def crc_bit_int_def unsigned_xor_eq)
qed

lemma uint_crc_byte: "uint (crc_byte c) = crc_byte_int (uint c)"
  by (simp add: crc_byte_def crc_byte_int_def uint_crc_bit numeral_eq_Suc)


section \<open>The table-driven loop is the bitwise CRC\<close>

lemma crc_bit_xor: "crc_bit (a XOR b) = crc_bit a XOR crc_bit b"
  by (auto simp: crc_bit_def bit_xor_iff drop_bit_xor ac_simps)

lemma crc_pow_xor: "(crc_bit ^^ n) (a XOR b) = (crc_bit ^^ n) a XOR (crc_bit ^^ n) b"
  by (induction n) (simp_all add: crc_bit_xor)

lemma crc_bit_even: "\<not> bit c 0 \<Longrightarrow> crc_bit c = drop_bit 1 c"
  by (simp add: crc_bit_def)

lemma crc_pow_high:
  "(\<And>i. i < n \<Longrightarrow> \<not> bit c i) \<Longrightarrow> (crc_bit ^^ n) c = drop_bit n c"
proof (induction n)
  case (Suc n)
  then have "(crc_bit ^^ n) c = drop_bit n c" by simp
  moreover have "\<not> bit (drop_bit n c) 0" using Suc.prems [of n] by (simp add: bit_drop_bit_eq)
  ultimately show ?case by (simp add: crc_bit_even)
qed simp

lemma low_byte_mask: "(0xff :: 32 word) = mask 8"
  by (simp add: mask_eq_exp_minus_1)

lemma low_byte_split: "(c AND 0xff) XOR (c AND NOT 0xff) = (c :: 32 word)"
  by (rule bit_word_eqI) (auto simp: bit_simps)

lemma crc_byte_split: "crc_byte c = drop_bit 8 c XOR crc_byte (c AND 0xff)"
proof -
  have "(crc_bit ^^ 8) (c AND NOT 0xff) = drop_bit 8 (c AND NOT 0xff)"
    by (rule crc_pow_high) (simp add: low_byte_mask bit_simps)
  also have "\<dots> = drop_bit 8 c"
    by (rule bit_word_eqI)
       (auto simp: low_byte_mask bit_simps dest: bit_imp_le_length)
  finally have "(crc_bit ^^ 8) (c AND NOT 0xff) = drop_bit 8 c" .
  then have "(crc_bit ^^ 8) ((c AND 0xff) XOR (c AND NOT 0xff))
      = (crc_bit ^^ 8) (c AND 0xff) XOR drop_bit 8 c"
    by (simp only: crc_pow_xor)
  then show ?thesis
    by (simp only: low_byte_split crc_byte_def xor.commute)
qed

lemma of_char_range: "(0 :: int) \<le> of_char ch" "of_char ch < (256 :: int)"
proof -
  have "of_char ch = of_char ch mod (256 :: int)" by simp
  then show "(0 :: int) \<le> of_char ch" "of_char ch < (256 :: int)"
    by (metis pos_mod_sign pos_mod_bound zero_less_numeral)+
qed

lemma uint_of_char [simp]: "uint (of_char ch :: 32 word) = of_char ch"
proof -
  have "(of_char ch :: 32 word) = word_of_int (of_char ch)"
    by (simp add: of_int_of_char)
  then have "uint (of_char ch :: 32 word) = of_char ch mod 2 ^ 32"
    by (simp only: uint_word_of_int len_num1 len_bit0) simp
  then show ?thesis using of_char_range [of ch] by simp
qed

lemma drop_xor_char: "drop_bit 8 (c XOR of_char ch) = drop_bit 8 (c :: 32 word)"
proof -
  have "uint (drop_bit 8 (of_char ch :: 32 word)) = of_char ch div 256"
    by (simp only: uint_drop_bit) (simp add: drop_bit_eq_div)
  then have "drop_bit 8 (of_char ch :: 32 word) = 0"
    using of_char_range [of ch] by (simp add: uint_0_iff)
  then show ?thesis by (simp add: drop_bit_xor)
qed

lemma crc_step_ref: "crc_step (uint c) ch = uint (crc_byte (c XOR of_char ch))"
proof -
  let ?i = "(uint c XOR of_char ch) AND 0xff"
  have i: "?i = uint ((c XOR of_char ch) AND 0xff)"
    by (simp add: unsigned_and_eq unsigned_xor_eq)
  have "crc32tab ! nat ?i = crc_byte_int ?i"
    by (rule crc32tab_nth) (simp_all add: AND_upper2)
  then have "crc32tab ! nat ?i = uint (crc_byte ((c XOR of_char ch) AND 0xff))"
    by (simp only: uint_crc_byte i)
  then show ?thesis
    by (subst crc_byte_split, simp only: drop_xor_char)
       (simp add: crc_step_def unsigned_xor_eq uint_drop_bit)
qed

lemma crc_loop_ref: "foldl crc_step (uint c) key = uint (crc_ref c key)"
  by (induction key arbitrary: c) (simp_all add: crc_ref_def crc_step_ref)

lemma shifted_hash_bits:
  "drop_bit 16 (NOT (uint w)) AND 0x7fff = (drop_bit 16 (sint (NOT w)) AND (0x7fff :: int))"
  for w :: "32 word"
proof (rule bit_eqI)
  fix n
  have m: "(0x7fff :: int) = mask 15" by (simp add: mask_eq_exp_minus_1)
  show "bit (drop_bit 16 (NOT (uint w)) AND 0x7fff) n
      \<longleftrightarrow> bit (drop_bit 16 (sint (NOT w)) AND (0x7fff :: int)) n"
    unfolding m by (auto simp: bit_simps min_def)
qed

lemma crc32_hash_zlib: "crc32_hash key = drop_bit 16 (zlib_crc32 key) AND 0x7fff"
proof -
  have "(2 ^ 32 - 1 :: int) = uint (- 1 :: 32 word)"
    by (simp add: unsigned_minus_1_eq_mask mask_eq_exp_minus_1)
  then have "foldl crc_step (2 ^ 32 - 1) key = uint (crc_ref (- 1) key)"
    by (simp only: crc_loop_ref)
  then show ?thesis
    by (simp only: crc32_hash_def zlib_crc32_def Let_def shifted_hash_bits)
qed


section \<open>The vbucket of a key\<close>

definition get_vbucket_num_for_key :: "string \<Rightarrow> int \<Rightarrow> int" where
  "get_vbucket_num_for_key doc_key total_vbuckets =
     ((drop_bit 16 (zlib_crc32 doc_key)) AND 0x7fff) AND (total_vbuckets - 1)"

lemma vbucket_num_hash:
  "get_vbucket_num_for_key key vbs = crc32_hash key AND (vbs - 1)"
  by (simp add: get_vbucket_num_for_key_def crc32_hash_zlib)

lemma vbucket_num_in_range:
  assumes "0 < vbs"
  shows "0 \<le> get_vbucket_num_for_key key vbs \<and> get_vbucket_num_for_key key vbs < vbs"
  using assms AND_upper2 [of "vbs - 1" "crc32_hash key"]
  by (simp add: vbucket_num_hash)

lemma vbucket_num_mod:
  "get_vbucket_num_for_key key (2 ^ k) = crc32_hash key mod 2 ^ k"
  by (simp add: vbucket_num_hash take_bit_eq_mask [symmetric] take_bit_eq_mod mask_eq_exp_minus_1 [symmetric])

end
