(* ===== verification/KV_Store.thy ===== *)
theory KV_Store
  imports Crc32
begin

text \<open>
  The client-side record of what a test has written: \<^verbatim>\<open>src/lib/memcached/helper/kvstore.py\<close>
  (\<open>Partition\<close>, \<open>KVStore\<close>) and \<^verbatim>\<open>old_kvstore.py\<close> (\<open>ClientKeyValueStore\<close>).

  A \<open>Partition\<close> is a record of its four private fields. \<^verbatim>\<open>time.time()\<close> is an argument of
  each operation that reads the clock (a function of the key where the code reads it once per
  key), and \<^verbatim>\<open>random.choice\<close> an argument that gives the index it picks. A \<open>KVStore\<close> is a
  list of slots, one lock and one partition each; an operation that has to wait for a lock
  that is held returns \<open>None\<close>. The interleaving of several threads inside
  \<^verbatim>\<open>acquire_partitions\<close> and \<^verbatim>\<open>release_partitions\<close> is the step relation \<open>lock_step\<close>.
\<close>

section \<open>Partition\<close>

record 'v kv_item =
  it_value :: 'v
  it_expires :: int
  it_flag :: int

record 'v partition =
  part_id :: nat
  p_valid :: "(string, 'v kv_item) dict"
  p_deleted :: "(string, 'v) dict"
  p_timestamp :: "(string, int) dict"
  p_expired_keys :: "string list"

definition new_partition :: "nat \<Rightarrow> 'v partition" where
  "new_partition i = \<lparr>part_id = i, p_valid = [], p_deleted = [], p_timestamp = [], p_expired_keys = []\<rparr>"

definition part_set :: "int \<Rightarrow> int \<Rightarrow> 'v partition \<Rightarrow> string \<Rightarrow> 'v \<Rightarrow> int \<Rightarrow> int \<Rightarrow> 'v partition" where
  "part_set t1 t2 p key value expiry flag =
     (let p = (if dict_has (p_deleted p) key
               then p\<lparr>p_deleted := AList.delete key (p_deleted p)\<rparr> else p);
          p = (if key \<in> set (p_expired_keys p)
               then p\<lparr>p_expired_keys := remove1 key (p_expired_keys p)\<rparr> else p);
          expiry = (if expiry \<noteq> 0 then t1 + expiry else expiry);
          p = p\<lparr>p_valid := AList.update key
                 \<lparr>it_value = value, it_expires = expiry, it_flag = flag\<rparr> (p_valid p)\<rparr>
      in p\<lparr>p_timestamp := AList.update key t2 (p_timestamp p)\<rparr>)"

definition part_delete :: "int \<Rightarrow> 'v partition \<Rightarrow> string \<Rightarrow> 'v partition" where
  "part_delete now p key =
     (case map_of (p_valid p) key of
        None \<Rightarrow> p
      | Some it \<Rightarrow>
          p\<lparr>p_deleted := AList.update key (it_value it) (p_deleted p),
            p_timestamp := AList.update key now (p_timestamp p),
            p_valid := AList.delete key (p_valid p)\<rparr>)"

definition get_timestamp :: "'v partition \<Rightarrow> string \<Rightarrow> int" where
  "get_timestamp p key = dict_get (p_timestamp p) key 0"

definition get_key :: "'v partition \<Rightarrow> string \<Rightarrow> 'v kv_item option" where
  "get_key p key = map_of (p_valid p) key"

definition expire_key :: "int \<Rightarrow> 'v partition \<Rightarrow> string \<Rightarrow> 'v partition" where
  "expire_key now p key =
     (case map_of (p_valid p) key of
        None \<Rightarrow> p
      | Some it \<Rightarrow>
          if it_expires it \<noteq> 0 \<and> it_expires it < now
          then p\<lparr>p_deleted := AList.update key (it_value it) (p_deleted p),
                 p_expired_keys := p_expired_keys p @ [key],
                 p_valid := AList.delete key (p_valid p)\<rparr>
          else p)"

definition get_valid :: "int \<Rightarrow> 'v partition \<Rightarrow> string \<Rightarrow> 'v partition \<times> 'v option" where
  "get_valid now p key =
     (let p = expire_key now p key in (p, map_option it_value (map_of (p_valid p) key)))"

definition get_deleted :: "int \<Rightarrow> 'v partition \<Rightarrow> string \<Rightarrow> 'v partition \<times> 'v option" where
  "get_deleted now p key =
     (let p = expire_key now p key in (p, map_of (p_deleted p) key))"

definition get_flag :: "int \<Rightarrow> 'v partition \<Rightarrow> string \<Rightarrow> 'v partition \<times> int option" where
  "get_flag now p key =
     (let p = expire_key now p key in (p, map_option it_flag (map_of (p_valid p) key)))"

text \<open>The list comprehension \<^verbatim>\<open>[self.__expire_key(key) for key in valid_keys]\<close> over a copy of
  the valid keys; \<open>clk\<close> gives the clock at each key.\<close>

definition expire_all :: "(string \<Rightarrow> int) \<Rightarrow> 'v partition \<Rightarrow> 'v partition" where
  "expire_all clk p = foldl (\<lambda>p k. expire_key (clk k) p k) p (dict_keys (p_valid p))"

definition valid_key_set :: "(string \<Rightarrow> int) \<Rightarrow> 'v partition \<Rightarrow> 'v partition \<times> string list" where
  "valid_key_set clk p = (let p = expire_all clk p in (p, dict_keys (p_valid p)))"

definition deleted_key_set :: "(string \<Rightarrow> int) \<Rightarrow> 'v partition \<Rightarrow> 'v partition \<times> string list" where
  "deleted_key_set clk p = (let p = expire_all clk p in (p, dict_keys (p_deleted p)))"

definition expired_key_set :: "(string \<Rightarrow> int) \<Rightarrow> 'v partition \<Rightarrow> 'v partition \<times> string list" where
  "expired_key_set clk p = (let p = expire_all clk p in (p, p_expired_keys p))"

text \<open>\<^verbatim>\<open>random.choice\<close> raises \<open>IndexError\<close> on the empty list, which the two methods catch;
  \<open>r\<close> is the number it draws.\<close>

definition get_random_valid_key ::
    "(string \<Rightarrow> int) \<Rightarrow> nat \<Rightarrow> 'v partition \<Rightarrow> 'v partition \<times> string option" where
  "get_random_valid_key clk r p =
     (case valid_key_set clk p of (p, ks) \<Rightarrow>
        (p, if ks = [] then None else Some (ks ! (r mod length ks))))"

definition get_random_deleted_key :: "nat \<Rightarrow> 'v partition \<Rightarrow> string option" where
  "get_random_deleted_key r p =
     (let ks = dict_keys (p_deleted p)
      in if ks = [] then None else Some (ks ! (r mod length ks)))"

definition part_merge :: "'v partition \<Rightarrow> 'v partition \<Rightarrow> 'v partition" where
  "part_merge p q =
     (let p = p\<lparr>p_valid := dict_update_all (p_valid p) (p_valid q)\<rparr>;
          p = foldl (\<lambda>p k. p\<lparr>p_deleted := AList.delete k (p_deleted p)\<rparr>) p
                (filter (dict_has (p_deleted p)) (dict_keys (p_valid q)));
          p = foldl (\<lambda>p k. p\<lparr>p_expired_keys := remove1 k (p_expired_keys p)\<rparr>) p
                (filter (\<lambda>k. k \<in> set (p_expired_keys p)) (dict_keys (p_valid q)))
      in p\<lparr>p_timestamp := dict_update_all (p_timestamp p) (p_timestamp q)\<rparr>)"

definition has_valid_keys :: "'v partition \<Rightarrow> bool" where
  "has_valid_keys p \<longleftrightarrow> length (p_valid p) > 0"

definition has_deleted_keys :: "'v partition \<Rightarrow> bool" where
  "has_deleted_keys p \<longleftrightarrow> length (p_deleted p) > 0"

definition expired :: "int \<Rightarrow> 'v partition \<Rightarrow> string \<Rightarrow> ('v partition \<times> bool) res" where
  "expired now p key =
     (if \<not> dict_has (p_valid p) key \<and> \<not> dict_has (p_deleted p) key
      then Inl (Raised (''Key: '' @ key @ '' is not a valid key''))
      else let p = expire_key now p key in Inr (p, key \<in> set (p_expired_keys p)))"

definition part_len :: "(string \<Rightarrow> int) \<Rightarrow> 'v partition \<Rightarrow> 'v partition \<times> nat" where
  "part_len clk p = (let p = expire_all clk p in (p, length (dict_keys (p_valid p))))"


subsection \<open>The invariant of a partition\<close>

definition part_inv :: "'v partition \<Rightarrow> bool" where
  "part_inv p \<longleftrightarrow>
     dict_wf (p_valid p) \<and> dict_wf (p_deleted p) \<and> dict_wf (p_timestamp p) \<and>
     distinct (p_expired_keys p) \<and>
     (\<forall>k. dict_has (p_valid p) k \<longrightarrow> \<not> dict_has (p_deleted p) k) \<and>
     (\<forall>k \<in> set (p_expired_keys p). dict_has (p_deleted p) k) \<and>
     (\<forall>k. dict_has (p_valid p) k \<or> dict_has (p_deleted p) k \<longrightarrow> dict_has (p_timestamp p) k)"

named_theorems part_inv_intros \<open>the operations that keep the invariant of a partition\<close>

lemma part_inv_new [simp, part_inv_intros]: "part_inv (new_partition i)"
  by (simp add: part_inv_def new_partition_def dict_has_def)

lemma dict_has_Some: "map_of d k = Some v \<Longrightarrow> dict_has d k"
  by (simp add: dict_has_def)

lemma part_inv_set [part_inv_intros]: "part_inv p \<Longrightarrow> part_inv (part_set t1 t2 p k v e f)"
  by (auto simp: part_inv_def part_set_def Let_def)

lemma part_inv_delete [part_inv_intros]: "part_inv p \<Longrightarrow> part_inv (part_delete now p k)"
  by (auto simp: part_inv_def part_delete_def dict_has_Some split: option.splits)

lemma part_inv_expire_key [part_inv_intros]: "part_inv p \<Longrightarrow> part_inv (expire_key now p k)"
  by (auto simp: part_inv_def expire_key_def dict_has_Some split: option.splits)

lemma part_inv_expire_keys:
  "part_inv p \<Longrightarrow> part_inv (foldl (\<lambda>p k. expire_key (clk k) p k) p ks)"
  by (induction ks arbitrary: p) (auto intro: part_inv_expire_key)

lemma part_inv_expire_all [part_inv_intros]: "part_inv p \<Longrightarrow> part_inv (expire_all clk p)"
  by (simp add: expire_all_def part_inv_expire_keys)

lemma foldl_delete_fields [simp]:
  "p_deleted (foldl (\<lambda>p k. p\<lparr>p_deleted := AList.delete k (p_deleted p)\<rparr>) p ks)
     = foldl (\<lambda>d k. AList.delete k d) (p_deleted p) ks"
  "p_valid (foldl (\<lambda>p k. p\<lparr>p_deleted := AList.delete k (p_deleted p)\<rparr>) p ks) = p_valid p"
  "p_timestamp (foldl (\<lambda>p k. p\<lparr>p_deleted := AList.delete k (p_deleted p)\<rparr>) p ks) = p_timestamp p"
  "p_expired_keys (foldl (\<lambda>p k. p\<lparr>p_deleted := AList.delete k (p_deleted p)\<rparr>) p ks) = p_expired_keys p"
  "part_id (foldl (\<lambda>p k. p\<lparr>p_deleted := AList.delete k (p_deleted p)\<rparr>) p ks) = part_id p"
  by (induction ks arbitrary: p) auto

lemma foldl_unexpire_fields [simp]:
  "p_expired_keys (foldl (\<lambda>p k. p\<lparr>p_expired_keys := remove1 k (p_expired_keys p)\<rparr>) p ks)
     = foldl (\<lambda>es k. remove1 k es) (p_expired_keys p) ks"
  "p_valid (foldl (\<lambda>p k. p\<lparr>p_expired_keys := remove1 k (p_expired_keys p)\<rparr>) p ks) = p_valid p"
  "p_timestamp (foldl (\<lambda>p k. p\<lparr>p_expired_keys := remove1 k (p_expired_keys p)\<rparr>) p ks) = p_timestamp p"
  "p_deleted (foldl (\<lambda>p k. p\<lparr>p_expired_keys := remove1 k (p_expired_keys p)\<rparr>) p ks) = p_deleted p"
  "part_id (foldl (\<lambda>p k. p\<lparr>p_expired_keys := remove1 k (p_expired_keys p)\<rparr>) p ks) = part_id p"
  by (induction ks arbitrary: p) auto

lemma map_of_foldl_delete:
  "map_of (foldl (\<lambda>d k. AList.delete k d) d ks) = map_of d |` (- set ks)"
  by (induction ks arbitrary: d) (auto simp: restrict_map_def fun_eq_iff)

lemma dict_wf_foldl_delete: "dict_wf d \<Longrightarrow> dict_wf (foldl (\<lambda>d k. AList.delete k d) d ks)"
  by (induction ks arbitrary: d) auto

lemma foldl_remove1_set:
  "distinct es \<Longrightarrow> distinct (foldl (\<lambda>es k. remove1 k es) es ks)
     \<and> set (foldl (\<lambda>es k. remove1 k es) es ks) = set es - set ks"
  by (induction ks arbitrary: es) (auto simp: set_remove1_eq)

lemma part_merge_fields:
  "p_valid (part_merge p q) = dict_update_all (p_valid p) (p_valid q)"
  "map_of (p_deleted (part_merge p q))
     = map_of (p_deleted p) |` (- set (dict_keys (p_valid q)))"
  "p_timestamp (part_merge p q) = dict_update_all (p_timestamp p) (p_timestamp q)"
  "part_id (part_merge p q) = part_id p"
  by (auto simp: part_merge_def Let_def map_of_foldl_delete restrict_map_def fun_eq_iff
      dict_has_def)

lemma part_merge_expired:
  "distinct (p_expired_keys p) \<Longrightarrow>
     distinct (p_expired_keys (part_merge p q)) \<and>
     set (p_expired_keys (part_merge p q))
       = {k \<in> set (p_expired_keys p). \<not> dict_has (p_valid q) k}"
  using foldl_remove1_set [of "p_expired_keys p"]
  by (auto simp: part_merge_def Let_def dict_has_iff_keys)

lemma dict_has_update_all:
  "dict_wf e \<Longrightarrow> dict_has (dict_update_all d e) k \<longleftrightarrow> dict_has d k \<or> dict_has e k"
  by (auto simp: dict_has_def map_of_dict_update_all map_add_def split: option.splits)

lemma dict_has_restrict:
  "map_of d' = map_of d |` (- set ks) \<Longrightarrow> dict_has d' k \<longleftrightarrow> dict_has d k \<and> k \<notin> set ks"
  by (auto simp: dict_has_def restrict_map_def)

lemma part_inv_merge [part_inv_intros]:
  assumes "part_inv p" and "part_inv q"
  shows "part_inv (part_merge p q)"
proof -
  have wf: "dict_wf (p_valid q)" "dict_wf (p_timestamp q)" "distinct (p_expired_keys p)"
    using assms by (auto simp: part_inv_def)
  have del: "dict_has (p_deleted (part_merge p q)) k \<longleftrightarrow>
      dict_has (p_deleted p) k \<and> \<not> dict_has (p_valid q) k" for k
    using dict_has_restrict [OF part_merge_fields(2)] by (simp add: dict_has_iff_keys)
  have "dict_wf (p_deleted (part_merge p q))"
    using assms by (auto simp: part_merge_def Let_def part_inv_def intro: dict_wf_foldl_delete)
  moreover note part_merge_expired [OF wf(3), of q]
  ultimately show ?thesis
    using assms wf
    by (auto simp: part_inv_def del part_merge_fields(1,3) dict_has_update_all)
qed


subsection \<open>What a partition promises: the status of each key\<close>

datatype 'v kv_status = Absent | Live 'v | Gone 'v

fun kill :: "'v kv_status \<Rightarrow> 'v kv_status" where
  "kill (Live v) = Gone v"
| "kill s = s"

definition part_view :: "'v partition \<Rightarrow> string \<Rightarrow> 'v kv_status" where
  "part_view p k =
     (case map_of (p_valid p) k of
        Some it \<Rightarrow> Live (it_value it)
      | None \<Rightarrow> (case map_of (p_deleted p) k of Some v \<Rightarrow> Gone v | None \<Rightarrow> Absent))"

definition part_due :: "int \<Rightarrow> 'v partition \<Rightarrow> string \<Rightarrow> bool" where
  "part_due now p k \<longleftrightarrow>
     (case map_of (p_valid p) k of
        None \<Rightarrow> False
      | Some it \<Rightarrow> it_expires it \<noteq> 0 \<and> it_expires it < now)"

named_theorems part_view_simps \<open>the status of the keys after an operation\<close>

lemma part_view_new [simp, part_view_simps]: "part_view (new_partition i) = (\<lambda>_. Absent)"
  by (simp add: part_view_def new_partition_def fun_eq_iff)

lemma part_set_fields:
  "p_valid (part_set t1 t2 p k v e f) =
     AList.update k \<lparr>it_value = v, it_expires = (if e \<noteq> 0 then t1 + e else e), it_flag = f\<rparr> (p_valid p)"
  "map_of (p_deleted (part_set t1 t2 p k v e f)) = (map_of (p_deleted p))(k := None)"
  by (auto simp: part_set_def Let_def dict_has_def)

lemma part_view_set [simp, part_view_simps]:
  "part_view (part_set t1 t2 p k v e f) = (part_view p)(k := Live v)"
  by (auto simp: part_view_def part_set_fields fun_eq_iff split: option.splits)

lemma part_view_delete [simp, part_view_simps]:
  "part_view (part_delete now p k) = (part_view p)(k := kill (part_view p k))"
  by (auto simp: part_view_def part_delete_def fun_eq_iff split: option.splits)

lemma part_view_expire [simp, part_view_simps]:
  "part_view (expire_key now p k) =
     (if part_due now p k then (part_view p)(k := kill (part_view p k)) else part_view p)"
  by (auto simp: part_view_def expire_key_def part_due_def fun_eq_iff split: option.splits)

lemma part_due_expire_other:
  "k' \<noteq> k \<Longrightarrow> part_due n' (expire_key n p k) k' = part_due n' p k'"
  by (auto simp: part_due_def expire_key_def split: option.splits)

lemma part_view_expire_keys:
  "distinct ks \<Longrightarrow> part_view (foldl (\<lambda>p k. expire_key (clk k) p k) p ks)
     = (\<lambda>k. if k \<in> set ks \<and> part_due (clk k) p k then kill (part_view p k) else part_view p k)"
proof (induction ks arbitrary: p)
  case (Cons a ks)
  have "(if k \<in> set ks \<and> part_due (clk k) (expire_key (clk a) p a) k
           then kill (part_view (expire_key (clk a) p a) k)
           else part_view (expire_key (clk a) p a) k)
      = (if k \<in> set (a # ks) \<and> part_due (clk k) p k then kill (part_view p k) else part_view p k)" for k
    using Cons.prems by (cases "k = a") (auto simp: part_due_expire_other)
  with Cons show ?case by (simp add: fun_eq_iff)
qed simp

lemma part_due_has: "part_due now p k \<Longrightarrow> dict_has (p_valid p) k"
  by (auto simp: part_due_def dict_has_def split: option.splits)

lemma part_view_expire_all [part_view_simps]:
  "part_inv p \<Longrightarrow> part_view (expire_all clk p)
     = (\<lambda>k. if part_due (clk k) p k then kill (part_view p k) else part_view p k)"
  using part_view_expire_keys [of "dict_keys (p_valid p)" clk p]
  by (auto simp: expire_all_def part_inv_def dict_wf_def fun_eq_iff dict_has_iff_keys
      dest: part_due_has)

lemma part_merge_deleted:
  "map_of (p_deleted (part_merge p q)) k
     = (if dict_has (p_valid q) k then None else map_of (p_deleted p) k)"
  by (simp add: part_merge_fields(2) restrict_map_def dict_has_iff_keys)

lemma part_view_merge [part_view_simps]:
  "part_inv q \<Longrightarrow> part_view (part_merge p q) =
     (\<lambda>k. case part_view q k of Live v \<Rightarrow> Live v | _ \<Rightarrow> part_view p k)"
  by (auto simp: part_view_def part_merge_fields(1) part_merge_deleted part_inv_def
      map_of_dict_update_all map_add_def fun_eq_iff dict_has_def split: option.splits)

lemma part_view_Live: "part_view p k = Live v \<longleftrightarrow> (\<exists>it. map_of (p_valid p) k = Some it \<and> it_value it = v)"
  by (auto simp: part_view_def split: option.splits)

lemma part_view_is_Live: "dict_has (p_valid p) k \<longleftrightarrow> (\<exists>v. part_view p k = Live v)"
  by (auto simp: part_view_Live dict_has_def)

lemma part_view_is_Gone:
  "part_inv p \<Longrightarrow> dict_has (p_deleted p) k \<longleftrightarrow> (\<exists>v. part_view p k = Gone v)"
  by (auto simp: part_view_def part_inv_def dict_has_def split: option.splits)


section \<open>KVStore\<close>

record 'v slot =
  s_lock :: bool
  s_partition :: "'v partition"

record 'v kvstore =
  num_locks :: nat
  kv_cache :: "'v slot list"
  acquire_lock :: bool

text \<open>\<open>None\<close>: the call waits for a lock that is held.\<close>

type_synonym 'a blocking = "'a res option"

definition bbind :: "'a blocking \<Rightarrow> ('a \<Rightarrow> 'b blocking) \<Rightarrow> 'b blocking" where
  "bbind m f = (case m of None \<Rightarrow> None | Some (Inl e) \<Rightarrow> Some (Inl e) | Some (Inr x) \<Rightarrow> f x)"

lemma bbind_simps [simp]:
  "bbind None f = None" "bbind (Some (Inl e)) f = Some (Inl e)" "bbind (Some (Inr x)) f = f x"
  by (simp_all add: bbind_def)

definition kv_reset :: "'v kvstore \<Rightarrow> 'v kvstore" where
  "kv_reset st = st\<lparr>kv_cache := map (\<lambda>i. \<lparr>s_lock = False, s_partition = new_partition i\<rparr>) [0..<num_locks st]\<rparr>"

definition kv_init :: "nat \<Rightarrow> 'v kvstore" where
  "kv_init n = (kv_reset \<lparr>num_locks = n, kv_cache = [], acquire_lock = False\<rparr>)\<lparr>acquire_lock := False\<rparr>"

definition hash_key :: "'v kvstore \<Rightarrow> string \<Rightarrow> nat res" where
  "hash_key st key =
     (if num_locks st = 0 then Inl ZeroDivisionError
      else Inr (nat (zlib_crc32 key mod int (num_locks st))))"

definition lock_at :: "'v kvstore \<Rightarrow> nat \<Rightarrow> 'v kvstore blocking" where
  "lock_at st i =
     (if i < length (kv_cache st)
      then (if s_lock (kv_cache st ! i) then None
            else Some (Inr (st\<lparr>kv_cache := (kv_cache st)[i := (kv_cache st ! i)\<lparr>s_lock := True\<rparr>]\<rparr>)))
      else Some (Inl KeyError))"

definition unlock_at :: "'v kvstore \<Rightarrow> nat \<Rightarrow> 'v kvstore res" where
  "unlock_at st i =
     (if i < length (kv_cache st)
      then (if s_lock (kv_cache st ! i)
            then Inr (st\<lparr>kv_cache := (kv_cache st)[i := (kv_cache st ! i)\<lparr>s_lock := False\<rparr>]\<rparr>)
            else Inl (Raised ''release unlocked lock''))
      else Inl KeyError)"

definition update_partition :: "'v kvstore \<Rightarrow> nat \<Rightarrow> ('v partition \<Rightarrow> 'v partition) \<Rightarrow> 'v kvstore" where
  "update_partition st i f =
     st\<lparr>kv_cache := (kv_cache st)[i := (kv_cache st ! i)\<lparr>s_partition := f (s_partition (kv_cache st ! i))\<rparr>]\<rparr>"

text \<open>A partition object is named by its index in the cache.\<close>

definition acquire_partition :: "'v kvstore \<Rightarrow> string \<Rightarrow> ('v kvstore \<times> nat) blocking" where
  "acquire_partition st key =
     bbind (Some (hash_key st key)) (\<lambda>i. bbind (lock_at st i) (\<lambda>st. Some (Inr (st, i))))"

fun acquire_loop ::
    "'v kvstore \<Rightarrow> (nat, string list) dict \<Rightarrow> string list
       \<Rightarrow> ('v kvstore \<times> (nat, string list) dict) blocking" where
  "acquire_loop st objs [] = Some (Inr (st, objs))"
| "acquire_loop st objs (key # keys) =
     bbind (Some (hash_key st key)) (\<lambda>i.
       if dict_has objs i
       then acquire_loop st (AList.update i (dict_get objs i [] @ [key]) objs) keys
       else bbind (lock_at st i) (\<lambda>st. acquire_loop st (AList.update i [key] objs) keys))"

definition acquire_partitions ::
    "'v kvstore \<Rightarrow> string list \<Rightarrow> ('v kvstore \<times> (nat, string list) dict) blocking" where
  "acquire_partitions st keys =
     (if acquire_lock st then None
      else bbind (acquire_loop (st\<lparr>acquire_lock := True\<rparr>) [] keys)
             (\<lambda>(st, objs). Some (Inr (st\<lparr>acquire_lock := False\<rparr>, objs))))"

definition release_partitions :: "'v kvstore \<Rightarrow> nat list \<Rightarrow> 'v kvstore res" where
  "release_partitions st ids = rfold unlock_at st ids"

datatype part_key = StrKey string | IntKey int | OtherKey

definition release_partition :: "'v kvstore \<Rightarrow> part_key \<Rightarrow> 'v kvstore res" where
  "release_partition st key =
     (case key of
        StrKey k \<Rightarrow> rbind (hash_key st k) (unlock_at st)
      | IntKey i \<Rightarrow> if i < 0 then Inl KeyError else unlock_at st (nat i)
      | OtherKey \<Rightarrow> Inl (Raised ''Bad key''))"

fun random_loop :: "'v kvstore \<Rightarrow> nat \<Rightarrow> bool \<Rightarrow> nat list \<Rightarrow> ('v kvstore \<times> nat option) blocking" where
  "random_loop st seed has_valid [] = Some (Inr (st, None))"
| "random_loop st seed has_valid (itr # itrs) =
     (let part_num = (seed + itr) mod num_locks st in
      bbind (lock_at st part_num) (\<lambda>st.
        if has_valid \<and> has_valid_keys (s_partition (kv_cache st ! part_num))
           \<or> \<not> has_valid \<and> has_deleted_keys (s_partition (kv_cache st ! part_num))
        then Some (Inr (st, Some part_num))
        else bbind (Some (unlock_at st part_num)) (\<lambda>st. random_loop st seed has_valid itrs)))"

text \<open>\<open>seed\<close> is what \<^verbatim>\<open>random.choice(range(num_locks))\<close> returns; on an empty range it raises.\<close>

definition acquire_random_partition ::
    "'v kvstore \<Rightarrow> nat \<Rightarrow> bool \<Rightarrow> ('v kvstore \<times> nat option) blocking" where
  "acquire_random_partition st seed has_valid =
     (if num_locks st = 0 then Some (Inl IndexError)
      else random_loop st seed has_valid [0..<num_locks st])"

fun key_set_loop ::
    "(nat \<Rightarrow> string \<Rightarrow> int) \<Rightarrow> (nat \<Rightarrow> string \<Rightarrow> int) \<Rightarrow> 'v kvstore \<Rightarrow> string list \<Rightarrow> string list
       \<Rightarrow> nat list \<Rightarrow> ('v kvstore \<times> string list \<times> string list) blocking" where
  "key_set_loop clk1 clk2 st vs ds [] = Some (Inr (st, vs, ds))"
| "key_set_loop clk1 clk2 st vs ds (i # is) =
     bbind (lock_at st i) (\<lambda>st.
       case valid_key_set (clk1 i) (s_partition (kv_cache st ! i)) of (p, vks) \<Rightarrow>
       case deleted_key_set (clk2 i) p of (p, dks) \<Rightarrow>
       bbind (Some (unlock_at (update_partition st i (\<lambda>_. p)) i)) (\<lambda>st.
         key_set_loop clk1 clk2 st (vs @ vks) (ds @ dks) is))"

definition key_set ::
    "(nat \<Rightarrow> string \<Rightarrow> int) \<Rightarrow> (nat \<Rightarrow> string \<Rightarrow> int) \<Rightarrow> 'v kvstore
       \<Rightarrow> ('v kvstore \<times> string list \<times> string list) blocking" where
  "key_set clk1 clk2 st = key_set_loop clk1 clk2 st [] [] [0..<num_locks st]"

definition get_partitions :: "'v kvstore \<Rightarrow> (nat \<times> 'v partition) list res" where
  "get_partitions st =
     rmap (\<lambda>i. if i < length (kv_cache st) then Inr (i, s_partition (kv_cache st ! i))
               else Inl KeyError) [0..<num_locks st]"

fun merge_loop :: "'v kvstore \<Rightarrow> (nat \<times> 'v partition) list \<Rightarrow> nat list \<Rightarrow> 'v kvstore blocking" where
  "merge_loop st ps [] = Some (Inr st)"
| "merge_loop st ps (i # is) =
     bbind (lock_at st i) (\<lambda>st.
       if i < length ps
       then bbind (Some (unlock_at (update_partition st i (\<lambda>p. part_merge p (snd (ps ! i)))) i))
              (\<lambda>st. merge_loop st ps is)
       else Some (Inl IndexError))"

definition merge_partitions :: "'v kvstore \<Rightarrow> (nat \<times> 'v partition) list \<Rightarrow> 'v kvstore blocking" where
  "merge_partitions st ps = merge_loop st ps [0..<num_locks st]"

definition kv_len :: "(nat \<Rightarrow> string \<Rightarrow> int) \<Rightarrow> 'v kvstore \<Rightarrow> 'v kvstore \<times> nat" where
  "kv_len clk st =
     foldl (\<lambda>(st, n) i. case part_len (clk i) (s_partition (kv_cache st ! i)) of (p, m) \<Rightarrow>
                          (update_partition st i (\<lambda>_. p), n + m))
       (st, 0) [0..<num_locks st]"


subsection \<open>The contract of a store of key states\<close>

text \<open>
  The tests drive a store by writes and deletes of keys. Whatever keeps such a store owes them
  two laws on the status of the keys; the status after a whole run of operations follows.
\<close>

datatype 'v kv_op = Put string 'v | Del string

fun op_status :: "string \<Rightarrow> 'v kv_status \<Rightarrow> 'v kv_op \<Rightarrow> 'v kv_status" where
  "op_status k s (Put k' v) = (if k' = k then Live v else s)"
| "op_status k s (Del k') = (if k' = k then kill s else s)"

locale status_store =
  fixes inv :: "'s \<Rightarrow> bool"
    and view :: "'s \<Rightarrow> string \<Rightarrow> 'v kv_status"
    and put :: "'s \<Rightarrow> string \<Rightarrow> 'v \<Rightarrow> 's"
    and del :: "'s \<Rightarrow> string \<Rightarrow> 's"
  assumes inv_put: "inv s \<Longrightarrow> inv (put s k v)"
    and inv_del: "inv s \<Longrightarrow> inv (del s k)"
    and view_put: "inv s \<Longrightarrow> view (put s k v) = (view s)(k := Live v)"
    and view_del: "inv s \<Longrightarrow> view (del s k) = (view s)(k := kill (view s k))"
begin

definition apply_op :: "'s \<Rightarrow> 'v kv_op \<Rightarrow> 's" where
  "apply_op s c = (case c of Put k v \<Rightarrow> put s k v | Del k \<Rightarrow> del s k)"

lemma inv_apply: "inv s \<Longrightarrow> inv (apply_op s c)"
  by (simp add: apply_op_def inv_put inv_del split: kv_op.split)

lemma view_apply: "inv s \<Longrightarrow> view (apply_op s c) k = op_status k (view s k) c"
  by (simp add: apply_op_def view_put view_del split: kv_op.split)

lemma run_refines:
  "inv s \<Longrightarrow> inv (foldl apply_op s cs) \<and>
     view (foldl apply_op s cs) k = foldl (op_status k) (view s k) cs"
  by (induction cs arbitrary: s) (simp_all add: inv_apply view_apply)

end

interpretation ps: status_store part_inv part_view
  "\<lambda>p k v. part_set t1 t2 p k v e f" "\<lambda>p k. part_delete now p k"
  for t1 t2 e f now
  by unfold_locales (auto intro: part_inv_set part_inv_delete)


subsection \<open>The invariant of the store\<close>

definition home :: "'v kvstore \<Rightarrow> string \<Rightarrow> nat" where
  "home st key = nat (zlib_crc32 key mod int (num_locks st))"

definition slot_inv :: "'v kvstore \<Rightarrow> nat \<Rightarrow> 'v partition \<Rightarrow> bool" where
  "slot_inv st i p \<longleftrightarrow> part_inv p \<and> part_id p = i \<and>
     (\<forall>k. part_view p k \<noteq> Absent \<longrightarrow> home st k = i)"

definition kv_inv :: "'v kvstore \<Rightarrow> bool" where
  "kv_inv st \<longleftrightarrow> 0 < num_locks st \<and> length (kv_cache st) = num_locks st \<and>
     (\<forall>i < num_locks st. slot_inv st i (s_partition (kv_cache st ! i)))"

definition locks_free :: "'v kvstore \<Rightarrow> bool" where
  "locks_free st \<longleftrightarrow> (\<forall>s \<in> set (kv_cache st). \<not> s_lock s)"

definition store_view :: "'v kvstore \<Rightarrow> string \<Rightarrow> 'v kv_status" where
  "store_view st k = part_view (s_partition (kv_cache st ! home st k)) k"

lemma home_less: "0 < num_locks st \<Longrightarrow> home st k < num_locks st"
  by (simp add: home_def nat_less_iff)

lemma hash_key_home [simp]: "0 < num_locks st \<Longrightarrow> hash_key st k = Inr (home st k)"
  by (simp add: hash_key_def home_def)

lemma kv_inv_init: "0 < n \<Longrightarrow> kv_inv (kv_init n :: 'v kvstore) \<and> locks_free (kv_init n :: 'v kvstore)"
  by (auto simp: kv_inv_def kv_init_def kv_reset_def slot_inv_def locks_free_def)
     (simp add: new_partition_def)

lemma update_partition_fields [simp]:
  "num_locks (update_partition st i f) = num_locks st"
  "length (kv_cache (update_partition st i f)) = length (kv_cache st)"
  "home (update_partition st i f) = home st"
  "map s_lock (kv_cache (update_partition st i f)) = map s_lock (kv_cache st)"
     apply (simp_all add: update_partition_def home_def fun_eq_iff)
  by (cases "i < length (kv_cache st)")
     (simp_all add: map_update list_update_beyond list_update_same_conv)

lemma update_partition_nth:
  "j < length (kv_cache st) \<Longrightarrow>
     s_partition (kv_cache (update_partition st i f) ! j)
       = (if j = i then f (s_partition (kv_cache st ! i)) else s_partition (kv_cache st ! j))"
  by (simp add: update_partition_def nth_list_update)

lemma slot_inv_cong: "num_locks st' = num_locks st \<Longrightarrow> slot_inv st' i p = slot_inv st i p"
  by (simp add: slot_inv_def home_def)

lemma kv_inv_update:
  assumes "kv_inv st" and "i < num_locks st"
    and "slot_inv st i (f (s_partition (kv_cache st ! i)))"
  shows "kv_inv (update_partition st i f)"
  using assms slot_inv_cong [of "update_partition st i f" st]
  by (simp add: kv_inv_def update_partition_nth)

definition store_put :: "int \<Rightarrow> int \<Rightarrow> int \<Rightarrow> int \<Rightarrow> 'v kvstore \<Rightarrow> string \<Rightarrow> 'v \<Rightarrow> 'v kvstore" where
  "store_put t1 t2 e f st k v = update_partition st (home st k) (\<lambda>p. part_set t1 t2 p k v e f)"

definition store_del :: "int \<Rightarrow> 'v kvstore \<Rightarrow> string \<Rightarrow> 'v kvstore" where
  "store_del now st k = update_partition st (home st k) (\<lambda>p. part_delete now p k)"

definition store_apply ::
    "int \<Rightarrow> int \<Rightarrow> int \<Rightarrow> int \<Rightarrow> int \<Rightarrow> 'v kvstore \<Rightarrow> 'v kv_op \<Rightarrow> 'v kvstore" where
  "store_apply t1 t2 e f now st c =
     (case c of Put k v \<Rightarrow> store_put t1 t2 e f st k v | Del k \<Rightarrow> store_del now st k)"

lemma part_id_set [simp]: "part_id (part_set t1 t2 p k v e f) = part_id p"
  by (simp add: part_set_def Let_def)

lemma part_id_delete [simp]: "part_id (part_delete now p k) = part_id p"
  by (cases "map_of (p_valid p) k") (simp_all add: part_delete_def)

lemma part_id_expire [simp]: "part_id (expire_key now p k) = part_id p"
  by (cases "map_of (p_valid p) k") (simp_all add: expire_key_def)

lemma kill_Absent [simp]: "kill s = Absent \<longleftrightarrow> s = Absent"
  by (cases s) auto

lemma slot_inv_put: "slot_inv st (home st k) p \<Longrightarrow> slot_inv st (home st k) (part_set t1 t2 p k v e f)"
  unfolding slot_inv_def by (metis fun_upd_apply part_inv_set part_id_set part_view_set)

lemma slot_inv_del: "slot_inv st (home st k) p \<Longrightarrow> slot_inv st (home st k) (part_delete now p k)"
  unfolding slot_inv_def
  by (metis fun_upd_apply kill_Absent part_inv_delete part_id_delete part_view_delete)

lemma store_view_update:
  assumes "kv_inv st" and "\<And>p. part_view (f p) = (part_view p)(k := g (part_view p k))"
  shows "store_view (update_partition st (home st k) f) = (store_view st)(k := g (store_view st k))"
  using assms home_less [of st]
  by (auto simp: store_view_def kv_inv_def update_partition_nth fun_eq_iff)

interpretation ss: status_store kv_inv store_view "store_put t1 t2 e f" "store_del now"
  for t1 t2 e f now
proof unfold_locales
  fix st :: "'v kvstore" and k v
  assume inv: "kv_inv st"
  then have slot: "home st k < num_locks st" "slot_inv st (home st k) (s_partition (kv_cache st ! home st k))"
    by (simp_all add: kv_inv_def home_less)
  with inv show "kv_inv (store_put t1 t2 e f st k v)" "kv_inv (store_del now st k)"
    by (auto simp: store_put_def store_del_def intro!: kv_inv_update slot_inv_put slot_inv_del)
  show "store_view (store_put t1 t2 e f st k v) = (store_view st)(k := Live v)"
    using store_view_update [OF inv, of "\<lambda>p. part_set t1 t2 p k v e f" k "\<lambda>_. Live v"]
    by (simp add: store_put_def)
  show "store_view (store_del now st k) = (store_view st)(k := kill (store_view st k))"
    using store_view_update [OF inv, of "\<lambda>p. part_delete now p k" k kill]
    by (simp add: store_del_def)
qed


subsection \<open>Acquire, change, release\<close>

text \<open>How the tests use the store: \<^verbatim>\<open>p = kv.acquire_partition(k)\<close>, a change of \<open>p\<close>,
  \<^verbatim>\<open>kv.release_partition(k)\<close>.\<close>

definition with_partition ::
    "'v kvstore \<Rightarrow> string \<Rightarrow> ('v partition \<Rightarrow> 'v partition) \<Rightarrow> 'v kvstore blocking" where
  "with_partition st key f =
     bbind (acquire_partition st key) (\<lambda>(st, i).
       Some (release_partition (update_partition st i f) (StrKey key)))"

lemma relock: "\<not> s_lock c \<Longrightarrow> c\<lparr>s_partition := p, s_lock := False\<rparr> = c\<lparr>s_partition := p\<rparr>"
  by (cases c) simp

lemma lock_update_unlock:
  assumes "i < length (kv_cache st)" and "\<not> s_lock (kv_cache st ! i)"
  shows "bbind (lock_at st i) (\<lambda>st. Some (unlock_at (update_partition st i f) i))
           = Some (Inr (update_partition st i f))"
  using assms
  by (simp add: lock_at_def unlock_at_def update_partition_def relock)

lemma with_partition_free:
  assumes "kv_inv st" and "\<not> s_lock (kv_cache st ! home st k)"
  shows "with_partition st k f = Some (Inr (update_partition st (home st k) f))"
proof -
  have n: "0 < num_locks st" and i: "home st k < length (kv_cache st)"
    using assms(1) home_less [of st k] by (auto simp: kv_inv_def)
  have same: "lock_at st (home st k) = Some (Inr st') \<Longrightarrow>
      hash_key (update_partition st' (home st k) f) k = Inr (home st k)" for st'
    using n i by (auto simp: lock_at_def hash_key_def home_def update_partition_def split: if_splits)
  have "with_partition st k f
      = bbind (lock_at st (home st k)) (\<lambda>st'. Some (unlock_at (update_partition st' (home st k) f) (home st k)))"
    using n same by (auto simp: with_partition_def acquire_partition_def release_partition_def bbind_def
        split: option.splits sum.splits)
  then show ?thesis using lock_update_unlock [OF i assms(2)] by simp
qed

text \<open>C1. A write through the lock of its partition: when the store satisfies its invariant and
  the lock of the key's partition is free, acquiring the partition, setting the key and releasing
  the partition returns (it neither waits nor raises), keeps the invariant and every lock, makes
  the key live with the written value, and changes the status of no other key.\<close>

theorem store_write_through:
  assumes "kv_inv st" and "\<not> s_lock (kv_cache st ! home st k)"
  shows "\<exists>st'. with_partition st k (\<lambda>p. part_set t1 t2 p k v e f) = Some (Inr st') \<and>
           kv_inv st' \<and> map s_lock (kv_cache st') = map s_lock (kv_cache st) \<and>
           store_view st' = (store_view st)(k := Live v)"
  using with_partition_free [OF assms, of "\<lambda>p. part_set t1 t2 p k v e f"]
    ss.inv_put [OF assms(1), of t1 t2 e f k v] ss.view_put [OF assms(1), of t1 t2 e f k v]
  by (auto simp: store_put_def)

lemma init_lock_free:
  assumes "0 < n"
  shows "\<not> s_lock (kv_cache (kv_init n :: 'v kvstore) ! home (kv_init n :: 'v kvstore) k)"
proof -
  have "home (kv_init n :: 'v kvstore) k < n"
    using assms home_less [of "kv_init n :: 'v kvstore" k] by (simp add: kv_init_def kv_reset_def)
  then show ?thesis by (simp add: kv_init_def kv_reset_def)
qed

theorem store_write_through_witness:
  "kv_inv (kv_init 16 :: int kvstore) \<and>
   (\<exists>st'. with_partition (kv_init 16) ''k1'' (\<lambda>p. part_set 5 6 p ''k1'' (7::int) 0 0) = Some (Inr st') \<and>
      kv_inv st' \<and> map s_lock (kv_cache st') = map s_lock (kv_cache (kv_init 16 :: int kvstore)) \<and>
      store_view st' = (store_view (kv_init 16))(''k1'' := Live 7))"
proof -
  have inv: "kv_inv (kv_init 16 :: int kvstore)" by (rule kv_inv_init [THEN conjunct1]) simp
  show ?thesis using inv store_write_through [OF inv init_lock_free, of "''k1''" 5 6 7 0 0] by simp
qed

text \<open>C2. A run of writes and deletes refines the abstract store: after any sequence of them,
  starting from any state that satisfies the invariant, the invariant holds and the status of
  every key is what the sequence says of that key alone: the last write wins, a delete moves a
  live value to the deleted ones, and operations on other keys have no effect on it.\<close>

theorem store_run_refines:
  assumes "kv_inv st"
  shows "kv_inv (foldl (store_apply t1 t2 e f now) st cs) \<and>
         store_view (foldl (store_apply t1 t2 e f now) st cs) k
           = foldl (op_status k) (store_view st k) cs"
  using ss.run_refines [OF assms, of t1 t2 e f now cs k]
  by (simp add: store_apply_def [abs_def] ss.apply_op_def [abs_def])

theorem store_run_refines_witness:
  "kv_inv (kv_init 4 :: int kvstore) \<and>
   store_view (foldl (store_apply 0 0 0 0 0) (kv_init 4) [Put ''a'' (1::int), Put ''b'' 2, Del ''a'']) ''a'' = Gone 1"
proof -
  have inv: "kv_inv (kv_init 4 :: int kvstore)" by (rule kv_inv_init [THEN conjunct1]) simp
  have "store_view (kv_init 4 :: int kvstore) ''a'' = Absent"
    using inv home_less [of "kv_init 4 :: int kvstore" "''a''"]
    by (simp add: store_view_def kv_init_def kv_reset_def kv_inv_def)
  then show ?thesis
    using inv store_run_refines [OF inv, of 0 0 0 0 0 "[Put ''a'' (1::int), Put ''b'' 2, Del ''a'']" "''a''"]
    by simp
qed


subsection \<open>Sweeping all partitions\<close>

lemma part_due_expire_same: "\<not> part_due n (expire_key n p k) k"
  by (auto simp: part_due_def expire_key_def split: option.splits)

lemma not_due_expire_keys:
  "k \<in> set ks \<or> \<not> part_due (clk k) p k \<Longrightarrow>
     \<not> part_due (clk k) (foldl (\<lambda>p k. expire_key (clk k) p k) p ks) k"
proof (induction ks arbitrary: p)
  case (Cons a ks)
  then show ?case
    by (cases "a = k") (auto simp: part_due_expire_same part_due_expire_other)
qed simp

lemma not_due_expire_all: "\<not> part_due (clk k) (expire_all clk p) k"
  unfolding expire_all_def
  by (rule not_due_expire_keys) (auto dest!: part_due_has simp: dict_has_iff_keys)

lemma expire_key_not_due: "\<not> part_due n p k \<Longrightarrow> expire_key n p k = p"
  by (auto simp: part_due_def expire_key_def split: option.splits)

lemma expire_all_not_due: "(\<And>k. \<not> part_due (clk k) p k) \<Longrightarrow> expire_all clk p = p"
proof -
  assume nd: "\<And>k. \<not> part_due (clk k) p k"
  have "foldl (\<lambda>p k. expire_key (clk k) p k) p ks = p" for ks
    by (induction ks) (simp_all add: expire_key_not_due nd)
  then show ?thesis by (simp add: expire_all_def)
qed

lemma expire_all_idem [simp]: "expire_all clk (expire_all clk p) = expire_all clk p"
  by (rule expire_all_not_due) (rule not_due_expire_all)

lemma part_id_expire_all [simp]: "part_id (expire_all clk p) = part_id p"
proof -
  have "part_id (foldl (\<lambda>p k. expire_key (clk k) p k) p ks) = part_id p" for ks
    by (induction ks arbitrary: p) simp_all
  then show ?thesis by (simp add: expire_all_def)
qed

lemma slot_inv_expire_all:
  assumes "slot_inv st i p"
  shows "slot_inv st i (expire_all clk p)"
proof -
  have inv: "part_inv p" and home: "\<And>k. part_view p k \<noteq> Absent \<Longrightarrow> home st k = i"
    using assms by (auto simp: slot_inv_def)
  have "part_view (expire_all clk p) k = Absent \<longleftrightarrow> part_view p k = Absent" for k
    by (simp add: part_view_expire_all [OF inv])
  with inv home assms show ?thesis
    unfolding slot_inv_def by (metis part_id_expire_all part_inv_expire_all)
qed

definition sweep :: "(nat \<Rightarrow> string \<Rightarrow> int) \<Rightarrow> 'v kvstore \<Rightarrow> nat \<Rightarrow> 'v kvstore" where
  "sweep clk st i = update_partition st i (expire_all (clk i))"

lemma locks_free_map: "locks_free st \<longleftrightarrow> (\<forall>b \<in> set (map s_lock (kv_cache st)). \<not> b)"
  by (simp add: locks_free_def)

lemma sweep_fields [simp]:
  "num_locks (sweep clk st i) = num_locks st"
  "length (kv_cache (sweep clk st i)) = length (kv_cache st)"
  "locks_free (sweep clk st i) = locks_free st"
  "home (sweep clk st i) = home st"
  by (simp_all only: locks_free_map sweep_def update_partition_fields)

lemma sweep_inv: "kv_inv st \<Longrightarrow> i < num_locks st \<Longrightarrow> kv_inv (sweep clk st i)"
  unfolding sweep_def
  by (rule kv_inv_update) (auto simp: kv_inv_def intro: slot_inv_expire_all)

lemma sweep_nth:
  "j < length (kv_cache st) \<Longrightarrow> s_partition (kv_cache (sweep clk st i) ! j) =
     (if j = i then expire_all (clk i) (s_partition (kv_cache st ! i)) else s_partition (kv_cache st ! j))"
  by (simp add: sweep_def update_partition_nth)

lemma sweep_all_nth:
  "\<lbrakk>distinct is; j < length (kv_cache st)\<rbrakk> \<Longrightarrow>
     s_partition (kv_cache (foldl (sweep clk) st is) ! j) =
       (if j \<in> set is then expire_all (clk j) (s_partition (kv_cache st ! j))
        else s_partition (kv_cache st ! j))"
  by (induction "is" arbitrary: st) (auto simp: sweep_nth)

lemma sweep_all_fields [simp]:
  "num_locks (foldl (sweep clk) st is) = num_locks st"
  "length (kv_cache (foldl (sweep clk) st is)) = length (kv_cache st)"
  "locks_free (foldl (sweep clk) st is) = locks_free st"
  "home (foldl (sweep clk) st is) = home st"
  by (induction "is" arbitrary: st) simp_all

lemma sweep_all_inv:
  "kv_inv st \<Longrightarrow> \<forall>i \<in> set is. i < num_locks st \<Longrightarrow> kv_inv (foldl (sweep clk) st is)"
  by (induction "is" arbitrary: st) (simp_all add: sweep_inv)

lemma key_set_loop_step:
  assumes "i < length (kv_cache st)" and "locks_free st"
    and p_def: "p = expire_all (clk i) (s_partition (kv_cache st ! i))"
  shows "key_set_loop clk clk st vs ds (i # is)
    = key_set_loop clk clk (sweep clk st i) (vs @ dict_keys (p_valid p)) (ds @ dict_keys (p_deleted p)) is"
proof -
  have free: "\<not> s_lock (kv_cache st ! i)" using assms by (auto simp: locks_free_def)
  then show ?thesis
    using assms(1)
    by (simp add: lock_at_def unlock_at_def update_partition_def sweep_def p_def relock
        valid_key_set_def deleted_key_set_def Let_def)
qed

lemma key_set_loop_free:
  assumes "distinct is" and "\<forall>i \<in> set is. i < length (kv_cache st)" and "locks_free st"
  shows "key_set_loop clk clk st vs ds is = Some (Inr (foldl (sweep clk) st is,
     vs @ concat (map (\<lambda>i. dict_keys (p_valid (expire_all (clk i) (s_partition (kv_cache st ! i))))) is),
     ds @ concat (map (\<lambda>i. dict_keys (p_deleted (expire_all (clk i) (s_partition (kv_cache st ! i))))) is)))"
  using assms
proof (induction "is" arbitrary: st vs ds)
  case (Cons i "is")
  have same: "s_partition (kv_cache (sweep clk st i) ! j) = s_partition (kv_cache st ! j)"
    if "j \<in> set is" for j
    using that Cons.prems by (auto simp: sweep_nth)
  have "key_set_loop clk clk st vs ds (i # is) = key_set_loop clk clk (sweep clk st i)
      (vs @ dict_keys (p_valid (expire_all (clk i) (s_partition (kv_cache st ! i)))))
      (ds @ dict_keys (p_deleted (expire_all (clk i) (s_partition (kv_cache st ! i))))) is"
    using Cons.prems by (intro key_set_loop_step) (auto intro: refl)
  also have "\<dots> = Some (Inr (foldl (sweep clk) st (i # is),
     vs @ concat (map (\<lambda>i. dict_keys (p_valid (expire_all (clk i) (s_partition (kv_cache st ! i))))) (i # is)),
     ds @ concat (map (\<lambda>i. dict_keys (p_deleted (expire_all (clk i) (s_partition (kv_cache st ! i))))) (i # is))))"
    using Cons.prems by (subst Cons.IH) (simp_all add: same cong: map_cong)
  finally show ?case .
qed simp

lemma store_view_members:
  assumes "kv_inv st"
  shows "store_view st k = s \<and> s \<noteq> Absent \<longleftrightarrow>
    (\<exists>i < num_locks st. part_view (s_partition (kv_cache st ! i)) k = s \<and> s \<noteq> Absent)"
proof
  assume "store_view st k = s \<and> s \<noteq> Absent"
  then show "\<exists>i < num_locks st. part_view (s_partition (kv_cache st ! i)) k = s \<and> s \<noteq> Absent"
    using assms home_less [of st k] by (auto simp: store_view_def kv_inv_def)
next
  assume "\<exists>i < num_locks st. part_view (s_partition (kv_cache st ! i)) k = s \<and> s \<noteq> Absent"
  then obtain i where i: "i < num_locks st" "part_view (s_partition (kv_cache st ! i)) k = s" "s \<noteq> Absent"
    by blast
  moreover have "slot_inv st i (s_partition (kv_cache st ! i))"
    using assms i(1) by (simp add: kv_inv_def)
  ultimately have "home st k = i" by (auto simp: slot_inv_def)
  then show "store_view st k = s \<and> s \<noteq> Absent" using i by (simp add: store_view_def)
qed

lemma live_keys_of_store:
  assumes "kv_inv st"
  shows "(\<Union>i \<in> {0..<num_locks st}. set (dict_keys (p_valid (s_partition (kv_cache st ! i)))))
           = {k. \<exists>v. store_view st k = Live v}"
    and "(\<Union>i \<in> {0..<num_locks st}. set (dict_keys (p_deleted (s_partition (kv_cache st ! i)))))
           = {k. \<exists>v. store_view st k = Gone v}"
proof -
  have inv: "i < num_locks st \<Longrightarrow> part_inv (s_partition (kv_cache st ! i))" for i
    using assms by (simp add: kv_inv_def slot_inv_def)
  have live: "store_view st k = Live v \<longleftrightarrow>
      (\<exists>i < num_locks st. part_view (s_partition (kv_cache st ! i)) k = Live v)" for k v
    using store_view_members [OF assms, of k "Live v"] by simp
  have gone: "store_view st k = Gone v \<longleftrightarrow>
      (\<exists>i < num_locks st. part_view (s_partition (kv_cache st ! i)) k = Gone v)" for k v
    using store_view_members [OF assms, of k "Gone v"] by simp
  have dv: "k \<in> set (dict_keys (p_valid p)) \<longleftrightarrow> (\<exists>v. part_view p k = Live v)" for p :: "'a partition" and k
    by (simp only: dict_has_iff_keys [symmetric] part_view_is_Live)
  have dg: "k \<in> set (dict_keys (p_deleted (s_partition (kv_cache st ! i))))
      \<longleftrightarrow> (\<exists>v. part_view (s_partition (kv_cache st ! i)) k = Gone v)" if "i < num_locks st" for i k
    using part_view_is_Gone [OF inv [OF that]] by (simp only: dict_has_iff_keys)
  show "(\<Union>i \<in> {0..<num_locks st}. set (dict_keys (p_valid (s_partition (kv_cache st ! i)))))
           = {k. \<exists>v. store_view st k = Live v}"
    by (rule set_eqI) (simp only: UN_iff mem_Collect_eq dv live atLeastLessThan_iff Bex_def, blast)
  show "(\<Union>i \<in> {0..<num_locks st}. set (dict_keys (p_deleted (s_partition (kv_cache st ! i)))))
           = {k. \<exists>v. store_view st k = Gone v}"
    by (rule set_eqI) (simp only: UN_iff mem_Collect_eq gone atLeastLessThan_iff Bex_def, use dg in blast)
qed

lemma sweep_all_view:
  assumes "kv_inv st"
  shows "store_view (foldl (sweep clk) st [0..<num_locks st]) k =
    (if part_due (clk (home st k) k) (s_partition (kv_cache st ! home st k)) k
     then kill (store_view st k) else store_view st k)"
proof -
  have h: "home st k < num_locks st" "length (kv_cache st) = num_locks st"
    "part_inv (s_partition (kv_cache st ! home st k))"
    using assms home_less [of st k] by (auto simp: kv_inv_def slot_inv_def)
  then show ?thesis
    by (simp add: store_view_def sweep_all_nth part_view_expire_all)
qed

text \<open>C3. What \<^verbatim>\<open>KVStore.key_set\<close> reports: with every lock free and a clock that does not move
  between the two sweeps of a partition, it returns; the valid list is exactly the keys that are
  live afterwards, the deleted list exactly the keys that are deleted afterwards; the only keys
  whose status changed are those whose expiry time had passed, which moved from live to
  deleted; and the store satisfies its invariant with every lock free again.\<close>

theorem key_set_reports:
  assumes "kv_inv st" and "locks_free st"
  shows "\<exists>st' vs ds. key_set clk clk st = Some (Inr (st', vs, ds)) \<and>
    kv_inv st' \<and> locks_free st' \<and>
    set vs = {k. \<exists>v. store_view st' k = Live v} \<and> set ds = {k. \<exists>v. store_view st' k = Gone v} \<and>
    (\<forall>k. store_view st' k =
       (if part_due (clk (home st k) k) (s_partition (kv_cache st ! home st k)) k
        then kill (store_view st k) else store_view st k))"
proof -
  let ?is = "[0..<num_locks st]"
  let ?st = "foldl (sweep clk) st ?is"
  have len: "length (kv_cache st) = num_locks st" using assms(1) by (simp add: kv_inv_def)
  have inv: "kv_inv ?st" using assms(1) by (intro sweep_all_inv) auto
  have vs: "map (\<lambda>i. dict_keys (p_valid (expire_all (clk i) (s_partition (kv_cache st ! i))))) ?is
      = map (\<lambda>i. dict_keys (p_valid (s_partition (kv_cache ?st ! i)))) ?is"
    and ds: "map (\<lambda>i. dict_keys (p_deleted (expire_all (clk i) (s_partition (kv_cache st ! i))))) ?is
      = map (\<lambda>i. dict_keys (p_deleted (s_partition (kv_cache ?st ! i)))) ?is"
    using len by (auto simp: sweep_all_nth)
  have "key_set clk clk st = Some (Inr (?st,
      concat (map (\<lambda>i. dict_keys (p_valid (s_partition (kv_cache ?st ! i)))) ?is),
      concat (map (\<lambda>i. dict_keys (p_deleted (s_partition (kv_cache ?st ! i)))) ?is)))"
    using assms(2) len by (simp add: key_set_def key_set_loop_free vs ds)
  with inv assms(2) live_keys_of_store [OF inv] sweep_all_view [OF assms(1), of clk]
  show ?thesis by (simp add: set_concat)
qed

theorem key_set_reports_witness:
  "kv_inv (kv_init 3 :: int kvstore) \<and> locks_free (kv_init 3 :: int kvstore) \<and>
   (\<exists>st' vs ds. key_set (\<lambda>_ _. 9) (\<lambda>_ _. 9) (kv_init 3 :: int kvstore) = Some (Inr (st', vs, ds)) \<and>
      set vs = {k. \<exists>v. store_view st' k = Live v})"
proof -
  have inv: "kv_inv (kv_init 3 :: int kvstore)" by (rule kv_inv_init [THEN conjunct1]) simp
  have free: "locks_free (kv_init 3 :: int kvstore)" by (rule kv_inv_init [THEN conjunct2]) simp
  show ?thesis using inv free key_set_reports [OF inv free, of "\<lambda>_ _. 9"] by blast
qed

end
