(* ===== verification/KV_Locks.thy ===== *)
theory KV_Locks
  imports KV_Store
begin

text \<open>
  The locks of \<^verbatim>\<open>KVStore\<close> under several threads, and the older client store.

  \<^verbatim>\<open>acquire_partitions\<close> takes \<^verbatim>\<open>self.acquire_lock\<close>, then the lock of each partition its keys
  hash to (once each), then releases \<^verbatim>\<open>self.acquire_lock\<close>; \<^verbatim>\<open>release_partitions\<close> releases the
  locks one by one. The comment in the constructor says the first lock is \<^verbatim>\<open>needed for
  deadlocks where different threads grab some of the partitions\<close>. Each atomic action of a
  thread is one rule of \<open>lock_step\<close>; the theorems say that a lock has one holder and
  that some thread inside these two methods can always move.
\<close>

section \<open>Threads in acquire_partitions and release_partitions\<close>

datatype phase =
    Idle
  | Acquiring "nat list" "nat list" \<comment> \<open>partitions of the remaining keys, locks taken so far\<close>
  | Holding "nat list" \<comment> \<open>locks still to release\<close>

record lock_state =
  glock :: "nat option"
  owner :: "nat \<Rightarrow> nat option"
  phase :: "nat \<Rightarrow> phase"

definition init_locks :: lock_state where
  "init_locks = \<lparr>glock = None, owner = (\<lambda>_. None), phase = (\<lambda>_. Idle)\<rparr>"

inductive lock_step :: "nat \<Rightarrow> nat \<Rightarrow> lock_state \<Rightarrow> lock_state \<Rightarrow> bool" for n where
  enter: "phase s t = Idle \<Longrightarrow> glock s = None \<Longrightarrow>
     lock_step n t s (s\<lparr>glock := Some t,
       phase := (phase s)(t := Acquiring (map (\<lambda>k. nat (zlib_crc32 k mod int n)) keys) [])\<rparr>)"
| skip: "phase s t = Acquiring (p # ps) held \<Longrightarrow> p \<in> set held \<Longrightarrow>
     lock_step n t s (s\<lparr>phase := (phase s)(t := Acquiring ps held)\<rparr>)"
| take: "phase s t = Acquiring (p # ps) held \<Longrightarrow> p \<notin> set held \<Longrightarrow> owner s p = None \<Longrightarrow>
     lock_step n t s (s\<lparr>owner := (owner s)(p := Some t),
       phase := (phase s)(t := Acquiring ps (held @ [p]))\<rparr>)"
| leave: "phase s t = Acquiring [] held \<Longrightarrow>
     lock_step n t s (s\<lparr>glock := None, phase := (phase s)(t := Holding held)\<rparr>)"
| release: "phase s t = Holding (p # ps) \<Longrightarrow>
     lock_step n t s (s\<lparr>owner := (owner s)(p := None), phase := (phase s)(t := Holding ps)\<rparr>)"
| finish: "phase s t = Holding [] \<Longrightarrow> lock_step n t s (s\<lparr>phase := (phase s)(t := Idle)\<rparr>)"

inductive_cases lock_stepE: "lock_step n t s s'"

inductive lock_reach :: "nat \<Rightarrow> lock_state \<Rightarrow> bool" for n where
  lr_init: "lock_reach n init_locks"
| lr_step: "lock_reach n s \<Longrightarrow> lock_step n t s s' \<Longrightarrow> lock_reach n s'"

fun held_of :: "phase \<Rightarrow> nat list" where
  "held_of Idle = []"
| "held_of (Acquiring ps held) = held"
| "held_of (Holding held) = held"

fun is_acquiring :: "phase \<Rightarrow> bool" where
  "is_acquiring (Acquiring ps held) = True"
| "is_acquiring _ = False"

definition lock_inv :: "lock_state \<Rightarrow> bool" where
  "lock_inv s \<longleftrightarrow>
     (\<forall>t. is_acquiring (phase s t) \<longleftrightarrow> glock s = Some t) \<and>
     (\<forall>t p. p \<in> set (held_of (phase s t)) \<longleftrightarrow> owner s p = Some t) \<and>
     (\<forall>t. distinct (held_of (phase s t)))"

lemma held_not_acquiring:
  "p \<in> set (held_of ph) \<Longrightarrow> \<not> is_acquiring ph \<Longrightarrow> \<exists>q qs. ph = Holding (q # qs)"
  by (cases ph; cases "held_of ph") simp_all

lemma lock_inv_init: "lock_inv init_locks"
  by (simp add: lock_inv_def init_locks_def)

lemma lock_inv_dest:
  assumes "lock_inv s" and "phase s t = ph"
  shows "is_acquiring ph \<longleftrightarrow> glock s = Some t"
    and "p \<in> set (held_of ph) \<longleftrightarrow> owner s p = Some t"
    and "distinct (held_of ph)"
  using assms by (auto simp: lock_inv_def)

lemma lock_inv_update:
  assumes "lock_inv s" and "phase s' = (phase s)(t := ph)"
    and "is_acquiring ph \<longleftrightarrow> glock s' = Some t"
    and "\<And>t'. t' \<noteq> t \<Longrightarrow> glock s' = Some t' \<longleftrightarrow> glock s = Some t'"
    and "\<And>p. p \<in> set (held_of ph) \<longleftrightarrow> owner s' p = Some t"
    and "\<And>p t'. t' \<noteq> t \<Longrightarrow> owner s' p = Some t' \<longleftrightarrow> owner s p = Some t'"
    and "distinct (held_of ph)"
  shows "lock_inv s'"
proof -
  note d = lock_inv_dest [OF assms(1) refl]
  have "is_acquiring (phase s' u) \<longleftrightarrow> glock s' = Some u" for u
    using assms(2-4) d(1) [of u] by (cases "u = t") simp_all
  moreover have "p \<in> set (held_of (phase s' u)) \<longleftrightarrow> owner s' p = Some u" for u p
    using assms(2,5,6) d(2) [of p u] by (cases "u = t") simp_all
  moreover have "distinct (held_of (phase s' u))" for u
    using assms(2,7) d(3) [of u] by (cases "u = t") simp_all
  ultimately show ?thesis by (simp add: lock_inv_def)
qed

lemma lock_step_inv:
  assumes "lock_step n t s s'" and inv: "lock_inv s"
  shows "lock_inv s'"
  using assms(1)
proof cases
  case (enter keys)
  note d = lock_inv_dest [OF inv enter(2)]
  show ?thesis by (rule lock_inv_update [OF inv, where t = t]) (use enter d in auto)
next
  case (skip p ps held)
  note d = lock_inv_dest [OF inv skip(2)]
  show ?thesis unfolding skip(1)
    by (rule lock_inv_update [OF inv, where t = t and ph = "Acquiring ps held"]) (use d in simp_all)
next
  case (take p ps held)
  note d = lock_inv_dest [OF inv take(2)]
  show ?thesis unfolding take(1)
  proof (rule lock_inv_update [OF inv, where t = t and ph = "Acquiring ps (held @ [p])"])
    show "distinct (held_of (Acquiring ps (held @ [p])))" using d(3) take(3) by simp
  qed (use d(1,2) take(4) in simp_all)
next
  case (leave held)
  note d = lock_inv_dest [OF inv leave(2)]
  show ?thesis unfolding leave(1)
    by (rule lock_inv_update [OF inv, where t = t and ph = "Holding held"]) (use d in simp_all)
next
  case (release p ps)
  note d = lock_inv_dest [OF inv release(2)]
  have own: "owner s p = Some t" using d(2) [of p] by simp
  show ?thesis unfolding release(1)
    by (rule lock_inv_update [OF inv, where t = t and ph = "Holding ps"])
       (use d(1,3) d(2) [symmetric] own in \<open>auto split: if_splits\<close>, metis option.inject own)
next
  case finish
  note d = lock_inv_dest [OF inv finish(2)]
  show ?thesis unfolding finish(1)
    by (rule lock_inv_update [OF inv, where t = t and ph = Idle]) (use d in simp_all)
qed

lemma lock_reach_inv: "lock_reach n s \<Longrightarrow> lock_inv s"
  by (induction rule: lock_reach.induct) (auto intro: lock_inv_init lock_step_inv)

text \<open>C4. The global lock prevents deadlock: in every state that threads calling
  \<^verbatim>\<open>acquire_partitions\<close> and \<^verbatim>\<open>release_partitions\<close> with any keys can reach, no partition lock
  has two holders, and as long as some thread is inside one of the two methods, some thread
  that is inside can take its next step.\<close>

theorem acquire_partitions_no_deadlock:
  assumes "lock_reach n s"
  shows "(\<forall>t t' p. p \<in> set (held_of (phase s t)) \<and> p \<in> set (held_of (phase s t')) \<longrightarrow> t = t') \<and>
    ((\<exists>t. phase s t \<noteq> Idle) \<longrightarrow> (\<exists>t s'. phase s t \<noteq> Idle \<and> lock_step n t s s'))"
proof -
  have inv: "lock_inv s" using assms by (rule lock_reach_inv)
  then have own: "p \<in> set (held_of (phase s t)) \<longleftrightarrow> owner s p = Some t" for p t
    by (simp add: lock_inv_def)
  have "\<exists>t s'. phase s t \<noteq> Idle \<and> lock_step n t s s'" if busy: "phase s t \<noteq> Idle" for t
  proof (cases "phase s t")
    case (Acquiring ps held)
    show ?thesis
    proof (cases ps)
      case (Cons p rest)
      show ?thesis
      proof (cases "p \<in> set held \<or> owner s p = None")
        case True
        with Acquiring Cons busy show ?thesis by (metis lock_step.skip lock_step.take)
      next
        case False
        then obtain u where u: "owner s p = Some u" "u \<noteq> t"
          using own [of p t] Acquiring by auto
        then have "p \<in> set (held_of (phase s u))" using own by simp
        moreover have "\<not> is_acquiring (phase s u)"
          using inv Acquiring u(2) by (metis is_acquiring.simps(1) lock_inv_dest(1) option.inject)
        ultimately obtain q qs where "phase s u = Holding (q # qs)"
          by (blast dest: held_not_acquiring)
        then show ?thesis by (metis lock_step.release phase.distinct(3))
      qed
    qed (use Acquiring busy in \<open>metis lock_step.leave\<close>)
  next
    case (Holding ps)
    then show ?thesis by (cases ps) (metis busy lock_step.finish lock_step.release)+
  qed (use busy in simp)
  then show ?thesis using own by (metis option.inject)
qed

theorem acquire_partitions_no_deadlock_witness:
  "lock_reach 16 (init_locks\<lparr>glock := Some 0,
      phase := (phase init_locks)(0 := Acquiring (map (\<lambda>k. nat (zlib_crc32 k mod int 16)) [''a'']) [])\<rparr>)
   \<and> (\<exists>t s'. lock_step 16 t (init_locks\<lparr>glock := Some 0,
      phase := (phase init_locks)(0 := Acquiring (map (\<lambda>k. nat (zlib_crc32 k mod int 16)) [''a'']) [])\<rparr>) s')"
proof -
  let ?s = "init_locks\<lparr>glock := Some 0,
      phase := (phase init_locks)(0 := Acquiring (map (\<lambda>k. nat (zlib_crc32 k mod int 16)) [''a'']) [])\<rparr>"
  have r: "lock_reach 16 ?s"
    by (rule lock_reach.lr_step [OF lock_reach.lr_init, of _ 0], rule lock_step.enter)
       (simp_all add: init_locks_def)
  moreover have "phase ?s 0 \<noteq> Idle" by simp
  ultimately show ?thesis using acquire_partitions_no_deadlock [OF r] by blast
qed


section \<open>ClientKeyValueStore\<close>

text \<open>The older store (\<^verbatim>\<open>lib/memcached/helper/old_kvstore.py\<close>). Each entry of \<^verbatim>\<open>_cache\<close> is a
  dict with the fields of \<open>cache_item\<close>; the clock value that \<^verbatim>\<open>time.time()\<close> returns is the
  argument \<open>now\<close>. \<^verbatim>\<open>read\<close> returns the stored dict itself, so the status it sets is seen by
  later calls: the updated cache is part of its result.\<close>

record 'v cache_item =
  ci_key :: string
  ci_value :: 'v
  ci_ttl :: int
  ci_status :: string

type_synonym 'v client_kvs = "(string, 'v cache_item) dict"

definition ckv_write :: "int \<Rightarrow> string \<Rightarrow> 'v \<Rightarrow> int \<Rightarrow> 'v client_kvs \<Rightarrow> 'v client_kvs" where
  "ckv_write now key val ttl cache =
     (if 0 \<le> ttl
      then AList.update key \<lparr>ci_key = key, ci_value = val, ci_ttl = now + ttl, ci_status = ''valid''\<rparr> cache
      else AList.update key \<lparr>ci_key = key, ci_value = val, ci_ttl = -1, ci_status = ''valid''\<rparr> cache)"

definition ckv_delete :: "string \<Rightarrow> string client_kvs \<Rightarrow> string client_kvs" where
  "ckv_delete key cache =
     (case map_of cache key of
        Some item \<Rightarrow> AList.update key (item\<lparr>ci_status := ''deleted''\<rparr>) cache
      | None \<Rightarrow> AList.update key
          \<lparr>ci_key = key, ci_value = ''N/A'', ci_ttl = -1, ci_status = ''delete''\<rparr> cache)"

definition ckv_read :: "int \<Rightarrow> string \<Rightarrow> 'v client_kvs \<Rightarrow> ('v cache_item \<times> 'v client_kvs) res" where
  "ckv_read now key cache =
     (case map_of cache key of
        None \<Rightarrow> Inl KeyError
      | Some item \<Rightarrow>
          (if 0 \<le> ci_ttl item \<and> ci_ttl item < now
           then let item' = item\<lparr>ci_status := ''expired''\<rparr> in Inr (item', AList.update key item' cache)
           else Inr (item, cache)))"

definition ckv_keys :: "'v client_kvs \<Rightarrow> string list" where
  "ckv_keys cache = dict_keys cache"

fun ckv_valid_loop :: "int \<Rightarrow> string list \<Rightarrow> string list \<Rightarrow> 'v client_kvs \<Rightarrow>
    (string list \<times> 'v client_kvs) res" where
  "ckv_valid_loop now [] valid cache = Inr (valid, cache)"
| "ckv_valid_loop now (k # ks) valid cache =
     rbind (ckv_read now k cache) (\<lambda>(item, cache').
       ckv_valid_loop now ks (if ci_status item = ''valid'' then valid @ [k] else valid) cache')"

definition ckv_valid_items :: "int \<Rightarrow> 'v client_kvs \<Rightarrow> (string list \<times> 'v client_kvs) res" where
  "ckv_valid_items now cache = ckv_valid_loop now (ckv_keys cache) [] cache"

text \<open>The status \<^verbatim>\<open>read\<close> reports for an entry: an expiry time in the past wins over every
  stored status, a deletion included.\<close>

definition ckv_status :: "int \<Rightarrow> 'v cache_item \<Rightarrow> string" where
  "ckv_status now item = (if 0 \<le> ci_ttl item \<and> ci_ttl item < now then ''expired'' else ci_status item)"

definition ckv_live :: "int \<Rightarrow> 'v client_kvs \<Rightarrow> string \<Rightarrow> bool" where
  "ckv_live now cache k = (case map_of cache k of None \<Rightarrow> False | Some item \<Rightarrow> ckv_status now item = ''valid'')"

lemma ckv_read_present:
  assumes "map_of cache k = Some item"
  shows "\<exists>cache'. ckv_read now k cache = Inr (item\<lparr>ci_status := ckv_status now item\<rparr>, cache') \<and>
    map_of cache' = (map_of cache)(k \<mapsto> item\<lparr>ci_status := ckv_status now item\<rparr>)"
  using assms by (auto simp: ckv_read_def ckv_status_def Let_def)

lemma ckv_valid_loop_reports:
  assumes "distinct ks" and "\<forall>k\<in>set ks. \<exists>item. map_of cache k = Some item"
  shows "\<exists>cache'. ckv_valid_loop now ks acc cache =
     Inr (acc @ filter (ckv_live now cache) ks, cache')"
  using assms
proof (induction ks arbitrary: acc cache)
  case (Cons k ks)
  from Cons.prems obtain item where item: "map_of cache k = Some item" by auto
  from ckv_read_present [OF this, of now] obtain c' where
    r: "ckv_read now k cache = Inr (item\<lparr>ci_status := ckv_status now item\<rparr>, c')" and
    m: "map_of c' = (map_of cache)(k \<mapsto> item\<lparr>ci_status := ckv_status now item\<rparr>)" by auto
  have same: "map_of c' x = map_of cache x" if "x \<in> set ks" for x
    using Cons.prems(1) that m by auto
  have "\<forall>x\<in>set ks. \<exists>item. map_of c' x = Some item" using Cons.prems(2) same by simp
  note IH = Cons.IH [OF _ this, of "if ckv_status now item = ''valid'' then acc @ [k] else acc"]
  have f: "filter (ckv_live now c') ks =
        filter (ckv_live now cache) ks"
    by (rule filter_cong) (use same in \<open>auto simp: ckv_live_def\<close>)
  have live: "ckv_live now cache k \<longleftrightarrow> ckv_status now item = ''valid''"
    using item by (simp add: ckv_live_def)
  show ?case using IH Cons.prems(1) live unfolding f by (cases "ckv_live now cache k") (simp_all add: r)
qed simp

lemma ckv_valid_items_ok:
  assumes "dict_wf cache"
  shows "\<exists>vs c. ckv_valid_items now cache = Inr (vs, c) \<and> (\<forall>k. k \<in> set vs \<longleftrightarrow> ckv_live now cache k)"
proof -
  have keys: "k \<in> set (dict_keys cache) \<longleftrightarrow> (\<exists>item. map_of cache k = Some item)" for k
    using dict_has_iff_keys [of cache k] by (auto simp: dict_has_def)
  then have "\<forall>k\<in>set (dict_keys cache). \<exists>item. map_of cache k = Some item" by blast
  from ckv_valid_loop_reports [OF _ this, of now "[]"] obtain c where
    "ckv_valid_items now cache = Inr (filter (ckv_live now cache) (dict_keys cache), c)"
    using assms by (auto simp: ckv_valid_items_def ckv_keys_def dict_wf_def)
  moreover have "ckv_live now cache k \<Longrightarrow> k \<in> set (dict_keys cache)" for k
    unfolding keys by (auto simp: ckv_live_def split: option.splits)
  ultimately show ?thesis by auto
qed

text \<open>\<^verbatim>\<open>valid_items\<close> of the older store never raises, and after any write it lists the
  written key exactly when the write has no expiry time (a negative ttl) or its expiry time
  is not yet past; a deleted key is not listed; other keys are listed as before.\<close>

theorem client_valid_items:
  assumes "dict_wf cache"
  shows "\<exists>vs c vs' c' vs0 c0. ckv_valid_items now cache = Inr (vs0, c0) \<and>
     ckv_valid_items now (ckv_write t k v ttl cache) = Inr (vs, c) \<and>
     (k \<in> set vs \<longleftrightarrow> ttl < 0 \<or> t + ttl < 0 \<or> now \<le> t + ttl) \<and>
     ckv_valid_items now (ckv_delete k cache) = Inr (vs', c') \<and> k \<notin> set vs' \<and>
     (\<forall>j. j \<noteq> k \<longrightarrow> (j \<in> set vs \<longleftrightarrow> j \<in> set vs0) \<and> (j \<in> set vs' \<longleftrightarrow> j \<in> set vs0))"
proof -
  let ?w = "ckv_write t k v ttl cache" and ?d = "ckv_delete k cache"
  have wf: "dict_wf ?w" "dict_wf ?d"
    using assms by (auto simp: ckv_write_def ckv_delete_def split: option.splits)
  from ckv_valid_items_ok [OF assms] obtain vs0 c0 where
    0: "ckv_valid_items now cache = Inr (vs0, c0)" "\<And>j. j \<in> set vs0 \<longleftrightarrow> ckv_live now cache j" by blast
  from ckv_valid_items_ok [OF wf(1)] obtain vs c where
    1: "ckv_valid_items now ?w = Inr (vs, c)" "\<And>j. j \<in> set vs \<longleftrightarrow> ckv_live now ?w j" by blast
  from ckv_valid_items_ok [OF wf(2)] obtain vs' c' where
    2: "ckv_valid_items now ?d = Inr (vs', c')" "\<And>j. j \<in> set vs' \<longleftrightarrow> ckv_live now ?d j" by blast
  have w: "map_of ?w j = (if j = k then Some \<lparr>ci_key = k, ci_value = v,
      ci_ttl = (if 0 \<le> ttl then t + ttl else -1), ci_status = ''valid''\<rparr> else map_of cache j)" for j
    by (simp add: ckv_write_def)
  have d1: "map_of ?d j = map_of cache j" if "j \<noteq> k" for j
    using that by (simp add: ckv_delete_def split: option.splits)
  have d2: "\<not> ckv_live now ?d k"
    by (auto simp: ckv_live_def ckv_delete_def ckv_status_def split: option.splits)
  have "k \<in> set vs \<longleftrightarrow> ttl < 0 \<or> t + ttl < 0 \<or> now \<le> t + ttl"
    unfolding 1(2) ckv_live_def w by (auto simp: ckv_status_def)
  moreover have "j \<in> set vs \<longleftrightarrow> j \<in> set vs0" "j \<in> set vs' \<longleftrightarrow> j \<in> set vs0" if "j \<noteq> k" for j
    using that unfolding 0(2) 1(2) 2(2) ckv_live_def by (simp_all add: w d1)
  ultimately show ?thesis using 0(1) 1(1) 2 d2 by blast
qed

theorem client_valid_items_witness:
  "dict_wf ([] :: string client_kvs) \<and> (\<exists>vs c. ckv_valid_items 5 (ckv_write 1 ''a'' ''b'' (-1) []) = Inr (vs, c)
     \<and> ''a'' \<in> set vs)"
  using client_valid_items [of "[]" 5 1 "''a''" "''b''" "-1"] by auto

end
