(* ===== verification/Struct_Pack.thy ===== *)
theory Struct_Pack
  imports Py_Prelude
begin

text \<open>
  The part of Python's \<^verbatim>\<open>struct\<close> module that the memcached client uses: big-endian packing
  and unpacking of unsigned and signed integers of 1, 2, 4 and 8 bytes, driven by the format
  string. \<^verbatim>\<open>pack\<close> raises \<^verbatim>\<open>struct.error\<close> when a value is out of range for its field or the
  number of values is wrong, \<^verbatim>\<open>unpack\<close> when the buffer has not the size of the format.
  Byte strings are strings of characters (Python 2 \<^verbatim>\<open>str\<close>). \<open>struct_pack\<close> and
  \<open>struct_unpack\<close> are inverse to each other (\<open>unpack_pack\<close>).
\<close>

section \<open>Fields and formats\<close>

type_synonym field = "nat \<times> bool" \<comment> \<open>width in bytes, signed\<close>

definition field_of :: "char \<Rightarrow> field" where
  "field_of c =
     (if c = CHR ''B'' then (1, False) else if c = CHR ''b'' then (1, True)
      else if c = CHR ''H'' then (2, False) else if c = CHR ''I'' then (4, False)
      else if c = CHR ''i'' then (4, True) else if c = CHR ''Q'' then (8, False)
      else if c = CHR ''q'' then (8, True) else (0, False))"

definition fmt_fields :: "string \<Rightarrow> field list" where
  "fmt_fields fmt = map field_of (dropWhile (\<lambda>c. c \<in> {CHR ''>'', CHR 0x21}) fmt)"

definition calcsize :: "string \<Rightarrow> nat" where
  "calcsize fmt = sum_list (map fst (fmt_fields fmt))"

fun be_bytes :: "nat \<Rightarrow> int \<Rightarrow> string" where
  "be_bytes 0 v = []"
| "be_bytes (Suc n) v = be_bytes n (v div 256) @ [char_of (nat (v mod 256))]"

definition of_be :: "string \<Rightarrow> int" where
  "of_be s = foldl (\<lambda>a c. a * 256 + int (of_char c)) 0 s"

definition field_min :: "field \<Rightarrow> int" where
  "field_min f = (if snd f then - (2 ^ (8 * fst f - 1)) else 0)"

definition field_max :: "field \<Rightarrow> int" where
  "field_max f = (if snd f then 2 ^ (8 * fst f - 1) - 1 else 2 ^ (8 * fst f) - 1)"

definition in_field :: "field \<Rightarrow> int \<Rightarrow> bool" where
  "in_field f v \<longleftrightarrow> field_min f \<le> v \<and> v \<le> field_max f"

definition field_val :: "field \<Rightarrow> string \<Rightarrow> int" where
  "field_val f s = (let u = of_be s in if snd f \<and> 2 ^ (8 * fst f - 1) \<le> u then u - 2 ^ (8 * fst f) else u)"

fun pack_fields :: "field list \<Rightarrow> int list \<Rightarrow> string res" where
  "pack_fields [] [] = Inr []"
| "pack_fields (f # fs) (v # vs) =
     (if in_field f v then rbind (pack_fields fs vs) (\<lambda>s. Inr (be_bytes (fst f) v @ s))
      else Inl StructError)"
| "pack_fields _ _ = Inl StructError"

fun unpack_fields :: "field list \<Rightarrow> string \<Rightarrow> int list res" where
  "unpack_fields [] s = (if s = [] then Inr [] else Inl StructError)"
| "unpack_fields (f # fs) s =
     (if length s < fst f then Inl StructError
      else rbind (unpack_fields fs (drop (fst f) s)) (\<lambda>vs. Inr (field_val f (take (fst f) s) # vs)))"

definition struct_pack :: "string \<Rightarrow> int list \<Rightarrow> string res" where
  "struct_pack fmt vs = pack_fields (fmt_fields fmt) vs"

definition struct_unpack :: "string \<Rightarrow> string \<Rightarrow> int list res" where
  "struct_unpack fmt s = unpack_fields (fmt_fields fmt) s"

text \<open>\<^verbatim>\<open>s.encode()\<close> and \<^verbatim>\<open>s.decode()\<close> of a Python 2 byte string with the default codec: the
  string itself when it is ASCII, a \<^verbatim>\<open>UnicodeError\<close> (a \<^verbatim>\<open>ValueError\<close>) otherwise.\<close>

definition is_ascii :: "string \<Rightarrow> bool" where
  "is_ascii s \<longleftrightarrow> (\<forall>c\<in>set s. of_char c < (128::nat))"

definition str_encode :: "string \<Rightarrow> string res" where
  "str_encode s = (if is_ascii s then Inr s else Inl ValueError)"

lemma str_encode_ascii [simp]: "is_ascii s \<Longrightarrow> str_encode s = Inr s"
  by (simp add: str_encode_def)

lemma is_ascii_append [simp]: "is_ascii (s @ t) \<longleftrightarrow> is_ascii s \<and> is_ascii t"
  by (auto simp: is_ascii_def)

lemma is_ascii_Nil [simp]: "is_ascii []"
  by (simp add: is_ascii_def)


section \<open>Round trip\<close>

lemma length_be_bytes [simp]: "length (be_bytes n v) = n"
  by (induction n arbitrary: v) auto

lemma of_be_snoc: "of_be (s @ [c]) = of_be s * 256 + int (of_char c)"
  by (simp add: of_be_def)

lemma of_be_bytes: "of_be (be_bytes n v) = v mod 2 ^ (8 * n)"
proof (induction n arbitrary: v)
  case 0
  then show ?case by (simp add: of_be_def)
next
  case (Suc n)
  have byte: "int (of_char (char_of (nat (v mod 256)) :: char)) = v mod 256"
  proof -
    have "nat (v mod 256) mod 256 = nat (v mod 256)" by simp
    then show ?thesis by simp
  qed
  have "(v div 256) mod 2 ^ (8 * n) * 256 + v mod 256 = v mod (256 * 2 ^ (8 * n))"
    using zmod_zmult2_eq [of "2 ^ (8 * n)" v 256] by (simp add: mult.commute)
  also have "(256::int) * 2 ^ (8 * n) = 2 ^ (8 * Suc n)" by (simp add: power_add)
  finally show ?case by (simp add: Suc.IH of_be_snoc byte)
qed

lemma field_val_bytes:
  assumes "in_field f v" and "0 < fst f"
  shows "field_val f (be_bytes (fst f) v) = v"
proof -
  obtain m where m: "8 * fst f = Suc m" using assms(2) by (cases "8 * fst f") auto
  have p: "(2::int) ^ (8 * fst f) = 2 * 2 ^ m" by (simp add: m)
  show ?thesis
  proof (cases "snd f \<and> v < 0")
    case True
    with assms(1) have b: "- (2 ^ m) \<le> v" "v < 0" by (auto simp: in_field_def field_min_def m)
    have "v mod (2 * 2 ^ m) = v + 2 * 2 ^ m"
      using b by (subst mod_add_self2 [symmetric]) (rule mod_pos_pos_trivial; linarith)
    with True b show ?thesis by (simp add: field_val_def of_be_bytes p m Let_def)
  next
    case False
    with assms(1) have b: "0 \<le> v" "snd f \<Longrightarrow> v < 2 ^ m" "v < 2 * 2 ^ m"
      by (auto simp: in_field_def field_min_def field_max_def m split: if_splits)
    then have "v mod (2 * 2 ^ m) = v" by (intro mod_pos_pos_trivial) auto
    with b show ?thesis by (auto simp: field_val_def of_be_bytes p m Let_def)
  qed
qed

lemma length_pack_fields: "pack_fields fs vs = Inr s \<Longrightarrow> length s = sum_list (map fst fs)"
  by (induction fs vs arbitrary: s rule: pack_fields.induct)
     (auto simp: rbind_eq_Inr split: if_splits)

lemma unpack_pack_fields:
  assumes "pack_fields fs vs = Inr s" and "\<forall>f\<in>set fs. 0 < fst f"
  shows "unpack_fields fs s = Inr vs"
  using assms
proof (induction fs vs arbitrary: s rule: pack_fields.induct)
  case (2 f fs v vs)
  from 2(2) obtain t where t: "in_field f v" "pack_fields fs vs = Inr t" "s = be_bytes (fst f) v @ t"
    by (auto simp: rbind_eq_Inr split: if_splits)
  with 2 show ?case by (simp add: field_val_bytes)
qed auto

lemma pack_fields_ok:
  assumes "list_all2 in_field fs vs"
  shows "\<exists>s. pack_fields fs vs = Inr s"
  using assms by (induction rule: list_all2_induct) auto

lemma pack_fields_Inr_iff: "(\<exists>s. pack_fields fs vs = Inr s) \<longleftrightarrow> list_all2 in_field fs vs"
proof
  assume "\<exists>s. pack_fields fs vs = Inr s"
  then show "list_all2 in_field fs vs"
    by (induction fs vs rule: pack_fields.induct) (auto simp: rbind_eq_Inr split: if_splits)
qed (rule pack_fields_ok)

lemma length_pack: "struct_pack fmt vs = Inr s \<Longrightarrow> length s = calcsize fmt"
  by (simp add: struct_pack_def calcsize_def length_pack_fields)

lemma unpack_pack:
  "struct_pack fmt vs = Inr s \<Longrightarrow> \<forall>f\<in>set (fmt_fields fmt). 0 < fst f \<Longrightarrow> struct_unpack fmt s = Inr vs"
  by (simp add: struct_pack_def struct_unpack_def unpack_pack_fields)

lemma fmt_fields_simps [simp]:
  "fmt_fields [] = []"
  "fmt_fields (CHR ''>'' # cs) = fmt_fields cs"
  "fmt_fields (CHR 0x21 # cs) = fmt_fields cs"
  by (simp_all add: fmt_fields_def)

lemma fmt_fields_Cons [simp]:
  "fmt_fields (CHR ''B'' # cs) = (1, False) # map field_of cs"
  "fmt_fields (CHR ''H'' # cs) = (2, False) # map field_of cs"
  "fmt_fields (CHR ''I'' # cs) = (4, False) # map field_of cs"
  "fmt_fields (CHR ''Q'' # cs) = (8, False) # map field_of cs"
  "fmt_fields (CHR ''i'' # cs) = (4, True) # map field_of cs"
  "fmt_fields (CHR ''q'' # cs) = (8, True) # map field_of cs"
  by (simp_all add: fmt_fields_def field_of_def)

lemma field_of_simps [simp]:
  "field_of CHR ''B'' = (1, False)" "field_of CHR ''H'' = (2, False)"
  "field_of CHR ''I'' = (4, False)" "field_of CHR ''Q'' = (8, False)"
  "field_of CHR ''i'' = (4, True)" "field_of CHR ''q'' = (8, True)"
  by (simp_all add: field_of_def)

lemma in_field_unsigned [simp]: "in_field (n, False) v \<longleftrightarrow> 0 \<le> v \<and> v < 2 ^ (8 * n)"
  by (auto simp: in_field_def field_min_def field_max_def)

end
