(* ===== verification/Mc_Constants.thy ===== *)
theory Mc_Constants
  imports Struct_Pack
begin

text \<open>
  The constants of the memcached binary protocol (\<^verbatim>\<open>lib/memcacheConstants.py\<close>). Each integer
  constant of the module is a HOL constant with the value of the module's last assignment to
  that name (\<^verbatim>\<open>CMD_FLUSH\<close> is first 8 and then 0x5a); the format strings are strings.
  \<open>consts_command\<close>, \<open>consts_engine\<close> and \<open>consts_sync\<close> list the names assigned before the
  line that computes \<^verbatim>\<open>COMMAND_NAMES\<close> from them. The equations are in the collection
  \<open>mc_consts\<close>.
\<close>

named_theorems mc_consts \<open>values of the protocol constants\<close>

section \<open>Integer constants\<close>

definition CMD_GET :: int where [mc_consts]: "CMD_GET = 0"
definition CMD_SET :: int where [mc_consts]: "CMD_SET = 1"
definition CMD_SETQ :: int where [mc_consts]: "CMD_SETQ = 0x11"
definition CMD_ADD :: int where [mc_consts]: "CMD_ADD = 2"
definition CMD_REPLACE :: int where [mc_consts]: "CMD_REPLACE = 3"
definition CMD_DELETE :: int where [mc_consts]: "CMD_DELETE = 4"
definition CMD_INCR :: int where [mc_consts]: "CMD_INCR = 5"
definition CMD_DECR :: int where [mc_consts]: "CMD_DECR = 6"
definition CMD_QUIT :: int where [mc_consts]: "CMD_QUIT = 7"
definition CMD_FLUSH :: int where [mc_consts]: "CMD_FLUSH = 0x5a"
definition CMD_GETQ :: int where [mc_consts]: "CMD_GETQ = 9"
definition CMD_NOOP :: int where [mc_consts]: "CMD_NOOP = 10"
definition CMD_VERSION :: int where [mc_consts]: "CMD_VERSION = 11"
definition CMD_STAT :: int where [mc_consts]: "CMD_STAT = 0x10"
definition CMD_APPEND :: int where [mc_consts]: "CMD_APPEND = 0x0e"
definition CMD_PREPEND :: int where [mc_consts]: "CMD_PREPEND = 0x0f"
definition CMD_DELETEQ :: int where [mc_consts]: "CMD_DELETEQ = 0x14"
definition CMD_VERBOSE :: int where [mc_consts]: "CMD_VERBOSE = 0x1b"
definition CMD_TOUCH :: int where [mc_consts]: "CMD_TOUCH = 0x1c"
definition CMD_GAT :: int where [mc_consts]: "CMD_GAT = 0x1d"
definition CMD_HELLO :: int where [mc_consts]: "CMD_HELLO = 0x1f"
definition CMD_GET_REPLICA :: int where [mc_consts]: "CMD_GET_REPLICA = 0x83"
definition CMD_OBSERVE_SEQNO :: int where [mc_consts]: "CMD_OBSERVE_SEQNO = 0x91"
definition CMD_OBSERVE :: int where [mc_consts]: "CMD_OBSERVE = 0x92"
definition CMD_OPEN :: int where [mc_consts]: "CMD_OPEN = 0x50"
definition CMD_ADD_STREAM :: int where [mc_consts]: "CMD_ADD_STREAM = 0x51"
definition CMD_CLOSE_STREAM :: int where [mc_consts]: "CMD_CLOSE_STREAM = 0x52"
definition CMD_STREAM_REQ :: int where [mc_consts]: "CMD_STREAM_REQ = 0x53"
definition CMD_GET_FAILOVER_LOG :: int where [mc_consts]: "CMD_GET_FAILOVER_LOG = 0x54"
definition CMD_STREAM_END :: int where [mc_consts]: "CMD_STREAM_END = 0x55"
definition CMD_SNAPSHOT_MARKER :: int where [mc_consts]: "CMD_SNAPSHOT_MARKER = 0x56"
definition CMD_MUTATION :: int where [mc_consts]: "CMD_MUTATION = 0x57"
definition CMD_DELETION :: int where [mc_consts]: "CMD_DELETION = 0x58"
definition CMD_EXPIRATION :: int where [mc_consts]: "CMD_EXPIRATION = 0x59"
definition CMD_SET_VB_STATE :: int where [mc_consts]: "CMD_SET_VB_STATE = 0x5b"
definition CMD_UPR_NOOP :: int where [mc_consts]: "CMD_UPR_NOOP = 0x5c"
definition CMD_UPR_ACK :: int where [mc_consts]: "CMD_UPR_ACK = 0x5d"
definition CMD_FLOW_CONTROL :: int where [mc_consts]: "CMD_FLOW_CONTROL = 0x5e"
definition CMD_SYSTEM_EVENT :: int where [mc_consts]: "CMD_SYSTEM_EVENT = 0x5f"
definition CMD_SASL_LIST_MECHS :: int where [mc_consts]: "CMD_SASL_LIST_MECHS = 0x20"
definition CMD_SASL_AUTH :: int where [mc_consts]: "CMD_SASL_AUTH = 0x21"
definition CMD_SASL_STEP :: int where [mc_consts]: "CMD_SASL_STEP = 0x22"
definition CMD_CREATE_BUCKET :: int where [mc_consts]: "CMD_CREATE_BUCKET = 0x85"
definition CMD_DELETE_BUCKET :: int where [mc_consts]: "CMD_DELETE_BUCKET = 0x86"
definition CMD_LIST_BUCKETS :: int where [mc_consts]: "CMD_LIST_BUCKETS = 0x87"
definition CMD_EXPAND_BUCKET :: int where [mc_consts]: "CMD_EXPAND_BUCKET = 0x88"
definition CMD_SELECT_BUCKET :: int where [mc_consts]: "CMD_SELECT_BUCKET = 0x89"
definition CMD_STOP_PERSISTENCE :: int where [mc_consts]: "CMD_STOP_PERSISTENCE = 0x80"
definition CMD_START_PERSISTENCE :: int where [mc_consts]: "CMD_START_PERSISTENCE = 0x81"
definition CMD_SET_FLUSH_PARAM :: int where [mc_consts]: "CMD_SET_FLUSH_PARAM = 0x82"
definition CMD_SET_PARAM :: int where [mc_consts]: "CMD_SET_PARAM = 0x82"
definition CMD_SET_TAP_PARAM :: int where [mc_consts]: "CMD_SET_TAP_PARAM = 0x92"
definition CMD_EVICT_KEY :: int where [mc_consts]: "CMD_EVICT_KEY = 0x93"
definition CMD_RESTORE_FILE :: int where [mc_consts]: "CMD_RESTORE_FILE = 0x98"
definition CMD_RESTORE_ABORT :: int where [mc_consts]: "CMD_RESTORE_ABORT = 0x99"
definition CMD_RESTORE_COMPLETE :: int where [mc_consts]: "CMD_RESTORE_COMPLETE = 0x9a"
definition CMD_START_ONLINEUPDATE :: int where [mc_consts]: "CMD_START_ONLINEUPDATE = 0x9b"
definition CMD_COMPLETE_ONLINEUPDATE :: int where [mc_consts]: "CMD_COMPLETE_ONLINEUPDATE = 0x9c"
definition CMD_REVERT_ONLINEUPDATE :: int where [mc_consts]: "CMD_REVERT_ONLINEUPDATE = 0x9d"
definition CMD_DEREGISTER_TAP_CLIENT :: int where [mc_consts]: "CMD_DEREGISTER_TAP_CLIENT = 0x9e"
definition CMD_RESET_REPLICATION_CHAIN :: int where [mc_consts]: "CMD_RESET_REPLICATION_CHAIN = 0x9f"
definition CMD_GET_META :: int where [mc_consts]: "CMD_GET_META = 0xa0"
definition CMD_GETQ_META :: int where [mc_consts]: "CMD_GETQ_META = 0xa1"
definition CMD_SET_WITH_META :: int where [mc_consts]: "CMD_SET_WITH_META = 0xa2"
definition CMD_SETQ_WITH_META :: int where [mc_consts]: "CMD_SETQ_WITH_META = 0xa3"
definition CMD_ADD_WITH_META :: int where [mc_consts]: "CMD_ADD_WITH_META = 0xa4"
definition CMD_ADDQ_WITH_META :: int where [mc_consts]: "CMD_ADDQ_WITH_META = 0xa5"
definition CMD_DELETE_WITH_META :: int where [mc_consts]: "CMD_DELETE_WITH_META = 0xa8"
definition CMD_DELETEQ_WITH_META :: int where [mc_consts]: "CMD_DELETEQ_WITH_META = 0xa9"
definition CMD_SET_DRIFT_COUNTER_STATE :: int where [mc_consts]: "CMD_SET_DRIFT_COUNTER_STATE = 0xc1"
definition CMD_GET_ADJUSTED_TIME :: int where [mc_consts]: "CMD_GET_ADJUSTED_TIME = 0xc2"
definition META_ADJUSTED_TIME :: int where [mc_consts]: "META_ADJUSTED_TIME = 0x1"
definition META_CONFLICT_RESOLUTION_MODE :: int where [mc_consts]: "META_CONFLICT_RESOLUTION_MODE = 0x2"
definition CMD_TAP_CONNECT :: int where [mc_consts]: "CMD_TAP_CONNECT = 0x40"
definition CMD_TAP_MUTATION :: int where [mc_consts]: "CMD_TAP_MUTATION = 0x41"
definition CMD_TAP_DELETE :: int where [mc_consts]: "CMD_TAP_DELETE = 0x42"
definition CMD_TAP_FLUSH :: int where [mc_consts]: "CMD_TAP_FLUSH = 0x43"
definition CMD_TAP_OPAQUE :: int where [mc_consts]: "CMD_TAP_OPAQUE = 0x44"
definition CMD_TAP_VBUCKET_SET :: int where [mc_consts]: "CMD_TAP_VBUCKET_SET = 0x45"
definition CMD_TAP_CHECKPOINT_START :: int where [mc_consts]: "CMD_TAP_CHECKPOINT_START = 0x46"
definition CMD_TAP_CHECKPOINT_END :: int where [mc_consts]: "CMD_TAP_CHECKPOINT_END = 0x47"
definition CMD_SET_VBUCKET_STATE :: int where [mc_consts]: "CMD_SET_VBUCKET_STATE = 0x3d"
definition CMD_GET_VBUCKET_STATE :: int where [mc_consts]: "CMD_GET_VBUCKET_STATE = 0x3e"
definition CMD_DELETE_VBUCKET :: int where [mc_consts]: "CMD_DELETE_VBUCKET = 0x3f"
definition CMD_GET_LOCKED :: int where [mc_consts]: "CMD_GET_LOCKED = 0x94"
definition CMD_COMPACT_DB :: int where [mc_consts]: "CMD_COMPACT_DB = 0xb3"
definition CMD_GET_RANDOM_KEY :: int where [mc_consts]: "CMD_GET_RANDOM_KEY = 0xb6"
definition CMD_COLLECTIONS_SET_MANIFEST :: int where [mc_consts]: "CMD_COLLECTIONS_SET_MANIFEST = 0xb9"
definition CMD_COLLECTIONS_GET_MANIFEST :: int where [mc_consts]: "CMD_COLLECTIONS_GET_MANIFEST = 0xba"
definition CMD_COLLECTIONS_GET_ID :: int where [mc_consts]: "CMD_COLLECTIONS_GET_ID = 0xbb"
definition CMD_COLLECTIONS_GET_SCOPE_ID :: int where [mc_consts]: "CMD_COLLECTIONS_GET_SCOPE_ID = 0xbc"
definition CMD_GET_ERROR_MAP :: int where [mc_consts]: "CMD_GET_ERROR_MAP = 0xfe"
definition CMD_SYNC :: int where [mc_consts]: "CMD_SYNC = 0x96"
definition CMD_SYNC_EVENT_PERSISTED :: int where [mc_consts]: "CMD_SYNC_EVENT_PERSISTED = 1"
definition CMD_SYNC_EVENT_MODIFED :: int where [mc_consts]: "CMD_SYNC_EVENT_MODIFED = 2"
definition CMD_SYNC_EVENT_DELETED :: int where [mc_consts]: "CMD_SYNC_EVENT_DELETED = 3"
definition CMD_SYNC_EVENT_REPLICATED :: int where [mc_consts]: "CMD_SYNC_EVENT_REPLICATED = 4"
definition CMD_SYNC_INVALID_KEY :: int where [mc_consts]: "CMD_SYNC_INVALID_KEY = 5"
definition CMD_SYNC_INVALID_CAS :: int where [mc_consts]: "CMD_SYNC_INVALID_CAS = 6"
definition VB_STATE_ACTIVE :: int where [mc_consts]: "VB_STATE_ACTIVE = 1"
definition VB_STATE_REPLICA :: int where [mc_consts]: "VB_STATE_REPLICA = 2"
definition VB_STATE_PENDING :: int where [mc_consts]: "VB_STATE_PENDING = 3"
definition VB_STATE_DEAD :: int where [mc_consts]: "VB_STATE_DEAD = 4"
definition ENGINE_PARAM_FLUSH :: int where [mc_consts]: "ENGINE_PARAM_FLUSH = 1"
definition ENGINE_PARAM_TAP :: int where [mc_consts]: "ENGINE_PARAM_TAP = 2"
definition ENGINE_PARAM_REPLICATION :: int where [mc_consts]: "ENGINE_PARAM_REPLICATION = 2"
definition ENGINE_PARAM_CHECKPOINT :: int where [mc_consts]: "ENGINE_PARAM_CHECKPOINT = 3"
definition ENGINE_PARAM_DCP :: int where [mc_consts]: "ENGINE_PARAM_DCP = 4"
definition ENGINE_PARAM_VBUCKET :: int where [mc_consts]: "ENGINE_PARAM_VBUCKET = 5"
definition TAP_OPAQUE_ENABLE_AUTO_NACK :: int where [mc_consts]: "TAP_OPAQUE_ENABLE_AUTO_NACK = 0"
definition TAP_OPAQUE_INITIAL_VBUCKET_STREAM :: int where [mc_consts]: "TAP_OPAQUE_INITIAL_VBUCKET_STREAM = 1"
definition TAP_OPAQUE_ENABLE_CHECKPOINT_SYNC :: int where [mc_consts]: "TAP_OPAQUE_ENABLE_CHECKPOINT_SYNC = 2"
definition TAP_OPAQUE_OPEN_CHECKPOINT :: int where [mc_consts]: "TAP_OPAQUE_OPEN_CHECKPOINT = 3"
definition TAP_FLAG_BACKFILL :: int where [mc_consts]: "TAP_FLAG_BACKFILL = 0x01"
definition TAP_FLAG_DUMP :: int where [mc_consts]: "TAP_FLAG_DUMP = 0x02"
definition TAP_FLAG_LIST_VBUCKETS :: int where [mc_consts]: "TAP_FLAG_LIST_VBUCKETS = 0x04"
definition TAP_FLAG_TAKEOVER_VBUCKETS :: int where [mc_consts]: "TAP_FLAG_TAKEOVER_VBUCKETS = 0x08"
definition TAP_FLAG_SUPPORT_ACK :: int where [mc_consts]: "TAP_FLAG_SUPPORT_ACK = 0x10"
definition TAP_FLAG_REQUEST_KEYS_ONLY :: int where [mc_consts]: "TAP_FLAG_REQUEST_KEYS_ONLY = 0x20"
definition TAP_FLAG_CHECKPOINT :: int where [mc_consts]: "TAP_FLAG_CHECKPOINT = 0x40"
definition TAP_FLAG_REGISTERED_CLIENT :: int where [mc_consts]: "TAP_FLAG_REGISTERED_CLIENT = 0x80"
definition TAP_FLAG_ACK :: int where [mc_consts]: "TAP_FLAG_ACK = 0x01"
definition TAP_FLAG_NO_VALUE :: int where [mc_consts]: "TAP_FLAG_NO_VALUE = 0x02"
definition FLAG_OPEN_CONSUMER :: int where [mc_consts]: "FLAG_OPEN_CONSUMER = 0x00"
definition FLAG_OPEN_PRODUCER :: int where [mc_consts]: "FLAG_OPEN_PRODUCER = 0x01"
definition FLAG_OPEN_NOTIFIER :: int where [mc_consts]: "FLAG_OPEN_NOTIFIER = 0x02"
definition FLAG_OPEN_INCLUDE_XATTRS :: int where [mc_consts]: "FLAG_OPEN_INCLUDE_XATTRS = 0x4"
definition FLAG_OPEN_INCLUDE_DELETE_TIMES :: int where [mc_consts]: "FLAG_OPEN_INCLUDE_DELETE_TIMES = 0x20"
definition CMD_SET_CLUSTER_CONFIG :: int where [mc_consts]: "CMD_SET_CLUSTER_CONFIG = 0xb4"
definition CMD_GET_CLUSTER_CONFIG :: int where [mc_consts]: "CMD_GET_CLUSTER_CONFIG = 0xb5"
definition CMD_SUBDOC_GET :: int where [mc_consts]: "CMD_SUBDOC_GET = 0xc5"
definition CMD_SUBDOC_EXISTS :: int where [mc_consts]: "CMD_SUBDOC_EXISTS = 0xc6"
definition CMD_SUBDOC_DICT_ADD :: int where [mc_consts]: "CMD_SUBDOC_DICT_ADD = 0xc7"
definition CMD_SUBDOC_DICT_UPSERT :: int where [mc_consts]: "CMD_SUBDOC_DICT_UPSERT = 0xc8"
definition CMD_SUBDOC_DELETE :: int where [mc_consts]: "CMD_SUBDOC_DELETE = 0xc9"
definition CMD_SUBDOC_REPLACE :: int where [mc_consts]: "CMD_SUBDOC_REPLACE = 0xca"
definition CMD_SUBDOC_ARRAY_PUSH_LAST :: int where [mc_consts]: "CMD_SUBDOC_ARRAY_PUSH_LAST = 0xcb"
definition CMD_SUBDOC_ARRAY_PUSH_FIRST :: int where [mc_consts]: "CMD_SUBDOC_ARRAY_PUSH_FIRST = 0xcc"
definition CMD_SUBDOC_ARRAY_INSERT :: int where [mc_consts]: "CMD_SUBDOC_ARRAY_INSERT = 0xcd"
definition CMD_SUBDOC_ARRAY_ADD_UNIQUE :: int where [mc_consts]: "CMD_SUBDOC_ARRAY_ADD_UNIQUE = 0xce"
definition CMD_SUBDOC_COUNTER :: int where [mc_consts]: "CMD_SUBDOC_COUNTER = 0xcf"
definition CMD_SUBDOC_MULTI_LOOKUP :: int where [mc_consts]: "CMD_SUBDOC_MULTI_LOOKUP = 0xd0"
definition CMD_SUBDOC_MULTI_MUTATION :: int where [mc_consts]: "CMD_SUBDOC_MULTI_MUTATION = 0xd1"
definition SUBDOC_FLAGS_MKDIR_P :: int where [mc_consts]: "SUBDOC_FLAGS_MKDIR_P = 0x01"
definition CR :: int where [mc_consts]: "CR = 0x01"
definition EXTENDED_META_DATA_VERSION :: int where [mc_consts]: "EXTENDED_META_DATA_VERSION = 0x1"
definition META_DATA_ID_ADJUSTED_TIME :: int where [mc_consts]: "META_DATA_ID_ADJUSTED_TIME = 0x1"
definition META_DATA_ID_ADJUSTED_TIME_SIZE :: int where [mc_consts]: "META_DATA_ID_ADJUSTED_TIME_SIZE = 8"
definition META_DATA_ID_CONFLICT_RESOLUTION_MODE :: int where [mc_consts]: "META_DATA_ID_CONFLICT_RESOLUTION_MODE = 0x2"
definition META_DATA_ID_CONFLICT_RESOLUTION_MODE_SIZE :: int where [mc_consts]: "META_DATA_ID_CONFLICT_RESOLUTION_MODE_SIZE = 1"
definition INCRDECR_SPECIAL :: int where [mc_consts]: "INCRDECR_SPECIAL = 0xffffffff"
definition MAGIC_BYTE :: int where [mc_consts]: "MAGIC_BYTE = 0x80"
definition REQ_MAGIC_BYTE :: int where [mc_consts]: "REQ_MAGIC_BYTE = 0x80"
definition RES_MAGIC_BYTE :: int where [mc_consts]: "RES_MAGIC_BYTE = 0x81"
definition ALT_REQ_MAGIC_BYTE :: int where [mc_consts]: "ALT_REQ_MAGIC_BYTE = 0x08"
definition ALT_RES_MAGIC_BYTE :: int where [mc_consts]: "ALT_RES_MAGIC_BYTE = 0x18"
definition ERR_UNKNOWN_CMD :: int where [mc_consts]: "ERR_UNKNOWN_CMD = 0x81"
definition ERR_NOT_FOUND :: int where [mc_consts]: "ERR_NOT_FOUND = 0x1"
definition ERR_EXISTS :: int where [mc_consts]: "ERR_EXISTS = 0x2"
definition ERR_AUTH :: int where [mc_consts]: "ERR_AUTH = 0x20"
definition NotFoundError :: int where [mc_consts]: "NotFoundError = 0xD"
definition ERR_SUCCESS :: int where [mc_consts]: "ERR_SUCCESS = 0x00"
definition ERR_KEY_ENOENT :: int where [mc_consts]: "ERR_KEY_ENOENT = 0x01"
definition ERR_2BIG :: int where [mc_consts]: "ERR_2BIG = 0x03"
definition ERR_EINVAL :: int where [mc_consts]: "ERR_EINVAL = 0x04"
definition ERR_NOT_STORED :: int where [mc_consts]: "ERR_NOT_STORED = 0x05"
definition ERR_BAD_DELTA :: int where [mc_consts]: "ERR_BAD_DELTA = 0x06"
definition ERR_NOT_MY_VBUCKET :: int where [mc_consts]: "ERR_NOT_MY_VBUCKET = 0x07"
definition ERR_AUTH_CONTINUE :: int where [mc_consts]: "ERR_AUTH_CONTINUE = 0x21"
definition ERR_ERANGE :: int where [mc_consts]: "ERR_ERANGE = 0x22"
definition ERR_ENOMEM :: int where [mc_consts]: "ERR_ENOMEM = 0x82"
definition ERR_NOT_SUPPORTED :: int where [mc_consts]: "ERR_NOT_SUPPORTED = 0x83"
definition ERR_EINTERNAL :: int where [mc_consts]: "ERR_EINTERNAL = 0x84"
definition ERR_EBUSY :: int where [mc_consts]: "ERR_EBUSY = 0x85"
definition ERR_ETMPFAIL :: int where [mc_consts]: "ERR_ETMPFAIL = 0x86"
definition META_REVID :: int where [mc_consts]: "META_REVID = 0x01"
definition ERR_SUBDOC_PATH_ENOENT :: int where [mc_consts]: "ERR_SUBDOC_PATH_ENOENT = 0xc0"
definition ERR_SUBDOC_PATH_MISMATCH :: int where [mc_consts]: "ERR_SUBDOC_PATH_MISMATCH = 0xc1"
definition ERR_SUBDOC_PATH_EINVAL :: int where [mc_consts]: "ERR_SUBDOC_PATH_EINVAL = 0xc2"
definition ERR_SUBDOC_PATH_E2BIG :: int where [mc_consts]: "ERR_SUBDOC_PATH_E2BIG = 0xc3"
definition ERR_SUBDOC_DOC_ETOODEEP :: int where [mc_consts]: "ERR_SUBDOC_DOC_ETOODEEP = 0xc4"
definition ERR_SUBDOC_VALUE_CANTINSERT :: int where [mc_consts]: "ERR_SUBDOC_VALUE_CANTINSERT = 0xc5"
definition ERR_SUBDOC_DOC_NOTJSON :: int where [mc_consts]: "ERR_SUBDOC_DOC_NOTJSON = 0xc6"
definition ERR_SUBDOC_NUM_ERANGE :: int where [mc_consts]: "ERR_SUBDOC_NUM_ERANGE = 0xc7"
definition ERR_SUBDOC_DELTA_ERANGE :: int where [mc_consts]: "ERR_SUBDOC_DELTA_ERANGE = 0xc8"
definition ERR_SUBDOC_PATH_EEXISTS :: int where [mc_consts]: "ERR_SUBDOC_PATH_EEXISTS = 0xc9"
definition ERR_SUBDOC_VALUE_TOODEEP :: int where [mc_consts]: "ERR_SUBDOC_VALUE_TOODEEP = 0xca"
definition ERR_SUBDOC_INVALID_CMD_COMBO :: int where [mc_consts]: "ERR_SUBDOC_INVALID_CMD_COMBO = 0xcb"
definition ERR_SUBDOC_MULTI_PATH_FAILURE :: int where [mc_consts]: "ERR_SUBDOC_MULTI_PATH_FAILURE = 0xcc"
definition PROTOCOL_BINARY_FEATURE_MUTATION_SEQNO :: int where [mc_consts]: "PROTOCOL_BINARY_FEATURE_MUTATION_SEQNO = 0x04"
definition FEATURE_TCPDELAY :: int where [mc_consts]: "FEATURE_TCPDELAY = 0x05"
definition FEATURE_XATTR :: int where [mc_consts]: "FEATURE_XATTR = 0x06"
definition FEATURE_XERROR :: int where [mc_consts]: "FEATURE_XERROR = 0x07"
definition FEATURE_SELECT_BUCKET :: int where [mc_consts]: "FEATURE_SELECT_BUCKET = 0x08"
definition FEATURE_COLLECTIONS :: int where [mc_consts]: "FEATURE_COLLECTIONS = 0x12"
definition FEATURE_DATATYPE :: int where [mc_consts]: "FEATURE_DATATYPE = 0x01"
definition FEATURE_TLS :: int where [mc_consts]: "FEATURE_TLS = 0x2"
definition FEATURE_TCPNODELAY :: int where [mc_consts]: "FEATURE_TCPNODELAY = 0x03"
definition FEATURE_MUTATION_SEQNO :: int where [mc_consts]: "FEATURE_MUTATION_SEQNO = 0x04"
definition FEATURE_SNAPPY :: int where [mc_consts]: "FEATURE_SNAPPY = 0x000a"
definition SKIP_CONFLICT_RESOLUTION_FLAG :: int where [mc_consts]: "SKIP_CONFLICT_RESOLUTION_FLAG = 0x1"
definition FORCE_ACCEPT_WITH_META_OPS :: int where [mc_consts]: "FORCE_ACCEPT_WITH_META_OPS = 0x2"
definition REGENERATE_CAS :: int where [mc_consts]: "REGENERATE_CAS = 0x4"
definition DATATYPE_XATTR :: int where [mc_consts]: "DATATYPE_XATTR = 0x4"
definition DURABILITY_LEVEL_MAJORITY :: int where [mc_consts]: "DURABILITY_LEVEL_MAJORITY = 0x1"
definition EVENT_CREATE_COLLECTION :: int where [mc_consts]: "EVENT_CREATE_COLLECTION = 0x0"
definition EVENT_DELETE_COLLECTION :: int where [mc_consts]: "EVENT_DELETE_COLLECTION = 0x1"
definition EVENT_FLUSH_COLLECTION :: int where [mc_consts]: "EVENT_FLUSH_COLLECTION = 0x2"
definition EVENT_CREATE_SCOPE :: int where [mc_consts]: "EVENT_CREATE_SCOPE = 0x3"
definition EVENT_DELETE_SCOPE :: int where [mc_consts]: "EVENT_DELETE_SCOPE = 0x4"
definition ERR_ROLLBACK :: int where [mc_consts]: "ERR_ROLLBACK = 0x23"

text \<open>The trailing commas of three \<^verbatim>\<open>PROTOCOL_BINARY_FEATURE_*\<close> assignments make them tuples; they
  are not integer constants and nothing in the repository uses them.\<close>

definition consts_command :: "(string \<times> int) list" where
  "consts_command = [
     (''CMD_GET'', CMD_GET),
     (''CMD_SET'', CMD_SET),
     (''CMD_SETQ'', CMD_SETQ),
     (''CMD_ADD'', CMD_ADD),
     (''CMD_REPLACE'', CMD_REPLACE),
     (''CMD_DELETE'', CMD_DELETE),
     (''CMD_INCR'', CMD_INCR),
     (''CMD_DECR'', CMD_DECR),
     (''CMD_QUIT'', CMD_QUIT),
     (''CMD_FLUSH'', CMD_FLUSH),
     (''CMD_GETQ'', CMD_GETQ),
     (''CMD_NOOP'', CMD_NOOP),
     (''CMD_VERSION'', CMD_VERSION),
     (''CMD_STAT'', CMD_STAT),
     (''CMD_APPEND'', CMD_APPEND),
     (''CMD_PREPEND'', CMD_PREPEND),
     (''CMD_DELETEQ'', CMD_DELETEQ),
     (''CMD_VERBOSE'', CMD_VERBOSE),
     (''CMD_TOUCH'', CMD_TOUCH),
     (''CMD_GAT'', CMD_GAT),
     (''CMD_HELLO'', CMD_HELLO),
     (''CMD_GET_REPLICA'', CMD_GET_REPLICA),
     (''CMD_OBSERVE_SEQNO'', CMD_OBSERVE_SEQNO),
     (''CMD_OBSERVE'', CMD_OBSERVE),
     (''CMD_OPEN'', CMD_OPEN),
     (''CMD_ADD_STREAM'', CMD_ADD_STREAM),
     (''CMD_CLOSE_STREAM'', CMD_CLOSE_STREAM),
     (''CMD_STREAM_REQ'', CMD_STREAM_REQ),
     (''CMD_GET_FAILOVER_LOG'', CMD_GET_FAILOVER_LOG),
     (''CMD_STREAM_END'', CMD_STREAM_END),
     (''CMD_SNAPSHOT_MARKER'', CMD_SNAPSHOT_MARKER),
     (''CMD_MUTATION'', CMD_MUTATION),
     (''CMD_DELETION'', CMD_DELETION),
     (''CMD_EXPIRATION'', CMD_EXPIRATION),
     (''CMD_SET_VB_STATE'', CMD_SET_VB_STATE),
     (''CMD_UPR_NOOP'', CMD_UPR_NOOP),
     (''CMD_UPR_ACK'', CMD_UPR_ACK),
     (''CMD_FLOW_CONTROL'', CMD_FLOW_CONTROL),
     (''CMD_SYSTEM_EVENT'', CMD_SYSTEM_EVENT)]"

definition consts_engine :: "(string \<times> int) list" where
  "consts_engine = [
     (''CMD_SASL_LIST_MECHS'', CMD_SASL_LIST_MECHS),
     (''CMD_SASL_AUTH'', CMD_SASL_AUTH),
     (''CMD_SASL_STEP'', CMD_SASL_STEP),
     (''CMD_CREATE_BUCKET'', CMD_CREATE_BUCKET),
     (''CMD_DELETE_BUCKET'', CMD_DELETE_BUCKET),
     (''CMD_LIST_BUCKETS'', CMD_LIST_BUCKETS),
     (''CMD_EXPAND_BUCKET'', CMD_EXPAND_BUCKET),
     (''CMD_SELECT_BUCKET'', CMD_SELECT_BUCKET),
     (''CMD_STOP_PERSISTENCE'', CMD_STOP_PERSISTENCE),
     (''CMD_START_PERSISTENCE'', CMD_START_PERSISTENCE),
     (''CMD_SET_FLUSH_PARAM'', CMD_SET_FLUSH_PARAM),
     (''CMD_SET_PARAM'', CMD_SET_PARAM),
     (''CMD_SET_TAP_PARAM'', CMD_SET_TAP_PARAM),
     (''CMD_EVICT_KEY'', CMD_EVICT_KEY),
     (''CMD_RESTORE_FILE'', CMD_RESTORE_FILE),
     (''CMD_RESTORE_ABORT'', CMD_RESTORE_ABORT),
     (''CMD_RESTORE_COMPLETE'', CMD_RESTORE_COMPLETE),
     (''CMD_START_ONLINEUPDATE'', CMD_START_ONLINEUPDATE),
     (''CMD_COMPLETE_ONLINEUPDATE'', CMD_COMPLETE_ONLINEUPDATE),
     (''CMD_REVERT_ONLINEUPDATE'', CMD_REVERT_ONLINEUPDATE),
     (''CMD_DEREGISTER_TAP_CLIENT'', CMD_DEREGISTER_TAP_CLIENT),
     (''CMD_RESET_REPLICATION_CHAIN'', CMD_RESET_REPLICATION_CHAIN),
     (''CMD_GET_META'', CMD_GET_META),
     (''CMD_GETQ_META'', CMD_GETQ_META),
     (''CMD_SET_WITH_META'', CMD_SET_WITH_META),
     (''CMD_SETQ_WITH_META'', CMD_SETQ_WITH_META),
     (''CMD_ADD_WITH_META'', CMD_ADD_WITH_META),
     (''CMD_ADDQ_WITH_META'', CMD_ADDQ_WITH_META),
     (''CMD_DELETE_WITH_META'', CMD_DELETE_WITH_META),
     (''CMD_DELETEQ_WITH_META'', CMD_DELETEQ_WITH_META),
     (''CMD_SET_DRIFT_COUNTER_STATE'', CMD_SET_DRIFT_COUNTER_STATE),
     (''CMD_GET_ADJUSTED_TIME'', CMD_GET_ADJUSTED_TIME),
     (''META_ADJUSTED_TIME'', META_ADJUSTED_TIME),
     (''META_CONFLICT_RESOLUTION_MODE'', META_CONFLICT_RESOLUTION_MODE),
     (''CMD_TAP_CONNECT'', CMD_TAP_CONNECT),
     (''CMD_TAP_MUTATION'', CMD_TAP_MUTATION),
     (''CMD_TAP_DELETE'', CMD_TAP_DELETE),
     (''CMD_TAP_FLUSH'', CMD_TAP_FLUSH),
     (''CMD_TAP_OPAQUE'', CMD_TAP_OPAQUE),
     (''CMD_TAP_VBUCKET_SET'', CMD_TAP_VBUCKET_SET),
     (''CMD_TAP_CHECKPOINT_START'', CMD_TAP_CHECKPOINT_START),
     (''CMD_TAP_CHECKPOINT_END'', CMD_TAP_CHECKPOINT_END),
     (''CMD_SET_VBUCKET_STATE'', CMD_SET_VBUCKET_STATE),
     (''CMD_GET_VBUCKET_STATE'', CMD_GET_VBUCKET_STATE),
     (''CMD_DELETE_VBUCKET'', CMD_DELETE_VBUCKET),
     (''CMD_GET_LOCKED'', CMD_GET_LOCKED),
     (''CMD_COMPACT_DB'', CMD_COMPACT_DB),
     (''CMD_GET_RANDOM_KEY'', CMD_GET_RANDOM_KEY),
     (''CMD_COLLECTIONS_SET_MANIFEST'', CMD_COLLECTIONS_SET_MANIFEST),
     (''CMD_COLLECTIONS_GET_MANIFEST'', CMD_COLLECTIONS_GET_MANIFEST),
     (''CMD_COLLECTIONS_GET_ID'', CMD_COLLECTIONS_GET_ID),
     (''CMD_COLLECTIONS_GET_SCOPE_ID'', CMD_COLLECTIONS_GET_SCOPE_ID),
     (''CMD_GET_ERROR_MAP'', CMD_GET_ERROR_MAP)]"

definition consts_sync :: "(string \<times> int) list" where
  "consts_sync = [
     (''CMD_SYNC'', CMD_SYNC),
     (''CMD_SYNC_EVENT_PERSISTED'', CMD_SYNC_EVENT_PERSISTED),
     (''CMD_SYNC_EVENT_MODIFED'', CMD_SYNC_EVENT_MODIFED),
     (''CMD_SYNC_EVENT_DELETED'', CMD_SYNC_EVENT_DELETED),
     (''CMD_SYNC_EVENT_REPLICATED'', CMD_SYNC_EVENT_REPLICATED),
     (''CMD_SYNC_INVALID_KEY'', CMD_SYNC_INVALID_KEY),
     (''CMD_SYNC_INVALID_CAS'', CMD_SYNC_INVALID_CAS),
     (''VB_STATE_ACTIVE'', VB_STATE_ACTIVE),
     (''VB_STATE_REPLICA'', VB_STATE_REPLICA),
     (''VB_STATE_PENDING'', VB_STATE_PENDING),
     (''VB_STATE_DEAD'', VB_STATE_DEAD),
     (''ENGINE_PARAM_FLUSH'', ENGINE_PARAM_FLUSH),
     (''ENGINE_PARAM_TAP'', ENGINE_PARAM_TAP),
     (''ENGINE_PARAM_REPLICATION'', ENGINE_PARAM_REPLICATION),
     (''ENGINE_PARAM_CHECKPOINT'', ENGINE_PARAM_CHECKPOINT),
     (''ENGINE_PARAM_DCP'', ENGINE_PARAM_DCP),
     (''ENGINE_PARAM_VBUCKET'', ENGINE_PARAM_VBUCKET)]"

section \<open>Format strings\<close>

definition SET_PKT_FMT :: string where [mc_consts]: "SET_PKT_FMT = ''>II''"
definition META_CMD_FMT :: string where [mc_consts]: "META_CMD_FMT = ''>IIQQ''"
definition EXTENDED_META_CMD_FMT :: string where [mc_consts]: "EXTENDED_META_CMD_FMT = ''>IIQQIH''"
definition SKIP_META_CMD_FMT :: string where [mc_consts]: "SKIP_META_CMD_FMT = ''>IIQQI''"
definition SET_DRIFT_COUNTER_STATE_REQ_FMT :: string where [mc_consts]: "SET_DRIFT_COUNTER_STATE_REQ_FMT = ''>qB''"
definition GET_ADJUSTED_TIME_RES_FMT :: string where [mc_consts]: "GET_ADJUSTED_TIME_RES_FMT = ''>Q''"
definition EXTENDED_META_DATA_FMT :: string where [mc_consts]: "EXTENDED_META_DATA_FMT = ''>BBHQBHB''"
definition GET_RES_FMT :: string where [mc_consts]: "GET_RES_FMT = ''>I''"
definition DEL_PKT_FMT :: string where [mc_consts]: "DEL_PKT_FMT = ''''"
definition TAP_MUTATION_PKT_FMT :: string where [mc_consts]: "TAP_MUTATION_PKT_FMT = ''>HHbxxxII''"
definition TAP_GENERAL_PKT_FMT :: string where [mc_consts]: "TAP_GENERAL_PKT_FMT = ''>HHbxxx''"
definition INCRDECR_PKT_FMT :: string where [mc_consts]: "INCRDECR_PKT_FMT = ''>QQI''"
definition INCRDECR_RES_FMT :: string where [mc_consts]: "INCRDECR_RES_FMT = ''>Q''"
definition INCRDECR_RES_WITH_UUID_AND_SEQNO_FMT :: string where [mc_consts]: "INCRDECR_RES_WITH_UUID_AND_SEQNO_FMT = ''>QQQ''"
definition FLUSH_PKT_FMT :: string where [mc_consts]: "FLUSH_PKT_FMT = ''>I''"
definition META_EXTRA_FMT :: string where [mc_consts]: "META_EXTRA_FMT = ''>IIQQH''"
definition TOUCH_PKT_FMT :: string where [mc_consts]: "TOUCH_PKT_FMT = ''>I''"
definition GAT_PKT_FMT :: string where [mc_consts]: "GAT_PKT_FMT = ''>I''"
definition GETL_PKT_FMT :: string where [mc_consts]: "GETL_PKT_FMT = ''>I''"
definition SET_PARAM_FMT :: string where [mc_consts]: "SET_PARAM_FMT = ''>I''"
definition VB_SET_PKT_FMT :: string where [mc_consts]: "VB_SET_PKT_FMT = ''>I''"
definition COMPACT_DB_PKT_FMT :: string where [mc_consts]: "COMPACT_DB_PKT_FMT = ''>QQBxxxxxxx''"
definition REQ_PKT_FMT :: string where [mc_consts]: "REQ_PKT_FMT = ''>BBHBBHIIQ''"
definition REQ_PKT_SD_EXTRAS :: string where [mc_consts]: "REQ_PKT_SD_EXTRAS = ''>HB''"
definition REQ_PKT_SD_EXTRAS_EXPIRY :: string where [mc_consts]: "REQ_PKT_SD_EXTRAS_EXPIRY = ''>HBI''"
definition RES_PKT_FMT :: string where [mc_consts]: "RES_PKT_FMT = ''>BBHBBHIIQ''"
definition ALT_RES_PKT_FMT :: string where [mc_consts]: "ALT_RES_PKT_FMT = ''>BBBBBBHIIQ''"
definition ALT_REQ_PKT_FMT :: string where [mc_consts]: "ALT_REQ_PKT_FMT = ''>BBBBBBHIIQ''"
definition REQ_PKT_SD_MULTI_MUTATE :: string where [mc_consts]: "REQ_PKT_SD_MULTI_MUTATE = ''>BBHI''"

definition MIN_RECV_PACKET :: nat where
  "MIN_RECV_PACKET = calcsize REQ_PKT_FMT"

section \<open>Tables\<close>

definition VB_STATE_NAMES :: "(string, int) dict" where
  "VB_STATE_NAMES = [(''active'', VB_STATE_ACTIVE), (''replica'', VB_STATE_REPLICA),
     (''pending'', VB_STATE_PENDING), (''dead'', VB_STATE_DEAD)]"

definition DCP_Opcode_Dictionary :: "(int, string) dict" where
  "DCP_Opcode_Dictionary = dict_update_all [] [
     (CMD_OPEN, ''CMD_OPEN''),
     (CMD_ADD_STREAM, ''CMD_ADD_STREAM''),
     (CMD_CLOSE_STREAM, ''CMD_CLOSE_STREAM''),
     (CMD_STREAM_REQ, ''CMD_STREAM_REQ''),
     (CMD_GET_FAILOVER_LOG, ''CMD_GET_FAILOVER_LOG''),
     (CMD_STREAM_END, ''CMD_STREAM_END''),
     (CMD_SNAPSHOT_MARKER, ''CMD_SNAPSHOT_MARKER''),
     (CMD_MUTATION, ''CMD_MUTATION''),
     (CMD_DELETION, ''CMD_DELETION''),
     (CMD_EXPIRATION, ''CMD_EXPIRATION''),
     (CMD_FLUSH, ''CMD_FLUSH''),
     (CMD_SET_VB_STATE, ''CMD_SET_VB_STATE''),
     (CMD_UPR_ACK, ''CMD_ACK''),
     (CMD_FLOW_CONTROL, ''CMD_FLOW_CONTROL''),
     (CMD_UPR_NOOP, ''CMD_DCP_NOOP''),
     (CMD_SYSTEM_EVENT, ''CMD_SYSTEM_EVENT'')]"

definition EXTRA_HDR_FMTS :: "(int, string) dict" where
  "EXTRA_HDR_FMTS = dict_update_all [] [
     (CMD_SET, SET_PKT_FMT),
     (CMD_ADD, SET_PKT_FMT),
     (CMD_REPLACE, SET_PKT_FMT),
     (CMD_INCR, INCRDECR_PKT_FMT),
     (CMD_DECR, INCRDECR_PKT_FMT),
     (CMD_DELETE, DEL_PKT_FMT),
     (CMD_FLUSH, FLUSH_PKT_FMT),
     (CMD_TAP_MUTATION, TAP_MUTATION_PKT_FMT),
     (CMD_TAP_DELETE, TAP_GENERAL_PKT_FMT),
     (CMD_TAP_FLUSH, TAP_GENERAL_PKT_FMT),
     (CMD_TAP_OPAQUE, TAP_GENERAL_PKT_FMT),
     (CMD_TAP_VBUCKET_SET, TAP_GENERAL_PKT_FMT),
     (CMD_SET_VBUCKET_STATE, VB_SET_PKT_FMT),
     (CMD_COMPACT_DB, COMPACT_DB_PKT_FMT)]"

text \<open>\<^verbatim>\<open>COMMAND_NAMES\<close> iterates over \<^verbatim>\<open>globals()\<close>, whose order is not specified: \<open>names\<close> lists
  the module's names in the order of the iteration.\<close>

definition consts_before_names :: "(string \<times> int) list" where
  "consts_before_names = consts_command @ consts_engine @ consts_sync"

definition names_step :: "(string \<times> int) list \<Rightarrow> string \<Rightarrow> (int, string) dict \<Rightarrow> (int, string) dict" where
  "names_step cs k d = (case map_of cs k of None \<Rightarrow> d | Some v \<Rightarrow> AList.update v k d)"

definition COMMAND_NAMES :: "string list \<Rightarrow> (int, string) dict" where
  "COMMAND_NAMES names = fold (names_step consts_before_names)
       (filter (\<lambda>k. startswith k ''CMD_'') names) []"

lemma MIN_RECV_PACKET_val [simp]: "MIN_RECV_PACKET = 24"
  by (simp add: MIN_RECV_PACKET_def calcsize_def mc_consts)

section \<open>The names of the opcodes\<close>

definition names_ok :: "(string \<times> int) list \<Rightarrow> (int, string) dict \<Rightarrow> bool" where
  "names_ok cs d \<longleftrightarrow> (\<forall>op nm. map_of d op = Some nm \<longrightarrow> map_of cs nm = Some op \<and> startswith nm ''CMD_'')"

lemma names_step_ok:
  assumes "names_ok cs d" and "startswith k ''CMD_''"
  shows "names_ok cs (names_step cs k d)"
  unfolding names_ok_def
proof (intro allI impI)
  fix op nm
  assume "map_of (names_step cs k d) op = Some nm"
  then have "map_of d op = Some nm \<or> (map_of cs k = Some op \<and> nm = k)"
    by (auto simp: names_step_def split: option.splits if_splits)
  with assms show "map_of cs nm = Some op \<and> startswith nm ''CMD_''"
    unfolding names_ok_def by blast
qed

lemma names_fold_ok:
  "names_ok cs d \<Longrightarrow> \<forall>k\<in>set ks. startswith k ''CMD_'' \<Longrightarrow> names_ok cs (fold (names_step cs) ks d)"
  by (induction ks arbitrary: d) (simp_all add: names_step_ok)

lemma names_fold_has:
  "dict_has d op \<or> (\<exists>k\<in>set ks. map_of cs k = Some op) \<Longrightarrow> dict_has (fold (names_step cs) ks d) op"
proof (induction ks arbitrary: d)
  case (Cons k ks)
  then have "dict_has (names_step cs k d) op \<or> (\<exists>k\<in>set ks. map_of cs k = Some op)"
    by (auto simp: names_step_def split: option.splits)
  with Cons.IH show ?case by simp
qed simp

lemma command_names_ok: "names_ok consts_before_names (COMMAND_NAMES names)"
  unfolding COMMAND_NAMES_def by (rule names_fold_ok) (simp_all add: names_ok_def)

lemma subdoc_unnamed: "\<forall>v\<in>snd ` set consts_before_names. v < 0xc5 \<or> 0xd1 < v"
  by (simp add: consts_before_names_def consts_command_def consts_engine_def consts_sync_def mc_consts)

text \<open>The opcode-to-name table: in whatever order the module's names are enumerated,
  \<^verbatim>\<open>COMMAND_NAMES\<close> gives every opcode it has a \<^verbatim>\<open>CMD_\<close> name with that value, has every opcode
  named before its line, and has no name for the sub-document opcodes, which the module
  assigns after it.\<close>

theorem command_names_sound:
  assumes "set names = fst ` set consts_before_names"
  shows "(\<forall>op nm. map_of (COMMAND_NAMES names) op = Some nm \<longrightarrow>
       map_of consts_before_names nm = Some op \<and> startswith nm ''CMD_'') \<and>
     (\<forall>nm op. startswith nm ''CMD_'' \<and> map_of consts_before_names nm = Some op \<longrightarrow>
       map_of (COMMAND_NAMES names) op \<noteq> None) \<and>
     (\<forall>op. CMD_SUBDOC_GET \<le> op \<and> op \<le> CMD_SUBDOC_MULTI_MUTATION \<longrightarrow>
       map_of (COMMAND_NAMES names) op = None)"
proof -
  note ok = command_names_ok [of names, unfolded names_ok_def]
  have 2: "map_of (COMMAND_NAMES names) op \<noteq> None"
    if nm: "startswith nm ''CMD_'' \<and> map_of consts_before_names nm = Some op" for nm op
  proof -
    have "(nm, op) \<in> set consts_before_names" using nm by (blast dest: map_of_SomeD)
    then have "nm \<in> set names" unfolding assms by force
    with nm have "\<exists>k\<in>set (filter (\<lambda>k. startswith k ''CMD_'') names). map_of consts_before_names k = Some op"
      by auto
    from names_fold_has [OF disjI2, OF this, of "[]"] show ?thesis
      unfolding COMMAND_NAMES_def dict_has_def .
  qed
  have 3: "map_of (COMMAND_NAMES names) op = None"
    if sd: "CMD_SUBDOC_GET \<le> op \<and> op \<le> CMD_SUBDOC_MULTI_MUTATION" for op
  proof (rule ccontr)
    assume "map_of (COMMAND_NAMES names) op \<noteq> None"
    then obtain nm where "map_of consts_before_names nm = Some op" using ok by blast
    then have "(nm, op) \<in> set consts_before_names" by (rule map_of_SomeD)
    then have "op \<in> snd ` set consts_before_names" by force
    then have "op < 0xc5 \<or> 0xd1 < op" using subdoc_unnamed by blast
    with sd show False by (auto simp: mc_consts)
  qed
  show ?thesis using ok 2 3 by blast
qed

theorem command_names_sound_witness:
  "map_of (COMMAND_NAMES (map fst consts_before_names)) 0 \<noteq> None"
proof -
  have "startswith ''CMD_GET'' ''CMD_'' \<and> map_of consts_before_names ''CMD_GET'' = Some 0"
    by (simp add: consts_before_names_def consts_command_def startswith_def mc_consts)
  with command_names_sound [of "map fst consts_before_names"] show ?thesis
    unfolding set_map by blast
qed

end
