(* ===== verification/Mc_Wire.thy ===== *)
theory Mc_Wire
  imports Mc_Constants Crc32
begin

text \<open>
  The wire level of the memcached client (\<^verbatim>\<open>lib/mc_bin_client.py\<close>): the client's state, sending a
  request (\<^verbatim>\<open>_sendMsg\<close>), receiving a response (\<^verbatim>\<open>_recvMsg\<close>) from a socket that delivers the bytes
  in arbitrary pieces, the checks of \<^verbatim>\<open>_handleKeyedResponse\<close>, and the LEB128 coding of
  collection ids.

  The socket is a pair of fields of the client: \<open>outbox\<close> has the bytes sent, \<open>inbox\<close> the pieces
  that the successive \<^verbatim>\<open>recv\<close> calls find; an empty \<open>inbox\<close> is a connection closed by the peer.
  A method is a function from the client to its result and the client afterwards (an
  exception keeps the changes made before it). The code runs on Python 2, where \<^verbatim>\<open>str.encode\<close>
  of a byte string that is not ASCII raises \<^verbatim>\<open>UnicodeError\<close>, a \<^verbatim>\<open>ValueError\<close>.
\<close>

section \<open>The client\<close>

type_synonym err_entry = "string \<times> string" \<comment> \<open>name, desc\<close>

record mc_client =
  vbucketId :: int
  vbucket_count :: int
  feature_flag :: "int set"
  features :: "int set"
  error_map :: "(int, err_entry) dict option"
  error_map_version :: int
  collection_map :: "(string, (string, int) dict) dict"
  collections_supported :: bool
  outbox :: string
  inbox :: "string list"

definition mc_init :: "string list \<Rightarrow> mc_client" where
  "mc_init pieces = \<lparr>vbucketId = 0, vbucket_count = 1024, feature_flag = {}, features = {},
     error_map = None, error_map_version = 1, collection_map = [], collections_supported = False,
     outbox = [], inbox = pieces\<rparr>"

type_synonym 'a mc = "mc_client \<Rightarrow> 'a res \<times> mc_client"

definition mret :: "'a \<Rightarrow> 'a mc" where
  "mret x c = (Inr x, c)"

definition mlift :: "'a res \<Rightarrow> 'a mc" where
  "mlift r c = (r, c)"

definition mbind :: "'a mc \<Rightarrow> ('a \<Rightarrow> 'b mc) \<Rightarrow> 'b mc" where
  "mbind m f c = (case m c of (Inl e, c') \<Rightarrow> (Inl e, c') | (Inr x, c') \<Rightarrow> f x c')"

definition mget :: "(mc_client \<Rightarrow> 'a) \<Rightarrow> 'a mc" where
  "mget f c = (Inr (f c), c)"

definition mput :: "(mc_client \<Rightarrow> mc_client) \<Rightarrow> unit mc" where
  "mput f c = (Inr (), f c)"

lemma mret_simp [simp, res_simps]: "mret x c = (Inr x, c)"
  by (simp add: mret_def)

lemma mlift_simp [simp, res_simps]: "mlift r c = (r, c)"
  by (simp add: mlift_def)

lemma mget_simp [simp, res_simps]: "mget f c = (Inr (f c), c)"
  by (simp add: mget_def)

lemma mput_simp [simp, res_simps]: "mput f c = (Inr (), f c)"
  by (simp add: mput_def)

lemma mbind_Inr: "m c = (Inr x, c') \<Longrightarrow> mbind m f c = f x c'"
  by (simp add: mbind_def)

lemma mbind_Inl: "m c = (Inl e, c') \<Longrightarrow> mbind m f c = (Inl e, c')"
  by (simp add: mbind_def)

lemma mbind_simps [simp, res_simps]:
  "mbind (mret x) f = f x"
  "mbind (mlift (Inr x)) f = f x"
  "mbind (mlift (Inl e)) f = mlift (Inl e)"
  "mbind (mget g) f c = f (g c) c"
  "mbind (mput h) f2 c = f2 () (h c)"
  by (simp_all add: mbind_def fun_eq_iff)


section \<open>Collection ids\<close>

definition byte_val :: "char \<Rightarrow> int" where
  "byte_val c = int (of_char c)"

text \<open>\<^verbatim>\<open>for end in range(1, len(data))\<close>: the loop over the bytes after the first, \<open>end\<close> counting up
  from the byte before the current one; it stops at the first byte without the top bit.\<close>

fun cid_loop :: "string \<Rightarrow> nat \<Rightarrow> nat \<Rightarrow> int \<Rightarrow> int \<times> nat" where
  "cid_loop [] e shift cid = (cid, e)"
| "cid_loop (b # bs) e shift cid =
     (let cid' = or cid (push_bit shift (and (byte_val b) 0x7f)) in
      if and (byte_val b) 0x80 = 0 then (cid', Suc e) else cid_loop bs (Suc e) (shift + 7) cid')"

definition decodeCollectionID :: "string \<Rightarrow> (int \<times> string) res" where
  "decodeCollectionID key =
     (case key of
        [] \<Rightarrow> Inl IndexError
      | d # ds \<Rightarrow>
          (let cid = and (byte_val d) 0x7f in
           if and (byte_val d) 0x80 = 0x80
           then (let (cid', e) = (if ds = [] then (cid, 1) else cid_loop ds 0 7 cid);
                     e' = Suc e
                 in if e' = length key then Inl ValueError else Inr (cid', drop e' key))
           else Inr (cid, drop 1 key)))"

datatype coll = CNone | CName string | CId int

text \<open>The bytes of \<^verbatim>\<open>output\<close> in \<^verbatim>\<open>_encodeCollectionId\<close>: the loop stores into the last slot and
  appends a slot when bits remain.\<close>

function leb_loop :: "int \<Rightarrow> string \<Rightarrow> string" where
  "leb_loop collection output =
     (if 0 < collection then
        (let byte = and collection 0xFF; rest = drop_bit 7 collection in
         if 0 < rest
         then leb_loop rest (butlast output @ [char_of (nat (or byte 0x80)), char_of (0::nat)])
         else leb_loop rest (butlast output @ [char_of (nat byte)]))
      else output)"
  by pat_completeness auto
termination
  by (relation "measure (\<lambda>(n, _). nat n)") (auto simp: drop_bit_eq_div)

declare leb_loop.simps [simp del]

definition leb128 :: "int \<Rightarrow> string" where
  "leb128 collection = leb_loop collection [char_of (0::nat)]"

definition is_collections_supported :: "mc_client \<Rightarrow> bool" where
  "is_collections_supported c \<longleftrightarrow> FEATURE_COLLECTIONS \<in> features c"

definition is_xerror_supported :: "mc_client \<Rightarrow> bool" where
  "is_xerror_supported c \<longleftrightarrow> FEATURE_XERROR \<in> features c"

text \<open>\<^verbatim>\<open>self.collection_map[scope][collection]\<close>.\<close>

definition collection_id :: "mc_client \<Rightarrow> string option \<Rightarrow> coll \<Rightarrow> int res" where
  "collection_id c scope collection =
     (case collection of
        CName name \<Rightarrow>
          (case scope of
             None \<Rightarrow> Inl KeyError
           | Some s \<Rightarrow> rbind (dict_lookup (collection_map c) s) (\<lambda>m. dict_lookup m name))
      | CId i \<Rightarrow> Inr i
      | CNone \<Rightarrow> Inr 0)"

text \<open>\<^verbatim>\<open>array.array\<close> has no \<^verbatim>\<open>tobytes\<close> on Python 2, so the method raises \<^verbatim>\<open>AttributeError\<close> where it
  should return \<open>leb128\<close> of the id followed by the key. \<open>tobytes\<close> is that method of the
  runtime: \<open>None\<close> when arrays do not have it.\<close>

definition encodeCollectionId ::
  "(string \<Rightarrow> string) option \<Rightarrow> string \<Rightarrow> string option \<Rightarrow> coll \<Rightarrow> mc_client \<Rightarrow> string res" where
  "encodeCollectionId tobytes key scope collection c =
     (if \<not> is_collections_supported c then Inl RuntimeError
      else rbind (collection_id c scope collection) (\<lambda>cid.
        case tobytes of
          None \<Rightarrow> Inl AttributeError
        | Some f \<Rightarrow> rbind (str_encode (f (leb128 cid))) (\<lambda>s. Inr (s @ key))))"


section \<open>Sending\<close>

definition coll_given :: "coll \<Rightarrow> bool" where
  "coll_given collection = (case collection of CNone \<Rightarrow> False | CName s \<Rightarrow> s \<noteq> [] | CId i \<Rightarrow> i \<noteq> 0)"

record request =
  rq_magic :: int
  rq_cmd :: int
  rq_dtype :: int
  rq_vbucket :: int
  rq_opaque :: int
  rq_cas :: int
  rq_extra :: string
  rq_extra_len :: "nat option"
  rq_key :: string
  rq_val :: string
  rq_ext_meta :: string

definition request_bytes :: "request \<Rightarrow> string res" where
  "request_bytes r =
     rbind (struct_pack REQ_PKT_FMT [rq_magic r, rq_cmd r, int (length (rq_key r)),
         int (case rq_extra_len r of None \<Rightarrow> length (rq_extra r) | Some n \<Rightarrow> n), rq_dtype r, rq_vbucket r,
         int (length (rq_key r) + length (rq_extra r) + length (rq_val r) + length (rq_ext_meta r)),
         rq_opaque r, rq_cas r]) (\<lambda>msg.
     rbind (str_encode (rq_key r)) (\<lambda>key.
     rbind (str_encode (rq_extra r)) (\<lambda>extra.
     rbind (str_encode (rq_val r)) (\<lambda>val.
     rbind (str_encode (rq_ext_meta r)) (\<lambda>ext.
     Inr (msg @ extra @ key @ val @ ext))))))"

definition sendMsg :: "request \<Rightarrow> string option \<Rightarrow> coll \<Rightarrow> unit mc" where
  "sendMsg r scope collection c =
     (case (if coll_given collection
            then encodeCollectionId None (rq_key r) scope collection c else Inr (rq_key r)) of
        Inl e \<Rightarrow> (Inl e, c)
      | Inr key \<Rightarrow>
          (case request_bytes (r\<lparr>rq_key := key\<rparr>) of
             Inl e \<Rightarrow> (Inl e, c)
           | Inr bytes \<Rightarrow> (Inr (), c\<lparr>outbox := outbox c @ bytes\<rparr>)))"

definition sendCmd ::
  "int \<Rightarrow> string \<Rightarrow> string \<Rightarrow> int \<Rightarrow> string \<Rightarrow> int \<Rightarrow> string option \<Rightarrow> coll \<Rightarrow> string \<Rightarrow> nat option \<Rightarrow> unit mc" where
  "sendCmd cmd key val opaque extra cas scope collection ext_meta extra_len c =
     sendMsg \<lparr>rq_magic = REQ_MAGIC_BYTE, rq_cmd = cmd, rq_dtype = 0, rq_vbucket = vbucketId c,
       rq_opaque = opaque, rq_cas = cas, rq_extra = extra, rq_extra_len = extra_len, rq_key = key,
       rq_val = val, rq_ext_meta = ext_meta\<rparr> scope collection c"


section \<open>Receiving\<close>

definition sock_recv :: "nat \<Rightarrow> string list \<Rightarrow> string \<times> string list" where
  "sock_recv n pieces =
     (case pieces of
        [] \<Rightarrow> ([], [])
      | p # ps \<Rightarrow> if length p \<le> n then (p, ps) else (take n p, drop n p # ps))"

text \<open>Both loops of \<^verbatim>\<open>_recvMsg\<close>: receive until \<open>n\<close> bytes have arrived.\<close>

function recv_exact :: "nat \<Rightarrow> string \<Rightarrow> string list \<Rightarrow> string res \<times> string list" where
  "recv_exact n acc pieces =
     (if n = 0 then (Inr acc, pieces)
      else (case sock_recv n pieces of
              (data, rest) \<Rightarrow>
                if data = [] then (Inl EOFError, rest)
                else recv_exact (n - length data) (acc @ data) rest))"
  by pat_completeness auto
termination
  by (relation "measure (\<lambda>(n, _, _). n)") (auto simp: sock_recv_def split: list.splits if_splits)

declare recv_exact.simps [simp del]

record response =
  rs_cmd :: int
  rs_errcode :: int
  rs_opaque :: int
  rs_cas :: int
  rs_keylen :: int
  rs_extralen :: int
  rs_dtype :: int
  rs_data :: string

text \<open>The assignment from \<^verbatim>\<open>struct.unpack\<close>: nine targets. \<^verbatim>\<open>ALT_RES_PKT_FMT\<close> has ten fields, so a
  response with one of the alternative magic bytes raises \<^verbatim>\<open>ValueError\<close> (too many values).\<close>

fun header_fields :: "int list \<Rightarrow> (response \<times> nat) res" where
  "header_fields [magic, cmd, keylen, extralen, dtype, errcode, remaining, opaque, cas] =
     Inr (\<lparr>rs_cmd = cmd, rs_errcode = errcode, rs_opaque = opaque, rs_cas = cas,
           rs_keylen = keylen, rs_extralen = extralen, rs_dtype = dtype, rs_data = []\<rparr>, nat remaining)"
| "header_fields _ = Inl ValueError"

definition parse_header :: "string \<Rightarrow> (response \<times> nat) res" where
  "parse_header hdr =
     rbind (struct_unpack ''>B'' (take 1 hdr)) (\<lambda>m.
     let magic = m ! 0 in
     if magic \<notin> {RES_MAGIC_BYTE, REQ_MAGIC_BYTE, ALT_RES_MAGIC_BYTE, ALT_REQ_MAGIC_BYTE}
     then Inl AssertionError
     else rbind (struct_unpack (if magic = ALT_RES_MAGIC_BYTE \<or> magic = ALT_REQ_MAGIC_BYTE
                                then ALT_RES_PKT_FMT else RES_PKT_FMT) hdr) header_fields)"

definition recvMsg :: "response mc" where
  "recvMsg c =
     (case recv_exact MIN_RECV_PACKET [] (inbox c) of
        (Inl e, rest) \<Rightarrow> (Inl e, c\<lparr>inbox := rest\<rparr>)
      | (Inr hdr, rest) \<Rightarrow>
          (case parse_header hdr of
             Inl e \<Rightarrow> (Inl e, c\<lparr>inbox := rest\<rparr>)
           | Inr (r, remaining) \<Rightarrow>
               (case recv_exact remaining [] rest of
                  (Inl e, rest') \<Rightarrow> (Inl e, c\<lparr>inbox := rest'\<rparr>)
                | (Inr rv, rest') \<Rightarrow> (Inr (r\<lparr>rs_data := rv\<rparr>), c\<lparr>inbox := rest'\<rparr>))))"

text \<open>\<^verbatim>\<open>"{name} : {desc} : {rv}".format(rv=rv, **err)\<close>: for a code that the error map does not have,
  \<^verbatim>\<open>err\<close> is the response string itself, which is no mapping: \<^verbatim>\<open>TypeError\<close>.\<close>

definition error_message :: "(int, err_entry) dict option \<Rightarrow> int \<Rightarrow> string \<Rightarrow> string res" where
  "error_message emap errcode rv =
     (case emap of
        None \<Rightarrow> Inr rv
      | Some m \<Rightarrow>
          (case map_of m errcode of
             None \<Rightarrow> Inl TypeError
           | Some (nm, desc) \<Rightarrow> Inr (nm @ '' : '' @ desc @ '' : '' @ rv)))"

definition handleKeyedResponse :: "int option \<Rightarrow> response mc" where
  "handleKeyedResponse myopaque =
     mbind recvMsg (\<lambda>r. mbind (mget error_map) (\<lambda>emap.
       mlift (if \<not> (myopaque = None \<or> Some (rs_opaque r) = myopaque) then Inl AssertionError
              else if rs_errcode r \<noteq> 0
              then rbind (error_message emap (rs_errcode r) (rs_data r))
                     (\<lambda>msg. Inl (MemcachedError (rs_errcode r) msg))
              else Inr r)))"

type_synonym reply = "int \<times> int \<times> string" \<comment> \<open>opaque, cas, data\<close>

definition handleSingleResponse :: "int option \<Rightarrow> reply mc" where
  "handleSingleResponse myopaque =
     mbind (handleKeyedResponse myopaque) (\<lambda>r. mret (rs_opaque r, rs_cas r, rs_data r))"


section \<open>The coding of collection ids is invertible\<close>

lemma byte_val_char [simp]: "0 \<le> n \<Longrightarrow> n < 256 \<Longrightarrow> byte_val (char_of (nat n)) = n"
  by (simp add: byte_val_def take_bit_nat_eq_self nat_less_iff mod_pos_pos_trivial
      flip: zmod_int)

lemma and_127: "and (b::int) 0x7f = b mod 128"
proof -
  have "(0x7f::int) = mask 7" by (simp add: mask_eq_exp_minus_1)
  then show ?thesis by (simp only: take_bit_eq_mask [symmetric]) (simp add: take_bit_eq_mod)
qed

lemma and_exp: "and (b::int) (2 ^ k) = of_bool (bit b k) * 2 ^ k"
  by (rule bit_eqI) (auto simp: bit_simps bit_exp_iff)

lemma or_take_exp: "or (take_bit (Suc k) (n::int)) (2 ^ k) = take_bit k n + 2 ^ k"
proof -
  have "or (take_bit (Suc k) n) (2 ^ k) = or (take_bit k n) (2 ^ k)"
    by (rule bit_eqI) (auto simp: bit_simps bit_exp_iff less_Suc_eq)
  also have "\<dots> = take_bit k n + 2 ^ k"
    by (rule disjunctive_add [symmetric]) (auto simp: bit_simps bit_exp_iff)
  finally show ?thesis .
qed

lemma and_128: "0 \<le> b \<Longrightarrow> b < 256 \<Longrightarrow> and (b::int) 0x80 = (if b < 128 then 0 else 0x80)"
proof -
  assume b: "0 \<le> b" "b < 256"
  have "bit b 7 \<longleftrightarrow> 128 \<le> b"
  proof (cases "b < 128")
    case False
    then have "b div 128 = 1" using b by linarith
    with False show ?thesis by (simp add: bit_iff_odd)
  next
    case True
    then have "b div 128 = 0" using b by simp
    with True show ?thesis by (simp add: bit_iff_odd)
  qed
  with and_exp [of b 7] show ?thesis by auto
qed

lemma or_128: "or (and (n::int) 0xFF) 0x80 = n mod 128 + 128"
proof -
  have f: "and n 0xFF = take_bit (Suc 7) n"
    by (simp add: take_bit_eq_mask mask_eq_exp_minus_1)
  show ?thesis using or_take_exp [of 7 n] unfolding f by (simp add: take_bit_eq_mod)
qed

lemma byte_val_cont [simp]: "byte_val (char_of (n mod 128 + 128 :: nat)) = int (n mod 128 + 128)"
proof -
  have "n mod 128 + 128 < 256" using mod_less_divisor [of 128 n] by linarith
  then show ?thesis using byte_val_char [of "int (n mod 128 + 128)"]
    by (metis nat_int of_nat_0_le_iff of_nat_less_iff of_nat_numeral)
qed

lemma or_shift: "0 \<le> c \<Longrightarrow> c < 2 ^ s \<Longrightarrow> or (c::int) (push_bit s x) = c + x * 2 ^ s"
proof -
  assume c: "0 \<le> c" "c < 2 ^ s"
  then have "c = take_bit s c" by (simp add: take_bit_int_eq_self)
  then have nb: "\<not> bit c n \<or> \<not> bit (push_bit s x) n" for n
    by (metis bit_push_bit_iff bit_take_bit_iff linorder_not_le)
  have "or c (push_bit s x) = c + push_bit s x"
    by (rule disjunctive_add [symmetric]) (rule nb)
  then show ?thesis by (simp add: push_bit_eq_mult)
qed

fun leb_ref :: "nat \<Rightarrow> string" where
  "leb_ref n = (if n < 128 then [char_of n] else char_of (n mod 128 + 128) # leb_ref (n div 128))"

declare leb_ref.simps [simp del]

lemma leb_ref_ne [simp]: "leb_ref n \<noteq> []"
  by (simp add: leb_ref.simps [of n])

lemma leb_loop_ref: "0 < n \<Longrightarrow> leb_loop (int n) (acc @ [x]) = acc @ leb_ref n"
proof (induction n arbitrary: acc x rule: less_induct)
  case (less n)
  have d: "drop_bit 7 (int n) = int (n div 128)" by (simp add: drop_bit_eq_div zdiv_int)
  have o: "nat (or (and (int n) 0xFF) 0x80) = n mod 128 + 128"
    unfolding or_128 by (simp add: nat_add_distrib nat_mod_distrib)
  show ?case
  proof (cases "n < 128")
    case True
    then have z: "n div 128 = 0" by simp
    have "and (int n) 0xFF = take_bit 8 (int n)" by (simp add: take_bit_eq_mask mask_eq_exp_minus_1)
    also have "\<dots> = int n" using True by (intro take_bit_int_eq_self) auto
    finally have a: "and (int n) 0xFF = int n" .
    show ?thesis using less.prems True
      by (subst leb_loop.simps) (simp add: Let_def d z a leb_ref.simps leb_loop.simps [of 0])
  next
    case False
    then have pos: "0 < n div 128" by (simp add: div_greater_zero_iff)
    have IH: "leb_loop (int (n div 128)) ((acc @ [char_of (n mod 128 + 128)]) @ [char_of (0::nat)])
        = (acc @ [char_of (n mod 128 + 128)]) @ leb_ref (n div 128)"
      by (rule less.IH) (use False pos in auto)
    show ?thesis using less.prems False pos IH
      by (subst leb_loop.simps) (simp add: Let_def d o leb_ref.simps [of n])
  qed
qed

lemma leb128_ref: "leb128 (int n) = leb_ref n"
proof (cases "n = 0")
  case True
  then show ?thesis by (simp add: leb128_def leb_loop.simps [of 0] leb_ref.simps)
next
  case False
  then show ?thesis using leb_loop_ref [of n "[]"] by (simp add: leb128_def)
qed

lemma cid_loop_ref:
  "0 \<le> c \<Longrightarrow> c < 2 ^ s \<Longrightarrow>
     cid_loop (leb_ref n @ key) e s c = (c + int n * 2 ^ s, e + length (leb_ref n))"
proof (induction n arbitrary: e s c rule: less_induct)
  case (less n)
  show ?case
  proof (cases "n < 128")
    case True
    have b: "byte_val (char_of n) = int n" using True byte_val_char [of "int n"] by simp
    show ?thesis using True less.prems
      by (simp add: leb_ref.simps [of n] b and_127 and_128 or_shift Let_def)
  next
    case False
    let ?b = "n mod 128 + 128"
    have b: "byte_val (char_of ?b) = int ?b" by (rule byte_val_cont)
    have m: "(int (n mod 128) + 128) mod 128 = int (n mod 128)" by (simp add: zmod_int)
    have a: "and (int (n mod 128) + 128) 0x80 = 0x80" by (subst and_128) auto
    let ?c = "c + int (n mod 128) * 2 ^ s"
    have "int (n mod 128) * 2 ^ s \<le> 127 * 2 ^ s" by (intro mult_right_mono) auto
    moreover have "(2::int) ^ (s + 7) = 127 * 2 ^ s + 2 ^ s" by (simp add: power_add)
    moreover have "0 \<le> int (n mod 128) * 2 ^ s" by simp
    ultimately have c: "0 \<le> ?c" "?c < 2 ^ (s + 7)" using less.prems by linarith+
    have "cid_loop (leb_ref n @ key) e s c = cid_loop (leb_ref (n div 128) @ key) (Suc e) (s + 7) ?c"
      using False less.prems by (simp add: leb_ref.simps [of n] b a and_127 m or_shift Let_def)
    also have "\<dots> = (?c + int (n div 128) * 2 ^ (s + 7), Suc e + length (leb_ref (n div 128)))"
      by (rule less.IH) (use False c in auto)
    also have "?c + int (n div 128) * 2 ^ (s + 7) = c + (int (n mod 128) + 128 * int (n div 128)) * 2 ^ s"
      by (simp add: power_add algebra_simps)
    also have "int (n mod 128) + 128 * int (n div 128) = int n"
      by (metis mod_mult_div_eq of_nat_add of_nat_mult of_nat_numeral)
    finally show ?thesis using False by (simp add: leb_ref.simps [of n])
  qed
qed

lemma decode_leb_ref:
  "decodeCollectionID (leb_ref n @ key) = (if n < 128 \<or> key \<noteq> [] then Inr (int n, key) else Inl ValueError)"
proof (cases "n < 128")
  case True
  have b: "byte_val (char_of n) = int n" using True byte_val_char [of "int n"] by simp
  show ?thesis using True by (simp add: leb_ref.simps [of n] decodeCollectionID_def b and_127 and_128 Let_def)
next
  case False
  let ?b = "n mod 128 + 128"
  have b: "byte_val (char_of ?b) = int ?b" by (rule byte_val_cont)
  have m: "(int (n mod 128) + 128) mod 128 = int (n mod 128)" by (simp add: zmod_int)
  have a: "and (int (n mod 128) + 128) 0x80 = 0x80" by (subst and_128) auto
  have l: "cid_loop (leb_ref (n div 128) @ key) 0 7 (int (n mod 128))
      = (int (n mod 128) + int (n div 128) * 2 ^ 7, 0 + length (leb_ref (n div 128)))"
    by (rule cid_loop_ref) auto
  have v: "int (n mod 128) + int (n div 128) * 2 ^ 7 = int n"
    using mod_div_mult_eq [of "int n" 128] by (simp add: zmod_int zdiv_int)
  show ?thesis using False l v
    by (simp add: leb_ref.simps [of n] decodeCollectionID_def b a and_127 m Let_def)
qed

text \<open>Collection ids survive the wire: \<^verbatim>\<open>decodeCollectionID\<close> of the LEB128 bytes that
  \<^verbatim>\<open>_encodeCollectionId\<close> computes for an id, followed by a key, gives back the id and the key. The
  one exception is the empty key after an id of 128 or more, which the decoder reports as a
  missing stop byte although the stop byte is there.\<close>

theorem collection_id_roundtrip:
  assumes "0 \<le> cid"
  shows "decodeCollectionID (leb128 cid @ key) =
     (if cid < 128 \<or> key \<noteq> [] then Inr (cid, key) else Inl ValueError)"
proof -
  obtain n where "cid = int n" using assms nonneg_int_cases by blast
  then show ?thesis by (simp add: leb128_ref decode_leb_ref)
qed

theorem collection_id_roundtrip_witness:
  "(0::int) \<le> 300 \<and> decodeCollectionID (leb128 300 @ ''k'') = Inr (300, ''k'')"
  using collection_id_roundtrip [of 300 "''k''"] by simp


section \<open>Receiving does not depend on how the bytes arrive\<close>

definition live_pieces :: "string list \<Rightarrow> bool" where
  "live_pieces ps \<longleftrightarrow> [] \<notin> set ps"

lemma sock_recv_props:
  assumes "live_pieces ps" and "0 < n" and "sock_recv n ps = (d, ps')"
  shows "concat ps = d @ concat ps'" and "length d \<le> n" and "live_pieces ps'"
    and "d = [] \<Longrightarrow> concat ps = []"
  using assms by (auto simp: sock_recv_def live_pieces_def split: list.splits if_splits)

lemma recv_exact_props:
  assumes "live_pieces ps" and "n \<le> length (concat ps)"
  shows "\<exists>ps'. recv_exact n acc ps = (Inr (acc @ take n (concat ps)), ps') \<and>
     live_pieces ps' \<and> concat ps' = drop n (concat ps)"
  using assms
proof (induction n arbitrary: acc ps rule: less_induct)
  case (less n)
  show ?case
  proof (cases "n = 0")
    case True
    then show ?thesis using less.prems by (simp add: recv_exact.simps)
  next
    case False
    obtain d ps1 where r: "sock_recv n ps = (d, ps1)" by force
    note p = sock_recv_props [OF less.prems(1) _ r]
    have cat: "concat ps = d @ concat ps1" and len: "length d \<le> n" and live: "live_pieces ps1"
      using p False by auto
    have ne: "d \<noteq> []" using p(4) False less.prems(2) by fastforce
    have "\<exists>ps'. recv_exact (n - length d) (acc @ d) ps1 =
        (Inr ((acc @ d) @ take (n - length d) (concat ps1)), ps') \<and>
        live_pieces ps' \<and> concat ps' = drop (n - length d) (concat ps1)"
      by (rule less.IH) (use False ne live cat less.prems(2) in auto)
    then show ?thesis using False ne len cat by (subst recv_exact.simps) (simp add: r)
  qed
qed

lemma recv_exact_eof:
  assumes "live_pieces ps" and "length (concat ps) < n"
  shows "recv_exact n acc ps = (Inl EOFError, [])"
  using assms
proof (induction n arbitrary: acc ps rule: less_induct)
  case (less n)
  obtain d ps1 where r: "sock_recv n ps = (d, ps1)" by force
  note p = sock_recv_props [OF less.prems(1) _ r]
  show ?case
  proof (cases "d = []")
    case True
    then have "ps = []" using p(4) less.prems by (cases ps) (auto simp: live_pieces_def)
    then show ?thesis using less.prems by (simp add: recv_exact.simps sock_recv_def)
  next
    case False
    have "recv_exact (n - length d) (acc @ d) ps1 = (Inl EOFError, [])"
      by (rule less.IH) (use False p less.prems in auto)
    then show ?thesis using False less.prems by (subst recv_exact.simps) (simp add: r)
  qed
qed

text \<open>What \<^verbatim>\<open>_recvMsg\<close> computes from a stream of bytes: header, then as many bytes as the header
  says.\<close>

definition recv_stream :: "string \<Rightarrow> response res \<times> string" where
  "recv_stream s =
     (if length s < 24 then (Inl EOFError, [])
      else case parse_header (take 24 s) of
             Inl e \<Rightarrow> (Inl e, drop 24 s)
           | Inr (r, n) \<Rightarrow>
               (if length s < 24 + n then (Inl EOFError, [])
                else (Inr (r\<lparr>rs_data := take n (drop 24 s)\<rparr>), drop (24 + n) s)))"

lemma recvMsg_stream:
  assumes "live_pieces (inbox c)" and "recv_stream (concat (inbox c)) = (v, s')"
  shows "\<exists>ps'. recvMsg c = (v, c\<lparr>inbox := ps'\<rparr>) \<and> concat ps' = s' \<and> live_pieces ps'"
proof (cases "length (concat (inbox c)) < 24")
  case True
  then show ?thesis using assms recv_exact_eof [OF assms(1), of 24 "[]"]
    by (auto simp: recv_stream_def recvMsg_def live_pieces_def)
next
  case len: False
  obtain ps1 where ps1: "recv_exact 24 [] (inbox c) = (Inr (take 24 (concat (inbox c))), ps1)"
    "live_pieces ps1" "concat ps1 = drop 24 (concat (inbox c))"
    using recv_exact_props [OF assms(1), of 24 "[]"] len by auto
  show ?thesis
  proof (cases "parse_header (take 24 (concat (inbox c)))")
    case (Inl e)
    then show ?thesis using assms len ps1 by (auto simp: recv_stream_def recvMsg_def)
  next
    case (Inr rn)
    obtain r n where rn: "rn = (r, n)" by force
    show ?thesis
    proof (cases "length (concat (inbox c)) < 24 + n")
      case True
      then have "length (concat ps1) < n" unfolding ps1(3) using len by (simp add: less_diff_conv2)
      from recv_exact_eof [OF ps1(2) this, of "[]"] show ?thesis
        using assms len True Inr rn ps1 by (auto simp: recv_stream_def recvMsg_def live_pieces_def)
    next
      case False
      then have "n \<le> length (concat ps1)" unfolding ps1(3) using len by (simp add: le_diff_conv2)
      from recv_exact_props [OF ps1(2) this, of "[]"] show ?thesis
        using assms len False Inr rn ps1 by (auto simp: recv_stream_def recvMsg_def add.commute)
    qed
  qed
qed


section \<open>Messages survive the wire\<close>

definition rq_body :: "request \<Rightarrow> string" where
  "rq_body r = rq_extra r @ rq_key r @ rq_val r @ rq_ext_meta r"

definition received :: "request \<Rightarrow> response" where
  "received r = \<lparr>rs_cmd = rq_cmd r, rs_errcode = rq_vbucket r, rs_opaque = rq_opaque r, rs_cas = rq_cas r,
     rs_keylen = int (length (rq_key r)),
     rs_extralen = int (case rq_extra_len r of None \<Rightarrow> length (rq_extra r) | Some n \<Rightarrow> n),
     rs_dtype = rq_dtype r, rs_data = rq_body r\<rparr>"

lemma parse_header_pack:
  assumes "struct_pack RES_PKT_FMT [magic, cmd, keylen, extralen, dtype, err, remaining, opaque, cas] = Inr h"
    and "magic = RES_MAGIC_BYTE \<or> magic = REQ_MAGIC_BYTE"
  shows "parse_header h = Inr (\<lparr>rs_cmd = cmd, rs_errcode = err, rs_opaque = opaque, rs_cas = cas,
       rs_keylen = keylen, rs_extralen = extralen, rs_dtype = dtype, rs_data = []\<rparr>, nat remaining)"
    and "length h = 24"
proof -
  have u: "struct_unpack RES_PKT_FMT h = Inr [magic, cmd, keylen, extralen, dtype, err, remaining, opaque, cas]"
    using assms(1) by (rule unpack_pack) (simp add: mc_consts)
  then have "struct_unpack ''>B'' (take 1 h) = Inr [magic]"
    by (auto simp: struct_unpack_def mc_consts rbind_eq_Inr split: if_splits)
  then show "parse_header h = Inr (\<lparr>rs_cmd = cmd, rs_errcode = err, rs_opaque = opaque, rs_cas = cas,
       rs_keylen = keylen, rs_extralen = extralen, rs_dtype = dtype, rs_data = []\<rparr>, nat remaining)"
    using u assms(2) by (auto simp: parse_header_def Let_def mc_consts)
  show "length h = 24"
    using length_pack [OF assms(1)] by (simp add: calcsize_def mc_consts)
qed

lemma request_bytes_shape:
  assumes "request_bytes r = Inr bytes"
  shows "\<exists>h. bytes = h @ rq_body r \<and>
     struct_pack RES_PKT_FMT [rq_magic r, rq_cmd r, int (length (rq_key r)), rs_extralen (received r),
       rq_dtype r, rq_vbucket r, int (length (rq_body r)), rq_opaque r, rq_cas r] = Inr h"
  using assms
  by (auto simp: request_bytes_def rbind_eq_Inr str_encode_def rq_body_def received_def mc_consts
      ac_simps split: if_splits)

lemma recv_stream_request:
  assumes "request_bytes r = Inr bytes" and "rq_magic r = RES_MAGIC_BYTE \<or> rq_magic r = REQ_MAGIC_BYTE"
  shows "recv_stream (bytes @ rest) = (Inr (received r), rest)"
proof -
  obtain h where h: "bytes = h @ rq_body r"
    "struct_pack RES_PKT_FMT [rq_magic r, rq_cmd r, int (length (rq_key r)), rs_extralen (received r),
       rq_dtype r, rq_vbucket r, int (length (rq_body r)), rq_opaque r, rq_cas r] = Inr h"
    using request_bytes_shape [OF assms(1)] by blast
  note p = parse_header_pack [OF h(2) assms(2)]
  have "take 24 (bytes @ rest) = h" using h(1) p(2) by simp
  then show ?thesis using p h(1) by (simp add: recv_stream_def received_def)
qed

text \<open>C17. What one side sends with \<^verbatim>\<open>_sendMsg\<close> the other side reads with \<^verbatim>\<open>_recvMsg\<close>: for every
  request whose bytes can be built, and however the network cuts these bytes (and those that
  follow) into pieces, \<^verbatim>\<open>_recvMsg\<close> returns the command, status field, opaque, cas, key length,
  extras length, datatype and body of the request, and leaves exactly the following bytes.\<close>

theorem send_recv_roundtrip:
  assumes "request_bytes r = Inr bytes" and "rq_magic r = RES_MAGIC_BYTE \<or> rq_magic r = REQ_MAGIC_BYTE"
    and "concat (inbox c) = bytes @ rest" and "live_pieces (inbox c)"
  shows "\<exists>c'. recvMsg c = (Inr (received r), c') \<and> concat (inbox c') = rest \<and> outbox c' = outbox c"
proof -
  have "recv_stream (concat (inbox c)) = (Inr (received r), rest)"
    unfolding assms(3) by (rule recv_stream_request [OF assms(1,2)])
  from recvMsg_stream [OF assms(4) this] show ?thesis by auto
qed

lemma request_bytes_ok:
  assumes "is_ascii (rq_body r)"
    and "0 \<le> rq_magic r" "rq_magic r < 256" "0 \<le> rq_cmd r" "rq_cmd r < 256"
    and "length (rq_key r) < 65536" and "rq_extra_len r = None" "length (rq_extra r) < 256"
    and "0 \<le> rq_dtype r" "rq_dtype r < 256" "0 \<le> rq_vbucket r" "rq_vbucket r < 65536"
    and "length (rq_body r) < 4294967296" "0 \<le> rq_opaque r" "rq_opaque r < 4294967296"
    and "0 \<le> rq_cas r" "rq_cas r < 18446744073709551616"
  shows "\<exists>bytes. request_bytes r = Inr bytes"
proof -
  have "\<exists>h. struct_pack REQ_PKT_FMT [rq_magic r, rq_cmd r, int (length (rq_key r)), int (length (rq_extra r)),
      rq_dtype r, rq_vbucket r,
      int (length (rq_key r) + length (rq_extra r) + length (rq_val r) + length (rq_ext_meta r)),
      rq_opaque r, rq_cas r] = Inr h"
    unfolding struct_pack_def using assms by (intro pack_fields_ok) (simp add: mc_consts rq_body_def)
  then show ?thesis using assms(1,7) by (auto simp: request_bytes_def rq_body_def)
qed

definition example_request :: request where
  "example_request = \<lparr>rq_magic = RES_MAGIC_BYTE, rq_cmd = CMD_GET, rq_dtype = 0, rq_vbucket = 0,
     rq_opaque = 7, rq_cas = 3, rq_extra = [], rq_extra_len = None, rq_key = ''k'', rq_val = ''v'', rq_ext_meta = []\<rparr>"

lemma example_request_bytes: "\<exists>b. request_bytes example_request = Inr b"
  by (rule request_bytes_ok) (simp_all add: example_request_def rq_body_def is_ascii_def mc_consts)

theorem send_recv_roundtrip_witness:
  "\<exists>b c'. request_bytes example_request = Inr b \<and>
     recvMsg (mc_init (map (\<lambda>x. [x]) b)) = (Inr (received example_request), c')"
proof -
  obtain b where b: "request_bytes example_request = Inr b" using example_request_bytes by blast
  have "concat (map (\<lambda>x. [x]) b) = b" by (induction b) auto
  then show ?thesis
    using send_recv_roundtrip [OF b, of "mc_init (map (\<lambda>x. [x]) b)" "[]"] b
    by (auto simp: example_request_def mc_init_def live_pieces_def)
qed



end
