(* ===== verification/Mc_Client.thy ===== *)
theory Mc_Client
  imports Mc_Wire
begin

text \<open>
  The operations of \<^verbatim>\<open>MemcachedClient\<close> (\<^verbatim>\<open>lib/mc_bin_client.py\<close>), one definition per method, over
  the wire level of \<open>Mc_Wire\<close>. The argument \<open>rnd\<close> is the value that \<^verbatim>\<open>self.r.randint(0, 2 ** 32)\<close>
  returns for the opaque (both bounds included). \<^verbatim>\<open>scope\<close> is an optional string, \<^verbatim>\<open>collection\<close> a
  \<open>coll\<close>; \<^verbatim>\<open>vbucket\<close> is an integer, -1 by default. Values passed to \<^verbatim>\<open>str()\<close> by the code are strings
  here. The JSON parser and the HMAC digest are arguments of the operations that use them.
\<close>

section \<open>Commands and replies\<close>

definition collection_name :: "string option \<Rightarrow> coll \<Rightarrow> mc_client \<Rightarrow> string option \<times> coll" where
  "collection_name scope collection c =
     (if collections_supported c
      then ((case scope of None \<Rightarrow> Some ''_default'' | Some s \<Rightarrow> Some s),
            (case collection of CNone \<Rightarrow> CName ''_default'' | x \<Rightarrow> x))
      else (scope, collection))"

definition set_vbucket :: "string \<Rightarrow> int \<Rightarrow> unit mc" where
  "set_vbucket key vbucket =
     (if vbucket = 0 \<or> vbucket < 0
      then mbind (mlift (str_encode key)) (\<lambda>k.
             mput (\<lambda>c. c\<lparr>vbucketId := and (and (drop_bit 16 (zlib_crc32 k)) 0x7fff) (vbucket_count c - 1)\<rparr>))
      else mput (\<lambda>c. c\<lparr>vbucketId := vbucket\<rparr>))"

definition doCmd_full ::
  "int \<Rightarrow> int \<Rightarrow> string \<Rightarrow> string \<Rightarrow> string \<Rightarrow> int \<Rightarrow> string option \<Rightarrow> coll \<Rightarrow> string \<Rightarrow> nat option \<Rightarrow> reply mc" where
  "doCmd_full rnd cmd key val extra cas scope collection ext_meta extra_len =
     mbind (sendCmd cmd key val rnd extra cas scope collection ext_meta extra_len) (\<lambda>_.
     handleSingleResponse (Some rnd))"

definition doCmd ::
  "int \<Rightarrow> int \<Rightarrow> string \<Rightarrow> string \<Rightarrow> string \<Rightarrow> int \<Rightarrow> string option \<Rightarrow> coll \<Rightarrow> reply mc" where
  "doCmd rnd cmd key val extra cas scope collection =
     doCmd_full rnd cmd key val extra cas scope collection [] None"

text \<open>A command without key, value, extras or collection.\<close>

definition doCmd_plain :: "int \<Rightarrow> int \<Rightarrow> reply mc" where
  "doCmd_plain rnd cmd = doCmd rnd cmd [] [] [] 0 None CNone"

text \<open>\<^verbatim>\<open>scope, collection = self.collection_name(scope, collection)\<close> followed by
  \<^verbatim>\<open>self._set_vbucket(key, vbucket)\<close>, the start of most methods.\<close>

definition routed :: "string \<Rightarrow> int \<Rightarrow> string option \<Rightarrow> coll \<Rightarrow> (string option \<Rightarrow> coll \<Rightarrow> 'a mc) \<Rightarrow> 'a mc" where
  "routed key vbucket scope collection f =
     mbind (mget (collection_name scope collection)) (\<lambda>(s, col).
     mbind (set_vbucket key vbucket) (\<lambda>_. f s col))"

definition mpack :: "string \<Rightarrow> int list \<Rightarrow> (string \<Rightarrow> 'a mc) \<Rightarrow> 'a mc" where
  "mpack fmt vs f = mbind (mlift (struct_pack fmt vs)) f"

definition unpack1 :: "string \<Rightarrow> string \<Rightarrow> int res" where
  "unpack1 fmt s = rbind (struct_unpack fmt s) (\<lambda>vs. Inr (vs ! 0))"

section \<open>Storage commands\<close>

definition mutate :: "int \<Rightarrow> int \<Rightarrow> string \<Rightarrow> int \<Rightarrow> int \<Rightarrow> int \<Rightarrow> string \<Rightarrow> string option \<Rightarrow> coll \<Rightarrow> reply mc" where
  "mutate rnd cmd key exp flags cas val scope collection =
     mpack SET_PKT_FMT [flags, exp] (\<lambda>extra. doCmd rnd cmd key val extra cas scope collection)"

definition mc_cat :: "int \<Rightarrow> int \<Rightarrow> string \<Rightarrow> int \<Rightarrow> string \<Rightarrow> string option \<Rightarrow> coll \<Rightarrow> reply mc" where
  "mc_cat rnd cmd key cas val scope collection =
     mbind (mget (collection_name scope collection)) (\<lambda>(s, col). doCmd rnd cmd key val [] cas s col)"

definition mc_append :: "int \<Rightarrow> string \<Rightarrow> string \<Rightarrow> int \<Rightarrow> int \<Rightarrow> string option \<Rightarrow> coll \<Rightarrow> reply mc" where
  "mc_append rnd key val cas vbucket scope collection =
     routed key vbucket scope collection (\<lambda>s col. mc_cat rnd CMD_APPEND key cas val s col)"

definition mc_prepend :: "int \<Rightarrow> string \<Rightarrow> string \<Rightarrow> int \<Rightarrow> int \<Rightarrow> string option \<Rightarrow> coll \<Rightarrow> reply mc" where
  "mc_prepend rnd key val cas vbucket scope collection =
     routed key vbucket scope collection (\<lambda>s col. mc_cat rnd CMD_PREPEND key cas val s col)"

datatype counter_reply = Counter int int | CounterSeqno int int int int | CounterNone

definition parse_incrdecr :: "int \<Rightarrow> string \<Rightarrow> counter_reply res" where
  "parse_incrdecr cas val =
     (if length val = 8 then rbind (unpack1 INCRDECR_RES_FMT val) (\<lambda>v. Inr (Counter v cas))
      else if length val = 24
      then rbind (struct_unpack INCRDECR_RES_WITH_UUID_AND_SEQNO_FMT val) (\<lambda>r.
             Inr (CounterSeqno (r ! 2) cas (r ! 0) (r ! 1)))
      else Inr CounterNone)"

definition incrdecr ::
  "int \<Rightarrow> int \<Rightarrow> string \<Rightarrow> int \<Rightarrow> int \<Rightarrow> int \<Rightarrow> string option \<Rightarrow> coll \<Rightarrow> counter_reply mc" where
  "incrdecr rnd cmd key amt init exp scope collection =
     mbind (mget (collection_name scope collection)) (\<lambda>(s, col).
     mpack INCRDECR_PKT_FMT [amt, init, exp] (\<lambda>extra.
     mbind (doCmd rnd cmd key [] extra 0 s col) (\<lambda>(_, cas, val).
     mlift (parse_incrdecr cas val))))"

definition mc_incr :: "int \<Rightarrow> string \<Rightarrow> int \<Rightarrow> int \<Rightarrow> int \<Rightarrow> int \<Rightarrow> string option \<Rightarrow> coll \<Rightarrow> counter_reply mc" where
  "mc_incr rnd key amt init exp vbucket scope collection =
     routed key vbucket scope collection (\<lambda>s col. incrdecr rnd CMD_INCR key amt init exp s col)"

definition mc_decr :: "int \<Rightarrow> string \<Rightarrow> int \<Rightarrow> int \<Rightarrow> int \<Rightarrow> int \<Rightarrow> string option \<Rightarrow> coll \<Rightarrow> counter_reply mc" where
  "mc_decr rnd key amt init exp vbucket scope collection =
     routed key vbucket scope collection (\<lambda>s col. incrdecr rnd CMD_DECR key amt init exp s col)"

definition mc_set :: "int \<Rightarrow> string \<Rightarrow> int \<Rightarrow> int \<Rightarrow> string \<Rightarrow> int \<Rightarrow> string option \<Rightarrow> coll \<Rightarrow> reply mc" where
  "mc_set rnd key exp flags val vbucket scope collection =
     routed key vbucket scope collection (\<lambda>s col. mutate rnd CMD_SET key exp flags 0 val s col)"

definition mc_add :: "int \<Rightarrow> string \<Rightarrow> int \<Rightarrow> int \<Rightarrow> string \<Rightarrow> int \<Rightarrow> string option \<Rightarrow> coll \<Rightarrow> reply mc" where
  "mc_add rnd key exp flags val vbucket scope collection =
     routed key vbucket scope collection (\<lambda>s col. mutate rnd CMD_ADD key exp flags 0 val s col)"

definition mc_replace :: "int \<Rightarrow> string \<Rightarrow> int \<Rightarrow> int \<Rightarrow> string \<Rightarrow> int \<Rightarrow> string option \<Rightarrow> coll \<Rightarrow> reply mc" where
  "mc_replace rnd key exp flags val vbucket scope collection =
     routed key vbucket scope collection (\<lambda>s col. mutate rnd CMD_REPLACE key exp flags 0 val s col)"

text \<open>\<^verbatim>\<open>cas\<close> returns nothing.\<close>

definition mc_cas :: "int \<Rightarrow> string \<Rightarrow> int \<Rightarrow> int \<Rightarrow> int \<Rightarrow> string \<Rightarrow> int \<Rightarrow> string option \<Rightarrow> coll \<Rightarrow> unit mc" where
  "mc_cas rnd key exp flags oldVal val vbucket scope collection =
     routed key vbucket scope collection (\<lambda>s col.
       mbind (mutate rnd CMD_SET key exp flags oldVal val s col) (\<lambda>_. mret ()))"

definition send_set :: "int \<Rightarrow> string \<Rightarrow> int \<Rightarrow> int \<Rightarrow> string \<Rightarrow> int \<Rightarrow> string option \<Rightarrow> coll \<Rightarrow> unit mc" where
  "send_set rnd key exp flags val vbucket scope collection =
     routed key vbucket scope collection (\<lambda>s col.
       mpack SET_PKT_FMT [flags, exp] (\<lambda>extra. sendCmd CMD_SET key val rnd extra 0 s col [] None))"

definition mc_delete :: "int \<Rightarrow> string \<Rightarrow> int \<Rightarrow> int \<Rightarrow> string option \<Rightarrow> coll \<Rightarrow> reply mc" where
  "mc_delete rnd key cas vbucket scope collection =
     routed key vbucket scope collection (\<lambda>s col. doCmd rnd CMD_DELETE key [] [] cas s col)"

definition mc_touch :: "int \<Rightarrow> string \<Rightarrow> int \<Rightarrow> int \<Rightarrow> string option \<Rightarrow> coll \<Rightarrow> reply mc" where
  "mc_touch rnd key exp vbucket scope collection =
     routed key vbucket scope collection (\<lambda>s col.
       mpack TOUCH_PKT_FMT [exp] (\<lambda>extra. doCmd rnd CMD_TOUCH key [] extra 0 s col))"

definition evict_key :: "int \<Rightarrow> string \<Rightarrow> int \<Rightarrow> string option \<Rightarrow> coll \<Rightarrow> reply mc" where
  "evict_key rnd key vbucket scope collection =
     routed key vbucket scope collection (\<lambda>s col. doCmd rnd CMD_EVICT_KEY key [] [] 0 s col)"

section \<open>Commands with meta data\<close>

definition pack_the_extended_meta_data :: "int \<Rightarrow> int \<Rightarrow> string res" where
  "pack_the_extended_meta_data adjusted_time conflict_resolution_mode =
     struct_pack EXTENDED_META_DATA_FMT [EXTENDED_META_DATA_VERSION, META_DATA_ID_ADJUSTED_TIME,
       META_DATA_ID_ADJUSTED_TIME_SIZE, adjusted_time, META_DATA_ID_CONFLICT_RESOLUTION_MODE,
       META_DATA_ID_CONFLICT_RESOLUTION_MODE_SIZE, conflict_resolution_mode]"

definition doMetaCmd ::
  "int \<Rightarrow> int \<Rightarrow> string \<Rightarrow> string \<Rightarrow> int \<Rightarrow> int \<Rightarrow> int \<Rightarrow> int \<Rightarrow> int \<Rightarrow> string option \<Rightarrow> coll \<Rightarrow> reply mc" where
  "doMetaCmd rnd cmd key val cas flags seqno remote_cas options scope collection =
     mpack ''>IIQQI'' [flags, 0, seqno, remote_cas, options] (\<lambda>extra.
     mbind (mget (collection_name scope collection)) (\<lambda>(s, col). doCmd rnd cmd key val extra cas s col))"

definition setWithMeta ::
  "int \<Rightarrow> string \<Rightarrow> string \<Rightarrow> int \<Rightarrow> int \<Rightarrow> int \<Rightarrow> int \<Rightarrow> int \<Rightarrow> string option \<Rightarrow> coll \<Rightarrow> reply mc" where
  "setWithMeta rnd key val exp flags seqno remote_cas options scope collection =
     mbind (mget (collection_name scope collection)) (\<lambda>(s, col).
     doMetaCmd rnd CMD_SET_WITH_META key val 0 flags seqno remote_cas options s col)"

definition setWithMetaInvalid ::
  "int \<Rightarrow> string \<Rightarrow> string \<Rightarrow> int \<Rightarrow> int \<Rightarrow> int \<Rightarrow> int \<Rightarrow> int \<Rightarrow> string option \<Rightarrow> coll \<Rightarrow> reply mc" where
  "setWithMetaInvalid rnd key val exp flags seqno remote_cas options scope collection =
     mbind (mget (collection_name scope collection)) (\<lambda>(s, col).
     mpack ''>IIQiI'' [flags, 0, seqno, remote_cas, options] (\<lambda>extra.
     doCmd rnd CMD_SET_WITH_META key val extra 0 s col))"

text \<open>Four values are packed into the five fields of \<^verbatim>\<open>META_EXTRA_FMT\<close>.\<close>

definition setWithMetaLWW ::
  "int \<Rightarrow> string \<Rightarrow> string \<Rightarrow> int \<Rightarrow> int \<Rightarrow> int \<Rightarrow> string option \<Rightarrow> coll \<Rightarrow> reply mc" where
  "setWithMetaLWW rnd key val exp flags cas scope collection =
     routed key (-1) scope collection (\<lambda>s col.
       mpack META_EXTRA_FMT [flags, exp, 0, cas] (\<lambda>extra.
       doCmd rnd CMD_SET_WITH_META key val extra 0 s col))"

text \<open>\<^verbatim>\<open>memcacheConstants.CMD_DEL_WITH_META\<close> does not exist.\<close>

definition delWithMetaLWW :: "int \<Rightarrow> string \<Rightarrow> int \<Rightarrow> int \<Rightarrow> int \<Rightarrow> string option \<Rightarrow> coll \<Rightarrow> reply mc" where
  "delWithMetaLWW rnd key exp flags cas scope collection =
     routed key (-1) scope collection (\<lambda>s col. mlift (Inl AttributeError))"

text \<open>\<^verbatim>\<open>set_with_meta\<close> computes the vbucket before the collection name.\<close>

definition set_with_meta ::
  "int \<Rightarrow> string \<Rightarrow> int \<Rightarrow> int \<Rightarrow> int \<Rightarrow> int \<Rightarrow> string \<Rightarrow> int \<Rightarrow> string option \<Rightarrow> coll \<Rightarrow> reply mc" where
  "set_with_meta rnd key exp flags seqno cas val vbucket scope collection =
     mbind (set_vbucket key vbucket) (\<lambda>_.
     mbind (mget (collection_name scope collection)) (\<lambda>(s, col).
     mpack SKIP_META_CMD_FMT [flags, exp, seqno, cas, CR] (\<lambda>extra.
     doCmd rnd CMD_SET_WITH_META key val extra 0 s col)))"

definition del_with_meta ::
  "int \<Rightarrow> string \<Rightarrow> int \<Rightarrow> int \<Rightarrow> int \<Rightarrow> int \<Rightarrow> int \<Rightarrow> int \<Rightarrow> string option \<Rightarrow> coll \<Rightarrow> reply mc" where
  "del_with_meta rnd key exp flags seqno cas vbucket options scope collection =
     routed key vbucket scope collection (\<lambda>s col.
       mpack EXTENDED_META_CMD_FMT [flags, exp, seqno, cas, options, 0] (\<lambda>extra.
       doCmd rnd CMD_DELETE_WITH_META key [] extra 0 s col))"

section \<open>Retrieval\<close>

type_synonym got = "int \<times> int \<times> string" \<comment> \<open>flags, cas, value\<close>

definition parseGet :: "reply \<Rightarrow> nat \<Rightarrow> got res" where
  "parseGet parts klen =
     (case parts of (_, cas, data) \<Rightarrow>
       rbind (unpack1 GET_RES_FMT (take 4 data)) (\<lambda>flags.
         if klen = 0 then Inr (flags, cas, drop 4 data)
         else Inr (flags, cas, ''{'' @ last (py_split CHR ''{'' data))))"

definition mc_get :: "int \<Rightarrow> string \<Rightarrow> int \<Rightarrow> string option \<Rightarrow> coll \<Rightarrow> got mc" where
  "mc_get rnd key vbucket scope collection =
     routed key vbucket scope collection (\<lambda>s col.
       mbind (doCmd rnd CMD_GET key [] [] 0 s col) (\<lambda>parts. mlift (parseGet parts 0)))"

text \<open>\<^verbatim>\<open>send_get\<close> passes scope and collection in the places of \<^verbatim>\<open>extraHeader\<close> and \<^verbatim>\<open>cas\<close>: a
  \<^verbatim>\<open>None\<close> has no length (\<^verbatim>\<open>TypeError\<close>), and a collection name is no integer to pack
  (\<^verbatim>\<open>struct.error\<close>).\<close>

definition send_get :: "int \<Rightarrow> string \<Rightarrow> int \<Rightarrow> string option \<Rightarrow> coll \<Rightarrow> unit mc" where
  "send_get rnd key vbucket scope collection =
     routed key vbucket scope collection (\<lambda>s col.
       case s of
         None \<Rightarrow> mlift (Inl TypeError)
       | Some extra \<Rightarrow>
           (case col of
              CId cas \<Rightarrow> sendCmd CMD_GET key [] rnd extra cas None CNone [] None
            | _ \<Rightarrow> mlift (Inl StructError)))"

text \<open>\<^verbatim>\<open>getl\<close> does not call \<^verbatim>\<open>collection_name\<close>.\<close>

definition mc_getl :: "int \<Rightarrow> string \<Rightarrow> int \<Rightarrow> int \<Rightarrow> string option \<Rightarrow> coll \<Rightarrow> got mc" where
  "mc_getl rnd key exp vbucket scope collection =
     mbind (set_vbucket key vbucket) (\<lambda>_.
     mpack GETL_PKT_FMT [exp] (\<lambda>extra.
     mbind (doCmd rnd CMD_GET_LOCKED key [] extra 0 scope collection) (\<lambda>parts. mlift (parseGet parts 0))))"

definition mc_getr :: "int \<Rightarrow> string \<Rightarrow> int \<Rightarrow> string option \<Rightarrow> coll \<Rightarrow> got mc" where
  "mc_getr rnd key vbucket scope collection =
     routed key vbucket scope collection (\<lambda>s col.
       mbind (doCmd rnd CMD_GET_REPLICA key [] [] 0 s col) (\<lambda>parts. mlift (parseGet parts (length key))))"

definition mc_gat :: "int \<Rightarrow> string \<Rightarrow> int \<Rightarrow> int \<Rightarrow> string option \<Rightarrow> coll \<Rightarrow> got mc" where
  "mc_gat rnd key exp vbucket scope collection =
     routed key vbucket scope collection (\<lambda>s col.
       mpack GAT_PKT_FMT [exp] (\<lambda>extra.
       mbind (doCmd rnd CMD_GAT key [] extra 0 s col) (\<lambda>parts. mlift (parseGet parts 0))))"

record meta =
  md_deleted :: int
  md_flags :: int
  md_exp :: int
  md_seqno :: int
  md_cas :: int
  md_conflict :: "int option"

definition parse_meta :: "bool \<Rightarrow> int \<Rightarrow> string \<Rightarrow> meta res" where
  "parse_meta extended cas data =
     rbind (unpack1 ''>I'' (py_slice 0 4 data)) (\<lambda>deleted.
     rbind (unpack1 ''>I'' (py_slice 4 8 data)) (\<lambda>flags.
     rbind (unpack1 ''>I'' (py_slice 8 12 data)) (\<lambda>exp.
     rbind (unpack1 ''>Q'' (py_slice 12 20 data)) (\<lambda>seqno.
     if extended
     then rbind (unpack1 ''>B'' (py_slice 20 21 data)) (\<lambda>conflict.
            Inr \<lparr>md_deleted = deleted, md_flags = flags, md_exp = exp, md_seqno = seqno, md_cas = cas,
                 md_conflict = Some conflict\<rparr>)
     else Inr \<lparr>md_deleted = deleted, md_flags = flags, md_exp = exp, md_seqno = seqno, md_cas = cas,
               md_conflict = None\<rparr>))))"

definition getMeta :: "int \<Rightarrow> string \<Rightarrow> bool \<Rightarrow> string option \<Rightarrow> coll \<Rightarrow> meta mc" where
  "getMeta rnd key extended scope collection =
     routed key (-1) scope collection (\<lambda>s col.
       mbind (mlift (if extended then struct_pack ''>B'' [1] else Inr [])) (\<lambda>extras.
       mbind (doCmd rnd CMD_GET_META key [] extras 0 s col) (\<lambda>(_, cas, data).
       mlift (parse_meta extended cas data))))"

text \<open>\<^verbatim>\<open>bytes([data[4 + len(key)]])\<close> is, on Python 2, the text of a list such as \<^verbatim>\<open>['x']\<close>, which has
  more than the one byte that \<^verbatim>\<open>struct.unpack('>B', ...)\<close> wants.\<close>

definition mc_observe :: "int \<Rightarrow> string \<Rightarrow> int \<Rightarrow> string option \<Rightarrow> coll \<Rightarrow> unit mc" where
  "mc_observe rnd key vbucket scope collection =
     routed key vbucket scope collection (\<lambda>s col.
       mbind (mlift (str_encode key)) (\<lambda>k.
       mbind (mget vbucketId) (\<lambda>vb.
       mpack ''>HH'' [vb, int (length k)] (\<lambda>hd.
       mbind (doCmd rnd CMD_OBSERVE [] (hd @ k) [] 0 s col) (\<lambda>(_, cas, data).
       mlift (if length data \<le> 4 + length k then Inl IndexError else Inl StructError))))))"

record seqno_state =
  so_opaque :: int
  so_format :: int
  so_vbucket :: int
  so_uuid :: int
  so_persisted :: int
  so_current :: int
  so_old_uuid :: "int option"
  so_last_received :: "int option"

definition parse_observe_seqno :: "int \<Rightarrow> string \<Rightarrow> seqno_state res" where
  "parse_observe_seqno opaque data =
     (if data = [] then Inl IndexError
      else rbind (unpack1 ''>B'' (take 1 data)) (\<lambda>format_type.
        rbind (unpack1 ''>H'' (py_slice 1 3 data)) (\<lambda>vbucket_id.
        rbind (unpack1 ''>Q'' (py_slice 3 11 data)) (\<lambda>uuid.
        rbind (unpack1 ''>Q'' (py_slice 11 19 data)) (\<lambda>persisted.
        rbind (unpack1 ''>Q'' (py_slice 19 27 data)) (\<lambda>current.
        rbind (if format_type = 1
               then rbind (unpack1 ''>Q'' (py_slice 27 35 data)) (\<lambda>u.
                    rbind (unpack1 ''>Q'' (py_slice 35 43 data)) (\<lambda>l. Inr (Some u, Some l)))
               else Inr (None, None)) (\<lambda>(old, last_rcv).
        Inr \<lparr>so_opaque = opaque, so_format = format_type, so_vbucket = vbucket_id, so_uuid = uuid,
             so_persisted = persisted, so_current = current, so_old_uuid = old,
             so_last_received = last_rcv\<rparr>)))))))"

definition observe_seqno :: "int \<Rightarrow> string \<Rightarrow> int \<Rightarrow> int \<Rightarrow> string option \<Rightarrow> coll \<Rightarrow> seqno_state mc" where
  "observe_seqno rnd key vbucket_uuid vbucket scope collection =
     routed key vbucket scope collection (\<lambda>s col.
       mpack ''>Q'' [vbucket_uuid] (\<lambda>val.
       mbind (doCmd rnd CMD_OBSERVE_SEQNO [] val [] 0 s col) (\<lambda>(opaque, _, data).
       mlift (parse_observe_seqno opaque data))))"

end
