(* ===== verification/Mc_Admin.thy ===== *)
theory Mc_Admin
  imports Mc_Client
begin

text \<open>
  The remaining single-response operations of \<^verbatim>\<open>MemcachedClient\<close>: clock drift, authentication,
  persistence and parameters, vbucket states, sub-document commands, the SYNC command, feature
  negotiation, the error map and the collection map, with the texts of the error codes.
\<close>

section \<open>Time\<close>

definition get_adjusted_time :: "int \<Rightarrow> int \<Rightarrow> string option \<Rightarrow> coll \<Rightarrow> reply mc" where
  "get_adjusted_time rnd vbucket scope collection =
     mbind (mget (collection_name scope collection)) (\<lambda>(s, col).
     mbind (mput (\<lambda>c. c\<lparr>vbucketId := vbucket\<rparr>)) (\<lambda>_.
     doCmd rnd CMD_GET_ADJUSTED_TIME [] [] [] 0 s col))"

definition set_time_drift_counter_state :: "int \<Rightarrow> int \<Rightarrow> int \<Rightarrow> int \<Rightarrow> string option \<Rightarrow> coll \<Rightarrow> reply mc" where
  "set_time_drift_counter_state rnd vbucket drift state scope collection =
     mbind (mget (collection_name scope collection)) (\<lambda>(s, col).
     mbind (mput (\<lambda>c. c\<lparr>vbucketId := vbucket\<rparr>)) (\<lambda>_.
     mpack SET_DRIFT_COUNTER_STATE_REQ_FMT [drift, state] (\<lambda>extras.
     doCmd rnd CMD_SET_DRIFT_COUNTER_STATE [] [] extras 0 s col)))"

definition set_time_sync_state :: "int \<Rightarrow> int \<Rightarrow> int \<Rightarrow> string option \<Rightarrow> coll \<Rightarrow> reply mc" where
  "set_time_sync_state rnd vbucket state scope collection =
     mbind (mget (collection_name scope collection)) (\<lambda>(s, col).
     mbind (mput (\<lambda>c. c\<lparr>vbucketId := vbucket\<rparr>)) (\<lambda>_.
     mpack SET_DRIFT_COUNTER_STATE_REQ_FMT [0, state] (\<lambda>extras.
     doCmd rnd CMD_SET_DRIFT_COUNTER_STATE [] [] extras 0 s col)))"

section \<open>Authentication\<close>

definition mc_version :: "int \<Rightarrow> reply mc" where
  "mc_version rnd = doCmd_plain rnd CMD_VERSION"

definition sasl_mechanisms :: "int \<Rightarrow> string set mc" where
  "sasl_mechanisms rnd =
     mbind (doCmd_plain rnd CMD_SASL_LIST_MECHS) (\<lambda>(_, _, data). mret (set (py_split CHR '' '' data)))"

definition sasl_auth_start :: "int \<Rightarrow> string \<Rightarrow> string \<Rightarrow> reply mc" where
  "sasl_auth_start rnd mech data = doCmd rnd CMD_SASL_AUTH mech data [] 0 None CNone"

definition sasl_auth_plain :: "int \<Rightarrow> string \<Rightarrow> string \<Rightarrow> string \<Rightarrow> reply mc" where
  "sasl_auth_plain rnd user password foruser =
     sasl_auth_start rnd ''PLAIN'' (py_join [char_of (0::nat)] [foruser, user, password])"

definition sasl_auth_cram_md5 ::
  "(string \<Rightarrow> string option \<Rightarrow> string) \<Rightarrow> int \<Rightarrow> int \<Rightarrow> string \<Rightarrow> string \<Rightarrow> reply mc" where
  "sasl_auth_cram_md5 hmac_hex rnd1 rnd2 user password c =
     (case sasl_auth_start rnd1 ''CRAM-MD5'' [] c of
        (Inl (MemcachedError status msg), c') \<Rightarrow>
          (if status \<noteq> ERR_AUTH_CONTINUE then (Inl (MemcachedError status msg), c')
           else doCmd rnd2 CMD_SASL_STEP ''CRAM-MD5''
                  (user @ '' '' @ hmac_hex password (Some (hd (py_split CHR '' '' msg)))) [] 0 None CNone c')
      | (Inl e, c') \<Rightarrow> (Inl e, c')
      | (Inr _, c') \<Rightarrow>
          doCmd rnd2 CMD_SASL_STEP ''CRAM-MD5'' (user @ '' '' @ hmac_hex password None) [] 0 None CNone c')"

section \<open>Persistence, parameters, online update\<close>

definition stop_persistence :: "int \<Rightarrow> reply mc" where
  "stop_persistence rnd = doCmd_plain rnd CMD_STOP_PERSISTENCE"

definition start_persistence :: "int \<Rightarrow> reply mc" where
  "start_persistence rnd = doCmd_plain rnd CMD_START_PERSISTENCE"

definition set_flush_param :: "int \<Rightarrow> string \<Rightarrow> string \<Rightarrow> reply mc" where
  "set_flush_param rnd key val = doCmd rnd CMD_SET_FLUSH_PARAM key val [] 0 None CNone"

definition set_param :: "int \<Rightarrow> string \<Rightarrow> string \<Rightarrow> int \<Rightarrow> reply mc" where
  "set_param rnd key val type =
     mpack GET_RES_FMT [type] (\<lambda>t. doCmd rnd CMD_SET_FLUSH_PARAM key val t 0 None CNone)"

definition start_onlineupdate :: "int \<Rightarrow> reply mc" where
  "start_onlineupdate rnd = doCmd_plain rnd CMD_START_ONLINEUPDATE"

definition complete_onlineupdate :: "int \<Rightarrow> reply mc" where
  "complete_onlineupdate rnd = doCmd_plain rnd CMD_COMPLETE_ONLINEUPDATE"

definition revert_onlineupdate :: "int \<Rightarrow> reply mc" where
  "revert_onlineupdate rnd = doCmd_plain rnd CMD_REVERT_ONLINEUPDATE"

definition set_tap_param :: "int \<Rightarrow> string \<Rightarrow> string \<Rightarrow> reply mc" where
  "set_tap_param rnd key val = doCmd rnd CMD_SET_TAP_PARAM key val [] 0 None CNone"

section \<open>VBuckets, buckets and files\<close>

definition set_vbucket_state :: "int \<Rightarrow> int \<Rightarrow> string \<Rightarrow> reply mc" where
  "set_vbucket_state rnd vbucket stateName =
     mbind (mput (\<lambda>c. c\<lparr>vbucketId := vbucket\<rparr>)) (\<lambda>_.
     mbind (mlift (dict_lookup VB_STATE_NAMES stateName)) (\<lambda>st.
     mpack VB_SET_PKT_FMT [st] (\<lambda>state. doCmd rnd CMD_SET_VBUCKET_STATE [] [] state 0 None CNone)))"

definition get_vbucket_state :: "int \<Rightarrow> int \<Rightarrow> reply mc" where
  "get_vbucket_state rnd vbucket =
     mbind (mput (\<lambda>c. c\<lparr>vbucketId := vbucket\<rparr>)) (\<lambda>_. doCmd_plain rnd CMD_GET_VBUCKET_STATE)"

definition delete_vbucket :: "int \<Rightarrow> int \<Rightarrow> reply mc" where
  "delete_vbucket rnd vbucket =
     mbind (mput (\<lambda>c. c\<lparr>vbucketId := vbucket\<rparr>)) (\<lambda>_. doCmd_plain rnd CMD_DELETE_VBUCKET)"

definition mc_noop :: "int \<Rightarrow> reply mc" where
  "mc_noop rnd = doCmd_plain rnd CMD_NOOP"

definition mc_flush :: "int \<Rightarrow> int \<Rightarrow> reply mc" where
  "mc_flush rnd timebomb = mpack FLUSH_PKT_FMT [timebomb] (\<lambda>t. doCmd rnd CMD_FLUSH [] [] t 0 None CNone)"

definition bucket_select :: "int \<Rightarrow> string \<Rightarrow> reply mc" where
  "bucket_select rnd name = doCmd rnd CMD_SELECT_BUCKET name [] [] 0 None CNone"

definition list_buckets :: "int \<Rightarrow> string list mc" where
  "list_buckets rnd =
     mbind (doCmd_plain rnd CMD_LIST_BUCKETS) (\<lambda>(_, _, data). mret (py_split CHR '' '' (py_strip data)))"

definition restore_file :: "int \<Rightarrow> string \<Rightarrow> reply mc" where
  "restore_file rnd filename = doCmd rnd CMD_RESTORE_FILE filename [] [] 0 None CNone"

definition restore_complete :: "int \<Rightarrow> reply mc" where
  "restore_complete rnd = doCmd_plain rnd CMD_RESTORE_COMPLETE"

definition deregister_tap_client :: "int \<Rightarrow> string \<Rightarrow> reply mc" where
  "deregister_tap_client rnd tap_name = doCmd rnd CMD_DEREGISTER_TAP_CLIENT tap_name [] [] 0 None CNone"

definition reset_replication_chain :: "int \<Rightarrow> reply mc" where
  "reset_replication_chain rnd = doCmd_plain rnd CMD_RESET_REPLICATION_CHAIN"

definition get_config :: "int \<Rightarrow> reply mc" where
  "get_config rnd = doCmd_plain rnd CMD_GET_CLUSTER_CONFIG"

definition set_config :: "int \<Rightarrow> string \<Rightarrow> reply mc" where
  "set_config rnd blob_conf = doCmd rnd CMD_SET_CLUSTER_CONFIG blob_conf [] [] 0 None CNone"

section \<open>Sub-document commands\<close>

definition doSdCmd ::
  "int \<Rightarrow> int \<Rightarrow> string \<Rightarrow> string \<Rightarrow> string option \<Rightarrow> int \<Rightarrow> int \<Rightarrow> int \<Rightarrow> bool \<Rightarrow> string option \<Rightarrow> coll \<Rightarrow> reply mc" where
  "doSdCmd rnd cmd key path val expiry opaque cas create scope collection =
     (let opq = (if opaque = 0 then rnd else opaque);
          createFlag = (if create then SUBDOC_FLAGS_MKDIR_P else 0);
          pathlen = int (length path);
          body = path @ (case val of None \<Rightarrow> [] | Some v \<Rightarrow> v) in
      mbind (mlift (if expiry = 0 then struct_pack REQ_PKT_SD_EXTRAS [pathlen, createFlag]
                    else struct_pack REQ_PKT_SD_EXTRAS_EXPIRY [pathlen, createFlag, expiry])) (\<lambda>extra.
      mbind (sendCmd cmd key body opq extra cas scope collection [] None) (\<lambda>_.
      handleSingleResponse (Some opq))))"

definition get_sd :: "int \<Rightarrow> string \<Rightarrow> string \<Rightarrow> int \<Rightarrow> int \<Rightarrow> string option \<Rightarrow> coll \<Rightarrow> reply mc" where
  "get_sd rnd key path cas vbucket scope collection =
     mbind (set_vbucket key vbucket) (\<lambda>_. doSdCmd rnd CMD_SUBDOC_GET key path None 0 0 cas False scope collection)"

definition exists_sd :: "int \<Rightarrow> string \<Rightarrow> string \<Rightarrow> int \<Rightarrow> int \<Rightarrow> int \<Rightarrow> string option \<Rightarrow> coll \<Rightarrow> reply mc" where
  "exists_sd rnd key path opaque cas vbucket scope collection =
     mbind (set_vbucket key vbucket) (\<lambda>_.
       doSdCmd rnd CMD_SUBDOC_EXISTS key path None 0 opaque cas False scope collection)"

definition delete_sd :: "int \<Rightarrow> string \<Rightarrow> string \<Rightarrow> int \<Rightarrow> int \<Rightarrow> int \<Rightarrow> string option \<Rightarrow> coll \<Rightarrow> reply mc" where
  "delete_sd rnd key path opaque cas vbucket scope collection =
     mbind (set_vbucket key vbucket) (\<lambda>_.
       doSdCmd rnd CMD_SUBDOC_DELETE key path None 0 opaque cas False scope collection)"

text \<open>The mutations with a value differ in their opcode only: \<^verbatim>\<open>self._set_vbucket(...)\<close> and
  \<^verbatim>\<open>self._doSdCmd(cmd, key, path, value, expiry, opaque, cas, create)\<close>.\<close>

definition mutate_sd ::
  "int \<Rightarrow> int \<Rightarrow> string \<Rightarrow> string \<Rightarrow> string \<Rightarrow> int \<Rightarrow> int \<Rightarrow> int \<Rightarrow> bool \<Rightarrow> int \<Rightarrow> string option \<Rightarrow> coll \<Rightarrow> reply mc" where
  "mutate_sd cmd rnd key path val expiry opaque cas create vbucket scope collection =
     mbind (set_vbucket key vbucket) (\<lambda>_.
       doSdCmd rnd cmd key path (Some val) expiry opaque cas create scope collection)"

definition dict_add_sd where "dict_add_sd = mutate_sd CMD_SUBDOC_DICT_ADD"
definition dict_upsert_sd where "dict_upsert_sd = mutate_sd CMD_SUBDOC_DICT_UPSERT"
definition replace_sd where "replace_sd = mutate_sd CMD_SUBDOC_REPLACE"
definition array_push_last_sd where "array_push_last_sd = mutate_sd CMD_SUBDOC_ARRAY_PUSH_LAST"
definition array_push_first_sd where "array_push_first_sd = mutate_sd CMD_SUBDOC_ARRAY_PUSH_FIRST"
definition array_add_unique_sd where "array_add_unique_sd = mutate_sd CMD_SUBDOC_ARRAY_ADD_UNIQUE"
definition array_add_insert_sd where "array_add_insert_sd = mutate_sd CMD_SUBDOC_ARRAY_INSERT"
definition counter_sd where "counter_sd = mutate_sd CMD_SUBDOC_COUNTER"

text \<open>\<^verbatim>\<open>multi_lookup_sd\<close> passes its arguments by position one place too far: the expiry becomes the
  value, the opaque the expiry, the cas the opaque and the create flag the cas.\<close>

definition multi_lookup_sd ::
  "int \<Rightarrow> string \<Rightarrow> string \<Rightarrow> int \<Rightarrow> int \<Rightarrow> int \<Rightarrow> bool \<Rightarrow> int \<Rightarrow> string option \<Rightarrow> coll \<Rightarrow> reply mc" where
  "multi_lookup_sd rnd key path expiry opaque cas create vbucket scope collection =
     mbind (set_vbucket key vbucket) (\<lambda>_.
       doSdCmd rnd CMD_SUBDOC_MULTI_LOOKUP key path (Some (int_str expiry)) opaque cas (of_bool create) False
         scope collection)"

datatype sd_value = SStr string | SInt int | SOther

record sd_spec =
  sd_create_parents :: bool
  sd_path :: string
  sd_value :: sd_value

definition sd_opcode :: "string \<Rightarrow> int option" where
  "sd_opcode k =
     (if k = ''store'' then Some CMD_SUBDOC_DICT_ADD
      else if k = ''counter'' then Some CMD_SUBDOC_COUNTER
      else if k = ''add_unique'' then Some CMD_SUBDOC_ARRAY_ADD_UNIQUE
      else if k = ''push_first'' then Some CMD_SUBDOC_ARRAY_PUSH_FIRST
      else if k = ''push_last'' then Some CMD_SUBDOC_ARRAY_PUSH_LAST
      else if k = ''array_insert'' then Some CMD_SUBDOC_ARRAY_INSERT
      else if k = ''insert'' then Some CMD_SUBDOC_DICT_ADD
      else None)"

text \<open>The loop of \<^verbatim>\<open>_doMultiSdCmd\<close>: \<^verbatim>\<open>mcmd\<close> and \<^verbatim>\<open>value\<close> keep what an earlier entry left in them. An
  unknown command with no earlier one packs \<^verbatim>\<open>None\<close>; a value that is neither a string nor an
  integer, with no earlier one, is an unbound variable.\<close>

definition multi_sd_item ::
  "string \<times> sd_spec \<Rightarrow> int option \<Rightarrow> string option \<Rightarrow> (int \<times> string \<times> string) res" where
  "multi_sd_item item mcmd val =
     (case item of (k, v) \<Rightarrow>
       let flags = (if sd_create_parents v then 1 else 0);
           path = sd_path v;
           (val', vallen) = (case sd_value v of
               SStr s \<Rightarrow> (Some (CHR 0x22 # s @ [CHR 0x22]), length s + 2)
             | SInt i \<Rightarrow> (Some (int_str i), length (int_str i))
             | SOther \<Rightarrow> (val, 0))
       in rbind (of_option StructError (case sd_opcode k of Some op \<Rightarrow> Some op | None \<Rightarrow> mcmd)) (\<lambda>op.
          rbind (struct_pack REQ_PKT_SD_MULTI_MUTATE [op, flags, int (length path), int vallen]) (\<lambda>spec.
          rbind (of_option UnboundLocalError val') (\<lambda>w. Inr (op, w, spec @ path @ w)))))"

fun multi_sd_body ::
  "(string \<times> sd_spec) list \<Rightarrow> int option \<Rightarrow> string option \<Rightarrow> string \<Rightarrow> string res" where
  "multi_sd_body [] mcmd val body = Inr body"
| "multi_sd_body (item # items) mcmd val body =
     rbind (multi_sd_item item mcmd val) (\<lambda>(op, w, op_spec).
       multi_sd_body items (Some op) (Some w) (body @ op_spec))"

text \<open>The request is sent with \<^verbatim>\<open>_sendMsg\<close> and its default vbucket 0, not with the client's
  \<^verbatim>\<open>vbucketId\<close>.\<close>

definition doMultiSdCmd ::
  "int \<Rightarrow> int \<Rightarrow> string \<Rightarrow> (string \<times> sd_spec) list \<Rightarrow> int \<Rightarrow> string option \<Rightarrow> coll \<Rightarrow> reply mc" where
  "doMultiSdCmd rnd cmd key cmdDict opaque scope collection =
     (let opq = (if opaque = 0 then rnd else opaque) in
      mbind (mlift (multi_sd_body cmdDict None None [])) (\<lambda>body.
      mbind (sendMsg \<lparr>rq_magic = REQ_MAGIC_BYTE, rq_cmd = cmd, rq_dtype = 0, rq_vbucket = 0, rq_opaque = opq,
               rq_cas = 0, rq_extra = [], rq_extra_len = None, rq_key = key, rq_val = body,
               rq_ext_meta = []\<rparr> scope collection) (\<lambda>_.
      handleSingleResponse (Some opq))))"

definition multi_mutation_sd ::
  "int \<Rightarrow> string \<Rightarrow> (string \<times> sd_spec) list \<Rightarrow> int \<Rightarrow> int \<Rightarrow> string option \<Rightarrow> coll \<Rightarrow> reply mc" where
  "multi_mutation_sd rnd key cmdDict opaque vbucket scope collection =
     mbind (set_vbucket key vbucket) (\<lambda>_.
       doMultiSdCmd rnd CMD_SUBDOC_MULTI_MUTATION key cmdDict opaque scope collection)"


section \<open>SYNC\<close>

datatype keyspec = SpecDict "int option" "int option" "string option" \<comment> \<open>cas, vbucket, key\<close> | SpecOther

definition pack_spec :: "keyspec \<Rightarrow> string res" where
  "pack_spec spec =
     (case spec of
        SpecOther \<Rightarrow> Inl TypeError
      | SpecDict cas vbucket key \<Rightarrow>
          (case vbucket of
             None \<Rightarrow> Inl TypeError
           | Some vb \<Rightarrow>
               (case key of
                  None \<Rightarrow> Inl TypeError
                | Some k \<Rightarrow>
                    rbind (struct_pack ''>Q'' [case cas of None \<Rightarrow> 0 | Some n \<Rightarrow> n]) (\<lambda>a.
                    rbind (struct_pack ''>H'' [vb]) (\<lambda>b.
                    rbind (struct_pack ''>H'' [int (length k)]) (\<lambda>l.
                    Inr (a @ b @ l @ k)))))))"

definition build_sync_payload :: "int \<Rightarrow> keyspec list \<Rightarrow> string res" where
  "build_sync_payload flags keyspecs =
     rbind (struct_pack ''>I'' [flags]) (\<lambda>f.
     rbind (struct_pack ''>H'' [int (length keyspecs)]) (\<lambda>n.
     rfold (\<lambda>payload spec. rbind (pack_spec spec) (\<lambda>s. Inr (payload @ s))) (f @ n) keyspecs))"

record sync_result =
  sy_cas :: int
  sy_vbucket :: int
  sy_key :: string
  sy_event :: string

text \<open>An event id that is none of the first five reaches \<^verbatim>\<open>spec['event']\<close> before it is set:
  \<^verbatim>\<open>KeyError\<close>.\<close>

definition sync_event :: "int \<Rightarrow> string res" where
  "sync_event eventid =
     (if eventid = CMD_SYNC_EVENT_PERSISTED then Inr ''persisted''
      else if eventid = CMD_SYNC_EVENT_MODIFED then Inr ''modified''
      else if eventid = CMD_SYNC_EVENT_DELETED then Inr ''deleted''
      else if eventid = CMD_SYNC_EVENT_REPLICATED then Inr ''replicated''
      else if eventid = CMD_SYNC_INVALID_KEY then Inr ''invalid key''
      else Inl KeyError)"

fun parse_sync_loop :: "nat \<Rightarrow> string \<Rightarrow> sync_result list res" where
  "parse_sync_loop 0 data = Inr []"
| "parse_sync_loop (Suc n) data =
     rbind (struct_unpack ''>QHHB'' (take 13 data)) (\<lambda>vs.
     let keylen = nat (vs ! 2); rest = drop 13 data in
     rbind (sync_event (vs ! 3)) (\<lambda>ev.
     rbind (parse_sync_loop n (drop keylen rest)) (\<lambda>specs.
     Inr (\<lparr>sy_cas = vs ! 0, sy_vbucket = vs ! 1, sy_key = take keylen rest, sy_event = ev\<rparr> # specs))))"

definition parse_sync_response :: "string \<Rightarrow> sync_result list res" where
  "parse_sync_response data =
     rbind (unpack1 ''>H'' (take 2 data)) (\<lambda>nkeys. parse_sync_loop (nat nkeys) (drop 2 data))"

definition do_sync :: "int \<Rightarrow> int \<Rightarrow> keyspec list \<Rightarrow> (int \<times> int \<times> sync_result list) mc" where
  "do_sync flags rnd keyspecs =
     mbind (mlift (build_sync_payload flags keyspecs)) (\<lambda>payload.
     mbind (doCmd rnd CMD_SYNC [] payload [] 0 None CNone) (\<lambda>(opaque, cas, data).
     mbind (mlift (parse_sync_response data)) (\<lambda>specs. mret (opaque, cas, specs))))"

definition sync_persistence where "sync_persistence = do_sync 0x8"
definition sync_mutation where "sync_mutation = do_sync 0x4"

definition sync_replication where
  "sync_replication numReplicas = do_sync (push_bit 4 (and numReplicas 0x0f))"

definition sync_replication_or_persistence where
  "sync_replication_or_persistence numReplicas = do_sync (or (push_bit 4 (and numReplicas 0x0f)) 0x8)"

definition sync_replication_and_persistence where
  "sync_replication_and_persistence numReplicas = do_sync (or (push_bit 4 (and numReplicas 0x0f)) 0xA)"

section \<open>Features, error map and collections\<close>

definition enable_xerror :: "unit mc" where
  "enable_xerror = mput (\<lambda>c. c\<lparr>feature_flag := insert FEATURE_XERROR (feature_flag c)\<rparr>)"

definition enable_collections :: "unit mc" where
  "enable_collections = mput (\<lambda>c. c\<lparr>feature_flag := insert FEATURE_COLLECTIONS (feature_flag c)\<rparr>)"

text \<open>\<open>json_errors\<close> is \<^verbatim>\<open>json.loads(errmap)['errors'].items()\<close>.\<close>

definition get_error_map ::
  "(string \<Rightarrow> (string \<times> err_entry) list res) \<Rightarrow> int \<Rightarrow> (int, err_entry) dict mc" where
  "get_error_map json_errors rnd =
     mbind (mget error_map_version) (\<lambda>v.
     mpack ''!H'' [v] (\<lambda>val.
     mbind (doCmd rnd CMD_GET_ERROR_MAP [] val [] 0 None CNone) (\<lambda>(_, _, errmap).
     mbind (mlift (json_errors errmap)) (\<lambda>items.
     mlift (rfold (\<lambda>d (k, v). rbind (py_int 16 k) (\<lambda>n. Inr (AList.update n v d))) [] items)))))"

text \<open>\<^verbatim>\<open>features.update(struct.unpack_from('>H', supported, i))\<close> for every second index.\<close>

fun feature_list :: "string \<Rightarrow> int list res" where
  "feature_list [] = Inr []"
| "feature_list [a] = Inl StructError"
| "feature_list (a # b # s) =
     rbind (unpack1 ''>H'' [a, b]) (\<lambda>f. rbind (feature_list s) (\<lambda>fs. Inr (f # fs)))"

definition hello :: "(string \<Rightarrow> (string \<times> err_entry) list res) \<Rightarrow> int \<Rightarrow> int \<Rightarrow> int \<Rightarrow> unit mc" where
  "hello json_errors rnd1 rnd2 flag =
     mpack ''>H'' [flag] (\<lambda>val.
     mbind (doCmd rnd1 CMD_HELLO [] val [] 0 None CNone) (\<lambda>(_, _, supported).
     mbind (mlift (unpack1 ''>H'' supported)) (\<lambda>result.
     mbind (mput (\<lambda>c. if result \<noteq> flag then c else c\<lparr>collections_supported := True\<rparr>)) (\<lambda>_.
     mbind (mlift (feature_list supported)) (\<lambda>fs.
     mbind (mput (\<lambda>c. c\<lparr>features := features c \<union> set fs\<rparr>)) (\<lambda>_.
     mbind (mget is_xerror_supported) (\<lambda>x.
     if x then mbind (get_error_map json_errors rnd2) (\<lambda>m. mput (\<lambda>c. c\<lparr>error_map := Some m\<rparr>))
     else mret ())))))))"

text \<open>The parsed manifest: a list of scopes, each a dict with optional name and collections; each
  collection a dict with the keys \<^verbatim>\<open>name\<close> and \<^verbatim>\<open>uid\<close>. The right-hand side of the assignment is
  evaluated before the target; a \<^verbatim>\<open>KeyError\<close> ends the scope.\<close>

type_synonym json_collection = "(string, string) dict"
type_synonym json_scope = "string option \<times> json_collection list option"

definition map_collection ::
  "string option \<Rightarrow> (string, (string, int) dict) dict \<Rightarrow> json_collection \<Rightarrow> (string, (string, int) dict) dict res" where
  "map_collection sname cmap col =
     rbind (dict_lookup col ''uid'') (\<lambda>uid.
     rbind (py_int 16 uid) (\<lambda>cid.
     rbind (of_option KeyError sname) (\<lambda>s.
     rbind (dict_lookup cmap s) (\<lambda>m.
     rbind (dict_lookup col ''name'') (\<lambda>nm.
     Inr (AList.update s (AList.update nm cid m) cmap))))))"

type_synonym coll_map = "(string, (string, int) dict) dict"

text \<open>The inner loop and the outer loop: the exception that leaves them, if any, and the map with
  the assignments made until then.\<close>

fun map_collections :: "string option \<Rightarrow> coll_map \<Rightarrow> json_collection list \<Rightarrow> py_error option \<times> coll_map" where
  "map_collections sname cmap [] = (None, cmap)"
| "map_collections sname cmap (col # cols) =
     (case map_collection sname cmap col of
        Inl e \<Rightarrow> (if e = KeyError then None else Some e, cmap)
      | Inr cmap' \<Rightarrow> map_collections sname cmap' cols)"

fun map_scopes :: "coll_map \<Rightarrow> json_scope list \<Rightarrow> py_error option \<times> coll_map" where
  "map_scopes cmap [] = (None, cmap)"
| "map_scopes cmap ((sname, cols) # scopes) =
     (case cols of
        None \<Rightarrow> map_scopes cmap scopes
      | Some cs \<Rightarrow>
          (case map_collections sname cmap cs of
             (Some e, cmap') \<Rightarrow> (Some e, cmap')
           | (None, cmap') \<Rightarrow> map_scopes cmap' scopes))"

definition update_collection_map :: "json_scope list \<Rightarrow> unit mc" where
  "update_collection_map scopes c =
     (case map_scopes (collection_map c) scopes of
        (e, cmap) \<Rightarrow> (case e of None \<Rightarrow> Inr () | Some err \<Rightarrow> Inl err, c\<lparr>collection_map := cmap\<rparr>))"

definition set_collections :: "(string \<Rightarrow> json_scope list res) \<Rightarrow> int \<Rightarrow> string \<Rightarrow> unit mc" where
  "set_collections json_scopes rnd manifest =
     mbind (doCmd rnd CMD_COLLECTIONS_SET_MANIFEST [] manifest [] 0 None CNone) (\<lambda>_.
     mbind (mlift (json_scopes manifest)) update_collection_map)"

definition get_collections :: "(string \<Rightarrow> json_scope list res) \<Rightarrow> int \<Rightarrow> bool \<Rightarrow> reply option mc" where
  "get_collections json_scopes rnd update_map =
     mbind (mget collections_supported) (\<lambda>supported.
     if supported then
       mbind (doCmd_plain rnd CMD_COLLECTIONS_GET_MANIFEST) (\<lambda>rv.
       mbind (if update_map then mbind (mlift (json_scopes (snd (snd rv)))) update_collection_map
              else mret ()) (\<lambda>_. mret (Some rv)))
     else mret None)"

section \<open>Error texts\<close>

definition error_to_str :: "int \<Rightarrow> string option" where
  "error_to_str errno = map_of [
     (0x01, ''Not found''), (0x02, ''Exists''), (0x03, ''Too big''), (0x04, ''Invalid''),
     (0x05, ''Not stored''), (0x06, ''Bad Delta''), (0x07, ''Not my vbucket''), (0x08, ''No bucket''),
     (0x1f, ''Auth stale''), (0x20, ''Auth error''), (0x21, ''Auth continue''),
     (0x22, ''Outside legal range''), (0x23, ''Rollback''), (0x24, ''No access''),
     (0x25, ''Not initialized''), (0x81, ''Unknown Command''), (0x82, ''No Memory''),
     (0x83, ''Not Supported''), (0x84, ''Internal error''), (0x85, ''Busy''),
     (0x86, ''Temporary failure''),
     (ERR_SUBDOC_PATH_ENOENT, ''Path not exists''), (ERR_SUBDOC_PATH_MISMATCH, ''Path mismatch''),
     (ERR_SUBDOC_PATH_EEXISTS, ''Path exists already''), (ERR_SUBDOC_PATH_EINVAL, ''Invalid path''),
     (ERR_SUBDOC_PATH_E2BIG, ''Path too big''), (ERR_SUBDOC_VALUE_CANTINSERT, ''Cant insert''),
     (ERR_SUBDOC_DOC_NOTJSON, ''Not json''), (ERR_SUBDOC_NUM_ERANGE, ''Num out of range''),
     (ERR_SUBDOC_DELTA_ERANGE, ''Delta out of range''), (ERR_SUBDOC_DOC_ETOODEEP, ''Doc too deep''),
     (ERR_SUBDOC_VALUE_TOODEEP, ''Value too deep''),
     (ERR_SUBDOC_INVALID_CMD_COMBO, ''Invalid combinations of commands''),
     (ERR_SUBDOC_MULTI_PATH_FAILURE,
      ''Specified key was successfully found, but one or more path operations failed'')] errno"

text \<open>\<^verbatim>\<open>str(MemcachedError(status, msg))\<close>.\<close>

definition memcached_error_text :: "int \<Rightarrow> string \<Rightarrow> string" where
  "memcached_error_text status msg =
     ''Memcached error #'' @ int_str status @ '' '' @
     (case error_to_str status of None \<Rightarrow> ''None'' | Some s \<Rightarrow> CHR 0x27 # s @ [CHR 0x27]) @
     (if msg = [] then [] else '':  '' @ msg)"

definition memcached_error_repr :: "int \<Rightarrow> string \<Rightarrow> string" where
  "memcached_error_repr status msg =
     ''<MemcachedError #'' @ int_str status @ '' ``'' @ msg @ [CHR 0x27, CHR 0x27, CHR ''>'']"


section \<open>What the server sees\<close>

lemma set_vbucket_ok:
  assumes "is_ascii key"
  shows "set_vbucket key vb c =
     (Inr (), c\<lparr>vbucketId := if vb \<le> 0 then get_vbucket_num_for_key key (vbucket_count c) else vb\<rparr>)"
  using assms by (simp add: set_vbucket_def get_vbucket_num_for_key_def)

lemma routed_plain:
  assumes "is_ascii key" and "\<not> collections_supported c"
  shows "routed key vb scope col f c =
     f scope col (c\<lparr>vbucketId := if vb \<le> 0 then get_vbucket_num_for_key key (vbucket_count c) else vb\<rparr>)"
  using assms by (simp add: routed_def collection_name_def set_vbucket_ok mbind_def)

lemma sendCmd_plain:
  assumes "request_bytes \<lparr>rq_magic = REQ_MAGIC_BYTE, rq_cmd = cmd, rq_dtype = 0, rq_vbucket = vbucketId c,
       rq_opaque = opq, rq_cas = cas, rq_extra = extra, rq_extra_len = None, rq_key = key,
       rq_val = val, rq_ext_meta = []\<rparr> = Inr bytes"
  shows "sendCmd cmd key val opq extra cas scope CNone [] None c = (Inr (), c\<lparr>outbox := outbox c @ bytes\<rparr>)"
  using assms by (simp add: sendCmd_def sendMsg_def coll_given_def)

lemma handleSingleResponse_stream:
  assumes "recv_stream (concat (inbox c)) = (Inr r, rest)" and "live_pieces (inbox c)"
    and "rs_opaque r = opq" and "rs_errcode r = 0"
  shows "\<exists>ps'. handleSingleResponse (Some opq) c = (Inr (opq, rs_cas r, rs_data r), c\<lparr>inbox := ps'\<rparr>) \<and>
     concat ps' = rest \<and> live_pieces ps'"
proof -
  obtain ps' where ps': "recvMsg c = (Inr r, c\<lparr>inbox := ps'\<rparr>)" "concat ps' = rest" "live_pieces ps'"
    using recvMsg_stream [OF assms(2,1)] by blast
  then show ?thesis using assms(3,4)
    by (auto simp: handleSingleResponse_def handleKeyedResponse_def mbind_def)
qed

text \<open>A \<^verbatim>\<open>set\<close> on a client that has not negotiated collections: when the request can be encoded
  and the server's reply to it is a success, \<^verbatim>\<open>set\<close> returns the reply's cas and body; the peer's
  \<^verbatim>\<open>_recvMsg\<close> reads from the bytes sent the SET opcode, the opaque, the flags and expiry as the eight
  bytes of extras, the key and the value; and the vbucket field is the explicit positive vbucket
  or the number that \<^verbatim>\<open>BucketUtils\<close> computes for the key (also for an explicit vbucket 0).\<close>

theorem set_request_and_reply:
  assumes plain: "\<not> collections_supported c" "outbox c = []" and key: "is_ascii key"
    and extra: "struct_pack SET_PKT_FMT [flags, exp] = Inr extra"
    and req: "request_bytes rq = Inr bytes"
    and rq: "rq = \<lparr>rq_magic = REQ_MAGIC_BYTE, rq_cmd = CMD_SET, rq_dtype = 0,
        rq_vbucket = (if vb \<le> 0 then get_vbucket_num_for_key key (vbucket_count c) else vb),
        rq_opaque = rnd, rq_cas = 0, rq_extra = extra, rq_extra_len = None, rq_key = key, rq_val = val,
        rq_ext_meta = []\<rparr>"
    and reply: "recv_stream (concat (inbox c)) = (Inr r, rest)" "live_pieces (inbox c)"
      "rs_opaque r = rnd" "rs_errcode r = 0"
  shows "\<exists>c'. mc_set rnd key exp flags val vb scope CNone c = (Inr (rnd, rs_cas r, rs_data r), c') \<and>
     concat (inbox c') = rest \<and> recv_stream (outbox c') = (Inr (received rq), [])"
proof -
  let ?vb = "if vb \<le> 0 then get_vbucket_num_for_key key (vbucket_count c) else vb"
  let ?c1 = "c\<lparr>vbucketId := ?vb\<rparr>"
  have s: "sendCmd CMD_SET key val rnd extra 0 scope CNone [] None ?c1 = (Inr (), ?c1\<lparr>outbox := bytes\<rparr>)"
    using sendCmd_plain [of CMD_SET ?c1 rnd 0 extra key val bytes scope] req plain(2) by (simp add: rq)
  obtain ps' where h: "handleSingleResponse (Some rnd) (?c1\<lparr>outbox := bytes\<rparr>) =
      (Inr (rnd, rs_cas r, rs_data r), ?c1\<lparr>outbox := bytes, inbox := ps'\<rparr>)" "concat ps' = rest"
    using handleSingleResponse_stream [of "?c1\<lparr>outbox := bytes\<rparr>" r rest rnd] reply by auto
  have "mc_set rnd key exp flags val vb scope CNone c =
      (Inr (rnd, rs_cas r, rs_data r), ?c1\<lparr>outbox := bytes, inbox := ps'\<rparr>)"
    by (simp add: mc_set_def routed_plain [OF key plain(1)] mutate_def mpack_def extra doCmd_def
        doCmd_full_def mbind_def s h(1) del: if_split)
  moreover have "recv_stream bytes = (Inr (received rq), [])"
    using recv_stream_request [OF req, of "[]"] by (simp add: rq)
  ultimately show ?thesis using h(2) by simp
qed


definition ok_reply :: "int \<Rightarrow> request" where
  "ok_reply opq = \<lparr>rq_magic = RES_MAGIC_BYTE, rq_cmd = CMD_SET, rq_dtype = 0, rq_vbucket = 0,
     rq_opaque = opq, rq_cas = 9, rq_extra = [], rq_extra_len = None, rq_key = [], rq_val = [], rq_ext_meta = []\<rparr>"

theorem set_request_and_reply_witness:
  "\<exists>b c'. request_bytes (ok_reply 7) = Inr b \<and>
     mc_set 7 ''key'' 60 0 ''v'' 5 None CNone (mc_init [b]) = (Inr (7, 9, []), c')"
proof -
  obtain b where b: "request_bytes (ok_reply 7) = Inr b"
    using request_bytes_ok [of "ok_reply 7"] by (auto simp: ok_reply_def rq_body_def mc_consts)
  have r: "recv_stream (concat (inbox (mc_init [b]))) = (Inr (received (ok_reply 7)), [])"
    using recv_stream_request [OF b, of "[]"] by (simp add: mc_init_def ok_reply_def)
  then have ne: "b \<noteq> []" by (auto simp: recv_stream_def mc_init_def)
  define extra where "extra = [CHR 0x00, CHR 0x00, CHR 0x00, CHR 0x00, CHR 0x00, CHR 0x00, CHR 0x00, CHR 0x3C]"
  have e: "struct_pack SET_PKT_FMT [0, 60] = Inr extra"
    unfolding extra_def by code_simp
  define rq where "rq = \<lparr>rq_magic = REQ_MAGIC_BYTE, rq_cmd = CMD_SET, rq_dtype = 0,
        rq_vbucket = (if (5::int) \<le> 0 then get_vbucket_num_for_key ''key'' (vbucket_count (mc_init [b])) else 5),
        rq_opaque = 7, rq_cas = 0, rq_extra = extra, rq_extra_len = None, rq_key = ''key'', rq_val = ''v'',
        rq_ext_meta = []\<rparr>"
  obtain bytes where q: "request_bytes rq = Inr bytes"
    using request_bytes_ok [of rq] by (auto simp: rq_def rq_body_def extra_def is_ascii_def mc_consts)
  have "\<exists>c'. mc_set 7 ''key'' 60 0 ''v'' 5 None CNone (mc_init [b]) =
      (Inr (7, rs_cas (received (ok_reply 7)), rs_data (received (ok_reply 7))), c')"
    using set_request_and_reply [OF _ _ _ e q rq_def r, of None] ne
    by (auto simp: mc_init_def live_pieces_def is_ascii_def received_def ok_reply_def)
  then show ?thesis using b by (auto simp: received_def ok_reply_def rq_body_def)
qed


section \<open>SYNC responses\<close>

text \<open>The response format that \<^verbatim>\<open>_parse_sync_response\<close> expects, as an encoder of
  (cas, vbucket, key, event id) entries.\<close>

fun sync_entries :: "(int \<times> int \<times> string \<times> int) list \<Rightarrow> string res" where
  "sync_entries [] = Inr []"
| "sync_entries ((cas, vb, key, ev) # items) =
     rbind (struct_pack ''>QHHB'' [cas, vb, int (length key), ev]) (\<lambda>h.
     rbind (sync_entries items) (\<lambda>s. Inr (h @ key @ s)))"

definition sync_reply :: "(int \<times> int \<times> string \<times> int) list \<Rightarrow> string res" where
  "sync_reply items =
     rbind (struct_pack ''>H'' [int (length items)]) (\<lambda>n. rbind (sync_entries items) (\<lambda>s. Inr (n @ s)))"

definition event_name :: "int \<Rightarrow> string" where
  "event_name ev = [''persisted'', ''modified'', ''deleted'', ''replicated'', ''invalid key''] ! nat (ev - 1)"

definition sync_parsed :: "(int \<times> int \<times> string \<times> int) \<Rightarrow> sync_result" where
  "sync_parsed item = (case item of (cas, vb, key, ev) \<Rightarrow>
     \<lparr>sy_cas = cas, sy_vbucket = vb, sy_key = key, sy_event = event_name ev\<rparr>)"

definition known_event :: "(int \<times> int \<times> string \<times> int) \<Rightarrow> bool" where
  "known_event item = (case item of (_, _, _, ev) \<Rightarrow> 1 \<le> ev \<and> ev \<le> 5)"

lemma sync_event_cases:
  "sync_event ev = (if 1 \<le> ev \<and> ev \<le> 5 then Inr (event_name ev) else Inl KeyError)"
proof (cases "1 \<le> ev \<and> ev \<le> 5")
  case True
  then have "ev \<in> {1, 2, 3, 4, 5}" by auto
  then show ?thesis by (auto simp: sync_event_def event_name_def mc_consts)
qed (auto simp: sync_event_def mc_consts)

lemma parse_sync_entries:
  assumes "sync_entries items = Inr s"
  shows "parse_sync_loop (length items) s =
     (if \<forall>i\<in>set items. known_event i then Inr (map sync_parsed items) else Inl KeyError)"
  using assms
proof (induction items arbitrary: s)
  case (Cons item items)
  obtain cas vb key ev where item: "item = (cas, vb, key, ev)" by (cases item)
  obtain h s' where h: "struct_pack ''>QHHB'' [cas, vb, int (length key), ev] = Inr h"
      and s': "sync_entries items = Inr s'" and s: "s = h @ key @ s'"
    using Cons.prems by (auto simp: item rbind_eq_Inr)
  have len: "length h = 13" using length_pack [OF h] by (simp add: calcsize_def)
  have u: "struct_unpack ''>QHHB'' h = Inr [cas, vb, int (length key), ev]" using h by (rule unpack_pack) simp
  show ?case using Cons.IH [OF s'] len u
    by (auto simp: item s sync_event_cases sync_parsed_def known_event_def Let_def)
qed simp

text \<open>Parsing a SYNC response gives the entries the server encoded, each with its cas, vbucket,
  key and the name of its event, for the five events from \<^verbatim>\<open>persisted\<close> to \<^verbatim>\<open>invalid key\<close>; a response
  with any other event id (\<^verbatim>\<open>invalid cas\<close> included) raises \<^verbatim>\<open>KeyError\<close>.\<close>

theorem sync_response_roundtrip:
  assumes "sync_reply items = Inr s"
  shows "parse_sync_response s =
     (if \<forall>i\<in>set items. known_event i then Inr (map sync_parsed items) else Inl KeyError)"
proof -
  obtain n s' where n: "struct_pack ''>H'' [int (length items)] = Inr n" and s': "sync_entries items = Inr s'"
    and s: "s = n @ s'" using assms by (auto simp: sync_reply_def rbind_eq_Inr)
  have len: "length n = 2" using length_pack [OF n] by (simp add: calcsize_def)
  have u: "struct_unpack ''>H'' n = Inr [int (length items)]" using n by (rule unpack_pack) simp
  show ?thesis using parse_sync_entries [OF s'] len u by (simp add: parse_sync_response_def unpack1_def s)
qed

theorem sync_response_roundtrip_witness:
  "\<exists>s. sync_reply [(7, 3, ''k'', 1)] = Inr s \<and>
     parse_sync_response s = Inr [\<lparr>sy_cas = 7, sy_vbucket = 3, sy_key = ''k'', sy_event = ''persisted''\<rparr>]"
proof -
  obtain s where s: "sync_reply [(7, 3, ''k'', 1)] = Inr s"
    by (auto simp: sync_reply_def struct_pack_def)
  then show ?thesis using sync_response_roundtrip [OF s]
    by (auto simp: known_event_def sync_parsed_def event_name_def)
qed


section \<open>The collection map stays empty\<close>

lemma map_collection_empty: "\<exists>e. map_collection sname [] col = Inl e"
  by (cases "map_collection sname [] col") (auto simp: map_collection_def rbind_eq_Inr)

lemma map_collections_empty: "snd (map_collections sname [] cols) = []"
proof (cases cols)
  case (Cons col cs)
  have "\<exists>e. map_collection sname [] col = Inl e"
    by (rule map_collection_empty)
  then show ?thesis using Cons by auto
qed simp

lemma map_scopes_empty: "snd (map_scopes [] scopes) = []"
proof (induction scopes)
  case (Cons sc scopes)
  obtain sname cols where sc: "sc = (sname, cols)" by force
  show ?case
  proof (cases cols)
    case (Some cs)
    have "snd (map_collections sname [] cs) = []" by (rule map_collections_empty)
    then show ?thesis using Cons Some sc by (auto split: prod.splits option.splits)
  qed (use Cons sc in simp)
qed simp

text \<open>The collection map of a client never gets an entry: whatever manifest the server sends,
  \<^verbatim>\<open>_update_collection_map\<close> leaves an empty map empty (a scope that is not yet in the map raises the
  \<^verbatim>\<open>KeyError\<close> that the method swallows), so every later use of a collection name fails, with
  \<^verbatim>\<open>RuntimeError\<close> when collections were not negotiated and \<^verbatim>\<open>KeyError\<close> otherwise.\<close>

theorem collection_map_never_filled:
  assumes "collection_map c = []" and "c' = snd (update_collection_map scopes c)"
  shows "collection_map c' = [] \<and>
     encodeCollectionId tobytes key scope (CName name) c' =
       Inl (if is_collections_supported c' then KeyError else RuntimeError)"
proof -
  have e: "collection_map c' = []"
    using assms map_scopes_empty [of scopes] by (simp add: update_collection_map_def split: prod.splits)
  then show ?thesis
    by (auto simp: encodeCollectionId_def collection_id_def dict_lookup_def split: option.splits)
qed

theorem collection_map_never_filled_witness:
  "collection_map (mc_init []) = [] \<and> collection_map (snd (update_collection_map
     [(Some ''s'', Some [[(''name'', ''c''), (''uid'', ''8'')]])] (mc_init []))) = []"
proof -
  have e: "collection_map (mc_init []) = []" by (simp add: mc_init_def)
  from collection_map_never_filled [OF e refl] e show ?thesis by blast
qed


section \<open>Commands that can never be sent\<close>

lemma struct_pack_error: "struct_pack fmt vs = Inl e \<Longrightarrow> e = StructError"
proof -
  have "pack_fields fs vs = Inl e \<Longrightarrow> e = StructError" for fs
    by (induction fs vs rule: pack_fields.induct) (auto simp: rbind_eq_Inl split: if_splits)
  then show "struct_pack fmt vs = Inl e \<Longrightarrow> e = StructError" by (simp add: struct_pack_def)
qed

lemma sd_opcode_high: "sd_opcode k = Some op \<Longrightarrow> 0x80 \<le> op \<and> op < 256"
  by (auto simp: sd_opcode_def mc_consts split: if_splits)

lemma multi_mutate_spec_high:
  assumes "struct_pack REQ_PKT_SD_MULTI_MUTATE [op, f, p, v] = Inr s" and "0x80 \<le> op \<and> op < 256"
  shows "\<not> is_ascii s"
proof -
  have "hd s = char_of (nat (op mod 256)) \<and> s \<noteq> []"
    using assms(1) by (auto simp: struct_pack_def mc_consts rbind_eq_Inr split: if_splits)
  then have h: "s \<noteq> []" "of_char (hd s) = nat op" using assms(2) by (auto simp: take_bit_nat_eq_self)
  have "hd s \<in> set s" using h(1) by simp
  then show ?thesis using h(2) assms(2) by (auto simp: is_ascii_def intro!: bexI [of _ "hd s"])
qed

lemma multi_sd_item_high:
  assumes "multi_sd_item item mcmd val = Inr (op, w, s)" and "\<forall>op. mcmd = Some op \<longrightarrow> 0x80 \<le> op \<and> op < 256"
  shows "0x80 \<le> op \<and> op < 256" and "\<not> is_ascii s"
proof -
  obtain k v where item: "item = (k, v)" by force
  obtain f p l spec where x: "(case sd_opcode k of Some op \<Rightarrow> Some op | None \<Rightarrow> mcmd) = Some op"
    "struct_pack REQ_PKT_SD_MULTI_MUTATE [op, f, p, l] = Inr spec" "s = spec @ sd_path v @ w"
    using assms(1) unfolding multi_sd_item_def item by (auto simp: Let_def rbind_eq_Inr split: prod.splits)
  show hi: "0x80 \<le> op \<and> op < 256"
    using x(1) assms(2) sd_opcode_high by (cases "sd_opcode k") auto
  show "\<not> is_ascii s" using multi_mutate_spec_high [OF x(2) hi] x(3) by simp
qed

lemma multi_sd_body_high:
  assumes "multi_sd_body items mcmd val body = Inr b" and "items \<noteq> [] \<or> \<not> is_ascii body"
    and "\<forall>op. mcmd = Some op \<longrightarrow> 0x80 \<le> op \<and> op < 256"
  shows "\<not> is_ascii b"
  using assms
proof (induction items arbitrary: mcmd val body)
  case (Cons item items)
  obtain op w s where x: "multi_sd_item item mcmd val = Inr (op, w, s)"
    "multi_sd_body items (Some op) (Some w) (body @ s) = Inr b"
    using Cons.prems(1) by (auto simp: rbind_eq_Inr)
  note hi = multi_sd_item_high [OF x(1) Cons.prems(3)]
  show ?case by (rule Cons.IH [OF x(2)]) (use hi in simp_all)
qed simp

lemma sendMsg_not_ascii:
  assumes "\<not> is_ascii (rq_val r)"
  shows "\<exists>e. sendMsg r scope col d = (Inl e, d)"
proof -
  have "\<exists>e. request_bytes (r\<lparr>rq_key := k\<rparr>) = Inl e" for k
    using assms by (cases "request_bytes (r\<lparr>rq_key := k\<rparr>)")
      (auto simp: request_bytes_def rbind_eq_Inr str_encode_def split: if_splits)
  then obtain e where e: "request_bytes (r\<lparr>rq_key := k\<rparr>) = Inl (e k)" for k by metis
  show ?thesis unfolding sendMsg_def
    by (cases "if coll_given col then encodeCollectionId None (rq_key r) scope col d else Inr (rq_key r)")
       (simp_all add: e del: if_split)
qed

lemma doMultiSdCmd_fails:
  assumes "cmds \<noteq> []"
  shows "\<exists>e. doMultiSdCmd rnd cmd key cmds opq scope col d = (Inl e, d)"
proof (cases "multi_sd_body cmds None None []")
  case (Inr b)
  then have b: "\<not> is_ascii b" using multi_sd_body_high [OF Inr] assms by simp
  let ?r = "\<lparr>rq_magic = REQ_MAGIC_BYTE, rq_cmd = cmd, rq_dtype = 0, rq_vbucket = 0,
     rq_opaque = (if opq = 0 then rnd else opq), rq_cas = 0, rq_extra = [], rq_extra_len = None, rq_key = key,
     rq_val = b, rq_ext_meta = []\<rparr>"
  obtain e where "sendMsg ?r scope col d = (Inl e, d)" using sendMsg_not_ascii [of ?r scope col d] b by auto
  then show ?thesis using Inr by (simp add: doMultiSdCmd_def Let_def mbind_def del: if_split)
qed (simp add: doMultiSdCmd_def Let_def)

lemma set_vbucket_cases:
  "(\<exists>e. set_vbucket key vb c = (Inl e, c)) \<or> (\<exists>vid. set_vbucket key vb c = (Inr (), c\<lparr>vbucketId := vid\<rparr>))"
  by (auto simp: set_vbucket_def str_encode_def)

lemma after_set_vbucket_fails:
  assumes "\<And>d. \<exists>e. f d = (Inl e, d)"
  shows "\<exists>e vid. mbind (set_vbucket key vb) (\<lambda>_. f) c = (Inl e, c\<lparr>vbucketId := vid\<rparr>)"
proof -
  consider (err) e where "set_vbucket key vb c = (Inl e, c)"
    | (ok) vid where "set_vbucket key vb c = (Inr (), c\<lparr>vbucketId := vid\<rparr>)"
    using set_vbucket_cases [of key vb c] by blast
  then show ?thesis
  proof cases
    case err
    then show ?thesis by (auto simp: mbind_def intro: exI [of _ "vbucketId c"])
  next
    case ok
    obtain e where "f (c\<lparr>vbucketId := vid\<rparr>) = (Inl e, c\<lparr>vbucketId := vid\<rparr>)" using assms by blast
    with ok show ?thesis by (auto simp: mbind_def)
  qed
qed

lemma routed_fails:
  assumes "\<And>s col d. \<exists>e. f s col d = (Inl e, d)"
  shows "\<exists>e vid. routed key vb scope col f c = (Inl e, c\<lparr>vbucketId := vid\<rparr>)"
  using after_set_vbucket_fails [OF assms] by (simp add: routed_def split: prod.splits) 

text \<open>Three public methods can never send their request, whatever their arguments and the
  client's state: \<^verbatim>\<open>setWithMetaLWW\<close> packs four values into a format of five fields, \<^verbatim>\<open>delWithMetaLWW\<close> reads
  a constant that does not exist, and a \<^verbatim>\<open>multi_mutation_sd\<close> with at least one command has opcode bytes
  above 0x7f in its body, which \<^verbatim>\<open>str.encode\<close> rejects. Each raises and leaves the bytes sent so far
  unchanged.\<close>

theorem requests_never_sent:
  assumes "cmds \<noteq> []"
  shows "is_ok (fst (setWithMetaLWW rnd key val exp flags cas scope col c)) = False \<and>
     outbox (snd (setWithMetaLWW rnd key val exp flags cas scope col c)) = outbox c \<and>
     is_ok (fst (delWithMetaLWW rnd key exp flags cas scope col c)) = False \<and>
     outbox (snd (delWithMetaLWW rnd key exp flags cas scope col c)) = outbox c \<and>
     is_ok (fst (multi_mutation_sd rnd key cmds opq vb scope col c)) = False \<and>
     outbox (snd (multi_mutation_sd rnd key cmds opq vb scope col c)) = outbox c"
proof -
  have "struct_pack META_EXTRA_FMT [flags, exp, 0, cas] = Inl StructError"
    by (cases "struct_pack META_EXTRA_FMT [flags, exp, 0, cas]")
       (auto dest: struct_pack_error simp: struct_pack_def mc_consts rbind_eq_Inr split: if_splits)
  then have "\<exists>e vid. setWithMetaLWW rnd key val exp flags cas scope col c = (Inl e, c\<lparr>vbucketId := vid\<rparr>)"
    unfolding setWithMetaLWW_def by (intro routed_fails) (simp add: mpack_def)
  moreover have "\<exists>e vid. delWithMetaLWW rnd key exp flags cas scope col c = (Inl e, c\<lparr>vbucketId := vid\<rparr>)"
    unfolding delWithMetaLWW_def by (intro routed_fails) simp
  moreover have "\<exists>e vid. multi_mutation_sd rnd key cmds opq vb scope col c = (Inl e, c\<lparr>vbucketId := vid\<rparr>)"
    unfolding multi_mutation_sd_def by (intro after_set_vbucket_fails doMultiSdCmd_fails assms)
  ultimately show ?thesis by auto
qed

theorem requests_never_sent_witness:
  "is_ok (fst (multi_mutation_sd 1 ''k'' [(''insert'', \<lparr>sd_create_parents = True, sd_path = ''a'', sd_value = SInt 1\<rparr>)]
     0 (-1) None CNone (mc_init []))) = False"
  using requests_never_sent [of "[(''insert'', \<lparr>sd_create_parents = True, sd_path = ''a'', sd_value = SInt 1\<rparr>)]"] by blast

end
