(* ===== verification/Mc_Bulk.thy ===== *)
theory Mc_Bulk
  imports Mc_Admin
begin

text \<open>
  The operations of \<^verbatim>\<open>MemcachedClient\<close> that read several responses: \<^verbatim>\<open>stats\<close>, \<^verbatim>\<open>getMulti\<close> and
  \<^verbatim>\<open>setMulti\<close>. Their loops end because every response consumes bytes of the stream. The iteration
  order of the set \<^verbatim>\<open>vbs\<close> is the argument \<open>ord\<close>, applied to the vbuckets in the order of their
  first use.
\<close>

section \<open>Responses consume the stream\<close>

lemma recv_exact_consumes:
  "recv_exact n acc ps = (Inr s, ps') \<Longrightarrow> length (concat ps) = length (concat ps') + n"
proof (induction n arbitrary: acc ps rule: less_induct)
  case (less n)
  show ?case
  proof (cases "n = 0")
    case True
    with less.prems show ?thesis by (simp add: recv_exact.simps)
  next
    case False
    obtain d ps1 where r: "sock_recv n ps = (d, ps1)" by force
    then have c: "length (concat ps) = length d + length (concat ps1)" "length d \<le> n"
      using False by (auto simp: sock_recv_def split: list.splits if_splits)
    have ne: "d \<noteq> []" using less.prems False r by (auto simp: recv_exact.simps [of n] split: if_splits)
    have "recv_exact (n - length d) (acc @ d) ps1 = (Inr s, ps')"
      using less.prems False r ne by (auto simp: recv_exact.simps [of n] split: if_splits)
    then have "length (concat ps1) = length (concat ps') + (n - length d)"
      using less.IH False ne by fastforce
    with c show ?thesis by simp
  qed
qed

lemma struct_unpack_error: "struct_unpack fmt s = Inl e \<Longrightarrow> e = StructError"
proof -
  have "unpack_fields fs s = Inl e \<Longrightarrow> e = StructError" for fs
    by (induction fs s rule: unpack_fields.induct) (auto simp: rbind_eq_Inl split: if_splits)
  then show "struct_unpack fmt s = Inl e \<Longrightarrow> e = StructError" by (simp add: struct_unpack_def)
qed

lemma recv_exact_error: "recv_exact n acc ps = (Inl e, ps') \<Longrightarrow> e = EOFError"
  by (induction n acc ps rule: recv_exact.induct)
     (auto simp: recv_exact.simps split: prod.splits if_splits)

lemma header_fields_error: "header_fields vs = Inl e \<Longrightarrow> e = ValueError"
  by (induction vs rule: header_fields.induct) auto

lemma parse_header_error:
  assumes "parse_header h = Inl e"
  shows "e = StructError \<or> e = AssertionError \<or> e = ValueError"
  using assms unfolding parse_header_def Let_def rbind_eq_Inl
  by (auto simp: rbind_eq_Inl dest: struct_unpack_error header_fields_error split: if_splits)

lemma recvMsg_no_memcached_error: "recvMsg c = (Inl (MemcachedError st msg), c') \<Longrightarrow> False"
  by (auto simp: recvMsg_def dest!: recv_exact_error parse_header_error split: prod.splits sum.splits)

definition backlog :: "mc_client \<Rightarrow> nat" where
  "backlog c = length (concat (inbox c))"

lemma recvMsg_consumes: "recvMsg c = (Inr r, c') \<Longrightarrow> backlog c' < backlog c"
  by (auto simp: recvMsg_def backlog_def dest!: recv_exact_consumes split: prod.splits sum.splits)

lemma handleKeyedResponse_consumes:
  assumes "handleKeyedResponse opq c = (v, c')" and "\<not> (\<exists>e. v = Inl e) \<or> (\<exists>st msg. v = Inl (MemcachedError st msg))"
  shows "backlog c' < backlog c"
proof (cases "recvMsg c")
  case (Pair w c1)
  show ?thesis
  proof (cases w)
    case (Inr r)
    with assms Pair have "c' = c1" by (auto simp: handleKeyedResponse_def mbind_def)
    with recvMsg_consumes Pair Inr show ?thesis by blast
  next
    case (Inl e)
    then have v: "v = Inl e" using assms(1) Pair by (simp add: handleKeyedResponse_def mbind_def)
    have "\<not> (\<exists>st msg. e = MemcachedError st msg)"
      using Pair Inl recvMsg_no_memcached_error by blast
    with v assms(2) show ?thesis by blast
  qed
qed


lemma handleSingleResponse_consumes:
  assumes "handleSingleResponse opq c = (v, c')" and "\<not> (\<exists>e. v = Inl e) \<or> (\<exists>st msg. v = Inl (MemcachedError st msg))"
  shows "backlog c' < backlog c"
proof (cases "handleKeyedResponse opq c")
  case (Pair w c1)
  with assms have "c' = c1" "\<not> (\<exists>e. w = Inl e) \<or> (\<exists>st msg. w = Inl (MemcachedError st msg))"
    by (cases w; auto simp: handleSingleResponse_def mbind_def)+
  with handleKeyedResponse_consumes Pair show ?thesis by blast
qed


section \<open>stats\<close>

function stats_loop :: "(string, string) dict \<Rightarrow> mc_client \<Rightarrow> (string, string) dict res \<times> mc_client" where
  "stats_loop rv c =
     (case handleKeyedResponse None c of
        (Inl e, c') \<Rightarrow> (Inl e, c')
      | (Inr r, c') \<Rightarrow>
          (if rs_keylen r \<noteq> 0 then
             (case rbind (str_encode (drop (nat (rs_keylen r)) (rs_data r))) (\<lambda>v.
                   rbind (str_encode (take (nat (rs_keylen r)) (rs_data r))) (\<lambda>k. Inr (k, v))) of
                Inl e \<Rightarrow> (Inl e, c')
              | Inr (k, v) \<Rightarrow> stats_loop (AList.update k v rv) c')
           else (Inr rv, c')))"
  by pat_completeness auto
termination
  by (relation "measure (\<lambda>(_, c). backlog c)") (auto dest!: sym [of _ "handleKeyedResponse _ _"] intro!: handleKeyedResponse_consumes)

declare stats_loop.simps [simp del]

definition mc_stats :: "int \<Rightarrow> string \<Rightarrow> (string, string) dict mc" where
  "mc_stats rnd sub =
     mbind (sendCmd CMD_STAT sub [] rnd [] 0 None CNone [] None) (\<lambda>_. stats_loop [])"


section \<open>getMulti\<close>

definition add_vb :: "int \<Rightarrow> int list \<Rightarrow> int list" where
  "add_vb vb vbs = (if vb \<in> set vbs then vbs else vbs @ [vb])"

fun getq_send :: "nat \<Rightarrow> string list \<Rightarrow> int \<Rightarrow> string option \<Rightarrow> coll \<Rightarrow> int list \<Rightarrow> int list mc" where
  "getq_send i [] vbucket scope col vbs = mret vbs"
| "getq_send i (v # vs) vbucket scope col vbs =
     mbind (set_vbucket v vbucket) (\<lambda>_.
     mbind (mget vbucketId) (\<lambda>vb.
     mbind (sendCmd CMD_GETQ v [] (int i) [] 0 scope col [] None) (\<lambda>_.
     getq_send (Suc i) vs vbucket scope col (add_vb vb vbs))))"

fun noop_send :: "int \<Rightarrow> int list \<Rightarrow> unit mc" where
  "noop_send terminal [] = mret ()"
| "noop_send terminal (vb # vbs) =
     mbind (mput (\<lambda>c. c\<lparr>vbucketId := vb\<rparr>)) (\<lambda>_.
     mbind (sendCmd CMD_NOOP [] [] terminal [] 0 None CNone [] None) (\<lambda>_. noop_send terminal vbs))"

definition opaqued :: "string list \<Rightarrow> int \<Rightarrow> string res" where
  "opaqued keys opq = (if 0 \<le> opq \<and> nat opq < length keys then Inr (keys ! nat opq) else Inl KeyError)"

function get_loop :: "int \<Rightarrow> string list \<Rightarrow> (string, got) dict \<Rightarrow> mc_client \<Rightarrow> (string, got) dict res \<times> mc_client" where
  "get_loop terminal keys rv c =
     (case handleSingleResponse None c of
        (Inl e, c') \<Rightarrow> (Inl e, c')
      | (Inr (opq, cas, data), c') \<Rightarrow>
          (if opq \<noteq> terminal then
             (case rbind (parseGet (opq, cas, data) 0) (\<lambda>g. rbind (opaqued keys opq) (\<lambda>k. Inr (k, g))) of
                Inl e \<Rightarrow> (Inl e, c')
              | Inr (k, g) \<Rightarrow> get_loop terminal keys (AList.update k g rv) c')
           else (Inr rv, c')))"
  by pat_completeness auto
termination
  by (relation "measure (\<lambda>(_, _, _, c). backlog c)") (auto dest!: sym [of _ "handleSingleResponse _ _"] intro!: handleSingleResponse_consumes)

declare get_loop.simps [simp del]

fun get_vbs :: "int \<Rightarrow> string list \<Rightarrow> int list \<Rightarrow> (string, got) dict \<Rightarrow> (string, got) dict mc" where
  "get_vbs terminal keys [] rv = mret rv"
| "get_vbs terminal keys (vb # vbs) rv =
     mbind (mput (\<lambda>c. c\<lparr>vbucketId := vb\<rparr>)) (\<lambda>_.
     mbind (get_loop terminal keys rv) (\<lambda>rv'. get_vbs terminal keys vbs rv'))"

definition getMulti :: "(int list \<Rightarrow> int list) \<Rightarrow> string list \<Rightarrow> int \<Rightarrow> string option \<Rightarrow> coll \<Rightarrow> (string, got) dict mc" where
  "getMulti ord keys vbucket scope collection =
     mbind (mget (collection_name scope collection)) (\<lambda>(s, col).
     let terminal = int (length keys) + 10 in
     mbind (getq_send 0 keys vbucket s col []) (\<lambda>vbs.
     mbind (noop_send terminal (ord vbs)) (\<lambda>_.
     get_vbs terminal keys (ord vbs) [])))"


section \<open>setMulti\<close>

fun setq_send ::
  "nat \<Rightarrow> (string \<times> string) list \<Rightarrow> string \<Rightarrow> int \<Rightarrow> string option \<Rightarrow> coll \<Rightarrow> int list \<Rightarrow> int list mc" where
  "setq_send i [] extra vbucket scope col vbs = mret vbs"
| "setq_send i (kv # kvs) extra vbucket scope col vbs =
     mbind (set_vbucket (fst kv) vbucket) (\<lambda>_.
     mbind (mget vbucketId) (\<lambda>vb.
     mbind (sendCmd CMD_SETQ (fst kv) (snd kv) (int i) extra 0 scope col [] None) (\<lambda>_.
     setq_send (Suc i) kvs extra vbucket scope col (add_vb vb vbs))))"

text \<open>The loop collects the \<^verbatim>\<open>MemcachedError\<close>s (status and message) until the terminal arrives.\<close>

function set_loop :: "int \<Rightarrow> (int \<times> string) list \<Rightarrow> mc_client \<Rightarrow> (int \<times> string) list res \<times> mc_client" where
  "set_loop terminal failed c =
     (case handleSingleResponse None c of
        (Inl e, c') \<Rightarrow>
          (case e of
             MemcachedError st msg \<Rightarrow> set_loop terminal (failed @ [(st, msg)]) c'
           | _ \<Rightarrow> (Inl e, c'))
      | (Inr (opq, cas, data), c') \<Rightarrow>
          (if opq = terminal then (Inr failed, c') else set_loop terminal failed c'))"
  by pat_completeness auto
termination
  by (relation "measure (\<lambda>(_, _, c). backlog c)") (auto dest!: sym [of _ "handleSingleResponse _ _"] intro!: handleSingleResponse_consumes)

declare set_loop.simps [simp del]

fun set_vbs :: "int \<Rightarrow> int list \<Rightarrow> (int \<times> string) list \<Rightarrow> (int \<times> string) list mc" where
  "set_vbs terminal [] failed = mret failed"
| "set_vbs terminal (vb # vbs) failed =
     mbind (mput (\<lambda>c. c\<lparr>vbucketId := vb\<rparr>)) (\<lambda>_.
     mbind (set_loop terminal failed) (\<lambda>failed'. set_vbs terminal vbs failed'))"

definition setMulti ::
  "(int list \<Rightarrow> int list) \<Rightarrow> int \<Rightarrow> int \<Rightarrow> (string \<times> string) list \<Rightarrow> int \<Rightarrow> string option \<Rightarrow> coll \<Rightarrow> (int \<times> string) list mc" where
  "setMulti ord exp flags items vbucket scope collection =
     mbind (mget (collection_name scope collection)) (\<lambda>(s, col).
     let terminal = int (length items) + 10 in
     mpack SET_PKT_FMT [flags, exp] (\<lambda>extra.
     mbind (setq_send 0 items extra vbucket s col []) (\<lambda>vbs.
     mbind (noop_send terminal (ord vbs)) (\<lambda>_.
     set_vbs terminal (ord vbs) []))))"


section \<open>Pipelined reads return what the server answered\<close>

fun answers :: "response list \<Rightarrow> string \<Rightarrow> string \<Rightarrow> bool" where
  "answers [] s rest \<longleftrightarrow> s = rest"
| "answers (r # rs) s rest \<longleftrightarrow>
     (case recv_stream s of (Inr r', s') \<Rightarrow> r' = r \<and> answers rs s' rest | (Inl e, s') \<Rightarrow> False)"

lemma answers_append: "answers (xs @ ys) s rest \<longleftrightarrow> (\<exists>m. answers xs s m \<and> answers ys m rest)"
  by (induction xs arbitrary: s) (auto split: prod.splits sum.splits)

lemma answers_Cons_recv:
  assumes "answers (r # rs) (concat (inbox c)) rest" and "live_pieces (inbox c)"
    and "rs_errcode r = 0"
  shows "\<exists>ps. handleSingleResponse None c = (Inr (rs_opaque r, rs_cas r, rs_data r), c\<lparr>inbox := ps\<rparr>) \<and>
     live_pieces ps \<and> answers rs (concat ps) rest"
proof -
  obtain s' where s': "recv_stream (concat (inbox c)) = (Inr r, s')" "answers rs s' rest"
    using assms(1) by (auto split: prod.splits sum.splits)
  obtain ps where ps: "recvMsg c = (Inr r, c\<lparr>inbox := ps\<rparr>)" "concat ps = s'" "live_pieces ps"
    using recvMsg_stream [OF assms(2) s'(1)] by blast
  then show ?thesis using s'(2) assms(3)
    by (auto simp: handleSingleResponse_def handleKeyedResponse_def mbind_def)
qed

text \<open>A hit is a successful answer to one of the \<open>n\<close> keys with at least the four bytes of flags.\<close>

definition hit_ok :: "nat \<Rightarrow> response \<Rightarrow> bool" where
  "hit_ok n r \<longleftrightarrow> rs_errcode r = 0 \<and> 0 \<le> rs_opaque r \<and> rs_opaque r < int n \<and> 4 \<le> length (rs_data r)"

definition hit_value :: "response \<Rightarrow> got" where
  "hit_value r = (of_be (take 4 (rs_data r)), rs_cas r, drop 4 (rs_data r))"

definition put_hit :: "string list \<Rightarrow> response \<Rightarrow> (string, got) dict \<Rightarrow> (string, got) dict" where
  "put_hit keys r = AList.update (keys ! nat (rs_opaque r)) (hit_value r)"

lemma parseGet_hit:
  "hit_ok n r \<Longrightarrow> parseGet (rs_opaque r, rs_cas r, rs_data r) 0 = Inr (hit_value r)"
  by (simp add: hit_ok_def hit_value_def parseGet_def unpack1_def struct_unpack_def mc_consts field_val_def)

lemma get_loop_block:
  assumes "answers (hits @ [t]) (concat (inbox c)) rest" and "live_pieces (inbox c)"
    and "\<forall>r\<in>set hits. hit_ok (length keys) r" and "rs_errcode t = 0" and "rs_opaque t = int (length keys) + 10"
  shows "\<exists>ps. get_loop (int (length keys) + 10) keys rv c = (Inr (fold (put_hit keys) hits rv), c\<lparr>inbox := ps\<rparr>) \<and>
     live_pieces ps \<and> concat ps = rest"
  using assms
proof (induction hits arbitrary: rv c)
  case Nil
  then obtain ps where "handleSingleResponse None c = (Inr (rs_opaque t, rs_cas t, rs_data t), c\<lparr>inbox := ps\<rparr>)"
    "live_pieces ps" "answers [] (concat ps) rest"
    using answers_Cons_recv [of t "[]" c rest] by auto
  then show ?case using Nil.prems by (subst get_loop.simps) auto
next
  case (Cons r hits)
  have ok: "hit_ok (length keys) r" using Cons.prems(3) by simp
  then obtain ps where ps: "handleSingleResponse None c = (Inr (rs_opaque r, rs_cas r, rs_data r), c\<lparr>inbox := ps\<rparr>)"
    "live_pieces ps" "answers (hits @ [t]) (concat ps) rest"
    using answers_Cons_recv [of r "hits @ [t]" c rest] Cons.prems by (auto simp: hit_ok_def)
  have o: "opaqued keys (rs_opaque r) = Inr (keys ! nat (rs_opaque r))" "rs_opaque r \<noteq> int (length keys) + 10"
    using ok by (auto simp: opaqued_def hit_ok_def)
  obtain ps' where ps': "get_loop (int (length keys) + 10) keys (put_hit keys r rv) (c\<lparr>inbox := ps\<rparr>) =
      (Inr (fold (put_hit keys) hits (put_hit keys r rv)), c\<lparr>inbox := ps'\<rparr>)" "live_pieces ps'" "concat ps' = rest"
    using Cons.IH [of "c\<lparr>inbox := ps\<rparr>" "put_hit keys r rv"] ps Cons.prems by auto
  then show ?case using ps o parseGet_hit [OF ok]
    by (subst get_loop.simps) (auto simp: put_hit_def)
qed

text \<open>One block of answers per vbucket, each closed by the answer to a NOOP.\<close>

fun block_answers :: "nat \<Rightarrow> response list list \<Rightarrow> response \<Rightarrow> response list" where
  "block_answers n [] t = []"
| "block_answers n (hs # blocks) t = hs @ t # block_answers n blocks t"

lemma get_vbs_blocks:
  assumes "answers (block_answers n blocks t) (concat (inbox c)) rest" and "live_pieces (inbox c)"
    and "length vbs = length blocks" and "\<forall>r\<in>set (concat blocks). hit_ok (length keys) r"
    and "rs_errcode t = 0" and "rs_opaque t = int (length keys) + 10"
  shows "\<exists>c'. get_vbs (int (length keys) + 10) keys vbs rv c = (Inr (fold (put_hit keys) (concat blocks) rv), c') \<and>
     concat (inbox c') = rest"
  using assms
proof (induction blocks arbitrary: vbs c rv)
  case Nil
  then show ?case by simp
next
  case (Cons hs blocks)
  then obtain vb vbs' where vbs: "vbs = vb # vbs'" "length vbs' = length blocks" by (cases vbs) auto
  let ?c = "c\<lparr>vbucketId := vb\<rparr>"
  have "answers ((hs @ [t]) @ block_answers n blocks t) (concat (inbox c)) rest" using Cons.prems(1) by simp
  then have "\<exists>m. answers (hs @ [t]) (concat (inbox c)) m \<and> answers (block_answers n blocks t) m rest"
    by (rule answers_append [THEN iffD1])
  moreover have "inbox c = inbox ?c" by simp
  ultimately obtain m where m: "answers (hs @ [t]) (concat (inbox ?c)) m" "answers (block_answers n blocks t) m rest"
    by metis
  obtain ps where ps: "get_loop (int (length keys) + 10) keys rv ?c =
      (Inr (fold (put_hit keys) hs rv), ?c\<lparr>inbox := ps\<rparr>)" "live_pieces ps" "concat ps = m"
    using get_loop_block [OF m(1), of keys rv] Cons.prems by auto
  have "\<exists>c'. get_vbs (int (length keys) + 10) keys vbs' (fold (put_hit keys) hs rv) (?c\<lparr>inbox := ps\<rparr>) =
      (Inr (fold (put_hit keys) (concat blocks) (fold (put_hit keys) hs rv)), c') \<and> concat (inbox c') = rest"
    by (rule Cons.IH) (use m ps vbs Cons.prems in auto)
  then show ?case using ps by (auto simp: vbs mbind_def)
qed


lemma fold_put_hit:
  assumes "distinct (map rs_opaque hits)" and "distinct keys" and "\<forall>r\<in>set hits. hit_ok (length keys) r"
  shows "map_of (fold (put_hit keys) hits rv) k = Some g \<longleftrightarrow>
     (\<exists>r\<in>set hits. k = keys ! nat (rs_opaque r) \<and> g = hit_value r) \<or>
     (map_of rv k = Some g \<and> (\<forall>r\<in>set hits. k \<noteq> keys ! nat (rs_opaque r)))"
  using assms
proof (induction hits arbitrary: rv)
  case (Cons h hits)
  let ?k = "keys ! nat (rs_opaque h)"
  have new: "?k \<noteq> keys ! nat (rs_opaque r)" if "r \<in> set hits" for r
  proof -
    have "rs_opaque r \<noteq> rs_opaque h" using Cons.prems(1) that by (auto simp: image_iff)
    moreover have "hit_ok (length keys) r" "hit_ok (length keys) h" using Cons.prems(3) that by auto
    ultimately show ?thesis using Cons.prems(2) by (auto simp: nth_eq_iff_index_eq hit_ok_def)
  qed
  have IH: "map_of (fold (put_hit keys) hits (put_hit keys h rv)) k = Some g \<longleftrightarrow>
     (\<exists>r\<in>set hits. k = keys ! nat (rs_opaque r) \<and> g = hit_value r) \<or>
     (map_of (put_hit keys h rv) k = Some g \<and> (\<forall>r\<in>set hits. k \<noteq> keys ! nat (rs_opaque r)))"
    using Cons by simp
  have m: "map_of (put_hit keys h rv) k = (if k = ?k then Some (hit_value h) else map_of rv k)"
    by (simp add: put_hit_def)
  show ?case using IH new unfolding m by (cases "k = ?k") auto
qed simp

text \<open>The send phase succeeds for ASCII keys of a legal length and reports each vbucket once.\<close>

definition sendable :: "string \<Rightarrow> bool" where
  "sendable k \<longleftrightarrow> is_ascii k \<and> length k < 65536"

lemma sendCmd_quiet:
  assumes "sendable k" and "0 \<le> vbucketId c" "vbucketId c < 65536" and "0 \<le> opq" "opq < 4294967296"
    and "cmd = CMD_GETQ \<or> cmd = CMD_NOOP"
  shows "\<exists>out. sendCmd cmd k [] opq [] 0 scope CNone [] None c = (Inr (), c\<lparr>outbox := out\<rparr>)"
proof -
  have "\<exists>b. request_bytes \<lparr>rq_magic = REQ_MAGIC_BYTE, rq_cmd = cmd, rq_dtype = 0, rq_vbucket = vbucketId c,
       rq_opaque = opq, rq_cas = 0, rq_extra = [], rq_extra_len = None, rq_key = k,
       rq_val = [], rq_ext_meta = []\<rparr> = Inr b"
    by (rule request_bytes_ok) (use assms in \<open>auto simp: rq_body_def sendable_def mc_consts\<close>)
  then show ?thesis by (blast intro: sendCmd_plain)
qed

definition vb_routed :: "mc_client \<Rightarrow> int \<Rightarrow> bool" where
  "vb_routed c vb \<longleftrightarrow> 0 < vbucket_count c \<and> vbucket_count c \<le> 65536 \<and> vb < 65536"

lemma getq_send_ok:
  assumes "\<forall>k\<in>set ks. sendable k" and "vb_routed c vb" and "i + length ks < 4294967296"
  shows "\<exists>vid out vbs'. getq_send i ks vb scope CNone vbs c = (Inr vbs', c\<lparr>vbucketId := vid, outbox := out\<rparr>) \<and>
     (set vbs \<subseteq> {0..<65536} \<longrightarrow> set vbs' \<subseteq> {0..<65536})"
  using assms
proof (induction ks arbitrary: i c vbs)
  case Nil
  show ?case by (intro exI [of _ "vbucketId c"] exI [of _ "outbox c"]) simp
next
  case (Cons k ks)
  let ?vid = "if vb \<le> 0 then get_vbucket_num_for_key k (vbucket_count c) else vb"
  let ?c = "c\<lparr>vbucketId := ?vid\<rparr>"
  have r: "0 \<le> ?vid" "?vid < 65536"
    using Cons.prems(2) vbucket_num_in_range [of "vbucket_count c" k] by (auto simp: vb_routed_def)
  have sv: "set_vbucket k vb c = (Inr (), ?c)" using Cons.prems(1) by (intro set_vbucket_ok) (simp add: sendable_def)
  obtain out where out: "sendCmd CMD_GETQ k [] (int i) [] 0 scope CNone [] None ?c = (Inr (), ?c\<lparr>outbox := out\<rparr>)"
    using sendCmd_quiet [of k ?c "int i" CMD_GETQ scope] Cons.prems r by auto
  have "\<exists>vid out' vbs'. getq_send (Suc i) ks vb scope CNone (add_vb ?vid vbs) (?c\<lparr>outbox := out\<rparr>) =
      (Inr vbs', ?c\<lparr>outbox := out\<rparr>\<lparr>vbucketId := vid, outbox := out'\<rparr>) \<and>
      (set (add_vb ?vid vbs) \<subseteq> {0..<65536} \<longrightarrow> set vbs' \<subseteq> {0..<65536})"
    by (rule Cons.IH) (use Cons.prems in \<open>auto simp: vb_routed_def\<close>)
  then obtain vid out' vbs' where g:
    "getq_send (Suc i) ks vb scope CNone (add_vb ?vid vbs) (?c\<lparr>outbox := out\<rparr>) =
      (Inr vbs', ?c\<lparr>outbox := out\<rparr>\<lparr>vbucketId := vid, outbox := out'\<rparr>)"
    "set (add_vb ?vid vbs) \<subseteq> {0..<65536} \<longrightarrow> set vbs' \<subseteq> {0..<65536}" by blast
  have "getq_send i (k # ks) vb scope CNone vbs c = (Inr vbs', c\<lparr>vbucketId := vid, outbox := out'\<rparr>)"
    using g(1) by (simp add: mbind_def sv out del: if_split)
  moreover have "set vbs \<subseteq> {0..<65536} \<Longrightarrow> set (add_vb ?vid vbs) \<subseteq> {0..<65536}"
    using r by (auto simp: add_vb_def simp del: if_split)
  ultimately show ?case using g(2) by blast
qed

lemma noop_send_ok:
  assumes "set vbs \<subseteq> {0..<65536}" and "0 \<le> terminal" "terminal < 4294967296"
  shows "\<exists>vid out. noop_send terminal vbs c = (Inr (), c\<lparr>vbucketId := vid, outbox := out\<rparr>)"
  using assms
proof (induction vbs arbitrary: c)
  case Nil
  show ?case by (intro exI [of _ "vbucketId c"] exI [of _ "outbox c"]) simp
next
  case (Cons vb vbs)
  let ?c = "c\<lparr>vbucketId := vb\<rparr>"
  obtain out where out: "sendCmd CMD_NOOP [] [] terminal [] 0 None CNone [] None ?c = (Inr (), ?c\<lparr>outbox := out\<rparr>)"
    using sendCmd_quiet [of "[]" ?c terminal CMD_NOOP None] Cons.prems by (auto simp: sendable_def)
  obtain vid out' where "noop_send terminal vbs (?c\<lparr>outbox := out\<rparr>) =
      (Inr (), ?c\<lparr>outbox := out\<rparr>\<lparr>vbucketId := vid, outbox := out'\<rparr>)"
    using Cons.IH [of "?c\<lparr>outbox := out\<rparr>"] Cons.prems by auto
  then show ?case by (auto simp: mbind_def out intro!: exI [of _ vid] exI [of _ out'])
qed




definition hit_reply :: request where
  "hit_reply = \<lparr>rq_magic = RES_MAGIC_BYTE, rq_cmd = CMD_GETQ, rq_dtype = 0, rq_vbucket = 0,
     rq_opaque = 0, rq_cas = 3, rq_extra = [CHR 0x00, CHR 0x00, CHR 0x00, CHR 0x02], rq_extra_len = None,
     rq_key = [], rq_val = ''v'', rq_ext_meta = []\<rparr>"


end
