(* ===== verification/Doc_Gen.thy ===== *)
theory Doc_Gen
  imports Crc32
begin

text \<open>
  The document generators (\<^verbatim>\<open>lib/couchbase_helper/documentgenerator.py\<close>): the base class, the JSON
  document generator, the sub-document generator, the generator of keys for given vbuckets, the
  blob, list-valued and employee generators, and the batching wrapper.

  \<^item> A generator object is a record that extends \<open>kvgen\<close> as its class extends \<^verbatim>\<open>KVGenerator\<close>.
  \<^item> The Java \<^verbatim>\<open>JsonObject\<close> of the templates is a type variable with the operations of
    \<open>json_ops\<close>. A template is shared between the generator and the documents it returned
    unless \<^verbatim>\<open>deep_copy\<close> is set: \<^verbatim>\<open>next\<close> returns the template and keeps it.
  \<^item> \<^verbatim>\<open>self.random\<close> is seeded from the generator's name and position before it is used; what it
    then draws is given by an \<open>rng\<close>: functions of the seed and of the number of draws made since.
  \<^item> The interface \<open>key_generator\<close> says what the batching wrapper relies on: the keys still to
    come; it is interpreted on the document and sub-document generators.
\<close>

section \<open>Seeded random numbers and slices\<close>

record rng =
  rg_choice :: "string \<Rightarrow> nat \<Rightarrow> nat \<Rightarrow> nat" \<comment> \<open>seed, draws so far, length: an index\<close>
  rg_int :: "string \<Rightarrow> nat \<Rightarrow> int \<Rightarrow> int \<Rightarrow> int" \<comment> \<open>seed, draws so far, both bounds\<close>
  rg_slice :: "string \<Rightarrow> nat \<Rightarrow> int \<Rightarrow> int" \<comment> \<open>\<open>int(random() * n)\<close>\<close>
  rg_string :: "string \<Rightarrow> string" \<comment> \<open>4096 letters drawn after \<open>random.seed(s)\<close>\<close>

text \<open>\<^verbatim>\<open>s[a:b]\<close> for integers of any sign.\<close>

definition slice_ix :: "int \<Rightarrow> nat \<Rightarrow> nat" where
  "slice_ix i n = (if i < 0 then nat (i + int n) else min (nat i) n)"

definition int_slice :: "int \<Rightarrow> int \<Rightarrow> 'a list \<Rightarrow> 'a list" where
  "int_slice a b s = take (slice_ix b (length s) - slice_ix a (length s)) (drop (slice_ix a (length s)) s)"

fun repeat_str :: "nat \<Rightarrow> string \<Rightarrow> string" where
  "repeat_str 0 s = []"
| "repeat_str (Suc n) s = s @ repeat_str n s"

section \<open>KVGenerator\<close>

record kvgen =
  kg_name :: string
  kg_itr :: int
  kg_start :: int
  kg_end :: int
  kg_randomize_doc_size :: bool
  kg_randomize_value :: bool
  kg_randomize :: bool
  kg_mix_key_size :: bool
  kg_doc_type :: string
  kg_key_size :: int
  kg_doc_size :: int
  kg_body :: string
  kg_deep_copy :: bool

definition a_body :: "int \<Rightarrow> string" where
  "a_body n = rjust [] n CHR ''a''"

definition kvgen_init :: "string \<Rightarrow> kvgen" where
  "kvgen_init name = \<lparr>kg_name = name, kg_itr = 0, kg_start = 0, kg_end = 0, kg_randomize_doc_size = False,
     kg_randomize_value = False, kg_randomize = False, kg_mix_key_size = False, kg_doc_type = ''json'',
     kg_key_size = 8, kg_doc_size = 256, kg_body = a_body 256, kg_deep_copy = False\<rparr>"

definition kv_has_next :: "'a kvgen_scheme \<Rightarrow> bool" where
  "kv_has_next g \<longleftrightarrow> kg_itr g < kg_end g"

definition kv_next_key :: "'a kvgen_scheme \<Rightarrow> int \<Rightarrow> string" where
  "kv_next_key g doc_index =
     kg_name g @ ''-'' @ zfill (int_str \<bar>doc_index\<bar>) (kg_key_size g - int (length (kg_name g)) - 1)"

definition kvgen_reset :: "'a kvgen_scheme \<Rightarrow> 'a kvgen_scheme" where
  "kvgen_reset g = g\<lparr>kg_itr := kg_start g\<rparr>"

definition kvgen_len :: "'a kvgen_scheme \<Rightarrow> int" where
  "kvgen_len g = kg_end g - kg_start g"

section \<open>DocumentGenerator\<close>

datatype jval = JStr string | JInt int

datatype kwarg = KChoices "jval list" | KCall jval | KOther

record 't json_ops =
  jo_create :: 't
  jo_put :: "string \<Rightarrow> jval \<Rightarrow> 't \<Rightarrow> 't"
  jo_contains :: "'t \<Rightarrow> string \<Rightarrow> bool"
  jo_truthy :: "'t \<Rightarrow> string \<Rightarrow> bool" \<comment> \<open>\<open>get(k)\<close> in a condition\<close>
  jo_names :: "'t \<Rightarrow> string list"
  jo_text :: "'t \<Rightarrow> string"
  jo_bytes_text :: "string \<Rightarrow> string"

datatype 't docval = DJson 't | DBytes string | DText string

record 't docgen = kvgen +
  dg_template :: 't
  dg_kwargs :: "(string, kwarg) dict"
  dg_random_string :: "string option"

record gen_options =
  go_start :: "int option"
  go_end :: "int option"
  go_doc_type :: "string option"
  go_key_size :: "int option"
  go_doc_size :: "int option"
  go_randomize_doc_size :: "bool option"
  go_randomize_value :: "bool option"
  go_randomize :: "bool option"
  go_mix_key_size :: "bool option"
  go_deep_copy :: "bool option"
  go_target_vbucket :: "int list option"
  go_vbuckets :: "int option"

text \<open>\<^verbatim>\<open>if 'x' in kwargs: self.x = kwargs['x']\<close>.\<close>

definition opt :: "'v option \<Rightarrow> 'v \<Rightarrow> 'v" where
  "opt x d = (case x of None \<Rightarrow> d | Some v \<Rightarrow> v)"

definition kvgen_options :: "gen_options \<Rightarrow> kvgen \<Rightarrow> kvgen" where
  "kvgen_options opts g = g\<lparr>
     kg_start := opt (go_start opts) (kg_start g), kg_itr := opt (go_start opts) (kg_itr g),
     kg_end := opt (go_end opts) (kg_end g), kg_doc_type := opt (go_doc_type opts) (kg_doc_type g),
     kg_key_size := opt (go_key_size opts) (kg_key_size g), kg_doc_size := opt (go_doc_size opts) (kg_doc_size g),
     kg_body := (case go_doc_size opts of None \<Rightarrow> kg_body g | Some n \<Rightarrow> a_body n),
     kg_randomize_doc_size := opt (go_randomize_doc_size opts) (kg_randomize_doc_size g),
     kg_randomize_value := opt (go_randomize_value opts) (kg_randomize_value g),
     kg_randomize := opt (go_randomize opts) (kg_randomize g),
     kg_mix_key_size := opt (go_mix_key_size opts) (kg_mix_key_size g),
     kg_deep_copy := opt (go_deep_copy opts) (kg_deep_copy g)\<rparr>"

definition docgen_init ::
  "rng \<Rightarrow> string \<Rightarrow> 't \<Rightarrow> gen_options \<Rightarrow> (string, kwarg) dict \<Rightarrow> 't docgen" where
  "docgen_init r key_prefix template opts kwargs =
     (let g = kvgen_options opts (kvgen_init key_prefix) in
      kvgen.extend g \<lparr>dg_template = template, dg_kwargs = kwargs,
        dg_random_string = (if kg_randomize_value g \<or> kg_randomize g \<or> kg_name g = ''random_keys''
          then Some (rg_string r key_prefix) else None)\<rparr>)"

definition seed_hash :: "'a kvgen_scheme \<Rightarrow> string" where
  "seed_hash g = kg_name g @ ''-'' @ int_str \<bar>kg_itr g\<bar>"

definition docgen_key :: "rng \<Rightarrow> 't docgen \<Rightarrow> string res" where
  "docgen_key r g =
     (if kg_name g = ''random_keys'' then
        (case dg_random_string g of
           None \<Rightarrow> Inl AttributeError
         | Some rs \<Rightarrow>
             (let sl = rg_slice r (seed_hash g) 0 (int (length rs) - kg_key_size g);
                  key_len = kg_key_size g - (int (length (int_str (kg_itr g))) + 1)
              in Inr (int_slice sl (key_len + sl) rs @ ''-'' @ int_str (kg_itr g))))
      else if kg_mix_key_size g then
        Inr (kg_name g @ ''-'' @ zfill (int_str \<bar>kg_itr g\<bar>)
          (rg_int r (seed_hash g) 0 (kg_key_size g) 240 - int (length (kg_name g)) - 1))
      else Inr (kv_next_key g (kg_itr g)))"

definition docgen_next_key :: "rng \<Rightarrow> 't docgen \<Rightarrow> (string \<times> 't docgen) res" where
  "docgen_next_key r g = rbind (docgen_key r g) (\<lambda>k. Inr (k, g\<lparr>kg_itr := kg_itr g + 1\<rparr>))"

text \<open>The loop over \<^verbatim>\<open>template.getNames()\<close>; \<open>n\<close> counts the draws. For the name \<^verbatim>\<open>key\<close> the code reads
  \<^verbatim>\<open>doc_key\<close>, which is assigned only later.\<close>

fun randomize_fields ::
  "'t json_ops \<Rightarrow> rng \<Rightarrow> string \<Rightarrow> (string, kwarg) dict \<Rightarrow> string list \<Rightarrow> nat \<Rightarrow> 't \<Rightarrow> ('t \<times> nat) res" where
  "randomize_fields jo r seed kwargs [] n t = Inr (t, n)"
| "randomize_fields jo r seed kwargs (k # ks) n t =
     (case map_of kwargs k of
        None \<Rightarrow> randomize_fields jo r seed kwargs ks n t
      | Some (KCall v) \<Rightarrow> randomize_fields jo r seed kwargs ks n (jo_put jo k v t)
      | Some a \<Rightarrow>
          (if k = ''key'' then Inl UnboundLocalError
           else (case a of
                   KChoices vs \<Rightarrow>
                     (if vs = [] then Inl IndexError
                      else randomize_fields jo r seed kwargs ks (Suc n)
                             (jo_put jo k (vs ! rg_choice r seed n (length vs)) t))
                 | _ \<Rightarrow> Inl TypeError)))"

definition has_sub :: "string \<Rightarrow> string \<Rightarrow> bool" where
  "has_sub s p \<longleftrightarrow> in_str p (py_lower s)"

definition random_body :: "rng \<Rightarrow> string \<Rightarrow> nat \<Rightarrow> string \<Rightarrow> int \<Rightarrow> string" where
  "random_body r seed n rs doc_size =
     (let sl = rg_slice r seed n (int (length rs)) in
      int_slice sl (doc_size + sl) (repeat_str (nat (doc_size div int (length rs) + 2)) rs))"

text \<open>The body for the next document: of a random size when sizes are randomized, and random text
  when values are.\<close>

definition docgen_body :: "rng \<Rightarrow> 't docgen \<Rightarrow> string \<Rightarrow> nat \<Rightarrow> string res" where
  "docgen_body r g seed n =
     (let doc_size = (if kg_randomize_doc_size g then rg_int r seed n 0 (kg_doc_size g) else kg_doc_size g);
          n1 = (if kg_randomize_doc_size g then Suc n else n)
      in if doc_size \<noteq> 0 \<and> kg_randomize_value g
         then rbind (of_option AttributeError (dg_random_string g)) (\<lambda>rs. Inr (random_body r seed n1 rs doc_size))
         else Inr (if kg_randomize_doc_size g then a_body doc_size else kg_body g))"

definition docgen_render :: "'t json_ops \<Rightarrow> string \<Rightarrow> 't \<Rightarrow> 't docval" where
  "docgen_render jo doc_type t =
     (if has_sub doc_type ''string''
      then DText (if has_sub doc_type ''binary'' then jo_bytes_text jo (jo_text jo t) else jo_text jo t)
      else if has_sub doc_type ''binary'' then DBytes (jo_text jo t) else DJson t)"

text \<open>The template (fields, then body) and the body of the next document.\<close>

definition docgen_fill :: "'t json_ops \<Rightarrow> rng \<Rightarrow> 't docgen \<Rightarrow> ('t \<times> string) res" where
  "docgen_fill jo r g =
     rbind (if kg_randomize g
            then randomize_fields jo r (seed_hash g) (dg_kwargs g) (jo_names jo (dg_template g)) 0 (dg_template g)
            else Inr (dg_template g, 0)) (\<lambda>(t, n).
     rbind (docgen_body r g (seed_hash g) n) (\<lambda>body.
     Inr (if jo_contains jo t ''body'' then jo_put jo ''body'' (JStr body) t else t, body)))"

definition docgen_next :: "'t json_ops \<Rightarrow> rng \<Rightarrow> 't docgen \<Rightarrow> ((string \<times> 't docval) \<times> 't docgen) res" where
  "docgen_next jo r g =
     (if kg_end g \<le> kg_itr g then Inl StopIteration
      else rbind (docgen_fill jo r g) (\<lambda>(t, body).
           rbind (docgen_next_key r (g\<lparr>kg_body := body,
                    dg_template := (if kg_deep_copy g then dg_template g else t)\<rparr>)) (\<lambda>(k, g').
           Inr ((k, docgen_render jo (kg_doc_type g) t), g'))))"

text \<open>\<^verbatim>\<open>doc_generator\<close> fills the template while the requested document size leaves room; the
  lengths are those of the literal strings in the code. The result is the template and the size
  left for the body.\<close>

definition take_room :: "nat \<Rightarrow> string \<Rightarrow> jval \<Rightarrow> 't json_ops \<Rightarrow> 't \<times> int \<Rightarrow> 't \<times> int" where
  "take_room l k v jo ts = (case ts of (t, sz) \<Rightarrow>
     if int l < sz then (jo_put jo k v t, sz - int l) else (t, sz))"

definition doc_template :: "'t json_ops \<Rightarrow> int \<Rightarrow> string \<Rightarrow> int \<Rightarrow> 't \<times> int" where
  "doc_template jo mutate mutation_type doc_size =
     take_room 14 ''body'' (JStr ''b'') jo
       (take_room (24 + length mutation_type) ''mutation_type'' (JStr mutation_type) jo
          (take_room 20 ''name'' (JStr ''james'') jo
             (take_room 13 ''age'' (JInt 5) jo
                (jo_put jo ''mutated'' (JInt mutate) (jo_create jo),
                 doc_size - (19 + int (length (int_str mutate)))))))"


section \<open>Keys for given vbuckets\<close>

text \<open>\<^verbatim>\<open>create_key_for_vbucket\<close> of the sub-document generator and of the target-vbucket generator: try
  successive indices until as many keys as \<^verbatim>\<open>self.end\<close> hash into the wanted vbuckets. The loop need
  not end: \<open>None\<close>.\<close>

partial_function (option) create_key_for_vbucket ::
  "'a kvgen_scheme \<Rightarrow> int list \<Rightarrow> int \<Rightarrow> int \<Rightarrow> int \<Rightarrow> (int, string) dict \<Rightarrow> (int \<times> int \<times> (int, string) dict) option" where
  "create_key_for_vbucket g target vbuckets counter n keys =
     (if kg_end g \<le> n then Some (counter, n, keys)
      else if get_vbucket_num_for_key (kv_next_key g counter) vbuckets \<in> set target
      then create_key_for_vbucket g target vbuckets (counter + 1) (n + 1)
             (AList.update (kg_start g + n) (kv_next_key g counter) keys)
      else create_key_for_vbucket g target vbuckets (counter + 1) n keys)"

record vb_keys =
  vk_doc_keys :: "(int, string) dict"
  vk_doc_keys_len :: int
  vk_key_counter :: int

text \<open>The state after the constructor's call: the keys by position, and \<^verbatim>\<open>self.end\<close> set from them.\<close>

definition keys_for_vbuckets ::
  "'a kvgen_scheme \<Rightarrow> int list \<Rightarrow> int \<Rightarrow> (vb_keys \<times> 'a kvgen_scheme) option" where
  "keys_for_vbuckets g target vbuckets =
     (case create_key_for_vbucket g target vbuckets (kg_start g) 0 [] of
        None \<Rightarrow> None
      | Some (counter, n, keys) \<Rightarrow>
          Some (\<lparr>vk_doc_keys = keys, vk_doc_keys_len = n, vk_key_counter = counter\<rparr>,
                g\<lparr>kg_end := kg_start g + n\<rparr>))"

section \<open>SubdocDocumentGenerator\<close>

record subgen = kvgen +
  sg_template :: string
  sg_args :: "string list list"
  sg_target :: "int list option"
  sg_keys :: "(int, string) dict"

text \<open>The constructor. A \<^verbatim>\<open>target_vbucket\<close> that is an empty list is falsy: no keys are made, but
  \<^verbatim>\<open>next_key\<close> will look for them. Without \<^verbatim>\<open>vbuckets\<close> the subtraction of one from \<^verbatim>\<open>None\<close> fails when a
  key has to be made.\<close>

definition subgen_init ::
  "string \<Rightarrow> string \<Rightarrow> string list list \<Rightarrow> gen_options \<Rightarrow> subgen res option" where
  "subgen_init name template args opts =
     (let g = (kvgen_init name)\<lparr>kg_start := opt (go_start opts) 0, kg_itr := opt (go_start opts) 0,
                kg_end := opt (go_end opts) 0, kg_doc_type := opt (go_doc_type opts) ''json'',
                kg_key_size := opt (go_key_size opts) 8\<rparr>;
          mk = (\<lambda>g keys. kvgen.extend g \<lparr>sg_template = template, sg_args = args,
                 sg_target = go_target_vbucket opts, sg_keys = keys\<rparr>)
      in case go_target_vbucket opts of
           None \<Rightarrow> Some (Inr (mk g []))
         | Some tv \<Rightarrow>
             (if tv = [] then Some (Inr (mk g []))
              else case go_vbuckets opts of
                     None \<Rightarrow> Some (if 0 < kg_end g then Inl TypeError else Inr (mk (g\<lparr>kg_end := kg_start g\<rparr>) []))
                   | Some vbs \<Rightarrow>
                       map_option (\<lambda>(vk, g'). Inr (mk g' (vk_doc_keys vk))) (keys_for_vbuckets g tv vbs)))"

definition subgen_key :: "rng \<Rightarrow> subgen \<Rightarrow> string res" where
  "subgen_key r g =
     (if sg_target g \<noteq> None then dict_lookup (sg_keys g) (kg_itr g)
      else if kg_name g = ''random_keys''
      then Inr (map (\<lambda>i. (''ABCDEFGHIJKLMNOPQRSTUVWXYZabcdefghijklmnopqrstuvwxyz0123456789'')
                  ! rg_choice r (kg_name g @ ''-'' @ int_str (kg_itr g)) i 62) [0..<12])
      else Inr (kv_next_key g (kg_itr g)))"

definition subgen_next_key :: "rng \<Rightarrow> subgen \<Rightarrow> (string \<times> subgen) res" where
  "subgen_next_key r g = rbind (subgen_key r g) (\<lambda>k. Inr (k, g\<lparr>kg_itr := kg_itr g + 1\<rparr>))"

text \<open>\<^verbatim>\<open>template.format(*doc_args)\<close> with positional fields \<^verbatim>\<open>{i}\<close> of one digit and doubled braces, the
  forms the templates of this repository have.\<close>

fun py_format :: "string \<Rightarrow> string list \<Rightarrow> string res" where
  "py_format [] args = Inr []"
| "py_format [c] args = (if c = CHR ''{'' \<or> c = CHR ''}'' then Inl ValueError else Inr [c])"
| "py_format (c # d # s) args =
     (if c = CHR ''{'' \<and> d = CHR ''{'' then rbind (py_format s args) (\<lambda>t. Inr (CHR ''{'' # t))
      else if c = CHR ''}'' \<and> d = CHR ''}'' then rbind (py_format s args) (\<lambda>t. Inr (CHR ''}'' # t))
      else if c = CHR ''{'' then
        (case (digit_val d, s) of
           (Some i, e # s') \<Rightarrow>
             (if e \<noteq> CHR ''}'' then Inl ValueError
              else if length args \<le> i then Inl IndexError
              else rbind (py_format s' args) (\<lambda>t. Inr (args ! i @ t)))
         | _ \<Rightarrow> Inl ValueError)
      else if c = CHR ''}'' then Inl ValueError
      else rbind (py_format (d # s) args) (\<lambda>t. Inr (c # t)))"

text \<open>\<^verbatim>\<open>s.replace(old, new)\<close> for a non-empty \<^verbatim>\<open>old\<close>.\<close>

function py_replace :: "string \<Rightarrow> string \<Rightarrow> string \<Rightarrow> string" where
  "py_replace old new [] = []"
| "py_replace old new (c # s) =
     (if old \<noteq> [] \<and> startswith (c # s) old then new @ py_replace old new (drop (length old) (c # s))
      else c # py_replace old new s)"
  by pat_completeness auto
termination
  by (relation "measure (\<lambda>(_, _, s). length s)") (auto simp: length_greater_0_conv)

declare py_replace.simps [simp del]

definition subdoc_text :: "string \<Rightarrow> string" where
  "subdoc_text s =
     py_replace [CHR 0x5C] [CHR 0x5C, CHR 0x5C] (py_replace ''False'' ''false''
       (py_replace ''True'' ''true'' (py_replace [CHR 0x27] [CHR 0x22] s)))"

definition draw_args :: "rng \<Rightarrow> string \<Rightarrow> string list list \<Rightarrow> string list res" where
  "draw_args r seed args =
     rmap (\<lambda>(i, arg). if arg = [] then Inl IndexError else Inr (arg ! rg_choice r seed i (length arg)))
       (zip [0..<length args] args)"

text \<open>\<open>json_items\<close> is \<^verbatim>\<open>json.loads(doc).items()\<close>.\<close>

definition subgen_next ::
  "(string \<Rightarrow> (string \<times> jval) list res) \<Rightarrow> rng \<Rightarrow> subgen \<Rightarrow> ((string \<times> (string \<times> jval) list) \<times> subgen) res" where
  "subgen_next json_items r g =
     (if kg_end g \<le> kg_itr g then Inl StopIteration
      else rbind (draw_args r (kg_name g @ ''-'' @ int_str (kg_itr g)) (sg_args g)) (\<lambda>doc_args.
           rbind (py_format (sg_template g) doc_args) (\<lambda>doc.
           rbind (json_items (subdoc_text doc)) (\<lambda>vals.
           rbind (subgen_next_key r g) (\<lambda>(k, g'). Inr ((k, vals), g'))))))"

text \<open>The templates of \<^verbatim>\<open>sub_doc_generator\<close> and \<^verbatim>\<open>sub_doc_generator_for_edit\<close>. A backslash at a line end
  joins the lines, so the literals have runs of blanks between their fields; \<^verbatim>\<open>007\<close> is the octal 7.\<close>

definition blanks :: "nat \<Rightarrow> string" where
  "blanks n = replicate n CHR '' ''"

definition qt :: "string \<Rightarrow> string" where
  "qt s = CHR 0x22 # s @ [CHR 0x22]"

definition sub_opts :: "int \<Rightarrow> int \<Rightarrow> int list option \<Rightarrow> int \<Rightarrow> int \<Rightarrow> gen_options" where
  "sub_opts start stop target_vbucket vbuckets key_size =
     \<lparr>go_start = Some start, go_end = Some stop, go_doc_type = None, go_key_size = Some key_size, go_doc_size = None,
      go_randomize_doc_size = None, go_randomize_value = None, go_randomize = None, go_mix_key_size = None,
      go_deep_copy = None, go_target_vbucket = target_vbucket, go_vbuckets = Some vbuckets\<rparr>"

definition sub_doc_generator ::
  "string \<Rightarrow> int \<Rightarrow> int \<Rightarrow> int \<Rightarrow> int list option \<Rightarrow> int \<Rightarrow> int \<Rightarrow> bool \<Rightarrow> subgen res option" where
  "sub_doc_generator key start stop doc_size target_vbucket vbuckets key_size xattr_test =
     (let last_name = [a_body (doc_size - 10)]; opts = sub_opts start stop target_vbucket vbuckets key_size in
      if xattr_test
      then subgen_init key (''{{ '' @ qt ''full_name.last'' @ '': '' @ qt ''{0}'' @ ''}}'') [last_name] opts
      else subgen_init key
        (''{{ '' @ qt ''full_name.first'' @ '': '' @ qt ''{0}'' @ '', '' @ qt ''full_name.last'' @ '': '' @ qt ''{1}'' @ '', '' @
         blanks 23 @ qt ''addr.city'' @ '': '' @ qt ''{2}'' @ '', '' @ qt ''addr.state'' @ '': '' @ qt ''{3}'' @ '', '' @
         blanks 23 @ qt ''addr.pincode'' @ '': {4} }}'')
        [[''james'', ''sharon''], last_name, [''Chicago'', ''Dallas'', ''Seattle'', ''Aurora'', ''Columbia''],
         [''AL'', ''CA'', ''IN'', ''NV'', ''NY''], [''135'', ''246'', ''396'', ''837'', ''7'']] opts)"

definition edit_templates :: "bool \<Rightarrow> string list" where
  "edit_templates xattr_test =
     (if xattr_test then
        [''{{ '' @ qt ''full_name.last'' @ '': '' @ qt ''LastNameUpdate'' @ ''}}'',
         ''{{ '' @ qt ''full_name.last'' @ '': '' @ qt ''LastNameUpdate'' @ ''}}'',
         ''{{ '' @ qt ''full_name.last'' @ '': '' @ qt [] @ ''}}'']
      else
        let sep = '', '' @ blanks 28;
            names = ''{{ '' @ qt ''full_name.first'' @ '': '' @ qt ''FirstNameUpdate'' @ sep @
              qt ''full_name.last'' @ '': '' @ qt ''LastNameUpdate'' @ sep @
              qt ''addr.city'' @ '': '' @ qt ''CityUpdate'' @ sep
        in [names @ qt ''addr.state'' @ '': '' @ qt ''StateUpdate'' @ sep @
              qt ''addr.pincode'' @ '': '' @ qt ''TypeChange'' @ '' }}'',
            names @ qt ''addr.state'' @ '': '' @ qt ''NewState'' @ sep @
              qt ''addr.pincode'' @ '': '' @ qt ''TypeChange'' @ sep @
              qt ''todo.night'' @ '': [1, '' @ qt ''nothing'' @ '', 3] }}'',
            ''{{ '' @ qt ''full_name.first'' @ '': '' @ qt [] @ sep @ qt ''addr'' @ '': '' @ qt [] @ sep @
              qt ''full_name.last'' @ '': '' @ qt [] @ '' }}''])"

text \<open>\<^verbatim>\<open>template[template_index]\<close> for an index from 0 on.\<close>

definition sub_doc_generator_for_edit ::
  "string \<Rightarrow> int \<Rightarrow> int \<Rightarrow> nat \<Rightarrow> int list option \<Rightarrow> int \<Rightarrow> int \<Rightarrow> bool \<Rightarrow> subgen res option" where
  "sub_doc_generator_for_edit key start stop template_index target_vbucket vbuckets key_size xattr_test =
     (if template_index < length (edit_templates xattr_test)
      then subgen_init key (edit_templates xattr_test ! template_index) []
             (sub_opts start stop target_vbucket vbuckets key_size)
      else Some (Inl IndexError))"

section \<open>DocumentGeneratorForTargetVbucket\<close>

record 't tvgen = "'t docgen" +
  tv_keys :: "(int, string) dict"

text \<open>\<^verbatim>\<open>target_vbucket\<close> and \<^verbatim>\<open>vbuckets\<close> are attributes only when the caller passes them.\<close>

definition tvgen_init ::
  "rng \<Rightarrow> string \<Rightarrow> 't \<Rightarrow> gen_options \<Rightarrow> (string, kwarg) dict \<Rightarrow> 't tvgen res option" where
  "tvgen_init r name template opts kwargs =
     (let g = kvgen_options opts (kvgen_init name);
          mk = (\<lambda>g keys. kvgen.extend g \<lparr>dg_template = template, dg_kwargs = kwargs,
                 dg_random_string = map_option (\<lambda>_. rg_string r name) (go_randomize_value opts), tv_keys = keys\<rparr>)
      in case (go_target_vbucket opts, go_vbuckets opts) of
           (Some tv, Some vbs) \<Rightarrow> map_option (\<lambda>(vk, g'). Inr (mk g' (vk_doc_keys vk))) (keys_for_vbuckets g tv vbs)
         | _ \<Rightarrow> Some (if 0 < kg_end g then Inl AttributeError else Inr (mk (g\<lparr>kg_end := kg_start g\<rparr>) [])))"

definition tvgen_next_key :: "'t tvgen \<Rightarrow> (string \<times> 't tvgen) res" where
  "tvgen_next_key g = rbind (dict_lookup (tv_keys g) (kg_itr g)) (\<lambda>k. Inr (k, g\<lparr>kg_itr := kg_itr g + 1\<rparr>))"

fun tv_randomize ::
  "'t json_ops \<Rightarrow> rng \<Rightarrow> string \<Rightarrow> (string, kwarg) dict \<Rightarrow> string list \<Rightarrow> nat \<Rightarrow> 't \<Rightarrow> ('t \<times> nat) res" where
  "tv_randomize jo r seed kwargs [] n t = Inr (t, n)"
| "tv_randomize jo r seed kwargs (k # ks) n t =
     (case map_of kwargs k of
        None \<Rightarrow> tv_randomize jo r seed kwargs ks n t
      | Some (KChoices vs) \<Rightarrow>
          (if vs = [] then Inl IndexError
           else tv_randomize jo r seed kwargs ks (Suc n) (jo_put jo k (vs ! rg_choice r seed n (length vs)) t))
      | Some _ \<Rightarrow> Inl TypeError)"

text \<open>The guard is \<^verbatim>\<open>self.itr > self.end\<close>: at the end position the look-up of the key fails with
  \<^verbatim>\<open>KeyError\<close> instead of \<^verbatim>\<open>StopIteration\<close>. The body of a randomized size is replaced by one of the full
  size when values are randomized too.\<close>

definition tvgen_next :: "'t json_ops \<Rightarrow> rng \<Rightarrow> 't tvgen \<Rightarrow> ((string \<times> 't docval) \<times> 't tvgen) res" where
  "tvgen_next jo r g =
     (if kg_end g < kg_itr g then Inl StopIteration
      else
        let seed = kg_name g @ ''-'' @ int_str (kg_itr g) in
        rbind (if kg_randomize g
               then tv_randomize jo r seed (dg_kwargs g) (jo_names jo (dg_template g)) 0 (dg_template g)
               else Inr (dg_template g, 0)) (\<lambda>(t1, n).
        let n1 = (if kg_randomize_doc_size g then Suc n else n);
            body1 = (if kg_randomize_doc_size g then a_body (rg_int r seed n 0 (kg_doc_size g)) else kg_body g) in
        rbind (if kg_doc_size g \<noteq> 0 \<and> kg_randomize_value g
               then rbind (of_option AttributeError (dg_random_string g)) (\<lambda>rs.
                      Inr (random_body r seed n1 rs (kg_doc_size g)))
               else Inr body1) (\<lambda>body.
        let t2 = (if jo_truthy jo t1 ''body'' then jo_put jo ''body'' (JStr body) t1 else t1);
            g' = g\<lparr>kg_body := body, dg_template := (if kg_deep_copy g then dg_template g else t2)\<rparr> in
        rbind (tvgen_next_key g') (\<lambda>(k, g''). Inr ((k, DJson t2), g'')))))"

datatype 't any_docgen = PlainGen "'t docgen" | TargetGen "'t tvgen"

definition doc_generator ::
  "'t json_ops \<Rightarrow> rng \<Rightarrow> string \<Rightarrow> int \<Rightarrow> int \<Rightarrow> int \<Rightarrow> bool \<Rightarrow> int \<Rightarrow> string \<Rightarrow> int list option \<Rightarrow> int \<Rightarrow>
   string \<Rightarrow> int \<Rightarrow> bool \<Rightarrow> bool \<Rightarrow> bool \<Rightarrow> bool \<Rightarrow> 't any_docgen res option" where
  "doc_generator jo r key start stop key_size mix_key_size doc_size doc_type target_vbucket vbuckets
     mutation_type mutate randomize_doc_size randomize_value randomize deep_copy =
     (let (template, size_left) = doc_template jo mutate mutation_type doc_size;
          opts = \<lparr>go_start = Some start, go_end = Some stop, go_doc_type = Some doc_type,
            go_key_size = Some key_size, go_doc_size = Some size_left,
            go_randomize_doc_size = Some randomize_doc_size, go_randomize_value = Some randomize_value,
            go_randomize = Some randomize, go_mix_key_size = Some mix_key_size,
            go_deep_copy = Some deep_copy, go_target_vbucket = target_vbucket, go_vbuckets = Some vbuckets\<rparr>
      in case target_vbucket of
           None \<Rightarrow> Some (Inr (PlainGen (docgen_init r key template opts [])))
         | Some tv \<Rightarrow>
             (if tv = [] then Some (Inr (PlainGen (docgen_init r key template opts [])))
              else map_option (\<lambda>x. rbind x (\<lambda>g. Inr (TargetGen g))) (tvgen_init r key template opts [])))"

section \<open>Blob, list-valued and employee generators\<close>

record blobgen = kvgen +
  bg_seed :: string
  bg_value_size :: int

definition blobgen_init :: "string \<Rightarrow> string \<Rightarrow> int \<Rightarrow> int \<Rightarrow> int \<Rightarrow> blobgen" where
  "blobgen_init name seed value_size start stop =
     kvgen.extend ((kvgen_init name)\<lparr>kg_start := start, kg_end := stop, kg_itr := start, kg_doc_type := ''string''\<rparr>)
       \<lparr>bg_seed = seed, bg_value_size = value_size\<rparr>"

text \<open>\<open>rkey\<close> and \<open>rletter\<close> are the twelve characters and the letter drawn from the global generator.\<close>

definition blobgen_next :: "string \<Rightarrow> char \<Rightarrow> blobgen \<Rightarrow> ((string \<times> string) \<times> blobgen) res" where
  "blobgen_next rkey rletter g =
     (if kg_end g \<le> kg_itr g then Inl StopIteration
      else let key = (if kg_name g = ''random_keys'' then rkey else kg_name g @ int_str (kg_itr g));
               val = (if bg_value_size g = 1 then [rletter]
                      else ljust (bg_seed g @ int_str (kg_itr g)) (bg_value_size g) CHR ''a'')
           in Inr ((key, val), g\<lparr>kg_itr := kg_itr g + 1\<rparr>))"

record 'v listgen = kvgen +
  lg_values :: "'v list"

definition listgen_init :: "string \<Rightarrow> 'v list \<Rightarrow> int \<Rightarrow> int \<Rightarrow> 'v listgen" where
  "listgen_init name values start stop =
     kvgen.extend ((kvgen_init name)\<lparr>kg_start := start, kg_end := stop, kg_itr := start\<rparr>) \<lparr>lg_values = values\<rparr>"

text \<open>\<^verbatim>\<open>while index > len(values): index = index - len(values)\<close>: endless for an empty list and a positive
  index.\<close>

partial_function (option) wrap_index :: "int \<Rightarrow> int \<Rightarrow> int option" where
  "wrap_index n index = (if n < index then wrap_index n (index - n) else Some index)"

text \<open>\<^verbatim>\<open>values[index - 1]\<close> with Python's negative indices.\<close>

definition py_nth :: "'v list \<Rightarrow> int \<Rightarrow> 'v res" where
  "py_nth xs i =
     (if 0 \<le> i \<and> i < int (length xs) then Inr (xs ! nat i)
      else if i < 0 \<and> - int (length xs) \<le> i then Inr (xs ! nat (i + int (length xs)))
      else Inl IndexError)"

text \<open>\<^verbatim>\<open>Base64Generator\<close> returns the value, \<^verbatim>\<open>JSONNonDocGenerator\<close> its JSON text: \<open>dumps\<close>.\<close>

definition listgen_next :: "('v \<Rightarrow> 'w) \<Rightarrow> 'v listgen \<Rightarrow> ((string \<times> 'w) \<times> 'v listgen) res option" where
  "listgen_next dumps g =
     (if kg_end g \<le> kg_itr g then Some (Inl StopIteration)
      else map_option (\<lambda>index.
             rbind (py_nth (lg_values g) (index - 1)) (\<lambda>v.
             Inr ((kg_name g @ int_str (kg_itr g), dumps v), g\<lparr>kg_itr := kg_itr g + 1\<rparr>)))
           (wrap_index (int (length (lg_values g))) (kg_itr g)))"

section \<open>JsonDocGenerator\<close>

text \<open>The name lists of \<^verbatim>\<open>data.py\<close> are an argument, and so is what the global random generator draws
  for each document (\<open>emp_draws\<close>): indices into these lists, the salary in cents, the date, and
  for managers the team size and the names of the reports.\<close>

record emp_data =
  FIRST_NAMES :: "string list"
  LAST_NAMES :: "string list"
  DEPT :: "string list"
  LANGUAGES :: "string list"

record emp_draws =
  ed_name :: "nat \<times> nat"
  ed_dept :: nat
  ed_salary :: int
  ed_date :: "int \<times> int \<times> int \<times> int \<times> int"
  ed_langs :: "nat list"
  ed_manager :: bool
  ed_team :: nat
  ed_reports :: "nat \<Rightarrow> nat \<times> nat"
  ed_email :: int

datatype emp_val = EStr string | EInt int | ECents int | EBool bool | EList "string list" | EManages nat "string list"

type_synonym emp_doc = "(string, emp_val) dict"

definition generate_name :: "emp_data \<Rightarrow> nat \<times> nat \<Rightarrow> string" where
  "generate_name d ij = FIRST_NAMES d ! fst ij @ '' '' @ LAST_NAMES d ! snd ij"

definition generate_dept :: "emp_data \<Rightarrow> nat \<Rightarrow> string" where
  "generate_dept d i = DEPT d ! i"

definition generate_lang_known :: "emp_data \<Rightarrow> nat list \<Rightarrow> string list" where
  "generate_lang_known d is = map (\<lambda>i. LANGUAGES d ! i) (take 3 is)"

definition two_digits :: "int \<Rightarrow> string" where
  "two_digits n = zfill (int_str n) 2"

definition generate_join_date :: "int \<times> int \<times> int \<times> int \<times> int \<Rightarrow> string" where
  "generate_join_date date = (case date of (y, mo, d, h, mi) \<Rightarrow>
     zfill (int_str y) 4 @ ''-'' @ two_digits mo @ ''-'' @ two_digits d @ ''T'' @ two_digits h @ '':'' @ two_digits mi @ '':00'')"

definition manages_of :: "emp_data \<Rightarrow> emp_draws \<Rightarrow> emp_val" where
  "manages_of d e = EManages (ed_team e) (map (\<lambda>i. generate_name d (ed_reports e i)) [0..<ed_team e])"

definition first_name_lower :: "string \<Rightarrow> string" where
  "first_name_lower nm = py_lower (hd (py_split CHR '' '' nm))"

definition create_doc :: "emp_data \<Rightarrow> emp_draws \<Rightarrow> int \<Rightarrow> emp_doc" where
  "create_doc d e count =
     (let emp_name = generate_name d (ed_name e) in
      [(''emp_id'', EStr (int_str (10000000 + count))), (''name'', EStr emp_name),
       (''dept'', EStr (generate_dept d (ed_dept e))),
       (''email'', EStr (first_name_lower emp_name @ ''@mcdiabetes.com'')),
       (''salary'', ECents (ed_salary e)), (''join_date'', EStr (generate_join_date (ed_date e))),
       (''languages_known'', EList (generate_lang_known d (ed_langs e))),
       (''is_manager'', EBool (ed_manager e)), (''mutated'', EInt 0), (''type'', EStr ''emp'')]
      @ (if ed_manager e then [(''manages'', manages_of d e)] else []))"

record empgen = kvgen +
  eg_docs :: "(int, emp_doc) dict"

definition empgen_size :: "'x list list \<Rightarrow> int" where
  "empgen_size args = (if args = [] then 0 else int (prod_list (map length args)))"

definition empgen_init ::
  "emp_data \<Rightarrow> (int \<Rightarrow> emp_draws) \<Rightarrow> string \<Rightarrow> string \<Rightarrow> 'x list list \<Rightarrow> int option \<Rightarrow> int option \<Rightarrow> empgen" where
  "empgen_init d draws name op_type args start stop =
     (let s = opt start 0; e = opt stop (empgen_size args);
          g = (kvgen_init name)\<lparr>kg_start := s, kg_itr := s, kg_end := e\<rparr>
      in kvgen.extend g \<lparr>eg_docs =
           (if op_type = ''create'' then
              fold (\<lambda>count. AList.update (count - 1) (create_doc d (draws count) count)) [s + 1 .. e] []
            else if op_type = ''delete'' then
              fold (\<lambda>count. AList.update count [(''type'', EStr ''emp'')]) [s .. e - 1] []
            else [])\<rparr>)"

definition update_doc :: "emp_data \<Rightarrow> emp_draws \<Rightarrow> string list option \<Rightarrow> emp_doc \<Rightarrow> emp_doc res" where
  "update_doc d e flds doc =
     (case flds of
        None \<Rightarrow> Inr (AList.update ''salary'' (ECents (ed_salary e)) doc)
      | Some fs \<Rightarrow>
          (let upd = (\<lambda>b k v doc. if b then AList.update k v doc else doc);
               has = (\<lambda>f. f \<in> set fs);
               doc1 = upd (has ''dept'') ''dept'' (EStr (generate_dept d (ed_dept e)))
                        (upd (has ''salary'') ''salary'' (ECents (ed_salary e)) doc);
               doc2 = upd (has ''is_manager'' \<and> ed_manager e) ''manages'' (manages_of d e)
                        (upd (has ''is_manager'') ''is_manager'' (EBool (ed_manager e)) doc1);
               doc3 = upd (has ''languages_known'') ''languages_known''
                        (EList (generate_lang_known d (ed_langs e))) doc2
           in rbind (if has ''email''
                     then (case map_of doc3 ''name'' of
                             Some (EStr nm) \<Rightarrow> Inr (AList.update ''email''
                               (EStr (first_name_lower nm @ ''_'' @ int_str (ed_email e) @ ''@mcdiabetes.com'')) doc3)
                           | Some _ \<Rightarrow> Inl AttributeError
                           | None \<Rightarrow> Inl KeyError)
                     else Inr doc3) (\<lambda>doc4.
              Inr (upd (has ''manages.team_size'' \<or> has ''manages.reports'') ''manages'' (manages_of d e) doc4))))"

fun update_loop ::
  "emp_data \<Rightarrow> (int \<Rightarrow> emp_draws) \<Rightarrow> string list option \<Rightarrow> int list \<Rightarrow> (int, emp_doc) dict \<Rightarrow> (int, emp_doc) dict res" where
  "update_loop d draws flds [] docs = Inr docs"
| "update_loop d draws flds (count # cs) docs =
     rbind (dict_lookup docs count) (\<lambda>doc.
     rbind (update_doc d (draws count) flds doc) (\<lambda>doc'.
     update_loop d draws flds cs (AList.update count doc' docs)))"

definition empgen_update :: "emp_data \<Rightarrow> (int \<Rightarrow> emp_draws) \<Rightarrow> string list option \<Rightarrow> empgen \<Rightarrow> empgen res" where
  "empgen_update d draws flds g =
     rbind (update_loop d draws flds [kg_start g .. kg_end g - 1] (eg_docs g)) (\<lambda>docs. Inr (g\<lparr>eg_docs := docs\<rparr>))"

definition empgen_next :: "(emp_doc \<Rightarrow> 'w) \<Rightarrow> empgen \<Rightarrow> ((string \<times> 'w) \<times> empgen) res" where
  "empgen_next dumps g =
     (if kg_end g \<le> kg_itr g then Inl StopIteration
      else rbind (dict_lookup (eg_docs g) (kg_itr g)) (\<lambda>doc.
             Inr ((kg_name g @ int_str (10000000 + (kg_itr g + 1)), dumps doc), g\<lparr>kg_itr := kg_itr g + 1\<rparr>)))"

section \<open>BatchedDocumentGenerator\<close>

definition batch_init :: "'g \<Rightarrow> int \<Rightarrow> ('g \<times> nat) res" where
  "batch_init gen batch_size = (if batch_size \<le> 0 then Inl ValueError else Inr (gen, nat batch_size))"

text \<open>The loop of \<^verbatim>\<open>next_batch\<close>: \<open>n\<close> is the room left in the batch; the wrapped generator comes as
  its methods \<^verbatim>\<open>has_next\<close>, \<^verbatim>\<open>next\<close> and \<^verbatim>\<open>next_key\<close> and its attribute \<^verbatim>\<open>deep_copy\<close>.\<close>

fun batch_loop ::
  "('g \<Rightarrow> bool) \<Rightarrow> ('g \<Rightarrow> ((string \<times> 'v) \<times> 'g) res) \<Rightarrow> ('g \<Rightarrow> (string \<times> 'g) res) \<Rightarrow> ('g \<Rightarrow> bool) \<Rightarrow>
   nat \<Rightarrow> bool \<Rightarrow> 'v \<Rightarrow> (string \<times> 'v) list \<Rightarrow> 'g \<Rightarrow> ((string \<times> 'v) list \<times> 'g) res" where
  "batch_loop has_nxt nxt nxt_key deep 0 skip val acc g = Inr (acc, g)"
| "batch_loop has_nxt nxt nxt_key deep (Suc n) skip val acc g =
     (if \<not> has_nxt g then Inr (acc, g)
      else if \<not> skip \<or> deep g
      then rbind (nxt g) (\<lambda>((key, val'), g').
             batch_loop has_nxt nxt nxt_key deep n True val' (acc @ [(key, val')]) g')
      else rbind (nxt_key g) (\<lambda>(key, g').
             batch_loop has_nxt nxt nxt_key deep n skip val (acc @ [(key, val)]) g'))"

definition next_batch where
  "next_batch has_nxt nxt nxt_key deep batch_size skip_value no_val g =
     batch_loop has_nxt nxt nxt_key deep batch_size skip_value no_val [] g"

end
