(* ===== verification/Doc_Gen_Props.thy ===== *)
theory Doc_Gen_Props
  imports Doc_Gen
begin

text \<open>
  Properties of the document generators: keys are a function of the absolute index and distinct
  for distinct ones; the batching wrapper, proved once against the interface \<open>key_generator\<close>,
  returns every key once and in order; keys made for given vbuckets hash into them; values of a
  requested size have that size.
\<close>

section \<open>Keys\<close>

lemma digit_zero: "digit_val CHR ''0'' = Some 0"
  by (simp add: digit_val_def lower_char_def Let_def)

lemma digits_val_zeros: "digits_val 10 (replicate k CHR ''0'' @ s) 0 = digits_val 10 s 0"
  by (induction k) (simp_all add: digit_zero)

lemma zfill_nat_inj: "zfill (nat_str m) w = zfill (nat_str n) v \<Longrightarrow> m = n"
proof -
  have "digits_val 10 (zfill (nat_str m) w) 0 = Some m" for m w
    by (simp add: zfill_def rjust_def digits_val_zeros digits_val_nat_str)
  then show "zfill (nat_str m) w = zfill (nat_str n) v \<Longrightarrow> m = n" by (metis option.inject)
qed

lemma kv_next_key_eq: "kv_next_key g i = kv_next_key g j \<longleftrightarrow> \<bar>i\<bar> = \<bar>j\<bar>"
  by (auto simp: kv_next_key_def int_str_def dest!: zfill_nat_inj)

text \<open>The key of an index: two indices have the same generated key exactly when they have the
  same absolute value, and the key has the requested size unless name, dash and number together
  are longer.\<close>

theorem generated_keys_distinct:
  "(kv_next_key g i = kv_next_key g j \<longleftrightarrow> \<bar>i\<bar> = \<bar>j\<bar>) \<and>
   int (length (kv_next_key g i)) =
     max (kg_key_size g) (int (length (kg_name g)) + 1 + int (length (int_str \<bar>i\<bar>)))"
proof -
  have "int (length (zfill (int_str \<bar>i\<bar>) w)) = max (int (length (int_str \<bar>i\<bar>))) w" for w
    unfolding zfill_def by (rule length_rjust)
  then show ?thesis by (simp add: kv_next_key_eq) (simp add: kv_next_key_def)
qed


section \<open>Batches\<close>

locale key_generator =
  fixes ok :: "'g \<Rightarrow> bool"
    and keys_left :: "'g \<Rightarrow> string list"
    and has_nxt :: "'g \<Rightarrow> bool"
    and nxt :: "'g \<Rightarrow> ((string \<times> 'v) \<times> 'g) res"
    and nxt_key :: "'g \<Rightarrow> (string \<times> 'g) res"
  assumes has_nxt_iff: "ok g \<Longrightarrow> has_nxt g \<longleftrightarrow> keys_left g \<noteq> []"
    and nxt_ok: "ok g \<Longrightarrow> keys_left g = k # ks \<Longrightarrow>
      \<exists>v g'. nxt g = Inr ((k, v), g') \<and> ok g' \<and> keys_left g' = ks"
    and nxt_key_ok: "ok g \<Longrightarrow> keys_left g = k # ks \<Longrightarrow>
      \<exists>g'. nxt_key g = Inr (k, g') \<and> ok g' \<and> keys_left g' = ks"
begin

lemma batch_loop_keys:
  "ok g \<Longrightarrow> \<exists>kvs g'. batch_loop has_nxt nxt nxt_key deep n skip v acc g = Inr (kvs, g') \<and> ok g' \<and>
     map fst kvs = map fst acc @ take n (keys_left g) \<and> keys_left g' = drop n (keys_left g)"
proof (induction n arbitrary: skip v acc g)
  case (Suc n)
  show ?case
  proof (cases "keys_left g")
    case Nil
    then show ?thesis using Suc.prems has_nxt_iff by auto
  next
    case (Cons k ks)
    then have h: "has_nxt g" using Suc.prems has_nxt_iff by simp
    show ?thesis
    proof (cases "\<not> skip \<or> deep g")
      case True
      obtain v' g' where "nxt g = Inr ((k, v'), g')" "ok g'" "keys_left g' = ks"
        using nxt_ok [OF Suc.prems Cons] by blast
      then show ?thesis using Suc.IH [of g' True v' "acc @ [(k, v')]"] h True Cons by auto
    next
      case False
      obtain g' where "nxt_key g = Inr (k, g')" "ok g'" "keys_left g' = ks"
        using nxt_key_ok [OF Suc.prems Cons] by blast
      then show ?thesis using Suc.IH [of g' skip v "acc @ [(k, v)]"] h False Cons by auto
    qed
  qed
qed simp

lemma next_batch_keys:
  assumes "ok g"
  shows "\<exists>kvs g'. next_batch has_nxt nxt nxt_key deep n skip v g = Inr (kvs, g') \<and> ok g' \<and>
     map fst kvs = take n (keys_left g) \<and> keys_left g' = drop n (keys_left g)"
  using batch_loop_keys [OF assms, of deep n skip v "[]"] by (simp add: next_batch_def)

end

text \<open>The loading tasks call \<^verbatim>\<open>next_batch\<close> while \<^verbatim>\<open>has_next\<close>: the batches of at most \<open>fuel\<close> calls.\<close>

fun run_batches ::
  "('g \<Rightarrow> bool) \<Rightarrow> ('g \<Rightarrow> ((string \<times> 'v) list \<times> 'g) res) \<Rightarrow> nat \<Rightarrow> 'g \<Rightarrow> ((string \<times> 'v) list list \<times> 'g) res" where
  "run_batches has_nxt batch 0 g = Inr ([], g)"
| "run_batches has_nxt batch (Suc fuel) g =
     (if \<not> has_nxt g then Inr ([], g)
      else rbind (batch g) (\<lambda>(b, g'). rbind (run_batches has_nxt batch fuel g') (\<lambda>(bs, g''). Inr (b # bs, g''))))"

context key_generator
begin

lemma run_batches_keys:
  assumes "0 < n"
  shows "ok g \<Longrightarrow> length (keys_left g) \<le> fuel \<Longrightarrow>
    \<exists>bs g'. run_batches has_nxt (next_batch has_nxt nxt nxt_key deep n skip v) fuel g = Inr (bs, g') \<and>
      \<not> has_nxt g' \<and> map fst (concat bs) = keys_left g \<and> (\<forall>b\<in>set bs. b \<noteq> [] \<and> length b \<le> n)"
proof (induction fuel arbitrary: g)
  case 0
  then show ?case using has_nxt_iff by simp
next
  case (Suc fuel)
  show ?case
  proof (cases "keys_left g = []")
    case True
    then show ?thesis using Suc.prems has_nxt_iff by simp
  next
    case False
    obtain kvs g1 where b: "next_batch has_nxt nxt nxt_key deep n skip v g = Inr (kvs, g1)" "ok g1"
      "map fst kvs = take n (keys_left g)" "keys_left g1 = drop n (keys_left g)"
      using next_batch_keys [OF Suc.prems(1)] by blast
    have "length (keys_left g1) \<le> fuel" using b(4) Suc.prems(2) assms False by (cases "keys_left g") auto
    from Suc.IH [OF b(2) this] obtain bs g' where r:
      "run_batches has_nxt (next_batch has_nxt nxt nxt_key deep n skip v) fuel g1 = Inr (bs, g')"
      "\<not> has_nxt g'" "map fst (concat bs) = keys_left g1" "\<forall>b\<in>set bs. b \<noteq> [] \<and> length b \<le> n" by blast
    have "length kvs = length (take n (keys_left g))" by (metis b(3) length_map)
    moreover have "take n (keys_left g) \<noteq> []" using False assms by simp
    ultimately have "kvs \<noteq> []" "length kvs \<le> n" using b(3) by auto
    then show ?thesis using b r False Suc.prems(1) has_nxt_iff by auto
  qed
qed

end


section \<open>The document generator as a key generator\<close>

definition docgen_ok :: "'t docgen \<Rightarrow> bool" where
  "docgen_ok g \<longleftrightarrow> \<not> kg_randomize g \<and>
     (kg_randomize_value g \<or> kg_name g = ''random_keys'' \<longrightarrow> dg_random_string g \<noteq> None)"

definition docgen_key_at :: "rng \<Rightarrow> 't docgen \<Rightarrow> int \<Rightarrow> string" where
  "docgen_key_at r g i = projr (docgen_key r (g\<lparr>kg_itr := i\<rparr>))"

definition docgen_keys :: "rng \<Rightarrow> 't docgen \<Rightarrow> string list" where
  "docgen_keys r g = map (docgen_key_at r g) [kg_itr g .. kg_end g - 1]"

lemma docgen_key_at_cong:
  assumes "kg_name g' = kg_name g" "kg_key_size g' = kg_key_size g" "kg_mix_key_size g' = kg_mix_key_size g"
    "dg_random_string g' = dg_random_string g"
  shows "docgen_key_at r g' i = docgen_key_at r g i"
  using assms by (simp add: docgen_key_at_def docgen_key_def seed_hash_def kv_next_key_def split: option.splits)

lemma docgen_key_Inr: "docgen_ok g \<Longrightarrow> docgen_key r g = Inr (docgen_key_at r g (kg_itr g))"
  by (auto simp: docgen_key_at_def docgen_ok_def docgen_key_def Let_def split: option.splits)

lemma docgen_keys_Cons:
  assumes "docgen_keys r g = k # ks"
  shows "kg_itr g < kg_end g" and "k = docgen_key_at r g (kg_itr g)"
    and "ks = map (docgen_key_at r g) [kg_itr g + 1 .. kg_end g - 1]"
  using assms by (auto simp: docgen_keys_def upto_rec1 upto_Nil split: if_splits)
     (cases "kg_itr g \<le> kg_end g - 1"; simp add: upto_rec1)+


lemma docgen_advance:
  assumes "docgen_ok g" and "docgen_keys r g = k # ks"
    and "g' = g\<lparr>kg_body := b, dg_template := tm\<rparr>"
  shows "\<exists>g2. docgen_next_key r g' = Inr (k, g2) \<and> docgen_ok g2 \<and> docgen_keys r g2 = ks"
proof -
  note c = docgen_keys_Cons [OF assms(2)]
  have ok: "docgen_ok g'" using assms(1,3) by (simp add: docgen_ok_def)
  have same: "docgen_key_at r h = docgen_key_at r g"
    if "h = g' \<or> h = g'\<lparr>kg_itr := kg_itr g' + 1\<rparr>" for h
    by (rule ext, rule docgen_key_at_cong) (use that assms(3) in auto)
  have "docgen_next_key r g' = Inr (k, g'\<lparr>kg_itr := kg_itr g' + 1\<rparr>)"
    using docgen_key_Inr [OF ok, of r] same [of g'] assms(3) c(2) by (simp add: docgen_next_key_def)
  moreover have "docgen_ok (g'\<lparr>kg_itr := kg_itr g' + 1\<rparr>)" using ok by (simp add: docgen_ok_def)
  moreover have "docgen_keys r (g'\<lparr>kg_itr := kg_itr g' + 1\<rparr>) = ks"
    unfolding c(3) docgen_keys_def using assms(3) same [of "g'\<lparr>kg_itr := kg_itr g' + 1\<rparr>"] by simp
  ultimately show ?thesis by blast
qed

lemma docgen_fill_ok: "docgen_ok g \<Longrightarrow> \<exists>t body. docgen_fill jo r g = Inr (t, body)"
  by (auto simp: docgen_fill_def docgen_body_def docgen_ok_def Let_def)

interpretation dg: key_generator docgen_ok "docgen_keys r" kv_has_next "docgen_next jo r" "docgen_next_key r"
proof unfold_locales
  fix g :: "'a docgen"
  show "kv_has_next g = (docgen_keys r g \<noteq> [])" by (auto simp: kv_has_next_def docgen_keys_def)
next
  fix g :: "'a docgen" and k ks
  assume ok: "docgen_ok g" and keys: "docgen_keys r g = k # ks"
  have "g = g\<lparr>kg_body := kg_body g, dg_template := dg_template g\<rparr>" by simp
  from docgen_advance [OF ok keys this]
  show "\<exists>g'. docgen_next_key r g = Inr (k, g') \<and> docgen_ok g' \<and> docgen_keys r g' = ks" .
next
  fix g :: "'a docgen" and k ks
  assume ok: "docgen_ok g" and keys: "docgen_keys r g = k # ks"
  have lt: "\<not> kg_end g \<le> kg_itr g" using docgen_keys_Cons(1) [OF keys] by simp
  have step: "\<exists>v b tm. docgen_next jo r g =
      rbind (docgen_next_key r (g\<lparr>kg_body := b, dg_template := tm\<rparr>)) (\<lambda>(k, g''). Inr ((k, v), g''))"
    using docgen_fill_ok [OF ok, of jo r] lt unfolding docgen_next_def by fastforce
  then obtain v b tm where n: "docgen_next jo r g =
      rbind (docgen_next_key r (g\<lparr>kg_body := b, dg_template := tm\<rparr>)) (\<lambda>(k, g''). Inr ((k, v), g''))" by blast
  from docgen_advance [OF ok keys refl, where b = b and tm = tm] n
  show "\<exists>v g'. docgen_next jo r g = Inr ((k, v), g') \<and> docgen_ok g' \<and> docgen_keys r g' = ks" by auto
qed


lemma docgen_keys_plain:
  assumes "kg_name g \<noteq> ''random_keys''" "\<not> kg_mix_key_size g"
  shows "docgen_keys r g = map (kv_next_key g) [kg_itr g .. kg_end g - 1]"
  using assms by (simp add: docgen_keys_def docgen_key_at_def docgen_key_def kv_next_key_def)

lemma next_keys_distinct: "0 \<le> a \<Longrightarrow> distinct (map (kv_next_key g) [a..b])"
  by (auto simp: distinct_map inj_on_def kv_next_key_eq)

text \<open>C21. Batching loses and repeats nothing: calling \<^verbatim>\<open>next_batch\<close> on a document generator while it
  \<^verbatim>\<open>has_next\<close> ends without an exception after at most as many batches as there are documents; every
  batch is non-empty and at most of the batch size; and the keys of the batches in order are the
  keys of the indices from the current one to \<^verbatim>\<open>end - 1\<close>, all different.\<close>

theorem batches_cover_all_keys:
  assumes "docgen_ok g" and "0 < n" and "nat (kg_end g - kg_itr g) \<le> fuel" and "0 \<le> kg_itr g"
    and "kg_name g \<noteq> ''random_keys''" and "\<not> kg_mix_key_size g"
  shows "\<exists>bs g'. run_batches kv_has_next
       (next_batch kv_has_next (docgen_next jo r) (docgen_next_key r) kg_deep_copy n skip v) fuel g = Inr (bs, g') \<and>
     \<not> kv_has_next g' \<and> map fst (concat bs) = map (kv_next_key g) [kg_itr g .. kg_end g - 1] \<and>
     distinct (map fst (concat bs)) \<and> (\<forall>b\<in>set bs. b \<noteq> [] \<and> length b \<le> n)"
proof -
  note keys = docgen_keys_plain [OF assms(5,6), of r]
  have "length (docgen_keys r g) \<le> fuel" using assms(3) unfolding keys by simp
  from dg.run_batches_keys [OF assms(2,1) this, of jo kg_deep_copy skip v]
  show ?thesis unfolding keys using next_keys_distinct [OF assms(4)] by auto
qed

definition unit_json :: "unit json_ops" where
  "unit_json = \<lparr>jo_create = (), jo_put = (\<lambda>_ _ t. t), jo_contains = (\<lambda>_ _. False), jo_truthy = (\<lambda>_ _. False),
     jo_names = (\<lambda>_. []), jo_text = (\<lambda>_. []), jo_bytes_text = id\<rparr>"

definition const_rng :: rng where
  "const_rng = \<lparr>rg_choice = (\<lambda>_ _ _. 0), rg_int = (\<lambda>_ _ a _. a), rg_slice = (\<lambda>_ _ _. 0),
     rg_string = (\<lambda>_. replicate 4096 CHR ''x'')\<rparr>"

definition three_docs :: "unit docgen" where
  "three_docs = kvgen.extend ((kvgen_init ''doc'')\<lparr>kg_end := 3\<rparr>)
     \<lparr>dg_template = (), dg_kwargs = [], dg_random_string = None\<rparr>"

theorem batches_cover_all_keys_witness:
  "\<exists>bs g'. run_batches kv_has_next
     (next_batch kv_has_next (docgen_next unit_json const_rng) (docgen_next_key const_rng) kg_deep_copy 2 False (DText []))
     3 three_docs = Inr (bs, g') \<and> map fst (concat bs) = [''doc-0000'', ''doc-0001'', ''doc-0002'']"
proof -
  have k: "map (kv_next_key three_docs) [kg_itr three_docs .. kg_end three_docs - 1] =
      [''doc-0000'', ''doc-0001'', ''doc-0002'']"
    by code_simp
  show ?thesis
    using batches_cover_all_keys [of three_docs 2 3 unit_json const_rng False "DText []", unfolded k]
    by (auto simp: three_docs_def docgen_ok_def kvgen_init_def kvgen.defs)
qed

section \<open>Keys for given vbuckets\<close>

definition vb_hit :: "'a kvgen_scheme \<Rightarrow> int list \<Rightarrow> int \<Rightarrow> int \<Rightarrow> bool" where
  "vb_hit g target vbs i \<longleftrightarrow> get_vbucket_num_for_key (kv_next_key g i) vbs \<in> set target"

lemma create_key_skip:
  assumes "n < kg_end g" and "\<forall>i. c \<le> i \<and> i < c + int m \<longrightarrow> \<not> vb_hit g target vbs i"
  shows "create_key_for_vbucket g target vbs c n keys = create_key_for_vbucket g target vbs (c + int m) n keys"
  using assms(2)
proof (induction m arbitrary: c)
  case (Suc m)
  have "create_key_for_vbucket g target vbs c n keys = create_key_for_vbucket g target vbs (c + 1) n keys"
    using Suc.prems assms(1) by (subst create_key_for_vbucket.simps) (simp add: vb_hit_def)
  also have "\<dots> = create_key_for_vbucket g target vbs (c + 1 + int m) n keys"
    by (rule Suc.IH) (use Suc.prems in auto)
  finally show ?case by (simp add: add.assoc)
qed simp

text \<open>The keys made so far: the \<open>j\<close>-th is the key of the \<open>j\<close>-th of an increasing list of indices
  from \<^verbatim>\<open>start\<close> on that hash into the wanted vbuckets.\<close>

definition keys_for :: "'a kvgen_scheme \<Rightarrow> int list \<Rightarrow> int \<Rightarrow> int \<Rightarrow> int list \<Rightarrow> (int, string) dict \<Rightarrow> bool" where
  "keys_for g target vbs counter is keys \<longleftrightarrow>
     sorted_wrt (<) is \<and> (\<forall>i\<in>set is. kg_start g \<le> i \<and> i < counter \<and> vb_hit g target vbs i) \<and>
     (\<forall>j. map_of keys j = (if kg_start g \<le> j \<and> j < kg_start g + int (length is)
        then Some (kv_next_key g (is ! nat (j - kg_start g))) else None))"

lemma keys_for_snoc:
  assumes "keys_for g target vbs c is keys" and "c \<le> m" and "kg_start g \<le> m" and "vb_hit g target vbs m"
  shows "keys_for g target vbs (m + 1) (is @ [m])
     (AList.update (kg_start g + int (length is)) (kv_next_key g m) keys)"
proof -
  have s: "sorted_wrt (<) (is @ [m])" using assms(1,2) by (auto simp: keys_for_def sorted_wrt_append)
  moreover have "\<forall>i\<in>set (is @ [m]). kg_start g \<le> i \<and> i < m + 1 \<and> vb_hit g target vbs i"
    using assms by (auto simp: keys_for_def)
  moreover have "map_of (AList.update (kg_start g + int (length is)) (kv_next_key g m) keys) j =
      (if kg_start g \<le> j \<and> j < kg_start g + int (length (is @ [m]))
       then Some (kv_next_key g ((is @ [m]) ! nat (j - kg_start g))) else None)" for j
  proof (cases "j = kg_start g + int (length is)")
    case False
    then show ?thesis using assms(1) by (auto simp: keys_for_def nth_append nat_less_iff)
  qed simp
  ultimately show ?thesis by (simp add: keys_for_def)
qed

lemma create_key_total:
  assumes inf: "\<And>c. \<exists>m\<ge>c. vb_hit g target vbs m"
  shows "keys_for g target vbs c is keys \<Longrightarrow> kg_start g \<le> c \<Longrightarrow> k = nat (kg_end g - int (length is)) \<Longrightarrow>
    \<exists>c' is' keys'. create_key_for_vbucket g target vbs c (int (length is)) keys = Some (c', int (length is'), keys') \<and>
      keys_for g target vbs c' is' keys' \<and> int (length is') = max (int (length is)) (kg_end g)"
proof (induction k arbitrary: c "is" keys)
  case 0
  then have "create_key_for_vbucket g target vbs c (int (length is)) keys = Some (c, int (length is), keys)"
    by (subst create_key_for_vbucket.simps) simp
  with 0 show ?case by auto
next
  case (Suc k)
  have lt: "int (length is) < kg_end g" using Suc.prems(3) by linarith
  obtain m0 where "c \<le> m0 \<and> vb_hit g target vbs m0" using inf by blast
  then have "\<exists>d. vb_hit g target vbs (c + int d)" by (metis zle_iff_zadd)
  define d where "d = (LEAST d. vb_hit g target vbs (c + int d))"
  have hit: "vb_hit g target vbs (c + int d)"
    unfolding d_def by (rule LeastI_ex) fact
  have miss: "\<not> vb_hit g target vbs i" if "c \<le> i \<and> i < c + int d" for i
  proof -
    have "nat (i - c) < d" using that by linarith
    then have "\<not> vb_hit g target vbs (c + int (nat (i - c)))" unfolding d_def by (rule not_less_Least)
    then show ?thesis using that by simp
  qed
  let ?m = "c + int d"
  have "create_key_for_vbucket g target vbs c (int (length is)) keys =
      create_key_for_vbucket g target vbs ?m (int (length is)) keys"
    by (rule create_key_skip [OF lt]) (use miss in blast)
  also have "\<dots> = create_key_for_vbucket g target vbs (?m + 1) (int (length (is @ [?m])))
      (AList.update (kg_start g + int (length is)) (kv_next_key g ?m) keys)"
    using lt hit by (subst create_key_for_vbucket.simps) (simp add: vb_hit_def add.commute)
  finally have step: "create_key_for_vbucket g target vbs c (int (length is)) keys = \<dots>" .
  have kf: "keys_for g target vbs (?m + 1) (is @ [?m])
      (AList.update (kg_start g + int (length is)) (kv_next_key g ?m) keys)"
    using Suc.prems hit by (intro keys_for_snoc) auto
  have "k = nat (kg_end g - int (length (is @ [?m])))" using Suc.prems(3) by simp
  from Suc.IH [OF kf _ this] Suc.prems(2) show ?case unfolding step using lt by auto
qed


text \<open>C22. Keys for given vbuckets: if indices whose key hashes into the wanted vbuckets never run out,
  \<^verbatim>\<open>create_key_for_vbucket\<close> returns; every position from \<^verbatim>\<open>start\<close> to the new end then has a key, every
  key is in one of the wanted vbuckets and no key is used twice. The number of keys is the
  \<^verbatim>\<open>end\<close> the caller asked for, not \<^verbatim>\<open>end - start\<close>.\<close>

theorem vbucket_keys_hit_target:
  assumes inf: "\<forall>c. \<exists>m\<ge>c. vb_hit g target vbs m" and start: "0 \<le> kg_start g"
  shows "\<exists>vk g'. keys_for_vbuckets g target vbs = Some (vk, g') \<and> kvgen_len g' = max 0 (kg_end g) \<and>
     (\<forall>j. kg_start g \<le> j \<and> j < kg_end g' \<longrightarrow> (\<exists>k. map_of (vk_doc_keys vk) j = Some k \<and>
        get_vbucket_num_for_key k vbs \<in> set target)) \<and>
     (\<forall>i j k. map_of (vk_doc_keys vk) i = Some k \<and> map_of (vk_doc_keys vk) j = Some k \<longrightarrow> i = j)"
proof -
  have init: "keys_for g target vbs (kg_start g) [] []" by (simp add: keys_for_def)
  obtain c "is" keys where r: "create_key_for_vbucket g target vbs (kg_start g) 0 [] = Some (c, int (length is), keys)"
    and kf: "keys_for g target vbs c is keys" and len: "int (length is) = max 0 (kg_end g)"
    using create_key_total [of g target vbs "kg_start g" "[]" "[]"] inf init by auto
  let ?vk = "\<lparr>vk_doc_keys = keys, vk_doc_keys_len = int (length is), vk_key_counter = c\<rparr>"
  let ?g = "g\<lparr>kg_end := kg_start g + int (length is)\<rparr>"
  have m: "map_of keys j = (if kg_start g \<le> j \<and> j < kg_start g + int (length is)
      then Some (kv_next_key g (is ! nat (j - kg_start g))) else None)" for j
    using kf by (simp add: keys_for_def)
  have mem: "is ! nat (j - kg_start g) \<in> set is" if "kg_start g \<le> j \<and> j < kg_start g + int (length is)" for j
    using that by (intro nth_mem) linarith
  have hit: "\<exists>k. map_of keys j = Some k \<and> get_vbucket_num_for_key k vbs \<in> set target"
    if "kg_start g \<le> j \<and> j < kg_start g + int (length is)" for j
    using mem [OF that] kf that by (auto simp: m keys_for_def vb_hit_def)
  have inj: "i = j" if ij: "map_of keys i = Some k" "map_of keys j = Some k" for i j k
  proof -
    have ri: "kg_start g \<le> i \<and> i < kg_start g + int (length is)" "kg_start g \<le> j \<and> j < kg_start g + int (length is)"
      using ij by (auto simp: m split: if_splits)
    have eq: "kv_next_key g (is ! nat (i - kg_start g)) = kv_next_key g (is ! nat (j - kg_start g))"
      using ij ri by (simp add: m)
    have "0 \<le> is ! nat (i - kg_start g)" "0 \<le> is ! nat (j - kg_start g)"
      using mem ri kf start by (auto simp: keys_for_def) (meson order_trans)+
    then have "is ! nat (i - kg_start g) = is ! nat (j - kg_start g)" using kv_next_key_eq [THEN iffD1, OF eq] by simp
    moreover have "distinct is" using kf by (auto simp: keys_for_def strict_sorted_iff)
    ultimately have "nat (i - kg_start g) = nat (j - kg_start g)"
      using ri by (simp add: nth_eq_iff_index_eq nat_less_iff)
    then show ?thesis using ri by linarith
  qed
  have "keys_for_vbuckets g target vbs = Some (?vk, ?g)" by (simp add: keys_for_vbuckets_def r)
  moreover have "kvgen_len ?g = max 0 (kg_end g)" by (simp add: kvgen_len_def len)
  ultimately show ?thesis using hit inj by fastforce
qed

theorem vbucket_keys_hit_target_witness:
  "\<exists>vk g'. keys_for_vbuckets ((kvgen_init ''k'')\<lparr>kg_end := 5\<rparr>) [0] 1 = Some (vk, g') \<and> kvgen_len g' = 5"
proof -
  have "\<forall>c. \<exists>m\<ge>c. vb_hit ((kvgen_init ''k'')\<lparr>kg_end := 5\<rparr>) [0] 1 m"
    by (auto simp: vb_hit_def get_vbucket_num_for_key_def)
  from vbucket_keys_hit_target [OF this] show ?thesis by (auto simp: kvgen_init_def)
qed


section \<open>Values\<close>

lemma wrap_index_small: "i \<le> n \<Longrightarrow> wrap_index n i = Some i"
  by (subst wrap_index.simps) simp

lemma wrap_index_mod:
  assumes "0 < n"
  shows "1 \<le> i \<Longrightarrow> wrap_index n i = Some ((i - 1) mod n + 1)"
proof (induction "nat i" arbitrary: i rule: less_induct)
  case less
  show ?case
  proof (cases "n < i")
    case True
    have "wrap_index n i = wrap_index n (i - n)" using True by (subst wrap_index.simps) simp
    also have "\<dots> = Some ((i - n - 1) mod n + 1)" by (rule less.hyps) (use True assms in auto)
    also have "(i - n - 1) mod n = (i - 1) mod n"
      by (metis diff_right_commute minus_mod_self2)
    finally show ?thesis .
  next
    case False
    then have "(i - 1) mod n = i - 1" using less.prems by (intro mod_pos_pos_trivial) auto
    with False show ?thesis by (simp add: wrap_index_small)
  qed
qed

text \<open>\<^verbatim>\<open>JSONNonDocGenerator\<close> and \<^verbatim>\<open>Base64Generator\<close> cycle through their values: at a position that is
  not negative, with at least one value, \<^verbatim>\<open>next\<close> terminates and returns the key with the position
  and the value at (position - 1) modulo the number of values, and moves on by one.\<close>

theorem list_values_cycle:
  assumes "lg_values g \<noteq> []" and "0 \<le> kg_itr g" and "kg_itr g < kg_end g"
  shows "listgen_next dumps g = Some (Inr ((kg_name g @ int_str (kg_itr g),
     dumps (lg_values g ! nat ((kg_itr g - 1) mod int (length (lg_values g))))), g\<lparr>kg_itr := kg_itr g + 1\<rparr>))"
proof -
  let ?n = "int (length (lg_values g))"
  have n: "0 < ?n" using assms(1) by simp
  show ?thesis
  proof (cases "kg_itr g = 0")
    case True
    have w: "wrap_index ?n (kg_itr g) = Some 0" using True n by (simp add: wrap_index_small)
    have m: "(0 - 1) mod ?n = ?n - 1" using n zmod_minus1 by simp
    have p: "py_nth (lg_values g) (-1) = Inr (lg_values g ! nat (?n - 1))"
      using n by (simp add: py_nth_def Suc_le_eq)
    show ?thesis using assms(3) w m p True by (simp add: listgen_next_def)
  next
    case False
    let ?i = "(kg_itr g - 1) mod ?n"
    have w: "wrap_index ?n (kg_itr g) = Some (?i + 1)" using n False assms(2) by (intro wrap_index_mod) auto
    have "0 \<le> ?i" "?i < ?n" using n by simp_all
    then have "py_nth (lg_values g) ?i = Inr (lg_values g ! nat ?i)" by (simp add: py_nth_def)
    then show ?thesis using assms(3) w by (simp add: listgen_next_def)
  qed
qed

lemma four: "int_str 4 = ''4''"
  by code_simp

theorem list_values_cycle_witness:
  "listgen_next id (kvgen.extend ((kvgen_init ''k'')\<lparr>kg_end := 9, kg_itr := 4\<rparr>) \<lparr>lg_values = [''a'', ''b'', ''c'']\<rparr>)
   = Some (Inr ((''k4'', ''a''), kvgen.extend ((kvgen_init ''k'')\<lparr>kg_end := 9, kg_itr := 5\<rparr>) \<lparr>lg_values = [''a'', ''b'', ''c'']\<rparr>))"
  using list_values_cycle [of "kvgen.extend ((kvgen_init ''k'')\<lparr>kg_end := 9, kg_itr := 4\<rparr>) \<lparr>lg_values = [''a'', ''b'', ''c'']\<rparr>" id]
  by (simp add: kvgen.defs kvgen_init_def four)

lemma length_repeat_str: "length (repeat_str n s) = n * length s"
  by (induction n) simp_all

text \<open>A random body has the requested size: for any start the generator can draw within a
  non-empty random string, the body of \<^verbatim>\<open>doc_size\<close> characters is cut out of enough repetitions of it.\<close>

theorem random_body_size:
  assumes "rs \<noteq> []" and "0 \<le> doc_size"
    and "0 \<le> rg_slice r seed n (int (length rs))" and "rg_slice r seed n (int (length rs)) < int (length rs)"
  shows "int (length (random_body r seed n rs doc_size)) = doc_size"
proof -
  let ?L = "int (length rs)" and ?s = "rg_slice r seed n (int (length rs))"
  let ?t = "repeat_str (nat (doc_size div ?L + 2)) rs"
  have L: "0 < ?L" using assms(1) by simp
  have q: "0 \<le> doc_size div ?L" using assms(2) L by (simp add: pos_imp_zdiv_nonneg_iff)
  have "doc_size mod ?L < ?L" using L by (rule pos_mod_bound)
  moreover have "doc_size = ?L * (doc_size div ?L) + doc_size mod ?L" by (rule mult_div_mod_eq [symmetric])
  moreover have "(doc_size div ?L + 2) * ?L = ?L * (doc_size div ?L) + 2 * ?L"
    by (metis distrib_right mult.commute)
  ultimately have "?s + doc_size < (doc_size div ?L + 2) * ?L" using assms(4) by linarith
  moreover have "int (nat (doc_size div ?L + 2)) = doc_size div ?L + 2" using q by linarith
  then have "int (length ?t) = (doc_size div ?L + 2) * ?L" by (simp only: length_repeat_str of_nat_mult)
  ultimately have "nat ?s \<le> length ?t" "nat (doc_size + ?s) \<le> length ?t" using assms(2,3) by linarith+
  then show ?thesis using assms(2,3)
    by (simp add: random_body_def Let_def int_slice_def slice_ix_def nat_add_distrib)
qed

theorem random_body_size_witness:
  "int (length (random_body const_rng ''s'' 0 ''abc'' 10)) = 10"
  using random_body_size [of "''abc''" 10 const_rng "''s''" 0] by (simp add: const_rng_def)


section \<open>Employee documents\<close>

lemma fold_update_lookup:
  "map_of (fold (\<lambda>c. AList.update (f c) (h c)) cs d) k =
     (if \<exists>c\<in>set cs. f c = k then Some (h (last (filter (\<lambda>c. f c = k) cs))) else map_of d k)"
  by (induction cs arbitrary: d) (auto simp: filter_empty_conv)

lemma create_docs_lookup:
  "s \<le> i \<Longrightarrow> i < e \<Longrightarrow>
     map_of (fold (\<lambda>c. AList.update (c - 1) (h c)) [s + 1 .. e] []) (i :: int) = Some (h (i + 1))"
proof -
  assume i: "s \<le> i" "i < e"
  have "filter (\<lambda>c. c - 1 = i) [s + 1 .. e] = [i + 1]"
  proof -
    have "[s + 1 .. e] = [s + 1 .. i] @ (i + 1) # [2 + i .. e]"
      using i by (simp add: upto_split3 [of "s + 1" "i + 1" e])
    moreover have "filter (\<lambda>c. c - 1 = i) [s + 1 .. i] = []" "filter (\<lambda>c. c - 1 = i) [2 + i .. e] = []"
      by (auto simp: filter_empty_conv)
    ultimately show ?thesis by simp
  qed
  moreover have "\<exists>c\<in>set [s + 1 .. e]. c - 1 = i" using i by (intro bexI [of _ "i + 1"]) auto
  ultimately show ?thesis by (simp only: fold_update_lookup) simp
qed

text \<open>The employee generator: after construction for creation, \<^verbatim>\<open>next\<close> at any position from \<^verbatim>\<open>start\<close>
  to \<^verbatim>\<open>end - 1\<close> returns the document made for that position, and the number at the end of its key is
  the document's \<^verbatim>\<open>emp_id\<close>.\<close>

theorem employee_key_matches_id:
  assumes "g = empgen_init d draws name ''create'' args (Some s) (Some e)" and "s \<le> i" "i < e"
  shows "\<exists>doc g'. empgen_next dumps (g\<lparr>kg_itr := i\<rparr>) = Inr ((name @ int_str (10000000 + (i + 1)), dumps doc), g') \<and>
     kg_itr g' = i + 1 \<and> doc = create_doc d (draws (i + 1)) (i + 1) \<and>
     map_of doc ''emp_id'' = Some (EStr (int_str (10000000 + (i + 1))))"
proof -
  have docs: "map_of (eg_docs g) i = Some (create_doc d (draws (i + 1)) (i + 1))"
    using create_docs_lookup [OF assms(2,3), of "\<lambda>c. create_doc d (draws c) c"]
    by (simp add: assms(1) empgen_init_def opt_def Let_def kvgen.defs)
  have "kg_end g = e" "kg_name g = name"
    by (simp_all add: assms(1) empgen_init_def opt_def Let_def kvgen.defs kvgen_init_def)
  then have "empgen_next dumps (g\<lparr>kg_itr := i\<rparr>) = Inr ((name @ int_str (10000000 + (i + 1)),
      dumps (create_doc d (draws (i + 1)) (i + 1))), g\<lparr>kg_itr := i + 1\<rparr>)"
    using docs assms(3) by (simp add: empgen_next_def dict_lookup_def)
  moreover have "map_of (create_doc d (draws (i + 1)) (i + 1)) ''emp_id'' = Some (EStr (int_str (10000000 + (i + 1))))"
    by (simp add: create_doc_def Let_def)
  ultimately show ?thesis by (intro exI conjI) (assumption | simp)+
qed

definition two_names :: emp_data where
  "two_names = \<lparr>FIRST_NAMES = [''A'', ''B''], LAST_NAMES = [''C'', ''D''], DEPT = [''E''], LANGUAGES = [''F'']\<rparr>"

definition a_draw :: emp_draws where
  "a_draw = \<lparr>ed_name = (1, 1), ed_dept = 0, ed_salary = 5000000, ed_date = (1984, 5, 22, 7, 28), ed_langs = [0, 0, 0],
     ed_manager = False, ed_team = 5, ed_reports = (\<lambda>_. (1, 1)), ed_email = 0\<rparr>"

theorem employee_key_matches_id_witness:
  "\<exists>doc g'. empgen_next id ((empgen_init two_names (\<lambda>_. a_draw) ''emp'' ''create'' ([] :: int list list) (Some 0) (Some 2))\<lparr>kg_itr := 1\<rparr>)
     = Inr ((''emp'' @ int_str 10000002, doc), g') \<and> map_of doc ''emp_id'' = Some (EStr (int_str 10000002))"
  using employee_key_matches_id [OF refl, of 0 1 2 id two_names "\<lambda>_. a_draw" "''emp''" "[] :: int list list"] by auto

end
