(* ===== verification/Test_Input.thy ===== *)
theory Test_Input
  imports Py_Prelude
begin

text \<open>
  The test input (\<^verbatim>\<open>TestInput.py\<close>): parameters with their conversion, the parser of the \<^verbatim>\<open>-p\<close> option, the
  server, cluster and client sections of an ini file, and the command line.

  \<^item> The ini file comes parsed, as the list of its sections with their options
    (\<^verbatim>\<open>ConfigParser\<close>); \<^verbatim>\<open>os.path.expanduser\<close> and \<^verbatim>\<open>float\<close> are arguments of the functions that
    use them (\<open>float_of\<close> is \<open>None\<close> where \<^verbatim>\<open>float\<close> raises \<^verbatim>\<open>ValueError\<close>).
  \<^item> \<^verbatim>\<open>getopt\<close> for short options and \<^verbatim>\<open>re.split\<close> for the one pattern used are defined here.
\<close>

section \<open>Parameters\<close>

datatype pval = PStr string | PList "string list" | PInt int

datatype 'f param_val = VInt int | VFloat 'f | VBool bool | VStr string | VDefault pval

definition parse_param :: "(string \<Rightarrow> 'f option) \<Rightarrow> pval \<Rightarrow> 'f param_val res" where
  "parse_param float_of val =
     (case val of
        PInt i \<Rightarrow> Inr (VInt i)
      | PList _ \<Rightarrow> Inl TypeError
      | PStr s \<Rightarrow>
          (case py_int 10 s of
             Inr i \<Rightarrow> Inr (VInt i)
           | Inl _ \<Rightarrow>
               (case float_of s of
                  Some f \<Rightarrow> Inr (VFloat f)
                | None \<Rightarrow>
                    (if py_lower s = ''false'' then Inr (VBool False)
                     else if py_lower s = ''true'' then Inr (VBool True)
                     else Inr (VStr s)))))"

definition get_param :: "(string \<Rightarrow> 'f option) \<Rightarrow> (string, pval) dict \<Rightarrow> string \<Rightarrow> pval option \<Rightarrow> 'f param_val res" where
  "get_param float_of test_params name dflt =
     (case map_of test_params name of
        Some v \<Rightarrow> parse_param float_of v
      | None \<Rightarrow>
          (case dflt of
             Some d \<Rightarrow> Inr (VDefault d)
           | None \<Rightarrow> Inl (Raised ''Parameter must be set in the test configuration'')))"

section \<open>The -p option\<close>

text \<open>\<^verbatim>\<open>[,]?([^,=]+)=\<close> at the start of a string: the group and what follows the match.\<close>

definition name_char :: "char \<Rightarrow> bool" where
  "name_char c \<longleftrightarrow> c \<noteq> comma \<and> c \<noteq> equals_sign"

definition match_at :: "string \<Rightarrow> (string \<times> string) option" where
  "match_at s =
     (let body = (case s of [] \<Rightarrow> [] | c # cs \<Rightarrow> if c = comma then cs else s);
          name = takeWhile name_char body
      in case dropWhile name_char body of
           [] \<Rightarrow> None
         | c # rest \<Rightarrow> if name \<noteq> [] \<and> c = equals_sign then Some (name, rest) else None)"

lemma match_at_shorter: "match_at s = Some (name, rest) \<Longrightarrow> length rest < length s"
  using length_dropWhile_le [of name_char s] length_dropWhile_le [of name_char "tl s"]
  by (auto simp: match_at_def Let_def split: list.splits if_splits) 

text \<open>\<^verbatim>\<open>re.split\<close> with that pattern: the text before the first match, then group and following text for
  each match.\<close>

function kv_split :: "string \<Rightarrow> string \<Rightarrow> string list" where
  "kv_split acc [] = [acc]"
| "kv_split acc (c # s) =
     (case match_at (c # s) of
        Some (name, rest) \<Rightarrow> acc # name # kv_split [] rest
      | None \<Rightarrow> kv_split (acc @ [c]) s)"
  by pat_completeness auto
termination
  by (relation "measure (\<lambda>(_, s). length s)") (auto dest!: match_at_shorter)

text \<open>\<^verbatim>\<open>dict(zip(xs[::2], xs[1::2]))\<close>.\<close>

fun pair_up :: "string list \<Rightarrow> (string \<times> string) list" where
  "pair_up (k # v # xs) = (k, v) # pair_up xs"
| "pair_up _ = []"

definition param_value :: "string \<Rightarrow> pval" where
  "param_value v =
     (let argument_list = map py_strip (py_split comma v) in
      if 1 < length argument_list then PList argument_list else PStr (hd argument_list))"

definition parse_p_option :: "string \<Rightarrow> (string, pval) dict \<Rightarrow> (string, pval) dict" where
  "parse_p_option argument params =
     (let argument_split = map py_strip (tl (kv_split [] argument));
          pairs = dict_update_all [] (pair_up argument_split)
      in fold (\<lambda>(k, v). AList.update k (param_value v)) pairs params)"

section \<open>Servers\<close>

record server =
  sv_ip :: string
  sv_ssh_username :: string
  sv_ssh_password :: string
  sv_ssh_key :: string
  sv_rest_username :: string
  sv_rest_password :: string
  sv_services :: string
  sv_port :: pval
  sv_memcached_port :: pval
  sv_cli_path :: string
  sv_data_path :: string
  sv_index_path :: string
  sv_cbas_path :: string
  sv_eventing_path :: string
  sv_n1ql_port :: string
  sv_index_port :: string
  sv_fts_port :: string
  sv_es_username :: string
  sv_es_password :: string

definition new_server :: server where
  "new_server = \<lparr>sv_ip = [], sv_ssh_username = [], sv_ssh_password = [], sv_ssh_key = [], sv_rest_username = [],
     sv_rest_password = [], sv_services = [], sv_port = PStr [], sv_memcached_port = PInt 11210, sv_cli_path = [],
     sv_data_path = [], sv_index_path = [], sv_cbas_path = [], sv_eventing_path = [], sv_n1ql_port = [],
     sv_index_port = [], sv_fts_port = [], sv_es_username = [], sv_es_password = []\<rparr>"

text \<open>\<^verbatim>\<open>str.format\<close> of a port, which is a string or a number.\<close>

fun pval_str :: "pval \<Rightarrow> string" where
  "pval_str (PStr s) = s"
| "pval_str (PInt i) = int_str i"
| "pval_str (PList xs) = ''['' @ py_join '', '' (map (\<lambda>x. [CHR 0x27] @ x @ [CHR 0x27]) xs) @ '']''"

definition server_str :: "server \<Rightarrow> string" where
  "server_str s = ''ip:'' @ sv_ip s @ '' port:'' @ pval_str (sv_port s) @ '' ssh_username:'' @ sv_ssh_username s"

type_synonym config = "(string \<times> (string \<times> string) list) list"

definition config_options :: "config \<Rightarrow> string \<Rightarrow> (string \<times> string) list" where
  "config_options config section_name = (case map_of config section_name of None \<Rightarrow> [] | Some os \<Rightarrow> os)"

definition set_server_option :: "string \<times> string \<Rightarrow> server \<Rightarrow> server" where
  "set_server_option ov s = (case ov of (opn, v) \<Rightarrow>
     if opn = ''username'' then s\<lparr>sv_ssh_username := v\<rparr>
     else if opn = ''password'' then s\<lparr>sv_ssh_password := v\<rparr>
     else if opn = ''cli'' then s\<lparr>sv_cli_path := v\<rparr>
     else if opn = ''ssh_key'' then s\<lparr>sv_ssh_key := v\<rparr>
     else if opn = ''port'' then s\<lparr>sv_port := PStr v\<rparr>
     else if opn = ''ip'' then s\<lparr>sv_ip := v\<rparr>
     else if opn = ''services'' then s\<lparr>sv_services := v\<rparr>
     else if opn = ''memcached_port'' then s\<lparr>sv_memcached_port := PStr v\<rparr>
     else if opn = ''n1ql_port'' then s\<lparr>sv_n1ql_port := v\<rparr>
     else if opn = ''index_port'' then s\<lparr>sv_index_port := v\<rparr>
     else if opn = ''fts_port'' then s\<lparr>sv_fts_port := v\<rparr>
     else s)"

definition get_server :: "string \<Rightarrow> config \<Rightarrow> server" where
  "get_server ip config = fold set_server_option (config_options config ip) (new_server\<lparr>sv_ip := ip\<rparr>)"

definition get_server_ips :: "config \<Rightarrow> string \<Rightarrow> string list" where
  "get_server_ips config section_name = map snd (config_options config section_name)"

definition get_capella_config :: "config \<Rightarrow> string \<Rightarrow> (string, string) dict" where
  "get_capella_config config section_name = dict_update_all [] (config_options config section_name)"

record membase_setting =
  ms_rest_username :: string
  ms_rest_password :: string

definition get_membase_settings :: "config \<Rightarrow> string \<Rightarrow> membase_setting" where
  "get_membase_settings config section_name =
     fold (\<lambda>(opn, v) m.
       if opn = ''rest_username'' then m\<lparr>ms_rest_username := v\<rparr>
       else if opn = ''rest_password'' then m\<lparr>ms_rest_password := v\<rparr> else m)
       (config_options config section_name) \<lparr>ms_rest_username = [], ms_rest_password = []\<rparr>"

text \<open>\<^verbatim>\<open>get_membase_build\<close> reads no option of its section; \<^verbatim>\<open>handle_command_line_u_or_v\<close> looks the
  version up among the builds \<^verbatim>\<open>BuildQuery\<close> lists (an argument here).\<close>

record input_build =
  ib_version :: string
  ib_url :: string

definition get_membase_build :: "config \<Rightarrow> string \<Rightarrow> input_build" where
  "get_membase_build config section_name = \<lparr>ib_version = [], ib_url = []\<rparr>"

definition handle_command_line_u_or_v :: "input_build list \<Rightarrow> string \<Rightarrow> string \<Rightarrow> input_build" where
  "handle_command_line_u_or_v all_builds opn argument =
     (let none = \<lparr>ib_version = [], ib_url = []\<rparr> in
      if opn = ''-v'' then
        (case filter (\<lambda>b. ib_version b = argument) all_builds of
           [] \<Rightarrow> none
         | b # _ \<Rightarrow> none\<lparr>ib_url := ib_url b, ib_version := argument\<rparr>)
      else none)"

definition get_elastic_config :: "config \<Rightarrow> string \<Rightarrow> server" where
  "get_elastic_config config section_name =
     fold (\<lambda>(opn, v) s.
       if opn = ''ip'' then s\<lparr>sv_ip := v\<rparr> else if opn = ''port'' then s\<lparr>sv_port := PStr v\<rparr>
       else if opn = ''es_username'' then s\<lparr>sv_es_username := v\<rparr>
       else if opn = ''es_password'' then s\<lparr>sv_es_password := v\<rparr> else s)
       (config_options config section_name) new_server"

text \<open>The values of a conf dict: strings, and a server under \<^verbatim>\<open>server\<close> or \<^verbatim>\<open>client\<close>.\<close>

datatype conf_val = CStr string | CServer server

definition get_ui_tests_config :: "config \<Rightarrow> string \<Rightarrow> (string, conf_val) dict" where
  "get_ui_tests_config config section_name =
     (let (conf, srv) = fold (\<lambda>(opn, v) (conf, s).
        if opn = ''selenium_ip'' then (conf, s\<lparr>sv_ip := v\<rparr>)
        else if opn = ''selenium_port'' then (conf, s\<lparr>sv_port := PStr v\<rparr>)
        else if opn = ''selenium_user'' then (conf, s\<lparr>sv_ssh_username := v\<rparr>)
        else if opn = ''selenium_password'' then (conf, s\<lparr>sv_ssh_password := v\<rparr>)
        else (AList.update opn (CStr v) conf, s))
        (config_options config section_name) ([], new_server)
      in AList.update ''server'' (CServer srv) conf)"

definition get_tuq_config :: "config \<Rightarrow> string \<Rightarrow> (string, conf_val) dict" where
  "get_tuq_config config section_name =
     fold (\<lambda>(opn, v) conf.
       AList.update opn (CStr v)
         (if opn = ''ip'' then AList.update ''client'' (CServer (get_server v config)) conf else conf))
       (config_options config section_name) []"

definition fill :: "string \<Rightarrow> (string, string) dict \<Rightarrow> string \<Rightarrow> string" where
  "fill cur props name = (if cur = [] then dict_get props name cur else cur)"

text \<open>\<^verbatim>\<open>membase_settings\<close> is \<^verbatim>\<open>None\<close> when the file has no such section; its attributes are read only for
  a server without its own REST credentials.\<close>

definition server_option ::
  "(string \<Rightarrow> string) \<Rightarrow> membase_setting option \<Rightarrow> (string, string) dict \<Rightarrow> server \<Rightarrow> server res" where
  "server_option expanduser membase props s =
     (let s1 = s\<lparr>sv_ssh_username := fill (sv_ssh_username s) props ''username'',
                sv_ssh_password := fill (sv_ssh_password s) props ''password'',
                sv_ssh_key := (if sv_ssh_key s = [] \<and> dict_has props ''ssh_key''
                  then expanduser (dict_get props ''ssh_key'' []) else sv_ssh_key s),
                sv_port := (if sv_port s = PStr [] \<and> dict_has props ''port''
                  then PStr (dict_get props ''port'' []) else sv_port s),
                sv_cli_path := fill (sv_cli_path s) props ''cli''\<rparr> in
      if (sv_rest_username s = [] \<or> sv_rest_password s = []) \<and> membase = None then Inl AttributeError
      else
        let m = (case membase of None \<Rightarrow> \<lparr>ms_rest_username = [], ms_rest_password = []\<rparr> | Some m \<Rightarrow> m) in
        Inr (s1\<lparr>sv_rest_username := (if sv_rest_username s = [] then ms_rest_username m else sv_rest_username s),
          sv_rest_password := (if sv_rest_password s = [] then ms_rest_password m else sv_rest_password s),
          sv_data_path := fill (sv_data_path s) props ''data_path'',
          sv_index_path := fill (sv_index_path s) props ''index_path'',
          sv_cbas_path := fill (sv_cbas_path s) props ''cbas_path'',
          sv_eventing_path := fill (sv_eventing_path s) props ''eventing_path'',
          sv_services := fill (sv_services s) props ''services'',
          sv_n1ql_port := fill (sv_n1ql_port s) props ''n1ql_port'',
          sv_index_port := fill (sv_index_port s) props ''index_port'',
          sv_es_username := fill (sv_es_username s) props ''es_username'',
          sv_es_password := fill (sv_es_password s) props ''es_password''\<rparr>))"

definition get_server_options ::
  "(string \<Rightarrow> string) \<Rightarrow> server list \<Rightarrow> membase_setting option \<Rightarrow> (string, string) dict \<Rightarrow> server list res" where
  "get_server_options expanduser servers membase props = rmap (server_option expanduser membase props) servers"

section \<open>The ini file\<close>

record test_input =
  ti_servers :: "server list"
  ti_clusters :: "(nat, server list) dict"
  ti_membase :: "membase_setting option"
  ti_test_params :: "(string, pval) dict"
  ti_tuq_client :: "(string, conf_val) dict"
  ti_elastic :: "server option"
  ti_capella :: "(string, string) dict"
  ti_clients :: "string list option" \<comment> \<open>\<open>None\<close>: no such attribute\<close>
  ti_dashboard :: "string list"
  ti_ui_conf :: "(string, conf_val) dict"

definition new_test_input :: test_input where
  "new_test_input = \<lparr>ti_servers = [], ti_clusters = [], ti_membase = None, ti_test_params = [],
     ti_tuq_client = [], ti_elastic = None, ti_capella = [], ti_clients = None, ti_dashboard = [],
     ti_ui_conf = []\<rparr>"

record ini_scan =
  is_input :: test_input
  is_ips :: "string list"
  is_client_ips :: "string list"
  is_global :: "(string, string) dict"
  is_cluster_ips :: "string list"
  is_clusters :: "nat list" \<comment> \<open>sizes of the clusters, by number\<close>

definition scan_section :: "config \<Rightarrow> ini_scan \<Rightarrow> string \<Rightarrow> ini_scan" where
  "scan_section config sc section_name =
     (if section_name = ''capella'' then
        sc\<lparr>is_input := (is_input sc)\<lparr>ti_capella := get_capella_config config section_name\<rparr>\<rparr>
      else if section_name = ''servers'' then sc\<lparr>is_ips := get_server_ips config section_name\<rparr>
      else if section_name = ''clients'' then sc\<lparr>is_client_ips := get_server_ips config section_name\<rparr>
      else if section_name = ''membase'' then
        sc\<lparr>is_input := (is_input sc)\<lparr>ti_membase := Some (get_membase_settings config section_name)\<rparr>\<rparr>
      else if section_name = ''global'' then
        sc\<lparr>is_global := dict_update_all (is_global sc) (config_options config section_name)\<rparr>
      else if section_name = ''dashboard'' then
        sc\<lparr>is_input := (is_input sc)\<lparr>ti_dashboard := get_server_ips config section_name\<rparr>\<rparr>
      else if section_name = ''uiconf'' then
        sc\<lparr>is_input := (is_input sc)\<lparr>ti_ui_conf := get_ui_tests_config config section_name\<rparr>\<rparr>
      else if section_name = ''tuq_client'' then
        sc\<lparr>is_input := (is_input sc)\<lparr>ti_tuq_client := get_tuq_config config section_name\<rparr>\<rparr>
      else if section_name = ''elastic'' then
        sc\<lparr>is_input := (is_input sc)\<lparr>ti_elastic := Some (get_elastic_config config section_name)\<rparr>\<rparr>
      else if startswith section_name ''cluster'' then
        (let cluster_list = get_server_ips config section_name in
         sc\<lparr>is_cluster_ips := is_cluster_ips sc @ cluster_list,
            is_clusters := is_clusters sc @ [length cluster_list]\<rparr>)
      else sc)"

definition scan_sections :: "config \<Rightarrow> ini_scan" where
  "scan_sections config = foldl (scan_section config)
     \<lparr>is_input = new_test_input, is_ips = [], is_client_ips = [], is_global = [], is_cluster_ips = [],
      is_clusters = []\<rparr> (map fst config)"

text \<open>\<^verbatim>\<open>for key, value in clusters.items(): end += value; clusters[key] = servers[start:end]; start += value\<close>,
  in the order of the numbers.\<close>

fun split_clusters :: "server list \<Rightarrow> nat \<Rightarrow> nat \<Rightarrow> nat list \<Rightarrow> (nat, server list) dict" where
  "split_clusters servers key start [] = []"
| "split_clusters servers key start (v # vs) =
     (key, py_slice start (start + v) servers) # split_clusters servers (Suc key) (start + v) vs"

text \<open>A \<^verbatim>\<open>client\<close> entry that is a string (an option of that name) has no server attributes.\<close>

definition tuq_client_options ::
  "(string \<Rightarrow> string) \<Rightarrow> membase_setting option \<Rightarrow> (string, string) dict \<Rightarrow> (string, conf_val) dict \<Rightarrow>
    (string, conf_val) dict res" where
  "tuq_client_options expanduser membase props conf =
     (case map_of conf ''client'' of
        None \<Rightarrow> Inr conf
      | Some (CStr v) \<Rightarrow> (if v = [] then Inr conf else Inl AttributeError)
      | Some (CServer client) \<Rightarrow>
          rbind (server_option expanduser membase props client) (\<lambda>s. Inr (AList.update ''client'' (CServer s) conf)))"

definition parse_from_file :: "(string \<Rightarrow> string) \<Rightarrow> config \<Rightarrow> test_input res" where
  "parse_from_file expanduser config =
     (let sc = scan_sections config; t = is_input sc; ms = ti_membase t; props = is_global sc in
      rbind (get_server_options expanduser (map (\<lambda>ip. get_server ip config) (is_cluster_ips sc)) ms props) (\<lambda>cl.
      rbind (tuq_client_options expanduser ms props (ti_tuq_client t)) (\<lambda>tuq.
      rbind (get_server_options expanduser (map (\<lambda>ip. get_server ip config) (is_ips sc)) ms props) (\<lambda>servers.
      Inr (t\<lparr>ti_clusters := split_clusters cl 0 0 (is_clusters sc), ti_tuq_client := tuq,
             ti_servers := servers, ti_clients := Some (is_client_ips sc)\<rparr>)))))"

section \<open>The command line\<close>

text \<open>\<^verbatim>\<open>getopt.getopt\<close> for short options: the specification lists the letters and whether each takes an
  argument; the options stop at the first word that is no option.\<close>

fun short_spec :: "string \<Rightarrow> (char \<times> bool) list" where
  "short_spec [] = []"
| "short_spec [c] = (if c = CHR '':'' then [] else [(c, False)])"
| "short_spec (c # d # s) =
     (if c = CHR '':'' then short_spec (d # s)
      else if d = CHR '':'' then (c, True) # short_spec s else (c, False) # short_spec (d # s))"

fun do_shorts ::
  "(char \<times> bool) list \<Rightarrow> string \<Rightarrow> string list \<Rightarrow> ((string \<times> string) list \<times> string list) res" where
  "do_shorts spec [] args = Inr ([], args)"
| "do_shorts spec (c # optstring) args =
     (case map_of spec c of
        None \<Rightarrow> Inl (Raised ''GetoptError'')
      | Some False \<Rightarrow>
          rbind (do_shorts spec optstring args) (\<lambda>(opts, rest). Inr (([CHR ''-'', c], []) # opts, rest))
      | Some True \<Rightarrow>
          (if optstring \<noteq> [] then Inr ([([CHR ''-'', c], optstring)], args)
           else (case args of
                   [] \<Rightarrow> Inl (Raised ''GetoptError'')
                 | a # as \<Rightarrow> Inr ([([CHR ''-'', c], a)], as))))"

lemma do_shorts_shorter: "do_shorts spec s args = Inr (opts, rest) \<Longrightarrow> length rest \<le> length args"
  by (induction spec s args arbitrary: opts rest rule: do_shorts.induct)
     (auto simp: rbind_eq_Inr split: option.splits bool.splits if_splits list.splits)

function getopt :: "(char \<times> bool) list \<Rightarrow> string list \<Rightarrow> (string \<times> string) list res" where
  "getopt spec [] = Inr []"
| "getopt spec (w # args) =
     (if \<not> startswith w ''-'' \<or> w = ''-'' \<or> w = ''--'' then Inr []
      else if startswith w ''--'' then Inl (Raised ''GetoptError'')
      else (case do_shorts spec (tl w) args of
              Inl e \<Rightarrow> Inl e
            | Inr (opts, rest) \<Rightarrow> rbind (getopt spec rest) (\<lambda>more. Inr (opts @ more))))"
  by pat_completeness auto
termination
  by (relation "measure (\<lambda>(_, a). length a)") (auto dest!: do_shorts_shorter)

definition handle_command_line_s :: "string \<Rightarrow> server list res" where
  "handle_command_line_s argument =
     rfold (\<lambda>servers ip.
       if CHR '':'' \<notin> set ip then Inr servers
       else (case py_split CHR '':'' ip of
               a # b # c # d # e # _ \<Rightarrow>
                 Inr (servers @ [new_server\<lparr>sv_ip := a, sv_port := PStr b, sv_ssh_username := c,
                   sv_ssh_password := d, sv_cli_path := e\<rparr>])
             | _ \<Rightarrow> Inl IndexError)) [] (py_split comma argument)"

text \<open>The override loop and the defaults for servers of the \<^verbatim>\<open>-s\<close> option.\<close>

definition override_server :: "string \<times> string \<Rightarrow> server \<Rightarrow> server" where
  "override_server oa s = (case oa of (opn, a) \<Rightarrow>
     if opn = ''-k'' \<and> sv_ssh_key s = [] then s\<lparr>sv_ssh_key := a\<rparr>
     else if opn = ''--username'' \<and> sv_ssh_username s = [] then s\<lparr>sv_ssh_username := a\<rparr>
     else if opn = ''--password'' \<and> sv_ssh_password s = [] then s\<lparr>sv_ssh_password := a\<rparr>
     else if opn = ''-b'' \<and> sv_cli_path s = [] then s\<lparr>sv_cli_path := a\<rparr> else s)"

definition default_server :: "server \<Rightarrow> server" where
  "default_server s = s\<lparr>
     sv_ssh_username := (if sv_ssh_username s = [] then ''root'' else sv_ssh_username s),
     sv_ssh_password := (if sv_ssh_password s = [] then ''northscale!23'' else sv_ssh_password s),
     sv_port := (if sv_port s = PStr [] then PInt 8091 else sv_port s)\<rparr>"

text \<open>The letters this parser accepts are those of \<^verbatim>\<open>'h:t:c:i:p:'\<close>; \<^verbatim>\<open>None\<close> is returned for help.\<close>

definition parse_from_command_line :: "string list \<Rightarrow> test_input option res" where
  "parse_from_command_line argv =
     rbind (getopt (short_spec ''h:t:c:i:p:'') (tl argv)) (\<lambda>opts.
     if ''-h'' \<in> set (map fst opts) then Inr None
     else rbind (rfold (\<lambda>servers (opn, a). if opn = ''-s'' then handle_command_line_s a else Inr servers) [] opts)
       (\<lambda>servers.
         let servers' = map (\<lambda>s. default_server (fold override_server opts s)) servers in
         Inr (Some (new_test_input\<lparr>ti_servers := servers'\<rparr>))))"

text \<open>\<open>read_config\<close> is \<^verbatim>\<open>config.read\<close> of the named file. The \<^verbatim>\<open>-h\<close> option returns \<^verbatim>\<open>None\<close> at once. On a
  command line without an ini file the input has no attribute \<^verbatim>\<open>clients\<close>.\<close>

fun scan_opts ::
  "(string \<times> string) list \<Rightarrow> (string, pval) dict \<Rightarrow> string option \<Rightarrow> ((string, pval) dict \<times> string option) option" where
  "scan_opts [] params ini = Some (params, ini)"
| "scan_opts ((opn, argument) # opts) params ini =
     (if opn = ''-h'' then None
      else scan_opts opts (if opn = ''-p'' then parse_p_option argument params else params)
             (if opn = ''-i'' then Some argument else ini))"

definition add_counts :: "test_input \<Rightarrow> test_input res" where
  "add_counts t =
     (let ps = ti_test_params t in
      rbind (if dict_has ps ''num_clients'' then Inr ps
             else (case ti_clients t of
                     None \<Rightarrow> Inl AttributeError
                   | Some cs \<Rightarrow> Inr (if cs = [] then ps else AList.update ''num_clients'' (PInt (int (length cs))) ps))) (\<lambda>ps1.
      Inr (t\<lparr>ti_test_params := (if dict_has ps1 ''num_nodes'' \<or> ti_servers t = [] then ps1
                else AList.update ''num_nodes'' (PInt (int (length (ti_servers t)))) ps1)\<rparr>)))"

definition get_test_input ::
  "(string \<Rightarrow> string) \<Rightarrow> (string \<Rightarrow> config) \<Rightarrow> string list \<Rightarrow> test_input option res" where
  "get_test_input expanduser read_config argv =
     rbind (getopt (short_spec ''ht:c:v:s:i:p:l:m:d:e:r:g:'') (tl argv)) (\<lambda>opts.
     case scan_opts opts [] None of
       None \<Rightarrow> Inr None
     | Some (params, ini) \<Rightarrow>
         rbind (case ini of
                  Some f \<Rightarrow> rbind (parse_from_file expanduser (read_config f)) (\<lambda>t. Inr (Some t))
                | None \<Rightarrow> parse_from_command_line argv) (\<lambda>t_input.
         case t_input of
           None \<Rightarrow> Inl AttributeError
         | Some t \<Rightarrow> rbind (add_counts (t\<lparr>ti_test_params := params\<rparr>)) (\<lambda>t'. Inr (Some t'))))"

section \<open>The -p option is parsed back\<close>

lemma takeWhile_name: "set n \<subseteq> {c. name_char c} \<Longrightarrow> \<not> name_char x \<Longrightarrow> takeWhile name_char (n @ x # r) = n"
  by (induction n) auto

lemma dropWhile_name: "set n \<subseteq> {c. name_char c} \<Longrightarrow> \<not> name_char x \<Longrightarrow> dropWhile name_char (n @ x # r) = x # r"
  by (induction n) auto

lemma name_head: "set n \<subseteq> {c. name_char c} \<Longrightarrow> n \<noteq> [] \<Longrightarrow> \<exists>c cs. n = c # cs \<and> c \<noteq> comma"
  by (cases n) (auto simp: name_char_def)

lemma match_at_name:
  assumes "set n \<subseteq> {c. name_char c}" and "n \<noteq> []"
  shows "match_at (n @ equals_sign # r) = Some (n, r)" and "match_at (comma # n @ equals_sign # r) = Some (n, r)"
proof -
  have e: "\<not> name_char equals_sign" by (simp add: name_char_def)
  obtain c cs where n: "n = c # cs" "c \<noteq> comma" using name_head [OF assms] by blast
  show "match_at (n @ equals_sign # r) = Some (n, r)"
    using takeWhile_name [OF assms(1) e, of r] dropWhile_name [OF assms(1) e, of r] n
    by (simp add: match_at_def Let_def)
  show "match_at (comma # n @ equals_sign # r) = Some (n, r)"
    using takeWhile_name [OF assms(1) e, of r] dropWhile_name [OF assms(1) e, of r] assms(2)
    by (simp add: match_at_def Let_def)
qed

lemma dropWhile_no_equals:
  assumes "equals_sign \<notin> set v" and "r = [] \<or> hd r = comma"
  shows "dropWhile name_char (v @ r) = [] \<or> hd (dropWhile name_char (v @ r)) = comma"
  using assms
proof (induction v)
  case Nil
  then show ?case by (cases r) (auto simp: name_char_def)
qed (auto simp: name_char_def)

lemma match_at_value:
  assumes "equals_sign \<notin> set v" and "v \<noteq> []" and "r = [] \<or> hd r = comma"
  shows "match_at (v @ r) = None"
proof -
  have none: "match_at s = None"
    if "dropWhile name_char s = [] \<or> hd (dropWhile name_char s) = comma"
      "dropWhile name_char (tl s) = [] \<or> hd (dropWhile name_char (tl s)) = comma" for s
    by (cases s; cases "dropWhile name_char s"; cases "dropWhile name_char (tl s)")
       (use that in \<open>auto simp: match_at_def Let_def name_char_def simp del: dropWhile_eq_Nil_conv\<close>)
  have "tl (v @ r) = tl v @ r" "equals_sign \<notin> set (tl v)" using assms(1,2) by (auto dest: list.set_sel(2))
  then show ?thesis
    using none [of "v @ r"] dropWhile_no_equals [OF assms(1,3)] dropWhile_no_equals [of "tl v" r] assms(3) by simp
qed

lemma kv_split_value:
  assumes "equals_sign \<notin> set v" and "r = [] \<or> hd r = comma"
  shows "kv_split acc (v @ r) = kv_split (acc @ v) r"
  using assms
proof (induction v arbitrary: acc)
  case (Cons c v)
  have "match_at (c # v @ r) = None" using match_at_value [of "c # v" r] Cons.prems by simp
  with Cons show ?case by simp
qed simp

text \<open>What the user writes: comma-separated assignments, each with comma-separated values.\<close>

definition show_param :: "string \<times> string list \<Rightarrow> string" where
  "show_param p = fst p @ equals_sign # py_join [comma] (snd p)"

definition show_params :: "(string \<times> string list) list \<Rightarrow> string" where
  "show_params ps = py_join [comma] (map show_param ps)"

definition plain_text :: "string \<Rightarrow> bool" where
  "plain_text s \<longleftrightarrow> (\<forall>c\<in>set s. name_char c) \<and> py_strip s = s"

definition plain_param :: "string \<times> string list \<Rightarrow> bool" where
  "plain_param p \<longleftrightarrow> plain_text (fst p) \<and> fst p \<noteq> [] \<and> snd p \<noteq> [] \<and> (\<forall>v\<in>set (snd p). plain_text v) \<and>
     py_strip (py_join [comma] (snd p)) = py_join [comma] (snd p)"

lemma join_no_equals: "\<forall>v\<in>set vs. plain_text v \<Longrightarrow> equals_sign \<notin> set (py_join [comma] vs)"
  by (induction vs rule: induct_list012) (auto simp: plain_text_def name_char_def)

lemma kv_split_params:
  assumes "\<forall>p\<in>set ps. plain_param p" and "ps \<noteq> []"
  shows "kv_split acc (show_params ps) = acc # concat (map (\<lambda>p. [fst p, py_join [comma] (snd p)]) ps) \<and>
    kv_split acc (comma # show_params ps) = acc # concat (map (\<lambda>p. [fst p, py_join [comma] (snd p)]) ps)"
  using assms
proof (induction ps arbitrary: acc)
  case (Cons p ps)
  let ?n = "fst p" and ?v = "py_join [comma] (snd p)"
  have n: "set ?n \<subseteq> {c. name_char c}" "?n \<noteq> []" and v: "equals_sign \<notin> set ?v"
    using Cons.prems(1) by (auto simp: plain_param_def plain_text_def join_no_equals)
  let ?r = "if ps = [] then [] else comma # show_params ps"
  have s: "show_params (p # ps) = ?n @ equals_sign # ?v @ ?r"
    by (cases ps) (simp_all add: show_params_def show_param_def)
  have vr: "kv_split [] (?v @ ?r) = ?v # concat (map (\<lambda>p. [fst p, py_join [comma] (snd p)]) ps)"
    using kv_split_value [OF v, of ?r "[]"] Cons.IH [of ?v] Cons.prems(1) by auto
  obtain c cs where c: "?n @ equals_sign # ?v @ ?r = c # cs" using n(2) by (cases ?n) auto
  have "kv_split acc (c # cs) = acc # ?n # kv_split [] (?v @ ?r)"
    using match_at_name(1) [OF n, of "?v @ ?r"] unfolding c by simp
  moreover have "kv_split acc (comma # c # cs) = acc # ?n # kv_split [] (?v @ ?r)"
    using match_at_name(2) [OF n, of "?v @ ?r"] unfolding c by simp
  ultimately show ?case unfolding s c vr by simp
qed simp

lemma pair_up_concat: "pair_up (concat (map (\<lambda>p. [f p, g p]) ps)) = map (\<lambda>p. (f p, g p)) ps"
  by (induction ps) auto

lemma fold_param_values:
  "map_of (fold (\<lambda>(k, v). AList.update k (param_value v)) ps d) k =
     (case map_of (rev ps) k of None \<Rightarrow> map_of d k | Some v \<Rightarrow> Some (param_value v))"
  by (induction ps arbitrary: d) (auto split: option.splits simp: map_add_def)

text \<open>C27. The \<^verbatim>\<open>-p\<close> option: for parameters with distinct names and values that have no comma, equals
  sign or surrounding blanks, the written form \<^verbatim>\<open>p1=v1,v2,p2=v3\<close> is parsed back: a parameter with one
  value is that string, one with several is their list, and other parameters stay as they were.\<close>

theorem p_option_roundtrip:
  assumes "\<forall>p\<in>set ps. plain_param p" and "ps \<noteq> []" and "distinct (map fst ps)"
  shows "map_of (parse_p_option (show_params ps) params) k =
     (case map_of ps k of
        None \<Rightarrow> map_of params k
      | Some vs \<Rightarrow> Some (if 1 < length vs then PList vs else PStr (hd vs)))"
proof -
  let ?j = "\<lambda>p. (fst p, py_join [comma] (snd p))"
  have "map py_strip (tl (kv_split [] (show_params ps))) = concat (map (\<lambda>p. [fst p, py_join [comma] (snd p)]) ps)"
    using kv_split_params [OF assms(1,2), of "[]"] assms(1)
    by (auto simp: map_concat plain_param_def plain_text_def intro!: arg_cong [of _ _ concat])
  then have pairs: "pair_up (map py_strip (tl (kv_split [] (show_params ps)))) = map ?j ps"
    by (simp add: pair_up_concat)
  let ?d = "dict_update_all [] (map ?j ps)"
  have wf: "dict_wf (map ?j ps)" using assms(3) by (simp add: dict_wf_def comp_def)
  have md: "map_of ?d = map_of (map ?j ps)" using map_of_dict_update_all [OF wf, of "[]"] by simp
  have wd: "dict_wf ?d" by simp
  then have "map_of (rev ?d) = map_of ?d"
    by (intro map_of_inject_set [THEN iffD2]) (simp_all add: dict_wf_def rev_map [symmetric])
  then have look: "map_of (parse_p_option (show_params ps) params) k =
      (case map_of (map ?j ps) k of None \<Rightarrow> map_of params k | Some v \<Rightarrow> Some (param_value v))"
    by (simp add: parse_p_option_def Let_def pairs fold_param_values md)
  have j: "map_of (map ?j ps) k = map_option (py_join [comma]) (map_of ps k)" by (induction ps) auto
  show ?thesis
  proof (cases "map_of ps k")
    case (Some vs)
    then have "plain_param (k, vs)" using assms(1) by (auto dest: map_of_SomeD)
    then have ne: "vs \<noteq> []" and pl: "\<forall>v\<in>set vs. plain_text v" by (auto simp: plain_param_def)
    have "py_split comma (py_join [comma] vs) = vs"
      using ne pl by (intro py_split_join) (auto simp: plain_text_def name_char_def)
    moreover have "map py_strip vs = vs" using pl by (auto simp: plain_text_def intro: map_idI)
    ultimately have "param_value (py_join [comma] vs) = (if 1 < length vs then PList vs else PStr (hd vs))"
      by (simp add: param_value_def Let_def)
    then show ?thesis using look Some by (simp add: j)
  qed (use look in \<open>simp add: j\<close>)
qed

theorem p_option_roundtrip_witness:
  "map_of (parse_p_option ''p1=v1,v2,p2=v3'' []) ''p1'' = Some (PList [''v1'', ''v2''])"
proof -
  have s: "show_params [(''p1'', [''v1'', ''v2'']), (''p2'', [''v3''])] = ''p1=v1,v2,p2=v3''"
    by (simp add: show_params_def show_param_def)
  have "\<forall>p\<in>set [(''p1'', [''v1'', ''v2'']), (''p2'', [''v3''])]. plain_param p"
    by (simp add: plain_param_def plain_text_def name_char_def py_strip_def py_rstrip_def py_ws_def)
  from p_option_roundtrip [OF this, of "[]" "''p1''"] show ?thesis unfolding s by simp
qed

section \<open>Clusters and servers of the ini file\<close>

definition cluster_sections :: "config \<Rightarrow> string list" where
  "cluster_sections config = filter (\<lambda>n. startswith n ''cluster'') (map fst config)"

lemma rmap_append: "rmap f (xs @ ys) = rbind (rmap f xs) (\<lambda>a. rbind (rmap f ys) (\<lambda>b. Inr (a @ b)))"
  by (induction xs) (auto simp: rbind_assoc rbind_def split: sum.splits)

lemma rmap_concat_Inr:
  "rmap f (concat xss) = Inr ys \<longleftrightarrow> (\<exists>yss. ys = concat yss \<and> list_all2 (\<lambda>xs ys. rmap f xs = Inr ys) xss yss)"
proof (induction xss arbitrary: ys)
  case (Cons xs xss)
  have "rmap f (concat (xs # xss)) = Inr ys \<longleftrightarrow> (\<exists>a b. rmap f xs = Inr a \<and> rmap f (concat xss) = Inr b \<and> ys = a @ b)"
    by (auto simp: rmap_append rbind_eq_Inr)
  also have "\<dots> \<longleftrightarrow> (\<exists>a yss. rmap f xs = Inr a \<and> list_all2 (\<lambda>xs ys. rmap f xs = Inr ys) xss yss \<and> ys = concat (a # yss))"
    unfolding Cons.IH by auto
  finally show ?case unfolding list_all2_Cons1 by blast
qed auto

lemma scan_section_clusters:
  "is_cluster_ips (scan_section config sc n) =
     is_cluster_ips sc @ (if startswith n ''cluster'' then get_server_ips config n else [])"
  "is_clusters (scan_section config sc n) =
     is_clusters sc @ (if startswith n ''cluster'' then [length (get_server_ips config n)] else [])"
  by (auto simp: scan_section_def Let_def startswith_def)

lemma scan_clusters_fold:
  "is_cluster_ips (foldl (scan_section config) sc ns) =
     is_cluster_ips sc @ concat (map (get_server_ips config) (filter (\<lambda>n. startswith n ''cluster'') ns))"
  "is_clusters (foldl (scan_section config) sc ns) =
     is_clusters sc @ map (\<lambda>n. length (get_server_ips config n)) (filter (\<lambda>n. startswith n ''cluster'') ns)"
  by (induction ns arbitrary: sc) (simp_all add: scan_section_clusters)

lemma scan_sections_clusters:
  "is_cluster_ips (scan_sections config) = concat (map (get_server_ips config) (cluster_sections config))"
  "is_clusters (scan_sections config) = map (\<lambda>n. length (get_server_ips config n)) (cluster_sections config)"
  by (simp_all add: scan_sections_def cluster_sections_def scan_clusters_fold)

lemma split_clusters_concat:
  "split_clusters (pre @ concat xss) k (length pre) (map length xss) = zip [k..<k + length xss] xss"
proof (induction xss arbitrary: pre k)
  case (Cons xs xss)
  from Cons.IH [of "pre @ xs" "Suc k"] show ?case
    by (simp add: py_slice_def upt_conv_Cons del: upt_Suc)
qed simp


definition sample_ini :: config where
  "sample_ini = [(''membase'', [(''rest_username'', ''Administrator''), (''rest_password'', ''password'')]),
     (''cluster1'', [(''1'', ''10.0.0.1''), (''2'', ''10.0.0.2'')]), (''cluster2'', [(''1'', ''10.0.0.3'')])]"


lemma get_server_keeps:
  "sv_rest_username (get_server ip config) = []" "sv_rest_password (get_server ip config) = []"
  "sv_data_path (get_server ip config) = []"
proof -
  have "sv_rest_username (fold set_server_option opts s) = sv_rest_username s \<and>
      sv_rest_password (fold set_server_option opts s) = sv_rest_password s \<and>
      sv_data_path (fold set_server_option opts s) = sv_data_path s" for opts s
    by (induction opts arbitrary: s) (auto simp: set_server_option_def split: prod.splits)
  then show "sv_rest_username (get_server ip config) = []" "sv_rest_password (get_server ip config) = []"
     "sv_data_path (get_server ip config) = []"
    by (simp_all add: get_server_def new_server_def)
qed

text \<open>Which value a server of an ini file ends with: an option of its own section wins, then the one of
  \<^verbatim>\<open>[global]\<close>, then the empty string; the REST credentials are always those of \<^verbatim>\<open>[membase]\<close>, so that
  a file without that section is accepted only if it names no server at all.\<close>

theorem server_option_precedence:
  "(\<exists>s. server_option expanduser (Some m) props (get_server ip config) = Inr s \<and>
      sv_ip s = sv_ip (get_server ip config) \<and>
      sv_rest_username s = ms_rest_username m \<and> sv_rest_password s = ms_rest_password m \<and>
      sv_ssh_username s = (if sv_ssh_username (get_server ip config) \<noteq> [] then sv_ssh_username (get_server ip config)
                           else dict_get props ''username'' []) \<and>
      sv_services s = (if sv_services (get_server ip config) \<noteq> [] then sv_services (get_server ip config)
                       else dict_get props ''services'' []) \<and>
      sv_data_path s = dict_get props ''data_path'' []) \<and>
   get_server_options expanduser (map (\<lambda>ip. get_server ip config) ips) None props =
     (if ips = [] then Inr [] else Inl AttributeError)"
  by (cases ips) (simp_all add: get_server_options_def server_option_def Let_def get_server_keeps fill_def)

section \<open>The command line without an ini file\<close>

lemma parse_from_command_line_shape:
  "parse_from_command_line argv = Inr (Some t) \<Longrightarrow> ti_clients t = None"
  by (auto simp: parse_from_command_line_def Let_def rbind_eq_Inr new_test_input_def split: if_splits)

text \<open>A run needs an ini file or an explicit \<^verbatim>\<open>num_clients\<close>: when the options name no ini file and
  \<^verbatim>\<open>-p\<close> does not set \<^verbatim>\<open>num_clients\<close>, \<^verbatim>\<open>get_test_input\<close> never returns an input: it raises whatever
  \<open>parse_from_command_line\<close> raises, and \<^verbatim>\<open>AttributeError\<close> (no attribute \<^verbatim>\<open>clients\<close>) when that succeeds.\<close>

theorem no_ini_no_input:
  assumes "getopt (short_spec ''ht:c:v:s:i:p:l:m:d:e:r:g:'') (tl argv) = Inr opts"
    and "scan_opts opts [] None = Some (params, None)" and "\<not> dict_has params ''num_clients''"
  shows "get_test_input expanduser read_config argv =
    Inl (case parse_from_command_line argv of Inl e \<Rightarrow> e | Inr _ \<Rightarrow> AttributeError)"
  using assms parse_from_command_line_shape [of argv]
  by (auto simp: get_test_input_def add_counts_def rbind_def split: sum.splits option.splits)

theorem no_ini_no_input_witness:
  "get_test_input (\<lambda>p. p) (\<lambda>f. []) [''testrunner'', ''-t'', ''a.b.C''] = Inl AttributeError"
proof -
  have o: "getopt (short_spec ''ht:c:v:s:i:p:l:m:d:e:r:g:'') (tl [''testrunner'', ''-t'', ''a.b.C'']) = Inr [(''-t'', ''a.b.C'')]"
    by code_simp
  have "is_ok (parse_from_command_line [''testrunner'', ''-t'', ''a.b.C''])" by code_simp
  then show ?thesis
    using no_ini_no_input [OF o, of "[]" "\<lambda>p. p" "\<lambda>f. []"] by (auto simp: is_ok_def dict_has_def split: sum.splits)
qed

end
