(* ===== verification/Reports.thy ===== *)
theory Reports
  imports Py_Prelude
begin

text \<open>
  What the framework writes: the junit report of a run (\<^verbatim>\<open>lib/xunit.py\<close>), the tables of
  \<^verbatim>\<open>lib/table_view.py\<close> and the step summary of \<^verbatim>\<open>lib/test_summary.py\<close>.

  \<^item> A report is the document tree that \<^verbatim>\<open>xml.dom.minidom\<close> builds (\<open>xml\<close>); its serialisation is the
    library's. An attribute or text that is \<^verbatim>\<open>None\<close> is written as nothing.
  \<^item> Times have the type \<open>'t\<close> of \<^verbatim>\<open>time.time()\<close>: only zero, addition and \<^verbatim>\<open>str\<close> (the argument
    \<open>show_time\<close>) are used. Numbers of a plotted trend come with the functions that scale and format them.
  \<^item> A call of a logger is the string it is given.
\<close>

section \<open>The document tree\<close>

datatype xml = Elem string "(string, string) dict" "xml list" | XText string

fun elements :: "string \<Rightarrow> xml \<Rightarrow> xml list" where
  "elements tag (XText s) = []"
| "elements tag (Elem t attrs children) =
     concat (map (\<lambda>c. (case c of Elem t' _ _ \<Rightarrow> if t' = tag then [c] else [] | XText _ \<Rightarrow> []) @ elements tag c) children)"

text \<open>\<open>elements\<close> is \<^verbatim>\<open>getElementsByTagName\<close> of an element, in document order; a document is its root
  element under a node of its own.\<close>

definition doc_elements :: "string \<Rightarrow> xml \<Rightarrow> xml list" where
  "doc_elements tag root = elements tag (Elem [] [] [root])"

fun attribute :: "string \<Rightarrow> xml \<Rightarrow> string" where
  "attribute a (Elem t attrs children) = dict_get attrs a []"
| "attribute a (XText s) = []"

section \<open>XUnit\<close>

record test_case_error =
  ce_type :: "string option"
  ce_message :: "string option"

record 't test_case =
  tc_name :: string
  tc_time :: 't
  tc_error :: "test_case_error option"
  tc_params :: string

record 't test_suite =
  su_name :: string
  su_time :: 't
  su_tests :: "'t test_case list"
  su_errors :: nat
  su_failures :: nat
  su_skips :: nat

definition new_suite :: "('t::zero) test_suite" where
  "new_suite = \<lparr>su_name = [], su_time = 0, su_tests = [], su_errors = 0, su_failures = 0, su_skips = 0\<rparr>"

record 't test_report =
  ta_name :: string
  ta_time :: 't
  ta_error_type :: "string option"
  ta_error_message :: "string option"
  ta_status :: string
  ta_params :: string

text \<open>\<open>test_report\<close> holds the arguments of a call of \<^verbatim>\<open>add_test\<close>.\<close>

definition make_case :: "'t test_report \<Rightarrow> 't test_case" where
  "make_case r = \<lparr>tc_name = ta_name r, tc_time = ta_time r,
     tc_error = (if ta_status r = ''fail''
                 then Some \<lparr>ce_type = ta_error_type r, ce_message = ta_error_message r\<rparr> else None),
     tc_params = ta_params r\<rparr>"

definition suite_add_test :: "('t::plus) test_suite \<Rightarrow> 't test_report \<Rightarrow> 't test_suite" where
  "suite_add_test su r = su\<lparr>
     su_tests := su_tests su @ [make_case r],
     su_failures := (if ta_status r = ''fail'' then Suc (su_failures su) else su_failures su),
     su_errors := (if ta_status r = ''fail'' then Suc (su_errors su) else su_errors su),
     su_skips := (if ta_status r = ''skip'' then Suc (su_skips su) else su_skips su),
     su_time := su_time su + ta_time r\<rparr>"

text \<open>\<^verbatim>\<open>name[:name.rfind(c)]\<close>: without a \<open>c\<close> the index is -1, which cuts the last character.\<close>

definition before_last :: "char \<Rightarrow> string \<Rightarrow> string" where
  "before_last c s = (if c \<in> set s then rev (tl (dropWhile (\<lambda>x. x \<noteq> c) (rev s))) else butlast s)"

definition class_name :: "string \<Rightarrow> string" where
  "class_name name = (if comma \<in> set name then name else before_last CHR ''.'' name)"

fun xunit_add_test :: "('t::{zero,plus}) test_suite list \<Rightarrow> 't test_report \<Rightarrow> 't test_suite list" where
  "xunit_add_test [] r = [suite_add_test (new_suite\<lparr>su_name := class_name (ta_name r)\<rparr>) r]"
| "xunit_add_test (su # sus) r =
     (if su_name su = class_name (ta_name r) then suite_add_test su r # sus else su # xunit_add_test sus r)"

definition opt_str :: "string option \<Rightarrow> string" where
  "opt_str v = (case v of None \<Rightarrow> [] | Some s \<Rightarrow> s)"

definition case_xml :: "('t \<Rightarrow> string) \<Rightarrow> 't test_case \<Rightarrow> xml" where
  "case_xml show_time t =
     Elem ''testcase'' [(''name'', tc_name t @ tc_params t), (''time'', show_time (tc_time t))]
       (case tc_error t of
          None \<Rightarrow> []
        | Some e \<Rightarrow> [Elem ''error'' [(''type'', opt_str (ce_type e))]
                      (if opt_str (ce_message e) = [] then [] else [XText (opt_str (ce_message e))])])"

definition to_xml :: "('t \<Rightarrow> string) \<Rightarrow> 't test_suite \<Rightarrow> xml" where
  "to_xml show_time su =
     Elem ''testsuite''
       [(''name'', su_name su), (''errors'', nat_str (su_errors su)), (''failures'', nat_str (su_failures su)),
        (''tests'', nat_str (length (su_tests su))), (''time'', show_time (su_time su)),
        (''skip'', nat_str (su_skips su))]
       (map (case_xml show_time) (su_tests su))"

text \<open>The files \<^verbatim>\<open>write\<close> creates, in the order it writes them.\<close>

definition xunit_write :: "('t \<Rightarrow> string) \<Rightarrow> string \<Rightarrow> 't test_suite list \<Rightarrow> (string \<times> xml) list" where
  "xunit_write show_time prefix suites =
     map (\<lambda>su. (prefix @ ''-'' @ takeWhile (\<lambda>c. c \<noteq> comma) (su_name su) @ ''.xml'', to_xml show_time su)) suites"

definition suite_summary :: "'t test_suite \<Rightarrow> string list \<times> string list" where
  "suite_summary su =
     (map tc_name (filter (\<lambda>t. tc_error t = None) (su_tests su)),
      map tc_name (filter (\<lambda>t. tc_error t \<noteq> None) (su_tests su)))"

definition print_summary :: "'t test_suite list \<Rightarrow> string list" where
  "print_summary suites = concat (map (\<lambda>su.
     case suite_summary su of (oks, errors) \<Rightarrow>
       (''summary so far suite '' @ su_name su @ '' , pass '' @ nat_str (length oks) @ '' , fail '' @
          nat_str (length errors)) #
       (if errors = [] then [] else ''failures so far...'' # errors)) suites)"

section \<open>Tables\<close>

record table_view =
  tv_h_sep :: char
  tv_v_sep :: string
  tv_join_sep :: string
  tv_r_align :: bool
  tv_headers :: "string list"
  tv_rows :: "string list list"

definition set_show_vertical_lines :: "bool \<Rightarrow> table_view \<Rightarrow> table_view" where
  "set_show_vertical_lines b t = t\<lparr>tv_v_sep := (if b then ''|'' else []), tv_join_sep := (if b then ''+'' else '' '')\<rparr>"

definition new_table :: table_view where
  "new_table = set_show_vertical_lines True
     \<lparr>tv_h_sep = CHR ''-'', tv_v_sep = [], tv_join_sep = [], tv_r_align = False, tv_headers = [], tv_rows = []\<rparr>"

definition set_headers :: "string list \<Rightarrow> table_view \<Rightarrow> table_view" where
  "set_headers hs t = t\<lparr>tv_headers := hs\<rparr>"

definition add_row :: "string list \<Rightarrow> table_view \<Rightarrow> table_view" where
  "add_row row t = t\<lparr>tv_rows := tv_rows t @ [row]\<rparr>"

fun line_cells :: "table_view \<Rightarrow> nat list \<Rightarrow> string" where
  "line_cells t [] = []"
| "line_cells t (w # ws) =
     tv_join_sep t @ replicate (w + length (tv_v_sep t) + 1) (tv_h_sep t) @ (if ws = [] then tv_join_sep t else []) @
     line_cells t ws"

definition get_line :: "table_view \<Rightarrow> nat list \<Rightarrow> string" where
  "get_line t ws = line_cells t ws @ [CHR 0x0A]"

text \<open>\<^verbatim>\<open>max_widths[index]\<close> past the end raises \<^verbatim>\<open>IndexError\<close>; \<^verbatim>\<open>r_align\<close> prints no cell.\<close>

fun row_cells :: "table_view \<Rightarrow> string list \<Rightarrow> nat list \<Rightarrow> string res" where
  "row_cells t [] ws = Inr []"
| "row_cells t (d # ds) ws =
     (if tv_r_align t then row_cells t ds (tl ws)
      else (case ws of
              [] \<Rightarrow> Inl IndexError
            | w # ws' \<Rightarrow> rbind (row_cells t ds ws') (\<lambda>rest.
                Inr (tv_v_sep t @ '' '' @ ljust d (int w) CHR '' '' @ '' '' @ (if ds = [] then tv_v_sep t else []) @ rest))))"

definition get_row :: "table_view \<Rightarrow> string list \<Rightarrow> nat list \<Rightarrow> string res" where
  "get_row t row ws = rbind (row_cells t row ws) (\<lambda>cells. Inr (cells @ [CHR 0x0A]))"

fun widen :: "nat list \<Rightarrow> string list \<Rightarrow> nat list res" where
  "widen ws [] = Inr ws"
| "widen [] (d # ds) = Inl IndexError"
| "widen (w # ws) (d # ds) = rbind (widen ws ds) (\<lambda>ws'. Inr (max w (length d) # ws'))"

definition max_widths :: "table_view \<Rightarrow> nat list res" where
  "max_widths t =
     rfold widen (if tv_headers t = [] then map length (hd (tv_rows t)) else map length (tv_headers t)) (tv_rows t)"

definition table_lines :: "table_view \<Rightarrow> string list res" where
  "table_lines t =
     rbind (max_widths t) (\<lambda>ws.
     rbind (if tv_headers t = [] then Inr [] else rbind (get_row t (tv_headers t) ws) (\<lambda>r. Inr [get_line t ws, r])) (\<lambda>hd_lines.
     rbind (rmap (\<lambda>row. get_row t row ws) (tv_rows t)) (\<lambda>rows.
     Inr (hd_lines @ get_line t ws # rows @ [get_line t ws]))))"

definition display :: "table_view \<Rightarrow> string \<Rightarrow> string option res" where
  "display t message =
     (if tv_rows t = [] then Inr None
      else rbind (table_lines t) (\<lambda>ls. Inr (Some (message @ [CHR 0x0A] @ concat ls))))"

text \<open>\<^verbatim>\<open>plot_graph\<close>: \<open>scale ops max_ops\<close> is \<^verbatim>\<open>int(ops * max_width / max_ops)\<close> and \<open>fmt\<close> is \<^verbatim>\<open>'%.3f' %\<close>.\<close>

fun plot_line :: "('n \<Rightarrow> int) \<Rightarrow> int \<Rightarrow> 'n list \<Rightarrow> string" where
  "plot_line scale dots_plotted [] = []"
| "plot_line scale dots_plotted (ops # rest) =
     (let dot_to_fill = scale ops - 1 - dots_plotted in
      replicate (nat dot_to_fill) CHR ''.'' @ (if rest = [] then ''X'' else ''*'') @
      plot_line scale (dots_plotted + dot_to_fill) rest)"

definition plot_row :: "('n \<Rightarrow> int) \<Rightarrow> ('n \<Rightarrow> string) \<Rightarrow> 'n list \<Rightarrow> string list res" where
  "plot_row scale fmt ops_list =
     (if ops_list = [] then Inl IndexError
      else Inr [fmt (hd ops_list), plot_line scale 0 ops_list, fmt (last ops_list)])"

definition plot_graph ::
  "('n::{linorder,zero,one} \<Rightarrow> 'n \<Rightarrow> int) \<Rightarrow> ('n \<Rightarrow> string) \<Rightarrow> string \<Rightarrow> 'n list list \<Rightarrow> string option res" where
  "plot_graph scale fmt bucket_name ops_trend =
     (if [] \<in> set ops_trend then Inl IndexError
      else
        let max_ops = (if ops_trend = [] then 1 else Max (set (map last ops_trend))) in
        if max_ops = 0 then Inr None
        else rbind (rmap (plot_row (\<lambda>n. scale n max_ops) fmt) ops_trend) (\<lambda>rows.
             display (fold add_row rows (set_headers [''Min'', ''Trend'', ''Max''] new_table))
               (''Ops trend for bucket '' @ [CHR 0x27] @ bucket_name @ [CHR 0x27])))"

section \<open>Step summary\<close>

record summary =
  sm_step_index :: nat
  sm_steps :: "(nat, string \<times> string) dict"
  sm_max_line_length :: nat
  sm_status :: string

definition new_summary :: summary where
  "new_summary = \<lparr>sm_step_index = 0, sm_steps = [], sm_max_line_length = 0, sm_status = ''OK''\<rparr>"

definition set_status :: "string \<Rightarrow> summary \<Rightarrow> summary" where
  "set_status st s = s\<lparr>sm_status := st\<rparr>"

definition add_step :: "string \<Rightarrow> summary \<Rightarrow> summary" where
  "add_step description s = s\<lparr>
     sm_max_line_length := max (sm_max_line_length s) (length description),
     sm_steps := AList.update (sm_step_index s) (description, sm_status s) (sm_steps s),
     sm_step_index := Suc (sm_step_index s),
     sm_status := ''OK''\<rparr>"

definition step_line :: "nat \<Rightarrow> string \<times> string \<Rightarrow> string" where
  "step_line pad ts = ljust (fst ts) (int pad) CHR ''.'' @ ''['' @ snd ts @ '']'' @ [CHR 0x0A]"

definition display_summary :: "summary \<Rightarrow> string res" where
  "display_summary s =
     rfold (\<lambda>acc i. rbind (dict_lookup (sm_steps s) i) (\<lambda>st. Inr (acc @ step_line (sm_max_line_length s + 5) st)))
       (''Test summary:'' @ [CHR 0x0A]) [0..<sm_step_index s]"

section \<open>The report holds every test of the run\<close>

definition suite_of_reports :: "string \<Rightarrow> ('t::{zero,plus}) test_report list \<Rightarrow> 't test_suite" where
  "suite_of_reports c rs = foldl suite_add_test (new_suite\<lparr>su_name := c\<rparr>) rs"

definition reports_of :: "string \<Rightarrow> 't test_report list \<Rightarrow> 't test_report list" where
  "reports_of c rs = filter (\<lambda>r. class_name (ta_name r) = c) rs"

lemma suite_add_test_simps [simp]:
  "su_name (suite_add_test su r) = su_name su"
  "su_tests (suite_add_test su r) = su_tests su @ [make_case r]"
  by (simp_all add: suite_add_test_def)

lemma suite_fold:
  "su_name (foldl suite_add_test su rs) = su_name su \<and>
   su_tests (foldl suite_add_test su rs) = su_tests su @ map make_case rs \<and>
   su_errors (foldl suite_add_test su rs) = su_errors su + length (filter (\<lambda>r. ta_status r = ''fail'') rs) \<and>
   su_failures (foldl suite_add_test su rs) = su_failures su + length (filter (\<lambda>r. ta_status r = ''fail'') rs) \<and>
   su_skips (foldl suite_add_test su rs) = su_skips su + length (filter (\<lambda>r. ta_status r = ''skip'') rs) \<and>
   su_time (foldl suite_add_test su rs) = foldl (+) (su_time su) (map ta_time rs)"
  by (induction rs arbitrary: su) (auto simp: suite_add_test_def)

lemma xunit_add_test_names:
  "map su_name (xunit_add_test sus r) =
     (if class_name (ta_name r) \<in> set (map su_name sus) then map su_name sus
      else map su_name sus @ [class_name (ta_name r)])"
  by (induction sus r rule: xunit_add_test.induct) auto

lemma xunit_add_test_suites:
  assumes "distinct (map su_name sus)"
  shows "su \<in> set (xunit_add_test sus r) \<longleftrightarrow>
    (su \<in> set sus \<and> su_name su \<noteq> class_name (ta_name r)) \<or>
    (\<exists>su0\<in>set sus. su_name su0 = class_name (ta_name r) \<and> su = suite_add_test su0 r) \<or>
    (class_name (ta_name r) \<notin> set (map su_name sus) \<and> su = suite_of_reports (class_name (ta_name r)) [r])"
  using assms
proof (induction sus r rule: xunit_add_test.induct)
  case (2 s sus r)
  show ?case
  proof (cases "su_name s = class_name (ta_name r)")
    case True
    then have "x \<in> set sus \<Longrightarrow> su_name x \<noteq> class_name (ta_name r)" for x using "2.prems" by force
    with True show ?thesis by auto
  next
    case False
    with 2 show ?thesis by auto
  qed
qed (simp add: suite_of_reports_def)

lemma xunit_run:
  "distinct (map su_name (foldl xunit_add_test [] rs)) \<and>
   set (foldl xunit_add_test [] rs) = (\<lambda>c. suite_of_reports c (reports_of c rs)) ` (\<lambda>r. class_name (ta_name r)) ` set rs"
proof (induction rs rule: rev_induct)
  case (snoc r rs)
  let ?sus = "foldl xunit_add_test [] rs" and ?c = "class_name (ta_name r)"
  have d: "distinct (map su_name ?sus)"
    and s: "set ?sus = (\<lambda>c. suite_of_reports c (reports_of c rs)) ` (\<lambda>r. class_name (ta_name r)) ` set rs"
    using snoc.IH by auto
  have nm: "su_name (suite_of_reports c q) = c" for c q by (simp add: suite_of_reports_def suite_fold)
  have names: "set (map su_name ?sus) = (\<lambda>r. class_name (ta_name r)) ` set rs"
    by (simp add: s image_image nm)
  have app: "reports_of c (rs @ [r]) = (if c = ?c then reports_of c rs @ [r] else reports_of c rs)" for c
    by (simp add: reports_of_def)
  have step: "suite_of_reports ?c (reports_of ?c rs @ [r]) = suite_add_test (suite_of_reports ?c (reports_of ?c rs)) r"
    by (simp add: suite_of_reports_def)
  have new: "?c \<notin> (\<lambda>r. class_name (ta_name r)) ` set rs \<Longrightarrow> reports_of ?c rs = []"
    unfolding reports_of_def filter_empty_conv image_iff by metis
  have "su \<in> set (xunit_add_test ?sus r) \<longleftrightarrow>
      (\<exists>c \<in> insert ?c ((\<lambda>r. class_name (ta_name r)) ` set rs). su = suite_of_reports c (reports_of c (rs @ [r])))" for su
    unfolding xunit_add_test_suites [OF d] names
    by (cases "?c \<in> (\<lambda>r. class_name (ta_name r)) ` set rs") (auto simp: s app nm step new)
  then have "set (xunit_add_test ?sus r) =
      (\<lambda>c. suite_of_reports c (reports_of c (rs @ [r]))) ` (\<lambda>r. class_name (ta_name r)) ` set (rs @ [r])"
    by auto
  moreover have "distinct (map su_name (xunit_add_test ?sus r))"
    using d by (simp add: xunit_add_test_names del: set_map)
  ultimately show ?case by simp
qed simp

text \<open>C32. The report of a run: after any sequence of \<^verbatim>\<open>add_test\<close> calls there is exactly one suite per class
  name, which holds the tests of that class in the order they were added, with the number of failed and
  skipped ones and the sum of their times.\<close>

theorem xunit_report_complete:
  "distinct (map su_name (foldl xunit_add_test [] rs)) \<and>
   su_name ` set (foldl xunit_add_test [] rs) = (\<lambda>r. class_name (ta_name r)) ` set rs \<and>
   (\<forall>su\<in>set (foldl xunit_add_test [] rs).
      su_tests su = map make_case (reports_of (su_name su) rs) \<and>
      su_errors su = length (filter (\<lambda>t. tc_error t \<noteq> None) (su_tests su)) \<and> su_failures su = su_errors su \<and>
      su_skips su = length (filter (\<lambda>r. ta_status r = ''skip'') (reports_of (su_name su) rs)) \<and>
      su_time su = foldl (+) 0 (map tc_time (su_tests su)))"
proof -
  have nm: "su_name (suite_of_reports c q) = c" for c q by (simp add: suite_of_reports_def suite_fold)
  have body: "su_tests (suite_of_reports c q) = map make_case q \<and>
      su_errors (suite_of_reports c q) = length (filter (\<lambda>t. tc_error t \<noteq> None) (map make_case q)) \<and>
      su_failures (suite_of_reports c q) = su_errors (suite_of_reports c q) \<and>
      su_skips (suite_of_reports c q) = length (filter (\<lambda>r. ta_status r = ''skip'') q) \<and>
      su_time (suite_of_reports c q) = foldl (+) 0 (map tc_time (map make_case q))" for c and q :: "'a test_report list"
    by (simp add: suite_of_reports_def suite_fold new_suite_def filter_map comp_def make_case_def)
  have s: "set (foldl xunit_add_test [] rs) = (\<lambda>c. suite_of_reports c (reports_of c rs)) ` (\<lambda>r. class_name (ta_name r)) ` set rs"
    using xunit_run [of rs] by blast
  have "su_tests su = map make_case (reports_of (su_name su) rs) \<and>
      su_errors su = length (filter (\<lambda>t. tc_error t \<noteq> None) (su_tests su)) \<and> su_failures su = su_errors su \<and>
      su_skips su = length (filter (\<lambda>r. ta_status r = ''skip'') (reports_of (su_name su) rs)) \<and>
      su_time su = foldl (+) 0 (map tc_time (su_tests su))" if "su \<in> set (foldl xunit_add_test [] rs)" for su
  proof -
    from that s obtain c where c: "su = suite_of_reports c (reports_of c rs)" by auto
    show ?thesis using body [of c "reports_of c rs"] unfolding c nm by simp
  qed
  moreover have "su_name ` set (foldl xunit_add_test [] rs) = (\<lambda>r. class_name (ta_name r)) ` set rs"
    unfolding s by (simp add: image_image nm)
  ultimately show ?thesis using xunit_run [of rs] by blast
qed

theorem xunit_report_complete_witness:
  "\<exists>su. foldl xunit_add_test [] [\<lparr>ta_name = ''a.B.t1'', ta_time = (3::int), ta_error_type = Some ''membase.error'',
       ta_error_message = Some ''boom'', ta_status = ''fail'', ta_params = []\<rparr>,
     \<lparr>ta_name = ''a.B.t2'', ta_time = 4, ta_error_type = None, ta_error_message = None, ta_status = ''pass'',
       ta_params = []\<rparr>] = [su] \<and> su_name su = ''a.B'' \<and> su_errors su = 1 \<and> su_time su = 7"
  (is "\<exists>su. foldl _ _ ?rs = [su] \<and> _")
proof -
  have c: "class_name ''a.B.t1'' = ''a.B''" "class_name ''a.B.t2'' = ''a.B''" by (simp_all add: class_name_def before_last_def)
  have "length (foldl xunit_add_test [] ?rs) = 1" by (simp add: c new_suite_def)
  then obtain su where su: "foldl xunit_add_test [] ?rs = [su]" by (auto simp: length_Suc_conv)
  have "su_name su = ''a.B''" using xunit_report_complete [of ?rs] unfolding su by (simp add: c)
  moreover have "reports_of ''a.B'' ?rs = ?rs" by (simp add: reports_of_def c)
  ultimately have "su_tests su = map make_case ?rs" "su_errors su = length (filter (\<lambda>t. tc_error t \<noteq> None) (su_tests su))"
    "su_time su = foldl (+) 0 (map tc_time (su_tests su))"
    using xunit_report_complete [of ?rs] unfolding su by auto
  with \<open>su_name su = ''a.B''\<close> show ?thesis unfolding su by (simp add: make_case_def)
qed

section \<open>Tables are aligned\<close>

lemma widen_length: "widen ws ds = Inr ws' \<Longrightarrow> length ws' = length ws"
  by (induction ws ds arbitrary: ws' rule: widen.induct) (auto simp: rbind_eq_Inr)

lemma widen_ok: "length ds \<le> length ws \<Longrightarrow> \<exists>ws'. widen ws ds = Inr ws' \<and> length ws' = length ws \<and>
    (\<forall>i<length ws. ws ! i \<le> ws' ! i) \<and> (\<forall>i<length ds. length (ds ! i) \<le> ws' ! i)"
proof (induction ws ds rule: widen.induct)
  case (3 w ws d ds)
  then obtain ws' where "widen ws ds = Inr ws'" "length ws' = length ws"
    "\<forall>i<length ws. ws ! i \<le> ws' ! i" "\<forall>i<length ds. length (ds ! i) \<le> ws' ! i" by auto
  then show ?case by (auto simp: nth_Cons split: nat.splits)
qed auto

lemma widen_all_ok:
  "\<forall>r\<in>set rows. length r = length ws \<Longrightarrow>
   \<exists>ws'. rfold widen ws rows = Inr ws' \<and> length ws' = length ws \<and> (\<forall>i<length ws. ws ! i \<le> ws' ! i) \<and>
     (\<forall>r\<in>set rows. \<forall>i<length ws. length (r ! i) \<le> ws' ! i)"
proof (induction rows arbitrary: ws)
  case (Cons r rows)
  then obtain ws1 where 1: "widen ws r = Inr ws1" "length ws1 = length ws" "\<forall>i<length ws. ws ! i \<le> ws1 ! i"
    "\<forall>i<length r. length (r ! i) \<le> ws1 ! i" using widen_ok [of r ws] by auto
  with Cons.IH [of ws1] Cons.prems obtain ws' where 2: "rfold widen ws1 rows = Inr ws'" "length ws' = length ws1"
    "\<forall>i<length ws1. ws1 ! i \<le> ws' ! i" "\<forall>r\<in>set rows. \<forall>i<length ws1. length (r ! i) \<le> ws' ! i" by auto
  from 1 2 Cons.prems show ?case by (auto intro: order_trans)
qed simp

definition with_lines :: "table_view \<Rightarrow> bool" where
  "with_lines t \<longleftrightarrow> tv_v_sep t = ''|'' \<and> tv_join_sep t = ''+'' \<and> \<not> tv_r_align t"

lemma length_line_cells:
  "with_lines t \<Longrightarrow> length (line_cells t ws) = sum_list (map (\<lambda>w. w + 3) ws) + (if ws = [] then 0 else 1)"
  by (induction ws) (auto simp: with_lines_def)

lemma length_row_cells:
  assumes "with_lines t" and "length ds = length ws" and "\<forall>i<length ws. length (ds ! i) \<le> ws ! i"
  shows "\<exists>s. row_cells t ds ws = Inr s \<and> length s = sum_list (map (\<lambda>w. w + 3) ws) + (if ws = [] then 0 else 1)"
  using assms(2,3)
proof (induction ds ws rule: list_induct2)
  case (Cons d ds w ws)
  have "\<forall>i<length ws. length (ds ! i) \<le> ws ! i" using Cons.prems by auto
  with Cons.IH obtain s where s: "row_cells t ds ws = Inr s"
    "length s = sum_list (map (\<lambda>w. w + 3) ws) + (if ws = [] then 0 else 1)" by blast
  have "length d \<le> w" using Cons.prems by auto
  then have "length (ljust d (int w) CHR '' '') = w" using length_ljust [of d "int w" "CHR '' ''"] by simp
  with s assms(1) Cons.hyps show ?case by (auto simp: with_lines_def)
qed simp

lemma rmap_all: "\<forall>x\<in>set xs. \<exists>y. f x = Inr y \<and> P y \<Longrightarrow> \<exists>ys. rmap f xs = Inr ys \<and> (\<forall>y\<in>set ys. P y)"
  by (induction xs) fastforce+

text \<open>A table whose rows have as many cells as its headers is displayed, and all its lines (rules, header,
  rows) have the same length: the columns line up, however long the cells are.\<close>

theorem table_lines_aligned:
  assumes "with_lines t" and "tv_headers t \<noteq> []" and "\<forall>row\<in>set (tv_rows t). length row = length (tv_headers t)"
  shows "\<exists>ls n. table_lines t = Inr ls \<and> length ls = length (tv_rows t) + 4 \<and> (\<forall>l\<in>set ls. length l = n)"
proof -
  let ?h = "tv_headers t"
  obtain ws where ws: "max_widths t = Inr ws" "length ws = length ?h" and h: "\<forall>i<length ?h. length (?h ! i) \<le> ws ! i"
    and r: "\<forall>r\<in>set (tv_rows t). \<forall>i<length ?h. length (r ! i) \<le> ws ! i"
    using widen_all_ok [of "tv_rows t" "map length ?h"] assms(2,3) by (auto simp: max_widths_def)
  let ?n = "sum_list (map (\<lambda>w. w + 3) ws) + (if ws = [] then 0 else 1) + 1"
  have row: "\<exists>s. get_row t ds ws = Inr s \<and> length s = ?n"
    if "length ds = length ?h" "\<forall>i<length ?h. length (ds ! i) \<le> ws ! i" for ds
    using length_row_cells [OF assms(1), of ds ws] that ws(2) by (auto simp: get_row_def)
  obtain hl where hl: "get_row t ?h ws = Inr hl" "length hl = ?n" using row h by blast
  obtain rows where rows: "rmap (\<lambda>row. get_row t row ws) (tv_rows t) = Inr rows" "\<forall>s\<in>set rows. length s = ?n"
    using rmap_all [of "tv_rows t" "\<lambda>row. get_row t row ws" "\<lambda>s. length s = ?n"] row r assms(3) by blast
  have "length (get_line t ws) = ?n" by (simp add: get_line_def length_line_cells [OF assms(1)])
  with hl rows rmap_length [OF rows(1)] ws(1) assms(2) show ?thesis
    by (intro exI [of _ "[get_line t ws, hl, get_line t ws] @ rows @ [get_line t ws]"] exI [of _ ?n])
       (auto simp: table_lines_def)
qed

theorem table_lines_aligned_witness:
  "\<exists>ls n. table_lines (add_row [''k'', ''value''] (set_headers [''Key'', ''V''] new_table)) = Inr ls \<and> length ls = 5 \<and>
    (\<forall>l\<in>set ls. length l = n)"
  using table_lines_aligned [of "add_row [''k'', ''value''] (set_headers [''Key'', ''V''] new_table)"]
  by (simp add: with_lines_def new_table_def set_headers_def add_row_def set_show_vertical_lines_def)

section \<open>The step summary shows every step\<close>

definition run_steps :: "(string \<times> string) list \<Rightarrow> summary" where
  "run_steps steps = foldl (\<lambda>s (d, st). add_step d (set_status st s)) new_summary steps"

lemma run_steps_inv:
  "sm_step_index (run_steps steps) = length steps \<and>
   (\<forall>i. map_of (sm_steps (run_steps steps)) i = (if i < length steps then Some (steps ! i) else None)) \<and>
   sm_max_line_length (run_steps steps) = Max (insert 0 (length ` fst ` set steps)) \<and> sm_status (run_steps steps) = ''OK''"
proof (induction steps rule: rev_induct)
  case Nil
  then show ?case by (simp add: run_steps_def new_summary_def)
next
  case (snoc x steps)
  obtain d st where x: "x = (d, st)" by force
  have "Max (insert 0 (length ` fst ` set (steps @ [x]))) = max (Max (insert 0 (length ` fst ` set steps))) (length d)"
    using Max_insert [of "insert 0 (length ` fst ` set steps)" "length d"]
    by (simp add: x insert_commute max.commute del: Max_insert)
  then show ?case
    using snoc by (auto simp: run_steps_def add_step_def set_status_def x nth_append less_Suc_eq)
qed

lemma display_fold:
  assumes "\<forall>i<n. map_of steps i = Some (ss ! i)" and "n \<le> length ss"
  shows "rfold (\<lambda>acc i. rbind (dict_lookup steps i) (\<lambda>st. Inr (acc @ step_line pad st))) a [0..<n] =
    Inr (a @ concat (map (step_line pad) (take n ss)))"
  using assms by (induction n) (auto simp: rfold_append take_Suc_conv_app_nth dict_lookup_def)

text \<open>The step summary never fails and shows every step once, in order, with the status set for it; the
  texts are padded with dots to five more than the longest, so the statuses are in one column.\<close>

theorem summary_shows_steps:
  "display_summary (run_steps steps) =
     Inr (''Test summary:'' @ [CHR 0x0A] @
       concat (map (\<lambda>(d, st). d @ replicate (Max (insert 0 (length ` fst ` set steps)) + 5 - length d) CHR ''.'' @
                                 ''['' @ st @ '']'' @ [CHR 0x0A]) steps))"
proof -
  let ?m = "Max (insert 0 (length ` fst ` set steps))"
  have le: "length d \<le> ?m" if "(d, st) \<in> set steps" for d st
    using that by (intro Max_ge) force+
  let ?l = "\<lambda>(d, st). d @ replicate (?m + 5 - length d) CHR ''.'' @ ''['' @ st @ '']'' @ [CHR 0x0A]"
  have m: "map (step_line (?m + 5)) steps = map ?l steps"
    using le by (intro map_cong) (auto simp: step_line_def ljust_def nat_diff_distrib)
  have "display_summary (run_steps steps) = Inr ((''Test summary:'' @ [CHR 0x0A]) @ concat (map (step_line (?m + 5)) steps))"
    using display_fold [of "length steps" "sm_steps (run_steps steps)" steps "?m + 5" "''Test summary:'' @ [CHR 0x0A]"]
    by (simp only: display_summary_def run_steps_inv) (simp add: run_steps_inv)
  then show ?thesis unfolding m append_assoc .
qed

end
