(* ===== verification/Test_Runner.thy ===== *)
theory Test_Runner
  imports Test_Input Reports "HOL-Library.Multiset"
begin

text \<open>
  The test runner (\<^verbatim>\<open>testrunner.py\<close>): conf files, inclusion and exclusion of tests, reading earlier results,
  and the main loop that runs the tests, reports them and computes the exit code.

  \<^item> The surroundings are the record \<open>world\<close>: files, \<^verbatim>\<open>glob\<close>, parsed XML files, downloads, \<^verbatim>\<open>re.search\<close>
    with the user's pattern, the loader and runner of \<^verbatim>\<open>unittest\<close>, \<^verbatim>\<open>float\<close> and the measured times. The
    runner may answer differently each time it is called: its first argument counts the calls.
  \<^item> \<^verbatim>\<open>sys.exit\<close>, \<^verbatim>\<open>parser.error\<close> and \<^verbatim>\<open>usage\<close> are the exception \<^verbatim>\<open>SystemExit\<close>.
  \<^item> An option that is absent and one that is the empty string are treated alike by the code and are both \<open>[]\<close>.
\<close>

section \<open>Surroundings\<close>

record unit_result =
  ur_failures :: "(string \<times> string) list"
  ur_errors :: "(string \<times> string) list"

text \<open>What \<^verbatim>\<open>loadTestsFromName\<close> does with a name: \<open>NotFound\<close> is an \<^verbatim>\<open>AttributeError\<close> or
  \<^verbatim>\<open>SyntaxError\<close> with its message, which the runner reports; anything else raised ends the run.\<close>

datatype load_outcome = Suite "string list" | NotFound string | LoadRaises py_error

record ('f, 't) world =
  w_file :: "string \<Rightarrow> string list option"
  w_isdir :: "string \<Rightarrow> bool"
  w_glob :: "string \<Rightarrow> string list"
  w_xml :: "string \<Rightarrow> xml"
  w_download :: "string \<Rightarrow> bool"
  w_search :: "string \<Rightarrow> string \<Rightarrow> bool"
  w_load :: "string \<Rightarrow> load_outcome"
  w_run :: "nat \<Rightarrow> string \<Rightarrow> (string, pval) dict \<Rightarrow> unit_result option"
  w_float :: "string \<Rightarrow> 'f option"
  w_nonzero :: "'f \<Rightarrow> bool"
  w_time :: "nat \<Rightarrow> 't"

abbreviation system_exit :: py_error where
  "system_exit \<equiv> Raised ''SystemExit''"

section \<open>Conf files\<close>

text \<open>\<^verbatim>\<open>os.path.basename\<close> and the first component of \<^verbatim>\<open>os.path.splitext\<close>; leading dots are no extension.\<close>

definition py_basename :: "string \<Rightarrow> string" where
  "py_basename s = rev (takeWhile (\<lambda>c. c \<noteq> CHR ''/'') (rev s))"

definition splitext_root :: "string \<Rightarrow> string" where
  "splitext_root s =
     (let root = rev (tl (dropWhile (\<lambda>c. c \<noteq> CHR ''.'') (rev s))) in
      if CHR ''.'' \<notin> set s \<or> (\<forall>c\<in>set (py_basename root). c = CHR ''.'') \<or> CHR ''.'' \<notin> set (py_basename s) then s else root)"

text \<open>\<^verbatim>\<open>".".join(s.split(".")[0:-1])\<close>.\<close>

definition module_of :: "string \<Rightarrow> string" where
  "module_of s = py_join ''.'' (butlast (py_split CHR ''.'' s))"

definition wildcard :: "string \<Rightarrow> bool" where
  "wildcard name \<longleftrightarrow> \<not> in_str ''test_restore_with_filter_regex'' name \<and> \<not> in_str ''test_restore_with_rbac'' name \<and>
     \<not> in_str ''test_backup_with_rbac'' name \<and> CHR ''*'' \<in> set name \<and> hd name \<noteq> CHR ''*''"

definition append_test :: "('f, 't) world \<Rightarrow> string list \<Rightarrow> string \<Rightarrow> string list res" where
  "append_test w tests name =
     (if wildcard name then
        (case w_load w (py_rstrip (\<lambda>c. c = CHR ''.'' \<or> c = CHR ''*'') name) of
           Suite methods \<Rightarrow> Inr (tests @ map (\<lambda>m. module_of name @ ''.'' @ m) methods)
         | NotFound _ \<Rightarrow> Inl AttributeError
         | LoadRaises e \<Rightarrow> Inl e)
      else Inr (tests @ [name]))"

definition locate_conf_file :: "('f, 't) world \<Rightarrow> string \<Rightarrow> string list option" where
  "locate_conf_file w filename =
     (if filename = [] then None
      else (case w_file w filename of
              Some ls \<Rightarrow> Some ls
            | None \<Rightarrow> w_file w (''conf/'' @ filename)))"

record conf_scan =
  cf_prefix :: string
  cf_tests :: "string list"
  cf_params :: "(string, pval) dict"

text \<open>One line of a conf file; \<^verbatim>\<open>prefix\<close> is \<open>[]\<close> while it is \<^verbatim>\<open>None\<close>.\<close>

definition conf_line :: "('f, 't) world \<Rightarrow> conf_scan \<Rightarrow> string \<Rightarrow> conf_scan res" where
  "conf_line w sc line =
     (let stripped = py_strip line in
      if startswith stripped ''#'' \<or> stripped = [] then Inr sc
      else if endswith stripped '':'' then Inr (sc\<lparr>cf_prefix := hd (py_split CHR '':'' stripped)\<rparr>)
      else if cf_prefix sc \<noteq> [] \<and> py_lower (cf_prefix sc) = ''params'' then
        Inr (if equals_sign \<in> set stripped
             then sc\<lparr>cf_params := AList.update (takeWhile (\<lambda>c. c \<noteq> equals_sign) stripped)
                    (PStr (tl (dropWhile (\<lambda>c. c \<noteq> equals_sign) stripped))) (cf_params sc)\<rparr>
             else sc)
      else
        let name = (if startswith line '' '' \<and> cf_prefix sc \<noteq> [] then cf_prefix sc @ ''.'' @ stripped else stripped) in
        rbind (append_test w (cf_tests sc) name) (\<lambda>tests.
        Inr (sc\<lparr>cf_prefix := module_of (hd (py_split comma name)), cf_tests := tests\<rparr>)))"

definition parse_conf_file ::
  "('f, 't) world \<Rightarrow> string \<Rightarrow> string list \<Rightarrow> (string, pval) dict \<Rightarrow> (string list \<times> (string, pval) dict) res" where
  "parse_conf_file w filename tests params =
     (case locate_conf_file w filename of
        None \<Rightarrow> Inl system_exit
      | Some ls \<Rightarrow>
          rbind (rfold (conf_line w) \<lparr>cf_prefix = [], cf_tests = tests, cf_params = params\<rparr> ls) (\<lambda>sc.
          let ps = cf_params sc;
              ps1 = (if dict_has ps ''spec'' then ps
                     else AList.update ''spec'' (PStr (splitext_root (py_basename filename))) ps)
          in Inr (cf_tests sc, AList.update ''conf_file'' (PStr filename) ps1)))"

definition parse_global_conf_file ::
  "('f, 't) world \<Rightarrow> string \<Rightarrow> string list \<Rightarrow> (string, pval) dict \<Rightarrow> (string list \<times> (string, pval) dict) res" where
  "parse_global_conf_file w dirpath tests params =
     rfold (\<lambda>(ts, ps) f. parse_conf_file w f ts ps) (tests, params)
       (w_glob w (if w_isdir w dirpath then dirpath @ ''/**/*.conf'' else dirpath))"

section \<open>Results of earlier runs\<close>

definition dropped_field :: "string \<Rightarrow> string \<Rightarrow> bool" where
  "dropped_field sep fw \<longleftrightarrow>
     startswith fw (''logs_folder'' @ (if sep = '':'' then [] else sep)) \<or>
     startswith fw (''conf_file'' @ (if sep = '':'' then [] else sep)) \<or>
     startswith fw (''cluster_name'' @ sep) \<or> startswith fw (''ini'' @ sep) \<or> startswith fw (''case_number'' @ sep) \<or>
     startswith fw (''num_nodes'' @ sep) \<or> startswith fw (''spec'' @ sep)"

definition filter_fields :: "string \<Rightarrow> string" where
  "filter_fields testname =
     (let testwords = py_split comma testname in
      if in_str ''logs_folder:'' testname then
        concat (map (\<lambda>fw. if dropped_field '':'' fw then []
                          else replace_first CHR '':'' equals_sign fw @ (if fw \<noteq> last testwords then [comma] else [])) testwords)
      else py_join [comma] (filter (\<lambda>fw. \<not> dropped_field ''='' fw) testwords))"

definition sorted_chars :: "string \<Rightarrow> string" where
  "sorted_chars s = sort_key (of_char :: char \<Rightarrow> nat) s"

definition check_if_exists :: "string list \<Rightarrow> string \<Rightarrow> string option" where
  "check_if_exists test_list test_line = find (\<lambda>t. sorted_chars t = sorted_chars test_line) test_list"

definition check_if_exists_with_params :: "string list \<Rightarrow> string \<Rightarrow> string \<Rightarrow> string option" where
  "check_if_exists_with_params test_list test_line test_params =
     find (\<lambda>t. sorted_chars (if test_params \<noteq> [] then t @ [comma] @ py_strip test_params else t) = sorted_chars test_line) test_list"

definition transform_and_write_to_file :: "string list \<Rightarrow> string list" where
  "transform_and_write_to_file tests_list =
     foldl (\<lambda>new_test_list test.
       let line = py_rstrip (\<lambda>c. c = comma) (filter_fields test) in
       if check_if_exists new_test_list line = None then new_test_list @ [line] else new_test_list) [] tests_list"

definition transform_both :: "string list \<times> string list \<Rightarrow> string list \<times> string list" where
  "transform_both pf = (transform_and_write_to_file (fst pf), transform_and_write_to_file (snd pf))"

text \<open>The test cases of one suite: \<open>failed\<close> is set for the rest of the suite.\<close>

fun junit_cases :: "bool \<Rightarrow> xml list \<Rightarrow> string list \<times> string list" where
  "junit_cases failed [] = ([], [])"
| "junit_cases failed (tc # tcs) =
     (let tcname = attribute ''name'' tc; errors = elements ''error'' tc; failed' = (failed \<or> errors \<noteq> []);
          (p, f) = junit_cases failed' tcs
      in ((if failed' then p else tcname # p), replicate (length errors) tcname @ f))"

definition junit_doc :: "xml \<Rightarrow> string list \<times> string list" where
  "junit_doc doc =
     (let pfs = map (\<lambda>ts. junit_cases False (elements ''testcase'' ts)) (doc_elements ''testsuite'' doc)
      in (concat (map fst pfs), concat (map snd pfs)))"

fun node_text :: "xml \<Rightarrow> string" where
  "node_text (Elem t attrs children) = concat (map (\<lambda>c. case c of XText s \<Rightarrow> s | _ \<Rightarrow> []) children)"
| "node_text (XText s) = []"

definition first_elem :: "xml list \<Rightarrow> xml res" where
  "first_elem es = (case es of [] \<Rightarrow> Inl IndexError | e # _ \<Rightarrow> Inr e)"

definition testreport_case :: "string list \<times> string list \<Rightarrow> xml \<Rightarrow> (string list \<times> string list) res" where
  "testreport_case pf tc =
     rbind (first_elem (elements ''name'' tc)) (\<lambda>nm.
     rbind (first_elem (elements ''status'' tc)) (\<lambda>st.
     Inr (if node_text st = ''PASSED'' then (fst pf @ [node_text nm], snd pf) else (fst pf, snd pf @ [node_text nm]))))"

definition testreport_doc :: "string list \<times> string list \<Rightarrow> xml \<Rightarrow> (string list \<times> string list) res" where
  "testreport_doc pf doc =
     rbind (first_elem (doc_elements ''testResult'' doc)) (\<lambda>tr.
     rfold testreport_case pf (concat (map (elements ''case'') (elements ''suite'' tr))))"

definition is_url :: "string \<Rightarrow> bool" where
  "is_url s \<longleftrightarrow> startswith s ''http://'' \<or> startswith s ''https://''"

definition report_path :: "string \<Rightarrow> string" where
  "report_path url =
     (let parts = py_split CHR ''/'' url in
      ''logs/'' @ py_join ''_'' (drop (length parts - 3) parts) @ ''_testresult.xml'')"

text \<open>The result \<open>None\<close> is the pair \<^verbatim>\<open>None, None\<close> after a failed download.\<close>

definition parse_testreport_result_xml ::
  "('f, 't) world \<Rightarrow> string \<Rightarrow> (string list \<times> string list) option res" where
  "parse_testreport_result_xml w filepath =
     (if is_url filepath \<and> \<not> w_download w (filepath @ ''/testReport/api/xml?pretty=true'') then Inr None
      else
        let path = (if is_url filepath then report_path filepath else filepath);
            path1 = (if path = [] then ''logs/**/*.xml'' else path)
        in rbind (rfold testreport_doc ([], []) (map (w_xml w) (w_glob w path1))) (\<lambda>pf. Inr (Some (transform_both pf))))"

definition parse_junit_result_xml ::
  "('f, 't) world \<Rightarrow> string \<Rightarrow> (string list \<times> string list) option res" where
  "parse_junit_result_xml w filepath =
     (if is_url filepath then parse_testreport_result_xml w filepath
      else
        let pfs = map (\<lambda>f. junit_doc (w_xml w f)) (w_glob w (if filepath = [] then ''logs/**/*.xml'' else filepath))
        in Inr (Some (transform_both (concat (map fst pfs), concat (map snd pfs)))))"

section \<open>Including and excluding tests\<close>

definition exclude_lines :: "string \<Rightarrow> string list \<Rightarrow> string list \<Rightarrow> string list" where
  "exclude_lines params tests ls =
     foldl (\<lambda>ts line. case check_if_exists_with_params ts line params of None \<Rightarrow> ts | Some t \<Rightarrow> remove1 t ts) tests ls"

definition earlier_results ::
  "('f, 't) world \<Rightarrow> string \<Rightarrow> ((string list \<times> string list) option \<times> string list) res" where
  "earlier_results w opt =
     (case py_split equals_sign opt of
        [_, path] \<Rightarrow>
          rbind (if is_url path then parse_testreport_result_xml w path else parse_junit_result_xml w path) (\<lambda>r. Inr (r, []))
      | _ \<Rightarrow>
          if is_url opt then
            rbind (parse_testreport_result_xml w opt) (\<lambda>r.
            case r of None \<Rightarrow> Inl TypeError | Some (tp, tf) \<Rightarrow> Inr (r, tp @ tf))
          else rbind (parse_junit_result_xml w []) (\<lambda>r. Inr (r, [])))"

datatype filter_type = Include | Exclude | OtherFilter

definition process_filter ::
  "('f, 't) world \<Rightarrow> filter_type \<Rightarrow> string \<Rightarrow> string list \<Rightarrow> string \<Rightarrow> string list res" where
  "process_filter w filtertype opt tests params =
     (if filtertype = OtherFilter then Inr tests
      else if startswith opt ''failed'' \<or> startswith opt ''passed'' \<or> is_url opt then
        rbind (earlier_results w opt) (\<lambda>(r, tests_list).
        case r of
          None \<Rightarrow> Inr tests
        | Some (tp, tf) \<Rightarrow>
            let chosen = (if startswith opt ''failed'' \<and> tf \<noteq> [] then tf
                          else if startswith opt ''passed'' \<and> tp \<noteq> [] then tp else tests_list)
            in Inr (if filtertype = Include then chosen else exclude_lines params tests chosen))
      else if startswith opt ''file='' then
        (let filterfile = locate_conf_file w (py_split equals_sign opt ! 1) in
         if filtertype = Include then Inr (case filterfile of None \<Rightarrow> [] | Some ls \<Rightarrow> map py_strip ls)
         else (case filterfile of
                 None \<Rightarrow> Inl TypeError
               | Some ls \<Rightarrow> Inr (exclude_lines params tests (map py_strip ls))))
      else Inr (filter (\<lambda>t. w_search w opt t = (filtertype = Include)) tests))"

record options =
  op_ini :: string
  op_conf :: string
  op_testcase :: string
  op_include_tests :: string
  op_exclude_tests :: string
  op_globalsearch :: string
  op_params :: string
  op_noop :: bool

definition parse_args :: "('f, 't) world \<Rightarrow> options \<Rightarrow> (string list \<times> (string, pval) dict) res" where
  "parse_args w opts =
     (if op_ini opts = [] \<or> w_file w (op_ini opts) = None then Inl system_exit
      else if op_testcase opts = [] \<and> op_conf opts = [] \<and> op_globalsearch opts = [] \<and> op_include_tests opts = [] \<and>
        op_exclude_tests opts = [] then Inl system_exit
      else
        let params0 = [(''ini'', PStr (op_ini opts)), (''cluster_name'', PStr (splitext_root (py_basename (op_ini opts))))] in
        rbind (if op_conf opts \<noteq> [] \<and> op_globalsearch opts = [] then parse_conf_file w (op_conf opts) [] params0
               else Inr ([], params0)) (\<lambda>(tests1, params1).
        rbind (if op_globalsearch opts \<noteq> [] then parse_global_conf_file w (op_globalsearch opts) tests1 params1
               else Inr (tests1, params1)) (\<lambda>(tests2, params).
        rbind (if op_include_tests opts \<noteq> [] then process_filter w Include (op_include_tests opts) tests2 (op_params opts)
               else Inr tests2) (\<lambda>tests3.
        rbind (if op_exclude_tests opts \<noteq> [] then process_filter w Exclude (op_exclude_tests opts) tests3 (op_params opts)
               else Inr tests3) (\<lambda>tests4.
        let tests = (if op_testcase opts \<noteq> [] then tests4 @ [op_testcase opts] else tests4) in
        if op_noop opts then Inl system_exit else Inr (tests, params))))))"

section \<open>Running the tests\<close>

definition name_params :: "string \<Rightarrow> (string, string) dict" where
  "name_params name = dict_update_all [] (pair_up (map py_strip (tl (kv_split [] name))))"

text \<open>\<^verbatim>\<open>runtime_test_params[g].split(";")\<close>: a parameter given as a list has no \<^verbatim>\<open>split\<close>.\<close>

definition group_list :: "pval \<Rightarrow> string list res" where
  "group_list v = (case v of PStr s \<Rightarrow> Inr (py_split CHR '';'' s) | _ \<Rightarrow> Inl AttributeError)"

definition in_groups :: "(string, pval) dict \<Rightarrow> (string, string) dict \<Rightarrow> bool res" where
  "in_groups runtime params =
     (case map_of runtime ''GROUP'' of
        None \<Rightarrow> Inr True
      | Some g \<Rightarrow>
          rbind (group_list g) (\<lambda>wanted.
          if ''ALL'' \<in> set wanted then Inr True
          else (case map_of params ''GROUP'' of
                  None \<Rightarrow> Inr False
                | Some tg \<Rightarrow> Inr (list_all (\<lambda>run_group. run_group \<in> set (py_split CHR '';'' tg)) wanted))))"

definition in_excluded :: "(string, pval) dict \<Rightarrow> (string, string) dict \<Rightarrow> bool res" where
  "in_excluded runtime params =
     (case map_of runtime ''EXCLUDE_GROUP'' of
        None \<Rightarrow> Inr False
      | Some g \<Rightarrow>
          (case map_of params ''GROUP'' of
             None \<Rightarrow> Inr False
           | Some tg \<Rightarrow>
               rbind (group_list g) (\<lambda>unwanted. Inr (list_ex (\<lambda>x. x \<in> set (py_split CHR '';'' tg)) unwanted))))"

definition selected :: "(string, pval) dict \<Rightarrow> string \<Rightarrow> bool res" where
  "selected runtime name =
     rbind (in_groups runtime (name_params name)) (\<lambda>i.
     if \<not> i then Inr False
     else rbind (in_excluded runtime (name_params name)) (\<lambda>x. Inr (\<not> x)))"

definition test_params_of :: "(string, pval) dict \<Rightarrow> string \<Rightarrow> nat \<Rightarrow> string \<Rightarrow> (string, pval) dict" where
  "test_params_of runtime root_log_dir case_number name =
     (let ps = dict_update_all (map (\<lambda>(k, v). (k, PStr v)) (name_params name)) runtime;
          ps1 = AList.update ''logs_folder'' (PStr (root_log_dir @ ''/test_'' @ nat_str case_number))
                  (AList.update ''case_number'' (PInt (int case_number)) ps)
      in if dict_has ps1 ''rerun'' then ps1 else AList.update ''rerun'' (PInt 0) ps1)"

fun pval_true :: "pval \<Rightarrow> bool" where
  "pval_true (PStr s) = (s \<noteq> [])"
| "pval_true (PInt i) = (i \<noteq> 0)"
| "pval_true (PList xs) = (xs \<noteq> [])"

fun truthy :: "('f \<Rightarrow> bool) \<Rightarrow> 'f param_val \<Rightarrow> bool" where
  "truthy nonzero (VInt i) = (i \<noteq> 0)"
| "truthy nonzero (VFloat f) = nonzero f"
| "truthy nonzero (VBool b) = b"
| "truthy nonzero (VStr s) = (s \<noteq> [])"
| "truthy nonzero (VDefault v) = pval_true v"

definition bad :: "unit_result \<Rightarrow> bool" where
  "bad r \<longleftrightarrow> ur_failures r \<noteq> [] \<or> ur_errors r \<noteq> []"

record 't runner =
  rn_case :: nat
  rn_runs :: nat
  rn_suites :: "'t test_suite list"
  rn_results :: "(string \<times> bool) list" \<comment> \<open>name, passed\<close>
  rn_params :: "(string, pval) dict" \<comment> \<open>\<^verbatim>\<open>TestInputSingleton.input.test_params\<close>\<close>
  rn_files :: "(string \<times> xml) list"

text \<open>Load the test and run it, a second time with trace logs when it fails and \<^verbatim>\<open>rerun\<close> is set; \<^verbatim>\<open>False\<close> as
  the default of \<^verbatim>\<open>rerun\<close> converts to 0.\<close>

definition run_suite ::
  "('f, 't) world \<Rightarrow> string \<Rightarrow> 't runner \<Rightarrow> (unit_result \<times> 't runner) res" where
  "run_suite w name s =
     (case w_load w name of
        NotFound msg \<Rightarrow> Inr (\<lparr>ur_failures = [], ur_errors = [(name, msg)]\<rparr>, s)
      | LoadRaises e \<Rightarrow> Inl e
      | Suite _ \<Rightarrow>
          let r1 = w_run w (rn_runs s) name (rn_params s); s1 = s\<lparr>rn_runs := Suc (rn_runs s)\<rparr> in
          rbind (get_param (w_float w) (rn_params s) ''rerun'' None) (\<lambda>rerun.
          rbind (if \<not> truthy (w_nonzero w) rerun then Inr (r1, s1)
                 else (case r1 of
                         None \<Rightarrow> Inl AttributeError
                       | Some r \<Rightarrow>
                           if \<not> bad r then Inr (r1, s1)
                           else let ps = AList.update ''log_level'' (PStr ''debug'') (rn_params s1) in
                                Inr (w_run w (rn_runs s1) name ps, s1\<lparr>rn_params := ps, rn_runs := Suc (rn_runs s1)\<rparr>)))
            (\<lambda>(r2, s2).
          case r2 of
            Some r \<Rightarrow> Inr (r, s2)
          | None \<Rightarrow> Inr (\<lparr>ur_failures = [], ur_errors = [(name, ''Test was stopped due to timeout'')]\<rparr>,
                         s2\<lparr>rn_case := rn_case s2 + 1000\<rparr>))))"

text \<open>\<^verbatim>\<open>str\<close> of a list of strings without quotes, backslashes and control characters is that of \<open>pval_str\<close>.\<close>

definition report_of :: "string \<Rightarrow> 't \<Rightarrow> (string, pval) dict \<Rightarrow> unit_result \<Rightarrow> 't test_report" where
  "report_of name time_taken params r =
     (let ps = concat (map (\<lambda>(k, v). if k \<noteq> [] \<and> pval_true v then [comma] @ k @ [equals_sign] @ pval_str v else []) params)
      in if bad r then
           \<lparr>ta_name = name, ta_time = time_taken, ta_error_type = Some ''membase.error'',
            ta_error_message = Some (pval_str (PList (map snd (take 1 (ur_failures r) @ take 1 (ur_errors r))))),
            ta_status = ''fail'', ta_params = ps\<rparr>
         else
           \<lparr>ta_name = name, ta_time = time_taken, ta_error_type = None, ta_error_message = None,
            ta_status = ''pass'', ta_params = ps\<rparr>)"

text \<open>The body of the loop over the names: the new state and whether the loop stops.\<close>

definition run_one ::
  "('f, 't::{zero,plus}) world \<Rightarrow> ('t \<Rightarrow> string) \<Rightarrow> string \<Rightarrow> string \<Rightarrow> (string, pval) dict \<Rightarrow> 't runner \<Rightarrow> string \<Rightarrow>
    ('t runner \<times> bool) res" where
  "run_one w show_time root_log_dir str_time runtime s full_name =
     rbind (selected runtime full_name) (\<lambda>sel.
     if \<not> sel then Inr (s, False)
     else
       let name = hd (py_split comma full_name);
           s0 = s\<lparr>rn_params := test_params_of runtime root_log_dir (rn_case s) full_name\<rparr>
       in rbind (run_suite w name s0) (\<lambda>(r, s1).
          let suites = xunit_add_test (rn_suites s1) (report_of name (w_time w (rn_case s1)) (rn_params s1) r);
              s2 = s1\<lparr>rn_suites := suites, rn_results := rn_results s1 @ [(name, \<not> bad r)],
                      rn_files := xunit_write show_time (root_log_dir @ ''/report-'' @ str_time) suites,
                      rn_case := Suc (rn_case s1)\<rparr>
          in if \<not> bad r then Inr (s2, False)
             else rbind (get_param (w_float w) (rn_params s2) ''stop-on-failure'' (Some (PInt 0))) (\<lambda>v.
                  Inr (s2, truthy (w_nonzero w) v))))"

fun run_all ::
  "('f, 't::{zero,plus}) world \<Rightarrow> ('t \<Rightarrow> string) \<Rightarrow> string \<Rightarrow> string \<Rightarrow> (string, pval) dict \<Rightarrow> 't runner \<Rightarrow> string list \<Rightarrow>
    't runner res" where
  "run_all w show_time dir st runtime s [] = Inr s"
| "run_all w show_time dir st runtime s (n # ns) =
     rbind (run_one w show_time dir st runtime s n) (\<lambda>(s', stop).
     if stop then Inr s' else run_all w show_time dir st runtime s' ns)"

definition exit_code :: "'t runner \<Rightarrow> nat" where
  "exit_code s = (if dict_has (rn_params s) ''makefile'' \<and> 0 < length (filter (\<lambda>r. \<not> snd r) (rn_results s)) then 1 else 0)"

text \<open>\<^verbatim>\<open>main\<close>: \<open>t_input\<close> is the result of \<^verbatim>\<open>get_test_input\<close> (the help option makes it \<^verbatim>\<open>None\<close>).\<close>

definition run_main ::
  "('f, 't::{zero,plus}) world \<Rightarrow> ('t \<Rightarrow> string) \<Rightarrow> string \<Rightarrow> string \<Rightarrow> options \<Rightarrow> test_input option \<Rightarrow> ('t runner \<times> nat) res" where
  "run_main w show_time root_log_dir str_time opts t_input =
     rbind (parse_args w opts) (\<lambda>(names, params).
     case t_input of
       None \<Rightarrow> Inl AttributeError
     | Some t \<Rightarrow>
         let runtime = dict_update_all params (ti_test_params t) in
         rbind (run_all w show_time root_log_dir str_time runtime
                  \<lparr>rn_case = 1, rn_runs = 0, rn_suites = [], rn_results = [], rn_params = runtime, rn_files = []\<rparr> names) (\<lambda>s.
         Inr (s, exit_code s)))"

end
