(* ===== verification/Test_Runner_Props.thy ===== *)
theory Test_Runner_Props
  imports Test_Runner
begin

text \<open>
  What the test runner guarantees: which tests a conf file names, which of them are selected by their groups,
  that every selected test is run and reported once, and what is read back from a report.
\<close>

section \<open>Which tests run\<close>

definition split_groups :: "string \<Rightarrow> string set" where
  "split_groups s = set (py_split CHR '';'' s)"

text \<open>Selection by groups: a test runs exactly when the requested groups contain \<^verbatim>\<open>ALL\<close> or are all among
  the groups in the test's name (a test without groups runs only if none are requested), and none of its groups
  is excluded.\<close>

theorem group_selection:
  assumes "map_of runtime ''GROUP'' = map_option PStr wanted" and "map_of runtime ''EXCLUDE_GROUP'' = map_option PStr unwanted"
  shows "selected runtime name = Inr
    ((case wanted of
        None \<Rightarrow> True
      | Some g \<Rightarrow> ''ALL'' \<in> split_groups g \<or>
          (\<exists>tg. map_of (name_params name) ''GROUP'' = Some tg \<and> split_groups g \<subseteq> split_groups tg)) \<and>
     (case unwanted of
        None \<Rightarrow> True
      | Some g \<Rightarrow>
          (case map_of (name_params name) ''GROUP'' of
             None \<Rightarrow> True
           | Some tg \<Rightarrow> split_groups g \<inter> split_groups tg = {})))"
proof -
  have i: "in_groups runtime (name_params name) = Inr (case wanted of
        None \<Rightarrow> True
      | Some g \<Rightarrow> ''ALL'' \<in> split_groups g \<or>
          (\<exists>tg. map_of (name_params name) ''GROUP'' = Some tg \<and> split_groups g \<subseteq> split_groups tg))"
    using assms(1) by (auto simp: in_groups_def group_list_def split_groups_def list_all_iff subset_iff split: option.splits)
  have x: "in_excluded runtime (name_params name) = Inr (case unwanted of
        None \<Rightarrow> False
      | Some g \<Rightarrow>
          (case map_of (name_params name) ''GROUP'' of
             None \<Rightarrow> False
           | Some tg \<Rightarrow> split_groups g \<inter> split_groups tg \<noteq> {}))"
    using assms(2) by (auto simp: in_excluded_def group_list_def split_groups_def list_ex_iff split: option.splits)
  show ?thesis unfolding selected_def i x by (auto split: option.splits)
qed

theorem group_selection_witness:
  "selected [(''GROUP'', PStr ''P0'')] ''a.B.t,GROUP=P0;durability'' = Inr True"
proof -
  have p: "map_of (name_params ''a.B.t,GROUP=P0;durability'') ''GROUP'' = Some ''P0;durability''" by code_simp
  show ?thesis
    using group_selection [of "[(''GROUP'', PStr ''P0'')]" "Some ''P0''" None "''a.B.t,GROUP=P0;durability''"] p
    by (simp add: split_groups_def)
qed

section \<open>Every selected test is run and reported\<close>

definition report_names :: "'t test_report list \<Rightarrow> (string \<times> bool) list" where
  "report_names rs = map (\<lambda>r. (ta_name r, ta_status r \<noteq> ''fail'')) rs"

definition reported :: "('t::{zero,plus} \<Rightarrow> string) \<Rightarrow> string \<Rightarrow> 't runner \<Rightarrow> 't test_report list \<Rightarrow> bool" where
  "reported show_time prefix s rs \<longleftrightarrow> rn_suites s = foldl xunit_add_test [] rs \<and> rn_results s = report_names rs \<and>
     (rs = [] \<or> rn_files s = xunit_write show_time prefix (rn_suites s))"

lemma run_suite_keeps:
  assumes "run_suite w name s = Inr (r, s')"
  shows "rn_suites s' = rn_suites s \<and> rn_results s' = rn_results s \<and> rn_files s' = rn_files s"
  using assms
  by (auto simp: run_suite_def Let_def rbind_eq_Inr split: load_outcome.splits if_splits option.splits)

lemma report_of_simps [simp]:
  "ta_name (report_of name t ps r) = name" "ta_status (report_of name t ps r) = ''fail'' \<longleftrightarrow> bad r"
  by (simp_all add: report_of_def Let_def)

lemma run_one_cases:
  assumes "run_one w show_time dir st runtime s n = Inr (s', stop)"
    and "reported show_time (dir @ ''/report-'' @ st) s rs"
  shows "(selected runtime n = Inr False \<and> s' = s \<and> \<not> stop) \<or>
    (selected runtime n = Inr True \<and>
      (\<exists>r. ta_name r = hd (py_split comma n) \<and> reported show_time (dir @ ''/report-'' @ st) s' (rs @ [r]) \<and>
        (stop \<longrightarrow> ta_status r = ''fail'')))"
proof (cases "selected runtime n = Inr True")
  case True
  let ?s0 = "s\<lparr>rn_params := test_params_of runtime dir (rn_case s) n\<rparr>"
  obtain r s1 where rs1: "run_suite w (hd (py_split comma n)) ?s0 = Inr (r, s1)"
    using assms(1) True by (auto simp: run_one_def Let_def rbind_eq_Inr)
  let ?rep = "report_of (hd (py_split comma n)) (w_time w (rn_case s1)) (rn_params s1) r"
  have s': "rn_suites s' = xunit_add_test (rn_suites s1) ?rep" "rn_results s' = rn_results s1 @ [(hd (py_split comma n), \<not> bad r)]"
     "rn_files s' = xunit_write show_time (dir @ ''/report-'' @ st) (rn_suites s')" and b: "stop \<longrightarrow> bad r"
    using assms(1) True rs1 by (auto simp: run_one_def Let_def rbind_eq_Inr split: if_splits)
  have "reported show_time (dir @ ''/report-'' @ st) s' (rs @ [?rep])"
    using assms(2) s' run_suite_keeps [OF rs1] by (simp add: reported_def report_names_def)
  with True b show ?thesis by (intro disjI2 conjI exI [of _ ?rep]) simp_all
next
  case False
  with assms(1) show ?thesis by (auto simp: run_one_def rbind_eq_Inr split: if_splits)
qed

definition to_run :: "(string, pval) dict \<Rightarrow> string list \<Rightarrow> string list" where
  "to_run runtime names = map (\<lambda>n. hd (py_split comma n)) (filter (\<lambda>n. selected runtime n = Inr True) names)"

lemma run_all_reports:
  assumes "run_all w show_time dir st runtime s names = Inr s'"
    and "reported show_time (dir @ ''/report-'' @ st) s rs"
  shows "\<exists>k rs'. k \<le> length names \<and> reported show_time (dir @ ''/report-'' @ st) s' (rs @ rs') \<and>
    map ta_name rs' = to_run runtime (take k names) \<and>
    (k < length names \<longrightarrow> rs' \<noteq> [] \<and> ta_status (last rs') = ''fail'')"
  using assms
proof (induction names arbitrary: s rs)
  case Nil
  then show ?case by (intro exI [of _ 0] exI [of _ "[]"]) (simp add: to_run_def)
next
  case (Cons n ns)
  from Cons.prems(1) obtain s1 stop where one: "run_one w show_time dir st runtime s n = Inr (s1, stop)"
    and rest: "if stop then s' = s1 else run_all w show_time dir st runtime s1 ns = Inr s'"
    by (auto simp: rbind_eq_Inr split: if_splits)
  from run_one_cases [OF one Cons.prems(2)] show ?case
  proof
    assume a: "selected runtime n = Inr False \<and> s1 = s \<and> \<not> stop"
    with rest Cons.IH [OF _ Cons.prems(2)] obtain k rs' where k: "k \<le> length ns"
      "reported show_time (dir @ ''/report-'' @ st) s' (rs @ rs')" "map ta_name rs' = to_run runtime (take k ns)"
      "k < length ns \<longrightarrow> rs' \<noteq> [] \<and> ta_status (last rs') = ''fail''" by auto
    with a show ?thesis by (intro exI [of _ "Suc k"] exI [of _ rs']) (simp add: to_run_def)
  next
    assume "selected runtime n = Inr True \<and> (\<exists>r. ta_name r = hd (py_split comma n) \<and>
      reported show_time (dir @ ''/report-'' @ st) s1 (rs @ [r]) \<and> (stop \<longrightarrow> ta_status r = ''fail''))"
    then obtain r where r: "selected runtime n = Inr True" "ta_name r = hd (py_split comma n)"
      "reported show_time (dir @ ''/report-'' @ st) s1 (rs @ [r])" "stop \<longrightarrow> ta_status r = ''fail''" by blast
    show ?thesis
    proof (cases stop)
      case True
      with r rest show ?thesis by (intro exI [of _ 1] exI [of _ "[r]"]) (simp add: to_run_def)
    next
      case False
      with rest Cons.IH [OF _ r(3)] obtain k rs' where k: "k \<le> length ns"
        "reported show_time (dir @ ''/report-'' @ st) s' (rs @ [r] @ rs')" "map ta_name rs' = to_run runtime (take k ns)"
        "k < length ns \<longrightarrow> rs' \<noteq> [] \<and> ta_status (last rs') = ''fail''" by auto
      with r show ?thesis by (intro exI [of _ "Suc k"] exI [of _ "r # rs'"]) (simp add: to_run_def)
    qed
  qed
qed


definition sample_world :: "(unit, int) world" where
  "sample_world = \<lparr>w_file = (\<lambda>f. if f = ''x.ini'' then Some [] else None), w_isdir = (\<lambda>f. False), w_glob = (\<lambda>f. []),
     w_xml = (\<lambda>f. XText []), w_download = (\<lambda>f. False), w_search = (\<lambda>p s. False), w_load = (\<lambda>n. Suite [''t'']),
     w_run = (\<lambda>i n ps. Some \<lparr>ur_failures = [(n, ''boom'')], ur_errors = []\<rparr>), w_float = (\<lambda>s. None),
     w_nonzero = (\<lambda>f. True), w_time = (\<lambda>i. 1)\<rparr>"

definition sample_options :: options where
  "sample_options = \<lparr>op_ini = ''x.ini'', op_conf = [], op_testcase = ''a.B.t'', op_include_tests = [], op_exclude_tests = [],
     op_globalsearch = [], op_params = [], op_noop = False\<rparr>"


section \<open>Reading a report back\<close>

lemma elements_concat: "elements tag (Elem t a (map f xs)) = concat (map (\<lambda>x. (case f x of Elem t' _ _ \<Rightarrow> if t' = tag then [f x] else [] | XText _ \<Rightarrow> []) @ elements tag (f x)) xs)"
  by (simp add: comp_def)

lemma case_xml_elements:
  "elements ''testcase'' (case_xml st t) = []" "elements ''testsuite'' (case_xml st t) = []"
  "length (elements ''error'' (case_xml st t)) = (if tc_error t = None then 0 else 1)"
  "elements ''error'' (case_xml st t) = [] \<longleftrightarrow> tc_error t = None"
  by (cases "tc_error t"; simp add: case_xml_def)+

lemma concat_map_singleton: "concat (map (\<lambda>x. [f x]) xs) = map f xs"
  by (induction xs) auto

lemma suite_testcases: "elements ''testcase'' (to_xml st su) = map (case_xml st) (su_tests su)"
proof -
  have "(case case_xml st t of Elem t' _ _ \<Rightarrow> if t' = ''testcase'' then [case_xml st t] else [] | XText _ \<Rightarrow> []) = [case_xml st t]" for t
    by (simp add: case_xml_def)
  then show ?thesis unfolding to_xml_def elements_concat by (simp add: case_xml_elements concat_map_singleton)
qed

lemma suite_testsuites: "doc_elements ''testsuite'' (to_xml st su) = [to_xml st su]"
proof -
  have "elements ''testsuite'' (to_xml st su) = []"
    unfolding to_xml_def elements_concat by (auto simp: case_xml_elements) (simp add: case_xml_def)
  then show ?thesis by (simp add: doc_elements_def to_xml_def)
qed

definition full_name :: "'t test_case \<Rightarrow> string" where
  "full_name t = tc_name t @ tc_params t"

lemma case_xml_name: "attribute ''name'' (case_xml st t) = full_name t"
  by (simp add: case_xml_def full_name_def dict_get_def)

lemma junit_cases_xml:
  "junit_cases fl (map (case_xml st) ts) =
     ((if fl then [] else map full_name (takeWhile (\<lambda>t. tc_error t = None) ts)),
      map full_name (filter (\<lambda>t. tc_error t \<noteq> None) ts))"
  by (induction ts arbitrary: fl) (simp_all add: Let_def case_xml_elements case_xml_name)

text \<open>C33. A report read back: from the report of a suite \<^verbatim>\<open>parse_junit_result_xml\<close> gets exactly the failed tests
  as failed, but as passed only those that ran before the first failure of the suite: a test that passed after
  a failure is in neither list.\<close>

theorem report_read_back:
  "junit_doc (to_xml show_time su) =
     (map full_name (takeWhile (\<lambda>t. tc_error t = None) (su_tests su)),
      map full_name (filter (\<lambda>t. tc_error t \<noteq> None) (su_tests su)))"
  by (simp add: junit_doc_def suite_testsuites suite_testcases junit_cases_xml)

section \<open>Comparing test names\<close>

lemma sorted_chars_eq: "sorted_chars s = sorted_chars t \<longleftrightarrow> mset s = mset t"
proof
  let ?f = "of_char :: char \<Rightarrow> nat"
  assume "mset s = mset t"
  then have "mset (map ?f (sorted_chars t)) = mset (map ?f (sorted_chars s))" by (simp add: sorted_chars_def)
  moreover have "sorted (map ?f (sorted_chars s))" "sorted (map ?f (sorted_chars t))" by (simp_all add: sorted_chars_def)
  ultimately have "map ?f (sorted_chars s) = map ?f (sorted_chars t)"
    by (metis properties_for_sort)
  then show "sorted_chars s = sorted_chars t" by (simp add: inj_map_eq_map inj_def)
qed (metis mset_sort sorted_chars_def)

definition test_line :: "string \<Rightarrow> string" where
  "test_line t = py_rstrip (\<lambda>c. c = comma) (filter_fields t)"

text \<open>The list of tests of an earlier run: \<^verbatim>\<open>transform_and_write_to_file\<close> compares tests by the characters
  they consist of, so that for every test of the run the list has one line with the same characters, and no two
  lines with the same ones: tests whose lines are anagrams of one another become one.\<close>

theorem transform_up_to_anagrams:
  "set (transform_and_write_to_file ts) \<subseteq> test_line ` set ts \<and>
   mset ` set (transform_and_write_to_file ts) = (\<lambda>t. mset (test_line t)) ` set ts \<and>
   distinct (map mset (transform_and_write_to_file ts))"
proof (induction ts rule: rev_induct)
  case Nil
  then show ?case by (simp add: transform_and_write_to_file_def)
next
  case (snoc t ts)
  let ?r = "transform_and_write_to_file ts"
  have step: "transform_and_write_to_file (ts @ [t]) =
      (if check_if_exists ?r (test_line t) = None then ?r @ [test_line t] else ?r)"
    by (simp add: transform_and_write_to_file_def test_line_def Let_def)
  have "check_if_exists ?r (test_line t) = None \<longleftrightarrow> mset (test_line t) \<notin> mset ` set ?r"
    unfolding check_if_exists_def find_None_iff sorted_chars_eq image_iff by metis
  then show ?case unfolding step using snoc.IH by auto
qed

section \<open>Conf files\<close>

definition trimmed :: "string \<Rightarrow> bool" where
  "trimmed s \<longleftrightarrow> s \<noteq> [] \<and> \<not> py_ws (hd s) \<and> \<not> py_ws (last s)"

lemma strip_trimmed:
  assumes "trimmed s" and "\<forall>c\<in>set a. py_ws c" and "\<forall>c\<in>set b. py_ws c"
  shows "py_strip (a @ s @ b) = s"
proof -
  have drop: "dropWhile py_ws (p @ q) = q" if "\<forall>c\<in>set p. py_ws c" "q \<noteq> []" "\<not> py_ws (hd q)" for p q
    using that by (induction p) (auto simp: neq_Nil_conv)
  have "dropWhile py_ws (a @ s @ b) = s @ b" using drop [OF assms(2), of "s @ b"] assms(1) by (simp add: trimmed_def)
  moreover have "dropWhile py_ws (rev (s @ b)) = rev s"
    using drop [of "rev b" "rev s"] assms(1,3) by (simp add: trimmed_def hd_rev)
  ultimately show ?thesis by (simp add: py_strip_def py_rstrip_def)
qed

lemma split_last: "c \<notin> set t \<Longrightarrow> py_split c (s @ c # t) = py_split c s @ [t]"
proof (induction s)
  case (Cons x s)
  then show ?case by (cases "py_split c s") (auto simp: py_split_no_sep)
qed (simp add: py_split_no_sep)

lemma module_of_append: "CHR ''.'' \<notin> set t \<Longrightarrow> module_of (m @ CHR ''.'' # t) = m"
  by (simp add: module_of_def split_last py_join_split)

lemma hd_split_append: "c \<notin> set s \<Longrightarrow> hd (py_split c (s @ t)) = s @ hd (py_split c t)"
proof (induction s)
  case (Cons x s)
  then show ?case by (cases "py_split c (s @ t)") auto
qed simp

text \<open>The module and test names a conf file may use for the rule below.\<close>

definition conf_module :: "string \<Rightarrow> bool" where
  "conf_module m \<longleftrightarrow> trimmed m \<and> hd m \<noteq> CHR ''#'' \<and> CHR '':'' \<notin> set m \<and> comma \<notin> set m \<and> CHR ''*'' \<notin> set m \<and>
     py_lower m \<noteq> ''params''"

definition conf_test :: "string \<Rightarrow> bool" where
  "conf_test t \<longleftrightarrow> trimmed t \<and> hd t \<noteq> CHR ''#'' \<and> last t \<noteq> CHR '':'' \<and> CHR ''*'' \<notin> set t \<and>
     CHR ''.'' \<notin> set (hd (py_split comma t))"

lemma startswith_single: "startswith s [c] \<longleftrightarrow> s \<noteq> [] \<and> hd s = c"
  by (cases s) (auto simp: startswith_def)

lemma endswith_single: "endswith s [c] \<longleftrightarrow> s \<noteq> [] \<and> last s = c"
  by (cases s rule: rev_cases) (auto simp: endswith_def startswith_single)

lemma conf_line_test:
  assumes "conf_module (cf_prefix sc)" and "conf_test t"
  shows "conf_line w sc (''    '' @ t @ [CHR 0x0A]) = Inr (sc\<lparr>cf_tests := cf_tests sc @ [cf_prefix sc @ ''.'' @ t]\<rparr>)"
proof -
  have s: "py_strip (''    '' @ t @ [CHR 0x0A]) = t"
    using assms(2) by (intro strip_trimmed) (auto simp: conf_test_def py_ws_def)
  have p: "module_of (hd (py_split comma (cf_prefix sc @ ''.'' @ t))) = cf_prefix sc"
    using assms hd_split_append [of comma "cf_prefix sc @ ''.''" t] module_of_append [of "hd (py_split comma t)" "cf_prefix sc"]
    by (simp add: conf_module_def conf_test_def)
  have a: "append_test w (cf_tests sc) (cf_prefix sc @ ''.'' @ t) = Inr (cf_tests sc @ [cf_prefix sc @ ''.'' @ t])"
    using assms by (simp add: append_test_def wildcard_def conf_module_def conf_test_def)
  have "t \<noteq> []" "hd t \<noteq> CHR ''#''" "last t \<noteq> CHR '':''" "cf_prefix sc \<noteq> []" "py_lower (cf_prefix sc) \<noteq> ''params''"
    using assms by (auto simp: conf_module_def conf_test_def trimmed_def)
  moreover have "startswith (''    '' @ t @ [CHR 0x0A]) '' ''" by (simp add: startswith_single)
  ultimately show ?thesis
    unfolding conf_line_def Let_def s startswith_single endswith_single by (simp add: p [simplified] a [simplified])
qed

lemma conf_lines_tests:
  "conf_module (cf_prefix sc) \<Longrightarrow> \<forall>t\<in>set ts. conf_test t \<Longrightarrow>
   rfold (conf_line w) sc (map (\<lambda>t. ''    '' @ t @ [CHR 0x0A]) ts) =
     Inr (sc\<lparr>cf_tests := cf_tests sc @ map (\<lambda>t. cf_prefix sc @ ''.'' @ t) ts\<rparr>)"
proof (induction ts arbitrary: sc)
  case (Cons t ts)
  have "rfold (conf_line w) (sc\<lparr>cf_tests := cf_tests sc @ [cf_prefix sc @ ''.'' @ t]\<rparr>) (map (\<lambda>t. ''    '' @ t @ [CHR 0x0A]) ts) =
     Inr (sc\<lparr>cf_tests := cf_tests sc @ map (\<lambda>t. cf_prefix sc @ ''.'' @ t) (t # ts)\<rparr>)"
    using Cons.IH [of "sc\<lparr>cf_tests := cf_tests sc @ [cf_prefix sc @ ''.'' @ t]\<rparr>"] Cons.prems by simp
  then show ?case using conf_line_test [of sc t w] Cons.prems by simp
qed simp

lemma conf_line_module:
  assumes "conf_module m"
  shows "conf_line w sc (m @ '':'' @ [CHR 0x0A]) = Inr (sc\<lparr>cf_prefix := m\<rparr>)"
proof -
  have "py_strip ([] @ (m @ '':'') @ [CHR 0x0A]) = m @ '':''"
    using assms by (intro strip_trimmed) (auto simp: conf_module_def trimmed_def py_ws_def)
  moreover have "hd (py_split CHR '':'' (m @ '':'')) = m"
    using hd_split_append [of "CHR '':''" m "'':''"] assms by (simp add: conf_module_def)
  ultimately show ?thesis
    using assms by (simp add: conf_line_def Let_def startswith_single endswith_single conf_module_def trimmed_def)
qed

text \<open>A conf file made of modules, each a line \<^verbatim>\<open>module:\<close> followed by indented tests, adds exactly the tests
  \<^verbatim>\<open>module.test\<close> in the order of the file, after those already collected; \<^verbatim>\<open>spec\<close> defaults to the file's name
  without its extension.\<close>

theorem conf_file_tests:
  assumes "\<forall>(m, ts)\<in>set mods. conf_module m \<and> (\<forall>t\<in>set ts. conf_test t)"
    and "locate_conf_file w filename =
      Some (concat (map (\<lambda>(m, ts). (m @ '':'' @ [CHR 0x0A]) # map (\<lambda>t. ''    '' @ t @ [CHR 0x0A]) ts) mods))"
  shows "\<exists>params'. parse_conf_file w filename tests params =
      Inr (tests @ concat (map (\<lambda>(m, ts). map (\<lambda>t. m @ ''.'' @ t) ts) mods), params') \<and>
    map_of params' ''spec'' = (case map_of params ''spec'' of
       None \<Rightarrow> Some (PStr (splitext_root (py_basename filename))) | Some v \<Rightarrow> Some v) \<and>
    map_of params' ''conf_file'' = Some (PStr filename)"
proof -
  let ?ls = "\<lambda>(m, ts). (m @ '':'' @ [CHR 0x0A]) # map (\<lambda>t. ''    '' @ t @ [CHR 0x0A]) ts"
  let ?ns = "\<lambda>(m, ts). map (\<lambda>t. m @ ''.'' @ t) ts"
  have one: "rfold (conf_line w) sc (?ls (m, ts)) = Inr (sc\<lparr>cf_prefix := m, cf_tests := cf_tests sc @ ?ns (m, ts)\<rparr>)"
    if "conf_module m" "\<forall>t\<in>set ts. conf_test t" for sc m ts
    using conf_line_module [OF that(1), of w sc] conf_lines_tests [of "sc\<lparr>cf_prefix := m\<rparr>" ts w] that by simp
  have all: "\<exists>sc'. rfold (conf_line w) sc (concat (map ?ls ms)) = Inr sc' \<and>
      cf_tests sc' = cf_tests sc @ concat (map ?ns ms) \<and> cf_params sc' = cf_params sc"
    if "\<forall>(m, ts)\<in>set ms. conf_module m \<and> (\<forall>t\<in>set ts. conf_test t)" for sc ms
    using that
  proof (induction ms arbitrary: sc)
    case (Cons p ms)
    obtain m ts where p: "p = (m, ts)" by force
    let ?sc = "sc\<lparr>cf_prefix := m, cf_tests := cf_tests sc @ ?ns (m, ts)\<rparr>"
    have "rfold (conf_line w) sc (concat (map ?ls (p # ms))) = rfold (conf_line w) ?sc (concat (map ?ls ms))"
      using one [of m ts sc] Cons.prems unfolding p list.map concat.simps rfold_append by simp
    with Cons.IH [of ?sc] Cons.prems show ?case by (simp add: p)
  qed simp
  obtain sc where sc: "rfold (conf_line w) \<lparr>cf_prefix = [], cf_tests = tests, cf_params = params\<rparr> (concat (map ?ls mods)) = Inr sc"
    "cf_tests sc = tests @ concat (map ?ns mods)" "cf_params sc = params"
    using all [OF assms(1), of "\<lparr>cf_prefix = [], cf_tests = tests, cf_params = params\<rparr>"] by auto
  show ?thesis unfolding parse_conf_file_def assms(2) option.case sc(1) rbind_Inr
    by (simp add: Let_def sc(2,3) dict_has_def split: option.splits)
qed

theorem conf_file_tests_witness:
  "\<exists>params'. parse_conf_file (sample_world\<lparr>w_file := (\<lambda>f. Some [''a.B:'' @ [CHR 0x0A], ''    t1,x=1'' @ [CHR 0x0A]])\<rparr>) ''c.conf'' [] [] =
     Inr ([''a.B.t1,x=1''], params') \<and> map_of params' ''spec'' = Some (PStr ''c'')"
proof -
  have h: "\<forall>(m, ts)\<in>set [(''a.B'', [''t1,x=1''])]. conf_module m \<and> (\<forall>t\<in>set ts. conf_test t)"
    by (simp add: conf_module_def conf_test_def trimmed_def py_ws_def py_lower_def lower_char_def)
  have c: "splitext_root (py_basename ''c.conf'') = ''c''" by code_simp
  show ?thesis
    using conf_file_tests [OF h, of "sample_world\<lparr>w_file := (\<lambda>f. Some [''a.B:'' @ [CHR 0x0A], ''    t1,x=1'' @ [CHR 0x0A]])\<rparr>" "''c.conf''" "[]" "[]"]
    by (auto simp: locate_conf_file_def c)
qed

end
