(* ===== verification/Bucket_Model.thy ===== *)
theory Bucket_Model
  imports Py_Prelude
begin

text \<open>
  The framework's picture of a bucket (\<^verbatim>\<open>lib/BucketLib/bucket.py\<close>): its settings with their defaults, scopes and
  collections with the meta data the tests validate against, the statistics task shared by its users, and the
  counter of \<^verbatim>\<open>lib/common_lib.py\<close>.

  \<^item> A setting is a \<open>bval\<close>, since callers pass strings, numbers, booleans and \<^verbatim>\<open>None\<close>.
  \<^item> \<^verbatim>\<open>CbServer.cluster_profile\<close> is the argument \<open>serverless\<close> (true for that profile).
  \<^item> The methods under a lock are single steps. The started and ended tasks of \<^verbatim>\<open>manage_task\<close> are a list of events,
    as task objects come from \<^verbatim>\<open>Jython_tasks\<close>: each has the number of its creation.
\<close>

section \<open>Settings\<close>

datatype bval = BStr string | BInt int | BBool bool | BNone

type_synonym params = "(string, bval) dict"

fun bval_true :: "bval \<Rightarrow> bool" where
  "bval_true (BStr s) = (s \<noteq> [])"
| "bval_true (BInt i) = (i \<noteq> 0)"
| "bval_true (BBool b) = b"
| "bval_true BNone = False"

text \<open>\<^verbatim>\<open>int(v)\<close>.\<close>

fun bval_int :: "bval \<Rightarrow> int res" where
  "bval_int (BStr s) = py_int 10 s"
| "bval_int (BInt i) = Inr i"
| "bval_int (BBool b) = Inr (if b then 1 else 0)"
| "bval_int BNone = Inl TypeError"

section \<open>Counter\<close>

definition get_next :: "nat \<Rightarrow> nat \<times> nat" where
  "get_next index = (index, Suc index)"

section \<open>Statistics of a bucket\<close>

datatype task_event = TaskStarted nat | TaskEnded nat

record bucket_stats =
  bs_itemCount :: int
  bs_diskUsed :: int
  bs_memUsed :: int
  bs_ram :: int
  bs_manifest_uid :: nat
  bs_expected_item_count :: int
  bs_task_count :: int
  bs_task_object :: "nat option"
  bs_task_events :: "task_event list"

definition new_stats :: bucket_stats where
  "new_stats = \<lparr>bs_itemCount = 0, bs_diskUsed = 0, bs_memUsed = 0, bs_ram = 0, bs_manifest_uid = 0,
     bs_expected_item_count = 0, bs_task_count = 0, bs_task_object = None, bs_task_events = []\<rparr>"

definition increment_manifest_uid :: "bucket_stats \<Rightarrow> bucket_stats" where
  "increment_manifest_uid s = s\<lparr>bs_manifest_uid := Suc (bs_manifest_uid s)\<rparr>"

definition started :: "task_event list \<Rightarrow> nat" where
  "started es = length (filter (\<lambda>e. case e of TaskStarted _ \<Rightarrow> True | _ \<Rightarrow> False) es)"

text \<open>Stopping with a count of 1 but no task object is an attribute access on \<^verbatim>\<open>None\<close>; the lock stays taken, so
  nothing follows it.\<close>

definition manage_task :: "string \<Rightarrow> bucket_stats \<Rightarrow> bucket_stats res" where
  "manage_task operation s =
     (if operation = ''start'' then
        (let s1 = (case bs_task_object s of
                     Some _ \<Rightarrow> s
                   | None \<Rightarrow>
                       let t = started (bs_task_events s) in
                       s\<lparr>bs_task_object := Some t, bs_task_events := bs_task_events s @ [TaskStarted t]\<rparr>)
         in Inr (s1\<lparr>bs_task_count := bs_task_count s1 + 1\<rparr>))
      else if operation = ''stop'' then
        rbind (if bs_task_count s = 1 then
                 (case bs_task_object s of
                    None \<Rightarrow> Inl AttributeError
                  | Some t \<Rightarrow> Inr (s\<lparr>bs_task_object := None, bs_task_events := bs_task_events s @ [TaskEnded t]\<rparr>))
               else Inr s) (\<lambda>s1.
        Inr (s1\<lparr>bs_task_count := bs_task_count s1 - 1\<rparr>))
      else Inr s)"

section \<open>Collections and scopes\<close>

record collection_spec =
  cs_name :: string
  cs_num_items :: "int option"
  cs_maxTTL :: "int option"
  cs_history :: "bval option"

definition named_spec :: "string \<Rightarrow> collection_spec" where
  "named_spec n = \<lparr>cs_name = n, cs_num_items = None, cs_maxTTL = None, cs_history = None\<rparr>"

definition opt_get :: "'a option \<Rightarrow> 'a \<Rightarrow> 'a" where
  "opt_get v d = (case v of None \<Rightarrow> d | Some x \<Rightarrow> x)"

record collection =
  c_name :: string
  c_num_items :: int
  c_maxTTL :: int
  c_history :: bval
  c_is_dropped :: bool
  c_recreated :: nat
  c_doc_index :: "int \<times> int"
  c_sub_doc_index :: "int \<times> int"

definition new_collection :: "collection_spec \<Rightarrow> collection" where
  "new_collection sp = \<lparr>c_name = cs_name sp, c_num_items = opt_get (cs_num_items sp) 0,
     c_maxTTL = opt_get (cs_maxTTL sp) 0, c_history = opt_get (cs_history sp) (BStr ''false''), c_is_dropped = False,
     c_recreated = 0, c_doc_index = (0, 0), c_sub_doc_index = (0, 0)\<rparr>"

definition collection_flushed :: "bool \<Rightarrow> collection \<Rightarrow> collection" where
  "collection_flushed skip_resetting_num_items c =
     (let c1 = (if skip_resetting_num_items then c else c\<lparr>c_num_items := 0\<rparr>)
      in c1\<lparr>c_doc_index := (0, 0), c_sub_doc_index := (0, 0)\<rparr>)"

definition collection_recreated :: "collection_spec \<Rightarrow> collection \<Rightarrow> collection" where
  "collection_recreated sp c = c\<lparr>c_num_items := opt_get (cs_num_items sp) 0, c_maxTTL := opt_get (cs_maxTTL sp) 0,
     c_history := opt_get (cs_history sp) (BStr ''false''), c_is_dropped := False, c_recreated := Suc (c_recreated c),
     c_doc_index := (0, 0)\<rparr>"

definition collection_dict :: "collection \<Rightarrow> params" where
  "collection_dict c = [(''name'', BStr (c_name c)), (''maxTTL'', BInt (c_maxTTL c)), (''history'', c_history c)]"

record scope =
  s_name :: string
  s_collections :: "(string, collection) dict"
  s_is_dropped :: bool
  s_recreated :: nat

definition new_scope :: "string \<Rightarrow> scope" where
  "new_scope n = \<lparr>s_name = n, s_collections = [], s_is_dropped = False, s_recreated = 0\<rparr>"

definition scope_recreated :: "scope \<Rightarrow> scope" where
  "scope_recreated s = s\<lparr>s_is_dropped := False, s_recreated := Suc (s_recreated s)\<rparr>"

definition scope_dict :: "scope \<Rightarrow> params" where
  "scope_dict s = [(''name'', BStr (s_name s))]"

definition with_collections :: "scope \<Rightarrow> collection_spec list \<Rightarrow> scope" where
  "with_collections s sps =
     s\<lparr>s_collections := fold (\<lambda>sp. AList.update (cs_name sp) (new_collection sp)) sps (s_collections s)\<rparr>"

section \<open>Buckets\<close>

record serverless =
  sl_width :: bval
  sl_weight :: bval

record bucket =
  b_name :: bval
  b_bucketType :: bval
  b_replicaNumber :: bval
  b_ramQuotaMB :: bval
  b_replicaIndex :: bval
  b_storageBackend :: bval
  b_priority :: bval
  b_conflictResolutionType :: bval
  b_maxTTL :: bval
  b_flushEnabled :: bval
  b_compressionMode :: bval
  b_durability_level :: bval
  b_purge_interval :: bval
  b_autoCompactionDefined :: bval
  b_fragmentationPercentage :: bval
  b_historyDefault :: bval \<comment> \<open>\<^verbatim>\<open>historyRetentionCollectionDefault\<close>\<close>
  b_historyBytes :: bval
  b_historySeconds :: bval
  b_magmaKeyTree :: bval
  b_magmaSeqTree :: bval
  b_evictionPolicy :: bval
  b_num_vbuckets :: "int option"
  b_stats :: bucket_stats
  b_scopes :: "(string, scope) dict"
  b_serverless :: "serverless option"

definition pget :: "params \<Rightarrow> string \<Rightarrow> bval \<Rightarrow> bval" where
  "pget ps k d = dict_get ps k d"

text \<open>An ephemeral bucket falls back to \<^verbatim>\<open>noEviction\<close> for a policy it does not have.\<close>

definition eviction_policy :: "params \<Rightarrow> bval" where
  "eviction_policy ps =
     (if pget ps ''bucketType'' (BStr ''couchbase'') = BStr ''ephemeral'' then
        (let p = pget ps ''evictionPolicy'' (BStr ''noEviction'') in
         if p \<in> {BStr ''nruEviction'', BStr ''noEviction''} then p else BStr ''noEviction'')
      else pget ps ''evictionPolicy'' (BStr ''fullEviction''))"

definition default_scopes :: "bool \<Rightarrow> bval \<Rightarrow> (string, scope) dict" where
  "default_scopes serverless_profile hist =
     [(''_default'', with_collections (new_scope ''_default'') [(named_spec ''_default'')\<lparr>cs_history := Some hist\<rparr>]),
      (''_system'', with_collections (new_scope ''_system'')
         (map named_spec ([''_query'', ''_mobile''] @ (if serverless_profile then [''_eventing'', ''_transactions''] else []))))]"

definition bucket_init :: "bool \<Rightarrow> params \<Rightarrow> bucket res" where
  "bucket_init serverless_profile ps =
     rbind (let v = pget ps ''numVBuckets'' BNone in
            if bval_true v then rbind (bval_int v) (\<lambda>i. Inr (Some i)) else Inr None) (\<lambda>num_vbs.
     let backend = pget ps ''storageBackend'' (BStr ''magma'');
         hist = pget ps ''historyRetentionCollectionDefault'' (BStr ''true'');
         width = pget ps ''width'' BNone; weight = pget ps ''weight'' BNone
     in Inr \<lparr>b_name = pget ps ''name'' (BStr ''default''),
       b_bucketType = pget ps ''bucketType'' (BStr ''couchbase''),
       b_replicaNumber = pget ps ''replicaNumber'' (BInt 1),
       b_ramQuotaMB = pget ps ''ramQuotaMB'' (BInt 256),
       b_replicaIndex = pget ps ''replicaIndex'' (BInt 1),
       b_storageBackend = backend,
       b_priority = pget ps ''priority'' (BStr ''low''),
       b_conflictResolutionType = pget ps ''conflictResolutionType'' (BStr ''seqno''),
       b_maxTTL = pget ps ''maxTTL'' (BInt 0),
       b_flushEnabled = pget ps ''flushEnabled'' (BInt 0),
       b_compressionMode = pget ps ''compressionMode'' (BStr ''passive''),
       b_durability_level = pget ps ''durabilityMinLevel'' (BStr ''none''),
       b_purge_interval = pget ps ''purge_interval'' (BInt 1),
       b_autoCompactionDefined = pget ps ''autoCompactionDefined'' (BStr ''false''),
       b_fragmentationPercentage = pget ps ''fragmentationPercentage'' (BBool False),
       b_historyDefault = hist,
       b_historyBytes = pget ps ''historyRetentionBytes'' (BInt 0),
       b_historySeconds = pget ps ''historyRetentionSeconds'' (BInt 0),
       b_magmaKeyTree = pget ps ''magmaKeyTreeDataBlockSize'' (BInt 4096),
       b_magmaSeqTree = pget ps ''magmaSeqTreeDataBlockSize'' (BInt 4096),
       b_evictionPolicy = eviction_policy ps,
       b_num_vbuckets = num_vbs,
       b_stats = new_stats,
       b_scopes = default_scopes serverless_profile (if backend = BStr ''magma'' then hist else BStr ''false''),
       b_serverless = (if weight \<noteq> BNone \<and> width \<noteq> BNone then Some \<lparr>sl_width = width, sl_weight = weight\<rparr> else None)\<rparr>)"

text \<open>The names in the class that are neither private nor callable: the settings and the three counters.\<close>

definition get_params :: "string list" where
  "get_params = [''name'', ''ramQuotaMB'', ''bucketType'', ''replicaNumber'', ''evictionPolicy'', ''priority'',
     ''flushEnabled'', ''conflictResolutionType'', ''storageBackend'', ''maxTTL'', ''replicaIndex'', ''threadsNumber'',
     ''compressionMode'', ''uuid'', ''durabilityMinLevel'', ''purge_interval'', ''autoCompactionDefined'',
     ''fragmentationPercentage'', ''numVBuckets'', ''width'', ''weight'', ''historyRetentionCollectionDefault'',
     ''historyRetentionSeconds'', ''historyRetentionBytes'', ''magmaKeyTreeDataBlockSize'',
     ''magmaSeqTreeDataBlockSize'', ''bucket_counter'', ''scope_counter'', ''collection_counter'']"

section \<open>Changing a scope or a collection in place\<close>

definition update_scope :: "string \<Rightarrow> (scope \<Rightarrow> scope) \<Rightarrow> bucket \<Rightarrow> bucket" where
  "update_scope sn f b = (case map_of (b_scopes b) sn of
     None \<Rightarrow> b | Some s \<Rightarrow> b\<lparr>b_scopes := AList.update sn (f s) (b_scopes b)\<rparr>)"

definition update_collection :: "string \<Rightarrow> string \<Rightarrow> (collection \<Rightarrow> collection) \<Rightarrow> bucket \<Rightarrow> bucket" where
  "update_collection sn cn f =
     update_scope sn (\<lambda>s. case map_of (s_collections s) cn of
       None \<Rightarrow> s | Some c \<Rightarrow> s\<lparr>s_collections := AList.update cn (f c) (s_collections s)\<rparr>)"

definition the_collection :: "bucket \<Rightarrow> string \<Rightarrow> string \<Rightarrow> collection option" where
  "the_collection b sn cn = Option.bind (map_of (b_scopes b) sn) (\<lambda>s. map_of (s_collections s) cn)"

definition none_to :: "bval \<Rightarrow> bval \<Rightarrow> bval" where
  "none_to d v = (if v = BNone then d else v)"

text \<open>\<^verbatim>\<open>set_defaults\<close>: the key-tree block size is set only under the test on the other one, which has just
  been given a value.\<close>

definition set_defaults :: "bucket \<Rightarrow> bucket res" where
  "set_defaults b =
     (if b_storageBackend b = BStr ''magma'' then
        (let seq = none_to (BInt 4096) (b_magmaSeqTree b);
             b1 = b\<lparr>b_historyDefault := none_to (BStr ''true'') (b_historyDefault b),
                    b_historySeconds := none_to (BInt 0) (b_historySeconds b),
                    b_historyBytes := none_to (BInt 0) (b_historyBytes b),
                    b_magmaSeqTree := seq,
                    b_magmaKeyTree := (if seq = BNone then BInt 4096 else b_magmaKeyTree b)\<rparr>
         in if the_collection b1 ''_default'' ''_default'' = None then Inl KeyError
            else Inr (update_collection ''_default'' ''_default'' (\<lambda>c. c\<lparr>c_history := b_historyDefault b1\<rparr>) b1))
      else Inr b)"

section \<open>Sample buckets\<close>

definition sample_bucket :: "bool \<Rightarrow> string \<Rightarrow> int \<Rightarrow> int \<Rightarrow> bucket res" where
  "sample_bucket serverless_profile name expected num_items =
     rbind (bucket_init serverless_profile [(''name'', BStr name)]) (\<lambda>b.
     Inr (update_collection ''_default'' ''_default'' (\<lambda>c. c\<lparr>c_num_items := num_items\<rparr>)
       (b\<lparr>b_stats := (b_stats b)\<lparr>bs_expected_item_count := expected\<rparr>\<rparr>)))"

text \<open>Every inventory collection is stored under the scope's own name.\<close>

definition travel_sample :: "bool \<Rightarrow> bucket res" where
  "travel_sample serverless_profile =
     rbind (sample_bucket serverless_profile ''travel-sample'' 63288 31591) (\<lambda>b.
     let sc = (new_scope ''inventory'')\<lparr>s_collections :=
           fold (\<lambda>(n, k). AList.update ''inventory'' (new_collection ((named_spec n)\<lparr>cs_num_items := Some k\<rparr>)))
             [(''airline'', 187), (''airport'', 1968), (''hotel'', 917), (''landmark'', 4495), (''route'', 24024)] []\<rparr>
     in Inr (b\<lparr>b_scopes := AList.update ''inventory'' sc (b_scopes b)\<rparr>))"

definition beer_sample :: "bool \<Rightarrow> bucket res" where
  "beer_sample serverless_profile = sample_bucket serverless_profile ''beer-sample'' 7303 7303"

definition gamesim_sample :: "bool \<Rightarrow> bucket res" where
  "gamesim_sample serverless_profile = sample_bucket serverless_profile ''gamesim-sample'' 586 586"

section \<open>The statistics task is shared\<close>

lemma started_append [simp]: "started (es @ [TaskStarted t]) = Suc (started es)" "started (es @ [TaskEnded t]) = started es"
  by (simp_all add: started_def)

definition ended :: "task_event list \<Rightarrow> nat" where
  "ended es = length (filter (\<lambda>e. case e of TaskEnded _ \<Rightarrow> True | _ \<Rightarrow> False) es)"

lemma ended_append [simp]: "ended (es @ [TaskStarted t]) = ended es" "ended (es @ [TaskEnded t]) = Suc (ended es)"
  by (simp_all add: ended_def)

text \<open>What holds between calls: a task object exists exactly while the count is positive.\<close>

definition stats_inv :: "bucket_stats \<Rightarrow> bool" where
  "stats_inv s \<longleftrightarrow> 0 \<le> bs_task_count s \<and> (bs_task_object s = None \<longleftrightarrow> bs_task_count s = 0) \<and>
     started (bs_task_events s) = ended (bs_task_events s) + (if bs_task_count s = 0 then 0 else 1)"

lemma manage_task_step:
  assumes "stats_inv s" and "op = ''start'' \<or> op = ''stop'' \<and> 0 < bs_task_count s"
  shows "\<exists>s'. manage_task op s = Inr s' \<and> stats_inv s' \<and>
    bs_task_count s' = bs_task_count s + (if op = ''start'' then 1 else -1)"
  using assms
  by (cases "bs_task_object s") (auto simp: manage_task_def stats_inv_def Let_def)

fun balanced :: "int \<Rightarrow> string list \<Rightarrow> bool" where
  "balanced n [] = (n = 0)"
| "balanced n (op # ops) =
     (if op = ''start'' then balanced (n + 1) ops else op = ''stop'' \<and> 0 < n \<and> balanced (n - 1) ops)"

lemma manage_task_run:
  assumes "stats_inv s" and "balanced (bs_task_count s) ops"
  shows "(\<exists>s'. rfold (\<lambda>s op. manage_task op s) s ops = Inr s' \<and> stats_inv s' \<and> bs_task_count s' = 0) \<and>
    (\<exists>s'. rfold (\<lambda>s op. manage_task op s) s (take n ops) = Inr s' \<and> stats_inv s')"
  using assms
proof (induction ops arbitrary: s n)
  case (Cons op ops)
  then have "op = ''start'' \<or> op = ''stop'' \<and> 0 < bs_task_count s" by (auto split: if_splits)
  from manage_task_step [OF Cons.prems(1) this] obtain s' where s': "manage_task op s = Inr s'" "stats_inv s'"
    "bs_task_count s' = bs_task_count s + (if op = ''start'' then 1 else -1)" by blast
  moreover have "balanced (bs_task_count s') ops" using Cons.prems(2) s'(3) by (auto split: if_splits)
  ultimately show ?case using Cons.IH [of s'] Cons.prems(1) by (cases n) auto
qed simp

text \<open>C34. The statistics task of a bucket is shared: for any sequence of starts and stops in which every stop
  follows a start of its own, \<^verbatim>\<open>manage_task\<close> never fails, after every prefix of it at most one task runs and the
  bucket has a task object exactly if one does, and at the end every started task has been ended.\<close>

theorem stats_task_shared:
  assumes "balanced 0 ops"
  shows "(\<exists>s. rfold (\<lambda>s op. manage_task op s) new_stats ops = Inr s \<and> bs_task_object s = None \<and>
      started (bs_task_events s) = ended (bs_task_events s)) \<and>
    (\<exists>s. rfold (\<lambda>s op. manage_task op s) new_stats (take n ops) = Inr s \<and>
      started (bs_task_events s) = ended (bs_task_events s) + (if bs_task_object s = None then 0 else 1))"
proof -
  have "stats_inv new_stats" by (simp add: stats_inv_def new_stats_def started_def ended_def)
  with manage_task_run [of new_stats ops n] assms show ?thesis by (auto simp: new_stats_def stats_inv_def)
qed

theorem stats_task_shared_witness:
  "\<exists>s. rfold (\<lambda>s op. manage_task op s) new_stats [''start'', ''start'', ''stop'', ''stop''] = Inr s \<and> bs_task_object s = None"
  using stats_task_shared [of "[''start'', ''start'', ''stop'', ''stop'']" 0] by auto

end
