(* ===== verification/Manifest.thy ===== *)
theory Manifest
  imports Bucket_Model
begin

text \<open>
  Scopes and collections of a bucket as the tests keep them: \<^verbatim>\<open>CollectionUtils\<close> and \<^verbatim>\<open>ScopeUtils\<close> of
  \<^verbatim>\<open>couchbase_utils/bucket_utils/bucket_ready_functions.py\<close>, the totals computed from them and the random choice
  of buckets, scopes and collections.

  \<^item> A call of the REST API is its status: a \<open>bool\<close> argument, or in the loops the function \<open>rest\<close> from the number of
    the call to its status. Names of \<^verbatim>\<open>get_random_name\<close> are the function \<open>rand\<close>, numbered the same way.
  \<^item> Every operation returns the bucket too, since an exception leaves earlier changes in place.
  \<^item> \<^verbatim>\<open>random.sample\<close> is the argument \<open>smp\<close>; the lists made from Python sets are in the order of their source.
\<close>

section \<open>Looking up\<close>

definition get_scope_obj :: "bucket \<Rightarrow> string \<Rightarrow> scope option" where
  "get_scope_obj b scope_name = map_of (b_scopes b) scope_name"

definition get_collection_obj :: "scope \<Rightarrow> string \<Rightarrow> collection option" where
  "get_collection_obj s collection_name = map_of (s_collections s) collection_name"

text \<open>Names and objects together; \<^verbatim>\<open>only_names\<close> chooses the first components. A missing scope is \<^verbatim>\<open>None\<close>, which
  has no collections.\<close>

definition get_active_collections :: "bucket \<Rightarrow> string \<Rightarrow> (string \<times> collection) list res" where
  "get_active_collections b scope_name =
     (case get_scope_obj b scope_name of
        None \<Rightarrow> Inl AttributeError
      | Some s \<Rightarrow> Inr (filter (\<lambda>(_, c). \<not> c_is_dropped c) (s_collections s)))"

definition get_active_scopes :: "bucket \<Rightarrow> (string \<times> scope) list" where
  "get_active_scopes b = filter (\<lambda>(_, s). \<not> s_is_dropped s) (b_scopes b)"

section \<open>Collections\<close>

definition default_history :: "bucket \<Rightarrow> bval" where
  "default_history b = (if b_storageBackend b = BStr ''magma'' then b_historyDefault b else BStr ''false'')"

definition create_collection_object :: "string \<Rightarrow> collection_spec \<Rightarrow> bucket \<Rightarrow> bucket res" where
  "create_collection_object scope_name spec b =
     (case get_scope_obj b scope_name of
        None \<Rightarrow> Inl AttributeError
      | Some s \<Rightarrow>
          let spec' = (case cs_history spec of Some _ \<Rightarrow> spec | None \<Rightarrow> spec\<lparr>cs_history := Some (default_history b)\<rparr>) in
          Inr (case get_collection_obj s (cs_name spec) of
                 Some _ \<Rightarrow> update_collection scope_name (cs_name spec) (collection_recreated spec') b
               | None \<Rightarrow> update_scope scope_name
                   (\<lambda>s. s\<lparr>s_collections := AList.update (cs_name spec) (new_collection spec') (s_collections s)\<rparr>) b))"

definition set_history_retention_for_collection :: "bool \<Rightarrow> string \<Rightarrow> string \<Rightarrow> bval \<Rightarrow> bucket \<Rightarrow> bool res \<times> bucket" where
  "set_history_retention_for_collection status sn cn history b =
     (if \<not> status then (Inr False, b)
      else (case the_collection b sn cn of
              None \<Rightarrow> (Inl KeyError, b)
            | Some _ \<Rightarrow> (Inr True, update_collection sn cn (\<lambda>c. c\<lparr>c_history := history\<rparr>) b)))"

definition on_collection :: "string \<Rightarrow> string \<Rightarrow> (collection \<Rightarrow> collection) \<Rightarrow> bucket \<Rightarrow> bucket res" where
  "on_collection sn cn f b =
     (case get_scope_obj b sn of
        None \<Rightarrow> Inl AttributeError
      | Some s \<Rightarrow>
          (case get_collection_obj s cn of
             None \<Rightarrow> Inl AttributeError
           | Some _ \<Rightarrow> Inr (update_collection sn cn f b)))"

definition mark_collection_as_dropped :: "string \<Rightarrow> string \<Rightarrow> bucket \<Rightarrow> bucket res" where
  "mark_collection_as_dropped sn cn = on_collection sn cn (\<lambda>c. c\<lparr>c_is_dropped := True\<rparr>)"

definition mark_collection_as_flushed :: "string \<Rightarrow> string \<Rightarrow> bool \<Rightarrow> bucket \<Rightarrow> bucket res" where
  "mark_collection_as_flushed sn cn skip_resetting = on_collection sn cn (collection_flushed skip_resetting)"

definition bump_uid :: "bucket \<Rightarrow> bucket" where
  "bump_uid b = b\<lparr>b_stats := increment_manifest_uid (b_stats b)\<rparr>"

definition after_rest :: "bool \<Rightarrow> string \<Rightarrow> (bucket \<Rightarrow> bucket) \<Rightarrow> (bucket \<Rightarrow> bucket res) \<Rightarrow> bucket \<Rightarrow> unit res \<times> bucket" where
  "after_rest status msg uid f b =
     (if \<not> status then (Inl (Raised msg), b)
      else (case f (uid b) of Inl e \<Rightarrow> (Inl e, uid b) | Inr b' \<Rightarrow> (Inr (), b')))"

definition create_collection :: "bool \<Rightarrow> string \<Rightarrow> collection_spec \<Rightarrow> bucket \<Rightarrow> unit res \<times> bucket" where
  "create_collection status sn spec =
     after_rest status ''create_collection failed'' bump_uid (create_collection_object sn spec)"

definition drop_collection :: "bool \<Rightarrow> string \<Rightarrow> string \<Rightarrow> bucket \<Rightarrow> unit res \<times> bucket" where
  "drop_collection status sn cn = after_rest status ''delete_collection'' bump_uid (mark_collection_as_dropped sn cn)"

definition flush_collection :: "bool \<Rightarrow> string \<Rightarrow> string \<Rightarrow> bucket \<Rightarrow> unit res \<times> bucket" where
  "flush_collection status sn cn = after_rest status ''delete_collection'' (\<lambda>b. b) (mark_collection_as_flushed sn cn False)"

text \<open>\<^verbatim>\<open>create_collections\<close>: the loop need not end, as a name that is taken is drawn again. An exception inside the
  \<^verbatim>\<open>try\<close>, the one for a duplicate included, is swallowed when the name was taken and random.\<close>

definition collection_active :: "bucket \<Rightarrow> string \<Rightarrow> string \<Rightarrow> bool" where
  "collection_active b sn cn \<longleftrightarrow> (case the_collection b sn cn of None \<Rightarrow> False | Some c \<Rightarrow> \<not> c_is_dropped c)"

definition next_name :: "(nat \<Rightarrow> string) \<Rightarrow> string \<Rightarrow> string option \<Rightarrow> bool \<Rightarrow> nat \<Rightarrow> nat \<Rightarrow> string" where
  "next_name rand sn collection_name with_scope_name i created =
     (if created = 0 \<and> with_scope_name then sn
      else (case collection_name of None \<Rightarrow> rand i | Some n \<Rightarrow> n @ ''_'' @ nat_str created))"

definition dict_add :: "string \<Rightarrow> string list \<Rightarrow> string list" where
  "dict_add k ks = (if k \<in> set ks then ks else ks @ [k])"

partial_function (option) cc_loop ::
  "(nat \<Rightarrow> bool) \<Rightarrow> (nat \<Rightarrow> string) \<Rightarrow> string \<Rightarrow> string option \<Rightarrow> bool \<Rightarrow> nat \<Rightarrow> nat \<Rightarrow> nat \<Rightarrow> string list \<Rightarrow> bucket \<Rightarrow>
    (string list res \<times> nat \<times> bucket) option" where
  "cc_loop rest rand sn cname wsn n i created names b =
     (if n \<le> created then Some (Inr names, i, b)
      else
        (let col = next_name rand sn cname wsn i created;
             taken = collection_active b sn col;
             rb = create_collection (rest i) sn (named_spec col) b
         in if is_ok (fst rb) \<and> \<not> taken
            then cc_loop rest rand sn cname wsn n (Suc i) (Suc created) (dict_add col names) (snd rb)
            else if taken \<and> cname = None then cc_loop rest rand sn cname wsn n (Suc i) created names (snd rb)
            else Some (Inl (Raised ''Exception''), Suc i, snd rb)))"

declare cc_loop.simps [code]

definition create_collections ::
  "(nat \<Rightarrow> bool) \<Rightarrow> (nat \<Rightarrow> string) \<Rightarrow> nat \<Rightarrow> nat \<Rightarrow> string \<Rightarrow> string option \<Rightarrow> bool \<Rightarrow> bucket \<Rightarrow>
    (string list res \<times> nat \<times> bucket) option" where
  "create_collections rest rand i num_collections sn cname wsn b =
     (if map_of (b_scopes b) sn = None then Some (Inl KeyError, i, b)
      else cc_loop rest rand sn cname wsn num_collections i 0 [] b)"

section \<open>Scopes\<close>

definition create_scope_object :: "string \<Rightarrow> bucket \<Rightarrow> bucket" where
  "create_scope_object sn b =
     (case get_scope_obj b sn of
        Some _ \<Rightarrow> update_scope sn scope_recreated b
      | None \<Rightarrow> b\<lparr>b_scopes := AList.update sn (new_scope sn) (b_scopes b)\<rparr>)"

definition mark_scope_as_dropped :: "string \<Rightarrow> bucket \<Rightarrow> bucket res" where
  "mark_scope_as_dropped sn b =
     (case get_scope_obj b sn of
        None \<Rightarrow> Inl AttributeError
      | Some s \<Rightarrow>
          rbind (rfold (\<lambda>b cn. mark_collection_as_dropped (s_name s) cn b) b (map fst (s_collections s))) (\<lambda>b'.
          Inr (update_scope sn (\<lambda>s. s\<lparr>s_is_dropped := True\<rparr>) b')))"

definition create_scope :: "bool \<Rightarrow> string \<Rightarrow> bucket \<Rightarrow> unit res \<times> bucket" where
  "create_scope status sn = after_rest status ''create_scope failed'' bump_uid (\<lambda>b. Inr (create_scope_object sn b))"

definition drop_scope :: "bool \<Rightarrow> string \<Rightarrow> bucket \<Rightarrow> unit res \<times> bucket" where
  "drop_scope status sn = after_rest status ''delete_scope failed'' bump_uid (mark_scope_as_dropped sn)"

definition scope_active :: "bucket \<Rightarrow> string \<Rightarrow> bool" where
  "scope_active b sn \<longleftrightarrow> (case map_of (b_scopes b) sn of None \<Rightarrow> False | Some s \<Rightarrow> \<not> s_is_dropped s)"

definition finish_scope ::
  "string \<Rightarrow> (string, string list) dict \<Rightarrow> (string list res \<times> nat \<times> bucket) \<Rightarrow> (string, string list) dict res \<times> nat \<times> bucket" where
  "finish_scope sn made r = (case r of
     (Inl e, i, b) \<Rightarrow> (Inl (Raised ''Exception''), i, b)
   | (Inr names, i, b) \<Rightarrow> (Inr (AList.update sn names made), i, b))"

partial_function (option) cs_loop ::
  "(nat \<Rightarrow> bool) \<Rightarrow> (nat \<Rightarrow> string) \<Rightarrow> string option \<Rightarrow> nat \<Rightarrow> nat \<Rightarrow> nat \<Rightarrow> nat \<Rightarrow> (string, string list) dict \<Rightarrow> bucket \<Rightarrow>
    ((string, string list) dict res \<times> nat \<times> bucket) option" where
  "cs_loop rest rand sname n k i created made b =
     (if n \<le> created then Some (Inr made, i, b)
      else
        (let sn = (case sname of None \<Rightarrow> rand i | Some s \<Rightarrow> s @ ''_'' @ nat_str created);
             taken = scope_active b sn;
             rb = create_scope (rest i) sn b
         in if is_ok (fst rb) \<and> \<not> taken
            then Option.bind (create_collections rest rand (Suc i) k sn None False (snd rb)) (\<lambda>r.
                 case finish_scope sn made r of
                   (Inl e, i', b') \<Rightarrow> Some (Inl e, i', b')
                 | (Inr made', i', b') \<Rightarrow> cs_loop rest rand sname n k i' (Suc created) made' b')
            else if taken \<and> sname = None then cs_loop rest rand sname n k (Suc i) created made (snd rb)
            else Some (Inl (Raised ''Exception''), Suc i, snd rb)))"

declare cs_loop.simps [code]

definition create_scopes ::
  "(nat \<Rightarrow> bool) \<Rightarrow> (nat \<Rightarrow> string) \<Rightarrow> nat \<Rightarrow> string option \<Rightarrow> nat \<Rightarrow> bucket \<Rightarrow>
    ((string, string list) dict res \<times> nat \<times> bucket) option" where
  "create_scopes rest rand num_scopes sname collection_count b = cs_loop rest rand sname num_scopes collection_count 0 0 [] b"

section \<open>Totals\<close>

definition get_bucket_obj :: "bucket list \<Rightarrow> string \<Rightarrow> bucket option" where
  "get_bucket_obj buckets bucket_name = find (\<lambda>b. b_name b = BStr bucket_name) buckets"

definition get_expected_total_num_items :: "bucket \<Rightarrow> int res" where
  "get_expected_total_num_items b =
     rfold (\<lambda>num_items (_, s).
       rbind (get_active_collections b (s_name s)) (\<lambda>cs.
       Inr (num_items + sum_list (map (\<lambda>(_, c). c_num_items c) cs)))) 0 (get_active_scopes b)"

definition get_total_collections_in_bucket :: "bucket \<Rightarrow> nat res" where
  "get_total_collections_in_bucket b =
     rfold (\<lambda>n (_, s).
       if s_is_dropped s then Inr n
       else rbind (get_active_collections b (s_name s)) (\<lambda>cs. Inr (n + length cs))) 0 (get_active_scopes b)"

text \<open>\<^verbatim>\<open>validate_bucket_collection_hierarchy\<close> against the counts of \<^verbatim>\<open>cbstats\<close>: the number of scopes, of collections
  per scope and of items per collection. A scope or collection that the server does not list is a \<^verbatim>\<open>KeyError\<close>.\<close>

definition check_collections ::
  "(string \<times> (string \<times> int) list) list \<Rightarrow> string \<Rightarrow> bool \<Rightarrow> (string \<times> collection) list \<Rightarrow> bool res" where
  "check_collections collection_data sname status cs =
     rfold (\<lambda>status (_, c).
       rbind (dict_lookup collection_data sname) (\<lambda>per_scope.
       rbind (dict_lookup per_scope (c_name c)) (\<lambda>items.
       Inr (status \<and> items = c_num_items c)))) status cs"

definition validate_bucket_collection_hierarchy ::
  "nat \<Rightarrow> (string, nat) dict \<Rightarrow> (string \<times> (string \<times> int) list) list \<Rightarrow> bucket \<Rightarrow> bool res" where
  "validate_bucket_collection_hierarchy scope_count collection_counts collection_data b =
     rfold (\<lambda>status (_, s).
       rbind (get_active_collections b (s_name s)) (\<lambda>cs.
       rbind (dict_lookup collection_counts (s_name s)) (\<lambda>n.
       check_collections collection_data (s_name s) (status \<and> length cs = n) cs)))
       (length (get_active_scopes b) = scope_count) (get_active_scopes b)"

text \<open>\<^verbatim>\<open>validate_manifest_uid\<close>: the server's UID is a hexadecimal string.\<close>

definition validate_manifest_uid :: "string \<Rightarrow> bucket \<Rightarrow> bool res" where
  "validate_manifest_uid manifest_uid b =
     rbind (py_int 16 manifest_uid) (\<lambda>uid. Inr (int (bs_manifest_uid (b_stats b)) = uid))"

section \<open>Random choice of buckets, scopes and collections\<close>

datatype req_num = All | Num int

text \<open>The common step: everything that is not excluded when all or at least as many as there are are asked for (the
  number is compared before the exclusion), otherwise a sample of what is not excluded.\<close>

definition pick :: "(string list \<Rightarrow> nat \<Rightarrow> string list) \<Rightarrow> req_num \<Rightarrow> string list \<Rightarrow> string list \<Rightarrow> string list res" where
  "pick smp req avail excluded =
     (let left = remdups (filter (\<lambda>x. x \<notin> set excluded) avail) in
      case req of
        All \<Rightarrow> Inr left
      | Num n \<Rightarrow>
          if int (length avail) \<le> n then Inr left
          else if n < 0 \<or> int (length left) < n then Inl ValueError
          else Inr (smp left (nat n)))"

type_synonym selection = "(string, (string, string list) dict) dict"

definition bucket_str :: "bucket \<Rightarrow> string" where
  "bucket_str b = (case b_name b of BStr s \<Rightarrow> s | _ \<Rightarrow> [])"

definition get_random_buckets ::
  "(string list \<Rightarrow> nat \<Rightarrow> string list) \<Rightarrow> bucket list \<Rightarrow> req_num \<Rightarrow> string list \<Rightarrow> selection res" where
  "get_random_buckets smp buckets req exclude_from =
     (let names = map bucket_str buckets in
      rbind (if (case req of All \<Rightarrow> True | Num n \<Rightarrow> int (length buckets) \<le> n) then Inr names
             else pick smp req names exclude_from) (\<lambda>sel.
      Inr (fold (\<lambda>n. AList.update n []) sel [])))"

definition scope_candidates :: "bool \<Rightarrow> bool \<Rightarrow> bucket list \<Rightarrow> string \<Rightarrow> string list res" where
  "scope_candidates avoid_default consider_only_dropped buckets bn =
     (case get_bucket_obj buckets bn of
        None \<Rightarrow> Inl AttributeError
      | Some b \<Rightarrow>
          let active = map fst (get_active_scopes b);
              names = (if consider_only_dropped then filter (\<lambda>n. n \<notin> set active) (map fst (b_scopes b)) else active)
          in Inr (map (\<lambda>n. bn @ '':'' @ n)
               (filter (\<lambda>n. \<not> (n = ''_system'' \<or> n = ''_default'' \<and> avoid_default)) names)))"

definition add_scope :: "selection \<Rightarrow> string \<Rightarrow> selection res" where
  "add_scope sel full =
     (case py_split CHR '':'' full of
        bn # sn # _ \<Rightarrow>
          rbind (dict_lookup sel bn) (\<lambda>scs. Inr (AList.update bn (AList.update sn [] scs) sel))
      | _ \<Rightarrow> Inl IndexError)"

definition excluded_scopes :: "selection \<Rightarrow> string list" where
  "excluded_scopes excl = concat (map (\<lambda>(bn, scs). map (\<lambda>(sn, _). bn @ '':'' @ sn) scs) excl)"

definition get_random_scopes ::
  "(string list \<Rightarrow> nat \<Rightarrow> string list) \<Rightarrow> bucket list \<Rightarrow> req_num \<Rightarrow> req_num \<Rightarrow> bool \<Rightarrow> bool \<Rightarrow> selection \<Rightarrow> selection res" where
  "get_random_scopes smp buckets req consider_buckets avoid_default consider_only_dropped exclude_from =
     rbind (get_random_buckets smp buckets consider_buckets []) (\<lambda>sel0.
     rbind (rmap (scope_candidates avoid_default consider_only_dropped buckets) (map fst sel0)) (\<lambda>avail.
     rbind (pick smp req (concat avail) (excluded_scopes exclude_from)) (\<lambda>chosen.
     rfold add_scope sel0 chosen)))"

definition collection_candidates :: "bool \<Rightarrow> bucket list \<Rightarrow> string \<times> string \<Rightarrow> string list res" where
  "collection_candidates consider_only_dropped buckets bs =
     (case bs of (bn, sn) \<Rightarrow>
        (case get_bucket_obj buckets bn of
           None \<Rightarrow> Inl AttributeError
         | Some b \<Rightarrow>
             rbind (get_active_collections b sn) (\<lambda>cs.
             rbind (if consider_only_dropped
                    then rbind (dict_lookup (b_scopes b) sn) (\<lambda>s.
                         Inr (filter (\<lambda>n. n \<notin> set (map fst cs)) (map fst (s_collections s))))
                    else Inr (map fst cs)) (\<lambda>names.
             Inr (map (\<lambda>n. bn @ '':'' @ sn @ '':'' @ n) names)))))"

definition add_collection :: "selection \<Rightarrow> string \<Rightarrow> selection res" where
  "add_collection sel full =
     (case py_split CHR '':'' full of
        bn # sn # cn # _ \<Rightarrow>
          rbind (dict_lookup sel bn) (\<lambda>scs.
          rbind (dict_lookup scs sn) (\<lambda>cols.
          Inr (AList.update bn (AList.update sn (dict_add cn cols) scs) sel)))
      | _ \<Rightarrow> Inl IndexError)"

definition excluded_collections :: "selection \<Rightarrow> string list" where
  "excluded_collections excl =
     concat (map (\<lambda>(bn, scs). concat (map (\<lambda>(sn, cols). map (\<lambda>cn. bn @ '':'' @ sn @ '':'' @ cn) cols) scs)) excl)"

definition selected_scopes :: "selection \<Rightarrow> (string \<times> string) list" where
  "selected_scopes sel = concat (map (\<lambda>(bn, scs). map (\<lambda>(sn, _). (bn, sn)) scs) sel)"

definition get_random_collections ::
  "(string list \<Rightarrow> nat \<Rightarrow> string list) \<Rightarrow> bucket list \<Rightarrow> req_num \<Rightarrow> req_num \<Rightarrow> req_num \<Rightarrow> bool \<Rightarrow> selection \<Rightarrow> selection res" where
  "get_random_collections smp buckets req consider_scopes consider_buckets consider_only_dropped exclude_from =
     rbind (get_random_scopes smp buckets consider_scopes consider_buckets False False []) (\<lambda>sel0.
     rbind (rmap (collection_candidates consider_only_dropped buckets) (selected_scopes sel0)) (\<lambda>avail.
     rbind (pick smp req (concat avail) (excluded_collections exclude_from)) (\<lambda>chosen.
     rfold add_collection sel0 chosen)))"

text \<open>\<^verbatim>\<open>get_supported_durability_levels\<close>.\<close>

definition durability_levels :: "string list" where
  "durability_levels = [''NONE'', ''MAJORITY'', ''MAJORITY_AND_PERSIST_TO_ACTIVE'', ''PERSIST_TO_MAJORITY'']"

definition get_supported_durability_levels :: "string \<Rightarrow> string list res" where
  "get_supported_durability_levels minimum_level =
     (if minimum_level \<notin> set durability_levels then Inl ValueError
      else Inr (dropWhile (\<lambda>l. l \<noteq> minimum_level) durability_levels))"

end
