(* ===== verification/Manifest_Props.thy ===== *)
theory Manifest_Props
  imports Manifest
begin

text \<open>
  The tests' picture of scopes and collections agrees with the server's: an abstract manifest with its four
  changes, the locale \<open>manifest_keeper\<close> of everything that mirrors one, and its interpretation on the bucket objects;
  then the loops that create collections and the random choice among them.
\<close>

section \<open>The server's manifest\<close>

type_synonym manifest = "string \<Rightarrow> string set option"

datatype man_op = CreateScope string | DropScope string | CreateColl string string | DropColl string string

fun man_valid :: "man_op \<Rightarrow> manifest \<Rightarrow> bool" where
  "man_valid (CreateScope s) M = (M s = None)"
| "man_valid (DropScope s) M = (M s \<noteq> None)"
| "man_valid (CreateColl s c) M = (case M s of None \<Rightarrow> False | Some C \<Rightarrow> c \<notin> C)"
| "man_valid (DropColl s c) M = (case M s of None \<Rightarrow> False | Some C \<Rightarrow> c \<in> C)"

fun man_apply :: "man_op \<Rightarrow> manifest \<Rightarrow> manifest" where
  "man_apply (CreateScope s) M = M(s \<mapsto> {})"
| "man_apply (DropScope s) M = M(s := None)"
| "man_apply (CreateColl s c) M = M(s := map_option (insert c) (M s))"
| "man_apply (DropColl s c) M = M(s := map_option (\<lambda>C. C - {c}) (M s))"

text \<open>The server decides about each request (\<open>accepts\<close>) and the keeper follows its answer.\<close>

definition lockstep ::
  "(man_op \<Rightarrow> manifest \<Rightarrow> bool) \<Rightarrow> (bool \<Rightarrow> man_op \<Rightarrow> 'b \<Rightarrow> unit res \<times> 'b) \<Rightarrow> manifest \<times> 'b \<times> nat \<Rightarrow> man_op \<Rightarrow>
    manifest \<times> 'b \<times> nat" where
  "lockstep accepts perform Mbn op = (case Mbn of (M, b, n) \<Rightarrow>
     if accepts op M then (man_apply op M, snd (perform True op b), Suc n) else (M, snd (perform False op b), n))"

locale manifest_keeper =
  fixes inv :: "'b \<Rightarrow> bool"
    and view :: "'b \<Rightarrow> manifest"
    and uid :: "'b \<Rightarrow> nat"
    and perform :: "bool \<Rightarrow> man_op \<Rightarrow> 'b \<Rightarrow> unit res \<times> 'b"
  assumes refused: "\<not> is_ok (fst (perform False op b)) \<and> snd (perform False op b) = b"
    and accepted: "inv b \<Longrightarrow> man_valid op (view b) \<Longrightarrow>
      is_ok (fst (perform True op b)) \<and> inv (snd (perform True op b)) \<and>
      view (snd (perform True op b)) = man_apply op (view b) \<and> uid (snd (perform True op b)) = Suc (uid b)"
begin

lemma lockstep_keeps:
  assumes "inv b" and "view b = M" and "accepts op M \<longrightarrow> man_valid op M"
    and "lockstep accepts perform (M, b, n) op = (M', b', n')"
  shows "inv b' \<and> view b' = M' \<and> uid b' + n = uid b + n'"
  using assms refused [of op b] accepted [of b op] by (auto simp: lockstep_def split: if_splits)

lemma run_keeps:
  assumes "\<And>op M. accepts op M \<Longrightarrow> man_valid op M"
    and "inv b" and "view b = M" and "foldl (lockstep accepts perform) (M, b, n) ops = (M', b', n')"
  shows "inv b' \<and> view b' = M' \<and> uid b' + n = uid b + n'"
  using assms(2-4)
proof (induction ops arbitrary: b M n)
  case (Cons op ops)
  obtain M1 b1 n1 where 1: "lockstep accepts perform (M, b, n) op = (M1, b1, n1)"
    by (cases "lockstep accepts perform (M, b, n) op") auto
  from lockstep_keeps [OF Cons.prems(1,2) _ 1] assms(1)
  have k: "inv b1" "view b1 = M1" "uid b1 + n = uid b + n1" by auto
  have "foldl (lockstep accepts perform) (M1, b1, n1) ops = (M', b', n')" using Cons.prems(3) 1 by simp
  from Cons.IH [OF k(1,2) this] k(3) show ?case by simp
qed simp

end

section \<open>Buckets mirror the manifest\<close>

definition active_names :: "scope \<Rightarrow> string set" where
  "active_names s = {cn. \<exists>c. map_of (s_collections s) cn = Some c \<and> \<not> c_is_dropped c}"

definition scope_view :: "scope \<Rightarrow> string set option" where
  "scope_view s = (if s_is_dropped s then None else Some (active_names s))"

definition bucket_view :: "bucket \<Rightarrow> manifest" where
  "bucket_view b sn = Option.bind (map_of (b_scopes b) sn) scope_view"

definition scope_ok :: "string \<Rightarrow> scope \<Rightarrow> bool" where
  "scope_ok sn s \<longleftrightarrow> s_name s = sn \<and> (s_is_dropped s \<longrightarrow> active_names s = {})"

definition bucket_ok :: "bucket \<Rightarrow> bool" where
  "bucket_ok b \<longleftrightarrow> (\<forall>sn s. map_of (b_scopes b) sn = Some s \<longrightarrow> scope_ok sn s)"

definition bucket_uid :: "bucket \<Rightarrow> nat" where
  "bucket_uid b = bs_manifest_uid (b_stats b)"

fun bucket_op :: "bool \<Rightarrow> man_op \<Rightarrow> bucket \<Rightarrow> unit res \<times> bucket" where
  "bucket_op status (CreateScope s) = create_scope status s"
| "bucket_op status (DropScope s) = drop_scope status s"
| "bucket_op status (CreateColl s c) = create_collection status s (named_spec c)"
| "bucket_op status (DropColl s c) = drop_collection status s c"

named_theorems view_simps \<open>what the operations on a bucket do to its view\<close>

lemma bump_uid_simps [simp]: "b_scopes (bump_uid b) = b_scopes b" "bucket_uid (bump_uid b) = Suc (bucket_uid b)"
  by (simp_all add: bump_uid_def bucket_uid_def increment_manifest_uid_def)

lemma update_scope_simps [simp]:
  "b_stats (update_scope sn f b) = b_stats b" "bucket_uid (update_scope sn f b) = bucket_uid b"
  "map_of (b_scopes (update_scope sn f b)) = (map_of (b_scopes b))(sn := map_option f (map_of (b_scopes b) sn))"
  by (auto simp: update_scope_def bucket_uid_def fun_eq_iff split: option.splits)

lemma update_collection_simps [simp]:
  "b_stats (update_collection sn cn f b) = b_stats b" "bucket_uid (update_collection sn cn f b) = bucket_uid b"
  by (simp_all add: update_collection_def)

definition scope_upd :: "string \<Rightarrow> (collection \<Rightarrow> collection) \<Rightarrow> scope \<Rightarrow> scope" where
  "scope_upd cn f s = (case map_of (s_collections s) cn of
     None \<Rightarrow> s | Some c \<Rightarrow> s\<lparr>s_collections := AList.update cn (f c) (s_collections s)\<rparr>)"

lemma update_collection_scope: "update_collection sn cn f = update_scope sn (scope_upd cn f)"
  by (simp add: update_collection_def scope_upd_def [abs_def])

lemma scope_upd_simps [simp]:
  "s_name (scope_upd cn f s) = s_name s" "s_is_dropped (scope_upd cn f s) = s_is_dropped s"
  "map_of (s_collections (scope_upd cn f s)) = (map_of (s_collections s))(cn := map_option f (map_of (s_collections s) cn))"
  by (auto simp: scope_upd_def fun_eq_iff split: option.splits)

lemma active_upd:
  "active_names (scope_upd cn f s) = active_names s - {cn} \<union>
     (case map_of (s_collections s) cn of None \<Rightarrow> {} | Some c \<Rightarrow> if c_is_dropped (f c) then {} else {cn})"
  by (auto simp: active_names_def split: option.splits if_splits)

lemma bucket_ok_update:
  assumes "bucket_ok b" and "\<And>s. map_of (b_scopes b) sn = Some s \<Longrightarrow> scope_ok sn s \<Longrightarrow> scope_ok sn (f s)"
  shows "bucket_ok (update_scope sn f b)"
  using assms by (auto simp: bucket_ok_def)

lemma bucket_view_update:
  "bucket_view (update_scope sn f b) = (bucket_view b)(sn := Option.bind (map_of (b_scopes b) sn) (\<lambda>s. scope_view (f s)))"
  by (auto simp: bucket_view_def fun_eq_iff split: option.splits) (cases "map_of (b_scopes b) sn"; simp)

lemma view_cases:
  assumes "bucket_view b sn = Some C"
  obtains s where "map_of (b_scopes b) sn = Some s" "\<not> s_is_dropped s" "C = active_names s"
  using assms by (auto simp: bucket_view_def scope_view_def Option.bind_eq_Some_conv split: if_splits)

text \<open>Dropping all collections of a scope, one after the other.\<close>

lemma drop_all:
  assumes "map_of (b_scopes b) sn = Some s" and "set names \<subseteq> dom (map_of (s_collections s))"
  shows "\<exists>b' s'. rfold (\<lambda>b cn. mark_collection_as_dropped sn cn b) b names = Inr b' \<and> bucket_uid b' = bucket_uid b \<and>
    map_of (b_scopes b') = (map_of (b_scopes b))(sn \<mapsto> s') \<and> s_name s' = s_name s \<and> s_is_dropped s' = s_is_dropped s \<and>
    active_names s' = active_names s - set names"
  using assms
proof (induction names arbitrary: b s)
  case (Cons cn names)
  let ?f = "\<lambda>c. c\<lparr>c_is_dropped := True\<rparr>"
  from Cons.prems(2) obtain c where c: "map_of (s_collections s) cn = Some c" by auto
  let ?b = "update_scope sn (scope_upd cn ?f) b"
  have 1: "mark_collection_as_dropped sn cn b = Inr ?b"
    using Cons.prems(1) c
    by (simp add: mark_collection_as_dropped_def on_collection_def get_scope_obj_def get_collection_obj_def update_collection_scope)
  have b: "map_of (b_scopes ?b) sn = Some (scope_upd cn ?f s)" using Cons.prems(1) by simp
  have "set names \<subseteq> dom (map_of (s_collections (scope_upd cn ?f s)))" using Cons.prems(2) c by auto
  from Cons.IH [OF b this] obtain b' s' where 2: "rfold (\<lambda>b cn. mark_collection_as_dropped sn cn b) ?b names = Inr b'"
    "bucket_uid b' = bucket_uid ?b" "map_of (b_scopes b') = (map_of (b_scopes ?b))(sn \<mapsto> s')" "s_name s' = s_name (scope_upd cn ?f s)"
    "s_is_dropped s' = s_is_dropped (scope_upd cn ?f s)" "active_names s' = active_names (scope_upd cn ?f s) - set names" by blast
  have m: "map_of (b_scopes b') = (map_of (b_scopes b))(sn \<mapsto> s')" unfolding 2(3) by (simp del: fun_upd_apply)
  have "active_names (scope_upd cn ?f s) - set names = active_names s - set (cn # names)" using c by (auto simp: active_upd)
  with 1 2(1,2,4,5,6) m show ?case by (intro exI [of _ b'] exI [of _ s']) (simp del: fun_upd_apply)
qed (auto intro!: exI simp: fun_upd_idem)

lemma create_scope_accepted:
  assumes "bucket_ok b" and "bucket_view b sn = None"
  shows "is_ok (fst (create_scope True sn b)) \<and> bucket_ok (snd (create_scope True sn b)) \<and>
    bucket_view (snd (create_scope True sn b)) = (bucket_view b)(sn \<mapsto> {}) \<and>
    bucket_uid (snd (create_scope True sn b)) = Suc (bucket_uid b)"
proof -
  have r: "create_scope True sn b = (Inr (), create_scope_object sn (bump_uid b))"
    by (simp add: create_scope_def after_rest_def)
  have "bucket_ok (create_scope_object sn (bump_uid b)) \<and> bucket_view (create_scope_object sn (bump_uid b)) = (bucket_view b)(sn \<mapsto> {}) \<and>
      bucket_uid (create_scope_object sn (bump_uid b)) = Suc (bucket_uid b)"
  proof (cases "map_of (b_scopes b) sn")
    case None
    let ?b = "(bump_uid b)\<lparr>b_scopes := AList.update sn (new_scope sn) (b_scopes b)\<rparr>"
    have o: "create_scope_object sn (bump_uid b) = ?b" using None by (simp add: create_scope_object_def get_scope_obj_def)
    have "bucket_uid ?b = bucket_uid (bump_uid b)" by (simp add: bucket_uid_def)
    moreover have "bucket_ok ?b"
      using assms(1) by (auto simp: bucket_ok_def scope_ok_def new_scope_def active_names_def split: if_splits)
    moreover have "bucket_view ?b = (bucket_view b)(sn \<mapsto> {})"
      by (auto simp: bucket_view_def fun_eq_iff scope_view_def new_scope_def active_names_def)
    ultimately show ?thesis unfolding o by simp
  next
    case (Some s)
    have o: "create_scope_object sn (bump_uid b) = update_scope sn scope_recreated (bump_uid b)"
      using Some by (simp add: create_scope_object_def get_scope_obj_def)
    have d: "s_is_dropped s" using assms(2) Some by (simp add: bucket_view_def scope_view_def split: if_splits)
    have e: "active_names (scope_recreated s) = {}"
      using assms(1) Some d by (auto simp: bucket_ok_def scope_ok_def active_names_def scope_recreated_def)
    have ok: "bucket_ok (bump_uid b)" using assms(1) by (simp add: bucket_ok_def)
    have v: "bucket_view (bump_uid b) = bucket_view b" by (simp add: bucket_view_def [abs_def])
    have "bucket_ok (update_scope sn scope_recreated (bump_uid b))"
      by (rule bucket_ok_update [OF ok]) (simp add: scope_ok_def scope_recreated_def)
    moreover have "bucket_view (update_scope sn scope_recreated (bump_uid b)) = (bucket_view b)(sn \<mapsto> {})"
      unfolding bucket_view_update v using Some e by (simp add: scope_view_def scope_recreated_def)
    ultimately show ?thesis unfolding o by simp
  qed
  then show ?thesis unfolding r by simp
qed

lemma drop_scope_accepted:
  assumes "bucket_ok b" and "bucket_view b sn \<noteq> None"
  shows "is_ok (fst (drop_scope True sn b)) \<and> bucket_ok (snd (drop_scope True sn b)) \<and>
    bucket_view (snd (drop_scope True sn b)) = (bucket_view b)(sn := None) \<and>
    bucket_uid (snd (drop_scope True sn b)) = Suc (bucket_uid b)"
proof -
  let ?d = "\<lambda>s. s\<lparr>s_is_dropped := True\<rparr>"
  from assms(2) obtain C where "bucket_view b sn = Some C" by auto
  then obtain s where s: "map_of (b_scopes b) sn = Some s" by (rule view_cases)
  have nm: "s_name s = sn" using assms(1) s by (simp add: bucket_ok_def scope_ok_def)
  have sb: "map_of (b_scopes (bump_uid b)) sn = Some s" using s by simp
  have sub: "set (map fst (s_collections s)) \<subseteq> dom (map_of (s_collections s))" by (simp add: dom_map_of_conv_image_fst)
  from drop_all [OF sb sub] obtain b' s' where
    b': "rfold (\<lambda>b cn. mark_collection_as_dropped sn cn b) (bump_uid b) (map fst (s_collections s)) = Inr b'"
    "bucket_uid b' = Suc (bucket_uid b)" "map_of (b_scopes b') = (map_of (b_scopes b))(sn \<mapsto> s')" "s_name s' = s_name s"
    "active_names s' = active_names s - set (map fst (s_collections s))" by auto
  have e: "active_names s' = {}"
    using b'(5) by (force simp: active_names_def dest: map_of_SomeD)
  have r: "drop_scope True sn b = (Inr (), update_scope sn ?d b')"
    using b'(1) sb nm by (simp add: drop_scope_def after_rest_def mark_scope_as_dropped_def get_scope_obj_def)
  have "bucket_ok b'" using assms(1) b'(3,4) nm e by (auto simp: bucket_ok_def scope_ok_def)
  then have "bucket_ok (update_scope sn ?d b')"
    by (rule bucket_ok_update) (use b'(3) e in \<open>auto simp: scope_ok_def active_names_def\<close>)
  moreover have "bucket_view (update_scope sn ?d b') = (bucket_view b)(sn := None)"
    by (auto simp: bucket_view_update b'(3) scope_view_def fun_eq_iff bucket_view_def)
  ultimately show ?thesis unfolding r using b'(2) by simp
qed

lemma create_collection_accepted:
  assumes "bucket_ok b" and "bucket_view b sn = Some C" and "cn \<notin> C"
  shows "is_ok (fst (create_collection True sn (named_spec cn) b)) \<and> bucket_ok (snd (create_collection True sn (named_spec cn) b)) \<and>
    bucket_view (snd (create_collection True sn (named_spec cn) b)) = (bucket_view b)(sn \<mapsto> insert cn C) \<and>
    bucket_uid (snd (create_collection True sn (named_spec cn) b)) = Suc (bucket_uid b)"
proof -
  from assms(2) obtain s where s: "map_of (b_scopes b) sn = Some s" "\<not> s_is_dropped s" "C = active_names s" by (rule view_cases)
  have ok: "bucket_ok (bump_uid b)" using assms(1) by (simp add: bucket_ok_def)
  have v: "bucket_view (bump_uid b) = bucket_view b" by (simp add: bucket_view_def [abs_def])
  obtain f where f: "create_collection True sn (named_spec cn) b = (Inr (), update_scope sn f (bump_uid b))"
    and fs: "s_name (f s) = s_name s" "s_is_dropped (f s) = s_is_dropped s" "active_names (f s) = insert cn (active_names s)"
  proof (cases "map_of (s_collections s) cn")
    case None
    let ?c = "new_collection ((named_spec cn)\<lparr>cs_history := Some (default_history (bump_uid b))\<rparr>)"
    let ?f = "\<lambda>s. s\<lparr>s_collections := AList.update cn ?c (s_collections s)\<rparr>"
    have "create_collection True sn (named_spec cn) b = (Inr (), update_scope sn ?f (bump_uid b))"
      using s None by (simp add: create_collection_def after_rest_def create_collection_object_def get_scope_obj_def
        get_collection_obj_def Let_def named_spec_def)
    moreover have "active_names (?f s) = insert cn (active_names s)" by (auto simp: active_names_def new_collection_def)
    ultimately show ?thesis using that [of ?f] by simp
  next
    case (Some c)
    let ?f = "scope_upd cn (collection_recreated ((named_spec cn)\<lparr>cs_history := Some (default_history (bump_uid b))\<rparr>))"
    have "create_collection True sn (named_spec cn) b = (Inr (), update_scope sn ?f (bump_uid b))"
      using s Some by (simp add: create_collection_def after_rest_def create_collection_object_def get_scope_obj_def
        get_collection_obj_def Let_def named_spec_def update_collection_scope)
    moreover have "active_names (?f s) = insert cn (active_names s)" using Some by (auto simp: active_upd collection_recreated_def)
    ultimately show ?thesis using that [of ?f] by simp
  qed
  have "bucket_ok (update_scope sn f (bump_uid b))"
    by (rule bucket_ok_update [OF ok]) (use s fs in \<open>auto simp: scope_ok_def\<close>)
  moreover have "bucket_view (update_scope sn f (bump_uid b)) = (bucket_view b)(sn \<mapsto> insert cn C)"
    unfolding bucket_view_update v using s fs by (simp add: scope_view_def)
  ultimately show ?thesis unfolding f by simp
qed

lemma drop_collection_accepted:
  assumes "bucket_ok b" and "bucket_view b sn = Some C" and "cn \<in> C"
  shows "is_ok (fst (drop_collection True sn cn b)) \<and> bucket_ok (snd (drop_collection True sn cn b)) \<and>
    bucket_view (snd (drop_collection True sn cn b)) = (bucket_view b)(sn \<mapsto> C - {cn}) \<and>
    bucket_uid (snd (drop_collection True sn cn b)) = Suc (bucket_uid b)"
proof -
  let ?f = "scope_upd cn (\<lambda>c. c\<lparr>c_is_dropped := True\<rparr>)"
  from assms(2) obtain s where s: "map_of (b_scopes b) sn = Some s" "\<not> s_is_dropped s" "C = active_names s" by (rule view_cases)
  with assms(3) obtain c where c: "map_of (s_collections s) cn = Some c" by (auto simp: active_names_def)
  have r: "drop_collection True sn cn b = (Inr (), update_scope sn ?f (bump_uid b))"
    using s c by (simp add: drop_collection_def after_rest_def mark_collection_as_dropped_def on_collection_def
      get_scope_obj_def get_collection_obj_def update_collection_scope)
  have ok: "bucket_ok (bump_uid b)" using assms(1) by (simp add: bucket_ok_def)
  have v: "bucket_view (bump_uid b) = bucket_view b" by (simp add: bucket_view_def [abs_def])
  have a: "active_names (?f s) = active_names s - {cn}" using c by (auto simp: active_upd)
  have "bucket_ok (update_scope sn ?f (bump_uid b))"
    by (rule bucket_ok_update [OF ok]) (use s in \<open>auto simp: scope_ok_def\<close>)
  moreover have "bucket_view (update_scope sn ?f (bump_uid b)) = (bucket_view b)(sn \<mapsto> C - {cn})"
    unfolding bucket_view_update v using s a by (simp add: scope_view_def)
  ultimately show ?thesis unfolding r by simp
qed

interpretation bm: manifest_keeper bucket_ok bucket_view bucket_uid bucket_op
proof
  show "\<not> is_ok (fst (bucket_op False op b)) \<and> snd (bucket_op False op b) = b" for op b
    by (cases op) (simp_all add: create_scope_def drop_scope_def create_collection_def drop_collection_def after_rest_def)
next
  fix op b
  assume ok: "bucket_ok b" and v: "man_valid op (bucket_view b)"
  show "is_ok (fst (bucket_op True op b)) \<and> bucket_ok (snd (bucket_op True op b)) \<and>
      bucket_view (snd (bucket_op True op b)) = man_apply op (bucket_view b) \<and>
      bucket_uid (snd (bucket_op True op b)) = Suc (bucket_uid b)"
  proof (cases op)
    case (CreateScope s)
    then show ?thesis using create_scope_accepted [OF ok] v by simp
  next
    case (DropScope s)
    then show ?thesis using drop_scope_accepted [OF ok, of s] v by auto
  next
    case (CreateColl s c)
    then show ?thesis using create_collection_accepted [OF ok] v by (auto split: option.splits)
  next
    case (DropColl s c)
    then show ?thesis using drop_collection_accepted [OF ok] v by (auto split: option.splits)
  qed
qed

lemma default_scopes_ok: "map_of (default_scopes sp hist) sn = Some s \<Longrightarrow> scope_ok sn s"
  by (auto simp: default_scopes_def scope_ok_def with_collections_def new_scope_def split: if_splits)

lemma new_bucket:
  assumes "bucket_init sp ps = Inr b"
  obtains hist where "b_scopes b = default_scopes sp hist" "b_stats b = new_stats"
  using assms by (auto simp: bucket_init_def rbind_eq_Inr Let_def)

lemma new_bucket_ok: "bucket_init sp ps = Inr b \<Longrightarrow> bucket_ok b"
  by (erule new_bucket) (simp add: bucket_ok_def default_scopes_ok)

text \<open>C14. The tests' picture of a bucket follows the server: start from a new bucket and send any sequence of requests
  to create or drop scopes and collections to a server that accepts only valid ones; then after the sequence the
  active scopes and collections of the bucket object are exactly those of the server's manifest, and the manifest
  UID has grown by the number of accepted requests.\<close>

theorem bucket_mirrors_manifest:
  assumes "bucket_init serverless_profile ps = Inr b" and "\<And>op M. accepts op M \<Longrightarrow> man_valid op M"
    and "foldl (lockstep accepts bucket_op) (bucket_view b, b, 0) ops = (M, b', n)"
  shows "bucket_view b' = M \<and> bucket_uid b' = n"
proof -
  have "bucket_uid b = 0" using assms(1) by (auto elim!: new_bucket simp: bucket_uid_def new_stats_def)
  with bm.run_keeps [OF assms(2) new_bucket_ok [OF assms(1)] refl assms(3)] show ?thesis by auto
qed

theorem bucket_mirrors_manifest_witness:
  "\<exists>b M b' n. bucket_init False [] = Inr b \<and>
    foldl (lockstep man_valid bucket_op) (bucket_view b, b, 0) [CreateScope ''s'', CreateScope ''s'', CreateColl ''s'' ''c''] = (M, b', n) \<and>
    bucket_view b' = M \<and> M ''s'' = Some {''c''} \<and> bucket_uid b' = 2"
proof -
  obtain b where b: "bucket_init False [] = Inr b" by (simp add: bucket_init_def pget_def dict_get_def Let_def)
  have v: "bucket_view b ''s'' = None"
    using b by (auto elim!: new_bucket simp: bucket_view_def default_scopes_def)
  obtain M b' n where r: "foldl (lockstep man_valid bucket_op) (bucket_view b, b, 0) [CreateScope ''s'', CreateScope ''s'', CreateColl ''s'' ''c''] = (M, b', n)"
    by (cases "foldl (lockstep man_valid bucket_op) (bucket_view b, b, 0) [CreateScope ''s'', CreateScope ''s'', CreateColl ''s'' ''c'']") auto
  from r v have M: "M ''s'' = Some {''c''}" "n = 2" by (auto simp: lockstep_def)
  have "bucket_view b' = M \<and> bucket_uid b' = n" by (rule bucket_mirrors_manifest [OF b _ r])
  with b r M show ?thesis by blast
qed

section \<open>Creating collections\<close>

lemma collection_active_view:
  "bucket_view b sn = Some C \<Longrightarrow> collection_active b sn cn \<longleftrightarrow> cn \<in> C"
  by (erule view_cases) (auto simp: collection_active_def the_collection_def active_names_def split: option.splits)

definition numbered :: "string \<Rightarrow> nat \<Rightarrow> string" where
  "numbered nm k = nm @ ''_'' @ nat_str k"

lemma numbered_inj: "numbered nm j = numbered nm k \<longleftrightarrow> j = k"
  by (simp add: numbered_def nat_str_inj)

lemma next_named: "next_name rand sn (Some nm) False i k = numbered nm k"
  by (simp add: next_name_def numbered_def)

lemma cc_loop_named:
  assumes "\<And>j. rest j" and "bucket_ok b" and "bucket_view b sn = Some C" and "k \<le> n"
    and "\<forall>j. k \<le> j \<and> j < n \<longrightarrow> numbered nm j \<notin> C" and "set names \<subseteq> numbered nm ` {..<k}"
  shows "\<exists>b'. cc_loop rest rand sn (Some nm) False n i k names b = Some (Inr (names @ map (numbered nm) [k..<n]), i + (n - k), b') \<and>
    bucket_ok b' \<and> bucket_view b' sn = Some (C \<union> numbered nm ` {k..<n}) \<and> bucket_uid b' = bucket_uid b + (n - k)"
  using assms(2-6)
proof (induction "n - k" arbitrary: i k names b C)
  case 0
  then show ?case by (simp add: cc_loop.simps)
next
  case (Suc d)
  let ?c = "numbered nm k"
  have kn: "k < n" and fresh: "?c \<notin> C" using Suc.hyps(2) Suc.prems(4) by auto
  let ?rb = "create_collection True sn (named_spec ?c) b"
  have acc: "is_ok (fst ?rb)" "bucket_ok (snd ?rb)" "bucket_view (snd ?rb) sn = Some (insert ?c C)"
     "bucket_uid (snd ?rb) = Suc (bucket_uid b)"
    using create_collection_accepted [OF Suc.prems(1,2) fresh] by simp_all
  have new: "dict_add ?c names = names @ [?c]" using Suc.prems(5) by (auto simp: dict_add_def numbered_inj)
  have step: "cc_loop rest rand sn (Some nm) False n i k names b = cc_loop rest rand sn (Some nm) False n (Suc i) (Suc k) (names @ [?c]) (snd ?rb)"
    using kn acc(1) collection_active_view [OF Suc.prems(2), of ?c] fresh assms(1) new
    by (subst cc_loop.simps) (simp add: Let_def next_named)
  have "\<exists>b'. cc_loop rest rand sn (Some nm) False n (Suc i) (Suc k) (names @ [?c]) (snd ?rb) =
      Some (Inr ((names @ [?c]) @ map (numbered nm) [Suc k..<n]), Suc i + (n - Suc k), b') \<and> bucket_ok b' \<and>
      bucket_view b' sn = Some (insert ?c C \<union> numbered nm ` {Suc k..<n}) \<and> bucket_uid b' = bucket_uid (snd ?rb) + (n - Suc k)"
  proof (rule Suc.hyps(1) [OF _ acc(2,3)])
    show "d = n - Suc k" "Suc k \<le> n" using Suc.hyps(2) kn by simp_all
    show "\<forall>j. Suc k \<le> j \<and> j < n \<longrightarrow> numbered nm j \<notin> insert ?c C" using Suc.prems(4) by (auto simp: numbered_inj)
    show "set (names @ [?c]) \<subseteq> numbered nm ` {..<Suc k}" using Suc.prems(5) by auto
  qed
  moreover have "{k..<n} = insert k {Suc k..<n}" using kn by auto
  then have "insert ?c C \<union> numbered nm ` {Suc k..<n} = C \<union> numbered nm ` {k..<n}" by simp
  moreover have "Suc (x + n - Suc k) = x + n - k" for x using kn by simp
  ultimately show ?case unfolding step using kn acc(4) by (simp add: upt_conv_Cons)
qed

text \<open>Creating \<open>n\<close> collections under a given name ends: when the server accepts the requests and none of the
  names \<^verbatim>\<open>name_0\<close> to \<^verbatim>\<open>name_{n-1}\<close> is in use, \<^verbatim>\<open>create_collections\<close> returns exactly these names after \<open>n\<close> requests, and they
  are the only collections added to the scope; the manifest UID grows by \<open>n\<close>.\<close>

theorem create_collections_named:
  assumes "\<And>j. rest j" and "bucket_ok b" and "bucket_view b sn = Some C" and "\<forall>j<n. numbered nm j \<notin> C"
  shows "\<exists>b'. create_collections rest rand i n sn (Some nm) False b = Some (Inr (map (numbered nm) [0..<n]), i + n, b') \<and>
    bucket_ok b' \<and> bucket_view b' sn = Some (C \<union> numbered nm ` {0..<n}) \<and> bucket_uid b' = bucket_uid b + n"
proof -
  have "map_of (b_scopes b) sn \<noteq> None" using assms(3) by (cases "map_of (b_scopes b) sn") (auto simp: bucket_view_def)
  then show ?thesis
    using cc_loop_named [where k = 0 and n = n and nm = nm and names = "[]" and rand = rand and i = i, OF assms(1-3)] assms(4) by (auto simp: create_collections_def)
qed

theorem create_collections_named_witness:
  "\<exists>b b'. bucket_init False [] = Inr b \<and>
    create_collections (\<lambda>j. True) (\<lambda>j. []) 0 2 ''_default'' (Some ''c'') False b = Some (Inr [''c_0'', ''c_1''], 2, b') \<and> bucket_uid b' = 2"
proof -
  obtain b where b: "bucket_init False [] = Inr b" by (simp add: bucket_init_def pget_def dict_get_def Let_def)
  have v: "bucket_view b ''_default'' = Some {''_default''}" and u: "bucket_uid b = 0"
    using b by (auto elim!: new_bucket simp: bucket_view_def default_scopes_def scope_view_def active_names_def bucket_uid_def
        new_stats_def with_collections_def new_scope_def new_collection_def named_spec_def split: if_splits)
  have n: "map (numbered ''c'') [0..<2] = [''c_0'', ''c_1'']" by code_simp
  have "\<forall>j<2. numbered ''c'' j \<notin> {''_default''}" by (simp add: numbered_def)
  from create_collections_named [of "\<lambda>j. True", OF TrueI new_bucket_ok [OF b] v this, of "\<lambda>j. []" 0] b u
  show ?thesis unfolding n by auto
qed

text \<open>A first collection that is to have its scope's name, with random names for the others: when a collection of that
  name is active already, the same name is tried again for ever.\<close>

lemma collection_active_iff:
  "collection_active b sn cn \<longleftrightarrow> (\<exists>s. map_of (b_scopes b) sn = Some s \<and> cn \<in> active_names s)"
  by (cases "map_of (b_scopes b) sn") (auto simp: collection_active_def the_collection_def active_names_def split: option.splits)

lemma create_collection_keeps_active:
  assumes "collection_active b sn cn"
  shows "collection_active (snd (create_collection status sn (named_spec cn) b)) sn cn"
proof -
  obtain s c where s: "map_of (b_scopes b) sn = Some s" and c: "map_of (s_collections s) cn = Some c"
    using assms by (auto simp: collection_active_iff active_names_def)
  show ?thesis
  proof (cases status)
    case True
    let ?f = "scope_upd cn (collection_recreated ((named_spec cn)\<lparr>cs_history := Some (default_history (bump_uid b))\<rparr>))"
    have "create_collection True sn (named_spec cn) b = (Inr (), update_scope sn ?f (bump_uid b))"
      using s c by (simp add: create_collection_def after_rest_def create_collection_object_def get_scope_obj_def
        get_collection_obj_def Let_def named_spec_def update_collection_scope)
    then show ?thesis using True s c by (simp add: collection_active_iff active_upd collection_recreated_def)
  qed (use assms in \<open>simp add: create_collection_def after_rest_def\<close>)
qed

theorem create_collections_spins:
  assumes "collection_active b sn sn" and "0 < n"
  shows "create_collections rest rand i n sn None True b = None"
proof -
  let ?stuck = "\<lambda>sn cname wsn n (k :: nat) b. wsn \<and> cname = None \<and> k = 0 \<and> 0 < (n :: nat) \<and> collection_active b sn sn"
  have "\<not> ?stuck sn cname wsn n k b"
    if "cc_loop rest rand sn cname wsn n i k names b = Some r" for rest rand sn cname wsn n i k names b r
    using that
  proof (rule cc_loop.raw_induct [where P = "\<lambda>rest rand sn cname wsn n i k names b r. \<not> ?stuck sn cname wsn n k b", rotated])
    fix loop rest rand sn cname wsn n i k names b r
    assume IH: "\<And>rest rand sn cname wsn n i k names b r.
        loop rest rand sn cname wsn n i k names b = Some r \<Longrightarrow> \<not> ?stuck sn cname wsn n k b"
      and body: "(if n \<le> k then Some (Inr names, i, b)
         else (let col = next_name rand sn cname wsn i k; taken = collection_active b sn col;
                   rb = create_collection (rest i) sn (named_spec col) b
               in if is_ok (fst rb) \<and> \<not> taken
                  then loop rest rand sn cname wsn n (Suc i) (Suc k) (dict_add col names) (snd rb)
                  else if taken \<and> cname = None then loop rest rand sn cname wsn n (Suc i) k names (snd rb)
                  else Some (Inl (Raised ''Exception''), Suc i, snd rb))) = Some r"
    show "\<not> ?stuck sn cname wsn n k b"
    proof
      assume a: "?stuck sn cname wsn n k b"
      then have "loop rest rand sn None True n (Suc i) 0 names (snd (create_collection (rest i) sn (named_spec sn) b)) = Some r"
        using body by (simp add: Let_def next_name_def)
      from IH [OF this] a create_collection_keeps_active [of b sn sn "rest i"] show False by simp
    qed
  qed
  then have "cc_loop rest rand sn None True n i 0 [] b = None" using assms
    by (cases "cc_loop rest rand sn None True n i 0 [] b") blast+
  moreover have "map_of (b_scopes b) sn \<noteq> None" using assms(1) by (auto simp: collection_active_iff)
  ultimately show ?thesis by (simp add: create_collections_def)
qed

section \<open>Random choice\<close>

text \<open>Buckets whose dictionaries have distinct keys and whose names have no colon, and the entries of a selection.\<close>

definition no_colon :: "string \<Rightarrow> bool" where
  "no_colon s \<longleftrightarrow> CHR '':'' \<notin> set s"

definition plain_bucket :: "bucket \<Rightarrow> bool" where
  "plain_bucket b \<longleftrightarrow> dict_wf (b_scopes b) \<and>
     (\<forall>(sn, s)\<in>set (b_scopes b). no_colon sn \<and> dict_wf (s_collections s) \<and> (\<forall>(cn, c)\<in>set (s_collections s). no_colon cn))"

definition sel_scope :: "selection \<Rightarrow> string \<Rightarrow> string \<Rightarrow> bool" where
  "sel_scope sel bn sn \<longleftrightarrow> (\<exists>scs. map_of sel bn = Some scs \<and> map_of scs sn \<noteq> None)"

definition sel_coll :: "selection \<Rightarrow> string \<Rightarrow> string \<Rightarrow> string \<Rightarrow> bool" where
  "sel_coll sel bn sn cn \<longleftrightarrow> (\<exists>scs cols. map_of sel bn = Some scs \<and> map_of scs sn = Some cols \<and> cn \<in> set cols)"

lemma split_scope: "no_colon bn \<Longrightarrow> no_colon sn \<Longrightarrow> py_split CHR '':'' (bn @ CHR '':'' # sn) = [bn, sn]"
  by (simp add: no_colon_def py_split_append py_split_no_sep)

lemma split_coll: "no_colon bn \<Longrightarrow> no_colon sn \<Longrightarrow> no_colon cn \<Longrightarrow> py_split CHR '':'' (bn @ CHR '':'' # sn @ CHR '':'' # cn) = [bn, sn, cn]"
  by (simp add: no_colon_def py_split_append py_split_no_sep)

lemma pick_sub:
  assumes "pick smp req avail excluded = Inr xs" and "\<And>xs n. set (smp xs n) \<subseteq> set xs"
  shows "set xs \<subseteq> set avail - set excluded"
  using assms(1) assms(2) [of "remdups (filter (\<lambda>x. x \<notin> set excluded) avail)"]
  by (auto simp: pick_def Let_def split: req_num.splits if_splits)

lemma rmap_members: "rmap f xs = Inr ys \<Longrightarrow> y \<in> set ys \<Longrightarrow> \<exists>x\<in>set xs. f x = Inr y"
  by (induction xs arbitrary: ys) (auto simp: rbind_eq_Inr)

lemma random_buckets_empty:
  assumes "get_random_buckets smp buckets req excl = Inr sel"
  shows "\<not> sel_scope sel bn sn \<and> \<not> sel_coll sel bn sn cn"
proof -
  have "map_of (fold (\<lambda>n. AList.update n []) ns d) bn \<in> {None, Some []}" if "map_of d bn \<in> {None, Some []}" for ns and d :: selection
    using that by (induction ns arbitrary: d) auto
  moreover obtain ns where "sel = fold (\<lambda>n. AList.update n []) ns []"
    using assms by (auto simp: get_random_buckets_def Let_def rbind_eq_Inr)
  ultimately have "map_of sel bn \<in> {None, Some []}" by simp
  then show ?thesis by (auto simp: sel_scope_def sel_coll_def)
qed

lemma candidate_scope:
  assumes "scope_candidates av False buckets bn = Inr names" and "x \<in> set names" and "\<forall>b\<in>set buckets. plain_bucket b"
  shows "\<exists>b sn. get_bucket_obj buckets bn = Some b \<and> x = bn @ '':'' @ sn \<and> no_colon sn \<and> scope_active b sn \<and> sn \<noteq> ''_system''"
proof -
  obtain b where b: "get_bucket_obj buckets bn = Some b" using assms(1) by (auto simp: scope_candidates_def split: option.splits)
  then have pb: "plain_bucket b" using assms(3) by (auto simp: get_bucket_obj_def find_Some_iff)
  from assms(1,2) b obtain sn s where s: "x = bn @ '':'' @ sn" "(sn, s) \<in> set (b_scopes b)" "\<not> s_is_dropped s" "sn \<noteq> ''_system''"
    by (auto simp: scope_candidates_def Let_def get_active_scopes_def)
  moreover have "map_of (b_scopes b) sn = Some s" using pb s(2) by (simp add: plain_bucket_def dict_wf_map_of)
  ultimately show ?thesis using b pb by (auto simp: scope_active_def plain_bucket_def)
qed

definition scope_choice :: "bucket list \<Rightarrow> string \<Rightarrow> string \<Rightarrow> bool" where
  "scope_choice buckets bn sn \<longleftrightarrow> no_colon bn \<and> no_colon sn \<and> sn \<noteq> ''_system'' \<and>
     (\<exists>b. get_bucket_obj buckets bn = Some b \<and> scope_active b sn)"

lemma add_scope_inv:
  assumes "add_scope sel (bn @ '':'' @ sn) = Inr sel'" and "no_colon bn" and "no_colon sn"
  shows "sel_scope sel' b s \<longrightarrow> sel_scope sel b s \<or> (b, s) = (bn, sn)" and "sel_coll sel' b s c \<longrightarrow> sel_coll sel b s c"
  using assms by (auto simp: add_scope_def split_scope rbind_eq_Inr sel_scope_def sel_coll_def split: if_splits)

lemma random_scopes_choice:
  assumes "get_random_scopes smp buckets req creq False False [] = Inr sel" and "\<And>xs n. set (smp xs n) \<subseteq> set xs"
    and "\<forall>b\<in>set buckets. plain_bucket b \<and> no_colon (bucket_str b)"
  shows "(sel_scope sel bn sn \<longrightarrow> scope_choice buckets bn sn) \<and> \<not> sel_coll sel bn sn cn"
proof -
  obtain sel0 avail chosen where r: "get_random_buckets smp buckets creq [] = Inr sel0"
    "rmap (scope_candidates False False buckets) (map fst sel0) = Inr avail" "pick smp req (concat avail) [] = Inr chosen"
    "rfold add_scope sel0 chosen = Inr sel"
    using assms(1) by (auto simp: get_random_scopes_def rbind_eq_Inr excluded_scopes_def)
  let ?P = "\<lambda>sel. \<forall>bn sn cn. (sel_scope sel bn sn \<longrightarrow> scope_choice buckets bn sn) \<and> \<not> sel_coll sel bn sn cn"
  have "?P sel"
  proof (rule rfold_invariant [OF r(4), of ?P])
    show "?P sel0" using random_buckets_empty [OF r(1)] by blast
  next
    fix sl x sl'
    assume P: "?P sl" and x: "x \<in> set chosen" and a: "add_scope sl x = Inr sl'"
    from x pick_sub [OF r(3) assms(2)] obtain names where "names \<in> set avail" "x \<in> set names" by auto
    with rmap_members [OF r(2)] obtain bn where bn: "scope_candidates False False buckets bn = Inr names" by blast
    from candidate_scope [OF bn \<open>x \<in> set names\<close>] assms(3) obtain b sn where
      s: "get_bucket_obj buckets bn = Some b" "x = bn @ '':'' @ sn" "no_colon sn" "scope_active b sn" "sn \<noteq> ''_system''" by blast
    have nb: "no_colon bn" using s(1) assms(3) by (auto simp: get_bucket_obj_def find_Some_iff bucket_str_def split: bval.splits)
    have "scope_choice buckets bn sn" using s nb by (simp add: scope_choice_def)
    with add_scope_inv [OF a [unfolded s(2)] nb s(3)] P show "?P sl'" by (metis Pair_inject)
  qed
  then show ?thesis by blast
qed

definition sel_wf :: "selection \<Rightarrow> bool" where
  "sel_wf sel \<longleftrightarrow> dict_wf sel \<and> (\<forall>(bn, scs)\<in>set sel. dict_wf scs)"

lemma update_members: "p \<in> set (AList.update k v d) \<Longrightarrow> p = (k, v) \<or> p \<in> set d"
  by (induction d) (auto split: if_splits)

lemma sel_wf_update: "sel_wf sel \<Longrightarrow> dict_wf scs \<Longrightarrow> sel_wf (AList.update bn scs sel)"
  by (auto simp: sel_wf_def dest!: update_members)

lemma random_scopes_wf:
  assumes "get_random_scopes smp buckets req creq av od excl = Inr sel"
  shows "sel_wf sel"
proof -
  obtain sel0 chosen where r: "get_random_buckets smp buckets creq [] = Inr sel0" "rfold add_scope sel0 chosen = Inr sel"
    using assms by (auto simp: get_random_scopes_def rbind_eq_Inr)
  have "sel_wf (fold (\<lambda>n. AList.update n []) ns d)" if "sel_wf d" for ns d
    using that by (induction ns arbitrary: d) (simp_all add: sel_wf_update)
  moreover have "sel_wf []" by (simp add: sel_wf_def)
  ultimately have "sel_wf sel0" using r(1) by (auto simp: get_random_buckets_def Let_def rbind_eq_Inr)
  moreover have "sel_wf t" if "sel_wf s" "add_scope s x = Inr t" for s x t
  proof -
    from that(2) obtain bn sn scs where "map_of s bn = Some scs" "t = AList.update bn (AList.update sn [] scs) s"
      by (auto simp: add_scope_def rbind_eq_Inr split: list.splits)
    moreover from this that(1) have "dict_wf scs" by (auto simp: sel_wf_def dest: map_of_SomeD)
    ultimately show ?thesis using that(1) by (auto intro!: sel_wf_update)
  qed
  ultimately show ?thesis using rfold_invariant [OF r(2), of sel_wf] by blast
qed

lemma add_collection_inv:
  assumes "add_collection sel (bn @ '':'' @ sn @ '':'' @ cn) = Inr sel'" and "no_colon bn" and "no_colon sn" and "no_colon cn"
  shows "sel_coll sel' b s c \<longrightarrow> sel_coll sel b s c \<or> (b, s, c) = (bn, sn, cn)"
  using assms by (auto simp: add_collection_def split_coll rbind_eq_Inr sel_coll_def dict_add_def split: if_splits)

text \<open>C35. The random choice of collections: whatever \<^verbatim>\<open>random.sample\<close> picks, every collection in the result of
  \<^verbatim>\<open>get_random_collections\<close> is active, in an active scope that is not the system scope, of one of the given buckets, and
  is not among the excluded ones.\<close>

theorem random_collections_active:
  assumes "get_random_collections smp buckets req sreq breq False excl = Inr sel" and "\<And>xs n. set (smp xs n) \<subseteq> set xs"
    and "\<forall>b\<in>set buckets. plain_bucket b \<and> no_colon (bucket_str b)" and "sel_coll sel bn sn cn"
  shows "\<exists>b. get_bucket_obj buckets bn = Some b \<and> scope_active b sn \<and> sn \<noteq> ''_system'' \<and> collection_active b sn cn \<and>
    bn @ '':'' @ sn @ '':'' @ cn \<notin> set (excluded_collections excl)"
proof -
  let ?T = "\<lambda>bn sn cn. \<exists>b. get_bucket_obj buckets bn = Some b \<and> scope_active b sn \<and> sn \<noteq> ''_system'' \<and> collection_active b sn cn \<and>
    bn @ '':'' @ sn @ '':'' @ cn \<notin> set (excluded_collections excl)"
  obtain sel0 avail chosen where r: "get_random_scopes smp buckets sreq breq False False [] = Inr sel0"
    "rmap (collection_candidates False buckets) (selected_scopes sel0) = Inr avail"
    "pick smp req (concat avail) (excluded_collections excl) = Inr chosen" "rfold add_collection sel0 chosen = Inr sel"
    using assms(1) by (auto simp: get_random_collections_def rbind_eq_Inr)
  have wf: "sel_scope sel0 b s" if "(b, s) \<in> set (selected_scopes sel0)" for b s
  proof -
    from that obtain scs v where e: "(b, scs) \<in> set sel0" "(s, v) \<in> set scs" by (auto simp: selected_scopes_def)
    have "map_of sel0 b = Some scs" "map_of scs s = Some v"
      using random_scopes_wf [OF r(1)] e by (auto simp: sel_wf_def dict_wf_map_of)
    then show ?thesis by (simp add: sel_scope_def)
  qed
  let ?P = "\<lambda>sel. \<forall>bn sn cn. sel_coll sel bn sn cn \<longrightarrow> ?T bn sn cn"
  have "?P sel"
  proof (rule rfold_invariant [OF r(4), of ?P])
    show "?P sel0" using random_scopes_choice [OF r(1) assms(2,3)] by blast
  next
    fix sl x sl'
    assume P: "?P sl" and x: "x \<in> set chosen" and a: "add_collection sl x = Inr sl'"
    from x pick_sub [OF r(3) assms(2)] obtain names where n: "names \<in> set avail" "x \<in> set names"
      and ex: "x \<notin> set (excluded_collections excl)" by auto
    with rmap_members [OF r(2)] obtain bn sn where c: "collection_candidates False buckets (bn, sn) = Inr names"
      and bs: "(bn, sn) \<in> set (selected_scopes sel0)" by force
    have sc: "scope_choice buckets bn sn" using random_scopes_choice [OF r(1) assms(2,3)] wf [OF bs] by blast
    then obtain b where b: "get_bucket_obj buckets bn = Some b" "scope_active b sn" by (auto simp: scope_choice_def)
    have pb: "plain_bucket b" using b(1) assms(3) by (auto simp: get_bucket_obj_def find_Some_iff)
    obtain s where s: "map_of (b_scopes b) sn = Some s" using b(2) by (auto simp: scope_active_def split: option.splits)
    from c n(2) b(1) s obtain cn cl where cn: "x = bn @ '':'' @ sn @ '':'' @ cn" "(cn, cl) \<in> set (s_collections s)" "\<not> c_is_dropped cl"
      by (auto simp: collection_candidates_def rbind_eq_Inr get_active_collections_def get_scope_obj_def)
    have "dict_wf (s_collections s)" "no_colon cn" using pb map_of_SomeD [OF s] cn(2) by (auto simp: plain_bucket_def)
    with cn(2,3) s have "collection_active b sn cn" "no_colon cn"
      by (auto simp: collection_active_iff active_names_def dict_wf_map_of)
    moreover have "no_colon bn" "no_colon sn" "sn \<noteq> ''_system''" using sc by (simp_all add: scope_choice_def)
    ultimately show "?P sl'"
      using add_collection_inv [OF a [unfolded cn(1)]] P b ex cn(1) by (metis Pair_inject)
  qed
  with assms(4) show ?thesis by blast
qed

theorem random_collections_active_witness:
  "\<exists>b sel. bucket_init False [] = Inr b \<and> get_random_collections (\<lambda>xs n. take n xs) [b] (Num 1) All All False [] = Inr sel \<and>
    sel_coll sel ''default'' ''_default'' ''_default'' \<and> collection_active b ''_default'' ''_default''"
proof -
  obtain b where b: "bucket_init False [] = Inr b" by (simp add: bucket_init_def pget_def dict_get_def Let_def)
  have "case bucket_init False [] of Inl e \<Rightarrow> False | Inr b \<Rightarrow>
      get_random_collections (\<lambda>xs n. take n xs) [b] (Num 1) All All False [] = Inr [(''default'', [(''_default'', [''_default''])])]"
    by code_simp
  then have sel: "get_random_collections (\<lambda>xs n. take n xs) [b] (Num 1) All All False [] = Inr [(''default'', [(''_default'', [''_default''])])]"
    by (simp add: b)
  have c: "sel_coll [(''default'', [(''_default'', [''_default''])])] ''default'' ''_default'' ''_default''" by (simp add: sel_coll_def)
  have p: "\<forall>b'\<in>set [b]. plain_bucket b' \<and> no_colon (bucket_str b')"
    using b by (auto simp: bucket_init_def Let_def pget_def dict_get_def plain_bucket_def no_colon_def bucket_str_def default_scopes_def
        with_collections_def new_scope_def dict_wf_def named_spec_def)
  have "collection_active b ''_default'' ''_default''"
    using random_collections_active [OF sel _ p c] by (auto simp: set_take_subset get_bucket_obj_def split: if_splits)
  with b sel c show ?thesis by blast
qed

end
