(* ===== verification/Doc_Loading.thy ===== *)
theory Doc_Loading
  imports Manifest
begin

text \<open>
  How the tests decide which documents to create, change and delete: \<^verbatim>\<open>DocLoaderUtils\<close> of
  \<^verbatim>\<open>couchbase_utils/bucket_utils/bucket_ready_functions.py\<close>. Every collection object remembers the range of documents
  it holds (\<^verbatim>\<open>doc_index\<close>) and the range of those with sub-documents (\<^verbatim>\<open>sub_doc_index\<close>); the generators take their
  ranges from there, and the results of a load correct the expected number of items.

  \<^item> A generator is the call that makes it: its function and the arguments \<^verbatim>\<open>start\<close> and \<^verbatim>\<open>end\<close> (the generators
    themselves are in \<open>Doc_Gen\<close>). \<^verbatim>\<open>random.choice\<close> of a template is the argument \<open>chosen\<close>.
  \<^item> Percentages are whole numbers; \<^verbatim>\<open>/\<close> is then Python 2's division, which rounds down.
  \<^item> The SDK client that retries a failed operation is a pair of functions, for documents and for the paths of
    sub-documents.
\<close>

section \<open>Operations\<close>

definition DOC_OPS :: "string list" where
  "DOC_OPS = [''delete'', ''read'', ''touch'', ''update'', ''replace'', ''create'']"

definition SUB_DOC_OPS :: "string list" where
  "SUB_DOC_OPS = [''remove'', ''lookup'', ''upsert'', ''insert'']"

definition required_num :: "collection \<Rightarrow> int \<Rightarrow> string \<Rightarrow> int" where
  "required_num c target_percent op_type =
     (if op_type \<in> {''remove'', ''lookup''}
      then ((snd (c_sub_doc_index c) - fst (c_sub_doc_index c)) * target_percent) div 100
      else (c_num_items c * target_percent) div 100)"

definition rewind_doc_index :: "string \<Rightarrow> int \<times> int \<Rightarrow> bool \<Rightarrow> collection \<Rightarrow> collection" where
  "rewind_doc_index op_type gen_range update_num_items c =
     (let num_items = snd gen_range - fst gen_range; (d0, d1) = c_doc_index c; (s0, s1) = c_sub_doc_index c in
      if op_type = ''create'' then
        c\<lparr>c_doc_index := (d0, d1 - num_items),
          c_num_items := (if update_num_items then c_num_items c - num_items else c_num_items c)\<rparr>
      else if op_type = ''delete'' then
        c\<lparr>c_doc_index := (d0 - num_items, d1),
          c_num_items := (if update_num_items then c_num_items c + num_items else c_num_items c)\<rparr>
      else if op_type = ''insert'' then c\<lparr>c_sub_doc_index := (s0, s1 - num_items)\<rparr>
      else if op_type = ''remove'' then c\<lparr>c_sub_doc_index := (s0 - num_items, s1)\<rparr>
      else c)"

section \<open>Generators\<close>

datatype gen_kind = DocGenerator | EmployeeGenerator | EarthquakeGenerator | SubDocGenerator | SubDocEdit nat

record gen_call =
  gc_kind :: gen_kind
  gc_start :: int
  gc_end :: int

text \<open>The range and the new indices of a document operation.\<close>

definition doc_range :: "string \<Rightarrow> int \<Rightarrow> collection \<Rightarrow> (int \<times> int) \<times> collection" where
  "doc_range op_type num_items c =
     (let (d0, d1) = c_doc_index c in
      if op_type = ''create'' then
        (let start = d1; stop = start + num_items
         in ((start, stop),
             c\<lparr>c_num_items := (if c_doc_index c \<noteq> (0, 0) then c_num_items c + (stop - start) else c_num_items c),
               c_doc_index := (d0, stop)\<rparr>))
      else if op_type = ''delete'' then
        (let start = d0; stop = start + num_items
         in ((start, stop), c\<lparr>c_doc_index := (stop, d1), c_num_items := c_num_items c - (stop - start)\<rparr>))
      else ((d0, d0 + num_items), c))"

definition clip_sub_index :: "string \<Rightarrow> int \<Rightarrow> collection \<Rightarrow> collection" where
  "clip_sub_index op_type stop c =
     (let (s0, s1) = c_sub_doc_index c in
      if op_type \<in> {''delete'', ''update'', ''replace''} \<and> s0 < stop
      then c\<lparr>c_sub_doc_index := (if s1 < stop then (stop, stop) else (stop, s1))\<rparr> else c)"

definition get_doc_generator :: "string \<Rightarrow> int \<Rightarrow> bool \<Rightarrow> string \<Rightarrow> collection \<Rightarrow> gen_call \<times> collection" where
  "get_doc_generator op_type num_items all_vbuckets gen_type c =
     (case doc_range op_type num_items c of
        ((start, stop), c1) \<Rightarrow>
          (\<lparr>gc_kind = (if gen_type = ''default'' then DocGenerator
                      else if gen_type = ''employee'' then EmployeeGenerator else EarthquakeGenerator),
            gc_start = start, gc_end = (if all_vbuckets then stop else stop - start)\<rparr>,
           clip_sub_index op_type stop c1))"

text \<open>The range, the template and the new index of a sub-document operation.\<close>

definition subdoc_range :: "string \<Rightarrow> int \<Rightarrow> nat \<Rightarrow> collection \<Rightarrow> gen_kind \<times> (int \<times> int) \<times> collection" where
  "subdoc_range op_type num_items chosen c =
     (let (s0, s1) = c_sub_doc_index c; d1 = snd (c_doc_index c) in
      if op_type = ''insert'' then
        (let stop = (if d1 < s1 + num_items then d1 else s1 + num_items)
         in (SubDocGenerator, (s1, stop), c\<lparr>c_sub_doc_index := (s0, stop)\<rparr>))
      else if op_type = ''remove'' then
        (SubDocEdit 2, (s0, s0 + num_items), c\<lparr>c_sub_doc_index := (s0 + num_items, s1)\<rparr>)
      else if op_type = ''lookup'' then (SubDocEdit 0, (s0, s0 + num_items), c)
      else if op_type = ''upsert'' then
        (if d1 < s0 + num_items then (SubDocEdit chosen, (s0, d1), c\<lparr>c_sub_doc_index := (s0, d1)\<rparr>)
         else if s1 < s0 + num_items then (SubDocEdit chosen, (s0, s1), c\<lparr>c_sub_doc_index := (s0, s1)\<rparr>)
         else (SubDocEdit chosen, (s0, s0 + num_items), c))
      else (SubDocEdit chosen, (s0, s0 + num_items), c))"

definition get_subdoc_generator :: "string \<Rightarrow> int \<Rightarrow> bool \<Rightarrow> nat \<Rightarrow> collection \<Rightarrow> gen_call \<times> collection" where
  "get_subdoc_generator op_type num_items all_vbuckets chosen c =
     (case subdoc_range op_type num_items chosen c of
        (kind, (start, stop), c1) \<Rightarrow>
          (\<lparr>gc_kind = kind, gc_start = start, gc_end = (if all_vbuckets then stop else stop - start)\<rparr>, c1))"

section \<open>Generators for a specification\<close>

record crud_data =
  cd_doc_ttl :: int
  cd_target_items :: int
  cd_iterations :: int
  cd_gen :: gen_call

record load_spec =
  ls_percent :: "(string, int \<times> int) dict" \<comment> \<open>percentage and iterations of an operation\<close>
  ls_doc_ttl :: int
  ls_all_vbuckets :: bool
  ls_gen_type :: string
  ls_chosen :: "string \<Rightarrow> nat"

text \<open>The operations of one collection in the order of \<^verbatim>\<open>target_ops\<close>; those that come to no item are skipped. An
  operation that is not among \<^verbatim>\<open>DOC_OPS\<close>, such as \<^verbatim>\<open>cont_update\<close>, gets a sub-document generator.\<close>

definition load_op ::
  "load_spec \<Rightarrow> bool \<Rightarrow> (string, crud_data) dict \<times> collection \<Rightarrow> string \<Rightarrow> ((string, crud_data) dict \<times> collection) res" where
  "load_op sp recreated dc op_type =
     (case dc of (d, c) \<Rightarrow>
        rbind (dict_lookup (ls_percent sp) op_type) (\<lambda>(percent, iterations).
        let num_items = required_num c (if recreated then 100 else percent) op_type in
        if num_items = 0 then Inr (d, c)
        else
          let (g, c') = (if op_type \<in> set DOC_OPS
                         then get_doc_generator op_type num_items (ls_all_vbuckets sp) (ls_gen_type sp) c
                         else get_subdoc_generator op_type num_items (ls_all_vbuckets sp) (ls_chosen sp op_type) c)
          in Inr (AList.update op_type \<lparr>cd_doc_ttl = ls_doc_ttl sp, cd_target_items = num_items,
                    cd_iterations = iterations, cd_gen = g\<rparr> d, c')))"

datatype load_phase = DocPhase | RecreatedPhase | SubDocPhase

fun target_ops :: "load_phase \<Rightarrow> string list" where
  "target_ops DocPhase = DOC_OPS @ [''cont_update'', ''cont_replace'']"
| "target_ops RecreatedPhase = [''create'']"
| "target_ops SubDocPhase = SUB_DOC_OPS"

definition load_collection ::
  "load_spec \<Rightarrow> load_phase \<Rightarrow> (string, crud_data) dict \<Rightarrow> collection \<Rightarrow> ((string, crud_data) dict \<times> collection) res" where
  "load_collection sp phase d c = rfold (load_op sp (phase = RecreatedPhase)) (d, c) (target_ops phase)"

text \<open>The three levels of the dictionaries are one: a collection is named by bucket, scope and collection.\<close>

type_synonym place = "string \<times> string \<times> string"

definition replace_bucket :: "string \<Rightarrow> (bucket \<Rightarrow> bucket) \<Rightarrow> bucket list \<Rightarrow> bucket list" where
  "replace_bucket bn f bs =
     (case get_bucket_obj bs bn of
        None \<Rightarrow> bs
      | Some _ \<Rightarrow> takeWhile (\<lambda>b. b_name b \<noteq> BStr bn) bs @
          (case dropWhile (\<lambda>b. b_name b \<noteq> BStr bn) bs of [] \<Rightarrow> [] | b # rest \<Rightarrow> f b # rest))"

definition load_place ::
  "load_spec \<Rightarrow> load_phase \<Rightarrow> (place, (string, crud_data) dict) dict \<times> bucket list \<Rightarrow> place \<Rightarrow>
    ((place, (string, crud_data) dict) dict \<times> bucket list) res" where
  "load_place sp phase cb p =
     (case (cb, p) of ((crud, buckets), (bn, sn, cn)) \<Rightarrow>
        (case get_bucket_obj buckets bn of
           None \<Rightarrow> Inl AttributeError
         | Some b \<Rightarrow>
             (case the_collection b sn cn of
                None \<Rightarrow> Inl KeyError
              | Some c \<Rightarrow>
                  rbind (load_collection sp phase (dict_get crud p []) c) (\<lambda>(d, c').
                  Inr (AList.update p d crud, replace_bucket bn (update_collection sn cn (\<lambda>_. c')) buckets)))))"

definition create_load_gens ::
  "load_spec \<Rightarrow> load_phase \<Rightarrow> place list \<Rightarrow> (place, (string, crud_data) dict) dict \<times> bucket list \<Rightarrow>
    ((place, (string, crud_data) dict) dict \<times> bucket list) res" where
  "create_load_gens sp phase places cb = rfold (load_place sp phase) cb places"

text \<open>\<^verbatim>\<open>create_doc_gens_for_spec\<close> after the choice of collections: documents, then the added collections with their
  number of items, then sub-documents.\<close>

definition create_doc_gens_for_spec ::
  "load_spec \<Rightarrow> int \<Rightarrow> place list \<Rightarrow> place list \<Rightarrow> place list \<Rightarrow> bucket list \<Rightarrow>
    ((place, (string, crud_data) dict) dict \<times> bucket list) res" where
  "create_doc_gens_for_spec sp num_items_for_new doc_places added_places sub_places buckets =
     rbind (create_load_gens sp DocPhase doc_places ([], buckets)) (\<lambda>(crud1, buckets1).
     rbind (rfold (\<lambda>bs (bn, sn, cn).
              case get_bucket_obj bs bn of
                None \<Rightarrow> Inl AttributeError
              | Some b \<Rightarrow>
                  (if the_collection b sn cn = None then Inl KeyError
                   else Inr (replace_bucket bn (update_collection sn cn (\<lambda>c. c\<lparr>c_num_items := num_items_for_new\<rparr>)) bs)))
              buckets1 added_places) (\<lambda>buckets2.
     rbind (create_load_gens sp RecreatedPhase added_places (crud1, buckets2)) (\<lambda>cb3.
     create_load_gens sp SubDocPhase sub_places cb3)))"

section \<open>Results of a load\<close>

definition class_char :: "char \<Rightarrow> bool" where
  "class_char c \<longleftrightarrow> (let n = (of_char c :: nat) in
     48 \<le> n \<and> n \<le> 57 \<or> 65 \<le> n \<and> n \<le> 90 \<or> 97 \<le> n \<and> n \<le> 122 \<or> c = CHR ''.'')"

text \<open>\<^verbatim>\<open>re.match\<close> with \<^verbatim>\<open>.*(com\.[a-zA-Z0-9\.]+)\<close>: the last match in the first line.\<close>

fun last_com :: "string \<Rightarrow> string option" where
  "last_com [] = None"
| "last_com (c # s) =
     (case last_com s of
        Some g \<Rightarrow> Some g
      | None \<Rightarrow>
          (let body = takeWhile class_char (drop 4 (c # s)) in
           if startswith (c # s) ''com.'' \<and> body \<noteq> [] then Some (''com.'' @ body) else None))"

definition exception_class :: "string \<Rightarrow> string res" where
  "exception_class s = of_option AttributeError (last_com (takeWhile (\<lambda>c. c \<noteq> CHR 0x0A) s))"

definition core_error :: "string \<Rightarrow> string" where
  "core_error n = ''com.couchbase.client.core.error.'' @ n"

definition ambiguous :: "string \<Rightarrow> bool" where
  "ambiguous exn \<longleftrightarrow>
     in_str (core_error ''DurabilityAmbiguousException'') exn \<or> in_str (core_error ''AmbiguousTimeoutException'') exn \<or>
     in_str (core_error ''TimeoutException'') exn \<or>
     in_str (core_error ''RequestCanceledException'') exn \<and> in_str ''CHANNEL_CLOSED_WHILE_IN_FLIGHT'' exn"

text \<open>An operation that failed ambiguously and whose retry finds its effect already there has succeeded.\<close>

definition already_done :: "string \<Rightarrow> string \<Rightarrow> bool" where
  "already_done op_type error \<longleftrightarrow>
     in_str (core_error ''DocumentExistsException'') error \<and> op_type \<in> {''create'', ''update''} \<or>
     in_str ''com.couchbase.client.java.error.subdoc.PathExistsException'' error \<and> op_type = ''insert'' \<or>
     in_str (core_error ''DocumentNotFoundException'') error \<and> op_type = ''delete'' \<or>
     in_str (core_error ''subdoc.PathNotFoundException'') error \<and> op_type = ''remove''"

record 'p failed_doc =
  fd_error :: string
  fd_paths :: "'p list"

record 'p op_data =
  od_fail :: "(string, 'p failed_doc) dict"
  od_ignore :: "string list"
  od_retry :: "string list"
  od_retried_success :: "string list"
  od_retried_fail :: "string list"
  od_unwanted_success :: "string list"
  od_unwanted_fail :: "string list"

definition fresh_op_data :: "'p op_data \<Rightarrow> 'p op_data" where
  "fresh_op_data od = od\<lparr>od_retried_success := [], od_retried_fail := [], od_unwanted_success := [], od_unwanted_fail := []\<rparr>"

text \<open>The retry: \<open>None\<close> is success, otherwise the error. For a sub-document operation the first path that fails counts.\<close>

fun first_error :: "('p \<Rightarrow> string option) \<Rightarrow> 'p list \<Rightarrow> string option" where
  "first_error f [] = None"
| "first_error f (p # ps) = (case f p of None \<Rightarrow> first_error f ps | Some e \<Rightarrow> Some e)"

definition retry_result ::
  "(string \<Rightarrow> string \<Rightarrow> string option) \<Rightarrow> (string \<Rightarrow> string \<Rightarrow> 'p \<Rightarrow> string option) \<Rightarrow> string \<Rightarrow> string \<Rightarrow> 'p failed_doc \<Rightarrow> string option" where
  "retry_result crud crud_path op_type key fd =
     (if op_type \<in> set DOC_OPS then crud op_type key else first_error (crud_path op_type key) (fd_paths fd))"

definition undo_item :: "string \<Rightarrow> int \<Rightarrow> int" where
  "undo_item op_type n = (if op_type = ''create'' then n - 1 else if op_type = ''delete'' then n + 1 else n)"

definition ignored :: "'p op_data \<Rightarrow> string \<Rightarrow> bool" where
  "ignored od exn \<longleftrightarrow> list_ex (\<lambda>t. in_str t exn) (od_ignore od)"

definition retry_wanted :: "'p op_data \<Rightarrow> string \<Rightarrow> bool" where
  "retry_wanted od exn \<longleftrightarrow> list_ex (\<lambda>t. in_str t exn) (od_retry od)"

text \<open>One failed key of one operation: the new number of items and data of the operation.\<close>

definition validate_key ::
  "(string \<Rightarrow> string \<Rightarrow> string option) \<Rightarrow> (string \<Rightarrow> string \<Rightarrow> 'p \<Rightarrow> string option) \<Rightarrow> string \<Rightarrow>
    int \<times> 'p op_data \<Rightarrow> string \<times> 'p failed_doc \<Rightarrow> (int \<times> 'p op_data) res" where
  "validate_key crud crud_path op_type st kf =
     (case (st, kf) of ((n, od), (key, fd)) \<Rightarrow>
        rbind (exception_class (fd_error fd)) (\<lambda>_.
        if ignored od (fd_error fd) then Inr (undo_item op_type n, od\<lparr>od_fail := AList.delete key (od_fail od)\<rparr>)
        else
          let wanted = retry_wanted od (fd_error fd); result = retry_result crud crud_path op_type key fd;
              good = (case result of None \<Rightarrow> True | Some e \<Rightarrow> ambiguous (fd_error fd) \<and> already_done op_type e)
          in if good then
               Inr (n, if wanted then od\<lparr>od_retried_success := od_retried_success od @ [key], od_fail := AList.delete key (od_fail od)\<rparr>
                       else od\<lparr>od_unwanted_success := od_unwanted_success od @ [key]\<rparr>)
             else
               rbind (exception_class (opt_get result [])) (\<lambda>_.
               Inr (undo_item op_type n,
                    if wanted then od\<lparr>od_retried_fail := od_retried_fail od @ [key]\<rparr>
                    else od\<lparr>od_unwanted_fail := od_unwanted_fail od @ [key]\<rparr>))))"

definition validate_op ::
  "(string \<Rightarrow> string \<Rightarrow> string option) \<Rightarrow> (string \<Rightarrow> string \<Rightarrow> 'p \<Rightarrow> string option) \<Rightarrow> string \<Rightarrow> int \<Rightarrow> 'p op_data \<Rightarrow> (int \<times> 'p op_data) res" where
  "validate_op crud crud_path op_type n od =
     rfold (validate_key crud crud_path op_type) (n, fresh_op_data od) (od_fail od)"

text \<open>Document operations first, then the others.\<close>

definition validate_crud_task_per_collection ::
  "(string \<Rightarrow> string \<Rightarrow> string option) \<Rightarrow> (string \<Rightarrow> string \<Rightarrow> 'p \<Rightarrow> string option) \<Rightarrow> int \<Rightarrow> (string, 'p op_data) dict \<Rightarrow>
    (int \<times> (string, 'p op_data) dict) res" where
  "validate_crud_task_per_collection crud crud_path n c_data =
     rfold (\<lambda>(n, d) (op_type, od). rbind (validate_op crud crud_path op_type n od) (\<lambda>(n', od').
              Inr (n', AList.update op_type od' d))) (n, c_data)
       (filter (\<lambda>(op_type, _). op_type \<in> set DOC_OPS) c_data @ filter (\<lambda>(op_type, _). op_type \<notin> set DOC_OPS) c_data)"

definition validate_doc_loading_results :: "(string, 'p op_data) dict list \<Rightarrow> bool" where
  "validate_doc_loading_results colls = (\<not> list_ex (\<lambda>d. list_ex (\<lambda>(_, od). od_fail od \<noteq> []) d) colls)"

section \<open>Expiry\<close>

text \<open>One operation of a collection with a document TTL; \<open>done_once\<close> is \<^verbatim>\<open>num_items_updated\<close>.\<close>

definition expire_op :: "bool \<times> int \<times> collection \<Rightarrow> string \<times> crud_data \<Rightarrow> bool \<times> int \<times> collection" where
  "expire_op st oc =
     (case (st, oc) of ((done_once, wait, c), (op_type, cd)) \<Rightarrow>
        let wait' = max wait (cd_doc_ttl cd); affected = gc_end (cd_gen cd) - gc_start (cd_gen cd); (d0, d1) = c_doc_index c in
        if cd_doc_ttl cd \<noteq> 0 \<and> op_type = ''create'' then
          (done_once, wait', c\<lparr>c_doc_index := (d0, d1 - affected), c_num_items := c_num_items c - affected\<rparr>)
        else if cd_doc_ttl cd \<noteq> 0 \<and> op_type \<in> {''touch'', ''update'', ''replace''} \<and> \<not> done_once then
          (True, wait', c\<lparr>c_doc_index := (d0 + affected, d1), c_num_items := c_num_items c - affected\<rparr>)
        else (done_once, wait', c))"

text \<open>The flag is reset for each scope, not for each collection.\<close>

fun expire_scope ::
  "bool \<times> int \<Rightarrow> ((string, crud_data) dict \<times> collection) list \<Rightarrow> (bool \<times> int) \<times> collection list" where
  "expire_scope st [] = (st, [])"
| "expire_scope st ((data, c) # cs) =
     (case foldl expire_op (fst st, snd st, c) data of
        (f, w, c') \<Rightarrow> (case expire_scope (f, w) cs of (st', cs') \<Rightarrow> (st', c' # cs')))"

definition expire_document_level ::
  "((string, crud_data) dict \<times> collection) list list \<Rightarrow> int \<times> collection list list" where
  "expire_document_level scopes =
     foldl (\<lambda>(w, out) cs. case expire_scope (False, w) cs of ((_, w'), cs') \<Rightarrow> (w', out @ [cs'])) (0, []) scopes"

definition expire_collection_level :: "collection list \<Rightarrow> int \<times> collection list" where
  "expire_collection_level cs =
     foldl (\<lambda>(w, out) c. if w < c_maxTTL c then (c_maxTTL c, out @ [c\<lparr>c_num_items := 0\<rparr>]) else (w, out @ [c])) (0, []) cs"

definition expire_bucket_level :: "(int \<times> collection list) list \<Rightarrow> int \<times> collection list list" where
  "expire_bucket_level bs =
     foldl (\<lambda>(w, out) (ttl, cs). (max w ttl, out @ [map (\<lambda>c. c\<lparr>c_num_items := 0\<rparr>) cs])) (0, []) bs"

end
