(* ===== verification/Doc_Loading_Props.thy ===== *)
theory Doc_Loading_Props
  imports Doc_Loading
begin

text \<open>
  The indices of a collection object describe the documents that exist: runs of document and sub-document operations
  against sets of document numbers; and what the validation of a load leaves of its failures.
\<close>

section \<open>Indices and documents\<close>

definition docs :: "collection \<Rightarrow> int set" where
  "docs c = {fst (c_doc_index c)..<snd (c_doc_index c)}"

definition sub_docs :: "collection \<Rightarrow> int set" where
  "sub_docs c = {fst (c_sub_doc_index c)..<snd (c_sub_doc_index c)}"

definition gen_docs :: "gen_call \<Rightarrow> int set" where
  "gen_docs g = {gc_start g..<gc_end g}"

text \<open>What an operation on the documents \<open>R\<close> does to all documents \<open>L\<close> and to those with sub-documents \<open>S\<close>.\<close>

definition docs_after :: "string \<Rightarrow> int set \<Rightarrow> int set \<Rightarrow> int set" where
  "docs_after op R L = (if op = ''create'' then L \<union> R else if op = ''delete'' then L - R else L)"

definition subs_after :: "string \<Rightarrow> int set \<Rightarrow> int set \<Rightarrow> int set" where
  "subs_after op R S =
     (if op \<in> {''insert'', ''upsert''} then S \<union> R
      else if op \<in> {''delete'', ''update'', ''replace'', ''remove''} then S - R else S)"

text \<open>Runs: from a new or flushed collection, operations on at most as many documents as there are (creation
  excepted), and removals and lookups of at most as many sub-documents as there are.\<close>

inductive doc_run :: "collection \<Rightarrow> int set \<Rightarrow> int set \<Rightarrow> bool" where
  dr_new: "c_doc_index c = (0, 0) \<Longrightarrow> c_sub_doc_index c = (0, 0) \<Longrightarrow> doc_run c {} {}"
| dr_doc: "doc_run c L S \<Longrightarrow> op \<in> set DOC_OPS \<Longrightarrow> 0 \<le> n \<Longrightarrow> op = ''create'' \<or> n \<le> int (card L) \<Longrightarrow>
     get_doc_generator op n True gt c = (g, c') \<Longrightarrow> doc_run c' (docs_after op (gen_docs g) L) (subs_after op (gen_docs g) S)"
| dr_sub: "doc_run c L S \<Longrightarrow> op \<in> set SUB_DOC_OPS \<Longrightarrow> 0 \<le> n \<Longrightarrow> op \<in> {''insert'', ''upsert''} \<or> n \<le> int (card S) \<Longrightarrow>
     get_subdoc_generator op n True ch c = (g, c') \<Longrightarrow> doc_run c' L (subs_after op (gen_docs g) S)"

definition index_inv :: "collection \<Rightarrow> bool" where
  "index_inv c \<longleftrightarrow> 0 \<le> fst (c_doc_index c) \<and> fst (c_doc_index c) \<le> fst (c_sub_doc_index c) \<and>
     fst (c_sub_doc_index c) \<le> snd (c_sub_doc_index c) \<and> snd (c_sub_doc_index c) \<le> snd (c_doc_index c)"

text \<open>The ranges and the indices that the generators leave.\<close>

lemma doc_gen_indices:
  assumes "c_doc_index c = (d0, d1)" and "c_sub_doc_index c = (s0, s1)" and "get_doc_generator op n True gt c = (g, c')"
  shows "gc_start g = (if op = ''create'' then d1 else d0) \<and> gc_end g = gc_start g + n \<and>
    c_doc_index c' = (if op = ''create'' then (d0, d1 + n) else if op = ''delete'' then (d0 + n, d1) else (d0, d1)) \<and>
    c_sub_doc_index c' = (if op \<in> {''delete'', ''update'', ''replace''} \<and> s0 < d0 + n then (d0 + n, max s1 (d0 + n)) else (s0, s1))"
proof -
  have "g = fst (get_doc_generator op n True gt c)" "c' = snd (get_doc_generator op n True gt c)" using assms(3) by simp_all
  then show ?thesis by (simp add: get_doc_generator_def doc_range_def clip_sub_index_def assms(1,2) Let_def)
qed

lemma sub_gen_indices:
  assumes "c_doc_index c = (d0, d1)" and "c_sub_doc_index c = (s0, s1)" and "op \<in> set SUB_DOC_OPS"
    and "get_subdoc_generator op n True ch c = (g, c')"
  shows "c_doc_index c' = (d0, d1) \<and>
    (if op = ''insert'' then gc_start g = s1 \<and> gc_end g = min d1 (s1 + n) \<and> c_sub_doc_index c' = (s0, min d1 (s1 + n))
     else gc_start g = s0 \<and>
       (if op = ''upsert'' then gc_end g = (if d1 < s0 + n then d1 else if s1 < s0 + n then s1 else s0 + n) \<and>
          c_sub_doc_index c' = (s0, if d1 < s0 + n then d1 else s1)
        else gc_end g = s0 + n \<and> c_sub_doc_index c' = (if op = ''remove'' then s0 + n else s0, s1)))"
proof -
  have "g = fst (get_subdoc_generator op n True ch c)" "c' = snd (get_subdoc_generator op n True ch c)" using assms(4) by simp_all
  then show ?thesis by (simp add: get_subdoc_generator_def subdoc_range_def assms(1,2) Let_def)
qed

lemma doc_op_step:
  assumes "index_inv c" and "op \<in> set DOC_OPS" and "0 \<le> n" and "op = ''create'' \<or> n \<le> int (card (docs c))"
    and "get_doc_generator op n True gt c = (g, c')"
  shows "index_inv c' \<and> docs c' = docs_after op (gen_docs g) (docs c) \<and> sub_docs c' = subs_after op (gen_docs g) (sub_docs c) \<and>
    (if op = ''create'' then gen_docs g \<inter> docs c = {} else gen_docs g \<subseteq> docs c) \<and> int (card (gen_docs g)) = n"
proof -
  obtain d0 d1 s0 s1 where i: "c_doc_index c = (d0, d1)" "c_sub_doc_index c = (s0, s1)" by (cases "c_doc_index c"; cases "c_sub_doc_index c") auto
  have inv: "0 \<le> d0" "d0 \<le> s0" "s0 \<le> s1" "s1 \<le> d1" using assms(1) by (simp_all add: index_inv_def i)
  have n: "op = ''create'' \<or> n \<le> d1 - d0" using assms(4) inv by (simp add: docs_def i)
  note f = doc_gen_indices [OF i assms(5)]
  consider (create) "op = ''create''" | (delete) "op = ''delete''" | (upd) "op = ''update'' \<or> op = ''replace''"
    | (keep) "op = ''read'' \<or> op = ''touch''" using assms(2) unfolding DOC_OPS_def list.set insert_iff empty_iff by argo
  then show ?thesis
  proof cases
    case create
    with f inv assms(3) show ?thesis by (auto simp: i index_inv_def docs_def sub_docs_def gen_docs_def docs_after_def subs_after_def)
  next
    case delete
    with f n inv assms(3) show ?thesis by (auto simp: i index_inv_def docs_def sub_docs_def gen_docs_def docs_after_def subs_after_def)
  next
    case upd
    then have k: "op \<noteq> ''create''" "op \<noteq> ''delete''" "op \<in> {''delete'', ''update'', ''replace''}" "docs_after op R L = L"
      "subs_after op R S = S - R" for R L S by (elim disjE; simp add: docs_after_def subs_after_def)+
    have f': "gc_start g = d0" "gc_end g = d0 + n" "c_doc_index c' = (d0, d1)" "n \<le> d1 - d0"
      "c_sub_doc_index c' = (if s0 < d0 + n then (d0 + n, max s1 (d0 + n)) else (s0, s1))" using f n upd by (simp_all add: k(1-3))
    from f'(4) inv assms(3) show ?thesis unfolding k(4,5) by (simp add: f'(1-3,5) i k(1) index_inv_def docs_def sub_docs_def gen_docs_def) auto
  next
    case keep
    then have k: "op \<noteq> ''create''" "op \<noteq> ''delete''" "op \<notin> {''delete'', ''update'', ''replace''}" "docs_after op R L = L"
      "subs_after op R S = S" for R L S by (elim disjE; simp add: docs_after_def subs_after_def)+
    have f': "gc_start g = d0" "gc_end g = d0 + n" "c_doc_index c' = (d0, d1)" "n \<le> d1 - d0" "c_sub_doc_index c' = (s0, s1)"
      using f n keep by (simp_all add: k(1,2)) (elim disjE; simp)
    from f'(4) inv assms(3) show ?thesis unfolding k(4,5) by (simp add: f'(1-3,5) i k(1) index_inv_def docs_def sub_docs_def gen_docs_def)
  qed
qed

lemma sub_op_step:
  assumes "index_inv c" and "op \<in> set SUB_DOC_OPS" and "0 \<le> n" and "op \<in> {''insert'', ''upsert''} \<or> n \<le> int (card (sub_docs c))"
    and "get_subdoc_generator op n True ch c = (g, c')"
  shows "index_inv c' \<and> docs c' = docs c \<and> sub_docs c' = subs_after op (gen_docs g) (sub_docs c) \<and> gen_docs g \<subseteq> docs c \<and>
    (if op = ''insert'' then gen_docs g \<inter> sub_docs c = {} else op = ''upsert'' \<or> gen_docs g \<subseteq> sub_docs c)"
proof -
  obtain d0 d1 s0 s1 where i: "c_doc_index c = (d0, d1)" "c_sub_doc_index c = (s0, s1)" by (cases "c_doc_index c"; cases "c_sub_doc_index c") auto
  have inv: "0 \<le> d0" "d0 \<le> s0" "s0 \<le> s1" "s1 \<le> d1" using assms(1) by (simp_all add: index_inv_def i)
  have n: "op \<in> {''insert'', ''upsert''} \<or> n \<le> s1 - s0" using assms(4) inv by (simp add: sub_docs_def i)
  note f = sub_gen_indices [OF i assms(2,5)]
  consider (insert) "op = ''insert''" | (upsert) "op = ''upsert''" | (remove) "op = ''remove''" | (lookup) "op = ''lookup''"
    using assms(2) unfolding SUB_DOC_OPS_def list.set insert_iff empty_iff by argo
  then show ?thesis
  proof cases
    case insert
    with f inv assms(3) show ?thesis by (auto simp: i index_inv_def docs_def sub_docs_def gen_docs_def subs_after_def)
  next
    case upsert
    with f inv assms(3) show ?thesis
      by (auto simp: i index_inv_def docs_def sub_docs_def gen_docs_def subs_after_def split: if_splits)
  next
    case remove
    with f n inv assms(3) show ?thesis by (auto simp: i index_inv_def docs_def sub_docs_def gen_docs_def subs_after_def)
  next
    case lookup
    with f n inv assms(3) show ?thesis by (auto simp: i index_inv_def docs_def sub_docs_def gen_docs_def subs_after_def)
  qed
qed

lemma doc_run_index: "doc_run c L S \<Longrightarrow> index_inv c \<and> docs c = L \<and> sub_docs c = S"
proof (induction rule: doc_run.induct)
  case (dr_new c)
  then show ?case by (simp add: index_inv_def docs_def sub_docs_def)
next
  case (dr_doc c L S op n gt g c')
  then show ?case using doc_op_step [of c op n gt g c'] by simp
next
  case (dr_sub c L S op n ch g c')
  then show ?case using sub_op_step [of c op n ch g c'] by simp
qed

text \<open>C16. The indices follow the documents: in every run, the document index of the collection is the range of
  exactly the documents that exist and the sub-document index that of those with sub-documents; the next operation
  creates only documents that do not exist, and every other one works only on existing documents (an insertion only
  on documents without sub-documents, a removal or lookup only on those with them).\<close>

theorem doc_index_follows_documents:
  assumes "doc_run c L S"
  shows "L = {fst (c_doc_index c)..<snd (c_doc_index c)} \<and> S = {fst (c_sub_doc_index c)..<snd (c_sub_doc_index c)} \<and> S \<subseteq> L \<and>
    (op \<in> set DOC_OPS \<and> 0 \<le> n \<and> (op = ''create'' \<or> n \<le> int (card L)) \<longrightarrow>
       (let R = gen_docs (fst (get_doc_generator op n True gt c)) in
        int (card R) = n \<and> (if op = ''create'' then R \<inter> L = {} else R \<subseteq> L))) \<and>
    (op \<in> set SUB_DOC_OPS \<and> 0 \<le> n \<and> (op \<in> {''insert'', ''upsert''} \<or> n \<le> int (card S)) \<longrightarrow>
       (let R = gen_docs (fst (get_subdoc_generator op n True ch c)) in
        R \<subseteq> L \<and> (op = ''insert'' \<longrightarrow> R \<inter> S = {}) \<and> (op \<in> {''remove'', ''lookup''} \<longrightarrow> R \<subseteq> S)))"
proof -
  have i: "index_inv c" "docs c = L" "sub_docs c = S" using doc_run_index [OF assms] by auto
  have sub: "S \<subseteq> L" using i by (auto simp: index_inv_def docs_def sub_docs_def)
  have d: "op \<in> set DOC_OPS \<and> 0 \<le> n \<and> (op = ''create'' \<or> n \<le> int (card L)) \<Longrightarrow>
      int (card (gen_docs (fst (get_doc_generator op n True gt c)))) = n \<and>
      (if op = ''create'' then gen_docs (fst (get_doc_generator op n True gt c)) \<inter> L = {} else gen_docs (fst (get_doc_generator op n True gt c)) \<subseteq> L)"
    using doc_op_step [OF i(1), of op n gt "fst (get_doc_generator op n True gt c)" "snd (get_doc_generator op n True gt c)"] i(2) by (cases "op = ''create''") simp_all
  have s: "op \<in> set SUB_DOC_OPS \<and> 0 \<le> n \<and> (op \<in> {''insert'', ''upsert''} \<or> n \<le> int (card S)) \<Longrightarrow>
      gen_docs (fst (get_subdoc_generator op n True ch c)) \<subseteq> L \<and>
      (op = ''insert'' \<longrightarrow> gen_docs (fst (get_subdoc_generator op n True ch c)) \<inter> S = {}) \<and>
      (op \<in> {''remove'', ''lookup''} \<longrightarrow> gen_docs (fst (get_subdoc_generator op n True ch c)) \<subseteq> S)"
    using sub_op_step [OF i(1), of op n ch "fst (get_subdoc_generator op n True ch c)" "snd (get_subdoc_generator op n True ch c)"] i(2,3)
    by (auto split: if_splits)
  show ?thesis using i(2,3) sub d s unfolding docs_def sub_docs_def Let_def by blast
qed

theorem doc_index_follows_documents_witness:
  "\<exists>c. doc_run c {0..<10} {} \<and> gen_docs (fst (get_doc_generator ''delete'' 4 True ''default'' c)) \<subseteq> {0..<10} \<and>
    int (card (gen_docs (fst (get_doc_generator ''delete'' 4 True ''default'' c)))) = 4"
proof -
  let ?c0 = "new_collection (named_spec ''c'')"
  obtain g c where g: "get_doc_generator ''create'' 10 True ''default'' ?c0 = (g, c)" by (cases "get_doc_generator ''create'' 10 True ''default'' ?c0") auto
  have "doc_run ?c0 {} {}" by (rule dr_new) (simp_all add: new_collection_def)
  from dr_doc [OF this _ _ _ g] have "doc_run c (gen_docs g) {}" by (simp add: DOC_OPS_def docs_after_def subs_after_def)
  moreover have "gen_docs g = {0..<10}" using g by (auto simp: get_doc_generator_def doc_range_def new_collection_def gen_docs_def)
  ultimately have r: "doc_run c {0..<10} {}" by simp
  then show ?thesis
    using doc_index_follows_documents [OF r, of "''delete''" 4 "''default''" 0] by (auto simp: DOC_OPS_def Let_def)
qed

text \<open>A recreated collection keeps the old sub-document index: an insertion of sub-documents then asks for a
  range that ends before it starts, for any number of new documents below the old index.\<close>

theorem recreated_insert_is_backwards:
  assumes "c_sub_doc_index c = (s0, s1)" and "0 \<le> k" and "k < s1" and "0 < n"
  shows "let c1 = collection_recreated sp c; c2 = snd (get_doc_generator ''create'' k True gt c1);
           g = fst (get_subdoc_generator ''insert'' n True ch c2)
         in gc_start g = s1 \<and> gc_end g = k"
  using assms by (simp add: collection_recreated_def get_doc_generator_def doc_range_def clip_sub_index_def get_subdoc_generator_def
      subdoc_range_def Let_def)

text \<open>Expiry by collection TTL: only a collection whose TTL exceeds those before it is set to zero items.\<close>

theorem collection_expiry_skips:
  "c_maxTTL c2 \<le> c_maxTTL c1 \<Longrightarrow> 0 < c_maxTTL c1 \<Longrightarrow> expire_collection_level [c1, c2] = (c_maxTTL c1, [c1\<lparr>c_num_items := 0\<rparr>, c2])"
  by (simp add: expire_collection_level_def)

section \<open>Validation of a load\<close>

definition retry_good ::
  "(string \<Rightarrow> string \<Rightarrow> string option) \<Rightarrow> (string \<Rightarrow> string \<Rightarrow> 'p \<Rightarrow> string option) \<Rightarrow> string \<Rightarrow> string \<Rightarrow> 'p failed_doc \<Rightarrow> bool" where
  "retry_good crud crud_path op key fd =
     (case retry_result crud crud_path op key fd of None \<Rightarrow> True | Some e \<Rightarrow> ambiguous (fd_error fd) \<and> already_done op e)"

text \<open>What becomes of a failed key: ignored, or retried with success or not.\<close>

definition key_lost :: "(string \<Rightarrow> string \<Rightarrow> string option) \<Rightarrow> (string \<Rightarrow> string \<Rightarrow> 'p \<Rightarrow> string option) \<Rightarrow> string \<Rightarrow> 'p op_data \<Rightarrow> string \<times> 'p failed_doc \<Rightarrow> bool" where
  "key_lost crud crud_path op od kf \<longleftrightarrow> ignored od (fd_error (snd kf)) \<or> \<not> retry_good crud crud_path op (fst kf) (snd kf)"

definition key_settled :: "(string \<Rightarrow> string \<Rightarrow> string option) \<Rightarrow> (string \<Rightarrow> string \<Rightarrow> 'p \<Rightarrow> string option) \<Rightarrow> string \<Rightarrow> 'p op_data \<Rightarrow> string \<times> 'p failed_doc \<Rightarrow> bool" where
  "key_settled crud crud_path op od kf \<longleftrightarrow> ignored od (fd_error (snd kf)) \<or>
     retry_wanted od (fd_error (snd kf)) \<and> retry_good crud crud_path op (fst kf) (snd kf)"

definition same_lists :: "'p op_data \<Rightarrow> 'p op_data \<Rightarrow> bool" where
  "same_lists od od' \<longleftrightarrow> od_ignore od' = od_ignore od \<and> od_retry od' = od_retry od"

lemma validate_key_effect:
  assumes "validate_key crud crud_path op (n, od) kf = Inr (n', od')"
  shows "same_lists od od' \<and>
    n' = (if key_lost crud crud_path op od kf then undo_item op n else n) \<and>
    od_fail od' = (if key_settled crud crud_path op od kf then AList.delete (fst kf) (od_fail od) else od_fail od) \<and>
    od_unwanted_fail od' = od_unwanted_fail od @ (if key_lost crud crud_path op od kf \<and> \<not> ignored od (fd_error (snd kf)) \<and>
      \<not> retry_wanted od (fd_error (snd kf)) then [fst kf] else [])"
proof -
  obtain key fd where kf: "kf = (key, fd)" by force
  have good: "(case retry_result crud crud_path op key fd of None \<Rightarrow> True | Some e \<Rightarrow> ambiguous (fd_error fd) \<and> already_done op e) =
      retry_good crud crud_path op key fd" by (simp add: retry_good_def)
  show ?thesis
    using assms unfolding validate_key_def kf prod.case Let_def good
    by (auto simp: rbind_eq_Inr key_lost_def key_settled_def same_lists_def split: if_splits)
qed

lemma key_cong:
  "same_lists od od' \<Longrightarrow> key_lost crud cp op od' = key_lost crud cp op od \<and> key_settled crud cp op od' = key_settled crud cp op od \<and>
     ignored od' = ignored od \<and> retry_wanted od' = retry_wanted od"
  by (auto simp: same_lists_def key_lost_def key_settled_def ignored_def retry_wanted_def fun_eq_iff)

fun undo_items :: "string \<Rightarrow> nat \<Rightarrow> int \<Rightarrow> int" where
  "undo_items op k n = (if op = ''create'' then n - int k else if op = ''delete'' then n + int k else n)"

lemma undo_items_step: "undo_items op k (undo_item op n) = undo_items op (Suc k) n"
  by (simp add: undo_item_def)

lemma delete_as_filter: "AList.delete k d = filter (\<lambda>p. fst p \<noteq> k) d"
  by (auto simp: AList.delete_eq split_def intro!: filter_cong)

definition unwanted_failure :: "(string \<Rightarrow> string \<Rightarrow> string option) \<Rightarrow> (string \<Rightarrow> string \<Rightarrow> 'p \<Rightarrow> string option) \<Rightarrow> string \<Rightarrow> 'p op_data \<Rightarrow> string \<times> 'p failed_doc \<Rightarrow> bool" where
  "unwanted_failure crud crud_path op od kf \<longleftrightarrow> key_lost crud crud_path op od kf \<and> \<not> ignored od (fd_error (snd kf)) \<and>
     \<not> retry_wanted od (fd_error (snd kf))"

lemma validate_keys_effect:
  assumes "rfold (validate_key crud cp op) (n, od1) kfs = Inr (n', od')" and "same_lists od od1"
  shows "n' = undo_items op (length (filter (key_lost crud cp op od) kfs)) n \<and>
    od_fail od' = filter (\<lambda>p. fst p \<notin> fst ` set (filter (key_settled crud cp op od) kfs)) (od_fail od1) \<and>
    od_unwanted_fail od' = od_unwanted_fail od1 @ map fst (filter (unwanted_failure crud cp op od) kfs)"
  using assms
proof (induction kfs arbitrary: n od1)
  case (Cons kf kfs)
  from Cons.prems(1) obtain n2 od2 where 1: "validate_key crud cp op (n, od1) kf = Inr (n2, od2)"
    and 2: "rfold (validate_key crud cp op) (n2, od2) kfs = Inr (n', od')" by (auto simp: rbind_eq_Inr)
  note e = validate_key_effect [OF 1]
  have s: "same_lists od od2" using e Cons.prems(2) by (simp add: same_lists_def)
  note c = key_cong [OF Cons.prems(2), of crud cp op]
  have n2: "n2 = (if key_lost crud cp op od kf then undo_item op n else n)" using e c by simp
  have f2: "od_fail od2 = (if key_settled crud cp op od kf then filter (\<lambda>p. fst p \<noteq> fst kf) (od_fail od1) else od_fail od1)"
    using e c by (simp add: delete_as_filter)
  have u2: "od_unwanted_fail od2 = od_unwanted_fail od1 @ (if unwanted_failure crud cp op od kf then [fst kf] else [])"
    using e c by (simp add: unwanted_failure_def)
  note ih = Cons.IH [OF 2 s]
  have "n' = undo_items op (length (filter (key_lost crud cp op od) (kf # kfs))) n"
    using ih n2 undo_items_step by (cases "key_lost crud cp op od kf") (simp_all del: undo_items.simps)
  moreover have "od_fail od' = filter (\<lambda>p. fst p \<notin> fst ` set (filter (key_settled crud cp op od) (kf # kfs))) (od_fail od1)"
    using ih f2 by (auto simp: conj_commute intro!: filter_cong)
  ultimately show ?case using ih u2 by simp
qed simp


definition sample_op_data :: "unit op_data" where
  "sample_op_data = \<lparr>od_fail = [(''k1'', \<lparr>fd_error = ''com.T'', fd_paths = []\<rparr>), (''k2'', \<lparr>fd_error = ''com.L'', fd_paths = []\<rparr>)],
     od_ignore = [], od_retry = [''T''], od_retried_success = [], od_retried_fail = [], od_unwanted_success = [],
     od_unwanted_fail = []\<rparr>"

definition sample_crud :: "string \<Rightarrow> string \<Rightarrow> string option" where
  "sample_crud op k = (if k = ''k1'' then None else Some ''com.L'')"


end
