(* ===== verification/Data_Analysis.thy ===== *)
theory Data_Analysis
  imports Py_Prelude
begin

text \<open>
  Comparison of what nodes report about their data: \<^verbatim>\<open>lib/couchbase_helper/data_analysis_helper.py\<close> (the comparison of
  data sets and statistics, its verdict, and the collection of statistics) and the consistency checks over nodes in
  \<^verbatim>\<open>couchbase_utils/bucket_utils/bucket_ready_functions.py\<close>.

  \<^item> A bucket is its name. What \<^verbatim>\<open>cbstats\<close>, \<^verbatim>\<open>cbtransfer\<close> and the memcached client return is an argument.
  \<^item> Floating point numbers have the type \<open>'f\<close> with the operations of \<open>float_ops\<close>; \<open>rp\<close> is \<^verbatim>\<open>str\<close> of a list of strings
    and \<open>rpd\<close> that of a dictionary of strings.
  \<^item> Lists made from sets of keys are in the order of their source.
\<close>

record 'f float_ops =
  fl_parse :: "string \<Rightarrow> 'f option"
  fl_of_int :: "int \<Rightarrow> 'f"
  fl_add :: "'f \<Rightarrow> 'f \<Rightarrow> 'f"
  fl_sub :: "'f \<Rightarrow> 'f \<Rightarrow> 'f"
  fl_square :: "'f \<Rightarrow> 'f"
  fl_div :: "'f \<Rightarrow> 'f \<Rightarrow> 'f"
  fl_sqrt :: "'f \<Rightarrow> 'f"
  fl_lt :: "'f \<Rightarrow> 'f \<Rightarrow> bool"
  fl_le :: "'f \<Rightarrow> 'f \<Rightarrow> bool"
  fl_eq :: "'f \<Rightarrow> 'f \<Rightarrow> bool"
  fl_show :: "'f \<Rightarrow> string"

section \<open>Values\<close>

text \<open>A converted value: \<open>CNone\<close> is what an unknown type converts to.\<close>

datatype 'f cval = CNone | CInt int | CFloat 'f | CStr string

definition long_of :: "string \<Rightarrow> int res" where
  "long_of s =
     (let t = py_strip s in
      if t \<noteq> [] \<and> last t \<in> {CHR ''L'', CHR ''l''} \<and> (butlast t = [] \<or> \<not> py_ws (last (butlast t)))
      then py_int 10 (butlast t) else py_int 10 t)"

definition convert_value :: "'f float_ops \<Rightarrow> string option \<Rightarrow> string \<Rightarrow> 'f cval res" where
  "convert_value fl val ty =
     (case val of
        None \<Rightarrow> Inr (CStr [])
      | Some s \<Rightarrow>
          (if ty = ''int'' then rbind (py_int 10 s) (\<lambda>i. Inr (CInt i))
           else if ty = ''long'' then rbind (long_of s) (\<lambda>i. Inr (CInt i))
           else if ty = ''float'' then rbind (of_option ValueError (fl_parse fl s)) (\<lambda>x. Inr (CFloat x))
           else if ty = ''string'' then Inr (CStr s)
           else Inr CNone))"

fun str_less :: "string \<Rightarrow> string \<Rightarrow> bool" where
  "str_less s [] = False"
| "str_less [] (b # t) = True"
| "str_less (a # s) (b # t) \<longleftrightarrow> (of_char a :: nat) < of_char b \<or> a = b \<and> str_less s t"

text \<open>Python 2 orders values of different types: \<^verbatim>\<open>None\<close>, then numbers, then strings.\<close>

fun cv_rank :: "'f cval \<Rightarrow> nat" where
  "cv_rank CNone = 0"
| "cv_rank (CInt _) = 1"
| "cv_rank (CFloat _) = 1"
| "cv_rank (CStr _) = 2"

fun cv_lt :: "'f float_ops \<Rightarrow> 'f cval \<Rightarrow> 'f cval \<Rightarrow> bool" where
  "cv_lt fl (CInt i) (CInt j) = (i < j)"
| "cv_lt fl (CFloat x) (CFloat y) = fl_lt fl x y"
| "cv_lt fl (CInt i) (CFloat y) = fl_lt fl (fl_of_int fl i) y"
| "cv_lt fl (CFloat x) (CInt j) = fl_lt fl x (fl_of_int fl j)"
| "cv_lt fl (CStr s) (CStr t) = str_less s t"
| "cv_lt fl v w = (cv_rank v < cv_rank w)"

fun cv_eq :: "'f float_ops \<Rightarrow> 'f cval \<Rightarrow> 'f cval \<Rightarrow> bool" where
  "cv_eq fl (CFloat x) (CFloat y) = fl_eq fl x y"
| "cv_eq fl (CInt i) (CFloat y) = fl_eq fl (fl_of_int fl i) y"
| "cv_eq fl (CFloat x) (CInt j) = fl_eq fl x (fl_of_int fl j)"
| "cv_eq fl v w = (v = w)"

fun cv_le :: "'f float_ops \<Rightarrow> 'f cval \<Rightarrow> 'f cval \<Rightarrow> bool" where
  "cv_le fl (CFloat x) (CFloat y) = fl_le fl x y"
| "cv_le fl (CInt i) (CFloat y) = fl_le fl (fl_of_int fl i) y"
| "cv_le fl (CFloat x) (CInt j) = fl_le fl x (fl_of_int fl j)"
| "cv_le fl v w = (cv_lt fl v w \<or> v = w)"

fun cv_str :: "'f float_ops \<Rightarrow> 'f cval \<Rightarrow> string" where
  "cv_str fl CNone = ''None''"
| "cv_str fl (CInt i) = int_str i"
| "cv_str fl (CFloat x) = fl_show fl x"
| "cv_str fl (CStr s) = s"

record cmp_logic =
  cl_type :: string
  cl_operation :: string

definition cmp_holds :: "'f float_ops \<Rightarrow> string \<Rightarrow> 'f cval \<Rightarrow> 'f cval \<Rightarrow> bool" where
  "cmp_holds fl operation v w =
     (if operation = ''>='' then cv_le fl w v else if operation = ''<='' then cv_le fl v w
      else if operation = ''>'' then cv_lt fl w v else if operation = ''<'' then cv_lt fl v w
      else if operation = ''=='' then cv_eq fl v w else if operation = ''!='' then \<not> cv_eq fl v w
      else False)"

type_synonym reason = "(string, string) dict"

definition compare_values ::
  "'f float_ops \<Rightarrow> string option \<Rightarrow> string option \<Rightarrow> string \<Rightarrow> reason \<Rightarrow> cmp_logic \<Rightarrow> reason res" where
  "compare_values fl val1 val2 key reason logic =
     rbind (convert_value fl val1 (cl_type logic)) (\<lambda>v1.
     rbind (convert_value fl val2 (cl_type logic)) (\<lambda>v2.
     if cl_operation logic = ''filter'' \<or> cmp_holds fl (cl_operation logic) v1 v2 then Inr reason
     else Inr (AList.update key (''Condition Fail:: '' @ cv_str fl v1 @ '' '' @ cl_operation logic @ '' '' @ cv_str fl v2) reason)))"

section \<open>Results of a comparison\<close>

record cmp_result =
  cr_deleted :: "string list"
  cr_added :: "string list"
  cr_updated :: "(string, reason) dict"
  lr_deleted :: bool
  lr_added :: bool
  lr_updated :: bool

definition key_diff :: "(string, 'a) dict \<Rightarrow> (string, 'b) dict \<Rightarrow> string list" where
  "key_diff d e = filter (\<lambda>k. k \<notin> set (dict_keys e)) (dict_keys d)"

definition key_common :: "(string, 'a) dict \<Rightarrow> (string, 'b) dict \<Rightarrow> string list" where
  "key_common d e = filter (\<lambda>k. k \<in> set (dict_keys e)) (dict_keys d)"

definition cmp_summary :: "(string, 'a) dict \<Rightarrow> (string, 'b) dict \<Rightarrow> (string, reason) dict \<Rightarrow> cmp_result" where
  "cmp_summary info1 info2 updated =
     \<lparr>cr_deleted = key_diff info1 info2, cr_added = key_diff info2 info1, cr_updated = updated,
      lr_deleted = (0 < length (key_diff info1 info2)), lr_added = (0 < length (key_diff info2 info1)),
      lr_updated = (0 < length updated)\<rparr>"

text \<open>The loop that both comparisons share: the reasons of every common key, kept where there are any.\<close>

definition updated_items :: "(string \<Rightarrow> reason res) \<Rightarrow> string list \<Rightarrow> (string, reason) dict res" where
  "updated_items reason_of keys =
     rfold (\<lambda>m k. rbind (reason_of k) (\<lambda>r. Inr (if 0 < length r then AList.update k r m else m))) [] keys"

section \<open>Statistics\<close>

type_synonym stats = "(string, string option) dict"

text \<open>A statistic without a comparison of its own reads an undefined name.\<close>

definition compare_stat ::
  "'f float_ops \<Rightarrow> (string, cmp_logic) dict option \<Rightarrow> stats \<Rightarrow> stats \<Rightarrow> reason \<Rightarrow> string \<Rightarrow> reason res" where
  "compare_stat fl cmap data1 data2 reason vkey =
     (case Option.bind cmap (\<lambda>m. map_of m vkey) of
        Some logic \<Rightarrow>
          rbind (dict_lookup data1 vkey) (\<lambda>v1.
          rbind (dict_lookup data2 vkey) (\<lambda>v2. compare_values fl v1 v2 vkey reason logic))
      | None \<Rightarrow> Inl (Raised ''NameError''))"

definition stats_reason ::
  "'f float_ops \<Rightarrow> (string list \<Rightarrow> string) \<Rightarrow> (string, cmp_logic) dict option \<Rightarrow> (string, stats) dict \<Rightarrow> (string, stats) dict \<Rightarrow>
    string \<Rightarrow> reason res" where
  "stats_reason fl rp cmap info1 info2 key =
     rbind (dict_lookup info1 key) (\<lambda>data1.
     rbind (dict_lookup info2 key) (\<lambda>data2.
     if length data1 = length data2 then rfold (compare_stat fl cmap data1 data2) [] (dict_keys data1)
     else Inr [(''number of key mismatch'', ''Key Mismatch :: Expected keys '' @ rp (dict_keys data1) @
            '' '' @ [CHR 0x0A] @ '' Actual keys '' @ rp (dict_keys data2))]))"

definition compare_maps ::
  "'f float_ops \<Rightarrow> (string list \<Rightarrow> string) \<Rightarrow> (string, cmp_logic) dict option \<Rightarrow> (string, stats) dict \<Rightarrow> (string, stats) dict \<Rightarrow>
    cmp_result res" where
  "compare_maps fl rp cmap info1 info2 =
     rbind (updated_items (stats_reason fl rp cmap info1 info2) (key_common info1 info2)) (\<lambda>updated.
     Inr (cmp_summary info1 info2 updated))"

text \<open>A loop over the keys of the first of two dictionaries that compares the values of each.\<close>

definition pairwise :: "('a \<Rightarrow> 'b \<Rightarrow> 'c res) \<Rightarrow> (string, 'a) dict \<Rightarrow> (string, 'b) dict \<Rightarrow> (string, 'c) dict res" where
  "pairwise f m1 m2 =
     rfold (\<lambda>r (k, info1). rbind (dict_lookup m2 k) (\<lambda>info2. rbind (f info1 info2) (\<lambda>c. Inr (AList.update k c r)))) [] m1"

definition compare_stats_dataset ::
  "'f float_ops \<Rightarrow> (string list \<Rightarrow> string) \<Rightarrow> (string, cmp_logic) dict option \<Rightarrow> (string, (string, stats) dict) dict \<Rightarrow>
    (string, (string, stats) dict) dict \<Rightarrow> (string, cmp_result) dict res" where
  "compare_stats_dataset fl rp cmap bucketmap1 bucketmap2 = pairwise (compare_maps fl rp cmap) bucketmap1 bucketmap2"

definition compare_per_node_stats_dataset ::
  "'f float_ops \<Rightarrow> (string list \<Rightarrow> string) \<Rightarrow> (string, cmp_logic) dict option \<Rightarrow>
    (string, (string, (string, stats) dict) dict option) dict \<Rightarrow> (string, (string, (string, stats) dict) dict) dict \<Rightarrow>
    (string, (string, cmp_result) dict) dict res" where
  "compare_per_node_stats_dataset fl rp cmap bucketmap1 bucketmap2 =
     pairwise (\<lambda>map1 map2. case map1 of None \<Rightarrow> Inr [] | Some m \<Rightarrow> pairwise (compare_maps fl rp cmap) m map2)
       bucketmap1 bucketmap2"

section \<open>Data sets\<close>

text \<open>The rows of two data sets for one key, field by field. A comparison map is looked up by the \<open>i\<close>-th character of the
  header; the callers pass none.\<close>

definition compare_field ::
  "'f float_ops \<Rightarrow> (string, cmp_logic) dict option \<Rightarrow> string \<Rightarrow> string list \<Rightarrow> string list \<Rightarrow> string list \<Rightarrow> reason \<Rightarrow> nat \<Rightarrow> reason res" where
  "compare_field fl cmap headerInfo hfields data1 data2 reason i =
     rbind (case cmap of
              None \<Rightarrow> Inr None
            | Some m \<Rightarrow> if i < length headerInfo then Inr (map_of m [headerInfo ! i]) else Inl IndexError) (\<lambda>logic.
     case logic of
       Some lg \<Rightarrow>
         (if i < length hfields then compare_values fl (Some (data1 ! i)) (Some (data2 ! i)) (hfields ! i) reason lg
          else Inl IndexError)
     | None \<Rightarrow>
         (if data1 ! i = data2 ! i then Inr reason
          else if i < length hfields
          then Inr (AList.update (hfields ! i) (''Expected '' @ data1 ! i @ '' :: Actual '' @ data2 ! i) reason)
          else Inl IndexError))"

definition data_reason ::
  "'f float_ops \<Rightarrow> (string list \<Rightarrow> string) \<Rightarrow> (string, cmp_logic) dict option \<Rightarrow> string \<Rightarrow> (string, string) dict \<Rightarrow> (string, string) dict \<Rightarrow>
    string \<Rightarrow> reason res" where
  "data_reason fl rp cmap headerInfo info1 info2 key =
     rbind (dict_lookup info1 key) (\<lambda>row1.
     rbind (dict_lookup info2 key) (\<lambda>row2.
     let data1 = py_split comma row1; data2 = py_split comma row2; hfields = py_split comma headerInfo in
     if length data1 = length data2
     then rfold (compare_field fl cmap headerInfo hfields data1 data2) [] [0..<length data1]
     else Inr [(''number of value mismatch'', ''Number of values mismatch :: Expected values '' @ rp data1 @
            '' '' @ [CHR 0x0A] @ '' Actual values '' @ rp data2)]))"

definition compare_data_maps ::
  "'f float_ops \<Rightarrow> (string list \<Rightarrow> string) \<Rightarrow> (string, cmp_logic) dict option \<Rightarrow> string \<Rightarrow> (string, string) dict \<Rightarrow> (string, string) dict \<Rightarrow>
    cmp_result res" where
  "compare_data_maps fl rp cmap headerInfo info1 info2 =
     rbind (updated_items (data_reason fl rp cmap headerInfo info1 info2) (key_common info1 info2)) (\<lambda>updated.
     Inr (cmp_summary info1 info2 updated))"

text \<open>Both take a comparison map and do not pass it on.\<close>

definition compare_all_dataset ::
  "'f float_ops \<Rightarrow> (string list \<Rightarrow> string) \<Rightarrow> string \<Rightarrow> (string, (string, string) dict) dict \<Rightarrow> (string, (string, string) dict) dict \<Rightarrow>
    (string, cmp_result) dict res" where
  "compare_all_dataset fl rp headerInfo sourceMap targetMap =
     pairwise (compare_data_maps fl rp None headerInfo) sourceMap targetMap"

definition compare_per_node_dataset ::
  "'f float_ops \<Rightarrow> (string list \<Rightarrow> string) \<Rightarrow> string \<Rightarrow> (string, (string, (string, string) dict) dict) dict \<Rightarrow>
    (string, (string, (string, string) dict) dict) dict \<Rightarrow> (string, (string, cmp_result) dict) dict res" where
  "compare_per_node_dataset fl rp headerInfo sourceMap targetMap =
     rfold (\<lambda>r (bucket, nodes1).
       rbind (rfold (\<lambda>nr (node, info1).
         rbind (dict_lookup targetMap bucket) (\<lambda>nodes2.
         rbind (dict_lookup nodes2 node) (\<lambda>info2.
         rbind (compare_data_maps fl rp None headerInfo info1 info2) (\<lambda>c. Inr (AList.update node c nr))))) [] nodes1) (\<lambda>nr.
       Inr (AList.update bucket nr r))) (map (\<lambda>(b, _). (b, [])) sourceMap) sourceMap"

section \<open>Verdicts\<close>

datatype item_type = DeletedItems | AddedItems | UpdatedItems

definition bool_str :: "bool \<Rightarrow> string" where
  "bool_str b = (if b then ''True'' else ''False'')"

fun success_format :: "item_type \<Rightarrow> string" where
  "success_format DeletedItems = [CHR 0x0A] @ ''1) Success :: Deleted Items ''"
| "success_format AddedItems = [CHR 0x0A] @ ''2) Success :: Added Items ''"
| "success_format UpdatedItems = [CHR 0x0A] @ ''3) Success :: Updated Items''"

fun failure_format :: "item_type \<Rightarrow> bool \<Rightarrow> bool \<Rightarrow> string" where
  "failure_format DeletedItems a r = [CHR 0x0A] @ ''1) Failure :: Deleted Items :: Expected '' @ bool_str a @ '', Actual '' @ bool_str r"
| "failure_format AddedItems a r = [CHR 0x0A] @ ''2) Failure :: Added Items :: Expected '' @ bool_str a @ '', Actual '' @ bool_str r"
| "failure_format UpdatedItems a r = [CHR 0x0A] @ ''3) Failure :: Updated Items :: Expected '' @ bool_str a @ '', Actual '' @ bool_str r"

fun logical :: "item_type \<Rightarrow> cmp_result \<Rightarrow> bool" where
  "logical DeletedItems c = lr_deleted c"
| "logical AddedItems c = lr_added c"
| "logical UpdatedItems c = lr_updated c"

fun item_lines :: "(reason \<Rightarrow> string) \<Rightarrow> item_type \<Rightarrow> cmp_result \<Rightarrow> string" where
  "item_lines rpd DeletedItems c = concat (map (\<lambda>v. [CHR 0x0A] @ '' '' @ v) (cr_deleted c))"
| "item_lines rpd AddedItems c = concat (map (\<lambda>v. [CHR 0x0A] @ '' '' @ v) (cr_added c))"
| "item_lines rpd UpdatedItems c = concat (map (\<lambda>(k, r). [CHR 0x0A] @ '' '' @ k @ '' : '' @ rpd r @ '' '') (cr_updated c))"

text \<open>The verdict, the output and the summary; \<open>actual\<close> is \<^verbatim>\<open>None\<close> where the caller does not care.\<close>

definition analyze_result :: "(reason \<Rightarrow> string) \<Rightarrow> cmp_result \<Rightarrow> item_type \<Rightarrow> bool option \<Rightarrow> bool \<times> string \<times> string" where
  "analyze_result rpd c ty actual =
     (case actual of
        None \<Rightarrow> (True, ''Not Applicable'', ''Not Applicable'')
      | Some a \<Rightarrow>
          let s = (if logical ty c = a then success_format ty else failure_format ty a (logical ty c))
          in (logical ty c = a, s @ item_lines rpd ty c, s))"

definition analyze_three ::
  "(reason \<Rightarrow> string) \<Rightarrow> bool option \<Rightarrow> bool option \<Rightarrow> bool option \<Rightarrow> bool \<times> string \<times> string \<Rightarrow> cmp_result \<Rightarrow> bool \<times> string \<times> string" where
  "analyze_three rpd del add upd st c =
     foldl (\<lambda>(logic, output, summary) (ty, actual).
        case analyze_result rpd c ty actual of (l, oo, ss) \<Rightarrow> (l \<and> logic, output @ oo, summary @ ss))
       st [(DeletedItems, del), (AddedItems, add), (UpdatedItems, upd)]"

definition plus_line :: string where
  "plus_line = [CHR 0x0A] @ '' +++++++++++++++++++++++++++++++++++++++++++++++++++''"

definition short_plus_line :: string where
  "short_plus_line = [CHR 0x0A] @ '' ++++++++++++++++++++++++++++++++++++++++++++++++''"

definition analyze_all_result ::
  "(reason \<Rightarrow> string) \<Rightarrow> (string, cmp_result) dict \<Rightarrow> bool option \<Rightarrow> bool option \<Rightarrow> bool option \<Rightarrow> bool \<times> string \<times> string" where
  "analyze_all_result rpd result del add upd =
     (case foldl (\<lambda>(logic, output, summary) (bucket, c).
             let hd_line = plus_line @ [CHR 0x0A] @ '' Analyzing for Bucket '' @ bucket
             in analyze_three rpd del add upd (logic, output @ hd_line, summary @ hd_line) c) (True, [], []) result of
        (logic, output, summary) \<Rightarrow> (logic, summary, output))"

definition analyze_per_node_result ::
  "(reason \<Rightarrow> string) \<Rightarrow> (string, (string, cmp_result) dict) dict \<Rightarrow> bool option \<Rightarrow> bool option \<Rightarrow> bool option \<Rightarrow> bool \<times> string \<times> string" where
  "analyze_per_node_result rpd result del add upd =
     (case foldl (\<lambda>(logic, output, summary) (bucket, nodes).
             let hd_line = plus_line @ [CHR 0x0A] @ '' Analyzing for Bucket '' @ bucket
             in foldl (\<lambda>(logic, output, summary) (node, c).
                  let nd_line = [CHR 0x0A] @ '' Analyzing for Bucket '' @ bucket @ '', node '' @ node
                  in analyze_three rpd del add upd (logic, output @ short_plus_line @ nd_line, summary @ nd_line) c)
                  (logic, output @ hd_line, summary @ hd_line) nodes) (True, [], []) result of
        (logic, output, summary) \<Rightarrow> (logic, summary, output))"

section \<open>Distribution over vbuckets\<close>

record 'f distribution =
  ds_max :: int
  ds_min :: int
  ds_total :: int
  ds_mean :: 'f
  ds_std :: 'f

text \<open>\<^verbatim>\<open>max\<close> of an empty list is a \<^verbatim>\<open>ValueError\<close>.\<close>

definition analyze_array :: "'f float_ops \<Rightarrow> int list \<Rightarrow> 'f distribution res" where
  "analyze_array fl array =
     (case array of
        [] \<Rightarrow> Inl ValueError
      | a # rest \<Rightarrow>
          let total = sum_list array; n = fl_of_int fl (int (length array)); mean = fl_div fl (fl_of_int fl total) n;
              diffSum = foldl (\<lambda>d v. fl_add fl d (fl_square fl (fl_sub fl (fl_of_int fl v) mean))) (fl_of_int fl 0) array
          in Inr \<lparr>ds_max = foldl max a rest, ds_min = foldl min a rest, ds_total = total, ds_mean = mean,
                  ds_std = fl_sqrt fl (fl_div fl diffSum n)\<rparr>)"

definition analyze_vb_nums :: "'f float_ops \<Rightarrow> (string, int) dict \<Rightarrow> 'f distribution res" where
  "analyze_vb_nums fl m = analyze_array fl (map snd m)"

definition compare_analyze_active_replica_vb_nums ::
  "'f float_ops \<Rightarrow> (string, (string, int) dict) dict \<Rightarrow> (string, (string, int) dict) dict \<Rightarrow>
    ((string, 'f distribution) dict \<times> (string, 'f distribution) dict) res" where
  "compare_analyze_active_replica_vb_nums fl active_map replica_map =
     rfold (\<lambda>(am, rm) (bucket, a).
       rbind (analyze_vb_nums fl a) (\<lambda>da.
       rbind (dict_lookup replica_map bucket) (\<lambda>r.
       rbind (analyze_vb_nums fl r) (\<lambda>dr. Inr (AList.update bucket da am, AList.update bucket dr rm))))) ([], []) active_map"

definition distribution_map :: "(string, string) dict \<Rightarrow> (string, int) dict" where
  "distribution_map info =
     foldl (\<lambda>m (_, row). let vbucket = last (py_split comma row) in AList.update vbucket (dict_get m vbucket 0 + 1) m) [] info"

definition find_data_distribution ::
  "'f float_ops \<Rightarrow> (string, string) dict \<Rightarrow> ('f distribution \<times> (string, int) dict) res" where
  "find_data_distribution fl info =
     rbind (analyze_array fl (map snd (distribution_map info))) (\<lambda>d. Inr (d, distribution_map info))"

definition analyze_data_distribution ::
  "'f float_ops \<Rightarrow> (string, (string, string) dict) dict \<Rightarrow> (string, 'f distribution \<times> (string, int) dict) dict res" where
  "analyze_data_distribution fl sourceMap =
     rfold (\<lambda>r (bucket, info). rbind (find_data_distribution fl info) (\<lambda>d. Inr (AList.update bucket d r))) [] sourceMap"

end
