(* ===== verification/Cb_Stats.thy ===== *)
theory Cb_Stats
  imports Crc32
begin

text \<open>
  The statistics of a node as the tests read them (\<^verbatim>\<open>couchbase_utils/cb_tools/cbstats.py\<close>): the memcached client's flat
  dictionary of statistics (\<^verbatim>\<open>client.stats\<close>, an argument here, whose keys are like \<^verbatim>\<open>vb_12:high_seqno\<close>) becomes one
  dictionary per vbucket, and the manifest with the collection statistics a dictionary of scopes and collections.

  The methods that read \<^verbatim>\<open>self.cbstatCmd\<close>, \<^verbatim>\<open>self._execute_cmd\<close> or \<^verbatim>\<open>self.get_stats\<close>, which the class does not
  have, always raise \<^verbatim>\<open>AttributeError\<close> and are left out.
\<close>

section \<open>Patterns\<close>

definition digit_ch :: "char \<Rightarrow> bool" where
  "digit_ch c \<longleftrightarrow> (let n = (of_char c :: nat) in 48 \<le> n \<and> n \<le> 57)"

definition letter_ch :: "char \<Rightarrow> bool" where
  "letter_ch c \<longleftrightarrow> (let n = (of_char c :: nat) in 65 \<le> n \<and> n \<le> 90 \<or> 97 \<le> n \<and> n \<le> 122)"

definition blank_ch :: "char \<Rightarrow> bool" where
  "blank_ch c \<longleftrightarrow> c = CHR '' '' \<or> c = CHR 0x09"

definition word_ch :: "char \<Rightarrow> bool" where
  "word_ch c \<longleftrightarrow> digit_ch c \<or> letter_ch c \<or> c = CHR ''_''"

definition failover_ch :: "char \<Rightarrow> bool" where
  "failover_ch c \<longleftrightarrow> word_ch c \<or> c = CHR '':''"

text \<open>The class of \<^verbatim>\<open>checkpoint_stats\<close> has the range from \<^verbatim>\<open>.\<close> to \<^verbatim>\<open>>\<close>.\<close>

definition checkpoint_ch :: "char \<Rightarrow> bool" where
  "checkpoint_ch c \<longleftrightarrow> word_ch c \<or> c = CHR ''@'' \<or> (let n = (of_char c :: nat) in 0x2E \<le> n \<and> n \<le> 0x3E)"

text \<open>\<^verbatim>\<open>vb_([0-9]+):(\<dots>)\<close> at the start of the string, after blanks where the pattern allows them: the number and at
  least \<open>least\<close> characters of a class.\<close>

definition match_vb :: "bool \<Rightarrow> (char \<Rightarrow> bool) \<Rightarrow> nat \<Rightarrow> string \<Rightarrow> (string \<times> string) option" where
  "match_vb blanks cls least s =
     (let t = (if blanks then dropWhile blank_ch s else s); u = drop 3 t; num = takeWhile digit_ch u;
          rest = dropWhile digit_ch u; nm = takeWhile cls (tl rest)
      in if startswith t ''vb_'' \<and> num \<noteq> [] \<and> startswith rest '':'' \<and> least \<le> length nm then Some (num, nm) else None)"

section \<open>Statistics per vbucket\<close>

type_synonym raw_stats = "(string, string) dict"

datatype stat_val = SInt int | SStr string

definition int_or_str :: "string \<Rightarrow> stat_val" where
  "int_or_str v = (case py_int 10 v of Inr i \<Rightarrow> SInt i | Inl _ \<Rightarrow> SStr v)"

text \<open>\<^verbatim>\<open>d.setdefault(a, {})[b] = v\<close>.\<close>

definition put2 :: "'a \<Rightarrow> 'b \<Rightarrow> 'c \<Rightarrow> ('a, ('b, 'c) dict) dict \<Rightarrow> ('a, ('b, 'c) dict) dict" where
  "put2 a b v d = AList.update a (AList.update b v (dict_get d a [])) d"

definition vb_number :: "string \<Rightarrow> string res" where
  "vb_number key = (case py_split CHR ''_'' key of _ # n # _ \<Rightarrow> Inr n | _ \<Rightarrow> Inl IndexError)"

definition vbucket_list :: "raw_stats \<Rightarrow> string \<Rightarrow> int list res" where
  "vbucket_list output vbucket_type =
     rfold (\<lambda>vb_list (key, curr_vb_type).
       if curr_vb_type = vbucket_type
       then rbind (vb_number key) (\<lambda>n. rbind (py_int 10 n) (\<lambda>i. Inr (vb_list @ [i])))
       else Inr vb_list) [] output"

definition vbucket_seqno :: "raw_stats \<Rightarrow> (string, (string, string) dict) dict" where
  "vbucket_seqno output =
     foldl (\<lambda>stats (key, value).
       case match_vb True word_ch 1 key of
         None \<Rightarrow> stats
       | Some (vb_num, stat_name) \<Rightarrow> put2 vb_num stat_name value stats) [] output"

definition vbucket_details :: "raw_stats \<Rightarrow> (string, (string, stat_val) dict) dict res" where
  "vbucket_details output =
     rfold (\<lambda>stats (key, value).
       case match_vb True word_ch 0 key of
         None \<Rightarrow> rbind (vb_number key) (\<lambda>vb_num. Inr (put2 vb_num ''type'' (int_or_str value) stats))
       | Some (vb_num, stat_name) \<Rightarrow> Inr (put2 vb_num stat_name (int_or_str value) stats)) [] output"

text \<open>\<^verbatim>\<open>group\<close> of a failed match is an attribute of \<^verbatim>\<open>None\<close>.\<close>

definition failover_stats :: "raw_stats \<Rightarrow> (string, (string, string) dict) dict res" where
  "failover_stats output =
     rfold (\<lambda>stats (key, value).
       case match_vb False failover_ch 1 key of
         None \<Rightarrow> Inl AttributeError
       | Some (vb_num, stat_name) \<Rightarrow> Inr (put2 vb_num stat_name value stats)) [] output"

definition checkpoint_stats :: "raw_stats \<Rightarrow> (int, (string, stat_val) dict) dict res" where
  "checkpoint_stats output =
     rfold (\<lambda>result (key, value).
       case match_vb True checkpoint_ch 1 key of
         None \<Rightarrow> Inr result
       | Some (num, stat_name) \<Rightarrow>
           rbind (py_int 10 num) (\<lambda>vb_num. Inr (put2 vb_num stat_name (int_or_str value) result))) [] output"

text \<open>The name of the statistics that \<^verbatim>\<open>checkpoint_stats\<close> and \<^verbatim>\<open>get_vbucket_stats\<close> ask for, and those of
  \<^verbatim>\<open>get_stats_memc\<close> and \<^verbatim>\<open>all_stats\<close>.\<close>

definition checkpoint_command :: "int option \<Rightarrow> string" where
  "checkpoint_command vb_num = (case vb_num of None \<Rightarrow> ''checkpoint'' | Some n \<Rightarrow> ''checkpoint '' @ int_str n)"

definition get_vbucket_stats :: "(string \<Rightarrow> raw_stats) \<Rightarrow> string \<Rightarrow> int \<Rightarrow> raw_stats" where
  "get_vbucket_stats client_stats stat_name vbucket_num = client_stats (stat_name @ '' '' @ int_str vbucket_num)"

definition get_stats_memc :: "(string \<Rightarrow> raw_stats) \<Rightarrow> string \<Rightarrow> raw_stats" where
  "get_stats_memc client_stats stat_name = client_stats (if stat_name = ''all'' then [] else stat_name)"

definition get_stats_memc_key :: "(string \<Rightarrow> raw_stats) \<Rightarrow> string \<Rightarrow> string \<Rightarrow> string res" where
  "get_stats_memc_key client_stats stat_name key = dict_lookup (get_stats_memc client_stats stat_name) key"

definition all_stats :: "(string \<Rightarrow> raw_stats) \<Rightarrow> string \<Rightarrow> raw_stats" where
  "all_stats client_stats stat_name = get_stats_memc client_stats (if stat_name = ''all'' then [] else stat_name)"

definition dcp_stats :: "(string \<Rightarrow> raw_stats) \<Rightarrow> raw_stats" where
  "dcp_stats client_stats = get_stats_memc client_stats ''dcp''"

definition magma_stats :: "(string \<Rightarrow> raw_stats) \<Rightarrow> string \<Rightarrow> raw_stats" where
  "magma_stats client_stats stat_name = get_stats_memc client_stats stat_name"

definition calculate_vbucket_num :: "string \<Rightarrow> int \<Rightarrow> int" where
  "calculate_vbucket_num doc_key total_vbuckets =
     (drop_bit 16 (zlib_crc32 doc_key) AND 0x7fff) AND (total_vbuckets - 1)"

section \<open>Scopes and collections\<close>

text \<open>The manifest as the JSON parser gives it: the scopes with name, uid and their collections with name and uid.\<close>

record col_details =
  col_name :: string
  col_uid :: string

record scope_details =
  sco_name :: string
  sco_uid :: string
  sco_collections :: "col_details list"

text \<open>The counters and the scopes share one dictionary: a scope called \<^verbatim>\<open>count\<close> replaces the counter, and adding to it
  is a \<^verbatim>\<open>TypeError\<close>.\<close>

datatype scope_val = ScopeNum int | ScopeData nat int

definition bump_scope_count :: "(string, scope_val) dict \<Rightarrow> (string, scope_val) dict res" where
  "bump_scope_count d =
     rbind (dict_lookup d ''count'') (\<lambda>v.
     case v of ScopeNum n \<Rightarrow> Inr (AList.update ''count'' (ScopeNum (n + 1)) d) | ScopeData _ _ \<Rightarrow> Inl TypeError)"

definition item_key :: "string \<Rightarrow> string \<Rightarrow> string" where
  "item_key s_id c_id = ''0x'' @ s_id @ '':0x'' @ c_id @ '':items''"

definition scope_items :: "raw_stats \<Rightarrow> scope_details \<Rightarrow> int res" where
  "scope_items collection_stats s =
     rfold (\<lambda>n c. rbind (dict_lookup collection_stats (item_key (sco_uid s) (col_uid c))) (\<lambda>v.
       rbind (py_int 10 v) (\<lambda>i. Inr (n + i)))) 0 (sco_collections s)"

definition get_scopes :: "scope_details list \<Rightarrow> raw_stats \<Rightarrow> (string, scope_val) dict res" where
  "get_scopes details collection_stats =
     rbind (rbind (dict_lookup collection_stats ''manifest_uid'') (py_int 10)) (\<lambda>uid.
     rfold (\<lambda>d s.
       rbind (bump_scope_count d) (\<lambda>d.
       rbind (scope_items collection_stats s) (\<lambda>n.
       Inr (AList.update (sco_name s) (ScopeData (length (sco_collections s)) n) d))))
       [(''manifest_uid'', ScopeNum uid), (''count'', ScopeNum 0)] details)"

datatype coll_val = CollNum int | CollStr string | CollScope "(string, (string, stat_val) dict) dict"

definition bump_coll_count :: "(string, coll_val) dict \<Rightarrow> (string, coll_val) dict res" where
  "bump_coll_count d =
     rbind (dict_lookup d ''count'') (\<lambda>v.
     case v of CollNum n \<Rightarrow> Inr (AList.update ''count'' (CollNum (n + 1)) d) | _ \<Rightarrow> Inl TypeError)"

text \<open>The statistics whose key starts with \<^verbatim>\<open>0x<scope>:0x<collection>:\<close>, under their third part.\<close>

definition collection_stats_of :: "raw_stats \<Rightarrow> string \<Rightarrow> (string, stat_val) dict" where
  "collection_stats_of collection_stats scope_col_id =
     foldl (\<lambda>d (stat, value).
       if startswith stat scope_col_id then AList.update (py_split CHR '':'' stat ! 2) (int_or_str value) d else d)
       [] collection_stats"

definition add_scope_collection ::
  "raw_stats \<Rightarrow> scope_details \<Rightarrow> (string, coll_val) dict \<Rightarrow> col_details \<Rightarrow> (string, coll_val) dict res" where
  "add_scope_collection collection_stats s d c =
     rbind (dict_lookup d (sco_name s)) (\<lambda>v.
     case v of
       CollScope cols \<Rightarrow>
         bump_coll_count (AList.update (sco_name s) (CollScope (AList.update (col_name c)
           (collection_stats_of collection_stats (''0x'' @ sco_uid s @ '':0x'' @ col_uid c @ '':'')) cols)) d)
     | _ \<Rightarrow> Inl TypeError)"

definition get_collections :: "scope_details list \<Rightarrow> raw_stats \<Rightarrow> (string, coll_val) dict res" where
  "get_collections details collection_stats =
     rbind (dict_lookup collection_stats ''manifest_uid'') (\<lambda>uid.
     rfold (\<lambda>d s. rfold (add_scope_collection collection_stats s) (AList.update (sco_name s) (CollScope []) d) (sco_collections s))
       [(''count'', CollNum 0), (''manifest_uid'', CollStr uid)] details)"

section \<open>Grouping by vbucket\<close>

text \<open>The flat statistics of a table of vbuckets, as a node reports them.\<close>

definition flat_stats :: "(string, (string, string) dict) dict \<Rightarrow> raw_stats" where
  "flat_stats n = concat (map (\<lambda>(vb, st). map (\<lambda>(k, v). (''vb_'' @ vb @ '':'' @ k, v)) st) n)"

definition vb_table :: "(char \<Rightarrow> bool) \<Rightarrow> (string, (string, string) dict) dict \<Rightarrow> bool" where
  "vb_table cls n \<longleftrightarrow> dict_wf n \<and> (\<forall>(vb, st) \<in> set n. vb \<noteq> [] \<and> list_all digit_ch vb \<and> st \<noteq> [] \<and> dict_wf st \<and>
     (\<forall>(k, v) \<in> set st. k \<noteq> [] \<and> list_all cls k))"

lemma match_vb_name:
  assumes "vb \<noteq> []" and "list_all digit_ch vb" and "k \<noteq> []" and "list_all cls k"
  shows "match_vb bl cls 1 (''vb_'' @ vb @ '':'' @ k) = Some (vb, k)"
proof -
  have c: "\<not> digit_ch CHR '':''" by (simp add: digit_ch_def)
  have t: "takeWhile digit_ch (vb @ '':'' @ k) = vb" "dropWhile digit_ch (vb @ '':'' @ k) = '':'' @ k"
    using assms(2) c by (auto simp: takeWhile_append dropWhile_append list_all_iff)
  have n: "takeWhile cls k = k" using assms(4) by (simp add: list_all_iff takeWhile_eq_all_conv)
  have b: "dropWhile blank_ch (''vb_'' @ vb @ '':'' @ k) = ''vb_'' @ vb @ '':'' @ k" by (simp add: blank_ch_def)
  show ?thesis using assms(1,3) t b by (simp add: match_vb_def Let_def startswith_def Suc_le_eq n)
qed

lemma put2_last:
  "vb \<notin> fst ` set d \<Longrightarrow> k \<notin> fst ` set st \<Longrightarrow> put2 vb k v (d @ [(vb, st)]) = d @ [(vb, st @ [(k, v)])]"
proof -
  assume a: "vb \<notin> fst ` set d" "k \<notin> fst ` set st"
  have "AList.update vb x (d @ [(vb, st)]) = d @ [(vb, x)]" for x using a(1) by (induction d) auto
  moreover have "map_of (d @ [(vb, st)]) vb = Some st" using a(1) by (force simp: map_add_def split: option.splits dest: map_of_SomeD)
  ultimately show ?thesis using a(2) by (simp add: put2_def dict_get_def update_new)
qed

lemma put2_group:
  "vb \<notin> fst ` set d \<Longrightarrow> dict_wf (st0 @ st) \<Longrightarrow> foldl (\<lambda>s (k, v). put2 vb k v s) (d @ [(vb, st0)]) st = d @ [(vb, st0 @ st)]"
proof (induction st arbitrary: st0)
  case (Cons kv st)
  obtain k v where kv: "kv = (k, v)" by force
  have "k \<notin> fst ` set st0" using Cons.prems(2) by (auto simp: kv dict_wf_def)
  with Cons.IH [of "st0 @ [(k, v)]"] Cons.prems show ?case by (simp add: kv put2_last)
qed simp

lemma put2_groups:
  assumes "vb_table cls n"
  shows "foldl (\<lambda>s (vb, k, v). put2 vb k v s) [] (concat (map (\<lambda>(vb, st). map (\<lambda>(k, v). (vb, k, v)) st) n)) = n"
proof -
  have "foldl (\<lambda>s (vb, k, v). put2 vb k v s) d (concat (map (\<lambda>(vb, st). map (\<lambda>(k, v). (vb, k, v)) st) n)) = d @ n"
    if "vb_table cls n" "fst ` set d \<inter> fst ` set n = {}" for d
    using that
  proof (induction n arbitrary: d)
    case (Cons e n)
    obtain vb kv st where e: "e = (vb, kv # st)" using Cons.prems(1) by (cases e; cases "snd e") (auto simp: vb_table_def)
    obtain k v where kv: "kv = (k, v)" by force
    have vb: "vb \<notin> fst ` set d" using Cons.prems(2) by (auto simp: e)
    have "put2 vb k v d = d @ [(vb, [(k, v)])]" using vb by (simp add: put2_def dict_get_def update_new map_of_eq_None_iff [THEN iffD2])
    moreover have "foldl (\<lambda>s (k, v). put2 vb k v s) (d @ [(vb, [(k, v)])]) st = d @ [(vb, (k, v) # st)]"
      using put2_group [OF vb, of "[(k, v)]" st] Cons.prems(1) by (simp add: vb_table_def e kv)
    ultimately have one: "foldl (\<lambda>s (vb, k, v). put2 vb k v s) d (map (\<lambda>(k, v). (vb, k, v)) (kv # st)) = d @ [e]"
      by (simp add: foldl_map split_def e kv)
    have "vb_table cls n" "fst ` set (d @ [e]) \<inter> fst ` set n = {}" using Cons.prems by (auto simp: vb_table_def dict_wf_def e)
    from Cons.IH [OF this] one show ?case by (simp add: e)
  qed simp
  from this [OF assms, of "[]"] show ?thesis by simp
qed

lemma fold_matches:
  "vb_table cls n \<Longrightarrow> (\<And>k. cls k \<Longrightarrow> cls' k) \<Longrightarrow>
     map (\<lambda>(key, value). (match_vb bl cls' 1 key, value)) (flat_stats n) =
     map (\<lambda>(vb, k, v). (Some (vb, k), v)) (concat (map (\<lambda>(vb, st). map (\<lambda>(k, v). (vb, k, v)) st) n))"
proof (induction n)
  case (Cons e n)
  obtain vb st where e: "e = (vb, st)" by force
  have "vb_table cls n" using Cons.prems(1) by (simp add: vb_table_def dict_wf_def)
  moreover have "map (\<lambda>(key, value). (match_vb bl cls' 1 key, value)) (map (\<lambda>(k, v). (''vb_'' @ vb @ '':'' @ k, v)) st) =
      map (\<lambda>(k, v). (Some (vb, k), v)) st"
    using Cons.prems match_vb_name [of vb _ cls' bl] by (auto simp: vb_table_def e list_all_iff)
  ultimately show ?case using Cons.IH Cons.prems(2) by (simp add: flat_stats_def e comp_def split_def)
qed (simp add: flat_stats_def)

definition put_match :: "(string, (string, string) dict) dict \<Rightarrow> (string \<times> string) option \<times> string \<Rightarrow> (string, (string, string) dict) dict" where
  "put_match s mv = (case mv of (None, v) \<Rightarrow> s | (Some (vb, k), v) \<Rightarrow> put2 vb k v s)"

lemma put_match_groups:
  "vb_table cls n \<Longrightarrow> foldl put_match [] (map (\<lambda>(vb, k, v). (Some (vb, k), v)) (concat (map (\<lambda>(vb, st). map (\<lambda>(k, v). (vb, k, v)) st) n))) = n"
  using put2_groups [of cls n] by (simp add: foldl_map put_match_def split_def)

lemma seqno_as_fold: "vbucket_seqno output = foldl put_match [] (map (\<lambda>(key, value). (match_vb True word_ch 1 key, value)) output)"
proof -
  have "foldl (\<lambda>stats (key, value). case match_vb True word_ch 1 key of None \<Rightarrow> stats | Some (vb_num, stat_name) \<Rightarrow> put2 vb_num stat_name value stats) d xs =
      foldl put_match d (map (\<lambda>(key, value). (match_vb True word_ch 1 key, value)) xs)" for d xs
    by (induction xs arbitrary: d) (auto simp: put_match_def split: option.splits)
  then show ?thesis by (simp add: vbucket_seqno_def)
qed

lemma failover_as_fold:
  assumes "list_all (\<lambda>(m, v). m \<noteq> None) (map (\<lambda>(key, value). (match_vb False failover_ch 1 key, value)) output)"
  shows "failover_stats output = Inr (foldl put_match [] (map (\<lambda>(key, value). (match_vb False failover_ch 1 key, value)) output))"
proof -
  have "rfold (\<lambda>stats (key, value). case match_vb False failover_ch 1 key of None \<Rightarrow> Inl AttributeError
       | Some (vb_num, stat_name) \<Rightarrow> Inr (put2 vb_num stat_name value stats)) d xs =
     Inr (foldl put_match d (map (\<lambda>(key, value). (match_vb False failover_ch 1 key, value)) xs))"
    if "list_all (\<lambda>(m, v). m \<noteq> None) (map (\<lambda>(key, value). (match_vb False failover_ch 1 key, value)) xs)" for d xs
    using that by (induction xs arbitrary: d) (auto simp: put_match_def split: option.splits)
  with assms show ?thesis by (simp add: failover_stats_def)
qed

text \<open>C36. Grouping by vbucket inverts flattening: from the flat statistics \<^verbatim>\<open>vb_<number>:<name>\<close> of a table of vbuckets,
  \<^verbatim>\<open>vbucket_seqno\<close> and \<^verbatim>\<open>failover_stats\<close> read back exactly that table (names may contain colons in the failover log).\<close>

theorem stats_grouping_roundtrip:
  "(vb_table word_ch n \<longrightarrow> vbucket_seqno (flat_stats n) = n) \<and> (vb_table failover_ch n \<longrightarrow> failover_stats (flat_stats n) = Inr n)"
proof (intro conjI impI)
  assume t: "vb_table word_ch n"
  have m: "map (\<lambda>(key, value). (match_vb True word_ch 1 key, value)) (flat_stats n) =
      map (\<lambda>(vb, k, v). (Some (vb, k), v)) (concat (map (\<lambda>(vb, st). map (\<lambda>(k, v). (vb, k, v)) st) n))" by (rule fold_matches [OF t])
  show "vbucket_seqno (flat_stats n) = n"
    unfolding seqno_as_fold m by (rule put_match_groups [OF t])
next
  assume t: "vb_table failover_ch n"
  have m: "map (\<lambda>(key, value). (match_vb False failover_ch 1 key, value)) (flat_stats n) =
      map (\<lambda>(vb, k, v). (Some (vb, k), v)) (concat (map (\<lambda>(vb, st). map (\<lambda>(k, v). (vb, k, v)) st) n))" by (rule fold_matches [OF t])
  have "list_all (\<lambda>(m, v). m \<noteq> None) (map (\<lambda>(key, value). (match_vb False failover_ch 1 key, value)) (flat_stats n))"
    unfolding m by (auto simp: list_all_iff)
  from failover_as_fold [OF this] show "failover_stats (flat_stats n) = Inr n"
    unfolding m put_match_groups [OF t] .
qed

theorem stats_grouping_roundtrip_witness:
  "vbucket_seqno (flat_stats [(''0'', [(''uuid'', ''7''), (''high_seqno'', ''3'')]), (''11'', [(''uuid'', ''8'')])]) =
     [(''0'', [(''uuid'', ''7''), (''high_seqno'', ''3'')]), (''11'', [(''uuid'', ''8'')])] \<and>
   failover_stats (flat_stats [(''0'', [(''0:id'', ''7''), (''num_entries'', ''1'')])]) = Inr [(''0'', [(''0:id'', ''7''), (''num_entries'', ''1'')])]"
proof -
  have "vb_table word_ch [(''0'', [(''uuid'', ''7''), (''high_seqno'', ''3'')]), (''11'', [(''uuid'', ''8'')])]"
    "vb_table failover_ch [(''0'', [(''0:id'', ''7''), (''num_entries'', ''1'')])]"
    by (simp_all add: vb_table_def dict_wf_def digit_ch_def word_ch_def failover_ch_def letter_ch_def Let_def)
  then show ?thesis using stats_grouping_roundtrip by blast
qed

end
