(* ===== verification/Vb_Consistency.thy ===== *)
theory Vb_Consistency
  imports Data_Analysis Cb_Stats
begin

text \<open>
  What the nodes say about their vbuckets, collected and compared: \<^verbatim>\<open>DataCollector\<close> of
  \<^verbatim>\<open>lib/couchbase_helper/data_analysis_helper.py\<close> over the statistics of \<open>Cb_Stats\<close>, and the consistency checks of
  \<^verbatim>\<open>couchbase_utils/bucket_utils/bucket_ready_functions.py\<close>.

  \<^item> \<open>memc\<close> gives the memcached client's statistics of a server, a bucket and a group of statistics.
  \<^item> The flag \<^verbatim>\<open>perNode\<close> decides how the data of one server go into the data of a bucket: under the server's address or
    merged into one dictionary. It is the argument \<open>put\<close> (\<open>put_node\<close> or \<open>put_union\<close>).
\<close>

section \<open>Collecting\<close>

type_synonym memc = "string \<Rightarrow> string \<Rightarrow> string \<Rightarrow> raw_stats"

definition put_node :: "string \<Rightarrow> 'a \<Rightarrow> (string, 'a) dict \<Rightarrow> (string, 'a) dict" where
  "put_node ip m d = AList.update ip m d"

definition put_union :: "string \<Rightarrow> (string, 'a) dict \<Rightarrow> (string, 'a) dict \<Rightarrow> (string, 'a) dict" where
  "put_union ip m d = dict_update_all d m"

text \<open>The loop over servers that every collection has.\<close>

definition over_servers ::
  "(string \<Rightarrow> 'a res) \<Rightarrow> (string \<Rightarrow> 'a \<Rightarrow> (string, 'c) dict \<Rightarrow> (string, 'c) dict) \<Rightarrow> string list \<Rightarrow> (string, 'c) dict res" where
  "over_servers fetch put servers = rfold (\<lambda>d ip. rbind (fetch ip) (\<lambda>m. Inr (put ip m d))) [] servers"

text \<open>Every key gets the prefix \<^verbatim>\<open>vb_\<close>, one after the other in the same dictionary.\<close>

definition prefix_keys :: "(string, 'a) dict \<Rightarrow> (string, 'a) dict res" where
  "prefix_keys r =
     rfold (\<lambda>r k. rbind (dict_lookup r k) (\<lambda>v. Inr (AList.update (''vb_'' @ k) v (AList.delete k r)))) r (dict_keys r)"

definition vb_states :: "raw_stats \<Rightarrow> (string, (string, stat_val) dict) dict res" where
  "vb_states output =
     rfold (\<lambda>r vb_type. rbind (vbucket_list output vb_type) (\<lambda>vbs.
       Inr (foldl (\<lambda>r vb. AList.update (''vb_'' @ int_str vb) [(''state'', SStr vb_type)] r) r vbs))) [] [''active'', ''replica'']"

definition as_strings :: "(string, (string, string) dict) dict \<Rightarrow> (string, (string, stat_val) dict) dict" where
  "as_strings d = map (\<lambda>(k, st). (k, map (\<lambda>(s, v). (s, SStr v)) st)) d"

text \<open>The statistics of one server: each kind replaces what the kinds before it said about a vbucket.\<close>

definition vb_map_data :: "memc \<Rightarrow> bool \<Rightarrow> bool \<Rightarrow> bool \<Rightarrow> string \<Rightarrow> string \<Rightarrow> (string, (string, stat_val) dict) dict res" where
  "vb_map_data memc collect_vbucket collect_vbucket_seqno collect_vbucket_details bucket ip =
     rbind (if collect_vbucket then vb_states (memc ip bucket ''vbucket'') else Inr []) (\<lambda>m1.
     rbind (if collect_vbucket_seqno then prefix_keys (as_strings (vbucket_seqno (memc ip bucket ''vbucket-seqno''))) else Inr []) (\<lambda>m2.
     rbind (if collect_vbucket_details then rbind (vbucket_details (memc ip bucket ''vbucket-details'')) prefix_keys else Inr []) (\<lambda>m3.
     Inr (dict_update_all (dict_update_all m1 m2) m3))))"

definition collect_vbucket_stats where
  "collect_vbucket_stats memc put buckets servers collect_vbucket collect_vbucket_seqno collect_vbucket_details =
     rfold (\<lambda>bm (bucket, bucketType).
       if bucketType = ''memcached'' then Inr bm
       else rbind (over_servers (vb_map_data memc collect_vbucket collect_vbucket_seqno collect_vbucket_details bucket) put servers)
              (\<lambda>d. Inr (AList.update bucket d bm))) [] buckets"

text \<open>Failover logs: entry \<open>n\<close> of the log has the statistics \<^verbatim>\<open>n:id\<close> and \<^verbatim>\<open>n:seq\<close>. The number of the entry that was seen
  first is kept and never replaced.\<close>

definition first_word :: "string \<Rightarrow> string res" where
  "first_word s = (case dropWhile py_ws s of [] \<Rightarrow> Inl IndexError | t \<Rightarrow> Inr (takeWhile (\<lambda>c. \<not> py_ws c) t))"

type_synonym failover_map = "(string, (string, string) dict) dict \<times> (string, int) dict"

definition failover_key :: "string \<Rightarrow> (string \<times> int) res" where
  "failover_key ikey =
     (case py_split CHR '':'' ikey of
        [a, b] \<Rightarrow> rbind (py_int 10 a) (\<lambda>n. Inr (b, n))
      | a # _ \<Rightarrow> Inr (a, -1)
      | [] \<Rightarrow> Inl IndexError)"

definition failover_entry :: "string \<Rightarrow> failover_map \<Rightarrow> string \<times> string \<Rightarrow> failover_map res" where
  "failover_entry vb st entry =
     (case (st, entry) of ((map_data, num_map), (ikey, ivalue)) \<Rightarrow>
        rbind (failover_key ikey) (\<lambda>(key, num).
        case map_of map_data vb of
          Some _ \<Rightarrow>
            rbind (dict_lookup num_map vb) (\<lambda>m.
            if m \<le> num \<or> key = ''num_entries''
            then rbind (first_word ivalue) (\<lambda>v. Inr (put2 vb key v map_data, num_map))
            else Inr (map_data, num_map))
        | None \<Rightarrow> rbind (first_word ivalue) (\<lambda>v. Inr (AList.update vb [(key, v)] map_data, AList.update vb num num_map))))"

definition failover_map_data :: "memc \<Rightarrow> string \<Rightarrow> string \<Rightarrow> (string, (string, string) dict) dict res" where
  "failover_map_data memc bucket ip =
     rbind (failover_stats (memc ip bucket ''failovers'')) (\<lambda>stats.
     rbind (rfold (\<lambda>st (okey, ovalue). rfold (failover_entry (''vb_'' @ okey)) st ovalue) ([], []) stats) (\<lambda>(map_data, _).
     Inr map_data))"

definition collect_failovers_stats where
  "collect_failovers_stats memc put buckets servers =
     rfold (\<lambda>bm bucket. rbind (over_servers (failover_map_data memc bucket) put servers) (\<lambda>d. Inr (AList.update bucket d bm)))
       (map (\<lambda>b. (b, [])) (remdups buckets)) buckets"

definition collect_vbucket_num_stats ::
  "memc \<Rightarrow> string list \<Rightarrow> string list \<Rightarrow> ((string, (string, int) dict) dict \<times> (string, (string, int) dict) dict) res" where
  "collect_vbucket_num_stats memc servers buckets =
     rfold (\<lambda>(am, rm) bucket.
       rbind (rfold (\<lambda>(a, r) ip.
         rbind (vbucket_list (memc ip bucket ''vbucket'') ''active'') (\<lambda>va.
         rbind (vbucket_list (memc ip bucket ''vbucket'') ''replica'') (\<lambda>vr.
         Inr (AList.update ip (int (length va)) a, AList.update ip (int (length vr)) r)))) ([], []) servers) (\<lambda>(a, r).
       Inr (AList.update bucket a am, AList.update bucket r rm))) ([], []) buckets"

text \<open>The verdict is stored under the bucket object, while the names keep the value they were initialised with.\<close>

datatype bucket_key = ByName string | ByObject string

definition dcp_stat_wrong :: "string \<Rightarrow> int \<Rightarrow> int \<Rightarrow> string list \<Rightarrow> string \<times> string \<Rightarrow> bool res" where
  "dcp_stat_wrong stat_name compare_value flow_control_buffer_size filter_list kv =
     (case kv of (key, value) \<Rightarrow>
        if in_str stat_name key then
          rbind (py_int 10 value) (\<lambda>v.
          Inr (\<not> list_ex (\<lambda>f. in_str f key) filter_list \<and> v \<noteq> compare_value \<and>
               (in_str ''eq_dcpq:mapreduce_view'' key \<longrightarrow> flow_control_buffer_size \<le> v)))
        else Inr False)"

definition collect_compare_dcp_stats ::
  "memc \<Rightarrow> string list \<Rightarrow> string list \<Rightarrow> string \<Rightarrow> int \<Rightarrow> int \<Rightarrow> string list \<Rightarrow> (bucket_key, bool) dict res" where
  "collect_compare_dcp_stats memc buckets servers stat_name compare_value flow_control_buffer_size filter_list =
     rfold (\<lambda>bm bucket.
       rfold (\<lambda>bm ip.
         rfold (\<lambda>bm kv.
           rbind (dcp_stat_wrong stat_name compare_value flow_control_buffer_size filter_list kv) (\<lambda>w.
           Inr (if w then AList.update (ByObject bucket) False bm else bm)))
           bm (memc ip bucket ''dcp'')) bm servers)
       (foldl (\<lambda>d b. AList.update (ByName b) True d) [] buckets) buckets"

definition dcp_vb_no :: "string \<Rightarrow> int res" where
  "dcp_vb_no key = rbind (vb_number (last (py_split CHR '':'' key))) (py_int 10)"

definition collect_dcp_stats ::
  "memc \<Rightarrow> string list \<Rightarrow> string list \<Rightarrow> string list \<Rightarrow> string \<Rightarrow> (string, (int, (string, int) dict) dict) dict res" where
  "collect_dcp_stats memc buckets servers stat_names extra_key_condition =
     rfold (\<lambda>bm bucket.
       rbind (rfold (\<lambda>d ip.
         rfold (\<lambda>d (key, value).
           rfold (\<lambda>d stat_name.
             if in_str stat_name key \<and> in_str extra_key_condition key
             then rbind (py_int 10 value) (\<lambda>v. rbind (dcp_vb_no key) (\<lambda>vb. Inr (put2 vb stat_name v d)))
             else Inr d) d stat_names) d (memc ip bucket ''dcp'')) [] servers) (\<lambda>d.
       Inr (AList.update bucket d bm))) (map (\<lambda>b. (b, [])) (remdups buckets)) buckets"

definition createMapVbucket :: "raw_stats \<Rightarrow> (string, (string, string) dict) dict \<Rightarrow> (string, (string, string) dict) dict" where
  "createMapVbucket details map_data =
     foldl (\<lambda>d (key, value).
       case py_split CHR '':'' key of
         [vb, k] \<Rightarrow> put2 vb k (py_strip value) d
       | [vb] \<Rightarrow> put2 vb ''state'' (py_strip value) d
       | _ \<Rightarrow> d) map_data details"

text \<open>\<^verbatim>\<open>cbtransfer\<close>'s lines by key: the revision of the line seen before is read at the sixth character of that line, not in
  its sixth field.\<close>

definition csv_line :: "nat \<Rightarrow> (string, string) dict \<Rightarrow> string \<Rightarrow> (string, string) dict res" where
  "csv_line index m value =
     (let vs = py_split comma value in
      if length vs \<le> index then Inl IndexError
      else
        (case map_of m (vs ! index) of
           None \<Rightarrow> Inr (AList.update (vs ! index) value m)
         | Some prev \<Rightarrow>
             rbind (if 5 < length prev then py_int 10 [prev ! 5] else Inl IndexError) (\<lambda>prev_revId.
             rbind (if 5 < length vs then py_int 10 (vs ! 5) else Inl IndexError) (\<lambda>new_revId.
             Inr (if prev_revId < new_revId then AList.update (vs ! index) value m else m)))))"

definition translateDataFromCSVToMap :: "nat \<Rightarrow> string list \<Rightarrow> (string, string) dict res" where
  "translateDataFromCSVToMap index dataInCSV = rfold (csv_line index) [] dataInCSV"

text \<open>\<^verbatim>\<open>collect_data\<close>: \<open>fetch\<close> is \<^verbatim>\<open>cbtransfer\<close> on a server with a data path; for mode \<^verbatim>\<open>disk\<close> the path of the first server is
  asked for and then used for all.\<close>

definition collect_data where
  "collect_data fetch rest_path put servers buckets mode data_path =
     rfold (\<lambda>(path, hdr, cm) ip.
       let path' = (if mode = ''disk'' \<and> path = None then Some (rest_path ip) else path);
           (hdr', bucketMap) = fetch ip path'
       in rbind (rfold (\<lambda>cm (bucket, rows).
                   rbind (translateDataFromCSVToMap 0 rows) (\<lambda>newMap.
                   rbind (dict_lookup cm bucket) (\<lambda>d. Inr (AList.update bucket (put ip newMap d) cm)))) cm bucketMap) (\<lambda>cm'.
          Inr (path', Some hdr', cm')))
       (data_path, None, map (\<lambda>b. (b, [])) (remdups buckets)) servers"

section \<open>Agreement of the nodes\<close>

text \<open>Both checks read the vbuckets node by node; the first node that has a vbucket sets what the others must repeat.
  \<open>diffs\<close> gives the messages for a difference. What is remembered of a vbucket is the node's part of the messages (its
  address and, for failover logs, the state of its copy) and the compared data. The messages start anew with each
  bucket, the verdict does not.\<close>

definition check_entry ::
  "(string \<Rightarrow> 'r \<Rightarrow> ('n \<times> 's) res) \<Rightarrow> (string \<Rightarrow> 'n \<times> 's \<Rightarrow> 'n \<times> 's \<Rightarrow> string list res) \<Rightarrow>
    (string, 'n \<times> 's) dict \<times> bool \<times> string \<Rightarrow> string \<times> 'r \<Rightarrow> ((string, 'n \<times> 's) dict \<times> bool \<times> string) res" where
  "check_entry rd diffs st e =
     (case (st, e) of ((m, logic, output), (vb, raw)) \<Rightarrow>
        rbind (rd vb raw) (\<lambda>x.
        case map_of m vb of
          None \<Rightarrow> Inr (AList.update vb x m, logic, output)
        | Some y \<Rightarrow> rbind (diffs vb y x) (\<lambda>ms. Inr (m, logic \<and> ms = [], output @ concat ms))))"

definition check_buckets ::
  "(string \<Rightarrow> string \<Rightarrow> 'r \<Rightarrow> ('n \<times> 's) res) \<Rightarrow> (string \<Rightarrow> string \<Rightarrow> 'n \<times> 's \<Rightarrow> 'n \<times> 's \<Rightarrow> string list res) \<Rightarrow>
    (string \<times> (string \<times> 'r) list) list \<Rightarrow> (string, (string, 's) dict) dict res" where
  "check_buckets rd diffs buckets =
     rbind (rfold (\<lambda>(bm, logic, output) (bucket, entries).
              rbind (rfold (check_entry (rd bucket) (diffs bucket)) ([], logic, []) entries) (\<lambda>(m, logic', output').
              Inr (AList.update bucket (map (\<lambda>(vb, _, s). (vb, s)) m) bm, logic', output'))) ([], True, []) buckets)
       (\<lambda>(bm, logic, output). if logic then Inr bm else Inl (Raised output))"

text \<open>The loops over nodes and vbuckets: every vbucket with the node and its data.\<close>

type_synonym vb_data = "string \<times> (string, string) dict"

definition node_entries :: "(string, (string, (string, string) dict) dict) dict \<Rightarrow> (string \<times> vb_data) list" where
  "node_entries nodes = concat (map (\<lambda>(node, vbs). map (\<lambda>(vb, d). (vb, (node, d))) vbs) nodes)"

definition nl :: string where
  "nl = [CHR 0x0A]"

text \<open>\<^verbatim>\<open>compare_per_node_for_vbucket_consistency\<close>.\<close>

record vb_seq =
  vs_uuid :: string
  vs_high :: string
  vs_purge :: string

definition read_vb_seq :: "string \<Rightarrow> string \<Rightarrow> vb_data \<Rightarrow> (string \<times> vb_seq) res" where
  "read_vb_seq bucket vb r =
     (case r of (node, d) \<Rightarrow>
        rbind (dict_lookup d ''uuid'') (\<lambda>u. rbind (dict_lookup d ''abs_high_seqno'') (\<lambda>h. rbind (dict_lookup d ''purge_seqno'') (\<lambda>p.
        Inr (node, \<lparr>vs_uuid = u, vs_high = h, vs_purge = p\<rparr>)))))"

definition int_differs :: "bool \<Rightarrow> string \<Rightarrow> string \<Rightarrow> bool res" where
  "int_differs check a b = (if check then rbind (py_int 10 a) (\<lambda>i. rbind (py_int 10 b) (\<lambda>j. Inr (i \<noteq> j))) else Inr False)"

text \<open>The message for a different \<^verbatim>\<open>purge_seqno\<close> shows \<^verbatim>\<open>abs_high_seqno\<close>.\<close>

definition vb_diffs :: "bool \<Rightarrow> bool \<Rightarrow> string \<Rightarrow> string \<Rightarrow> string \<times> vb_seq \<Rightarrow> string \<times> vb_seq \<Rightarrow> string list res" where
  "vb_diffs check_abs check_purge bucket vb x y =
     (case (x, y) of ((node0, s0), (node, s)) \<Rightarrow>
        let msg = (\<lambda>a b. nl @ '' bucket '' @ bucket @ '', vbucket '' @ vb @ '' :: Original in node '' @ node0 @ ''. UUID '' @ a @
                     '', Change in node '' @ node @ ''. UUID '' @ b) in
        rbind (int_differs check_abs (vs_high s0) (vs_high s)) (\<lambda>dh.
        rbind (int_differs check_purge (vs_purge s0) (vs_purge s)) (\<lambda>dp.
        Inr ((if vs_uuid s0 \<noteq> vs_uuid s then [msg (vs_uuid s0) (vs_uuid s)] else []) @
             (if dh then [msg (vs_high s0) (vs_high s)] else []) @ (if dp then [msg (vs_high s0) (vs_high s)] else [])))))"

definition compare_per_node_for_vbucket_consistency ::
  "bool \<Rightarrow> bool \<Rightarrow> (string, (string, (string, (string, string) dict) dict) dict) dict \<Rightarrow> (string, (string, vb_seq) dict) dict res" where
  "compare_per_node_for_vbucket_consistency check_abs check_purge map1 =
     check_buckets read_vb_seq (vb_diffs check_abs check_purge) (map (\<lambda>(b, nodes). (b, node_entries nodes)) map1)"

text \<open>\<^verbatim>\<open>compare_per_node_for_failovers_consistency\<close>.\<close>

record failover_seq =
  fo_id :: string
  fo_seq :: string
  fo_num_entries :: string

definition read_failover ::
  "(string, (string, (string, (string, string) dict) dict) dict) dict \<Rightarrow> string \<Rightarrow> string \<Rightarrow> vb_data \<Rightarrow>
    ((string \<times> string) \<times> failover_seq) res" where
  "read_failover vbucketMap bucket vb r =
     (case r of (node, d) \<Rightarrow>
        rbind (dict_lookup d ''id'') (\<lambda>i. rbind (dict_lookup d ''seq'') (\<lambda>s. rbind (dict_lookup d ''num_entries'') (\<lambda>n.
        rbind (dict_lookup vbucketMap bucket) (\<lambda>nm. rbind (dict_lookup nm node) (\<lambda>vm. rbind (dict_lookup vm vb) (\<lambda>sd.
        rbind (dict_lookup sd ''state'') (\<lambda>state.
        Inr ((node, state), \<lparr>fo_id = i, fo_seq = s, fo_num_entries = n\<rparr>)))))))))"

definition failover_diffs ::
  "string \<Rightarrow> string \<Rightarrow> (string \<times> string) \<times> failover_seq \<Rightarrow> (string \<times> string) \<times> failover_seq \<Rightarrow> string list res" where
  "failover_diffs bucket vb x y =
     (case (x, y) of (((node0, state0), s0), ((node, state), s)) \<Rightarrow>
        let pre = nl @ '' bucket '' @ bucket @ '', vbucket '' @ vb @ '' :: Original node '' @ node0 @ '' '' @ state0 @ '' :: '' in
        rbind (int_differs True (fo_seq s0) (fo_seq s)) (\<lambda>ds.
        rbind (int_differs True (fo_num_entries s0) (fo_num_entries s)) (\<lambda>dn.
        Inr ((if fo_id s0 \<noteq> fo_id s
              then [pre @ ''UUID '' @ fo_id s0 @ '', Change node '' @ node @ '' '' @ state @ '' UUID '' @ fo_id s] else []) @
             (if ds then [pre @ ''seq '' @ fo_seq s0 @ '', Change node '' @ node @ '' '' @ state @ ''  :: seq '' @ fo_seq s] else []) @
             (if dn then [pre @ ''num_entries '' @ fo_num_entries s0 @ '', Change node '' @ node @ '' '' @ state @
                '' :: num_entries '' @ fo_num_entries s] else [])))))"

definition compare_per_node_for_failovers_consistency ::
  "(string, (string, (string, (string, string) dict) dict) dict) dict \<Rightarrow> (string, (string, (string, (string, string) dict) dict) dict) dict \<Rightarrow>
    (string, (string, failover_seq) dict) dict res" where
  "compare_per_node_for_failovers_consistency map1 vbucketMap =
     check_buckets (read_failover vbucketMap) failover_diffs (map (\<lambda>(b, nodes). (b, node_entries nodes)) map1)"

section \<open>Sequence numbers\<close>

text \<open>\<^verbatim>\<open>compare_vbucketseq_failoverlogs\<close>: the sequence numbers are strings and compared as such.\<close>

definition seq_vs_failover ::
  "string \<Rightarrow> (string, (string, string) dict) dict \<Rightarrow> bool \<times> string \<Rightarrow> string \<times> (string, string) dict \<Rightarrow> (bool \<times> string) res" where
  "seq_vs_failover bucket flog st e =
     (case (st, e) of ((ok, output), (vb, d)) \<Rightarrow>
        rbind (dict_lookup d ''abs_high_seqno'') (\<lambda>seq. rbind (dict_lookup d ''uuid'') (\<lambda>uuid.
        rbind (dict_lookup flog vb) (\<lambda>f. rbind (dict_lookup f ''seq'') (\<lambda>fseq. rbind (dict_lookup f ''id'') (\<lambda>fuuid.
        let pre = nl @ '' Error Condition in bucket '' @ bucket @ '' vbucket '' @ vb @ ''::''; less = str_less seq fseq; other = (uuid \<noteq> fuuid)
        in Inr (ok \<and> \<not> less \<and> \<not> other,
             output @ (if less then pre @ '' seq:vbucket-seq '' @ seq @ '' != failoverlog-seq '' @ fseq else []) @
             (if other then pre @ '' uuid : vbucket-seq '' @ uuid @ '' != failoverlog-seq '' @ fuuid else []))))))))"

definition compare_vbucketseq_failoverlogs ::
  "(string, (string, (string, string) dict) dict) dict \<Rightarrow> (string, (string, (string, string) dict) dict) dict \<Rightarrow> unit res" where
  "compare_vbucketseq_failoverlogs vbucketseq failoverlog =
     rbind (rfold (\<lambda>st (bucket, vbs). if vbs = [] then Inr st
              else rbind (dict_lookup failoverlog bucket) (\<lambda>flog. rfold (seq_vs_failover bucket flog) st vbs)) (True, []) vbucketseq)
       (\<lambda>(ok, output). if ok then Inr () else Inl (Raised output))"

text \<open>\<^verbatim>\<open>validate_seq_no_stats\<close>.\<close>

definition comparison_key_pairs :: "(string \<times> string) list" where
  "comparison_key_pairs = [(''high_completed_seqno'', ''high_seqno''), (''last_persisted_snap_start'', ''last_persisted_seqno''),
     (''last_persisted_snap_start'', ''last_persisted_snap_end'')]"

definition validate_seq_no_stats :: "(string, (string, (string, string) dict) dict) dict \<Rightarrow> bool res" where
  "validate_seq_no_stats vb_seqno_stats =
     rfold (\<lambda>ok (_, vBucket). rfold (\<lambda>ok (_, stat). rfold (\<lambda>ok (a, b).
       rbind (rbind (dict_lookup stat a) (py_int 10)) (\<lambda>i. rbind (rbind (dict_lookup stat b) (py_int 10)) (\<lambda>j.
       Inr (ok \<and> \<not> j < i)))) ok comparison_key_pairs) ok vBucket) True vb_seqno_stats"

end
