(* ===== verification/Vb_Consistency_Props.thy ===== *)
theory Vb_Consistency_Props
  imports Vb_Consistency
begin

text \<open>
  What the comparisons decide: the checks over nodes succeed exactly when all nodes that have a vbucket agree on it
  (proved once for both in the locale \<open>node_check\<close>), the comparison of two data sets finds no difference exactly when they
  are equal, and the statistics of a node are the flat ones grouped by vbucket.
\<close>

section \<open>Agreement of the nodes\<close>

text \<open>A check: entries are read by \<open>rd\<close>; the messages are empty exactly if two entries have the same \<open>view\<close>.\<close>

locale node_check =
  fixes rd :: "string \<Rightarrow> string \<Rightarrow> 'r \<Rightarrow> ('n \<times> 's) res"
    and diffs :: "string \<Rightarrow> string \<Rightarrow> 'n \<times> 's \<Rightarrow> 'n \<times> 's \<Rightarrow> string list res"
    and view :: "'s \<Rightarrow> 'v"
    and good :: "'s \<Rightarrow> bool"
  assumes diffs_view: "good (snd x) \<Longrightarrow> good (snd y) \<Longrightarrow> \<exists>ms. diffs b vb x y = Inr ms \<and> (ms = [] \<longleftrightarrow> view (snd x) = view (snd y))"
begin

definition readable :: "string \<Rightarrow> (string \<times> 'r) list \<Rightarrow> bool" where
  "readable b es \<longleftrightarrow> (\<forall>(vb, r) \<in> set es. \<exists>x. rd b vb r = Inr x \<and> good (snd x))"

definition seen :: "string \<Rightarrow> (string \<times> 'r) list \<Rightarrow> (string \<times> 'n \<times> 's) list" where
  "seen b es = map (\<lambda>(vb, r). (vb, projr (rd b vb r))) es"

definition agree :: "(string \<times> 'n \<times> 's) list \<Rightarrow> bool" where
  "agree xs \<longleftrightarrow> (\<forall>vb x y. (vb, x) \<in> set xs \<longrightarrow> (vb, y) \<in> set xs \<longrightarrow> view (snd x) = view (snd y))"

lemma agree_mono: "agree ys \<Longrightarrow> set xs \<subseteq> set ys \<Longrightarrow> agree xs"
  unfolding agree_def by blast

lemma agree_insert:
  assumes "(vb, y) \<in> set m"
  shows "agree (m @ (vb, x) # xs) \<longleftrightarrow> view (snd y) = view (snd x) \<and> agree (m @ xs)"
proof
  assume a: "agree (m @ (vb, x) # xs)"
  moreover have "(vb, x) \<in> set (m @ (vb, x) # xs)" "(vb, y) \<in> set (m @ (vb, x) # xs)" using assms by simp_all
  ultimately have "view (snd y) = view (snd x)" unfolding agree_def by blast
  moreover have "agree (m @ xs)" by (rule agree_mono [OF a]) auto
  ultimately show "view (snd y) = view (snd x) \<and> agree (m @ xs)" by blast
next
  assume a: "view (snd y) = view (snd x) \<and> agree (m @ xs)"
  have h: "view (snd z) = view (snd x)" if "(vb, z) \<in> set (m @ (vb, x) # xs)" for z
  proof (cases "z = x")
    case False
    with that have "(vb, z) \<in> set (m @ xs)" "(vb, y) \<in> set (m @ xs)" using assms by auto
    with a show ?thesis unfolding agree_def by metis
  qed simp
  show "agree (m @ (vb, x) # xs)" unfolding agree_def
  proof (intro allI impI)
    fix v p q
    assume pq: "(v, p) \<in> set (m @ (vb, x) # xs)" "(v, q) \<in> set (m @ (vb, x) # xs)"
    show "view (snd p) = view (snd q)"
    proof (cases "v = vb")
      case True
      with pq h show ?thesis by metis
    next
      case False
      with pq have "(v, p) \<in> set (m @ xs)" "(v, q) \<in> set (m @ xs)" by auto
      with a show ?thesis unfolding agree_def by blast
    qed
  qed
qed

lemma agree_wf: "dict_wf m \<Longrightarrow> agree m"
  by (auto simp: agree_def dict_wf_def dest: eq_key_imp_eq_value)

lemma check_entries:
  assumes "readable b es" and "dict_wf m" and "\<forall>(vb, x) \<in> set m. good (snd x)"
  shows "\<exists>m' out'. rfold (check_entry (rd b) (diffs b)) (m, logic, out) es = Inr (m', logic \<and> agree (m @ seen b es), out') \<and>
    dict_wf m' \<and> set m' \<subseteq> set m \<union> set (seen b es) \<and> fst ` set m' = fst ` set m \<union> fst ` set (seen b es)"
  using assms
proof (induction es arbitrary: m logic out)
  case Nil
  then show ?case using agree_wf by (auto simp: seen_def)
next
  case (Cons e es)
  obtain vb r where e: "e = (vb, r)" by force
  from Cons.prems(1) obtain x where x: "rd b vb r = Inr x" "good (snd x)" by (auto simp: readable_def e)
  have r: "readable b es" using Cons.prems(1) by (simp add: readable_def)
  have s: "seen b ((vb, r) # es) = (vb, x) # seen b es" by (simp add: seen_def x)
  show ?case
  proof (cases "map_of m vb")
    case None
    then have new: "vb \<notin> fst ` set m" by (simp add: map_of_eq_None_iff)
    have wf: "dict_wf (m @ [(vb, x)])" using Cons.prems(2) new by (simp add: dict_wf_def)
    have g: "\<forall>(v, y) \<in> set (m @ [(vb, x)]). good (snd y)" using Cons.prems(3) x(2) by auto
    show ?thesis using Cons.IH [OF r wf g, of logic out] None
      by (auto simp: check_entry_def e x s update_new [OF new])
  next
    case (Some y)
    then have y: "(vb, y) \<in> set m" by (rule map_of_SomeD)
    with Cons.prems(3) have "good (snd y)" by auto
    with diffs_view [of y x b vb] x(2) obtain ms where ms: "diffs b vb y x = Inr ms" "ms = [] \<longleftrightarrow> view (snd y) = view (snd x)" by auto
    have k: "vb \<in> fst ` set m" using y by force
    show ?thesis
      using Cons.IH [OF r Cons.prems(2,3), of "logic \<and> ms = []" "out @ concat ms"] agree_insert [OF y, of x "seen b es"] ms k
      by (auto simp: check_entry_def e x s Some insert_absorb)
  qed
qed

text \<open>What the check returns for a bucket: every vbucket with data that all its nodes agree on.\<close>

definition tells :: "(string, 's) dict \<Rightarrow> (string \<times> 'n \<times> 's) list \<Rightarrow> bool" where
  "tells d xs \<longleftrightarrow> (\<forall>vb x. (vb, x) \<in> set xs \<longrightarrow> (\<exists>t. map_of d vb = Some t \<and> view t = view (snd x)))"

lemma first_tells:
  assumes "dict_wf m" and "set m \<subseteq> set xs" and "fst ` set m = fst ` set xs" and "agree xs"
  shows "tells (map (\<lambda>(vb, _, s). (vb, s)) m) xs"
  unfolding tells_def
proof (intro allI impI)
  fix vb x
  assume x: "(vb, x) \<in> set xs"
  then have "vb \<in> fst ` set m" using assms(3) by force
  then obtain y where y: "(vb, y) \<in> set m" by force
  then have "view (snd y) = view (snd x)" using x assms(2,4) unfolding agree_def by blast
  moreover have "map_of (map (\<lambda>(vb, _, s). (vb, s)) m) vb = Some (snd y)"
  proof (rule map_of_is_SomeI)
    show "distinct (map fst (map (\<lambda>(vb, _, s). (vb, s)) m))" using assms(1) by (simp add: dict_wf_def comp_def split_def)
    show "(vb, snd y) \<in> set (map (\<lambda>(vb, _, s). (vb, s)) m)" using y by (cases y) force
  qed
  ultimately show "\<exists>t. map_of (map (\<lambda>(vb, _, s). (vb, s)) m) vb = Some t \<and> view t = view (snd x)" by blast
qed

abbreviation bucket_step :: "(string, (string, 's) dict) dict \<times> bool \<times> string \<Rightarrow> string \<times> (string \<times> 'r) list \<Rightarrow>
    ((string, (string, 's) dict) dict \<times> bool \<times> string) res" where
  "bucket_step \<equiv> (\<lambda>(bm, logic, output) (bucket, entries).
     rbind (rfold (check_entry (rd bucket) (diffs bucket)) ([], logic, []) entries) (\<lambda>(m, logic', output').
     Inr (AList.update bucket (map (\<lambda>(vb, _, s). (vb, s)) m) bm, logic', output')))"

lemma check_bucket_steps:
  assumes "\<forall>(b, es) \<in> set bs. readable b es" and "distinct (map fst bs)"
  shows "\<exists>bm' out'. rfold bucket_step (bm, logic, out) bs = Inr (bm', logic \<and> (\<forall>(b, es) \<in> set bs. agree (seen b es)), out') \<and>
    (\<forall>b. b \<notin> fst ` set bs \<longrightarrow> map_of bm' b = map_of bm b) \<and>
    (\<forall>(b, es) \<in> set bs. agree (seen b es) \<longrightarrow> (\<exists>d. map_of bm' b = Some d \<and> tells d (seen b es)))"
  using assms
proof (induction bs arbitrary: bm logic out)
  case (Cons e bs)
  obtain b es where e: "e = (b, es)" by force
  have r: "readable b es" "\<forall>(b, es) \<in> set bs. readable b es" "distinct (map fst bs)" "b \<notin> fst ` set bs"
    using Cons.prems by (auto simp: e)
  from check_entries [OF r(1), of "[]" logic "[]"] obtain m out1 where
    m: "rfold (check_entry (rd b) (diffs b)) ([], logic, []) es = Inr (m, logic \<and> agree (seen b es), out1)"
      "dict_wf m" "set m \<subseteq> set (seen b es)" "fst ` set m = fst ` set (seen b es)" by auto
  let ?d = "map (\<lambda>(vb, _, s). (vb, s)) m"
  from Cons.IH [OF r(2,3), of "AList.update b ?d bm" "logic \<and> agree (seen b es)" out1] obtain bm' out' where
    ih: "rfold bucket_step (AList.update b ?d bm, logic \<and> agree (seen b es), out1) bs =
        Inr (bm', (logic \<and> agree (seen b es)) \<and> (\<forall>(b, es) \<in> set bs. agree (seen b es)), out')"
      "\<forall>c. c \<notin> fst ` set bs \<longrightarrow> map_of bm' c = map_of (AList.update b ?d bm) c"
      "\<forall>(b, es) \<in> set bs. agree (seen b es) \<longrightarrow> (\<exists>d. map_of bm' b = Some d \<and> tells d (seen b es))" by blast
  have A: "rfold bucket_step (bm, logic, out) (e # bs) = Inr (bm', logic \<and> (\<forall>(b, es) \<in> set (e # bs). agree (seen b es)), out')"
    using m(1) ih(1) by (simp add: e conj_assoc)
  have B: "\<forall>c. c \<notin> fst ` set (e # bs) \<longrightarrow> map_of bm' c = map_of bm c" using ih(2) by (simp add: e)
  have "agree (seen b es) \<Longrightarrow> map_of bm' b = Some ?d \<and> tells ?d (seen b es)"
    using ih(2) r(4) first_tells [OF m(2-4)] by simp
  then have C: "\<forall>(b, es) \<in> set (e # bs). agree (seen b es) \<longrightarrow> (\<exists>d. map_of bm' b = Some d \<and> tells d (seen b es))"
    using ih(3) by (auto simp: e)
  show ?case by (intro exI [of _ bm'] exI [of _ out'] conjI) (rule A B C)+
qed simp

lemma check_buckets_agree:
  assumes "\<forall>(b, es) \<in> set bs. readable b es" and "distinct (map fst bs)"
  shows "(is_ok (check_buckets rd diffs bs) \<longleftrightarrow> (\<forall>(b, es) \<in> set bs. agree (seen b es))) \<and>
    (\<forall>bm. check_buckets rd diffs bs = Inr bm \<longrightarrow> (\<forall>(b, es) \<in> set bs. \<exists>d. map_of bm b = Some d \<and> tells d (seen b es)))"
proof -
  let ?all = "\<forall>(b, es) \<in> set bs. agree (seen b es)"
  from check_bucket_steps [OF assms, of "[]" True "[]"] obtain bm' out' where
    s: "rfold bucket_step ([], True, []) bs = Inr (bm', ?all, out')" and
    t: "\<forall>(b, es) \<in> set bs. agree (seen b es) \<longrightarrow> (\<exists>d. map_of bm' b = Some d \<and> tells d (seen b es))" by auto
  have e: "check_buckets rd diffs bs = (if ?all then Inr bm' else Inl (Raised out'))" unfolding check_buckets_def s by simp
  show ?thesis
  proof (cases ?all)
    case True
    then have "\<forall>(b, es) \<in> set bs. \<exists>d. map_of bm' b = Some d \<and> tells d (seen b es)" using t by blast
    with True e show ?thesis by simp
  next
    case False
    then have "check_buckets rd diffs bs = Inl (Raised out')" unfolding e by (rule if_not_P)
    with False show ?thesis by simp
  qed
qed

end

subsection \<open>The two checks\<close>

definition vb_view :: "bool \<Rightarrow> bool \<Rightarrow> vb_seq \<Rightarrow> string \<times> int res option \<times> int res option" where
  "vb_view check_abs check_purge s = (vs_uuid s, if check_abs then Some (py_int 10 (vs_high s)) else None,
     if check_purge then Some (py_int 10 (vs_purge s)) else None)"

definition vb_good :: "bool \<Rightarrow> bool \<Rightarrow> vb_seq \<Rightarrow> bool" where
  "vb_good check_abs check_purge s \<longleftrightarrow> (check_abs \<longrightarrow> is_ok (py_int 10 (vs_high s))) \<and> (check_purge \<longrightarrow> is_ok (py_int 10 (vs_purge s)))"

definition failover_view :: "failover_seq \<Rightarrow> string \<times> int res \<times> int res" where
  "failover_view s = (fo_id s, py_int 10 (fo_seq s), py_int 10 (fo_num_entries s))"

definition failover_good :: "failover_seq \<Rightarrow> bool" where
  "failover_good s \<longleftrightarrow> is_ok (py_int 10 (fo_seq s)) \<and> is_ok (py_int 10 (fo_num_entries s))"

lemma int_differs_eq:
  "(check \<longrightarrow> is_ok (py_int 10 a)) \<Longrightarrow> (check \<longrightarrow> is_ok (py_int 10 b)) \<Longrightarrow> int_differs check a b = Inr (check \<and> py_int 10 a \<noteq> py_int 10 b)"
  by (cases "py_int 10 a"; cases "py_int 10 b") (auto simp: int_differs_def)

interpretation vc: node_check read_vb_seq "vb_diffs ca cp" "vb_view ca cp" "vb_good ca cp" for ca cp
proof
  fix x y :: "string \<times> vb_seq" and b vb
  assume g: "vb_good ca cp (snd x)" "vb_good ca cp (snd y)"
  then show "\<exists>ms. vb_diffs ca cp b vb x y = Inr ms \<and> (ms = [] \<longleftrightarrow> vb_view ca cp (snd x) = vb_view ca cp (snd y))"
    by (cases x; cases y) (auto simp: vb_diffs_def vb_view_def vb_good_def int_differs_eq Let_def)
qed

interpretation fc: node_check "read_failover vm" failover_diffs failover_view failover_good for vm
proof
  fix x y :: "(string \<times> string) \<times> failover_seq" and b vb
  assume "failover_good (snd x)" "failover_good (snd y)"
  then show "\<exists>ms. failover_diffs b vb x y = Inr ms \<and> (ms = [] \<longleftrightarrow> failover_view (snd x) = failover_view (snd y))"
    by (cases x; cases y) (auto simp: failover_diffs_def failover_view_def failover_good_def int_differs_eq Let_def split_def)
qed

text \<open>The vbuckets of a bucket's nodes, and when two nodes say the same of one.\<close>

definition has_vb :: "(string, (string, (string, string) dict) dict) dict \<Rightarrow> string \<Rightarrow> string \<Rightarrow> (string, string) dict \<Rightarrow> bool" where
  "has_vb nodes node vb d \<longleftrightarrow> (\<exists>vbs. (node, vbs) \<in> set nodes \<and> (vb, d) \<in> set vbs)"

lemma node_entries_has: "(vb, node, d) \<in> set (node_entries nodes) \<longleftrightarrow> has_vb nodes node vb d"
  by (force simp: node_entries_def has_vb_def)

definition complete_stats :: "bool \<Rightarrow> bool \<Rightarrow> (string, string) dict \<Rightarrow> bool" where
  "complete_stats ca cp d \<longleftrightarrow> (\<exists>u h p. map_of d ''uuid'' = Some u \<and> map_of d ''abs_high_seqno'' = Some h \<and> map_of d ''purge_seqno'' = Some p \<and>
     (ca \<longrightarrow> is_ok (py_int 10 h)) \<and> (cp \<longrightarrow> is_ok (py_int 10 p)))"

definition same_stats :: "bool \<Rightarrow> bool \<Rightarrow> (string, string) dict \<Rightarrow> (string, string) dict \<Rightarrow> bool" where
  "same_stats ca cp d e \<longleftrightarrow> map_of d ''uuid'' = map_of e ''uuid'' \<and>
     (ca \<longrightarrow> map_option (py_int 10) (map_of d ''abs_high_seqno'') = map_option (py_int 10) (map_of e ''abs_high_seqno'')) \<and>
     (cp \<longrightarrow> map_option (py_int 10) (map_of d ''purge_seqno'') = map_option (py_int 10) (map_of e ''purge_seqno''))"

definition seq_of :: "(string, string) dict \<Rightarrow> vb_seq" where
  "seq_of d = \<lparr>vs_uuid = the (map_of d ''uuid''), vs_high = the (map_of d ''abs_high_seqno''), vs_purge = the (map_of d ''purge_seqno'')\<rparr>"

lemma read_complete:
  "complete_stats ca cp d \<Longrightarrow> read_vb_seq b vb (node, d) = Inr (node, seq_of d) \<and> vb_good ca cp (seq_of d)"
  by (auto simp: complete_stats_def read_vb_seq_def seq_of_def vb_good_def dict_lookup_def)

lemma same_view:
  "complete_stats ca cp d \<Longrightarrow> complete_stats ca cp e \<Longrightarrow> vb_view ca cp (seq_of d) = vb_view ca cp (seq_of e) \<longleftrightarrow> same_stats ca cp d e"
  by (auto simp: complete_stats_def vb_view_def seq_of_def same_stats_def)

definition complete_nodes :: "bool \<Rightarrow> bool \<Rightarrow> (string, (string, (string, string) dict) dict) dict \<Rightarrow> bool" where
  "complete_nodes ca cp nodes \<longleftrightarrow> (\<forall>node vb d. has_vb nodes node vb d \<longrightarrow> complete_stats ca cp d)"

lemma complete_nodesD: "complete_nodes ca cp nodes \<Longrightarrow> has_vb nodes node vb d \<Longrightarrow> complete_stats ca cp d"
  by (auto simp: complete_nodes_def)

lemma seen_complete:
  assumes "complete_nodes ca cp nodes"
  shows "(vb, x) \<in> set (vc.seen b (node_entries nodes)) \<longleftrightarrow> (\<exists>node d. has_vb nodes node vb d \<and> x = (node, seq_of d))"
proof -
  have "(vb, x) \<in> set (vc.seen b (node_entries nodes)) \<longleftrightarrow> (\<exists>node d. (vb, node, d) \<in> set (node_entries nodes) \<and> x = projr (read_vb_seq b vb (node, d)))"
    by (force simp: vc.seen_def)
  also have "\<dots> \<longleftrightarrow> (\<exists>node d. has_vb nodes node vb d \<and> x = (node, seq_of d))"
    using read_complete complete_nodesD [OF assms] unfolding node_entries_has by (metis sum.sel(2))
  finally show ?thesis .
qed

lemma agree_complete:
  assumes "complete_nodes ca cp nodes"
  shows "vc.agree ca cp (vc.seen b (node_entries nodes)) \<longleftrightarrow>
    (\<forall>n1 n2 vb d1 d2. has_vb nodes n1 vb d1 \<longrightarrow> has_vb nodes n2 vb d2 \<longrightarrow> same_stats ca cp d1 d2)"
proof
  assume a: "vc.agree ca cp (vc.seen b (node_entries nodes))"
  show "\<forall>n1 n2 vb d1 d2. has_vb nodes n1 vb d1 \<longrightarrow> has_vb nodes n2 vb d2 \<longrightarrow> same_stats ca cp d1 d2"
  proof (intro allI impI)
    fix n1 n2 vb d1 d2
    assume h: "has_vb nodes n1 vb d1" "has_vb nodes n2 vb d2"
    then have "(vb, n1, seq_of d1) \<in> set (vc.seen b (node_entries nodes))" "(vb, n2, seq_of d2) \<in> set (vc.seen b (node_entries nodes))"
      unfolding seen_complete [OF assms] by blast+
    with a have "vb_view ca cp (snd (n1, seq_of d1)) = vb_view ca cp (snd (n2, seq_of d2))" unfolding vc.agree_def by blast
    then show "same_stats ca cp d1 d2" using same_view [OF complete_nodesD [OF assms h(1)] complete_nodesD [OF assms h(2)]] by simp
  qed
next
  assume a: "\<forall>n1 n2 vb d1 d2. has_vb nodes n1 vb d1 \<longrightarrow> has_vb nodes n2 vb d2 \<longrightarrow> same_stats ca cp d1 d2"
  show "vc.agree ca cp (vc.seen b (node_entries nodes))"
    unfolding vc.agree_def seen_complete [OF assms]
  proof (intro allI impI)
    fix vb x y
    assume "\<exists>n d. has_vb nodes n vb d \<and> x = (n, seq_of d)" "\<exists>n d. has_vb nodes n vb d \<and> y = (n, seq_of d)"
    then obtain n d n' d' where h: "has_vb nodes n vb d" "x = (n, seq_of d)" "has_vb nodes n' vb d'" "y = (n', seq_of d')" by blast
    from a h(1,3) have "same_stats ca cp d d'" by blast
    then show "vb_view ca cp (snd x) = vb_view ca cp (snd y)" using same_view [OF complete_nodesD [OF assms h(1)] complete_nodesD [OF assms h(3)]] h(2,4) by simp
  qed
qed

text \<open>C28. Agreement of the nodes: if every node reports the statistics that are compared, the check passes exactly when
  any two nodes that have a vbucket of a bucket report the same UUID (and, where asked for, the same sequence and purge
  numbers) for it, and then it returns for every bucket and every vbucket of it a value with that UUID.\<close>

theorem vbucket_check_decides_agreement:
  assumes "dict_wf map1"
    and "\<forall>b nodes. (b, nodes) \<in> set map1 \<longrightarrow> complete_nodes ca cp nodes"
  shows "(is_ok (compare_per_node_for_vbucket_consistency ca cp map1) \<longleftrightarrow>
      (\<forall>b nodes n1 n2 vb d1 d2. (b, nodes) \<in> set map1 \<longrightarrow> has_vb nodes n1 vb d1 \<longrightarrow> has_vb nodes n2 vb d2 \<longrightarrow> same_stats ca cp d1 d2)) \<and>
    (\<forall>bm b nodes n vb d. compare_per_node_for_vbucket_consistency ca cp map1 = Inr bm \<longrightarrow> (b, nodes) \<in> set map1 \<longrightarrow> has_vb nodes n vb d \<longrightarrow>
       (\<exists>m s. map_of bm b = Some m \<and> map_of m vb = Some s \<and> map_of d ''uuid'' = Some (vs_uuid s)))"
proof -
  let ?bs = "map (\<lambda>(b, nodes). (b, node_entries nodes)) map1"
  note cn = assms(2) [rule_format]
  have rd: "\<forall>(b, es) \<in> set ?bs. vc.readable ca cp b es"
    using cn read_complete complete_nodesD by (fastforce simp: vc.readable_def node_entries_has)
  have dist: "distinct (map fst ?bs)" using assms(1) by (simp add: dict_wf_def comp_def split_def)
  note c = vc.check_buckets_agree [OF rd dist]
  have ok: "is_ok (compare_per_node_for_vbucket_consistency ca cp map1) \<longleftrightarrow> (\<forall>(b, nodes) \<in> set map1. vc.agree ca cp (vc.seen b (node_entries nodes)))"
    using c unfolding compare_per_node_for_vbucket_consistency_def by (auto simp: split_def)
  have part1: "is_ok (compare_per_node_for_vbucket_consistency ca cp map1) \<longleftrightarrow>
      (\<forall>b nodes n1 n2 vb d1 d2. (b, nodes) \<in> set map1 \<longrightarrow> has_vb nodes n1 vb d1 \<longrightarrow> has_vb nodes n2 vb d2 \<longrightarrow> same_stats ca cp d1 d2)"
    unfolding ok using agree_complete [OF cn] by fast
  have part2: "\<exists>m s. map_of bm b = Some m \<and> map_of m vb = Some s \<and> map_of d ''uuid'' = Some (vs_uuid s)"
    if "compare_per_node_for_vbucket_consistency ca cp map1 = Inr bm" "(b, nodes) \<in> set map1" "has_vb nodes n vb d" for bm b nodes n vb d
  proof -
    from that(1) c have "\<forall>(b, es) \<in> set ?bs. \<exists>m. map_of bm b = Some m \<and> vc.tells ca cp m (vc.seen b es)"
      unfolding compare_per_node_for_vbucket_consistency_def by blast
    with that(2) obtain m where m: "map_of bm b = Some m" "vc.tells ca cp m (vc.seen b (node_entries nodes))" by fastforce
    have "(vb, n, seq_of d) \<in> set (vc.seen b (node_entries nodes))" using that(3) seen_complete [OF cn [OF that(2)]] by blast
    with m(2) obtain s where s: "map_of m vb = Some s" "vb_view ca cp s = vb_view ca cp (seq_of d)" unfolding vc.tells_def by fastforce
    from s(2) complete_nodesD [OF cn [OF that(2)] that(3)] have "map_of d ''uuid'' = Some (vs_uuid s)"
      by (auto simp: vb_view_def seq_of_def complete_stats_def)
    with m(1) s(1) show ?thesis by blast
  qed
  show ?thesis using part1 part2 by blast
qed

definition sample_vb :: "string \<Rightarrow> string \<Rightarrow> string \<Rightarrow> (string, string) dict" where
  "sample_vb u h p = [(''uuid'', u), (''abs_high_seqno'', h), (''purge_seqno'', p)]"

definition sample_nodes :: "string \<Rightarrow> (string, (string, (string, string) dict) dict) dict" where
  "sample_nodes u = [(''n1'', [(''vb_0'', sample_vb ''7'' ''5'' ''0'')]), (''n2'', [(''vb_0'', sample_vb u '' 5'' ''1'')])]"

lemma sample_has:
  "has_vb (sample_nodes u) n vb d \<longleftrightarrow> vb = ''vb_0'' \<and> (n = ''n1'' \<and> d = sample_vb ''7'' ''5'' ''0'' \<or> n = ''n2'' \<and> d = sample_vb u '' 5'' ''1'')"
  by (auto simp: has_vb_def sample_nodes_def)

theorem vbucket_check_decides_agreement_witness:
  "is_ok (compare_per_node_for_vbucket_consistency True False [(''b'', sample_nodes ''7'')]) \<and>
   \<not> is_ok (compare_per_node_for_vbucket_consistency True False [(''b'', sample_nodes ''8'')])"
proof -
  have p: "py_int 10 ''5'' = Inr 5" "py_int 10 '' 5'' = Inr 5" by code_simp+
  have c: "\<forall>b nodes. (b, nodes) \<in> set [(''b'', sample_nodes u)] \<longrightarrow> complete_nodes True False nodes" for u
    by (auto simp: complete_nodes_def sample_has complete_stats_def sample_vb_def p)
  have w: "dict_wf [(''b'', sample_nodes u)]" for u by (simp add: dict_wf_def)
  note t = vbucket_check_decides_agreement [OF w c, THEN conjunct1]
  have "is_ok (compare_per_node_for_vbucket_consistency True False [(''b'', sample_nodes ''7'')])"
    unfolding t by (auto simp: sample_has same_stats_def sample_vb_def p)
  moreover have "\<not> same_stats True False (sample_vb ''7'' ''5'' ''0'') (sample_vb ''8'' '' 5'' ''1'')"
    by (simp add: same_stats_def sample_vb_def)
  then have "\<not> is_ok (compare_per_node_for_vbucket_consistency True False [(''b'', sample_nodes ''8'')])"
    unfolding t by (simp add: sample_has) blast
  ultimately show ?thesis by blast
qed

section \<open>Comparison of data sets\<close>

lemma compare_fields:
  assumes "\<forall>i \<in> set xs. i < length hf"
  shows "\<exists>r. rfold (compare_field fl None hdr hf d1 d2) reason xs = Inr r \<and> (r = [] \<longleftrightarrow> reason = [] \<and> (\<forall>i \<in> set xs. d1 ! i = d2 ! i))"
  using assms
proof (induction xs arbitrary: reason)
  case (Cons i xs)
  let ?r = "if d1 ! i = d2 ! i then reason else AList.update (hf ! i) (''Expected '' @ d1 ! i @ '' :: Actual '' @ d2 ! i) reason"
  have "compare_field fl None hdr hf d1 d2 reason i = Inr ?r" using Cons.prems by (simp add: compare_field_def)
  moreover have "\<forall>i \<in> set xs. i < length hf" using Cons.prems by simp
  ultimately show ?case using Cons.IH [of ?r] by auto
qed simp

lemma split_inj: "py_split c a = py_split c b \<longleftrightarrow> a = b"
  by (metis py_join_split)

lemma data_reason_exact:
  assumes "map_of info1 k = Some row1" and "map_of info2 k = Some row2"
    and "length (py_split comma row1) \<le> length (py_split comma hdr)"
  shows "\<exists>r. data_reason fl rp None hdr info1 info2 k = Inr r \<and> (r = [] \<longleftrightarrow> row1 = row2)"
proof (cases "length (py_split comma row1) = length (py_split comma row2)")
  case True
  let ?n = "length (py_split comma row1)"
  have "\<forall>i \<in> set [0..<?n]. i < length (py_split comma hdr)" using assms(3) by simp
  from compare_fields [OF this, of fl hdr "py_split comma row1" "py_split comma row2" "[]"] obtain r where
    r: "rfold (compare_field fl None hdr (py_split comma hdr) (py_split comma row1) (py_split comma row2)) [] [0..<?n] = Inr r"
      "r = [] \<longleftrightarrow> [] = ([] :: reason) \<and> (\<forall>i \<in> set [0..<?n]. py_split comma row1 ! i = py_split comma row2 ! i)" by blast
  then have "r = [] \<longleftrightarrow> (\<forall>i < ?n. py_split comma row1 ! i = py_split comma row2 ! i)" by auto
  then have "r = [] \<longleftrightarrow> row1 = row2" using True split_inj [of comma row1 row2] by (metis nth_equalityI)
  with r(1) True show ?thesis using assms(1,2) by (simp add: data_reason_def dict_lookup_def Let_def)
next
  case False
  then show ?thesis using assms(1,2) by (auto simp: data_reason_def dict_lookup_def Let_def)
qed

lemma updated_items_keys:
  assumes "\<forall>k \<in> set ks. \<exists>r. f k = Inr r \<and> (r = [] \<longleftrightarrow> \<not> P k)"
  shows "\<exists>m. updated_items f ks = Inr m \<and> fst ` set m = {k \<in> set ks. P k}"
proof -
  let ?step = "\<lambda>m k. rbind (f k) (\<lambda>r. Inr (if 0 < length r then AList.update k r m else m))"
  have "\<exists>m. rfold ?step m0 ks = Inr m \<and> fst ` set m = fst ` set m0 \<union> {k \<in> set ks. P k}" for m0
    using assms
  proof (induction ks arbitrary: m0)
    case (Cons k ks)
    from Cons.prems obtain r where r: "f k = Inr r" "r = [] \<longleftrightarrow> \<not> P k" by auto
    from Cons.IH [of "if 0 < length r then AList.update k r m0 else m0"] Cons.prems obtain m where
      m: "rfold ?step (if 0 < length r then AList.update k r m0 else m0) ks = Inr m"
        "fst ` set m = fst ` set (if 0 < length r then AList.update k r m0 else m0) \<union> {k \<in> set ks. P k}" by auto
    show ?case by (intro exI [of _ m] conjI) (use r m in \<open>auto simp: dom_update\<close>)
  qed simp
  from this [of "[]"] show ?thesis unfolding updated_items_def by simp
qed

text \<open>The loop over two dictionaries, and the verdict of all buckets.\<close>

lemma pairwise_all:
  assumes "dict_wf m1" and "\<forall>k a. (k, a) \<in> set m1 \<longrightarrow> (\<exists>b c. map_of m2 k = Some b \<and> f a b = Inr c)"
  shows "pairwise f m1 m2 = Inr (map (\<lambda>(k, a). (k, projr (f a (the (map_of m2 k))))) m1)"
proof -
  let ?step = "\<lambda>r (k, info1). rbind (dict_lookup m2 k) (\<lambda>info2. rbind (f info1 info2) (\<lambda>c. Inr (AList.update k c r)))"
  have "rfold ?step acc m1 = Inr (acc @ map (\<lambda>(k, a). (k, projr (f a (the (map_of m2 k))))) m1)" if "fst ` set acc \<inter> fst ` set m1 = {}" for acc
    using assms that
  proof (induction m1 arbitrary: acc)
    case (Cons ka m1)
    obtain k a where ka: "ka = (k, a)" by force
    from Cons.prems(2) [rule_format, of k a] obtain b c where bc: "map_of m2 k = Some b" "f a b = Inr c" by (auto simp: ka)
    have "k \<notin> fst ` set acc" using Cons.prems(3) by (auto simp: ka)
    moreover have "fst ` set (acc @ [(k, c)]) \<inter> fst ` set m1 = {}" "dict_wf m1"
      using Cons.prems(1,3) by (auto simp: ka dict_wf_def)
    ultimately show ?case using Cons.IH [of "acc @ [(k, c)]"] Cons.prems(2) bc by (simp add: ka update_new dict_lookup_def)
  qed simp
  then show ?thesis unfolding pairwise_def by simp
qed

lemma analyze_three_logic:
  "fst (analyze_three rpd (Some x) (Some y) (Some z) st c) \<longleftrightarrow> fst st \<and> lr_deleted c = x \<and> lr_added c = y \<and> lr_updated c = z"
  by (cases st) (auto simp: analyze_three_def analyze_result_def Let_def)

lemma analyze_all_logic:
  "fst (analyze_all_result rpd res (Some x) (Some y) (Some z)) \<longleftrightarrow> (\<forall>(b, c) \<in> set res. lr_deleted c = x \<and> lr_added c = y \<and> lr_updated c = z)"
proof -
  let ?step = "\<lambda>(logic, output, summary) (bucket, c). let hd_line = plus_line @ [CHR 0x0A] @ '' Analyzing for Bucket '' @ bucket
             in analyze_three rpd (Some x) (Some y) (Some z) (logic, output @ hd_line, summary @ hd_line) c"
  have "fst (foldl ?step st res) \<longleftrightarrow> fst st \<and> (\<forall>(b, c) \<in> set res. lr_deleted c = x \<and> lr_added c = y \<and> lr_updated c = z)" for st
  proof (induction res arbitrary: st)
    case (Cons bc res)
    have "fst (?step st bc) \<longleftrightarrow> fst st \<and> (case bc of (b, c) \<Rightarrow> lr_deleted c = x \<and> lr_added c = y \<and> lr_updated c = z)"
      by (cases st; cases bc) (simp add: analyze_three_logic Let_def)
    then show ?case using Cons.IH [of "?step st bc"] by auto
  qed simp
  from this [of "(True, [], [])"] show ?thesis
    unfolding analyze_all_result_def by (auto split: prod.splits)
qed

text \<open>What a comparison of two data sets of one bucket finds.\<close>

definition exact_difference :: "(string, string) dict \<Rightarrow> (string, string) dict \<Rightarrow> cmp_result \<Rightarrow> bool" where
  "exact_difference A B c \<longleftrightarrow>
     set (cr_deleted c) = dom (map_of A) - dom (map_of B) \<and> set (cr_added c) = dom (map_of B) - dom (map_of A) \<and>
     fst ` set (cr_updated c) = {k. k \<in> dom (map_of A) \<inter> dom (map_of B) \<and> map_of A k \<noteq> map_of B k} \<and>
     lr_deleted c = (cr_deleted c \<noteq> []) \<and> lr_added c = (cr_added c \<noteq> []) \<and> lr_updated c = (cr_updated c \<noteq> [])"

definition header_covers :: "string \<Rightarrow> (string, string) dict \<Rightarrow> bool" where
  "header_covers hdr A \<longleftrightarrow> (\<forall>(k, row) \<in> set A. length (py_split comma row) \<le> length (py_split comma hdr))"

lemma compare_data_maps_exact:
  assumes "header_covers hdr A"
  shows "\<exists>c. compare_data_maps fl rp None hdr A B = Inr c \<and> exact_difference A B c"
proof -
  have k: "set (key_common A B) = dom (map_of A) \<inter> dom (map_of B)" "set (key_diff A B) = dom (map_of A) - dom (map_of B)"
    "set (key_diff B A) = dom (map_of B) - dom (map_of A)" by (auto simp: key_common_def key_diff_def dom_map_of_conv_image_fst)
  have "\<forall>k \<in> set (key_common A B). \<exists>r. data_reason fl rp None hdr A B k = Inr r \<and> (r = [] \<longleftrightarrow> \<not> map_of A k \<noteq> map_of B k)"
  proof
    fix k
    assume "k \<in> set (key_common A B)"
    then obtain r1 r2 where r: "map_of A k = Some r1" "map_of B k = Some r2" using k(1) by auto
    have "length (py_split comma r1) \<le> length (py_split comma hdr)" using assms map_of_SomeD [OF r(1)] by (auto simp: header_covers_def)
    from data_reason_exact [OF r this, of fl rp] show "\<exists>r. data_reason fl rp None hdr A B k = Inr r \<and> (r = [] \<longleftrightarrow> \<not> map_of A k \<noteq> map_of B k)"
      by (simp add: r)
  qed
  from updated_items_keys [OF this] obtain m where "updated_items (data_reason fl rp None hdr A B) (key_common A B) = Inr m"
    "fst ` set m = {x \<in> set (key_common A B). map_of A x \<noteq> map_of B x}" by blast
  then show ?thesis using k by (auto simp: compare_data_maps_def exact_difference_def cmp_summary_def)
qed

lemma exact_empty:
  "exact_difference A B c \<Longrightarrow> \<not> lr_deleted c \<and> \<not> lr_added c \<and> \<not> lr_updated c \<longleftrightarrow> map_of A = map_of B"
proof -
  assume e: "exact_difference A B c"
  have 1: "\<not> lr_deleted c \<longleftrightarrow> dom (map_of A) \<subseteq> dom (map_of B)" using e unfolding exact_difference_def by (metis Diff_eq_empty_iff set_empty)
  have 2: "\<not> lr_added c \<longleftrightarrow> dom (map_of B) \<subseteq> dom (map_of A)" using e unfolding exact_difference_def by (metis Diff_eq_empty_iff set_empty)
  have 3: "\<not> lr_updated c \<longleftrightarrow> {k. k \<in> dom (map_of A) \<inter> dom (map_of B) \<and> map_of A k \<noteq> map_of B k} = {}"
    using e unfolding exact_difference_def by (metis image_is_empty set_empty)
  have "\<not> lr_deleted c \<and> \<not> lr_added c \<and> \<not> lr_updated c \<longleftrightarrow>
      dom (map_of A) = dom (map_of B) \<and> (\<forall>k. k \<in> dom (map_of A) \<inter> dom (map_of B) \<longrightarrow> map_of A k = map_of B k)"
    unfolding 1 2 3 by blast
  also have "\<dots> \<longleftrightarrow> map_of A = map_of B"
  proof
    assume h: "dom (map_of A) = dom (map_of B) \<and> (\<forall>k. k \<in> dom (map_of A) \<inter> dom (map_of B) \<longrightarrow> map_of A k = map_of B k)"
    show "map_of A = map_of B"
    proof
      fix k
      show "map_of A k = map_of B k"
      proof (cases "k \<in> dom (map_of A)")
        case False
        with h have "k \<notin> dom (map_of B)" by simp
        with False show ?thesis unfolding domIff by simp
      qed (use h in simp)
    qed
  qed simp
  finally show ?thesis .
qed

lemma ball_results: "(\<forall>(b, c) \<in> set (map (\<lambda>(b, A). (b, g b A)) src). Q c) \<longleftrightarrow> (\<forall>b A. (b, A) \<in> set src \<longrightarrow> Q (g b A))"
  by force


definition sample_floats :: "int float_ops" where
  "sample_floats = \<lparr>fl_parse = (\<lambda>_. None), fl_of_int = id, fl_add = (+), fl_sub = (-), fl_square = (\<lambda>x. x * x), fl_div = (div),
     fl_sqrt = id, fl_lt = (<), fl_le = (\<le>), fl_eq = (=), fl_show = int_str\<rparr>"


section \<open>What the comparisons miss\<close>

text \<open>A statistic that has no comparison of its own cannot be compared at all.\<close>

lemma statistics_need_a_map:
  "length e = Suc (length d) \<Longrightarrow> compare_maps fl rp None [(k, (st, v) # d)] [(k, e)] = Inl (Raised ''NameError'')"
  by (simp add: compare_maps_def updated_items_def key_common_def stats_reason_def compare_stat_def dict_lookup_def)

text \<open>Whatever the DCP statistics are, the entry under the name of a bucket says that they are right.\<close>

lemma dcp_verdict_of_names:
  assumes "collect_compare_dcp_stats memc buckets servers sn cv fc fl = Inr bm" and "b \<in> set buckets"
  shows "map_of bm (ByName b) = Some True"
proof -
  have init: "map_of (foldl (\<lambda>d b. AList.update (ByName b) True d) d0 bs) (ByName b) = (if b \<in> set bs then Some True else map_of d0 (ByName b))"
    for bs d0 by (induction bs arbitrary: d0) auto
  show ?thesis
  proof (rule rfold_invariant [OF assms(1) [unfolded collect_compare_dcp_stats_def], where P = "\<lambda>m. map_of m (ByName b) = Some True"])
    show "map_of (foldl (\<lambda>d b. AList.update (ByName b) True d) [] buckets) (ByName b) = Some True" using assms(2) by (simp add: init)
  next
    fix m c m'
    assume m: "map_of m (ByName b) = Some True" and s: "rfold (\<lambda>bm ip. rfold (\<lambda>bm kv. rbind (dcp_stat_wrong sn cv fc fl kv) (\<lambda>w.
       Inr (if w then AList.update (ByObject c) False bm else bm))) bm (memc ip c ''dcp'')) m servers = Inr m'"
    show "map_of m' (ByName b) = Some True"
    proof (rule rfold_invariant [OF s, where P = "\<lambda>m. map_of m (ByName b) = Some True"], rule m)
      fix n ip n'
      assume n: "map_of n (ByName b) = Some True" and t: "rfold (\<lambda>bm kv. rbind (dcp_stat_wrong sn cv fc fl kv) (\<lambda>w.
        Inr (if w then AList.update (ByObject c) False bm else bm))) n (memc ip c ''dcp'') = Inr n'"
      show "map_of n' (ByName b) = Some True"
        by (rule rfold_invariant [OF t, where P = "\<lambda>m. map_of m (ByName b) = Some True"]) (use n in \<open>auto simp: rbind_eq_Inr split: if_splits\<close>)
    qed
  qed
qed

text \<open>Sequence numbers compared as strings, and the revision read at the sixth character of a line.\<close>

lemma sequence_numbers_as_strings:
  "compare_vbucketseq_failoverlogs [(''b'', [(''vb_0'', [(''abs_high_seqno'', ''9''), (''uuid'', ''1'')])])]
     [(''b'', [(''vb_0'', [(''seq'', ''10''), (''id'', ''1'')])])] = Inr ()"
  by code_simp

lemma csv_revision_misread: "translateDataFromCSVToMap 0 [''k,0,0,0,0,1'', ''k,0,0,0,0,2''] = Inl ValueError"
  by code_simp

end
