(* ===== verification/SDK_Pool.thy ===== *)
theory SDK_Pool
  imports Py_Prelude
begin

text \<open>
  The pool of SDK clients that the loading tasks share (\<^verbatim>\<open>SDKClientPool\<close> of \<^verbatim>\<open>lib/sdk_client3.py\<close>): a client is given to
  all tasks that work on one collection and is reference counted; it goes back to the idle ones with the last of them.

  \<^item> A client object has a number; \<open>cp_objs\<close> gives its bucket and the scope and collection it is set to
    (\<^verbatim>\<open>select_collection\<close> changes the object in place), and the collection of the bucket its operations go to. Connections
    themselves are not modelled.
  \<^item> The dictionary of a bucket has the keys \<^verbatim>\<open>lock\<close>, \<^verbatim>\<open>idle_clients\<close> and \<^verbatim>\<open>busy_clients\<close> beside one key per collection in
    use, the concatenation of its scope's and its own name. \<open>pb_refs\<close> has the latter; a collection whose key is one of the
    three names makes the code index a lock or a list with a string.
  \<^item> A call that has to wait, for the lock or (in the loop of \<^verbatim>\<open>get_client_for_bucket\<close>) for a client, is \<open>None\<close>; it
    is tried again when another thread has changed the pool. The lock is kept when an exception leaves the methods.
\<close>

record sdk_obj =
  sc_bucket :: string
  sc_scope :: string
  sc_collection :: string
  sc_target :: "string \<times> string"

record pool_bucket =
  pb_locked :: bool
  pb_idle :: "nat list"
  pb_busy :: "nat list"
  pb_refs :: "(string, nat \<times> int) dict"

record client_pool =
  cp_clients :: "(string, pool_bucket) dict"
  cp_objs :: "nat \<Rightarrow> sdk_obj"
  cp_next :: nat
  cp_closed :: "nat list"

definition new_pool :: client_pool where
  "new_pool = \<lparr>cp_clients = [], cp_objs = (\<lambda>_. \<lparr>sc_bucket = [], sc_scope = [], sc_collection = [], sc_target = ([], [])\<rparr>), cp_next = 0, cp_closed = []\<rparr>"

definition pool_shutdown :: "client_pool \<Rightarrow> client_pool" where
  "pool_shutdown p =
     p\<lparr>cp_closed := cp_closed p @ concat (map (\<lambda>(_, pb). pb_idle pb @ pb_busy pb) (cp_clients p)), cp_clients := []\<rparr>"

definition empty_bucket :: pool_bucket where
  "empty_bucket = \<lparr>pb_locked = False, pb_idle = [], pb_busy = [], pb_refs = []\<rparr>"

definition target_of :: "string \<Rightarrow> string \<Rightarrow> string \<times> string" where
  "target_of scope_name collection_name =
     (if collection_name \<noteq> ''_default'' then (scope_name, collection_name) else (''_default'', ''_default''))"

definition new_client :: "string \<Rightarrow> string \<Rightarrow> string \<Rightarrow> sdk_obj" where
  "new_client b scope collection = \<lparr>sc_bucket = b, sc_scope = scope, sc_collection = collection, sc_target = target_of scope collection\<rparr>"

definition create_clients :: "string \<Rightarrow> nat \<Rightarrow> client_pool \<Rightarrow> client_pool" where
  "create_clients b req_clients p =
     (let pb = dict_get (cp_clients p) b empty_bucket; new = [cp_next p..<cp_next p + req_clients]
      in p\<lparr>cp_clients := AList.update b (pb\<lparr>pb_idle := pb_idle pb @ new\<rparr>) (cp_clients p),
           cp_objs := (\<lambda>i. if i \<in> set new then new_client b ''_default'' ''_default'' else cp_objs p i),
           cp_next := cp_next p + req_clients\<rparr>)"

definition reserved_keys :: "string list" where
  "reserved_keys = [''lock'', ''idle_clients'', ''busy_clients'']"

definition set_bucket :: "string \<Rightarrow> pool_bucket \<Rightarrow> client_pool \<Rightarrow> client_pool" where
  "set_bucket b pb p = p\<lparr>cp_clients := AList.update b pb (cp_clients p)\<rparr>"

definition select_collection :: "nat \<Rightarrow> string \<Rightarrow> string \<Rightarrow> client_pool \<Rightarrow> client_pool" where
  "select_collection i scope_name collection_name p =
     p\<lparr>cp_objs := (cp_objs p)(i := (cp_objs p i)
       \<lparr>sc_scope := scope_name, sc_collection := collection_name, sc_target := target_of scope_name collection_name\<rparr>)\<rparr>"

definition get_client_for_bucket :: "string \<Rightarrow> string \<Rightarrow> string \<Rightarrow> client_pool \<Rightarrow> (nat option res \<times> client_pool) option" where
  "get_client_for_bucket b scope_name collection_name p =
     (let col_name = scope_name @ collection_name in
      case map_of (cp_clients p) b of
        None \<Rightarrow> Some (Inr None, p)
      | Some pb \<Rightarrow>
          (if pb_locked pb then None
           else if col_name \<in> set reserved_keys then Some (Inl TypeError, set_bucket b (pb\<lparr>pb_locked := True\<rparr>) p)
           else
             (case map_of (pb_refs pb) col_name of
                Some (i, n) \<Rightarrow> Some (Inr (Some i), set_bucket b (pb\<lparr>pb_refs := AList.update col_name (i, n + 1) (pb_refs pb)\<rparr>) p)
              | None \<Rightarrow>
                  (if pb_idle pb = [] then None
                   else
                     (let i = last (pb_idle pb) in
                      Some (Inr (Some i),
                        set_bucket b (pb\<lparr>pb_idle := butlast (pb_idle pb), pb_busy := pb_busy pb @ [i],
                                         pb_refs := AList.update col_name (i, 1) (pb_refs pb)\<rparr>)
                          (select_collection i scope_name collection_name p)))))))"

definition release_client :: "nat \<Rightarrow> client_pool \<Rightarrow> (unit res \<times> client_pool) option" where
  "release_client i p =
     (let obj = cp_objs p i; b = sc_bucket obj; col_name = sc_scope obj @ sc_collection obj in
      case map_of (cp_clients p) b of
        None \<Rightarrow> Some (Inr (), p)
      | Some pb \<Rightarrow>
          (if pb_locked pb then None
           else
             let stuck = set_bucket b (pb\<lparr>pb_locked := True\<rparr>) p in
             if col_name \<in> set reserved_keys then Some (Inl TypeError, stuck)
             else
               (case map_of (pb_refs pb) col_name of
                  None \<Rightarrow> Some (Inl KeyError, stuck)
                | Some (j, n) \<Rightarrow>
                    (if n = 1 then
                       (let refs = AList.delete col_name (pb_refs pb) in
                        if i \<in> set (pb_busy pb)
                        then Some (Inr (), set_bucket b (pb\<lparr>pb_refs := refs, pb_busy := remove1 i (pb_busy pb), pb_idle := pb_idle pb @ [i]\<rparr>) p)
                        else Some (Inl ValueError, set_bucket b (pb\<lparr>pb_refs := refs, pb_locked := True\<rparr>) p))
                     else Some (Inr (), set_bucket b (pb\<lparr>pb_refs := AList.update col_name (j, n - 1) (pb_refs pb)\<rparr>) p)))))"

section \<open>Tasks that use the pool\<close>

text \<open>A holding: the client a task has and the bucket, scope and collection it asked for.\<close>

type_synonym holding = "nat \<times> string \<times> string \<times> string"

text \<open>Runs of the pool: clients are created, tasks get clients for collections out of \<open>N\<close> and release what they hold, in any
  order.\<close>

inductive pool_run :: "(string \<times> string) set \<Rightarrow> client_pool \<Rightarrow> holding list \<Rightarrow> bool" for N where
  pr_new: "pool_run N new_pool []"
| pr_create: "pool_run N p H \<Longrightarrow> pool_run N (create_clients b n p) H"
| pr_get: "pool_run N p H \<Longrightarrow> (s, c) \<in> N \<Longrightarrow> get_client_for_bucket b s c p = Some (Inr (Some i), p') \<Longrightarrow> pool_run N p' ((i, b, s, c) # H)"
| pr_release: "pool_run N p H \<Longrightarrow> (i, b, s, c) \<in> set H \<Longrightarrow> release_client i p = Some (Inr (), p') \<Longrightarrow> pool_run N p' (remove1 (i, b, s, c) H)"

text \<open>Names that the concatenation keeps apart.\<close>

definition clear_names :: "(string \<times> string) set \<Rightarrow> bool" where
  "clear_names N \<longleftrightarrow> inj_on (\<lambda>(s, c). s @ c) N \<and> (\<forall>(s, c) \<in> N. s @ c \<notin> set reserved_keys)"

end
