(* ===== verification/SDK_Client.thy ===== *)
theory SDK_Client
  imports Doc_Gen SDK_Pool
begin

text \<open>
  Document operations of \<^verbatim>\<open>SDKClient\<close> (\<^verbatim>\<open>lib/sdk_client3.py\<close>) and the options they are called with (\<^verbatim>\<open>SDKOptions\<close> of
  \<^verbatim>\<open>couchbase_utils/sdk_utils/java_sdk.py\<close>).

  \<^item> The Java SDK is a parameter: a function from the collection and the call to the outcome and the new state of the
    connection. An options object of the SDK is the record of what has been set on it.
  \<^item> A result dictionary is a record with one field per key; a key that may be missing is an \<open>option\<close>.
  \<^item> \<^verbatim>\<open>except Exception\<close> is taken to catch every exception of Python and of the SDK.
\<close>

section \<open>Options\<close>

datatype chrono_unit = MILLIS | SECONDS | MINUTES | HOURS | DAYS

type_synonym duration = "int \<times> chrono_unit"

definition get_duration :: "int \<Rightarrow> string \<Rightarrow> duration" where
  "get_duration time time_unit =
     (let u = py_lower time_unit in
      (time, if u = ''milliseconds'' then MILLIS else if u = ''minutes'' then MINUTES
             else if u = ''hours'' then HOURS else if u = ''days'' then DAYS else SECONDS))"

datatype persist_to = PersistNone | PersistOne | PersistTwo | PersistThree | PersistFour | PersistActive

definition get_persist_to :: "int \<Rightarrow> persist_to" where
  "get_persist_to n =
     (case py_nth [PersistNone, PersistOne, PersistTwo, PersistThree, PersistFour] n of
        Inr p \<Rightarrow> p | Inl _ \<Rightarrow> PersistActive)"

datatype replicate_to = ReplicateNone | ReplicateOne | ReplicateTwo | ReplicateThree

definition get_replicate_to :: "int \<Rightarrow> replicate_to" where
  "get_replicate_to n =
     (case py_nth [ReplicateNone, ReplicateOne, ReplicateTwo, ReplicateThree] n of Inr p \<Rightarrow> p | Inl _ \<Rightarrow> ReplicateNone)"

datatype durability_level = LevelNone | Majority | MajorityAndPersistToActive | PersistToMajority

definition upper_char :: "char \<Rightarrow> char" where
  "upper_char c = (if (97::nat) \<le> of_char c \<and> of_char c \<le> (122::nat) then char_of (of_char c - (32::nat)) else c)"

definition get_durability_level :: "string \<Rightarrow> durability_level" where
  "get_durability_level durability_level =
     (let d = map upper_char durability_level in
      if d = ''MAJORITY'' then Majority
      else if d = ''MAJORITY_AND_PERSIST_TO_ACTIVE'' then MajorityAndPersistToActive
      else if d = ''PERSIST_TO_MAJORITY'' then PersistToMajority else LevelNone)"

datatype durability_option = Level durability_level | Observe persist_to replicate_to

datatype retry_strategy = FailFast | BestEffort

datatype transcoder = RawBinary | RawString

record sdk_options =
  so_cas :: "int option"
  so_expiry :: "duration option"
  so_preserve_expiry :: "bool option"
  so_durability :: "durability_option option"
  so_timeout :: "duration option"
  so_retry :: "retry_strategy option"
  so_access_deleted :: bool
  so_create_as_deleted :: bool
  so_semantics :: "string option"
  so_transcoder :: "transcoder option"

definition plain_options :: sdk_options where
  "plain_options = \<lparr>so_cas = None, so_expiry = None, so_preserve_expiry = None, so_durability = None, so_timeout = None,
     so_retry = None, so_access_deleted = False, so_create_as_deleted = False, so_semantics = None, so_transcoder = None\<rparr>"

text \<open>The keyword arguments of \<^verbatim>\<open>set_options\<close>, with its defaults.\<close>

record opt_args =
  oa_cas :: int
  oa_exp :: "int option"
  oa_exp_unit :: string
  oa_persist_to :: "int option"
  oa_replicate_to :: "int option"
  oa_durability :: "string option"
  oa_timeout :: int
  oa_timeunit :: string
  oa_semantics :: "string option"
  oa_preserve_expiry :: "bool option"
  oa_retry :: "string option"
  oa_access_deleted :: bool
  oa_create_as_deleted :: bool

definition no_args :: opt_args where
  "no_args = \<lparr>oa_cas = 0, oa_exp = None, oa_exp_unit = ''seconds'', oa_persist_to = None, oa_replicate_to = None,
     oa_durability = None, oa_timeout = 5, oa_timeunit = ''seconds'', oa_semantics = None, oa_preserve_expiry = None,
     oa_retry = None, oa_access_deleted = False, oa_create_as_deleted = False\<rparr>"

definition set_options :: "opt_args \<Rightarrow> sdk_options \<Rightarrow> sdk_options" where
  "set_options a options =
     (let options = (if 0 < oa_cas a then options\<lparr>so_cas := Some (oa_cas a)\<rparr> else options);
          options = (case oa_exp a of None \<Rightarrow> options | Some e \<Rightarrow> options\<lparr>so_expiry := Some (get_duration e (oa_exp_unit a))\<rparr>);
          options = (case oa_preserve_expiry a of None \<Rightarrow> options | Some b \<Rightarrow> options\<lparr>so_preserve_expiry := Some b\<rparr>);
          options = (case oa_durability a of
              Some d \<Rightarrow> options\<lparr>so_durability := Some (Level (get_durability_level d))\<rparr>
            | None \<Rightarrow>
                (case (oa_replicate_to a, oa_persist_to a) of
                   (Some r, Some p) \<Rightarrow> options\<lparr>so_durability := Some (Observe (get_persist_to p) (get_replicate_to r))\<rparr>
                 | _ \<Rightarrow> options));
          options = options\<lparr>so_timeout := Some (get_duration (oa_timeout a) (oa_timeunit a))\<rparr>;
          options = (if oa_retry a = Some ''fail_fast'' then options\<lparr>so_retry := Some FailFast\<rparr>
                     else if oa_retry a = Some ''best_effort'' then options\<lparr>so_retry := Some BestEffort\<rparr> else options);
          options = (if oa_access_deleted a then options\<lparr>so_access_deleted := True\<rparr> else options);
          options = (if oa_create_as_deleted a then options\<lparr>so_create_as_deleted := True\<rparr> else options)
      in (case oa_semantics a of None \<Rightarrow> options | Some s \<Rightarrow> options\<lparr>so_semantics := Some s\<rparr>))"

text \<open>The arguments that the document operations have in common, with their defaults.\<close>

record crud_args =
  ca_exp :: int
  ca_exp_unit :: string
  ca_persist_to :: "int option"
  ca_replicate_to :: "int option"
  ca_timeout :: int
  ca_time_unit :: string
  ca_durability :: string
  ca_cas :: int
  ca_doc_type :: string
  ca_semantics :: "string option"
  ca_preserve_expiry :: "bool option"
  ca_retry :: "string option"
  ca_access_deleted :: bool
  ca_create_as_deleted :: bool

definition crud_defaults :: crud_args where
  "crud_defaults = \<lparr>ca_exp = 0, ca_exp_unit = ''seconds'', ca_persist_to = Some 0, ca_replicate_to = Some 0, ca_timeout = 5,
     ca_time_unit = ''seconds'', ca_durability = '''', ca_cas = 0, ca_doc_type = ''json'', ca_semantics = None,
     ca_preserve_expiry = None, ca_retry = None, ca_access_deleted = False, ca_create_as_deleted = False\<rparr>"

definition get_insert_options :: "crud_args \<Rightarrow> sdk_options" where
  "get_insert_options a =
     set_options (no_args\<lparr>oa_exp := Some (ca_exp a), oa_exp_unit := ca_exp_unit a, oa_persist_to := ca_persist_to a,
       oa_replicate_to := ca_replicate_to a, oa_durability := Some (ca_durability a), oa_timeout := ca_timeout a,
       oa_timeunit := ca_time_unit a, oa_retry := ca_retry a\<rparr>) plain_options"

definition get_read_options :: "crud_args \<Rightarrow> sdk_options" where
  "get_read_options a =
     set_options (no_args\<lparr>oa_timeout := ca_timeout a, oa_timeunit := ca_time_unit a, oa_retry := ca_retry a\<rparr>) plain_options"

definition get_upsert_options :: "crud_args \<Rightarrow> sdk_options" where
  "get_upsert_options a =
     set_options (no_args\<lparr>oa_exp := Some (ca_exp a), oa_exp_unit := ca_exp_unit a, oa_replicate_to := ca_replicate_to a,
       oa_persist_to := ca_persist_to a, oa_durability := Some (ca_durability a), oa_timeout := ca_timeout a,
       oa_timeunit := ca_time_unit a, oa_preserve_expiry := ca_preserve_expiry a, oa_retry := ca_retry a\<rparr>) plain_options"

definition get_remove_options :: "crud_args \<Rightarrow> sdk_options" where
  "get_remove_options a =
     set_options (no_args\<lparr>oa_cas := ca_cas a, oa_persist_to := ca_persist_to a, oa_replicate_to := ca_replicate_to a,
       oa_durability := Some (ca_durability a), oa_timeout := ca_timeout a, oa_timeunit := ca_time_unit a,
       oa_retry := ca_retry a\<rparr>) plain_options"

definition get_replace_options :: "crud_args \<Rightarrow> sdk_options" where
  "get_replace_options a =
     set_options (no_args\<lparr>oa_cas := ca_cas a, oa_exp := Some (ca_exp a), oa_exp_unit := ca_exp_unit a,
       oa_persist_to := ca_persist_to a, oa_replicate_to := ca_replicate_to a, oa_durability := Some (ca_durability a),
       oa_timeout := ca_timeout a, oa_timeunit := ca_time_unit a, oa_preserve_expiry := ca_preserve_expiry a,
       oa_retry := ca_retry a\<rparr>) plain_options"

definition get_touch_options :: "crud_args \<Rightarrow> sdk_options" where
  "get_touch_options a =
     set_options (no_args\<lparr>oa_timeout := ca_timeout a, oa_timeunit := ca_time_unit a, oa_retry := ca_retry a\<rparr>) plain_options"

definition get_mutate_in_options :: "crud_args \<Rightarrow> sdk_options" where
  "get_mutate_in_options a =
     set_options (no_args\<lparr>oa_exp := Some (ca_exp a), oa_exp_unit := ca_exp_unit a, oa_persist_to := ca_persist_to a,
       oa_replicate_to := ca_replicate_to a, oa_timeout := ca_timeout a, oa_timeunit := ca_time_unit a,
       oa_durability := Some (ca_durability a), oa_semantics := ca_semantics a, oa_preserve_expiry := ca_preserve_expiry a,
       oa_retry := ca_retry a, oa_access_deleted := ca_access_deleted a, oa_create_as_deleted := ca_create_as_deleted a\<rparr>)
       plain_options"

section \<open>Results\<close>

text \<open>An error of the SDK: \<^verbatim>\<open>str\<close> of it, its class and message, and the texts \<^verbatim>\<open>populate_crud_failure_reason\<close> could
  read of its context before an exception stopped it.\<close>

record java_error =
  je_str :: string
  je_class :: string
  je_message :: "string option"
  je_context :: "string list"

definition populate_crud_failure_reason :: "java_error \<Rightarrow> string \<Rightarrow> string" where
  "populate_crud_failure_reason e failed_key =
     failed_key @ concat (map (\<lambda>(label, t). label @ t)
       (zip ['' | '', '' | reason:'', '' | retryAttempts:'', '' | retryReasons:''] (je_context e)))"

definition error_text :: "java_error \<Rightarrow> string res" where
  "error_text e =
     rbind (of_option TypeError (je_message e)) (\<lambda>m.
     Inr (populate_crud_failure_reason e (je_class e @ '' | '' @ m)))"

text \<open>One entry of what the bulk operations return; \<open>bi_lookup_failed\<close> says whether the content of a look-up contains
  \<^verbatim>\<open>PATH_NOT_FOUND\<close>.\<close>

record 'v bulk_item =
  bi_id :: string
  bi_status :: bool
  bi_cas :: int
  bi_content :: 'v
  bi_error :: java_error
  bi_lookup_failed :: bool

text \<open>The value of a result: content, or an empty dictionary.\<close>

datatype 'v rvalue = RValue 'v | REmpty

record ('v, 'p) entry =
  en_value :: "'v rvalue option"
  en_cas :: int
  en_error :: "string option"
  en_path_val :: "'p option"

type_synonym ('v, 'p) results = "(string, ('v, 'p) entry) dict"

definition ok_entry :: "'v option \<Rightarrow> int \<Rightarrow> ('v, 'p) entry" where
  "ok_entry v cas = \<lparr>en_value = map_option RValue v, en_cas = cas, en_error = None, en_path_val = None\<rparr>"

definition fail_entry :: "'v rvalue \<Rightarrow> int \<Rightarrow> string \<Rightarrow> ('v, 'p) entry" where
  "fail_entry v cas e = \<lparr>en_value = Some v, en_cas = cas, en_error = Some e, en_path_val = None\<rparr>"

definition translate_items ::
  "('v bulk_item \<Rightarrow> ('v, 'p) results \<times> ('v, 'p) results \<Rightarrow> (('v, 'p) results \<times> ('v, 'p) results) res) \<Rightarrow>
   'v bulk_item list option \<Rightarrow> (('v, 'p) results \<times> ('v, 'p) results) res" where
  "translate_items f data = (case data of None \<Rightarrow> Inr ([], []) | Some rs \<Rightarrow> rfold (\<lambda>sf r. f r sf) ([], []) rs)"

definition translate_upsert_multi_results :: "'v bulk_item list option \<Rightarrow> (('v, 'p) results \<times> ('v, 'p) results) res" where
  "translate_upsert_multi_results = translate_items (\<lambda>r (success, fail).
     if bi_status r then Inr (AList.update (bi_id r) (ok_entry (Some (bi_content r)) (bi_cas r)) success, fail)
     else rbind (error_text (bi_error r)) (\<lambda>e.
          Inr (success, AList.update (bi_id r) (fail_entry (RValue (bi_content r)) (bi_cas r) e) fail)))"

definition translate_delete_multi_results :: "'v bulk_item list option \<Rightarrow> (('v, 'p) results \<times> ('v, 'p) results) res" where
  "translate_delete_multi_results = translate_items (\<lambda>r (success, fail).
     if bi_status r then Inr (AList.update (bi_id r) (ok_entry None (bi_cas r)) success, fail)
     else rbind (error_text (bi_error r)) (\<lambda>e.
          Inr (success, AList.update (bi_id r) (fail_entry REmpty (bi_cas r) e) fail)))"

definition translate_get_multi_results :: "'v bulk_item list option \<Rightarrow> (('v, 'p) results \<times> ('v, 'p) results) res" where
  "translate_get_multi_results = translate_items (\<lambda>r (success, fail).
     if bi_status r then Inr (AList.update (bi_id r) (ok_entry (Some (bi_content r)) (bi_cas r)) success, fail)
     else rbind (error_text (bi_error r)) (\<lambda>e.
          Inr (success, AList.update (bi_id r) (fail_entry REmpty (bi_cas r) e) fail)))"

definition PathNotFoundException :: string where
  "PathNotFoundException = ''com.couchbase.client.core.error.subdoc.PathNotFoundException''"

text \<open>\<^verbatim>\<open>if path_val: fail[key]['path_val'] = path_val[key]\<close>.\<close>

definition put_path_val :: "(string, 'p) dict \<Rightarrow> string \<Rightarrow> ('v, 'p) entry \<Rightarrow> ('v, 'p) entry res" where
  "put_path_val path_val key e =
     (if path_val = [] then Inr e else rbind (dict_lookup path_val key) (\<lambda>p. Inr (e\<lparr>en_path_val := Some p\<rparr>)))"

definition translate_get_multi_sub_doc_result ::
  "(string, 'p) dict \<Rightarrow> 'v bulk_item list option \<Rightarrow> (('v, 'p) results \<times> ('v, 'p) results) res" where
  "translate_get_multi_sub_doc_result path_val = translate_items (\<lambda>r (success, fail).
     if \<not> bi_status r \<or> bi_lookup_failed r
     then rbind (if \<not> bi_status r then error_text (bi_error r) else Inr PathNotFoundException) (\<lambda>t.
          rbind (put_path_val path_val (bi_id r) (fail_entry REmpty (bi_cas r) t)) (\<lambda>e.
          Inr (success, AList.update (bi_id r) e fail)))
     else Inr (AList.update (bi_id r) (ok_entry (Some (bi_content r)) (bi_cas r)) success, fail))"

definition translate_upsert_multi_sub_doc_result ::
  "(string, 'p) dict \<Rightarrow> 'v bulk_item list option \<Rightarrow> (('v, 'p) results \<times> ('v, 'p) results) res" where
  "translate_upsert_multi_sub_doc_result path_val = translate_items (\<lambda>r (success, fail).
     if bi_status r then Inr (AList.update (bi_id r) (ok_entry (Some (bi_content r)) (bi_cas r)) success, fail)
     else rbind (error_text (bi_error r)) (\<lambda>t.
          rbind (put_path_val path_val (bi_id r) (fail_entry (RValue (bi_content r)) 0 t)) (\<lambda>e.
          Inr (success, AList.update (bi_id r) e fail))))"

section \<open>Bulk operations\<close>

text \<open>Values of sub-documents: what the generators give, or the number and the empty string the client puts in.\<close>

datatype 'p sub_val = SVal 'p | SInt int | SBlank

datatype 'p mutate_spec =
    InsertSpec string "'p sub_val" bool bool
  | UpsertSpec string "'p sub_val" bool bool
  | ReplaceSpec string "'p sub_val" bool
  | RemoveSpec string bool
  | IncrSpec string "'p sub_val" bool
  | LookUpSpec string bool

datatype ('v, 'p) bulk_call =
    BulkInsert "(string \<times> 'v) list" sdk_options
  | BulkUpsert "(string \<times> 'v) list" sdk_options
  | BulkReplace "(string \<times> 'v) list" sdk_options
  | BulkDelete "string list" sdk_options
  | BulkTouch "string list" int sdk_options duration
  | BulkGet "string list" sdk_options
  | BulkSubDoc "(string \<times> 'p mutate_spec list) list" sdk_options
  | BulkGetSubDoc "(string \<times> 'p mutate_spec list) list" bool

text \<open>The SDK: the collection, the call and the state of the connection give the entries (or \<open>None\<close>, or an exception) and
  the new state.\<close>

type_synonym ('v, 'p, 'c) sdk =
  "string \<times> string \<Rightarrow> ('v, 'p) bulk_call \<Rightarrow> 'c \<Rightarrow> 'v bulk_item list option res \<times> 'c"

definition bulk ::
  "('v, 'p, 'c) sdk \<Rightarrow> string \<times> string \<Rightarrow> ('v, 'p) bulk_call \<Rightarrow>
   ('v bulk_item list option \<Rightarrow> (('v, 'q) results \<times> ('v, 'q) results) res) \<Rightarrow> 'c \<Rightarrow>
   (('v, 'q) results \<times> ('v, 'q) results) res \<times> 'c" where
  "bulk sdk col call translate c = (case sdk col call c of (r, c') \<Rightarrow> (rbind r translate, c'))"

definition with_transcoder :: "string \<Rightarrow> sdk_options \<Rightarrow> sdk_options" where
  "with_transcoder doc_type options =
     (if py_lower doc_type = ''binary'' then options\<lparr>so_transcoder := Some RawBinary\<rparr>
      else if py_lower doc_type = ''string'' then options\<lparr>so_transcoder := Some RawString\<rparr> else options)"

definition delete_multi where
  "delete_multi sdk col ks a =
     bulk sdk col (BulkDelete ks (get_remove_options (a\<lparr>ca_cas := 0\<rparr>))) translate_delete_multi_results"

definition touch_multi where
  "touch_multi sdk col ks a =
     bulk sdk col (BulkTouch ks (ca_exp a) (get_touch_options a) (get_duration (ca_exp a) ''seconds''))
       translate_delete_multi_results"

definition set_multi where
  "set_multi sdk col items a =
     bulk sdk col (BulkInsert items (with_transcoder (ca_doc_type a) (get_insert_options a))) translate_upsert_multi_results"

definition upsert_multi where
  "upsert_multi sdk col docs a =
     bulk sdk col (BulkUpsert docs (with_transcoder (ca_doc_type a) (get_upsert_options a))) translate_upsert_multi_results"

definition replace_multi where
  "replace_multi sdk col docs a =
     bulk sdk col (BulkReplace docs (with_transcoder (ca_doc_type a) (get_replace_options (a\<lparr>ca_cas := 0\<rparr>))))
       translate_upsert_multi_results"

definition get_multi where
  "get_multi sdk col ks a = bulk sdk col (BulkGet ks (get_read_options a)) translate_get_multi_results"

section \<open>Bulk operations on sub-documents\<close>

type_synonym 'p paths = "(string \<times> 'p sub_val) list"

text \<open>\<^verbatim>\<open>path_val\<close>: what is kept of each document's paths for the failures.\<close>

definition path_vals :: "('p paths \<Rightarrow> 'q) \<Rightarrow> (string \<times> 'p paths) list \<Rightarrow> (string, 'q) dict" where
  "path_vals f ks = fold (\<lambda>(key, value). AList.update key (f value)) ks []"

definition blank_paths :: "'p paths \<Rightarrow> 'p paths" where
  "blank_paths value = map (\<lambda>(path, _). (path, SBlank)) value"

text \<open>The specifications of one document: one for each path and, unless it is about extended attributes, one that counts
  the mutation in the field \<open>mutated\<close>.\<close>

definition sub_specs ::
  "(string \<Rightarrow> 'p sub_val \<Rightarrow> 'p mutate_spec) \<Rightarrow> bool \<Rightarrow> bool \<Rightarrow> 'p paths \<Rightarrow> 'p mutate_spec list" where
  "sub_specs spec xattr count_path value =
     map (\<lambda>(path, v). spec path v) value @ (if \<not> xattr then [IncrSpec ''mutated'' (SInt 1) count_path] else [])"

definition with_cas :: "int \<Rightarrow> sdk_options \<Rightarrow> sdk_options" where
  "with_cas cas options = (if 0 < cas then options\<lparr>so_cas := Some cas\<rparr> else options)"

definition sub_doc_multi where
  "sub_doc_multi sdk col spec_of path_val ks a =
     bulk sdk col (BulkSubDoc (map (\<lambda>(key, value). (key, spec_of value)) ks) (with_cas (ca_cas a) (get_mutate_in_options a)))
       (translate_upsert_multi_sub_doc_result path_val)"

definition sub_doc_insert_multi where
  "sub_doc_insert_multi sdk col ks create_path xattr a =
     sub_doc_multi sdk col (sub_specs (\<lambda>p v. InsertSpec p v create_path xattr) xattr True) (path_vals id ks) ks a"

definition sub_doc_upsert_multi where
  "sub_doc_upsert_multi sdk col ks create_path xattr a =
     sub_doc_multi sdk col (sub_specs (\<lambda>p v. UpsertSpec p v create_path xattr) xattr True) (path_vals id ks) ks a"

definition sub_doc_read_multi where
  "sub_doc_read_multi sdk col ks xattr access_deleted =
     bulk sdk col (BulkGetSubDoc (map (\<lambda>(key, value). (key, map (\<lambda>(path, _). LookUpSpec path xattr) value)) ks) access_deleted)
       (translate_get_multi_sub_doc_result (path_vals blank_paths ks))"

definition sub_doc_remove_multi where
  "sub_doc_remove_multi sdk col ks xattr a =
     sub_doc_multi sdk col (sub_specs (\<lambda>p _. RemoveSpec p xattr) xattr False) (path_vals blank_paths ks) ks a"

definition sub_doc_replace_multi where
  "sub_doc_replace_multi sdk col ks xattr a =
     sub_doc_multi sdk col (sub_specs (\<lambda>p v. ReplaceSpec p v xattr) xattr False) (path_vals id ks) ks a"

section \<open>Values\<close>

text \<open>The operations of \<^verbatim>\<open>JsonObject\<close> and of \<^verbatim>\<open>json.loads\<close> on a text; \<open>None\<close> is an exception or, for a text, a value that has
  no \<^verbatim>\<open>items\<close>.\<close>

record ('v, 'j) object_ops =
  oo_create :: 'v
  oo_put :: "string \<Rightarrow> 'j \<Rightarrow> 'v \<Rightarrow> 'v option"
  oo_loads :: "string \<Rightarrow> (string \<times> 'j) list option"

datatype ('v, 'j) py_doc = PJson 'v | PDict "(string \<times> 'j) list" | PText string

datatype ('v, 'j) content = CJson 'v | CBytes string | CSame "('v, 'j) py_doc"

fun put_fields :: "('v, 'j) object_ops \<Rightarrow> (string \<times> 'j) list \<Rightarrow> 'v \<Rightarrow> 'v" where
  "put_fields oo [] obj = obj"
| "put_fields oo ((field, val) # fs) obj =
     (case oo_put oo field val obj of None \<Rightarrow> obj | Some obj' \<Rightarrow> put_fields oo fs obj')"

definition translate_to_json_object :: "('v, 'j) object_ops \<Rightarrow> ('v, 'j) py_doc \<Rightarrow> string \<Rightarrow> ('v, 'j) content" where
  "translate_to_json_object oo value doc_type =
     (let json_obj = oo_create oo in
      case (value, doc_type = ''json'') of
        (PJson v, True) \<Rightarrow> CJson v
      | _ \<Rightarrow>
          (if in_str ''json'' doc_type then
             (case value of
                PDict fs \<Rightarrow> CJson (put_fields oo fs json_obj)
              | PText s \<Rightarrow> (case oo_loads oo s of None \<Rightarrow> CJson json_obj | Some fs \<Rightarrow> CJson (put_fields oo fs json_obj))
              | PJson _ \<Rightarrow> CJson json_obj)
           else if in_str ''binary'' doc_type then (case value of PText s \<Rightarrow> CBytes s | _ \<Rightarrow> CJson json_obj)
           else CSame value))"

section \<open>Operations on one document\<close>

text \<open>Exceptions of the SDK as the handlers tell them apart. All but the last are \<^verbatim>\<open>CouchbaseException\<close>s; \<open>XCouchbase\<close> is one that
  has no handler of its own.\<close>

datatype exc_kind =
    XDocumentNotFound | XCasMismatch | XTemporaryFailure | XRequestCanceled | XTimeout | XDocumentExists
  | XDurabilityImpossible | XReplicaNotConfigured | XDurabilityAmbiguous | XServerOutOfMemory | XFeatureNotAvailable
  | XCouchbase | XOther

type_synonym sdk_exc = "exc_kind \<times> java_error"

datatype ('v, 'j) single_call =
    ColRemove string sdk_options
  | ColInsert string "('v, 'j) content" sdk_options
  | ColReplace string "('v, 'j) content" sdk_options
  | ColUpsert string "('v, 'j) content" sdk_options
  | ColTouch string duration sdk_options
  | ColGet string sdk_options

record single_result =
  sr_cas :: int
  sr_text :: string \<comment> \<open>of the content, for \<open>get\<close>\<close>

type_synonym ('v, 'j, 'c) single_sdk =
  "string \<times> string \<Rightarrow> ('v, 'j) single_call \<Rightarrow> 'c \<Rightarrow> (sdk_exc + single_result) \<times> 'c"

record ('v, 'j) crud_result =
  cr_key :: string
  cr_value :: "('v, 'j) content option"
  cr_error :: "string option"
  cr_status :: bool
  cr_cas :: int

definition crud_ok :: "string \<Rightarrow> ('v, 'j) content option \<Rightarrow> int \<Rightarrow> ('v, 'j) crud_result" where
  "crud_ok key v cas = \<lparr>cr_key = key, cr_value = v, cr_error = None, cr_status = True, cr_cas = cas\<rparr>"

definition crud_failed :: "string \<Rightarrow> ('v, 'j) content option \<Rightarrow> string \<Rightarrow> int \<Rightarrow> ('v, 'j) crud_result" where
  "crud_failed key v e cas = \<lparr>cr_key = key, cr_value = v, cr_error = Some e, cr_status = False, cr_cas = cas\<rparr>"

definition sdk_delete :: "('v, 'j, 'c) single_sdk \<Rightarrow> string \<times> string \<Rightarrow> string \<Rightarrow> crud_args \<Rightarrow> 'c \<Rightarrow> ('v, 'j) crud_result \<times> 'c" where
  "sdk_delete sdk col key a c =
     (case sdk col (ColRemove key (get_remove_options a)) c of
        (Inr r, c') \<Rightarrow> (crud_ok key None (sr_cas r), c')
      | (Inl (_, e), c') \<Rightarrow> (crud_failed key None (je_str e) (- 1), c'))"

definition single_transcoder :: "string \<Rightarrow> sdk_options \<Rightarrow> sdk_options" where
  "single_transcoder doc_type options =
     (if doc_type = ''binary'' then options\<lparr>so_transcoder := Some RawBinary\<rparr>
      else if doc_type = ''string'' then options\<lparr>so_transcoder := Some RawString\<rparr> else options)"

definition insert_unhandled :: "exc_kind \<Rightarrow> bool" where
  "insert_unhandled k \<longleftrightarrow> k \<in> set [XDocumentNotFound, XCasMismatch, XTemporaryFailure, XCouchbase, XOther]"

definition sdk_insert ::
  "('v, 'j, 'c) single_sdk \<Rightarrow> ('v, 'j) object_ops \<Rightarrow> string \<times> string \<Rightarrow> string \<Rightarrow> ('v, 'j) py_doc \<Rightarrow> crud_args \<Rightarrow> 'c \<Rightarrow>
   ('v, 'j) crud_result res \<times> 'c" where
  "sdk_insert sdk oo col key value a c =
     (let content = translate_to_json_object oo value ''json'' in
      case sdk col (ColInsert key content (single_transcoder (ca_doc_type a) (get_insert_options a))) c of
        (Inr r, c') \<Rightarrow> (Inr (crud_ok key (Some content) (sr_cas r)), c')
      | (Inl (k, e), c') \<Rightarrow>
          (if k = XDurabilityAmbiguous then Inr (crud_failed key None (je_str e) 0)
           else if insert_unhandled k \<and> je_str e \<noteq> []
           then rbind (error_text e) (\<lambda>t. Inr (crud_failed key (Some content) t 0))
           else Inr (crud_failed key (Some content) (je_str e) 0), c'))"

definition sdk_replace ::
  "('v, 'j, 'c) single_sdk \<Rightarrow> ('v, 'j) object_ops \<Rightarrow> string \<times> string \<Rightarrow> string \<Rightarrow> ('v, 'j) py_doc \<Rightarrow> crud_args \<Rightarrow> 'c \<Rightarrow>
   ('v, 'j) crud_result \<times> 'c" where
  "sdk_replace sdk oo col key value a c =
     (let content = translate_to_json_object oo value ''json'' in
      case sdk col (ColReplace key content (get_replace_options (a\<lparr>ca_exp := 0, ca_exp_unit := ''seconds''\<rparr>))) c of
        (Inr r, c') \<Rightarrow> (crud_ok key (Some content) (sr_cas r), c')
      | (Inl (k, e), c') \<Rightarrow>
          (crud_failed key
             (if k \<in> set [XCasMismatch, XDocumentNotFound, XDurabilityAmbiguous, XRequestCanceled, XTimeout] then None else Some content)
             (je_str e) 0, c'))"

definition sdk_touch :: "('v, 'j, 'c) single_sdk \<Rightarrow> string \<times> string \<Rightarrow> string \<Rightarrow> crud_args \<Rightarrow> 'c \<Rightarrow> ('v, 'j) crud_result \<times> 'c" where
  "sdk_touch sdk col key a c =
     (case sdk col (ColTouch key (get_duration (ca_exp a) (ca_exp_unit a)) (get_touch_options a)) c of
        (Inr r, c') \<Rightarrow> (crud_ok key None (sr_cas r), c')
      | (Inl (_, e), c') \<Rightarrow> (crud_failed key None (je_str e) 0, c'))"

definition sdk_read :: "('v, 'j, 'c) single_sdk \<Rightarrow> string \<times> string \<Rightarrow> string \<Rightarrow> crud_args \<Rightarrow> 'c \<Rightarrow> ('v, 'j) crud_result \<times> 'c" where
  "sdk_read sdk col key a c =
     (case sdk col (ColGet key (get_read_options a)) c of
        (Inr r, c') \<Rightarrow> (crud_ok key (Some (CSame (PText (sr_text r)))) (sr_cas r), c')
      | (Inl (_, e), c') \<Rightarrow> (crud_failed key None (je_str e) 0, c'))"

definition sdk_upsert ::
  "('v, 'j, 'c) single_sdk \<Rightarrow> ('v, 'j) object_ops \<Rightarrow> string \<times> string \<Rightarrow> string \<Rightarrow> ('v, 'j) py_doc \<Rightarrow> crud_args \<Rightarrow> 'c \<Rightarrow>
   ('v, 'j) crud_result \<times> 'c" where
  "sdk_upsert sdk oo col key value a c =
     (let content = translate_to_json_object oo value ''json'' in
      case sdk col (ColUpsert key content (get_upsert_options a)) c of
        (Inr r, c') \<Rightarrow> (crud_ok key (Some content) (sr_cas r), c')
      | (Inl (k, e), c') \<Rightarrow>
          (crud_failed key (if k \<in> set [XRequestCanceled, XTimeout, XOther] then None else Some content) (je_str e) 0, c'))"

text \<open>\<^verbatim>\<open>crud\<close> for the operations on whole documents; \<open>None\<close> for a type of operation that it does not know. It calls with the
  defaults of the methods for what it does not pass on.\<close>

definition crud_doc ::
  "('v, 'j, 'c) single_sdk \<Rightarrow> ('v, 'j) object_ops \<Rightarrow> string \<times> string \<Rightarrow> string \<Rightarrow> string \<Rightarrow> ('v, 'j) py_doc \<Rightarrow> crud_args \<Rightarrow> 'c \<Rightarrow>
   ('v, 'j) crud_result option res \<times> 'c" where
  "crud_doc sdk oo col op_type key value a c =
     (let a' = a\<lparr>ca_exp_unit := ''seconds'', ca_doc_type := ''json''\<rparr>; total = (\<lambda>(r, c'). (Inr (Some r), c')) in
      if op_type = ''update'' then total (sdk_upsert sdk oo col key value a' c)
      else if op_type = ''create'' then (case sdk_insert sdk oo col key value a' c of (r, c') \<Rightarrow> (rbind r (\<lambda>x. Inr (Some x)), c'))
      else if op_type = ''delete'' then total (sdk_delete sdk col key (a'\<lparr>ca_cas := 0\<rparr>) c)
      else if op_type = ''replace'' then total (sdk_replace sdk oo col key value a' c)
      else if op_type = ''touch'' then total (sdk_touch sdk col key a' c)
      else if op_type = ''read'' then total (sdk_read sdk col key a' c)
      else (Inr None, c))"

text \<open>\<^verbatim>\<open>crud\<close> for the operations on sub-documents with a path and a value (a value of \<^verbatim>\<open>remove\<close> and \<^verbatim>\<open>lookup\<close> is not used). The unit
  of the expiry is the unit of the timeout.\<close>

definition sub_crud where
  "sub_crud sdk col key path_val specs a =
     bulk sdk col (BulkSubDoc [(key, specs)] (with_cas (ca_cas a) (get_mutate_in_options (a\<lparr>ca_exp_unit := ca_time_unit a\<rparr>))))
       (translate_upsert_multi_sub_doc_result path_val)"

definition crud_sub_doc ::
  "('v, 'p, 'c) sdk \<Rightarrow> string \<times> string \<Rightarrow> string \<Rightarrow> string \<Rightarrow> string \<Rightarrow> 'p sub_val \<Rightarrow> bool \<Rightarrow> bool \<Rightarrow> crud_args \<Rightarrow> 'c \<Rightarrow>
   (('v, 'p paths) results \<times> ('v, 'p paths) results) option res \<times> 'c" where
  "crud_sub_doc sdk col op_type key path val create_path xattr a c =
     (let mutated = (\<lambda>cp. if \<not> xattr then [IncrSpec ''mutated'' (SInt 1) cp] else []);
          some = (\<lambda>(r, c'). (rbind r (\<lambda>x. Inr (Some x)), c'));
          b = a\<lparr>ca_access_deleted := False\<rparr> in
      if op_type \<in> set [''insert'', ''subdoc_insert'']
      then some (sub_crud sdk col key [(key, [(path, val)])] (InsertSpec path val create_path xattr # mutated create_path) a c)
      else if op_type \<in> set [''upsert'', ''subdoc_upsert'']
      then some (sub_crud sdk col key [(key, [(path, val)])] (UpsertSpec path val create_path xattr # mutated create_path) b c)
      else if op_type \<in> set [''remove'', ''subdoc_delete'']
      then some (sub_crud sdk col key [(key, [(path, SBlank)])] (RemoveSpec path xattr # mutated False) b c)
      else if op_type = ''subdoc_replace''
      then some (sub_crud sdk col key [(key, [(path, val)])] (ReplaceSpec path val xattr # mutated False) b c)
      else if op_type \<in> set [''lookup'', ''subdoc_read'']
      then some (bulk sdk col (BulkGetSubDoc [(key, [LookUpSpec path xattr])] (ca_access_deleted a))
                   (translate_get_multi_sub_doc_result [(key, [(path, SBlank)])]) c)
      else if op_type = ''counter''
      then some (sub_crud sdk col key [] (if \<not> xattr then [IncrSpec path val create_path] else [])
                   (b\<lparr>ca_create_as_deleted := False\<rparr>) c)
      else (Inr None, c))"

text \<open>\<^verbatim>\<open>get_from_all_replicas\<close>: the copies that could be read before an exception stopped the loop; an exception of the request
  itself is not caught.\<close>

record 'v replica_doc =
  rd_value :: 'v
  rd_cas :: int

definition get_from_all_replicas ::
  "(string \<times> string \<Rightarrow> string \<Rightarrow> 'c \<Rightarrow> ('v \<times> int) list res \<times> 'c) \<Rightarrow> string \<times> string \<Rightarrow> string \<Rightarrow> 'c \<Rightarrow> 'v replica_doc list res \<times> 'c" where
  "get_from_all_replicas get_all col key c =
     (case get_all col key c of (r, c') \<Rightarrow>
        (rbind r (\<lambda>items. Inr (map (\<lambda>(v, cas). \<lparr>rd_value = v, rd_cas = cas\<rparr>) items)), c'))"

end
