(* ===== verification/Load_Tasks.thy ===== *)
theory Load_Tasks
  imports SDK_Client Bucket_Model
begin

text \<open>
  The tasks that load documents (\<^verbatim>\<open>lib/Jython_tasks/task.py\<close>) and their manager (\<^verbatim>\<open>task_manager.py\<close>, \<^verbatim>\<open>async_result.py\<close>).

  \<^item> \<^verbatim>\<open>set_exception\<close> raises a \<^verbatim>\<open>BaseException\<close>, which \<^verbatim>\<open>except Exception\<close> does not catch: \<open>raised\<close> has both kinds.
  \<^item> The threads of the executor are not modelled: a sub-task runs as a whole, in the order the tasks were submitted. The
    future of a task is pending, done with what its \<^verbatim>\<open>call\<close> returned or raised, or cancelled; waiting for one that is
    pending is \<open>None\<close>. Clocks and log messages (with the tables of failed keys) are left out.
  \<^item> A batching generator comes as its methods (\<open>gen_ops\<close>).
\<close>

section \<open>Tasks and their manager\<close>

datatype raised = RExc py_error | RBase string

record task =
  tk_name :: string
  tk_exception :: "string option"
  tk_completed :: bool
  tk_started :: bool

definition new_task :: "string \<Rightarrow> task" where
  "new_task thread_name = \<lparr>tk_name = thread_name, tk_exception = None, tk_completed = False, tk_started = False\<rparr>"

definition start_task :: "'a task_scheme \<Rightarrow> 'a task_scheme" where
  "start_task t = t\<lparr>tk_started := True\<rparr>"

definition complete_task :: "'a task_scheme \<Rightarrow> 'a task_scheme" where
  "complete_task t = t\<lparr>tk_completed := True\<rparr>"

definition set_exception :: "string \<Rightarrow> 'a task_scheme \<Rightarrow> (raised + 'b) \<times> 'a task_scheme" where
  "set_exception exception t = (Inl (RBase exception), complete_task (t\<lparr>tk_exception := Some exception\<rparr>))"

definition set_warn :: "string \<Rightarrow> 'a task_scheme \<Rightarrow> 'a task_scheme" where
  "set_warn exception t = complete_task (t\<lparr>tk_exception := Some exception\<rparr>)"

datatype 'r future = Pending | Finished "raised + 'r" | Cancelled

record 'r task_manager =
  tm_futures :: "(string, 'r future) dict"

definition add_new_task :: "string \<Rightarrow> 'r future \<Rightarrow> 'r task_manager \<Rightarrow> 'r task_manager" where
  "add_new_task name future tm = tm\<lparr>tm_futures := AList.update name future (tm_futures tm)\<rparr>"

text \<open>\<^verbatim>\<open>get_task_result\<close>: \<open>Inr None\<close> is the \<^verbatim>\<open>False\<close> of a cancelled task. The entry stays when the task raised.\<close>

definition get_task_result :: "string \<Rightarrow> 'r task_manager \<Rightarrow> ((raised + 'r option) \<times> 'r task_manager) option" where
  "get_task_result name tm =
     (case map_of (tm_futures tm) name of
        None \<Rightarrow> Some (Inl (RExc KeyError), tm)
      | Some Pending \<Rightarrow> None
      | Some (Finished (Inl e)) \<Rightarrow> Some (Inl e, tm)
      | Some (Finished (Inr r)) \<Rightarrow> Some (Inr (Some r), tm\<lparr>tm_futures := AList.delete name (tm_futures tm)\<rparr>)
      | Some Cancelled \<Rightarrow> Some (Inr None, tm\<lparr>tm_futures := AList.delete name (tm_futures tm)\<rparr>))"

text \<open>\<^verbatim>\<open>stop_task\<close>: \<open>waited\<close> is what becomes of the future while the loop waits for at most 30 seconds.\<close>

definition stop_task :: "('r future \<Rightarrow> 'r future) \<Rightarrow> string \<Rightarrow> 'r task_manager \<Rightarrow> 'r task_manager" where
  "stop_task waited name tm =
     (case map_of (tm_futures tm) name of
        None \<Rightarrow> tm
      | Some f \<Rightarrow>
          let f' = (if f = Pending then waited f else f) in
          tm\<lparr>tm_futures := AList.update name (if f' = Pending then Cancelled else f') (tm_futures tm)\<rparr>)"

definition abort_all_tasks :: "'r task_manager \<Rightarrow> 'r task_manager" where
  "abort_all_tasks tm =
     tm\<lparr>tm_futures := map (\<lambda>(name, f). (name, if f = Pending then Cancelled else f)) (tm_futures tm)\<rparr>"

definition print_tasks_in_pool :: "'r task_manager \<Rightarrow> string list" where
  "print_tasks_in_pool tm = map fst (filter (\<lambda>(_, f). f = Pending) (tm_futures tm))"

text \<open>\<^verbatim>\<open>ready\<close> of an asynchronous result reads the attribute \<^verbatim>\<open>complete\<close>, which a task does not have.\<close>

definition async_ready :: "'a task_scheme \<Rightarrow> bool res" where
  "async_ready t = Inl AttributeError"

definition async_successful :: "'a task_scheme \<Rightarrow> bool res" where
  "async_successful t = rbind (async_ready t) (\<lambda>r. if \<not> r then Inl ValueError else Inr (tk_exception t \<noteq> None))"

section \<open>Batches of operations\<close>

text \<open>\<open>cl\<close> is the client's collection, \<open>None\<close> when the attribute \<^verbatim>\<open>client\<close> is \<^verbatim>\<open>None\<close>.\<close>

definition on_client ::
  "(string \<times> string) option \<Rightarrow> (string \<times> string \<Rightarrow> 'c \<Rightarrow> 'r res \<times> 'c) \<Rightarrow> 'c \<Rightarrow> 'r res \<times> 'c" where
  "on_client cl f c = (case cl of None \<Rightarrow> (Inl AttributeError, c) | Some col \<Rightarrow> f col c)"

type_synonym ('v, 'p) both = "('v, 'p) results \<times> ('v, 'p) results"

definition batch_read ::
  "('v, 'p, 'c) sdk \<Rightarrow> (string \<times> string) option \<Rightarrow> string list \<Rightarrow> crud_args \<Rightarrow> 'c \<Rightarrow> ('v, 'p) both res \<times> 'c" where
  "batch_read sdk cl ks a c = on_client cl (\<lambda>col. get_multi sdk col ks a) c"

text \<open>After failures the documents are read: those found are moved from the failed to the successful ones. The loop runs
  over the failures as they were at its start; an entry without an \<^verbatim>\<open>error\<close> would stop it with an exception.\<close>

fun rescue ::
  "('v, 'p) results \<Rightarrow> (('v, 'p) entry \<Rightarrow> ('v, 'p) entry \<Rightarrow> bool) \<Rightarrow> ('v, 'p) results \<Rightarrow>
   ('v, 'p) results \<times> ('v, 'p) results \<Rightarrow> ('v, 'p) results \<times> ('v, 'p) results" where
  "rescue read_map same [] sf = sf"
| "rescue read_map same ((key, value) # rest) (success, fail) =
     (case map_of read_map key of
        Some e \<Rightarrow>
          (if en_cas e \<noteq> 0 \<and> same value e then
             (if en_error value = None then (AList.update key value success, fail)
              else rescue read_map same rest (AList.update key (value\<lparr>en_error := None\<rparr>) success, AList.delete key fail))
           else rescue read_map same rest (success, fail))
      | None \<Rightarrow> rescue read_map same rest (success, fail))"

definition batch_write ::
  "('v, 'p, 'c) sdk \<Rightarrow>
   (('v, 'p, 'c) sdk \<Rightarrow> string \<times> string \<Rightarrow> (string \<times> 'v) list \<Rightarrow> crud_args \<Rightarrow> 'c \<Rightarrow> ('v, 'p) both res \<times> 'c) \<Rightarrow>
   (('v, 'p) entry \<Rightarrow> ('v, 'p) entry \<Rightarrow> bool) \<Rightarrow> (string \<times> string) option \<Rightarrow> (string \<times> 'v) list \<Rightarrow> crud_args \<Rightarrow> bool \<Rightarrow> 'c \<Rightarrow>
   ('v, 'p) both \<times> 'c" where
  "batch_write sdk multi same cl key_val a skip_read_on_error c =
     (case on_client cl (\<lambda>col. multi sdk col key_val a) c of
        (Inl _, c1) \<Rightarrow> (([], []), c1)
      | (Inr (success, fail), c1) \<Rightarrow>
          (if fail = [] \<or> skip_read_on_error then ((success, fail), c1)
           else
             (case batch_read sdk cl (map fst fail) a c1 of
                (Inl _, c2) \<Rightarrow> ((success, fail), c2)
              | (Inr (read_map, _), c2) \<Rightarrow> (rescue read_map same fail (success, fail), c2))))"

definition batch_create ::
  "('v, 'p, 'c) sdk \<Rightarrow> (string \<times> string) option \<Rightarrow> (string \<times> 'v) list \<Rightarrow> crud_args \<Rightarrow> bool \<Rightarrow> 'c \<Rightarrow> ('v, 'p) both \<times> 'c" where
  "batch_create sdk cl key_val a skip_read_on_error c = batch_write sdk set_multi (\<lambda>_ _. True) cl key_val a skip_read_on_error c"

text \<open>\<^verbatim>\<open>batch_update\<close> also asks that the failure's dictionary \<^emph>\<open>equals\<close> the value read; \<open>dict_eq\<close> is that comparison.\<close>

definition batch_update ::
  "('v, 'p, 'c) sdk \<Rightarrow> (('v, 'p) entry \<Rightarrow> 'v rvalue option \<Rightarrow> bool) \<Rightarrow> (string \<times> string) option \<Rightarrow> (string \<times> 'v) list \<Rightarrow> crud_args \<Rightarrow> bool \<Rightarrow> 'c \<Rightarrow> ('v, 'p) both \<times> 'c" where
  "batch_update sdk dict_eq cl key_val a skip_read_on_error c =
     batch_write sdk upsert_multi (\<lambda>value e. dict_eq value (en_value e)) cl key_val a skip_read_on_error c"

definition batch_replace ::
  "('v, 'p, 'c) sdk \<Rightarrow> (string \<times> string) option \<Rightarrow> (string \<times> 'v) list \<Rightarrow> crud_args \<Rightarrow> bool \<Rightarrow> 'c \<Rightarrow> ('v, 'p) both \<times> 'c" where
  "batch_replace sdk cl key_val a skip_read_on_error c = batch_write sdk replace_multi (\<lambda>_ _. True) cl key_val a skip_read_on_error c"

text \<open>\<^verbatim>\<open>dict(key_val).keys()\<close>.\<close>

definition batch_keys :: "(string \<times> 'v) list \<Rightarrow> string list" where
  "batch_keys key_val = map fst (dict_update_all [] key_val)"

definition batch_delete ::
  "('v, 'p, 'c) sdk \<Rightarrow> (string \<times> string) option \<Rightarrow> (string \<times> 'v) list \<Rightarrow> crud_args \<Rightarrow> 'c \<Rightarrow> ('v, 'p) both res \<times> 'c" where
  "batch_delete sdk cl key_val a c = on_client cl (\<lambda>col. delete_multi sdk col (batch_keys key_val) a) c"

definition batch_touch ::
  "('v, 'p, 'c) sdk \<Rightarrow> (string \<times> string) option \<Rightarrow> (string \<times> 'v) list \<Rightarrow> int \<Rightarrow> crud_args \<Rightarrow> 'c \<Rightarrow> ('v, 'p) both res \<times> 'c" where
  "batch_touch sdk cl key_val exp a c = on_client cl (\<lambda>col. touch_multi sdk col (batch_keys key_val) (a\<lparr>ca_exp := exp\<rparr>)) c"

text \<open>The batches on sub-documents turn an exception of the client into the task's exception; \<open>message\<close> is its text.\<close>

definition batch_sub_doc where
  "batch_sub_doc message label cl f t c =
     (case on_client cl f c of
        (Inl e, c1) \<Rightarrow> (case set_exception (''Exception during sub_doc '' @ label @ '': '' @ message e) t of (r, t1) \<Rightarrow> (r, t1, c1))
      | (Inr sf, c1) \<Rightarrow> (Inr sf, t, c1))"

definition batch_sub_doc_insert where
  "batch_sub_doc_insert message sdk cl key_value create_path xattr a t c =
     batch_sub_doc message ''insert'' cl (\<lambda>col. sub_doc_insert_multi sdk col key_value create_path xattr (a\<lparr>ca_access_deleted := False\<rparr>)) t c"

definition batch_sub_doc_upsert where
  "batch_sub_doc_upsert message sdk cl key_value create_path xattr a t c =
     batch_sub_doc message ''upsert'' cl (\<lambda>col. sub_doc_upsert_multi sdk col key_value create_path xattr a) t c"

definition batch_sub_doc_replace where
  "batch_sub_doc_replace message sdk cl key_value xattr a t c =
     batch_sub_doc message ''upsert'' cl (\<lambda>col. sub_doc_replace_multi sdk col key_value xattr a) t c"

definition batch_sub_doc_remove where
  "batch_sub_doc_remove message sdk cl key_value xattr a t c =
     batch_sub_doc message ''remove'' cl (\<lambda>col. sub_doc_remove_multi sdk col key_value xattr (a\<lparr>ca_semantics := None\<rparr>)) t c"

definition batch_sub_doc_read where
  "batch_sub_doc_read message sdk cl key_value xattr access_deleted t c =
     batch_sub_doc message ''read'' cl (\<lambda>col. sub_doc_read_multi sdk col key_value xattr access_deleted) t c"

section \<open>The generic loading task\<close>

record ('g, 'v) gen_ops =
  go_has_next :: "'g \<Rightarrow> bool"
  go_next_batch :: "bool \<Rightarrow> 'g \<Rightarrow> ((string \<times> 'v) list \<times> 'g) res"
  go_reset :: "'g \<Rightarrow> 'g"

text \<open>\<^verbatim>\<open>BatchedDocumentGenerator\<close> around a document generator.\<close>

definition batched_ops :: "'t json_ops \<Rightarrow> rng \<Rightarrow> nat \<Rightarrow> ('t docgen, 't docval) gen_ops" where
  "batched_ops jo r batch_size =
     \<lparr>go_has_next = kv_has_next,
      go_next_batch = (\<lambda>skip_value. next_batch kv_has_next (docgen_next jo r) (docgen_next_key r) kg_deep_copy batch_size skip_value (DText [])),
      go_reset = kvgen_reset\<rparr>"

text \<open>\<open>gt_held\<close> is the attribute \<^verbatim>\<open>client\<close> of a task that uses the pool; a task without it has a client of its own, whose collection
  is \<open>cfg_own\<close>.\<close>

record 'g gen_task = task +
  gt_generator :: 'g
  gt_docs_loaded :: nat
  gt_itr_count :: int
  gt_stop_loading :: bool
  gt_held :: "nat option"

record 'c world =
  wo_conn :: 'c
  wo_pool :: client_pool

record task_config =
  cfg_op_type :: string
  cfg_args :: crud_args
  cfg_bucket :: string
  cfg_scope :: string
  cfg_collection :: string
  cfg_pool :: bool
  cfg_own :: "(string \<times> string) option"
  cfg_iterations :: int
  cfg_track_failures :: bool
  cfg_skip_read_success :: bool
  cfg_skip_read_on_error :: bool
  cfg_random_exp :: bool
  cfg_exp :: int

definition end_task :: "('g, 'z) gen_task_scheme \<Rightarrow> ('g, 'z) gen_task_scheme" where
  "end_task t = t\<lparr>gt_stop_loading := True\<rparr>"

text \<open>\<^verbatim>\<open>while self.has_next(): self.next()\<close>\<close>

partial_function (option) load_all ::
  "('s \<Rightarrow> bool) \<Rightarrow> ('s \<Rightarrow> ((raised + unit) \<times> 's) option) \<Rightarrow> 's \<Rightarrow> ((raised + unit) \<times> 's) option" where
  "load_all has_nxt nxt s =
     (if has_nxt s then
        (case nxt s of
           None \<Rightarrow> None
         | Some (Inl r, s') \<Rightarrow> Some (Inl r, s')
         | Some (Inr _, s') \<Rightarrow> load_all has_nxt nxt s')
      else Some (Inr (), s))"

text \<open>The loop of \<^verbatim>\<open>call\<close>: \<open>stopped n\<close> says whether another thread has called \<^verbatim>\<open>end_task\<close> when the flag is read after \<open>n\<close>
  iterations; \<open>message\<close> is the message of an exception.\<close>

definition next_iteration :: "('g, 'v) gen_ops \<Rightarrow> task_config \<Rightarrow> ('g, 'z) gen_task_scheme \<Rightarrow> ('g, 'z) gen_task_scheme" where
  "next_iteration ops cfg t =
     (let n = gt_itr_count t + 1 in
      t\<lparr>gt_itr_count := n,
        gt_stop_loading := gt_stop_loading t \<or> cfg_iterations cfg \<noteq> -1 \<and> cfg_iterations cfg \<le> n,
        gt_generator := go_reset ops (gt_generator t)\<rparr>)"

partial_function (option) load_loop ::
  "(int \<Rightarrow> bool) \<Rightarrow> (py_error \<Rightarrow> string) \<Rightarrow> ('g, 'v) gen_ops \<Rightarrow> task_config \<Rightarrow>
   (('g, 'z) gen_task_scheme \<times> 'c world \<Rightarrow> ((raised + unit) \<times> ('g, 'z) gen_task_scheme \<times> 'c world) option) \<Rightarrow>
   ('g, 'z) gen_task_scheme \<times> 'c world \<Rightarrow> ((raised + unit) \<times> ('g, 'z) gen_task_scheme \<times> 'c world) option" where
  "load_loop stopped message ops cfg nxt s =
     (if gt_stop_loading (fst s) \<or> stopped (gt_itr_count (fst s)) then Some (Inr (), complete_task (fst s), snd s)
      else
        (case load_all (\<lambda>s. go_has_next ops (gt_generator (fst s))) nxt (next_iteration ops cfg (fst s), snd s) of
           None \<Rightarrow> None
         | Some (Inl (RExc e), t', w') \<Rightarrow> (case set_exception (message e) t' of (r, t'') \<Rightarrow> Some (r, t'', w'))
         | Some (Inl (RBase m), t', w') \<Rightarrow> Some (Inl (RBase m), t', w')
         | Some (Inr _, s') \<Rightarrow> load_loop stopped message ops cfg nxt s'))"

definition generic_call where
  "generic_call stopped message ops cfg nxt t w = load_loop stopped message ops cfg nxt (start_task t, w)"

text \<open>A task that uses the pool takes a client before a batch and gives it back after it.\<close>

definition take_client ::
  "task_config \<Rightarrow> ('g, 'z) gen_task_scheme \<Rightarrow> 'c world \<Rightarrow> (unit res \<times> ('g, 'z) gen_task_scheme \<times> 'c world) option" where
  "take_client cfg t w =
     (if cfg_pool cfg then
        (case get_client_for_bucket (cfg_bucket cfg) (cfg_scope cfg) (cfg_collection cfg) (wo_pool w) of
           None \<Rightarrow> None
         | Some (Inl e, p) \<Rightarrow> Some (Inl e, t, w\<lparr>wo_pool := p\<rparr>)
         | Some (Inr i, p) \<Rightarrow> Some (Inr (), t\<lparr>gt_held := i\<rparr>, w\<lparr>wo_pool := p\<rparr>))
      else Some (Inr (), t, w))"

definition give_client ::
  "task_config \<Rightarrow> ('g, 'z) gen_task_scheme \<Rightarrow> 'c world \<Rightarrow> (unit res \<times> ('g, 'z) gen_task_scheme \<times> 'c world) option" where
  "give_client cfg t w =
     (if cfg_pool cfg then
        (case gt_held t of
           None \<Rightarrow> Some (Inl AttributeError, t, w)
         | Some i \<Rightarrow>
             (case release_client i (wo_pool w) of
                None \<Rightarrow> None
              | Some (Inl e, p) \<Rightarrow> Some (Inl e, t, w\<lparr>wo_pool := p\<rparr>)
              | Some (Inr _, p) \<Rightarrow> Some (Inr (), t\<lparr>gt_held := None\<rparr>, w\<lparr>wo_pool := p\<rparr>)))
      else Some (Inr (), t, w))"

definition client_col :: "task_config \<Rightarrow> ('g, 'z) gen_task_scheme \<Rightarrow> 'c world \<Rightarrow> (string \<times> string) option" where
  "client_col cfg t w =
     (if cfg_pool cfg then map_option (\<lambda>i. sc_target (cp_objs (wo_pool w) i)) (gt_held t) else cfg_own cfg)"

section \<open>Loading documents\<close>

record ('g, 'v, 'p) load_task = "'g gen_task" +
  lt_exp :: int
  lt_fail :: "('v, 'p) results"
  lt_success :: "('v, 'p) results"

definition new_load_task :: "string \<Rightarrow> 'g \<Rightarrow> int \<Rightarrow> ('g, 'v, 'p) load_task" where
  "new_load_task name g exp =
     \<lparr>tk_name = name, tk_exception = None, tk_completed = False, tk_started = False, gt_generator = g, gt_docs_loaded = 0,
      gt_itr_count = 0, gt_stop_loading = False, gt_held = None, lt_exp = exp, lt_fail = [], lt_success = []\<rparr>"

definition skip_doc_gen_value :: "string \<Rightarrow> bool" where
  "skip_doc_gen_value op_type \<longleftrightarrow> op_type \<in> set [''delete'', ''touch'', ''read'']"

definition add_fail :: "task_config \<Rightarrow> ('v, 'p) results \<Rightarrow> ('g, 'v, 'p, 'z) load_task_scheme \<Rightarrow> ('g, 'v, 'p, 'z) load_task_scheme" where
  "add_fail cfg fail t = (if cfg_track_failures cfg then t\<lparr>lt_fail := dict_update_all (lt_fail t) fail\<rparr> else t)"

definition add_success :: "task_config \<Rightarrow> ('v, 'p) results \<Rightarrow> ('g, 'v, 'p, 'z) load_task_scheme \<Rightarrow> ('g, 'v, 'p, 'z) load_task_scheme" where
  "add_success cfg success t =
     (if \<not> cfg_skip_read_success cfg then t\<lparr>lt_success := dict_update_all (lt_success t) success\<rparr> else t)"

definition load_op ::
  "('v, 'p, 'c) sdk \<Rightarrow> (('v, 'p) entry \<Rightarrow> 'v rvalue option \<Rightarrow> bool) \<Rightarrow> task_config \<Rightarrow> (string \<times> 'v) list \<Rightarrow>
   ('g, 'v, 'p) load_task \<Rightarrow> 'c world \<Rightarrow> (raised + unit) \<times> ('g, 'v, 'p) load_task \<times> 'c world" where
  "load_op sdk dict_eq cfg key_value t w =
     (let cl = client_col cfg t w; a = (cfg_args cfg)\<lparr>ca_exp := lt_exp t\<rparr>; skip = cfg_skip_read_on_error cfg; op_type = cfg_op_type cfg;
          done_write = (\<lambda>((_, fail), c). (Inr (), add_fail cfg fail t, w\<lparr>wo_conn := c\<rparr>));
          done_op = (\<lambda>(r, c). case r of
              Inl e \<Rightarrow> (Inl (RExc e), t, w\<lparr>wo_conn := c\<rparr>)
            | Inr (success, fail) \<Rightarrow>
                (Inr (), if op_type = ''read'' then add_success cfg success (add_fail cfg fail t) else add_fail cfg fail t, w\<lparr>wo_conn := c\<rparr>))
      in if op_type = ''create'' then done_write (batch_create sdk cl key_value a skip (wo_conn w))
         else if op_type = ''update'' then done_write (batch_update sdk dict_eq cl key_value a skip (wo_conn w))
         else if op_type = ''replace'' then done_write (batch_replace sdk cl key_value a skip (wo_conn w))
         else if op_type = ''delete'' then done_op (batch_delete sdk cl key_value a (wo_conn w))
         else if op_type = ''touch'' then done_op (batch_touch sdk cl key_value (lt_exp t) a (wo_conn w))
         else if op_type = ''read'' then done_op (batch_read sdk cl (batch_keys key_value) a (wo_conn w))
         else (case set_exception (''Bad operation: '' @ op_type) t of (r, t') \<Rightarrow> (r, t', w)))"

text \<open>\<^verbatim>\<open>next\<close>; \<open>draw n\<close> is what \<^verbatim>\<open>randint\<close> gives when \<open>n\<close> documents have been loaded.\<close>

definition load_next where
  "load_next sdk dict_eq draw ops cfg s =
     (let t = fst s; w = snd s in
      case go_next_batch ops (skip_doc_gen_value (cfg_op_type cfg)) (gt_generator t) of
        Inl e \<Rightarrow> Some (Inl (RExc e), t, w)
      | Inr (key_value, g) \<Rightarrow>
          let t = t\<lparr>gt_generator := g\<rparr>; half = cfg_exp cfg div 2 in
          if cfg_random_exp cfg \<and> cfg_exp cfg < half then Some (Inl (RExc ValueError), t, w)
          else
            (let t = (if cfg_random_exp cfg then t\<lparr>lt_exp := draw (gt_docs_loaded t) half (cfg_exp cfg)\<rparr> else t) in
             case take_client cfg t w of
               None \<Rightarrow> None
             | Some (Inl e, t, w) \<Rightarrow> Some (Inl (RExc e), t, w)
             | Some (Inr _, t, w) \<Rightarrow>
                 (case load_op sdk dict_eq cfg key_value t w of
                    (Inl r, t, w) \<Rightarrow> Some (Inl r, t, w)
                  | (Inr _, t, w) \<Rightarrow>
                      (case give_client cfg t w of
                         None \<Rightarrow> None
                       | Some (Inl e, t, w) \<Rightarrow> Some (Inl (RExc e), t, w)
                       | Some (Inr _, t, w) \<Rightarrow> Some (Inr (), t\<lparr>gt_docs_loaded := gt_docs_loaded t + length key_value\<rparr>, w)))))"

definition load_documents where
  "load_documents stopped message sdk dict_eq draw ops cfg t w =
     generic_call stopped message ops cfg (load_next sdk dict_eq draw ops cfg) t w"

section \<open>Loading sub-documents\<close>

record sub_config =
  sb_create_path :: bool
  sb_xattr :: bool
  sb_access_deleted :: bool

definition load_sub_op where
  "load_sub_op message sdk cfg sb key_value t w =
     (let cl = client_col cfg t w; a = (cfg_args cfg)\<lparr>ca_exp := lt_exp t\<rparr>; op_type = cfg_op_type cfg; c = wo_conn w;
          finish = (\<lambda>upd (r, t, c). case r of
              Inl e \<Rightarrow> (Inl e, t, w\<lparr>wo_conn := c\<rparr>)
            | Inr sf \<Rightarrow> (Inr (), upd sf t, w\<lparr>wo_conn := c\<rparr>));
          write = (\<lambda>(_, fail). add_fail cfg fail);
          rd = (\<lambda>(success, fail) t. add_success cfg success (add_fail cfg fail t))
      in if op_type = ''insert''
         then finish write (batch_sub_doc_insert message sdk cl key_value (sb_create_path sb) (sb_xattr sb) a t c)
         else if op_type = ''upsert''
         then finish write (batch_sub_doc_upsert message sdk cl key_value (sb_create_path sb) (sb_xattr sb) a t c)
         else if op_type = ''remove'' then finish write (batch_sub_doc_remove message sdk cl key_value (sb_xattr sb) a t c)
         else if op_type = ''replace'' then finish write (batch_sub_doc_replace message sdk cl key_value (sb_xattr sb) a t c)
         else if op_type \<in> set [''read'', ''lookup'']
         then finish rd (batch_sub_doc_read message sdk cl key_value (sb_xattr sb) (sb_access_deleted sb) t c)
         else (case set_exception (''Bad operation type: '' @ op_type) t of (r, t') \<Rightarrow> (r, t', w)))"

definition load_sub_next where
  "load_sub_next message sdk ops cfg sb s =
     (let t = fst s; w = snd s in
      case go_next_batch ops False (gt_generator t) of
        Inl e \<Rightarrow> Some (Inl (RExc e), t, w)
      | Inr (key_value, g) \<Rightarrow>
          (case take_client cfg (t\<lparr>gt_generator := g\<rparr>) w of
             None \<Rightarrow> None
           | Some (Inl e, t, w) \<Rightarrow> Some (Inl (RExc e), t, w)
           | Some (Inr _, t, w) \<Rightarrow>
               (case load_sub_op message sdk cfg sb key_value t w of
                  (Inl r, t, w) \<Rightarrow> Some (Inl r, t, w)
                | (Inr _, t, w) \<Rightarrow>
                    (case give_client cfg (t\<lparr>gt_docs_loaded := gt_docs_loaded t + length key_value\<rparr>) w of
                       None \<Rightarrow> None
                     | Some (Inl e, t, w) \<Rightarrow> Some (Inl (RExc e), t, w)
                     | Some (Inr _, t, w) \<Rightarrow> Some (Inr (), t, w)))))"

definition load_sub_documents where
  "load_sub_documents stopped message sdk ops cfg sb t w =
     generic_call stopped message ops cfg (load_sub_next message sdk ops cfg sb) t w"

section \<open>Splitting a generator into tasks\<close>

text \<open>The ranges of \<^verbatim>\<open>get_tasks\<close>: \<^verbatim>\<open>range(start, end, step)\<close> with steps of a positive size.\<close>

function py_range :: "int \<Rightarrow> int \<Rightarrow> int \<Rightarrow> int list" where
  "py_range a b step = (if a < b \<and> 0 < step then a # py_range (a + step) b step else [])"
  by pat_completeness auto
termination by (relation "measure (\<lambda>(a, b, step). nat (b - a))") auto

declare py_range.simps [simp del]

definition gen_range :: "int \<Rightarrow> int \<Rightarrow> int \<Rightarrow> int res" where
  "gen_range start stop process_concurrency =
     (if process_concurrency = 0 then Inl ZeroDivisionError else Inr (max ((stop - start) div process_concurrency) 1))"

definition partition_ranges :: "int \<Rightarrow> int \<Rightarrow> int \<Rightarrow> (int \<times> int) list res" where
  "partition_ranges start stop process_concurrency =
     rbind (gen_range start stop process_concurrency) (\<lambda>r.
     Inr (map (\<lambda>pos. (pos, if stop < pos + r then stop else pos + r)) (py_range start stop r)))"

text \<open>\<^verbatim>\<open>copy.deepcopy(generator)\<close> with \<^verbatim>\<open>start\<close>, \<^verbatim>\<open>itr\<close> and \<^verbatim>\<open>end\<close> set.\<close>

definition partition_gen :: "'a kvgen_scheme \<Rightarrow> int \<times> int \<Rightarrow> 'a kvgen_scheme" where
  "partition_gen g r = g\<lparr>kg_start := fst r, kg_itr := fst r, kg_end := snd r\<rparr>"

definition partition_gens :: "int \<Rightarrow> int \<Rightarrow> 'a kvgen_scheme \<Rightarrow> 'a kvgen_scheme list res" where
  "partition_gens process_concurrency batch_size g =
     rbind (partition_ranges (kg_start g) (kg_end g) process_concurrency) (\<lambda>rs.
     rmap (\<lambda>r. rbind (batch_init (partition_gen g r) batch_size) (\<lambda>(p, _). Inr p)) rs)"

text \<open>The name of a task: \<open>now\<close> is the text of the time.\<close>

definition load_task_name :: "string \<Rightarrow> string \<Rightarrow> string \<Rightarrow> int \<Rightarrow> int \<Rightarrow> string \<Rightarrow> string" where
  "load_task_name task_identifier op_type durability start stop now =
     ''LoadDocs_'' @ task_identifier @ ''_'' @ op_type @ ''_'' @ durability @ ''_'' @ int_str start @ ''_'' @ int_str stop @ ''_'' @ now"

text \<open>\<^verbatim>\<open>get_tasks\<close>: task \<open>i\<close> has the generator of range \<open>i\<close> and \<^verbatim>\<open>clients[i]\<close>.\<close>

definition get_tasks ::
  "(nat \<Rightarrow> string) \<Rightarrow> string \<Rightarrow> int \<Rightarrow> int \<Rightarrow> task_config \<Rightarrow> (string \<times> string) option list \<Rightarrow> 'a kvgen_scheme \<Rightarrow>
   (('a kvgen_scheme, 'v, 'p) load_task \<times> task_config) list res" where
  "get_tasks now task_identifier process_concurrency batch_size cfg clients g =
     rbind (partition_gens process_concurrency batch_size g) (\<lambda>gs.
     rmap (\<lambda>(i, p). rbind (py_nth clients (int i)) (\<lambda>cl.
       Inr (new_load_task (load_task_name task_identifier (cfg_op_type cfg) (ca_durability (cfg_args cfg)) (kg_start p) (kg_end p) (now i))
              p (cfg_exp cfg), cfg\<lparr>cfg_own := cl\<rparr>)))
       (enumerate 0 gs))"

text \<open>\<^verbatim>\<open>async_load_gen_docs\<close> makes one client for each position of the same range.\<close>

definition gen_clients :: "bool \<Rightarrow> string \<Rightarrow> string \<Rightarrow> int \<Rightarrow> 'a kvgen_scheme \<Rightarrow> (string \<times> string) option list res" where
  "gen_clients pool scope collection process_concurrency g =
     rbind (gen_range (kg_start g) (kg_end g) process_concurrency) (\<lambda>r.
     Inr (map (\<lambda>_. if pool then None else Some (target_of scope collection)) (py_range (kg_start g) (kg_end g) r)))"

section \<open>The task that loads whole generators\<close>

text \<open>An empty list stands for an \<^verbatim>\<open>op_types\<close> or \<^verbatim>\<open>buckets\<close> that is \<^verbatim>\<open>None\<close>; the operation and bucket are then those of the
  configuration. \<open>gs_stats\<close> has the statistics of the buckets, for the shared task that prints the rate of operations.\<close>

record ('v, 'p) gens_state = task +
  gs_fail :: "('v, 'p) results"
  gs_success :: "('v, 'p) results"
  gs_stats :: "(string, bucket_stats) dict"
  gs_manager :: "unit task_manager"

definition check_lists :: "string list \<Rightarrow> string list \<Rightarrow> nat \<Rightarrow> 'a task_scheme \<Rightarrow> (raised + unit) \<times> 'a task_scheme" where
  "check_lists op_types buckets n t =
     (if op_types \<noteq> [] \<and> length op_types \<noteq> n then set_exception ''Not all generators have op_type!'' t
      else if buckets \<noteq> [] \<and> op_types = [] then (Inl (RExc TypeError), t)
      else if buckets \<noteq> [] \<and> length op_types \<noteq> length buckets
      then set_exception ''Not all generators have bucket specified!'' t
      else (Inr (), t))"

definition list_choice :: "'x list \<Rightarrow> 'x \<Rightarrow> nat \<Rightarrow> 'x res" where
  "list_choice xs x i = (if xs = [] then Inr x else py_nth xs (int i))"

definition gens_config :: "string list \<Rightarrow> string list \<Rightarrow> task_config \<Rightarrow> nat \<Rightarrow> task_config res" where
  "gens_config op_types buckets cfg i =
     rbind (list_choice op_types (cfg_op_type cfg) i) (\<lambda>op_type.
     rbind (list_choice buckets (cfg_bucket cfg) i) (\<lambda>b.
     Inr (cfg\<lparr>cfg_op_type := op_type, cfg_bucket := b\<rparr>)))"

definition all_tasks where
  "all_tasks tasks_of op_types buckets cfg gens =
     rbind (rmap (\<lambda>(i, g). rbind (gens_config op_types buckets cfg i) (\<lambda>cfg'. tasks_of cfg' g)) (enumerate 0 gens)) (\<lambda>tss.
     Inr (concat tss))"

definition manage_stats :: "string \<Rightarrow> string list \<Rightarrow> (string, bucket_stats) dict \<Rightarrow> (string, bucket_stats) dict res" where
  "manage_stats operation bs d =
     rfold (\<lambda>d b. rbind (dict_lookup d b) (\<lambda>s. rbind (manage_task operation s) (\<lambda>s'. Inr (AList.update b s' d)))) d bs"

text \<open>The sub-tasks run one after the other; \<open>run\<close> is the \<^verbatim>\<open>call\<close> of one.\<close>

fun run_tasks ::
  "('t \<Rightarrow> 'k \<Rightarrow> 'w \<Rightarrow> ((raised + unit) \<times> 't \<times> 'w) option) \<Rightarrow> ('t \<times> 'k) list \<Rightarrow> 'w \<Rightarrow>
   (((raised + unit) \<times> 't) list \<times> 'w) option" where
  "run_tasks run [] w = Some ([], w)"
| "run_tasks run ((t, cfg) # ts) w =
     (case run t cfg w of
        None \<Rightarrow> None
      | Some (r, t', w') \<Rightarrow>
          (case run_tasks run ts w' of None \<Rightarrow> None | Some (rs, w'') \<Rightarrow> Some ((r, t') # rs, w'')))"

text \<open>One round of the loop over the results: \<^verbatim>\<open>finally\<close> takes over what the sub-task has, also when it raised.\<close>

definition collect_result ::
  "bool \<Rightarrow> ('g, 'v, 'p) load_task \<Rightarrow> ('v, 'p) gens_state \<Rightarrow> ('v, 'p) gens_state" where
  "collect_result track_failures sub t =
     (let t = (case get_task_result (tk_name sub) (gs_manager t) of None \<Rightarrow> t | Some (_, tm) \<Rightarrow> t\<lparr>gs_manager := tm\<rparr>);
          t = t\<lparr>gs_success := dict_update_all (gs_success t) (lt_success sub)\<rparr>
      in if track_failures then t\<lparr>gs_fail := dict_update_all (gs_fail t) (lt_fail sub)\<rparr> else t)"

definition submit :: "((raised + unit) \<times> ('g, 'v, 'p) load_task) list \<Rightarrow> unit task_manager \<Rightarrow> unit task_manager" where
  "submit rs tm = fold (\<lambda>(r, sub). add_new_task (tk_name sub) (Finished r)) rs tm"

definition load_generators_call where
  "load_generators_call run tasks_of print_ops_rate op_types buckets cfg gens t w =
     (case check_lists op_types buckets (length gens) (start_task t) of
        (Inl r, t) \<Rightarrow> Some (Inl r, t, w)
      | (Inr _, t) \<Rightarrow>
          (case all_tasks tasks_of op_types buckets cfg gens of
             Inl e \<Rightarrow> Some (Inl (RExc e), t, w)
           | Inr tasks \<Rightarrow>
               let rated = (if \<not> print_ops_rate then [] else if buckets \<noteq> [] then buckets else [cfg_bucket cfg]) in
               (case manage_stats ''start'' rated (gs_stats t) of
                  Inl e \<Rightarrow> Some (Inl (RExc e), t, w)
                | Inr stats \<Rightarrow>
                    (case run_tasks run tasks w of
                       None \<Rightarrow> None
                     | Some (rs, w') \<Rightarrow>
                         let t = t\<lparr>gs_stats := stats, gs_manager := submit rs (gs_manager t)\<rparr>;
                             t = fold (\<lambda>(_, sub). collect_result (cfg_track_failures cfg) sub) rs t in
                         (case manage_stats ''stop'' rated (gs_stats t) of
                            Inl e \<Rightarrow> Some (Inl (RExc e), t, w')
                          | Inr stats \<Rightarrow>
                              let t = complete_task (t\<lparr>gs_stats := stats\<rparr>) in
                              Some (Inr (gs_fail t), t, w'))))))"

definition load_generators where
  "load_generators stopped message sdk dict_eq draw ops now task_identifier process_concurrency batch_size clients print_ops_rate
     op_types buckets cfg gens t w =
     load_generators_call (\<lambda>sub cfg. load_documents stopped message sdk dict_eq draw ops cfg sub)
       (\<lambda>cfg. get_tasks now task_identifier process_concurrency batch_size cfg clients)
       print_ops_rate op_types buckets cfg gens t w"

end
