(* ===== verification/SDK_Pool_Props.thy ===== *)
theory SDK_Pool_Props
  imports SDK_Pool
begin

text \<open>
  What the pool guarantees the tasks that use it: in every run every holder's client is set to the collection it asked
  for, clients are shared only by tasks of one collection, none is lost, a release never fails and a request waits only
  while all clients are busy with other collections. The condition is that the names of scopes and collections do not run
  together into one key.
\<close>

section \<open>Invariant\<close>

definition holders :: "holding list \<Rightarrow> nat \<Rightarrow> nat" where
  "holders H i = length (filter (\<lambda>h. fst h = i) H)"

definition ref_ok :: "(string \<times> string) set \<Rightarrow> client_pool \<Rightarrow> holding list \<Rightarrow> string \<Rightarrow> pool_bucket \<Rightarrow> bool" where
  "ref_ok N p H b pb \<longleftrightarrow> (\<forall>k i n. map_of (pb_refs pb) k = Some (i, n) \<longrightarrow>
     i \<in> set (pb_busy pb) \<and> n = int (holders H i) \<and> 0 < n \<and> (\<exists>s c. cp_objs p i = new_client b s c \<and> k = s @ c \<and> (s, c) \<in> N))"

definition bucket_inv :: "(string \<times> string) set \<Rightarrow> client_pool \<Rightarrow> holding list \<Rightarrow> string \<Rightarrow> pool_bucket \<Rightarrow> bool" where
  "bucket_inv N p H b pb \<longleftrightarrow> \<not> pb_locked pb \<and> distinct (pb_idle pb @ pb_busy pb) \<and>
     (\<forall>i \<in> set (pb_idle pb @ pb_busy pb). i < cp_next p \<and> sc_bucket (cp_objs p i) = b) \<and> ref_ok N p H b pb \<and>
     (\<forall>i \<in> set (pb_busy pb). \<exists>k n. map_of (pb_refs pb) k = Some (i, n))"

definition held_ok :: "(string \<times> string) set \<Rightarrow> client_pool \<Rightarrow> holding \<Rightarrow> bool" where
  "held_ok N p h = (case h of (i, b, s, c) \<Rightarrow>
     (s, c) \<in> N \<and> cp_objs p i = new_client b s c \<and> (\<exists>pb n. map_of (cp_clients p) b = Some pb \<and> map_of (pb_refs pb) (s @ c) = Some (i, n)))"

definition pool_inv :: "(string \<times> string) set \<Rightarrow> client_pool \<Rightarrow> holding list \<Rightarrow> bool" where
  "pool_inv N p H \<longleftrightarrow> (\<forall>b pb. map_of (cp_clients p) b = Some pb \<longrightarrow> bucket_inv N p H b pb) \<and> (\<forall>h \<in> set H. held_ok N p h)"

lemma pool_inv_bucket: "pool_inv N p H \<Longrightarrow> map_of (cp_clients p) b = Some pb \<Longrightarrow> bucket_inv N p H b pb"
  by (simp add: pool_inv_def)

lemma pool_inv_held: "pool_inv N p H \<Longrightarrow> (i, b, s, c) \<in> set H \<Longrightarrow> held_ok N p (i, b, s, c)"
  by (auto simp: pool_inv_def)

lemma new_pool_inv: "pool_inv N new_pool []"
  by (simp add: pool_inv_def new_pool_def)

text \<open>Where a client is: its bucket is that of its object, and a holder's client is among the busy ones.\<close>

lemma held_busy:
  assumes "pool_inv N p H" and "(i, b, s, c) \<in> set H"
  shows "\<exists>pb. map_of (cp_clients p) b = Some pb \<and> i \<in> set (pb_busy pb) \<and> sc_bucket (cp_objs p i) = b \<and>
    map_of (pb_refs pb) (s @ c) = Some (i, int (holders H i))"
proof -
  from pool_inv_held [OF assms] obtain pb n where h: "cp_objs p i = new_client b s c" "map_of (cp_clients p) b = Some pb"
    "map_of (pb_refs pb) (s @ c) = Some (i, n)" by (auto simp: held_ok_def)
  from pool_inv_bucket [OF assms(1) h(2)] h(3) have "i \<in> set (pb_busy pb) \<and> n = int (holders H i)"
    by (auto simp: bucket_inv_def ref_ok_def)
  with h show ?thesis by (simp add: new_client_def)
qed

lemma idle_not_held:
  assumes "pool_inv N p H" and "map_of (cp_clients p) b = Some pb" and "i \<in> set (pb_idle pb)"
  shows "holders H i = 0"
proof -
  have "fst h \<noteq> i" if "h \<in> set H" for h
  proof
    assume "fst h = i"
    with that obtain b' s c where h: "(i, b', s, c) \<in> set H" by (metis prod.exhaust_sel)
    from held_busy [OF assms(1) h] obtain pb' where p: "map_of (cp_clients p) b' = Some pb'" "i \<in> set (pb_busy pb')"
      "sc_bucket (cp_objs p i) = b'" by blast
    have i: "bucket_inv N p H b pb" by (rule pool_inv_bucket [OF assms(1,2)])
    then have "b' = b" using assms(3) p(3) by (auto simp: bucket_inv_def)
    with p(1,2) assms(2) have "i \<in> set (pb_busy pb)" by simp
    with i assms(3) show False by (auto simp: bucket_inv_def)
  qed
  then show ?thesis by (simp add: holders_def filter_empty_conv)
qed

lemma holders_Cons: "holders ((j, x) # H) i = (if i = j then Suc (holders H i) else holders H i)"
  by (simp add: holders_def)

lemma holders_pos: "(i, x) \<in> set H \<Longrightarrow> 0 < holders H i"
  by (force simp: holders_def filter_empty_conv)

lemma holders_remove:
  "(j, x) \<in> set H \<Longrightarrow> holders (remove1 (j, x) H) i = (if i = j then holders H i - 1 else holders H i)"
proof (induction H)
  case (Cons h H)
  obtain k y where h: "h = (k, y)" by (cases h)
  show ?case
  proof (cases "h = (j, x)")
    case False
    then have "(j, x) \<in> set H" using Cons.prems by auto
    with Cons.IH holders_pos [OF this] False show ?thesis by (auto simp: h holders_Cons)
  qed (simp add: holders_Cons)
qed simp

lemma in_remove1: "h \<in> set (remove1 x H) \<Longrightarrow> h \<in> set H"
  using notin_set_remove1 by fast

text \<open>A bucket is not touched by what happens to clients of another one.\<close>

lemma bucket_inv_other:
  assumes "bucket_inv N p H b pb" and "\<And>i. i < cp_next p \<Longrightarrow> sc_bucket (cp_objs p i) = b \<Longrightarrow> cp_objs p' i = cp_objs p i \<and> holders H' i = holders H i"
    and "cp_next p \<le> cp_next p'"
  shows "bucket_inv N p' H' b pb"
proof -
  have i: "cp_objs p' i = cp_objs p i" "holders H' i = holders H i" if "i \<in> set (pb_idle pb @ pb_busy pb)" for i
    using that assms(1,2) by (auto simp: bucket_inv_def)
  have "ref_ok N p' H' b pb"
    unfolding ref_ok_def
  proof (intro allI impI)
    fix k j n
    assume r: "map_of (pb_refs pb) k = Some (j, n)"
    with assms(1) have o: "j \<in> set (pb_busy pb)" "n = int (holders H j) \<and> 0 < n \<and> (\<exists>s c. cp_objs p j = new_client b s c \<and> k = s @ c \<and> (s, c) \<in> N)"
      by (auto simp: bucket_inv_def ref_ok_def)
    then show "j \<in> set (pb_busy pb) \<and> n = int (holders H' j) \<and> 0 < n \<and> (\<exists>s c. cp_objs p' j = new_client b s c \<and> k = s @ c \<and> (s, c) \<in> N)"
      using i [of j] by simp
  qed
  moreover have "\<forall>i \<in> set (pb_idle pb @ pb_busy pb). i < cp_next p' \<and> sc_bucket (cp_objs p' i) = b"
  proof
    fix j
    assume j: "j \<in> set (pb_idle pb @ pb_busy pb)"
    then have "j < cp_next p" "sc_bucket (cp_objs p j) = b" using assms(1) by (auto simp: bucket_inv_def)
    with i(1) [OF j] assms(3) show "j < cp_next p' \<and> sc_bucket (cp_objs p' j) = b" by simp
  qed
  ultimately show ?thesis using assms(1) by (simp add: bucket_inv_def)
qed

lemma held_bound:
  assumes "pool_inv N p H" and "(i, b, s, c) \<in> set H"
  shows "i < cp_next p"
proof -
  from held_busy [OF assms] obtain pb where "map_of (cp_clients p) b = Some pb" "i \<in> set (pb_busy pb)" by blast
  with pool_inv_bucket [OF assms(1)] show ?thesis by (simp add: bucket_inv_def)
qed

section \<open>Steps\<close>

lemma create_inv:
  assumes "pool_inv N p H"
  shows "pool_inv N (create_clients b n p) H"
proof -
  let ?p = "create_clients b n p" and ?pb = "dict_get (cp_clients p) b empty_bucket"
  let ?new = "[cp_next p..<cp_next p + n]"
  have pb: "bucket_inv N p H b ?pb"
    using assms by (cases "map_of (cp_clients p) b") (auto simp: dict_get_def pool_inv_def bucket_inv_def ref_ok_def empty_bucket_def)
  have old: "cp_objs ?p i = cp_objs p i" if "i < cp_next p" for i using that by (simp add: create_clients_def Let_def)
  have new: "sc_bucket (cp_objs ?p i) = b" if "i \<in> set ?new" for i using that by (simp add: create_clients_def Let_def new_client_def)
  have nx: "cp_next ?p = cp_next p + n" by (simp add: create_clients_def Let_def)
  have pb': "bucket_inv N ?p H b ?pb" by (rule bucket_inv_other [OF pb]) (simp_all add: old nx)
  have "bucket_inv N ?p H b (?pb\<lparr>pb_idle := pb_idle ?pb @ ?new\<rparr>)"
  proof -
    have "\<forall>i \<in> set (pb_idle ?pb @ pb_busy ?pb). i < cp_next p" using pb by (simp add: bucket_inv_def)
    then have "set (pb_idle ?pb) \<inter> set ?new = {}" "set ?new \<inter> set (pb_busy ?pb) = {}" by (auto simp: Ball_def)
    then have "distinct ((pb_idle ?pb @ ?new) @ pb_busy ?pb)" using pb by (simp add: bucket_inv_def Int_Un_distrib)
    moreover have "\<forall>i \<in> set ((pb_idle ?pb @ ?new) @ pb_busy ?pb). i < cp_next ?p \<and> sc_bucket (cp_objs ?p i) = b"
      using pb' new nx by (auto simp: bucket_inv_def)
    ultimately show ?thesis using pb' by (simp add: bucket_inv_def ref_ok_def)
  qed
  moreover have "bucket_inv N ?p H b' pb" if "map_of (cp_clients p) b' = Some pb" for b' pb
    by (rule bucket_inv_other [OF pool_inv_bucket [OF assms that]]) (simp_all add: old nx)
  moreover have cl: "cp_clients ?p = AList.update b (?pb\<lparr>pb_idle := pb_idle ?pb @ ?new\<rparr>) (cp_clients p)"
    by (simp add: create_clients_def Let_def)
  moreover have "held_ok N ?p h" if "h \<in> set H" for h
  proof -
    obtain i b' s c where h: "h = (i, b', s, c)" by (cases h)
    have "i < cp_next p" using held_bound [OF assms] that h by blast
    moreover have "held_ok N p (i, b', s, c)" using pool_inv_held [OF assms] that h by blast
    ultimately show ?thesis by (auto simp: held_ok_def h old cl dict_get_def)
  qed
  ultimately show ?thesis by (simp add: pool_inv_def)
qed

text \<open>A step that changes one bucket, its clients' objects and the holdings of its clients.\<close>

lemma step_inv:
  assumes "pool_inv N p H" and "map_of (cp_clients p) b = Some pb"
    and "cp_clients p' = AList.update b pb' (cp_clients p)" and "cp_next p' = cp_next p"
    and "bucket_inv N p' H' b pb'"
    and "\<And>i. sc_bucket (cp_objs p i) \<noteq> b \<Longrightarrow> cp_objs p' i = cp_objs p i \<and> holders H' i = holders H i"
    and "\<And>h. h \<in> set H' \<Longrightarrow> held_ok N p' h"
  shows "pool_inv N p' H'"
  unfolding pool_inv_def
proof (intro conjI allI impI ballI)
  fix b' qb
  assume q: "map_of (cp_clients p') b' = Some qb"
  show "bucket_inv N p' H' b' qb"
  proof (cases "b' = b")
    case True
    with q assms(3,5) show ?thesis by simp
  next
    case False
    with q assms(3) have o: "map_of (cp_clients p) b' = Some qb" by simp
    show ?thesis by (rule bucket_inv_other [OF pool_inv_bucket [OF assms(1) o]]) (use assms(4,6) False in simp_all)
  qed
qed (rule assms(7))

lemma held_other:
  assumes "held_ok N p (i, b', s, c)" and "b' \<noteq> b" and "cp_clients p' = AList.update b pb' (cp_clients p)" and "cp_objs p' i = cp_objs p i"
  shows "held_ok N p' (i, b', s, c)"
  using assms by (auto simp: held_ok_def)

lemma clear_eq: "clear_names N \<Longrightarrow> (s, c) \<in> N \<Longrightarrow> (s', c') \<in> N \<Longrightarrow> s @ c = s' @ c' \<Longrightarrow> s = s' \<and> c = c'"
  unfolding clear_names_def inj_on_def by fastforce

lemma bucket_refD:
  assumes "bucket_inv N p H b pb" and "map_of (pb_refs pb) k = Some (j, m)"
  shows "j \<in> set (pb_busy pb)" "m = int (holders H j)" "0 < m" "\<exists>s c. cp_objs p j = new_client b s c \<and> k = s @ c \<and> (s, c) \<in> N"
  using assms by (auto simp: bucket_inv_def ref_ok_def)

lemma bucket_busyD: "bucket_inv N p H b pb \<Longrightarrow> j \<in> set (pb_busy pb) \<Longrightarrow> \<exists>k m. map_of (pb_refs pb) k = Some (j, m)"
  by (simp add: bucket_inv_def)

lemma ref_obj:
  assumes "clear_names N" and "bucket_inv N p H b pb" and "(s, c) \<in> N" and "map_of (pb_refs pb) (s @ c) = Some (j, m)"
  shows "cp_objs p j = new_client b s c"
  using bucket_refD(4) [OF assms(2,4)] clear_eq [OF assms(1,3)] by blast

text \<open>Two keys have different clients.\<close>

lemma refs_apart:
  assumes "bucket_inv N p H b pb" and "map_of (pb_refs pb) k = Some (j, m)" and "map_of (pb_refs pb) k' = Some (j, m')"
  shows "k = k'"
  using bucket_refD(4) [OF assms(1,2)] bucket_refD(4) [OF assms(1,3)] by (auto simp: new_client_def)

text \<open>Another task on a collection in use.\<close>

lemma get_shared_inv:
  assumes "clear_names N" and "pool_inv N p H" and "(s, c) \<in> N" and "map_of (cp_clients p) b = Some pb"
    and "map_of (pb_refs pb) (s @ c) = Some (i, n)"
    and "pb' = pb\<lparr>pb_refs := AList.update (s @ c) (i, n + 1) (pb_refs pb)\<rparr>" and "p' = set_bucket b pb' p"
  shows "pool_inv N p' ((i, b, s, c) # H)"
proof -
  note inv = pool_inv_bucket [OF assms(2,4)]
  have r: "i \<in> set (pb_busy pb)" "n = int (holders H i)" "0 < n" "cp_objs p i = new_client b s c"
    using bucket_refD [OF inv assms(5)] ref_obj [OF assms(1) inv assms(3,5)] by blast+
  have o: "cp_objs p' = cp_objs p" "cp_next p' = cp_next p" "cp_clients p' = AList.update b pb' (cp_clients p)"
    by (simp_all add: assms(7) set_bucket_def)
  have ref: "ref_ok N p' ((i, b, s, c) # H) b pb'"
    unfolding ref_ok_def
  proof (intro allI impI)
    fix k j m
    assume k: "map_of (pb_refs pb') k = Some (j, m)"
    show "j \<in> set (pb_busy pb') \<and> m = int (holders ((i, b, s, c) # H) j) \<and> 0 < m \<and> (\<exists>s c. cp_objs p' j = new_client b s c \<and> k = s @ c \<and> (s, c) \<in> N)"
    proof (cases "k = s @ c")
      case True
      with k r assms(3) show ?thesis by (auto simp: assms(6) o holders_Cons)
    next
      case False
      with k have k': "map_of (pb_refs pb) k = Some (j, m)" by (simp add: assms(6))
      then have "j \<noteq> i" using refs_apart [OF inv] assms(5) False by blast
      with bucket_refD [OF inv k'] show ?thesis by (simp add: assms(6) o holders_Cons)
    qed
  qed
  have busy: "\<exists>k m. map_of (pb_refs pb') k = Some (j, m)" if j: "j \<in> set (pb_busy pb)" for j
  proof -
    obtain k m where k: "map_of (pb_refs pb) k = Some (j, m)" using bucket_busyD [OF inv j] by blast
    show ?thesis by (cases "k = s @ c"; intro exI [of _ k]) (use k assms(5) in \<open>auto simp: assms(6)\<close>)
  qed
  have "bucket_inv N p' ((i, b, s, c) # H) b pb'"
    using inv ref busy by (simp add: bucket_inv_def o assms(6))
  moreover have "held_ok N p' h" if "h \<in> set ((i, b, s, c) # H)" for h
  proof (cases "h = (i, b, s, c)")
    case True
    then show ?thesis using assms(3) r(4) by (simp add: held_ok_def o assms(6))
  next
    case False
    with that have "held_ok N p h" using assms(2) by (simp add: pool_inv_def)
    then show ?thesis using assms(4,5) by (cases h) (auto simp: held_ok_def o assms(6))
  qed
  moreover have "sc_bucket (cp_objs p j) \<noteq> b \<Longrightarrow> cp_objs p' j = cp_objs p j \<and> holders ((i, b, s, c) # H) j = holders H j" for j
    using r(4) by (auto simp: o holders_Cons new_client_def)
  ultimately show ?thesis by (intro step_inv [OF assms(2,4) o(3,2)]) auto
qed

text \<open>The first task on a collection: it takes an idle client.\<close>

lemma get_idle_inv:
  assumes "clear_names N" and "pool_inv N p H" and "(s, c) \<in> N" and "map_of (cp_clients p) b = Some pb"
    and "map_of (pb_refs pb) (s @ c) = None" and "pb_idle pb \<noteq> []" and "i = last (pb_idle pb)"
    and "pb' = pb\<lparr>pb_idle := butlast (pb_idle pb), pb_busy := pb_busy pb @ [i], pb_refs := AList.update (s @ c) (i, 1) (pb_refs pb)\<rparr>"
    and "p' = set_bucket b pb' (select_collection i s c p)"
  shows "pool_inv N p' ((i, b, s, c) # H)"
proof -
  note inv = pool_inv_bucket [OF assms(2,4)]
  have split: "pb_idle pb = butlast (pb_idle pb) @ [i]" using assms(6,7) by simp
  have idle: "i \<in> set (pb_idle pb)" by (subst split) simp
  have h0: "holders H i = 0" by (rule idle_not_held [OF assms(2,4) idle])
  have ib: "sc_bucket (cp_objs p i) = b" using inv idle by (simp add: bucket_inv_def)
  have d: "distinct (butlast (pb_idle pb) @ (pb_busy pb @ [i]))"
    using inv split by (metis (no_types, lifting) bucket_inv_def append_assoc distinct_append distinct_rev rev_append set_append inf_commute set_rev Un_commute)
  have o: "cp_objs p' = (cp_objs p)(i := new_client b s c)" "cp_next p' = cp_next p" "cp_clients p' = AList.update b pb' (cp_clients p)"
    using ib by (cases "cp_objs p i"; simp add: assms(9) set_bucket_def select_collection_def new_client_def)+
  have no_ref: "j \<noteq> i" if "map_of (pb_refs pb) k = Some (j, m)" for k j m
    using bucket_refD(1) [OF inv that] inv idle by (auto simp: bucket_inv_def)
  have ref: "ref_ok N p' ((i, b, s, c) # H) b pb'"
    unfolding ref_ok_def
  proof (intro allI impI)
    fix k j m
    assume k: "map_of (pb_refs pb') k = Some (j, m)"
    show "j \<in> set (pb_busy pb') \<and> m = int (holders ((i, b, s, c) # H) j) \<and> 0 < m \<and> (\<exists>s c. cp_objs p' j = new_client b s c \<and> k = s @ c \<and> (s, c) \<in> N)"
    proof (cases "k = s @ c")
      case True
      with k assms(3) h0 show ?thesis by (auto simp: assms(8) o holders_Cons)
    next
      case False
      with k have k': "map_of (pb_refs pb) k = Some (j, m)" by (simp add: assms(8))
      from bucket_refD [OF inv k'] no_ref [OF k'] show ?thesis by (simp add: assms(8) o holders_Cons)
    qed
  qed
  have busy: "\<exists>k n. map_of (pb_refs pb') k = Some (j, n)" if "j \<in> set (pb_busy pb')" for j
  proof (cases "j = i")
    case False
    with that obtain k n where "map_of (pb_refs pb) k = Some (j, n)" using inv by (auto simp: bucket_inv_def assms(8))
    then show ?thesis using assms(5) by (intro exI [of _ k]) (auto simp: assms(8))
  qed (auto simp: assms(8))
  have mem: "j < cp_next p' \<and> sc_bucket (cp_objs p' j) = b" if "j \<in> set (pb_idle pb' @ pb_busy pb')" for j
  proof (cases "j = i")
    case True
    then show ?thesis using inv idle by (simp add: o new_client_def bucket_inv_def)
  next
    case False
    with that have "j \<in> set (pb_idle pb @ pb_busy pb)" by (auto simp: assms(8) dest: in_set_butlastD)
    with False inv show ?thesis by (simp add: o bucket_inv_def)
  qed
  have "bucket_inv N p' ((i, b, s, c) # H) b pb'"
    using inv ref busy mem d by (simp add: bucket_inv_def assms(8))
  moreover have "held_ok N p' h" if "h \<in> set ((i, b, s, c) # H)" for h
  proof (cases "h = (i, b, s, c)")
    case True
    then show ?thesis using assms(3) by (simp add: held_ok_def o assms(8))
  next
    case False
    obtain j b' s' c' where h: "h = (j, b', s', c')" by (cases h)
    from False that have hin: "(j, b', s', c') \<in> set H" by (auto simp: h)
    have j: "j \<noteq> i" using h0 holders_pos [OF hin] by auto
    have "held_ok N p h" using hin assms(2) by (simp add: pool_inv_def h)
    then show ?thesis using j assms(4,5) by (auto simp: held_ok_def o assms(8) h)
  qed
  moreover have "sc_bucket (cp_objs p j) \<noteq> b \<Longrightarrow> cp_objs p' j = cp_objs p j \<and> holders ((i, b, s, c) # H) j = holders H j" for j
    using ib by (auto simp: o holders_Cons)
  ultimately show ?thesis by (intro step_inv [OF assms(2,4) o(3,2)]) auto
qed

lemma get_inv:
  assumes "clear_names N" and "pool_inv N p H" and "(s, c) \<in> N" and "get_client_for_bucket b s c p = Some (Inr (Some i), p')"
  shows "pool_inv N p' ((i, b, s, c) # H)"
  using assms(4) get_shared_inv [OF assms(1-3)] get_idle_inv [OF assms(1-3)]
  by (auto simp: get_client_for_bucket_def Let_def split: option.splits if_splits)

text \<open>A release by one of several tasks.\<close>

lemma release_shared_inv:
  assumes "clear_names N" and "pool_inv N p H" and "(i, b, s, c) \<in> set H" and "map_of (cp_clients p) b = Some pb"
    and "map_of (pb_refs pb) (s @ c) = Some (i, n)" and "n \<noteq> 1"
    and "pb' = pb\<lparr>pb_refs := AList.update (s @ c) (i, n - 1) (pb_refs pb)\<rparr>" and "p' = set_bucket b pb' p"
  shows "pool_inv N p' (remove1 (i, b, s, c) H)"
proof -
  note inv = pool_inv_bucket [OF assms(2,4)]
  have N: "(s, c) \<in> N" "cp_objs p i = new_client b s c" using pool_inv_held [OF assms(2,3)] by (auto simp: held_ok_def)
  note r = bucket_refD [OF inv assms(5)]
  have o: "cp_objs p' = cp_objs p" "cp_next p' = cp_next p" "cp_clients p' = AList.update b pb' (cp_clients p)"
    by (simp_all add: assms(8) set_bucket_def)
  note hr = holders_remove [OF assms(3)]
  have ref: "ref_ok N p' (remove1 (i, b, s, c) H) b pb'"
    unfolding ref_ok_def
  proof (intro allI impI)
    fix k j m
    assume k: "map_of (pb_refs pb') k = Some (j, m)"
    show "j \<in> set (pb_busy pb') \<and> m = int (holders (remove1 (i, b, s, c) H) j) \<and> 0 < m \<and>
      (\<exists>s c. cp_objs p' j = new_client b s c \<and> k = s @ c \<and> (s, c) \<in> N)"
    proof (cases "k = s @ c")
      case True
      have "int (holders (remove1 (i, b, s, c) H) i) = n - 1" using r(2,3) hr [of i] by simp
      with True k r(1-3) N assms(6) show ?thesis by (auto simp: assms(7) o)
    next
      case False
      with k have k': "map_of (pb_refs pb) k = Some (j, m)" by (simp add: assms(7))
      then have "j \<noteq> i" using refs_apart [OF inv] assms(5) False by blast
      with bucket_refD [OF inv k'] show ?thesis by (simp add: assms(7) o hr)
    qed
  qed
  have busy: "\<exists>k m. map_of (pb_refs pb') k = Some (j, m)" if j: "j \<in> set (pb_busy pb)" for j
  proof -
    obtain k m where k: "map_of (pb_refs pb) k = Some (j, m)" using bucket_busyD [OF inv j] by blast
    show ?thesis by (cases "k = s @ c"; intro exI [of _ k]) (use k assms(5) in \<open>auto simp: assms(7)\<close>)
  qed
  have "bucket_inv N p' (remove1 (i, b, s, c) H) b pb'"
    using inv ref busy by (simp add: bucket_inv_def o assms(7))
  moreover have "held_ok N p' h" if "h \<in> set (remove1 (i, b, s, c) H)" for h
  proof -
    have "h \<in> set H" by (rule in_remove1 [OF that])
    then have "held_ok N p h" using assms(2) by (simp add: pool_inv_def)
    then show ?thesis using assms(4,5) by (cases h) (auto simp: held_ok_def o assms(7))
  qed
  moreover have "sc_bucket (cp_objs p j) \<noteq> b \<Longrightarrow> cp_objs p' j = cp_objs p j \<and> holders (remove1 (i, b, s, c) H) j = holders H j" for j
    using N(2) by (auto simp: o hr new_client_def)
  ultimately show ?thesis by (intro step_inv [OF assms(2,4) o(3,2)]) auto
qed

text \<open>A release by the last task.\<close>

lemma release_last_inv:
  assumes "clear_names N" and "pool_inv N p H" and "(i, b, s, c) \<in> set H" and "map_of (cp_clients p) b = Some pb"
    and "map_of (pb_refs pb) (s @ c) = Some (i, 1)"
    and "pb' = pb\<lparr>pb_refs := AList.delete (s @ c) (pb_refs pb), pb_busy := remove1 i (pb_busy pb), pb_idle := pb_idle pb @ [i]\<rparr>"
    and "p' = set_bucket b pb' p"
  shows "pool_inv N p' (remove1 (i, b, s, c) H)"
proof -
  note inv = pool_inv_bucket [OF assms(2,4)]
  have N: "(s, c) \<in> N" "cp_objs p i = new_client b s c" using pool_inv_held [OF assms(2,3)] by (auto simp: held_ok_def)
  note r = bucket_refD [OF inv assms(5)]
  have o: "cp_objs p' = cp_objs p" "cp_next p' = cp_next p" "cp_clients p' = AList.update b pb' (cp_clients p)"
    by (simp_all add: assms(7) set_bucket_def)
  note hr = holders_remove [OF assms(3)]
  have h0: "holders (remove1 (i, b, s, c) H) i = 0" using r(2) by (simp add: hr)
  have old: "map_of (pb_refs pb) k = Some (j, m) \<and> j \<noteq> i \<and> k \<noteq> s @ c" if "map_of (pb_refs pb') k = Some (j, m)" for k j m
    using that refs_apart [OF inv _ assms(5)] by (auto simp: assms(6) split: if_splits)
  have dist: "distinct (pb_busy pb)" "distinct (pb_idle pb)" "set (pb_idle pb) \<inter> set (pb_busy pb) = {}" using inv by (auto simp: bucket_inv_def)
  have ref: "ref_ok N p' (remove1 (i, b, s, c) H) b pb'"
    unfolding ref_ok_def
  proof (intro allI impI)
    fix k j m
    assume "map_of (pb_refs pb') k = Some (j, m)"
    from old [OF this] have a: "map_of (pb_refs pb) k = Some (j, m)" "j \<noteq> i" by blast+
    from a(2) bucket_refD [OF inv a(1)] show "j \<in> set (pb_busy pb') \<and> m = int (holders (remove1 (i, b, s, c) H) j) \<and> 0 < m \<and>
      (\<exists>s c. cp_objs p' j = new_client b s c \<and> k = s @ c \<and> (s, c) \<in> N)"
      by (simp add: assms(6) o hr)
  qed
  have busy: "\<exists>k m. map_of (pb_refs pb') k = Some (j, m)" if "j \<in> set (pb_busy pb')" for j
  proof -
    have j: "j \<in> set (pb_busy pb)" "j \<noteq> i" using that dist(1) by (auto simp: assms(6))
    then obtain k m where k: "map_of (pb_refs pb) k = Some (j, m)" using bucket_busyD [OF inv] by blast
    then have "k \<noteq> s @ c" using assms(5) j(2) by auto
    with k show ?thesis by (intro exI [of _ k] exI [of _ m]) (simp add: assms(6))
  qed
  have "set (pb_idle pb' @ pb_busy pb') \<subseteq> set (pb_idle pb @ pb_busy pb)" using r(1) dist(1) by (auto simp: assms(6))
  then have mem: "\<forall>j \<in> set (pb_idle pb' @ pb_busy pb'). j < cp_next p' \<and> sc_bucket (cp_objs p' j) = b" using inv unfolding bucket_inv_def o by blast
  have "distinct (pb_idle pb' @ pb_busy pb')" using dist r(1) by (auto simp: assms(6))
  moreover have "\<not> pb_locked pb'" using inv by (simp add: bucket_inv_def assms(6))
  ultimately have "bucket_inv N p' (remove1 (i, b, s, c) H) b pb'" using ref busy mem unfolding bucket_inv_def by blast
  moreover have "held_ok N p' h" if h: "h \<in> set (remove1 (i, b, s, c) H)" for h
  proof -
    obtain j b' s' c' where h4: "h = (j, b', s', c')" by (cases h)
    have hin: "h \<in> set H" by (rule in_remove1 [OF h])
    have j: "j \<noteq> i" using h0 holders_pos [of j _ "remove1 (i, b, s, c) H"] h by (auto simp: h4)
    have "held_ok N p h" using hin assms(2) by (simp add: pool_inv_def)
    then show ?thesis using j assms(4,5) by (auto simp: held_ok_def o assms(6) h4)
  qed
  moreover have "sc_bucket (cp_objs p j) \<noteq> b \<Longrightarrow> cp_objs p' j = cp_objs p j \<and> holders (remove1 (i, b, s, c) H) j = holders H j" for j
    using N(2) by (auto simp: o hr new_client_def)
  ultimately show ?thesis by (intro step_inv [OF assms(2,4) o(3,2)]) auto
qed

text \<open>A holder can always release; the pool stays well-formed.\<close>

lemma release_inv:
  assumes "clear_names N" and "pool_inv N p H" and "(i, b, s, c) \<in> set H"
  obtains p' where "release_client i p = Some (Inr (), p')" and "pool_inv N p' (remove1 (i, b, s, c) H)"
proof -
  obtain pb where pb: "map_of (cp_clients p) b = Some pb" "i \<in> set (pb_busy pb)" "map_of (pb_refs pb) (s @ c) = Some (i, int (holders H i))"
    using held_busy [OF assms(2,3)] by blast
  have h: "(s, c) \<in> N" "cp_objs p i = new_client b s c" using pool_inv_held [OF assms(2,3)] by (auto simp: held_ok_def)
  have nl: "\<not> pb_locked pb" using pool_inv_bucket [OF assms(2) pb(1)] by (simp add: bucket_inv_def)
  have nr: "s @ c \<notin> set reserved_keys" using assms(1) h(1) by (auto simp: clear_names_def)
  have sel: "sc_bucket (cp_objs p i) = b" "sc_scope (cp_objs p i) = s" "sc_collection (cp_objs p i) = c" by (simp_all add: h(2) new_client_def)
  show thesis
  proof (cases "holders H i = 1")
    case True
    then have one: "map_of (pb_refs pb) (s @ c) = Some (i, 1)" using pb(3) by simp
    show ?thesis
      by (rule that [OF _ release_last_inv [OF assms pb(1) one refl refl]])
        (simp add: release_client_def Let_def sel pb(1,2) nl nr one)
  next
    case False
    then have "int (holders H i) \<noteq> 1" by simp
    from that [OF _ release_shared_inv [OF assms pb(1,3) this refl refl]] this show ?thesis
      by (simp add: release_client_def Let_def sel pb nl nr)
  qed
qed

lemma run_inv:
  assumes "clear_names N" and "pool_run N p H"
  shows "pool_inv N p H"
  using assms(2)
proof induction
  case (pr_release p H i b s c p')
  from release_inv [OF assms(1) pr_release.IH pr_release.hyps(2)] pr_release.hyps(3) show ?case by (metis Pair_inject option.inject)
qed (use assms(1) new_pool_inv create_inv get_inv in blast)+

section \<open>A run, and names that run together\<close>

definition two_collections :: "(string \<times> string) set" where
  "two_collections = {(''s'', ''c''), (''s'', ''d'')}"

lemma two_collections_clear: "clear_names two_collections"
  by (simp add: clear_names_def two_collections_def reserved_keys_def)

definition one_held :: client_pool where
  "one_held = (case get_client_for_bucket ''b'' ''s'' ''c'' (create_clients ''b'' 1 new_pool) of Some (_, p) \<Rightarrow> p | None \<Rightarrow> new_pool)"

lemma one_held_get: "get_client_for_bucket ''b'' ''s'' ''c'' (create_clients ''b'' 1 new_pool) = Some (Inr (Some 0), one_held)"
  by (simp add: one_held_def get_client_for_bucket_def Let_def create_clients_def new_pool_def dict_get_def empty_bucket_def reserved_keys_def)

lemma one_held_run: "pool_run two_collections one_held [(0, ''b'', ''s'', ''c'')]"
  by (rule pr_get [OF pr_create [OF pr_new] _ one_held_get]) (simp add: two_collections_def)

lemma one_held_bucket: "map_of (cp_clients one_held) ''b'' =
    Some \<lparr>pb_locked = False, pb_idle = [], pb_busy = [0], pb_refs = [(''sc'', (0, 1))]\<rparr>"
  by (simp add: one_held_def get_client_for_bucket_def Let_def create_clients_def new_pool_def dict_get_def empty_bucket_def
      reserved_keys_def set_bucket_def select_collection_def)

text \<open>Scope \<open>a\<close> with collection \<open>bc\<close> and scope \<open>ab\<close> with collection \<open>c\<close> have one key: a task of the second is given the client
  that is set to the first.\<close>

lemma names_run_together:
  "\<exists>p p'. get_client_for_bucket ''b'' ''a'' ''bc'' (create_clients ''b'' 2 new_pool) = Some (Inr (Some 1), p) \<and>
     get_client_for_bucket ''b'' ''ab'' ''c'' p = Some (Inr (Some 1), p') \<and> sc_target (cp_objs p' 1) = (''a'', ''bc'')"
  by (simp add: get_client_for_bucket_def Let_def create_clients_def new_pool_def dict_get_def empty_bucket_def reserved_keys_def
      set_bucket_def select_collection_def target_of_def upt_rec)

text \<open>A collection called \<open>_default\<close> of another scope is not reached: operations go to the bucket's default collection.\<close>

lemma default_collection_ignores_scope: "sc_target (cp_objs (select_collection i s ''_default'' p) i) = (''_default'', ''_default'')"
  by (simp add: select_collection_def target_of_def)

section \<open>Properties\<close>

lemma pool_inv_unheld:
  assumes "pool_inv N p H" and "map_of (cp_clients p) b = Some pb" and "i \<in> set (pb_busy pb)"
  obtains s c where "(i, b, s, c) \<in> set H" and "map_of (pb_refs pb) (s @ c) = Some (i, int (holders H i))"
proof -
  note inv = pool_inv_bucket [OF assms(1,2)]
  obtain k m where k: "map_of (pb_refs pb) k = Some (i, m)" using bucket_busyD [OF inv assms(3)] by blast
  have "holders H i \<noteq> 0" using bucket_refD(2,3) [OF inv k] by simp
  then obtain h where "h \<in> set H" "fst h = i" by (auto simp: holders_def filter_empty_conv)
  then obtain b' s c where h: "(i, b', s, c) \<in> set H" by (metis prod.exhaust_sel)
  from held_busy [OF assms(1) h] have b: "sc_bucket (cp_objs p i) = b'" by blast
  moreover have "sc_bucket (cp_objs p i) = b" using inv assms(3) by (simp add: bucket_inv_def)
  ultimately have h': "(i, b, s, c) \<in> set H" using h by simp
  from held_busy [OF assms(1) h'] assms(2) have "map_of (pb_refs pb) (s @ c) = Some (i, int (holders H i))" by auto
  with that h' show thesis by blast
qed

lemma get_shares:
  assumes "clear_names N" and "pool_inv N p H" and "(i, b, s, c) \<in> set H" and "(s', c') \<in> N"
    and "get_client_for_bucket b s' c' p = Some (Inr (Some j), p')"
  shows "j = i \<longleftrightarrow> s' = s \<and> c' = c"
proof -
  have g: "pool_inv N p' ((j, b, s', c') # H)" by (rule get_inv [OF assms(1,2,4,5)])
  have j: "cp_objs p' j = new_client b s' c'" and i: "cp_objs p' i = new_client b s c"
    using pool_inv_held [OF g] assms(3) by (auto simp: held_ok_def)
  obtain pb where pb: "map_of (cp_clients p) b = Some pb" "map_of (pb_refs pb) (s @ c) = Some (i, int (holders H i))"
    using held_busy [OF assms(2,3)] by blast
  show ?thesis
  proof
    assume "j = i"
    with i j show "s' = s \<and> c' = c" by (simp add: new_client_def)
  next
    assume "s' = s \<and> c' = c"
    with assms(5) pb show "j = i" by (auto simp: get_client_for_bucket_def Let_def split: if_splits)
  qed
qed

text \<open>C6. In every run in which the names of the collections do not run together, a task's client belongs to its bucket and is
  set to the scope and collection the task asked for, another task of the bucket is given the same client exactly when it
  asks for the same collection, and giving it back does not fail.\<close>

theorem pool_clients_never_mixed:
  assumes "clear_names N" and "pool_run N p H" and "(i, b, s, c) \<in> set H"
  shows "cp_objs p i = new_client b s c \<and>
    (\<forall>s' c' j p'. (s', c') \<in> N \<and> get_client_for_bucket b s' c' p = Some (Inr (Some j), p') \<longrightarrow> (j = i \<longleftrightarrow> s' = s \<and> c' = c)) \<and>
    (\<exists>p'. release_client i p = Some (Inr (), p') \<and> pool_run N p' (remove1 (i, b, s, c) H))"
proof -
  have inv: "pool_inv N p H" by (rule run_inv [OF assms(1,2)])
  have "cp_objs p i = new_client b s c" using pool_inv_held [OF inv assms(3)] by (simp add: held_ok_def)
  moreover obtain p' where "release_client i p = Some (Inr (), p')" by (rule release_inv [OF assms(1) inv assms(3)])
  then have "\<exists>p'. release_client i p = Some (Inr (), p') \<and> pool_run N p' (remove1 (i, b, s, c) H)"
    using pr_release [OF assms(2,3)] by blast
  ultimately show ?thesis using get_shares [OF assms(1) inv assms(3)] by blast
qed

lemma all_taken_iff:
  assumes "clear_names N" and "pool_inv N p H" and "(s, c) \<in> N" and "map_of (cp_clients p) b = Some pb"
  shows "(\<forall>i \<in> set (pb_idle pb @ pb_busy pb). \<exists>s' c'. (i, b, s', c') \<in> set H \<and> (s', c') \<noteq> (s, c)) \<longleftrightarrow>
    pb_idle pb = [] \<and> map_of (pb_refs pb) (s @ c) = None" (is "?all \<longleftrightarrow> ?none")
proof
  assume a: ?all
  have "pb_idle pb = []"
  proof (rule ccontr)
    assume "pb_idle pb \<noteq> []"
    then have i: "hd (pb_idle pb) \<in> set (pb_idle pb)" by simp
    with a obtain s' c' where "(hd (pb_idle pb), b, s', c') \<in> set H" by (metis Un_iff set_append)
    from holders_pos [OF this] idle_not_held [OF assms(2) assms(4) i] show False by simp
  qed
  moreover have "map_of (pb_refs pb) (s @ c) = None"
  proof (rule ccontr)
    assume "map_of (pb_refs pb) (s @ c) \<noteq> None"
    then obtain j m where r: "map_of (pb_refs pb) (s @ c) = Some (j, m)" by auto
    have "j \<in> set (pb_busy pb)" by (rule bucket_refD(1) [OF pool_inv_bucket [OF assms(2,4)] r])
    with a obtain s' c' where h: "(j, b, s', c') \<in> set H" "(s', c') \<noteq> (s, c)" by (metis Un_iff set_append)
    have "cp_objs p j = new_client b s' c'" using pool_inv_held [OF assms(2) h(1)] by (simp add: held_ok_def)
    moreover have "cp_objs p j = new_client b s c" by (rule ref_obj [OF assms(1) pool_inv_bucket [OF assms(2,4)] assms(3) r])
    ultimately show False using h(2) by (simp add: new_client_def)
  qed
  ultimately show "pb_idle pb = [] \<and> map_of (pb_refs pb) (s @ c) = None" by simp
next
  assume a: "pb_idle pb = [] \<and> map_of (pb_refs pb) (s @ c) = None"
  show ?all
  proof
    fix i
    assume "i \<in> set (pb_idle pb @ pb_busy pb)"
    with a have "i \<in> set (pb_busy pb)" by simp
    then obtain s' c' where h: "(i, b, s', c') \<in> set H" "map_of (pb_refs pb) (s' @ c') = Some (i, int (holders H i))"
      by (rule pool_inv_unheld [OF assms(2) assms(4)])
    with a have "(s', c') \<noteq> (s, c)" by auto
    with h(1) show "\<exists>s' c'. (i, b, s', c') \<in> set H \<and> (s', c') \<noteq> (s, c)" by blast
  qed
qed

theorem pool_clients_never_mixed_witness:
  "cp_objs one_held 0 = new_client ''b'' ''s'' ''c'' \<and>
    (\<exists>p'. release_client 0 one_held = Some (Inr (), p') \<and> pool_run two_collections p' [])"
  using pool_clients_never_mixed [OF two_collections_clear one_held_run, of 0 "''b''" "''s''" "''c''"] by simp

text \<open>C11. A request for a client is answered unless all clients of the bucket are held by tasks of other collections, and it
  never raises an exception; in particular it is answered whenever no task of the bucket holds a client and there is one.\<close>

theorem pool_request_answered:
  assumes "clear_names N" and "pool_run N p H" and "(s, c) \<in> N" and "map_of (cp_clients p) b = Some pb"
  shows "if \<forall>i \<in> set (pb_idle pb @ pb_busy pb). \<exists>s' c'. (i, b, s', c') \<in> set H \<and> (s', c') \<noteq> (s, c)
    then get_client_for_bucket b s c p = None
    else \<exists>i p'. get_client_for_bucket b s c p = Some (Inr (Some i), p') \<and> pool_run N p' ((i, b, s, c) # H)"
proof -
  have inv: "pool_inv N p H" by (rule run_inv [OF assms(1,2)])
  note binv = pool_inv_bucket [OF inv assms(4)]
  have nl: "\<not> pb_locked pb" using binv by (simp add: bucket_inv_def)
  have nr: "s @ c \<notin> set reserved_keys" using assms(1,3) by (auto simp: clear_names_def)
  have "if pb_idle pb = [] \<and> map_of (pb_refs pb) (s @ c) = None then get_client_for_bucket b s c p = None
    else \<exists>i p'. get_client_for_bucket b s c p = Some (Inr (Some i), p')"
    by (auto simp: get_client_for_bucket_def Let_def assms(4) nl nr split: option.splits)
  then show ?thesis unfolding all_taken_iff [OF assms(1) inv assms(3,4)] using pr_get [OF assms(2,3)] by metis
qed

theorem pool_request_answered_witness:
  "get_client_for_bucket ''b'' ''s'' ''d'' one_held = None \<and>
    (\<exists>i p'. get_client_for_bucket ''b'' ''s'' ''c'' one_held = Some (Inr (Some i), p'))"
  using pool_request_answered [OF two_collections_clear one_held_run _ one_held_bucket, of "''s''" "''d''"]
    pool_request_answered [OF two_collections_clear one_held_run _ one_held_bucket, of "''s''" "''c''"]
  by (auto simp: two_collections_def)

end
