(* ===== verification/Load_Tasks_Props.thy ===== *)
theory Load_Tasks_Props
  imports Load_Tasks Doc_Gen_Props SDK_Pool_Props
begin

text \<open>
  Properties of the loading tasks: splitting a generator gives every document to exactly one sub-task; loading hands every
  document to the client exactly once, whatever the client answers; a task that uses the pool of clients writes to its own
  collection and gives the client back, unless its operation raises.
\<close>

section \<open>Splitting a generator\<close>

lemma upto_glue: "(a::int) \<le> m \<Longrightarrow> m \<le> b \<Longrightarrow> [a..m - 1] @ [m..b - 1] = [a..b - 1]"
  using upto_split1 [of a m "b - 1"] upto_split2 [of a "m - 1" "b - 1"] by (cases "m = b") auto

definition range_end :: "int \<Rightarrow> int \<Rightarrow> int \<Rightarrow> int" where
  "range_end stop r pos = (if stop < pos + r then stop else pos + r)"

lemma py_range_cover: "0 < r \<Longrightarrow> concat (map (\<lambda>pos. [pos..range_end stop r pos - 1]) (py_range a stop r)) = [a..stop - 1]"
proof (induction a stop r rule: py_range.induct)
  case (1 a stop r)
  show ?case
  proof (cases "a < stop")
    case True
    with 1 have "concat (map (\<lambda>pos. [pos..range_end stop r pos - 1]) (py_range a stop r)) = [a..range_end stop r a - 1] @ [a + r..stop - 1]"
      by (subst py_range.simps) simp
    also have "\<dots> = [a..stop - 1]"
      using upto_glue [of a "a + r" stop] True "1.prems" by (auto simp: range_end_def)
    finally show ?thesis .
  qed (simp add: py_range.simps)
qed

lemma py_range_within: "pos \<in> set (py_range a stop r) \<Longrightarrow> a \<le> pos \<and> pos < stop"
proof (induction a stop r rule: py_range.induct)
  case (1 a stop r)
  then show ?case by (subst (asm) (2) py_range.simps) (auto split: if_splits)
qed

lemma partition_gens_eq:
  assumes "gen_range (kg_start g) (kg_end g) pc = Inr r" and "0 < n"
  shows "partition_gens pc n g = Inr (map (\<lambda>pos. partition_gen g (pos, range_end (kg_end g) r pos)) (py_range (kg_start g) (kg_end g) r))"
  using assms unfolding partition_gens_def partition_ranges_def
  by (simp add: batch_init_def range_end_def) (subst rmap_Inr [where g = "partition_gen g"]; simp add: comp_def)

lemma gen_range_pos: "gen_range a b pc = Inr r \<Longrightarrow> 0 < r"
  by (auto simp: gen_range_def split: if_splits)

lemma map_snd_enum: "map (\<lambda>x. f (snd x)) (enumerate k xs) = map f xs"
  by (induction xs arbitrary: k) auto

lemma in_enumerate: "(i, x) \<in> set (enumerate 0 xs) \<Longrightarrow> i < length xs \<and> x = xs ! i"
  by (auto simp: in_set_enumerate_eq)

text \<open>With the clients that \<^verbatim>\<open>async_load_gen_docs\<close> makes, every sub-task finds its client.\<close>

lemma gen_clients_nth:
  assumes "gen_clients pool s c pc g = Inr clients" and "gen_range (kg_start g) (kg_end g) pc = Inr r"
    and "i < length (py_range (kg_start g) (kg_end g) r)"
  shows "py_nth clients (int i) = Inr (if pool then None else Some (target_of s c))"
  using assms by (auto simp: gen_clients_def py_nth_def)

lemma get_tasks_ok:
  assumes "gen_range (kg_start g) (kg_end g) pc = Inr r" and "0 < n" and "gen_clients pool s c pc g = Inr clients"
  shows "get_tasks now ident pc n cfg clients g =
    Inr (map (\<lambda>(i, p). (new_load_task (load_task_name ident (cfg_op_type cfg) (ca_durability (cfg_args cfg)) (kg_start p) (kg_end p) (now i))
           p (cfg_exp cfg), cfg\<lparr>cfg_own := if pool then None else Some (target_of s c)\<rparr>))
      (enumerate 0 (map (\<lambda>pos. partition_gen g (pos, range_end (kg_end g) r pos)) (py_range (kg_start g) (kg_end g) r))))"
  unfolding get_tasks_def partition_gens_eq [OF assms(1,2)] rbind_Inr
proof (rule rmap_Inr, safe)
  fix i p
  assume "(i, p) \<in> set (enumerate 0 (map (\<lambda>pos. partition_gen g (pos, range_end (kg_end g) r pos)) (py_range (kg_start g) (kg_end g) r)))"
  from in_enumerate [OF this] have "i < length (py_range (kg_start g) (kg_end g) r)" by simp
  note gen_clients_nth [OF assms(3,1) this]
  then show "rbind (py_nth clients (int i)) (\<lambda>cl. Inr (new_load_task (load_task_name ident (cfg_op_type cfg) (ca_durability (cfg_args cfg)) (kg_start p) (kg_end p) (now i))
       p (cfg_exp cfg), cfg\<lparr>cfg_own := cl\<rparr>)) =
    Inr (new_load_task (load_task_name ident (cfg_op_type cfg) (ca_durability (cfg_args cfg)) (kg_start p) (kg_end p) (now i))
       p (cfg_exp cfg), cfg\<lparr>cfg_own := if pool then None else Some (target_of s c)\<rparr>)"
    by simp
qed

section \<open>Loops that consume batches\<close>

locale batch_consumer =
  fixes good :: "'s \<Rightarrow> bool"
    and left :: "'s \<Rightarrow> string list"
    and has_nxt :: "'s \<Rightarrow> bool"
    and step :: "'s \<Rightarrow> ((raised + unit) \<times> 's) option"
    and sent :: "'s \<Rightarrow> string list"
  assumes has_nxt_iff: "good s \<Longrightarrow> has_nxt s \<longleftrightarrow> left s \<noteq> []"
    and step_ok: "good s \<Longrightarrow> left s \<noteq> [] \<Longrightarrow>
      \<exists>s' k. step s = Some (Inr (), s') \<and> good s' \<and> 0 < k \<and> sent s' = sent s @ take k (left s) \<and> left s' = drop k (left s)"
begin

lemma load_all_sends:
  "good s \<Longrightarrow> \<exists>s'. load_all has_nxt step s = Some (Inr (), s') \<and> good s' \<and> left s' = [] \<and> sent s' = sent s @ left s"
proof (induction "length (left s)" arbitrary: s rule: less_induct)
  case less
  show ?case
  proof (cases "left s = []")
    case True
    then show ?thesis using less.prems has_nxt_iff by (simp add: load_all.simps)
  next
    case False
    obtain s1 k where s1: "step s = Some (Inr (), s1)" "good s1" "0 < k" "sent s1 = sent s @ take k (left s)" "left s1 = drop k (left s)"
      using step_ok [OF less.prems False] by blast
    then have "length (left s1) < length (left s)" using False by simp
    from less.hyps [OF this s1(2)] obtain s' where s': "load_all has_nxt step s1 = Some (Inr (), s')" "good s'" "left s' = []"
      "sent s' = sent s1 @ left s1" by blast
    have "load_all has_nxt step s = Some (Inr (), s')"
      using s' s1(1) False less.prems has_nxt_iff by (subst load_all.simps) simp
    with s' s1 show ?thesis by simp
  qed
qed

end

section \<open>What is handed to the client\<close>

text \<open>A client whose state keeps the calls it got, with the collection of each.\<close>

definition recorded :: "('v, 'p, 'c) sdk \<Rightarrow> ('v, 'p, 'c \<times> ((string \<times> string) \<times> ('v, 'p) bulk_call) list) sdk" where
  "recorded sdk col call c = (case sdk col call (fst c) of (r, c') \<Rightarrow> (r, c', snd c @ [(col, call)]))"

fun call_writes :: "('v, 'p) bulk_call \<Rightarrow> string list" where
  "call_writes (BulkInsert items _) = map fst items"
| "call_writes (BulkUpsert items _) = map fst items"
| "call_writes (BulkReplace items _) = map fst items"
| "call_writes (BulkDelete ks _) = ks"
| "call_writes (BulkTouch ks _ _ _) = ks"
| "call_writes (BulkSubDoc items _) = map fst items"
| "call_writes _ = []"

definition log_writes :: "((string \<times> string) \<times> ('v, 'p) bulk_call) list \<Rightarrow> string list" where
  "log_writes log = concat (map (call_writes \<circ> snd) log)"

lemma log_writes_simps [simp]: "log_writes [] = []" "log_writes ((col, call) # log) = call_writes call @ log_writes log"
  "log_writes (log @ log') = log_writes log @ log_writes log'"
  by (simp_all add: log_writes_def)

lemma bulk_recorded: "snd (snd (bulk (recorded sdk) col call f c)) = snd c @ [(col, call)]"
  by (simp add: bulk_def recorded_def split: prod.splits)

lemma batch_read_recorded: "snd (snd (batch_read (recorded sdk) (Some col) ks a c)) = snd c @ [(col, BulkGet ks (get_read_options a))]"
  by (simp add: batch_read_def on_client_def get_multi_def bulk_recorded)

text \<open>A batch of writes hands over its documents once, and besides them only a read of failed ones.\<close>

definition handed where
  "handed col ks c c' \<longleftrightarrow>
     log_writes (snd c') = log_writes (snd c) @ ks \<and> fst ` set (snd c') \<subseteq> insert col (fst ` set (snd c))"

lemma batch_write_recorded:
  assumes "\<And>c. snd (snd (multi (recorded sdk) col kv a c)) = snd c @ [(col, W)]" and "call_writes W = map fst kv"
  shows "handed col (map fst kv) c (snd (batch_write (recorded sdk) multi same (Some col) kv a skip c))"
proof -
  obtain r c1 where w: "multi (recorded sdk) col kv a c = (r, c1)" by (cases "multi (recorded sdk) col kv a c")
  with assms(1) [of c] have c1: "snd c1 = snd c @ [(col, W)]" by simp
  obtain c' where c': "snd (batch_write (recorded sdk) multi same (Some col) kv a skip c) = c'" by blast
  have "c' = c1 \<or> (\<exists>ks. c' = snd (batch_read (recorded sdk) (Some col) ks a c1))"
    unfolding c' [symmetric] batch_write_def on_client_def
    by (auto simp: w split: sum.splits prod.splits if_splits) (metis snd_conv)+
  then show ?thesis by (auto simp: c' handed_def c1 batch_read_recorded assms(2))
qed

lemma batch_create_recorded: "handed col (map fst kv) c (snd (batch_create (recorded sdk) (Some col) kv a skip c))"
  unfolding batch_create_def by (rule batch_write_recorded) (simp add: set_multi_def bulk_recorded)+

lemma batch_update_recorded: "handed col (map fst kv) c (snd (batch_update (recorded sdk) dict_eq (Some col) kv a skip c))"
  unfolding batch_update_def by (rule batch_write_recorded) (simp add: upsert_multi_def bulk_recorded)+

lemma batch_replace_recorded: "handed col (map fst kv) c (snd (batch_replace (recorded sdk) (Some col) kv a skip c))"
  unfolding batch_replace_def by (rule batch_write_recorded) (simp add: replace_multi_def bulk_recorded)+

section \<open>One task\<close>

definition is_write :: "string \<Rightarrow> bool" where
  "is_write op_type \<longleftrightarrow> op_type \<in> set [''create'', ''update'', ''replace'']"

text \<open>A task that writes with a client of its own.\<close>

definition own_writer :: "task_config \<Rightarrow> string \<times> string \<Rightarrow> bool" where
  "own_writer cfg col \<longleftrightarrow> is_write (cfg_op_type cfg) \<and> \<not> cfg_pool cfg \<and> cfg_own cfg = Some col \<and> \<not> cfg_random_exp cfg"

lemma load_op_writes:
  assumes "is_write (cfg_op_type cfg)" and cl: "client_col cfg t w = Some col"
  shows "\<exists>f c'. load_op (recorded sdk) dict_eq cfg kv t w = (Inr (), add_fail cfg f t, w\<lparr>wo_conn := c'\<rparr>) \<and>
    handed col (map fst kv) (wo_conn w) c'"
proof -
  let ?a = "(cfg_args cfg)\<lparr>ca_exp := lt_exp t\<rparr>" and ?skip = "cfg_skip_read_on_error cfg" and ?c = "wo_conn w"
  consider "cfg_op_type cfg = ''create''" | "cfg_op_type cfg = ''update''" | "cfg_op_type cfg = ''replace''"
    using assms(1) by (auto simp: is_write_def)
  then show ?thesis
  proof cases
    case 1
    with batch_create_recorded [of col kv ?c sdk ?a ?skip] show ?thesis
      by (cases "batch_create (recorded sdk) (Some col) kv ?a ?skip ?c") (auto simp: load_op_def Let_def cl)
  next
    case 2
    with batch_update_recorded [of col kv ?c sdk dict_eq ?a ?skip] show ?thesis
      by (cases "batch_update (recorded sdk) dict_eq (Some col) kv ?a ?skip ?c") (auto simp: load_op_def Let_def cl)
  next
    case 3
    with batch_replace_recorded [of col kv ?c sdk ?a ?skip] show ?thesis
      by (cases "batch_replace (recorded sdk) (Some col) kv ?a ?skip ?c") (auto simp: load_op_def Let_def cl)
  qed
qed

text \<open>Between two batches: the generator is usable, the task is as \<^verbatim>\<open>call\<close> left it, all calls went to \<open>col\<close> and as many
  documents are counted as were handed over since the log had \<open>base\<close> of them.\<close>

definition writing where
  "writing col ini base s \<longleftrightarrow> docgen_ok (gt_generator (fst s)) \<and>
     tk_name (fst s) = tk_name ini \<and> tk_exception (fst s) = tk_exception ini \<and> gt_itr_count (fst s) = gt_itr_count ini \<and>
     gt_stop_loading (fst s) = gt_stop_loading ini \<and>
     fst ` set (snd (wo_conn (snd s))) \<subseteq> {col} \<and> gt_docs_loaded (fst s) + base = length (log_writes (snd (wo_conn (snd s))))"

lemma load_next_writes:
  assumes "own_writer cfg col" and "writing col ini base s" and "docgen_keys r (gt_generator (fst s)) \<noteq> []"
  shows "\<exists>s'. load_next (recorded sdk) dict_eq draw (batched_ops jo r n) cfg s = Some (Inr (), s') \<and> writing col ini base s' \<and>
    log_writes (snd (wo_conn (snd s'))) = log_writes (snd (wo_conn (snd s))) @ take n (docgen_keys r (gt_generator (fst s))) \<and>
    docgen_keys r (gt_generator (fst s')) = drop n (docgen_keys r (gt_generator (fst s)))"
proof -
  obtain t w where s: "s = (t, w)" by (cases s)
  have ok: "docgen_ok (gt_generator t)" using assms(2) by (simp add: writing_def s)
  obtain kv g where b: "go_next_batch (batched_ops jo r n) (skip_doc_gen_value (cfg_op_type cfg)) (gt_generator t) = Inr (kv, g)"
    "docgen_ok g" "map fst kv = take n (docgen_keys r (gt_generator t))" "docgen_keys r g = drop n (docgen_keys r (gt_generator t))"
    using dg.next_batch_keys [OF ok, where n = n and deep = kg_deep_copy and jo = jo and skip = "skip_doc_gen_value (cfg_op_type cfg)" and v = "DText []" and r = r]
    by (auto simp: batched_ops_def)
  let ?t = "t\<lparr>gt_generator := g\<rparr>"
  have op: "is_write (cfg_op_type cfg)" and cl: "client_col cfg ?t w = Some col"
    using assms(1) by (simp_all add: client_col_def own_writer_def)
  obtain f c' where l: "load_op (recorded sdk) dict_eq cfg kv ?t w = (Inr (), add_fail cfg f ?t, w\<lparr>wo_conn := c'\<rparr>)"
    "handed col (map fst kv) (wo_conn w) c'" using load_op_writes [OF op cl] by metis
  have own: "\<not> cfg_pool cfg" "\<not> cfg_random_exp cfg" using assms(1) by (simp_all add: own_writer_def)
  let ?t' = "(add_fail cfg f ?t)\<lparr>gt_docs_loaded := gt_docs_loaded (add_fail cfg f ?t) + length kv\<rparr>"
  have "load_next (recorded sdk) dict_eq draw (batched_ops jo r n) cfg s = Some (Inr (), ?t', w\<lparr>wo_conn := c'\<rparr>)"
    by (simp add: load_next_def Let_def s b(1) take_client_def give_client_def own l(1))
  moreover have "writing col ini base (?t', w\<lparr>wo_conn := c'\<rparr>)"
    using assms(2) b(2) l(2) by (auto simp: writing_def s add_fail_def handed_def)
  ultimately show ?thesis using b(3,4) l(2) by (auto simp: s add_fail_def handed_def)
qed

interpretation wl: batch_consumer "\<lambda>s. own_writer cfg col \<and> 0 < n \<and> writing col ini base s" "\<lambda>s. docgen_keys r (gt_generator (fst s))"
  "\<lambda>s. go_has_next (batched_ops jo r n) (gt_generator (fst s))"
  "load_next (recorded sdk) dict_eq draw (batched_ops jo r n) cfg" "\<lambda>s. log_writes (snd (wo_conn (snd s)))"
  for cfg col n r jo sdk dict_eq draw ini base
proof (unfold_locales, goal_cases)
  case (1 s)
  then show ?case by (simp add: batched_ops_def writing_def dg.has_nxt_iff [where r = r])
next
  case (2 s)
  with load_next_writes [of cfg col ini base s r sdk dict_eq draw jo n] show ?case by blast
qed

text \<open>One run of \<^verbatim>\<open>call\<close> with one iteration.\<close>

lemma load_documents_once:
  assumes "own_writer cfg col" and "0 < n" and "cfg_iterations cfg = 1" and "docgen_ok g" and "fst ` set (snd (wo_conn w)) \<subseteq> {col}"
    and "t = new_load_task name g e"
  shows "\<exists>t' w'. load_documents (\<lambda>_. False) message (recorded sdk) dict_eq draw (batched_ops jo r n) cfg t w = Some (Inr (), t', w') \<and>
    tk_completed t' \<and> tk_exception t' = None \<and> tk_name t' = name \<and> gt_docs_loaded t' = length (docgen_keys r (kvgen_reset g)) \<and>
    fst ` set (snd (wo_conn w')) \<subseteq> {col} \<and> log_writes (snd (wo_conn w')) = log_writes (snd (wo_conn w)) @ docgen_keys r (kvgen_reset g)"
proof -
  let ?t = "next_iteration (batched_ops jo r n) cfg (start_task t)" and ?base = "length (log_writes (snd (wo_conn w)))"
  let ?has = "\<lambda>s. go_has_next (batched_ops jo r n) (gt_generator (fst s))"
  let ?nxt = "load_next (recorded sdk) dict_eq draw (batched_ops jo r n) cfg"
  have stop: "gt_stop_loading ?t" using assms(3,6) by (simp add: next_iteration_def new_load_task_def start_task_def Let_def)
  have gen: "gt_generator ?t = kvgen_reset g" by (simp add: next_iteration_def Let_def assms(6) new_load_task_def start_task_def batched_ops_def)
  have "gt_docs_loaded ?t = 0" by (simp add: next_iteration_def Let_def assms(6) new_load_task_def start_task_def)
  moreover have "docgen_ok (kvgen_reset g)" using assms(4) by (simp add: docgen_ok_def kvgen_reset_def)
  ultimately have "writing col ?t ?base (?t, w)" using assms(5) by (simp add: writing_def gen)
  then obtain t1 w1 where r: "load_all ?has ?nxt (?t, w) = Some (Inr (), t1, w1)" "writing col ?t ?base (t1, w1)"
    "log_writes (snd (wo_conn w1)) = log_writes (snd (wo_conn w)) @ docgen_keys r (kvgen_reset g)"
    using wl.load_all_sends [where r = r and jo = jo and sdk = sdk and dict_eq = dict_eq and draw = draw and ini = ?t and base = ?base and s = "(?t, w)" and cfg = cfg and col = col and n = n]
      assms(1,2) gen by auto
  have "gt_stop_loading t1" using r(2) stop by (simp add: writing_def)
  then have l: "load_loop (\<lambda>_. False) message (batched_ops jo r n) cfg ?nxt (t1, w1) = Some (Inr (), complete_task t1, w1)"
    by (subst load_loop.simps) simp
  have "load_documents (\<lambda>_. False) message (recorded sdk) dict_eq draw (batched_ops jo r n) cfg t w = Some (Inr (), complete_task t1, w1)"
    unfolding load_documents_def generic_call_def
    by (subst load_loop.simps) (simp add: r(1) l, simp add: assms(6) new_load_task_def start_task_def)
  moreover have "tk_exception ?t = None" "tk_name ?t = name" by (simp_all add: next_iteration_def Let_def assms(6) new_load_task_def start_task_def)
  ultimately show ?thesis using r(2,3) by (simp add: writing_def complete_task_def)
qed

section \<open>All sub-tasks of a generator\<close>

definition fresh_task where
  "fresh_task col tc \<longleftrightarrow> own_writer (snd tc) col \<and> cfg_iterations (snd tc) = 1 \<and>
     (\<exists>name g e. fst tc = new_load_task name g e \<and> docgen_ok g)"

lemma run_tasks_once:
  assumes "0 < n" and "\<forall>tc \<in> set ts. fresh_task col tc" and "fst ` set (snd (wo_conn w)) \<subseteq> {col}"
  shows "\<exists>rs w'. run_tasks (\<lambda>sub cfg. load_documents (\<lambda>_. False) message (recorded sdk) dict_eq draw (batched_ops jo r n) cfg sub) ts w = Some (rs, w') \<and>
    list_all2 (\<lambda>tc (res, t'). res = Inr () \<and> tk_completed t' \<and> tk_name t' = tk_name (fst tc)) ts rs \<and>
    fst ` set (snd (wo_conn w')) \<subseteq> {col} \<and>
    log_writes (snd (wo_conn w')) = log_writes (snd (wo_conn w)) @ concat (map (\<lambda>tc. docgen_keys r (kvgen_reset (gt_generator (fst tc)))) ts)"
  using assms(2,3)
proof (induction ts arbitrary: w)
  case (Cons tc ts)
  obtain t cfg where tc: "tc = (t, cfg)" by (cases tc)
  with Cons.prems(1) obtain name g e where f: "own_writer cfg col" "cfg_iterations cfg = 1" "t = new_load_task name g e" "docgen_ok g"
    by (auto simp: fresh_task_def)
  obtain t1 w1 where one: "load_documents (\<lambda>_. False) message (recorded sdk) dict_eq draw (batched_ops jo r n) cfg t w = Some (Inr (), t1, w1)"
    "tk_completed t1" "tk_name t1 = name" "fst ` set (snd (wo_conn w1)) \<subseteq> {col}"
    "log_writes (snd (wo_conn w1)) = log_writes (snd (wo_conn w)) @ docgen_keys r (kvgen_reset g)"
    using load_documents_once [OF f(1) assms(1) f(2,4) Cons.prems(2) f(3)] by blast
  from Cons.IH [OF _ one(4)] Cons.prems(1) obtain rs w' where rest:
    "run_tasks (\<lambda>sub cfg. load_documents (\<lambda>_. False) message (recorded sdk) dict_eq draw (batched_ops jo r n) cfg sub) ts w1 = Some (rs, w')"
    "list_all2 (\<lambda>tc (res, t'). res = Inr () \<and> tk_completed t' \<and> tk_name t' = tk_name (fst tc)) ts rs"
    "fst ` set (snd (wo_conn w')) \<subseteq> {col}"
    "log_writes (snd (wo_conn w')) = log_writes (snd (wo_conn w1)) @ concat (map (\<lambda>tc. docgen_keys r (kvgen_reset (gt_generator (fst tc)))) ts)"
    by auto
  have g: "gt_generator t = g" "tk_name t = name" by (simp_all add: f(3) new_load_task_def)
  show ?case using one rest by (auto simp: tc g)
qed simp

text \<open>The rate of operations is printed while the tasks run, and the statistics of the bucket are as before.\<close>

lemma manage_stats_balanced:
  assumes "map_of d b = Some st" and "stats_inv st"
  shows "\<exists>d1. manage_stats ''start'' (if rate then [b] else []) d = Inr d1 \<and>
    (\<exists>d2 st'. manage_stats ''stop'' (if rate then [b] else []) d1 = Inr d2 \<and> map_of d2 b = Some st' \<and> stats_inv st' \<and>
       bs_task_count st' = bs_task_count st)"
proof (cases rate)
  case True
  obtain s1 where s1: "manage_task ''start'' st = Inr s1" "stats_inv s1" "bs_task_count s1 = bs_task_count st + 1"
    using manage_task_step [of st "''start''"] assms(2) by auto
  moreover have "0 < bs_task_count s1" using s1(3) assms(2) by (simp add: stats_inv_def)
  ultimately obtain s2 where s2: "manage_task ''stop'' s1 = Inr s2" "stats_inv s2" "bs_task_count s2 = bs_task_count st"
    using manage_task_step [of s1 "''stop''"] by auto
  then show ?thesis using assms(1) s1(1) True by (simp add: manage_stats_def dict_lookup_def)
qed (use assms in \<open>simp add: manage_stats_def\<close>)

lemma collect_keeps: "gs_stats (collect_result track sub t) = gs_stats t" "tk_exception (collect_result track sub t) = tk_exception t"
  by (simp_all add: collect_result_def Let_def split: option.splits)

lemma fold_collect_keeps: "gs_stats (fold (\<lambda>(_, sub). collect_result track sub) rs t) = gs_stats t"
  by (induction rs arbitrary: t) (auto simp: collect_keeps)

text \<open>The keys of the parts, in order, are the keys of the whole.\<close>

lemma parts_keys:
  assumes "kg_name g \<noteq> ''random_keys''" and "\<not> kg_mix_key_size g" and "0 < r"
  shows "concat (map (\<lambda>pos. docgen_keys rg (kvgen_reset (partition_gen g (pos, range_end (kg_end g) r pos)))) (py_range (kg_start g) (kg_end g) r)) =
    map (kv_next_key g) [kg_start g..kg_end g - 1]"
proof -
  have "docgen_keys rg (kvgen_reset (partition_gen g (a, b))) = map (kv_next_key g) [a..b - 1]" for a b
    using docgen_keys_plain [of "kvgen_reset (partition_gen g (a, b))" rg] assms(1,2)
    by (simp add: kvgen_reset_def partition_gen_def) (simp add: kv_next_key_def)
  then have "concat (map (\<lambda>pos. docgen_keys rg (kvgen_reset (partition_gen g (pos, range_end (kg_end g) r pos)))) (py_range (kg_start g) (kg_end g) r)) =
    map (kv_next_key g) (concat (map (\<lambda>pos. [pos..range_end (kg_end g) r pos - 1]) (py_range (kg_start g) (kg_end g) r)))"
    by (simp add: map_concat comp_def)
  then show ?thesis by (simp add: py_range_cover [OF assms(3)])
qed

lemma generator_tasks:
  fixes g :: "'t docgen"
  assumes "is_write (cfg_op_type cfg)" and "\<not> cfg_pool cfg" and "\<not> cfg_random_exp cfg" and "cfg_iterations cfg = 1"
    and "docgen_ok g" and "kg_name g \<noteq> ''random_keys''" and "\<not> kg_mix_key_size g"
    and "0 < n" and "gen_clients False s c pc g = Inr clients"
  obtains ts :: "(('t docgen, 't docval, 'p) load_task \<times> task_config) list"
    where "get_tasks now ident pc n cfg clients g = Inr ts" and "\<forall>tc \<in> set ts. fresh_task (target_of s c) tc"
      and "concat (map (\<lambda>tc. docgen_keys r (kvgen_reset (gt_generator (fst tc)))) ts) = map (kv_next_key g) [kg_start g..kg_end g - 1]"
proof -
  obtain rg where rg: "gen_range (kg_start g) (kg_end g) pc = Inr rg" using assms(9) by (auto simp: gen_clients_def rbind_eq_Inr)
  define ps where "ps = map (\<lambda>pos. partition_gen g (pos, range_end (kg_end g) rg pos)) (py_range (kg_start g) (kg_end g) rg)"
  define ts :: "(('t docgen, 't docval, 'p) load_task \<times> task_config) list" where "ts = map (\<lambda>(i, p). (new_load_task (load_task_name ident (cfg_op_type cfg) (ca_durability (cfg_args cfg)) (kg_start p) (kg_end p) (now i))
           p (cfg_exp cfg), cfg\<lparr>cfg_own := Some (target_of s c)\<rparr>)) (enumerate 0 ps)"
  have tasks: "get_tasks now ident pc n cfg clients g = Inr ts"
    using get_tasks_ok [OF rg assms(8,9), of now ident cfg] by (simp add: ts_def ps_def)
  have fresh: "\<forall>tc \<in> set ts. fresh_task (target_of s c) tc"
  proof
    fix tc
    assume "tc \<in> set ts"
    then obtain i p where p: "(i, p) \<in> set (enumerate 0 ps)" "fst tc = new_load_task (load_task_name ident (cfg_op_type cfg) (ca_durability (cfg_args cfg)) (kg_start p) (kg_end p) (now i))
           p (cfg_exp cfg)" "snd tc = cfg\<lparr>cfg_own := Some (target_of s c)\<rparr>" by (auto simp: ts_def)
    from in_enumerate [OF p(1)] have "p \<in> set ps" by auto
    then have "docgen_ok p" using assms(5) by (auto simp: ps_def docgen_ok_def partition_gen_def)
    moreover have "own_writer (snd tc) (target_of s c)" "cfg_iterations (snd tc) = 1" using assms(1-4) by (simp_all add: own_writer_def p(3))
    ultimately show "fresh_task (target_of s c) tc" using p(2) unfolding fresh_task_def by blast
  qed
  have keys: "concat (map (\<lambda>tc. docgen_keys r (kvgen_reset (gt_generator (fst tc)))) ts) = map (kv_next_key g) [kg_start g..kg_end g - 1]"
  proof -
    have "map (\<lambda>tc. docgen_keys r (kvgen_reset (gt_generator (fst tc)))) ts = map (\<lambda>p. docgen_keys r (kvgen_reset p)) ps"
      unfolding ts_def by (simp add: comp_def case_prod_beta new_load_task_def) (rule map_snd_enum [where f = "\<lambda>p. docgen_keys r (kvgen_reset p)"])
    then show ?thesis using parts_keys [OF assms(6,7) gen_range_pos [OF rg], of r] by (simp add: ps_def comp_def)
  qed
  show thesis by (rule that [OF tasks fresh keys])
qed


text \<open>A client that raises in every call.\<close>

definition broken_sdk :: "('v, 'p, unit) sdk" where
  "broken_sdk col call c = (Inl RuntimeError, c)"

definition create_config :: task_config where
  "create_config = \<lparr>cfg_op_type = ''create'', cfg_args = crud_defaults, cfg_bucket = ''b'', cfg_scope = ''_default'', cfg_collection = ''_default'',
     cfg_pool = False, cfg_own = None, cfg_iterations = 1, cfg_track_failures = True, cfg_skip_read_success = False,
     cfg_skip_read_on_error = False, cfg_random_exp = False, cfg_exp = 0\<rparr>"

definition gens_start :: "(unit docval, unit) gens_state" where
  "gens_start = \<lparr>tk_name = ''load'', tk_exception = None, tk_completed = False, tk_started = False, gs_fail = [], gs_success = [],
     gs_stats = [(''b'', new_stats)], gs_manager = \<lparr>tm_futures = []\<rparr>\<rparr>"

definition world_start :: "(unit \<times> ((string \<times> string) \<times> (unit docval, unit) bulk_call) list) world" where
  "world_start = \<lparr>wo_conn = ((), []), wo_pool = new_pool\<rparr>"


section \<open>Tasks that use the pool of clients\<close>

lemma pooled_release:
  assumes "clear_names N" and "pool_run N p H" and "(s, c) \<in> N" and "get_client_for_bucket b s c p = Some (Inr (Some i), p1)"
  obtains p2 where "release_client i p1 = Some (Inr (), p2)" and "pool_run N p2 H" and "sc_target (cp_objs p1 i) = target_of s c"
    and "pool_run N p1 ((i, b, s, c) # H)"
proof -
  have r1: "pool_run N p1 ((i, b, s, c) # H)" by (rule pr_get [OF assms(2-4)])
  have inv: "pool_inv N p1 ((i, b, s, c) # H)" by (rule run_inv [OF assms(1) r1])
  have m: "(i, b, s, c) \<in> set ((i, b, s, c) # H)" by simp
  obtain p2 where p2: "release_client i p1 = Some (Inr (), p2)" by (rule release_inv [OF assms(1) inv m])
  have "pool_run N p2 H" using pr_release [OF r1 m p2] by simp
  moreover have "sc_target (cp_objs p1 i) = target_of s c" using pool_inv_held [OF inv m] by (simp add: held_ok_def new_client_def)
  ultimately show thesis using that p2 r1 by blast
qed


definition pooled_config :: task_config where
  "pooled_config = create_config\<lparr>cfg_pool := True, cfg_scope := ''s'', cfg_collection := ''c''\<rparr>"

definition pooled_world :: "(unit \<times> ((string \<times> string) \<times> (unit, unit) bulk_call) list) world" where
  "pooled_world = \<lparr>wo_conn = ((), []), wo_pool = create_clients ''b'' 1 new_pool\<rparr>"

definition one_doc_ops :: "(unit, unit) gen_ops" where
  "one_doc_ops = \<lparr>go_has_next = (\<lambda>_. True), go_next_batch = (\<lambda>_ g. Inr ([(''k'', ())], g)), go_reset = id\<rparr>"


end
