(* ===== verification/Doc_Validation.thy ===== *)
theory Doc_Validation
  imports Load_Tasks
begin

text \<open>
  The tasks that read documents back and compare them with what the generators say (\<^verbatim>\<open>ValidateDocumentsTask\<close> and
  \<^verbatim>\<open>DocumentsValidatorTask\<close> of \<^verbatim>\<open>lib/Jython_tasks/task.py\<close>).

  \<^item> JSON texts are read by a parameter (\<open>val_ops\<close>), which also gives the field \<open>mutated\<close> of a document and the texts of
    messages. \<open>'v\<close> are values as the generator makes them, \<open>'d\<close> parsed documents.
  \<^item> The attribute \<^verbatim>\<open>exception\<close> is raised as \<open>Raised\<close> of its text.
\<close>

record ('v, 'd) val_ops =
  vo_text :: "'v \<Rightarrow> string"
  vo_loads :: "string \<Rightarrow> 'd res"
  vo_mutated :: "'d \<Rightarrow> int res"
  vo_put_mutated :: "int \<Rightarrow> 'd \<Rightarrow> 'd"
  vo_wrong :: "string \<Rightarrow> 'd \<Rightarrow> 'd \<Rightarrow> string"
  vo_list :: "string list \<Rightarrow> string"
  vo_replicas :: "'v replica_doc list \<Rightarrow> string"

record ('g, 'v, 'p) val_task = "'g gen_task" +
  vt_missing :: "string list"
  vt_wrong :: "string list"
  vt_failed_reads :: "('v, 'p) results"

record val_config =
  vc_check_replica :: bool
  vc_replicas :: int
  vc_nodes :: nat
  vc_is_sub_doc :: bool

definition new_val_task :: "string \<Rightarrow> 'g \<Rightarrow> ('g, 'v, 'p) val_task" where
  "new_val_task name g =
     \<lparr>tk_name = name, tk_exception = None, tk_completed = False, tk_started = False, gt_generator = g, gt_docs_loaded = 0,
      gt_itr_count = 0, gt_stop_loading = False, gt_held = None, vt_missing = [], vt_wrong = [], vt_failed_reads = []\<rparr>"

definition DocumentNotFoundException :: string where
  "DocumentNotFoundException = ''com.couchbase.client.core.error.DocumentNotFoundException''"

section \<open>Comparing values\<close>

text \<open>The value read for a key, as JSON: \<^verbatim>\<open>map[key]['value'].toString()\<close>.\<close>

definition entry_text :: "('v, 'd) val_ops \<Rightarrow> ('v, 'p) entry \<Rightarrow> string res" where
  "entry_text vo e =
     (case en_value e of None \<Rightarrow> Inl KeyError | Some REmpty \<Rightarrow> Inl AttributeError | Some (RValue v) \<Rightarrow> Inr (vo_text vo v))"

definition same_mutated :: "('v, 'd) val_ops \<Rightarrow> 'd \<Rightarrow> 'd res" where
  "same_mutated vo d = rbind (vo_mutated vo d) (\<lambda>m. Inr (vo_put_mutated vo m d))"

text \<open>One round of the loop of \<^verbatim>\<open>validate_key_val\<close>. A result without a CAS has no \<^verbatim>\<open>error\<close> either, when it comes from a read.\<close>

definition validate_one ::
  "('v, 'd) val_ops \<Rightarrow> ('v, 'p) results \<Rightarrow> ('v, 'p) results \<Rightarrow> string list \<times> string list \<Rightarrow> string \<times> 'v \<Rightarrow>
   (string list \<times> string list) res" where
  "validate_one vo read failed_reads mw kv =
     (let (key, value) = kv; (missing_keys, wrong_values) = mw in
      case map_of read key of
        Some e \<Rightarrow>
          rbind (vo_loads vo (vo_text vo value)) (\<lambda>expected.
          if en_cas e \<noteq> 0 then
            rbind (entry_text vo e) (\<lambda>txt.
            rbind (vo_loads vo txt) (\<lambda>actual.
            rbind (same_mutated vo actual) (\<lambda>actual'.
            rbind (same_mutated vo expected) (\<lambda>expected'.
            Inr (missing_keys, if expected' = actual' then wrong_values else wrong_values @ [vo_wrong vo key expected' actual'])))))
          else (case en_error e of None \<Rightarrow> Inl KeyError | Some _ \<Rightarrow> Inl AttributeError))
      | None \<Rightarrow>
          (case map_of failed_reads key of
             None \<Rightarrow> Inl KeyError
           | Some f \<Rightarrow>
               rbind (of_option KeyError (en_error f)) (\<lambda>err.
               Inr (if in_str DocumentNotFoundException err then missing_keys @ [key] else missing_keys, wrong_values))))"

definition validate_key_val ::
  "('v, 'd) val_ops \<Rightarrow> ('v, 'p) results \<Rightarrow> ('v, 'p) results \<Rightarrow> (string \<times> 'v) list \<Rightarrow> (string list \<times> string list) res" where
  "validate_key_val vo read failed_reads key_value = rfold (validate_one vo read failed_reads) ([], []) key_value"

section \<open>Reading a batch\<close>

text \<open>With \<^verbatim>\<open>check_replica\<close> every key is read from all replicas; an exception ends the batch (\<open>Inl\<close>).\<close>

definition replica_entry ::
  "('v, 'd) val_ops \<Rightarrow> val_config \<Rightarrow> string \<Rightarrow> 'v replica_doc list \<Rightarrow> ('v, 'p) results \<times> ('v, 'p) results \<Rightarrow>
   (('v, 'p) results \<times> ('v, 'p) results) res" where
  "replica_entry vo vc key docs sf =
     (let (read, failed) = sf in
      if int (length docs) = min (vc_replicas vc + 1) (int (vc_nodes vc)) then
        (case docs of
           [] \<Rightarrow> Inl IndexError
         | d # _ \<Rightarrow> Inr (AList.update key (ok_entry (Some (rd_value d)) (rd_cas d)) read, failed))
      else
        (case docs of
           d # _ \<Rightarrow> Inr (read, AList.update key (fail_entry REmpty (rd_cas d) (vo_replicas vo docs)) failed)
         | [] \<Rightarrow> Inr (read, AList.update key (fail_entry REmpty 0 DocumentNotFoundException) failed)))"

fun replica_reads where
  "replica_reads vo vc get_all cl [] sf c = (Inr sf, c)"
| "replica_reads vo vc get_all cl (key # ks) sf c =
     (case on_client cl (\<lambda>col. get_from_all_replicas get_all col key) c of
        (Inl e, c1) \<Rightarrow> (Inl e, c1)
      | (Inr docs, c1) \<Rightarrow>
          (case replica_entry vo vc key docs sf of
             Inl e \<Rightarrow> (Inl e, c1)
           | Inr sf1 \<Rightarrow> replica_reads vo vc get_all cl ks sf1 c1))"

section \<open>Judging a batch\<close>

definition not_deleted :: "string list \<Rightarrow> string list \<Rightarrow> string list" where
  "not_deleted missing_keys ks =
     (if length missing_keys = length ks then [] else filter (\<lambda>k. k \<notin> set missing_keys) ks)"

definition judge_batch ::
  "('v, 'd) val_ops \<Rightarrow> string \<Rightarrow> string list \<Rightarrow> string list \<times> string list \<Rightarrow> ('g, 'v, 'p) val_task \<Rightarrow> ('g, 'v, 'p) val_task" where
  "judge_batch vo op_type ks mw t =
     (let (missing_keys, wrong_values) = mw in
      if op_type = ''delete'' then
        (let nd = not_deleted missing_keys ks in
         if nd = [] then t
         else t\<lparr>tk_exception := Some (''Keys were not deleted. Keys not deleted: '' @ py_join '','' nd)\<rparr>)
      else
        (let t = (if missing_keys = [] then t
                  else t\<lparr>tk_exception := Some (''Total '' @ nat_str (length missing_keys) @ '' keys missing: '' @ vo_list vo missing_keys),
                         vt_missing := vt_missing t @ missing_keys\<rparr>)
         in if wrong_values = [] then t
            else t\<lparr>tk_exception := Some (''Total '' @ nat_str (length wrong_values) @ '' wrong key-values :: '' @ vo_list vo wrong_values),
                   vt_wrong := vt_wrong t @ wrong_values\<rparr>))"

definition judge where
  "judge vo cfg key_value read s =
     (let t = fst s; w = snd s in
      case validate_key_val vo read (vt_failed_reads t) key_value of
        Inl e \<Rightarrow> Some (Inl (RExc e), t, w)
      | Inr mw \<Rightarrow>
          let t = judge_batch vo (cfg_op_type cfg) (map fst key_value) mw t in
          (case tk_exception t of None \<Rightarrow> Some (Inr (), t, w) | Some m \<Rightarrow> Some (Inl (RExc (Raised m)), t, w)))"

section \<open>The task\<close>

text \<open>\<^verbatim>\<open>next\<close> takes a client and the batch (as a dictionary).\<close>

definition val_batch where
  "val_batch ops cfg s =
     (case take_client cfg (fst s) (snd s) of
        None \<Rightarrow> None
      | Some (Inl e, t, w) \<Rightarrow> Some (Inl (RExc e), t, w)
      | Some (Inr _, t, w) \<Rightarrow>
          (case go_next_batch ops (cfg_op_type cfg = ''delete'') (gt_generator t) of
             Inl e \<Rightarrow> Some (Inl (RExc e), t, w)
           | Inr (kv, g) \<Rightarrow> Some (Inr (dict_update_all [] kv), t\<lparr>gt_generator := g\<rparr>, w)))"

text \<open>For sub-documents the batch is read and nothing is compared: the method returns before its checks.\<close>

definition validate_sub_docs where
  "validate_sub_docs sdk ops cfg s =
     (case val_batch ops cfg s of
        None \<Rightarrow> None
      | Some (Inl r, t, w) \<Rightarrow> Some (Inl r, t, w)
      | Some (Inr kv, t, w) \<Rightarrow>
          (case batch_read sdk (client_col cfg t w) (map fst kv) (cfg_args cfg) (wo_conn w) of
             (Inl e, c) \<Rightarrow> Some (Inl (RExc e), t, w\<lparr>wo_conn := c\<rparr>)
           | (Inr (_, fail), c) \<Rightarrow>
               (case give_client cfg (t\<lparr>vt_failed_reads := fail\<rparr>) (w\<lparr>wo_conn := c\<rparr>) of
                  None \<Rightarrow> None
                | Some (Inl e, t, w) \<Rightarrow> Some (Inl (RExc e), t, w)
                | Some (Inr _, t, w) \<Rightarrow> Some (Inr (), t, w))))"

definition validate_docs where
  "validate_docs message sdk get_all vo ops cfg vc s =
     (case val_batch ops cfg s of
        None \<Rightarrow> None
      | Some (Inl r, t, w) \<Rightarrow> Some (Inl r, t, w)
      | Some (Inr kv, t, w) \<Rightarrow>
          (let cl = client_col cfg t w;
               finish = (\<lambda>read fail c.
                 case give_client cfg (t\<lparr>vt_failed_reads := fail\<rparr>) (w\<lparr>wo_conn := c\<rparr>) of
                   None \<Rightarrow> None
                 | Some (Inl e, t, w) \<Rightarrow> Some (Inl (RExc e), t, w)
                 | Some (Inr _, t, w) \<Rightarrow> judge vo cfg kv read (t, w))
           in if vc_check_replica vc then
                (case replica_reads vo vc get_all cl (map fst kv) ([], []) (wo_conn w) of
                   (Inl e, c) \<Rightarrow> Some (Inr (), t\<lparr>tk_exception := Some (message e)\<rparr>, w\<lparr>wo_conn := c\<rparr>)
                 | (Inr (read, fail), c) \<Rightarrow> finish read fail c)
              else
                (case batch_read sdk cl (map fst kv) (cfg_args cfg) (wo_conn w) of
                   (Inl e, c) \<Rightarrow> Some (Inl (RExc e), t, w\<lparr>wo_conn := c\<rparr>)
                 | (Inr (read, fail), c) \<Rightarrow> finish read fail c)))"

definition val_next where
  "val_next message sdk get_all vo ops cfg vc s =
     (if vc_is_sub_doc vc then validate_sub_docs sdk ops cfg s else validate_docs message sdk get_all vo ops cfg vc s)"

definition validate_documents where
  "validate_documents message sdk get_all vo ops cfg vc t w =
     generic_call (\<lambda>_. False) message ops (cfg\<lparr>cfg_iterations := 1\<rparr>) (val_next message sdk get_all vo ops cfg vc) t w"

section \<open>The task over generators\<close>

definition val_task_name :: "task_config \<Rightarrow> int \<Rightarrow> int \<Rightarrow> string \<Rightarrow> string" where
  "val_task_name cfg start stop now =
     ''ValidateDocumentsTask-'' @ cfg_bucket cfg @ ''_'' @ cfg_scope cfg @ ''_'' @ cfg_collection cfg @ ''_'' @ int_str start @ ''_'' @
     int_str stop @ ''_'' @ cfg_op_type cfg @ ''_'' @ now"

definition get_val_tasks ::
  "(nat \<Rightarrow> string) \<Rightarrow> int \<Rightarrow> int \<Rightarrow> task_config \<Rightarrow> (string \<times> string) option list \<Rightarrow> 'a kvgen_scheme \<Rightarrow>
   (('a kvgen_scheme, 'v, 'p) val_task \<times> task_config) list res" where
  "get_val_tasks now process_concurrency batch_size cfg clients g =
     rbind (partition_gens process_concurrency batch_size g) (\<lambda>gs.
     rmap (\<lambda>(i, p). rbind (py_nth clients (int i)) (\<lambda>cl.
       Inr (new_val_task (val_task_name cfg (kg_start p) (kg_end p) (now i)) p, cfg\<lparr>cfg_own := cl\<rparr>)))
       (enumerate 0 gs))"

text \<open>The first sub-task that raised decides; \<open>raised_text\<close> is the text of what its future gives.\<close>

fun first_raised :: "((raised + unit) \<times> 't) list \<Rightarrow> raised option" where
  "first_raised [] = None"
| "first_raised ((Inl r, _) # rs) = Some r"
| "first_raised ((Inr _, _) # rs) = first_raised rs"

definition validator_call where
  "validator_call raised_text run tasks_of op_types buckets cfg gens t w =
     (case check_lists op_types buckets (length gens) (start_task t) of
        (Inl r, t) \<Rightarrow> Some (Inl r, t, w)
      | (Inr _, t) \<Rightarrow>
          (case all_tasks tasks_of op_types buckets cfg gens of
             Inl e \<Rightarrow> Some (Inl (RExc e), t, w)
           | Inr tasks \<Rightarrow>
               (case run_tasks run tasks w of
                  None \<Rightarrow> None
                | Some (rs, w') \<Rightarrow>
                    (case first_raised rs of
                       Some r \<Rightarrow> (case set_exception (raised_text r) t of (res, t') \<Rightarrow> Some (res, t', w'))
                     | None \<Rightarrow> Some (Inr (), complete_task t, w')))))"

definition documents_validator where
  "documents_validator raised_text message sdk get_all vo ops vc now process_concurrency batch_size clients op_types buckets cfg gens t w =
     validator_call raised_text (\<lambda>sub cfg. validate_documents message sdk get_all vo ops cfg vc sub)
       (\<lambda>cfg. get_val_tasks now process_concurrency batch_size cfg clients) op_types buckets cfg gens t w"

end
