(* ===== verification/Batch_Props.thy ===== *)
theory Batch_Props
  imports Load_Tasks
begin

text \<open>
  Which documents of a batch count as failed. The client's answers are given by their entries; the errors in them have
  messages (without one the client raises a \<^verbatim>\<open>TypeError\<close>).
\<close>

section \<open>Translating answers\<close>

definition ok_ids :: "'v bulk_item list \<Rightarrow> string set" where
  "ok_ids rs = bi_id ` set (filter bi_status rs)"

definition failed_ids :: "'v bulk_item list \<Rightarrow> string set" where
  "failed_ids rs = bi_id ` set (filter (\<lambda>r. \<not> bi_status r) rs)"

lemma error_text_ok: "je_message e \<noteq> None \<Longrightarrow> \<exists>t. error_text e = Inr t"
  by (auto simp: error_text_def)

text \<open>Both kinds of translation file an entry under its own key, with an error exactly among the failures.\<close>

definition files_entry where
  "files_entry f \<longleftrightarrow> (\<forall>r success fail. je_message (bi_error r) \<noteq> None \<longrightarrow>
     (if bi_status r then f r (success, fail) = Inr (AList.update (bi_id r) (ok_entry (Some (bi_content r)) (bi_cas r)) success, fail)
      else \<exists>v e. error_text (bi_error r) = Inr e \<and> f r (success, fail) = Inr (success, AList.update (bi_id r) (fail_entry v (bi_cas r) e) fail)))"

lemma files_entryI:
  assumes "\<And>r success fail. bi_status r \<Longrightarrow> f r (success, fail) = Inr (AList.update (bi_id r) (ok_entry (Some (bi_content r)) (bi_cas r)) success, fail)"
    and "\<And>r success fail t. \<not> bi_status r \<Longrightarrow> error_text (bi_error r) = Inr t \<Longrightarrow>
      f r (success, fail) = Inr (success, AList.update (bi_id r) (fail_entry (v r) (bi_cas r) t) fail)"
  shows "files_entry f"
  unfolding files_entry_def using assms error_text_ok by metis

text \<open>What is filed after the entries \<open>rs\<close>.\<close>

definition filed :: "'v bulk_item list \<Rightarrow> ('v, 'p) results \<Rightarrow> ('v, 'p) results \<Rightarrow> bool" where
  "filed rs success fail \<longleftrightarrow> dict_wf fail \<and> (\<forall>k. dict_has success k \<longleftrightarrow> k \<in> ok_ids rs) \<and> (\<forall>k. dict_has fail k \<longleftrightarrow> k \<in> failed_ids rs) \<and>
     (\<forall>k e. map_of fail k = Some e \<longrightarrow> (\<exists>r \<in> set rs. \<not> bi_status r \<and> bi_id r = k \<and> (\<exists>t. error_text (bi_error r) = Inr t \<and> en_error e = Some t))) \<and>
     (\<forall>k e. map_of success k = Some e \<longrightarrow> (\<exists>r \<in> set rs. bi_status r \<and> bi_id r = k \<and> en_cas e = bi_cas r \<and> en_value e = Some (RValue (bi_content r))))"

lemma ids_snoc: "ok_ids (rs @ [r]) = ok_ids rs \<union> (if bi_status r then {bi_id r} else {})"
  "failed_ids (rs @ [r]) = failed_ids rs \<union> (if bi_status r then {} else {bi_id r})"
  by (auto simp: ok_ids_def failed_ids_def)

lemma filed_ok:
  assumes "filed rs success fail" and "bi_status r"
  shows "filed (rs @ [r]) (AList.update (bi_id r) (ok_entry (Some (bi_content r)) (bi_cas r)) success) fail"
proof -
  have "\<exists>q \<in> set (rs @ [r]). bi_status q \<and> bi_id q = k \<and> en_cas e = bi_cas q \<and> en_value e = Some (RValue (bi_content q))"
    if "map_of (AList.update (bi_id r) (ok_entry (Some (bi_content r)) (bi_cas r)) success) k = Some e" for k e
    using that assms by (cases "k = bi_id r") (auto simp: filed_def ok_entry_def)
  moreover have "\<exists>q \<in> set (rs @ [r]). \<not> bi_status q \<and> bi_id q = k \<and> (\<exists>t. error_text (bi_error q) = Inr t \<and> en_error e = Some t)"
    if "map_of fail k = Some e" for k e using that assms(1) unfolding filed_def by fastforce
  moreover have "dict_wf fail" "\<forall>k. dict_has fail k \<longleftrightarrow> k \<in> failed_ids (rs @ [r])" using assms by (simp_all add: filed_def ids_snoc)
  moreover have "\<forall>k. dict_has (AList.update (bi_id r) (ok_entry (Some (bi_content r)) (bi_cas r)) success) k \<longleftrightarrow> k \<in> ok_ids (rs @ [r])"
    using assms by (auto simp: filed_def ids_snoc)
  ultimately show ?thesis unfolding filed_def by blast
qed

lemma filed_failed:
  assumes "filed rs success fail" and "\<not> bi_status r" and "error_text (bi_error r) = Inr t" and "en_error x = Some t"
  shows "filed (rs @ [r]) success (AList.update (bi_id r) x fail)"
proof -
  have "\<exists>q \<in> set (rs @ [r]). bi_status q \<and> bi_id q = k \<and> en_cas e = bi_cas q \<and> en_value e = Some (RValue (bi_content q))"
    if "map_of success k = Some e" for k e using that assms(1) unfolding filed_def by fastforce
  moreover have "\<exists>q \<in> set (rs @ [r]). \<not> bi_status q \<and> bi_id q = k \<and> (\<exists>t. error_text (bi_error q) = Inr t \<and> en_error e = Some t)"
    if "map_of (AList.update (bi_id r) x fail) k = Some e" for k e
    using that assms by (cases "k = bi_id r") (auto simp: filed_def)
  moreover have "dict_wf (AList.update (bi_id r) x fail)" "\<forall>k. dict_has success k \<longleftrightarrow> k \<in> ok_ids (rs @ [r])" using assms(1,2) by (auto simp: filed_def ids_snoc)
  moreover have "\<forall>k. dict_has (AList.update (bi_id r) x fail) k \<longleftrightarrow> k \<in> failed_ids (rs @ [r])" using assms(1,2) by (auto simp: filed_def ids_snoc)
  ultimately show ?thesis unfolding filed_def by blast
qed

lemma translate_filed:
  assumes "files_entry f" and "\<forall>r \<in> set rs. je_message (bi_error r) \<noteq> None"
  shows "\<exists>success fail. translate_items f (Some rs) = Inr (success, fail) \<and> filed rs success fail"
proof -
  have "\<exists>success fail. rfold (\<lambda>sf r. f r sf) ([], []) rs = Inr (success, fail) \<and> filed rs success fail"
    using assms(2)
  proof (induction rs rule: rev_induct)
    case Nil
    then show ?case by (simp add: filed_def ok_ids_def failed_ids_def dict_has_def)
  next
    case (snoc r rs)
    then obtain success fail where i: "rfold (\<lambda>sf r. f r sf) ([], []) rs = Inr (success, fail)" "filed rs success fail" by auto
    have m: "je_message (bi_error r) \<noteq> None" using snoc.prems by simp
    show ?case
    proof (cases "bi_status r")
      case True
      then have "f r (success, fail) = Inr (AList.update (bi_id r) (ok_entry (Some (bi_content r)) (bi_cas r)) success, fail)"
        using assms(1) m by (simp add: files_entry_def)
      then show ?thesis using i(1) filed_ok [OF i(2) True] by (simp add: rfold_append)
    next
      case False
      then obtain v e where f: "error_text (bi_error r) = Inr e" "f r (success, fail) = Inr (success, AList.update (bi_id r) (fail_entry v (bi_cas r) e) fail)"
        using assms(1) m unfolding files_entry_def by meson
      have "en_error (fail_entry v (bi_cas r) e) = Some e" by (simp add: fail_entry_def)
      from filed_failed [OF i(2) False f(1) this] f(2) i(1) show ?thesis by (simp add: rfold_append)
    qed
  qed
  then show ?thesis by (simp add: translate_items_def)
qed

lemma upsert_files: "\<forall>r \<in> set rs. je_message (bi_error r) \<noteq> None \<Longrightarrow>
    \<exists>success fail. translate_upsert_multi_results (Some rs) = Inr (success, fail) \<and> filed rs success fail"
  unfolding translate_upsert_multi_results_def
  by (rule translate_filed [OF files_entryI [where v = "\<lambda>r. RValue (bi_content r)"]]) simp_all

lemma get_files: "\<forall>r \<in> set rs. je_message (bi_error r) \<noteq> None \<Longrightarrow>
    \<exists>success fail. translate_get_multi_results (Some rs) = Inr (success, fail) \<and> filed rs success fail"
  unfolding translate_get_multi_results_def
  by (rule translate_filed [OF files_entryI [where v = "\<lambda>_. REmpty"]]) simp_all

section \<open>Reading after failures\<close>

definition rescued :: "('v, 'p) results \<Rightarrow> (('v, 'p) entry \<Rightarrow> ('v, 'p) entry \<Rightarrow> bool) \<Rightarrow> ('v, 'p) results \<Rightarrow> string set" where
  "rescued rd same fl = {k. \<exists>f e. (k, f) \<in> set fl \<and> map_of rd k = Some e \<and> en_cas e \<noteq> 0 \<and> same f e}"

lemma rescued_Cons: "rescued rd same ((key, value) # fl) =
    rescued rd same fl \<union> (if \<exists>e. map_of rd key = Some e \<and> en_cas e \<noteq> 0 \<and> same value e then {key} else {})"
  by (auto simp: rescued_def)

lemma rescue_result:
  assumes "\<forall>(k, f) \<in> set fl. en_error f \<noteq> None" and "rescue rd same fl (success, fail) = (success', fail')"
  shows "(dict_has fail' k \<longleftrightarrow> dict_has fail k \<and> k \<notin> rescued rd same fl) \<and> (dict_has success' k \<longleftrightarrow> dict_has success k \<or> k \<in> rescued rd same fl)"
  using assms
proof (induction fl arbitrary: success fail)
  case Nil
  then show ?case by (simp add: rescued_def)
next
  case (Cons p fl)
  obtain key vl where p: "p = (key, vl)" by (cases p)
  have err: "en_error vl \<noteq> None" and rest: "\<forall>(k, f) \<in> set fl. en_error f \<noteq> None" using Cons.prems(1) by (auto simp: p)
  show ?case
  proof (cases "\<exists>e. map_of rd key = Some e \<and> en_cas e \<noteq> 0 \<and> same vl e")
    case True
    then have "rescue rd same fl (AList.update key (vl\<lparr>en_error := None\<rparr>) success, AList.delete key fail) = (success', fail')"
      using Cons.prems(2) err by (auto simp: p)
    from Cons.IH [OF rest this] True show ?thesis unfolding p rescued_Cons by auto
  next
    case False
    then have "rescue rd same fl (success, fail) = (success', fail')" using Cons.prems(2) by (auto simp: p split: option.splits if_splits)
    from Cons.IH [OF rest this] False show ?thesis unfolding p rescued_Cons by auto
  qed
qed

section \<open>Failed writes\<close>

text \<open>A read that is answered truthfully: \<open>db k\<close> is the entry of document \<open>k\<close>.\<close>

definition reads_as :: "('v, 'p, 'c) sdk \<Rightarrow> string \<times> string \<Rightarrow> (string \<Rightarrow> 'v bulk_item) \<Rightarrow> 'c \<Rightarrow> bool" where
  "reads_as sdk col db c \<longleftrightarrow> (\<forall>ks opts. fst (sdk col (BulkGet ks opts) c) = Inr (Some (map db ks))) \<and>
     (\<forall>k. bi_id (db k) = k \<and> je_message (bi_error (db k)) \<noteq> None)"

lemma batch_read_as:
  fixes sdk :: "('v, 'p, 'c) sdk"
  assumes "reads_as sdk col db c"
  obtains success fail c' where "batch_read sdk (Some col) ks a c = (Inr (success, fail), c')" and "filed (map db ks) success fail"
proof -
  obtain c' where s: "sdk col (BulkGet ks (get_read_options a)) c = (Inr (Some (map db ks)), c')"
    using assms unfolding reads_as_def by (metis prod.collapse)
  obtain success fail :: "('v, 'p) results" where "translate_get_multi_results (Some (map db ks)) = Inr (success, fail)" "filed (map db ks) success fail"
    using get_files [of "map db ks"] assms by (auto simp: reads_as_def)
  with s that show thesis by (simp add: batch_read_def on_client_def get_multi_def bulk_def)
qed

lemma filed_read:
  assumes "filed (map db ks) success fail" and "\<forall>k. bi_id (db k) = k" and "k \<in> set ks"
  shows "(\<exists>e. map_of success k = Some e \<and> en_cas e \<noteq> 0) \<longleftrightarrow> bi_status (db k) \<and> bi_cas (db k) \<noteq> 0"
proof -
  have "ok_ids (map db ks) = {k \<in> set ks. bi_status (db k)}" using assms(2) by (force simp: ok_ids_def image_iff)
  then have "dict_has success k \<longleftrightarrow> bi_status (db k)" using assms(1,3) by (simp add: filed_def)
  moreover have "en_cas e = bi_cas (db k)" if "map_of success k = Some e" for e
    using that assms(1,2) unfolding filed_def by fastforce
  ultimately show ?thesis by (auto simp: dict_has_def)
qed

text \<open>The write itself was answered with \<open>rs\<close>; \<open>multi\<close> is one of the client's bulk writes.\<close>

lemma batch_write_result:
  fixes sdk :: "('v, 'p, 'c) sdk"
  assumes "\<And>c. multi sdk col kv a c = bulk sdk col call translate_upsert_multi_results c"
    and "sdk col call c = (Inr (Some rs), c1)" and "\<forall>r \<in> set rs. je_message (bi_error r) \<noteq> None"
    and "reads_as sdk col db c1" and "fst (batch_write sdk multi (\<lambda>_ _. True) (Some col) kv a skip c) = (success, fail)"
  shows "dict_has fail k \<longleftrightarrow> k \<in> failed_ids rs \<and> (skip \<or> \<not> (bi_status (db k) \<and> bi_cas (db k) \<noteq> 0))"
    and "dict_has success k \<longleftrightarrow> k \<in> ok_ids rs \<or> k \<in> failed_ids rs \<and> \<not> skip \<and> bi_status (db k) \<and> bi_cas (db k) \<noteq> 0"
proof -
  obtain s f :: "('v, 'p) results" where tr: "translate_upsert_multi_results (Some rs) = Inr (s, f)" "filed rs s f" using upsert_files [OF assms(3)] by blast
  have call: "on_client (Some col) (\<lambda>col. multi sdk col kv a) c = (Inr (s, f), c1)"
    by (simp add: on_client_def assms(1,2) bulk_def tr(1))
  have has: "dict_has f k \<longleftrightarrow> k \<in> failed_ids rs" "dict_has s k \<longleftrightarrow> k \<in> ok_ids rs" for k using tr(2) by (simp_all add: filed_def)
  have "(dict_has fail k \<longleftrightarrow> k \<in> failed_ids rs \<and> (skip \<or> \<not> (bi_status (db k) \<and> bi_cas (db k) \<noteq> 0))) \<and>
    (dict_has success k \<longleftrightarrow> k \<in> ok_ids rs \<or> k \<in> failed_ids rs \<and> \<not> skip \<and> bi_status (db k) \<and> bi_cas (db k) \<noteq> 0)"
  proof (cases "f = [] \<or> skip")
    case True
    then have "success = s" "fail = f" using assms(5) by (auto simp: batch_write_def call)
    moreover have "k \<notin> failed_ids rs" if "f = []" using that has(1) [of k] by (simp add: dict_has_def)
    ultimately show ?thesis using has True by auto
  next
    case False
    obtain rd rf c2 where rd: "batch_read sdk (Some col) (map fst f) a c1 = (Inr (rd, rf), c2)" "filed (map db (map fst f)) rd rf"
      by (rule batch_read_as [OF assms(4)])
    have r: "rescue rd (\<lambda>_ _. True) f (s, f) = (success, fail)" using assms(5) False by (simp add: batch_write_def call rd(1))
    have err: "\<forall>(k, x) \<in> set f. en_error x \<noteq> None" using tr(2) unfolding filed_def by (fastforce simp: dict_wf_map_of)
    have in_f: "dict_has f k \<longleftrightarrow> (\<exists>x. (k, x) \<in> set f)" by (force simp: dict_has_iff_keys)
    have "k \<in> rescued rd (\<lambda>_ _. True) f \<longleftrightarrow> dict_has f k \<and> (\<exists>e. map_of rd k = Some e \<and> en_cas e \<noteq> 0)"
      by (auto simp: rescued_def in_f)
    moreover have "(\<exists>e. map_of rd k = Some e \<and> en_cas e \<noteq> 0) \<longleftrightarrow> bi_status (db k) \<and> bi_cas (db k) \<noteq> 0" if "dict_has f k"
      using filed_read [OF rd(2), of k] assms(4) that by (simp add: reads_as_def dict_has_iff_keys)
    ultimately have "k \<in> rescued rd (\<lambda>_ _. True) f \<longleftrightarrow> dict_has f k \<and> bi_status (db k) \<and> bi_cas (db k) \<noteq> 0" by blast
    with rescue_result [OF err r, of k] has [of k] False show ?thesis by auto
  qed
  then show "dict_has fail k \<longleftrightarrow> k \<in> failed_ids rs \<and> (skip \<or> \<not> (bi_status (db k) \<and> bi_cas (db k) \<noteq> 0))"
    "dict_has success k \<longleftrightarrow> k \<in> ok_ids rs \<or> k \<in> failed_ids rs \<and> \<not> skip \<and> bi_status (db k) \<and> bi_cas (db k) \<noteq> 0" by blast+
qed

text \<open>C25. When the client answers a batch of creates, a document counts as failed exactly when its own write failed and, unless
  reading is switched off, it cannot be read back with a CAS; it counts as successful otherwise. (So creating a document that
  exists already is not reported.)\<close>

theorem failed_creates_reported:
  assumes "sdk col (BulkInsert kv (with_transcoder (ca_doc_type a) (get_insert_options a))) c = (Inr (Some rs), c1)"
    and "\<forall>r \<in> set rs. je_message (bi_error r) \<noteq> None" and "reads_as sdk col db c1"
    and "batch_create sdk (Some col) kv a skip c = ((success, fail), c2)"
  shows "(dict_has fail k \<longleftrightarrow> k \<in> failed_ids rs \<and> (skip \<or> \<not> (bi_status (db k) \<and> bi_cas (db k) \<noteq> 0))) \<and>
    (dict_has success k \<longleftrightarrow> k \<in> ok_ids rs \<or> k \<in> failed_ids rs \<and> \<not> skip \<and> bi_status (db k) \<and> bi_cas (db k) \<noteq> 0)"
proof -
  have f: "fst (batch_write sdk set_multi (\<lambda>_ _. True) (Some col) kv a skip c) = (success, fail)"
    using assms(4) by (simp add: batch_create_def)
  have m: "set_multi sdk col kv a c = bulk sdk col (BulkInsert kv (with_transcoder (ca_doc_type a) (get_insert_options a))) translate_upsert_multi_results c" for c
    by (simp add: set_multi_def)
  show ?thesis using batch_write_result [of set_multi, OF m assms(1-3) f, of k] by blast
qed

definition two_items :: "unit bulk_item list" where
  "two_items = [\<lparr>bi_id = ''k1'', bi_status = False, bi_cas = 0, bi_content = (), bi_error = \<lparr>je_str = [], je_class = [], je_message = Some [], je_context = []\<rparr>, bi_lookup_failed = False\<rparr>,
     \<lparr>bi_id = ''k2'', bi_status = False, bi_cas = 0, bi_content = (), bi_error = \<lparr>je_str = [], je_class = [], je_message = Some [], je_context = []\<rparr>, bi_lookup_failed = False\<rparr>]"

text \<open>Both creates fail; the first document exists.\<close>

definition exists_k1 :: "string \<Rightarrow> unit bulk_item" where
  "exists_k1 k = \<lparr>bi_id = k, bi_status = (k = ''k1''), bi_cas = 7, bi_content = (),
     bi_error = \<lparr>je_str = [], je_class = [], je_message = Some [], je_context = []\<rparr>, bi_lookup_failed = False\<rparr>"

fun small_sdk :: "(unit, unit, unit) sdk" where
  "small_sdk col (BulkGet ks opts) c = (Inr (Some (map exists_k1 ks)), c)"
| "small_sdk col call c = (Inr (Some two_items), c)"

theorem failed_creates_reported_witness:
  "\<exists>success fail. batch_create small_sdk (Some ([], [])) [(''k1'', ()), (''k2'', ())] crud_defaults False () = ((success, fail), ()) \<and>
     \<not> dict_has fail ''k1'' \<and> dict_has fail ''k2'' \<and> dict_has success ''k1''"
proof -
  obtain success fail where b: "batch_create small_sdk (Some ([], [])) [(''k1'', ()), (''k2'', ())] crud_defaults False () = ((success, fail), ())"
    by (cases "batch_create small_sdk (Some ([], [])) [(''k1'', ()), (''k2'', ())] crud_defaults False ()") auto
  have rs: "\<forall>r \<in> set two_items. je_message (bi_error r) \<noteq> None" by (simp add: two_items_def)
  have rd: "reads_as small_sdk ([], []) exists_k1 ()" by (simp add: reads_as_def exists_k1_def)
  have ids: "''k1'' \<in> failed_ids two_items" "''k2'' \<in> failed_ids two_items" by (auto simp: failed_ids_def two_items_def)
  show ?thesis
    using failed_creates_reported [OF small_sdk.simps(2) rs rd b, of "''k1''"] failed_creates_reported [OF small_sdk.simps(2) rs rd b, of "''k2''"] ids b
    by (simp add: exists_k1_def)
qed

text \<open>If the client raises instead of answering, no document counts as failed (nor as successful).\<close>

lemma raising_client_no_failures:
  assumes "sdk col (BulkInsert kv (with_transcoder (ca_doc_type a) (get_insert_options a))) c = (Inl e, c1)"
  shows "batch_create sdk (Some col) kv a skip c = (([], []), c1)"
  by (simp add: batch_create_def batch_write_def on_client_def set_multi_def bulk_def assms)

text \<open>A failed update is never taken back: the dictionary of a failure is not equal to a value that was read.\<close>

lemma rescue_none: "(\<And>f e. \<not> same f e) \<Longrightarrow> rescue rd same fl sf = sf"
  by (induction rd same fl sf rule: rescue.induct) (auto split: option.splits)

lemma update_never_rescued:
  assumes "\<And>f v. \<not> dict_eq f v" and "upsert_multi sdk col kv a c = (Inr (s, f), c1)"
  shows "fst (batch_update sdk dict_eq (Some col) kv a skip c) = (s, f)"
  using assms by (auto simp: batch_update_def batch_write_def on_client_def rescue_none split: sum.splits prod.splits)

text \<open>The numbers of nodes to persist and replicate to never reach the SDK: \<^verbatim>\<open>durability\<close> is a string in every call.\<close>

lemma set_options_observe:
  "oa_durability b = Some d \<Longrightarrow> set_options (b\<lparr>oa_persist_to := p, oa_replicate_to := q\<rparr>) opts = set_options b opts"
  by (simp add: set_options_def Let_def cong: option.case_cong if_cong split del: if_split)

lemma observe_options_dropped:
  "get_insert_options (a\<lparr>ca_persist_to := p, ca_replicate_to := q\<rparr>) = get_insert_options a"
  "get_upsert_options (a\<lparr>ca_persist_to := p, ca_replicate_to := q\<rparr>) = get_upsert_options a"
  "get_replace_options (a\<lparr>ca_persist_to := p, ca_replicate_to := q\<rparr>) = get_replace_options a"
  "get_remove_options (a\<lparr>ca_persist_to := p, ca_replicate_to := q\<rparr>) = get_remove_options a"
  "get_mutate_in_options (a\<lparr>ca_persist_to := p, ca_replicate_to := q\<rparr>) = get_mutate_in_options a"
  unfolding get_insert_options_def get_upsert_options_def get_replace_options_def get_remove_options_def get_mutate_in_options_def
  by (simp_all add: set_options_def Let_def cong: option.case_cong if_cong split del: if_split)

end
