(* ===== verification/Doc_Validation_Props.thy ===== *)
theory Doc_Validation_Props
  imports Doc_Validation Batch_Props
begin

text \<open>
  What the validation of documents accepts: a batch is rejected exactly when a document is reported as not found or has
  another value than expected (apart from the representation of its field \<open>mutated\<close>); a read that fails for another reason
  is accepted.
\<close>

lemma read_found:
  assumes "filed (map db ks) rd fr" and "\<forall>k. bi_id (db k) = k" and "k \<in> set ks" and "bi_status (db k)"
  shows "\<exists>e. map_of rd k = Some e \<and> en_cas e = bi_cas (db k) \<and> en_value e = Some (RValue (bi_content (db k)))"
proof -
  have "k \<in> ok_ids (map db ks)" using assms(2-4) by (force simp: ok_ids_def image_iff)
  moreover have "dict_has rd k \<longleftrightarrow> k \<in> ok_ids (map db ks)" using assms(1) by (simp add: filed_def)
  ultimately obtain e where e: "map_of rd k = Some e" by (auto simp: dict_has_def)
  with assms(1) obtain r where "r \<in> set (map db ks)" "bi_id r = k" "en_cas e = bi_cas r" "en_value e = Some (RValue (bi_content r))"
    unfolding filed_def by blast
  with assms(2) e show ?thesis by auto
qed

lemma read_failed:
  assumes "filed (map db ks) rd fr" and "\<forall>k. bi_id (db k) = k" and "k \<in> set ks" and "\<not> bi_status (db k)"
  shows "map_of rd k = None \<and> (\<exists>f t. map_of fr k = Some f \<and> error_text (bi_error (db k)) = Inr t \<and> en_error f = Some t)"
proof -
  have "k \<in> failed_ids (map db ks)" "k \<notin> ok_ids (map db ks)" using assms(2-4) by (auto simp: failed_ids_def ok_ids_def image_iff)
  moreover have "dict_has rd k \<longleftrightarrow> k \<in> ok_ids (map db ks)" "dict_has fr k \<longleftrightarrow> k \<in> failed_ids (map db ks)" using assms(1) by (simp_all add: filed_def)
  ultimately obtain f where f: "map_of fr k = Some f" "map_of rd k = None" by (auto simp: dict_has_def)
  with assms(1) obtain r t where "r \<in> set (map db ks)" "bi_id r = k" "error_text (bi_error r) = Inr t" "en_error f = Some t"
    unfolding filed_def by blast
  with assms(2) f show ?thesis by auto
qed

section \<open>Comparing a batch\<close>

text \<open>Values whose texts are JSON objects with a number in \<open>mutated\<close>.\<close>

definition json_ok :: "('v, 'd) val_ops \<Rightarrow> 'v \<Rightarrow> bool" where
  "json_ok vo v \<longleftrightarrow> (\<exists>d m. vo_loads vo (vo_text vo v) = Inr d \<and> vo_mutated vo d = Inr m)"

definition norm_doc :: "('v, 'd) val_ops \<Rightarrow> 'v \<Rightarrow> 'd" where
  "norm_doc vo v = (let d = projr (vo_loads vo (vo_text vo v)) in vo_put_mutated vo (projr (vo_mutated vo d)) d)"

definition gone :: "(string \<Rightarrow> 'v bulk_item) \<Rightarrow> string \<times> 'v \<Rightarrow> bool" where
  "gone db kv \<longleftrightarrow> \<not> bi_status (db (fst kv)) \<and> in_str DocumentNotFoundException (projr (error_text (bi_error (db (fst kv)))))"

definition differs :: "('v, 'd) val_ops \<Rightarrow> (string \<Rightarrow> 'v bulk_item) \<Rightarrow> string \<times> 'v \<Rightarrow> bool" where
  "differs vo db kv \<longleftrightarrow> bi_status (db (fst kv)) \<and> norm_doc vo (snd kv) \<noteq> norm_doc vo (bi_content (db (fst kv)))"

definition wrong_text :: "('v, 'd) val_ops \<Rightarrow> (string \<Rightarrow> 'v bulk_item) \<Rightarrow> string \<times> 'v \<Rightarrow> string" where
  "wrong_text vo db kv = vo_wrong vo (fst kv) (norm_doc vo (snd kv)) (norm_doc vo (bi_content (db (fst kv))))"

text \<open>What is in the database for a key of the batch can be compared.\<close>

definition comparable :: "('v, 'd) val_ops \<Rightarrow> (string \<Rightarrow> 'v bulk_item) \<Rightarrow> string \<times> 'v \<Rightarrow> bool" where
  "comparable vo db kv \<longleftrightarrow> (bi_status (db (fst kv)) \<longrightarrow>
     json_ok vo (snd kv) \<and> json_ok vo (bi_content (db (fst kv))) \<and> bi_cas (db (fst kv)) \<noteq> 0)"

lemma same_mutated_norm: "json_ok vo v \<Longrightarrow> rbind (vo_loads vo (vo_text vo v)) (same_mutated vo) = Inr (norm_doc vo v)"
  by (auto simp: json_ok_def same_mutated_def norm_doc_def)

lemma validate_one_ok:
  assumes "filed (map db ks) rd fr" and "\<forall>k. bi_id (db k) = k" and "fst kv \<in> set ks" and "comparable vo db kv"
  shows "validate_one vo rd fr (m, w) kv =
    Inr (if gone db kv then m @ [fst kv] else m, if differs vo db kv then w @ [wrong_text vo db kv] else w)"
proof (cases "bi_status (db (fst kv))")
  case True
  obtain e where e: "map_of rd (fst kv) = Some e" "en_cas e \<noteq> 0" "entry_text vo e = Inr (vo_text vo (bi_content (db (fst kv))))"
    using read_found [OF assms(1-3) True] assms(4) True by (auto simp: comparable_def entry_text_def)
  have j: "json_ok vo (snd kv)" "json_ok vo (bi_content (db (fst kv)))" using assms(4) True by (simp_all add: comparable_def)
  then obtain x y where x: "vo_loads vo (vo_text vo (snd kv)) = Inr x" "same_mutated vo x = Inr (norm_doc vo (snd kv))"
    "vo_loads vo (vo_text vo (bi_content (db (fst kv)))) = Inr y" "same_mutated vo y = Inr (norm_doc vo (bi_content (db (fst kv))))"
    using same_mutated_norm [OF j(1)] same_mutated_norm [OF j(2)] by (auto simp: rbind_eq_Inr)
  show ?thesis using True e x by (cases kv) (simp add: validate_one_def gone_def differs_def wrong_text_def)
next
  case False
  obtain f t where f: "map_of rd (fst kv) = None" "map_of fr (fst kv) = Some f" "error_text (bi_error (db (fst kv))) = Inr t" "en_error f = Some t"
    using read_failed [OF assms(1-3) False] by blast
  then show ?thesis using False by (cases kv) (simp add: validate_one_def gone_def differs_def)
qed

lemma validate_key_val_ok:
  assumes "filed (map db ks) rd fr" and "\<forall>k. bi_id (db k) = k" and "\<forall>x \<in> set kv. fst x \<in> set ks \<and> comparable vo db x"
  shows "validate_key_val vo rd fr kv = Inr (map fst (filter (gone db) kv), map (wrong_text vo db) (filter (differs vo db) kv))"
proof -
  have "rfold (validate_one vo rd fr) (m, w) kv = Inr (m @ map fst (filter (gone db) kv), w @ map (wrong_text vo db) (filter (differs vo db) kv))" for m w
    using assms(3)
  proof (induction kv arbitrary: m w)
    case (Cons x kv)
    then show ?case using validate_one_ok [OF assms(1,2), of x vo m w] by auto
  qed simp
  then show ?thesis by (simp add: validate_key_val_def)
qed

section \<open>The verdict\<close>

lemma judge_batch_exception:
  assumes "tk_exception t = None" and "op_type \<noteq> ''delete''"
  shows "tk_exception (judge_batch vo op_type ks (m, w) t) = None \<longleftrightarrow> m = [] \<and> w = []"
  using assms by (auto simp: judge_batch_def Let_def)

lemma judge_batch_delete:
  assumes "tk_exception t = None"
  shows "tk_exception (judge_batch vo ''delete'' ks (m, w) t) = None \<longleftrightarrow> not_deleted m ks = []"
  using assms by (auto simp: judge_batch_def Let_def)

text \<open>A task with its own client that reads from the active copies.\<close>

definition own_reader :: "task_config \<Rightarrow> val_config \<Rightarrow> string \<times> string \<Rightarrow> bool" where
  "own_reader cfg vc col \<longleftrightarrow> \<not> cfg_pool cfg \<and> cfg_own cfg = Some col \<and> \<not> vc_check_replica vc \<and> \<not> vc_is_sub_doc vc"

lemma val_next_judges:
  fixes sdk :: "('v, 'p, 'c) sdk"
  assumes "own_reader cfg vc col" and "reads_as sdk col db (wo_conn w)"
    and "go_next_batch ops (cfg_op_type cfg = ''delete'') (gt_generator t) = Inr (kv, g)"
    and "\<forall>x \<in> set (dict_update_all [] kv). comparable vo db x"
  obtains t1 w1 where "val_next message sdk get_all vo ops cfg vc (t, w) =
      (let t2 = judge_batch vo (cfg_op_type cfg) (batch_keys kv)
         (map fst (filter (gone db) (dict_update_all [] kv)), map (wrong_text vo db) (filter (differs vo db) (dict_update_all [] kv))) t1 in
       case tk_exception t2 of None \<Rightarrow> Some (Inr (), t2, w1) | Some m \<Rightarrow> Some (Inl (RExc (Raised m)), t2, w1))"
    and "tk_exception t1 = tk_exception t" and "gt_generator t1 = g"
proof -
  let ?d = "dict_update_all [] kv" and ?t = "t\<lparr>gt_generator := g\<rparr>"
  have own: "\<not> cfg_pool cfg" "cfg_own cfg = Some col" "\<not> vc_check_replica vc" "\<not> vc_is_sub_doc vc" using assms(1) by (simp_all add: own_reader_def)
  have cl: "client_col cfg ?t w = Some col" by (simp add: client_col_def own)
  obtain rd fr c' where r: "batch_read sdk (Some col) (map fst ?d) (cfg_args cfg) (wo_conn w) = (Inr (rd, fr), c')" "filed (map db (map fst ?d)) rd fr"
    by (rule batch_read_as [OF assms(2)])
  have ids: "\<forall>k. bi_id (db k) = k" using assms(2) by (simp add: reads_as_def)
  have v: "validate_key_val vo rd fr ?d = Inr (map fst (filter (gone db) ?d), map (wrong_text vo db) (filter (differs vo db) ?d))"
    by (rule validate_key_val_ok [OF r(2) ids]) (use assms(4) in auto)
  have "val_next message sdk get_all vo ops cfg vc (t, w) =
      (let t2 = judge_batch vo (cfg_op_type cfg) (batch_keys kv)
         (map fst (filter (gone db) ?d), map (wrong_text vo db) (filter (differs vo db) ?d)) (?t\<lparr>vt_failed_reads := fr\<rparr>) in
       case tk_exception t2 of None \<Rightarrow> Some (Inr (), t2, w\<lparr>wo_conn := c'\<rparr>) | Some m \<Rightarrow> Some (Inl (RExc (Raised m)), t2, w\<lparr>wo_conn := c'\<rparr>))"
    by (simp add: val_next_def validate_docs_def val_batch_def take_client_def give_client_def own assms(3) cl r(1) judge_def v Let_def batch_keys_def)
  then show thesis by (rule that) simp_all
qed

text \<open>C26. A step of the validation of documents that should exist: if the reads are answered truthfully and the documents found are
  comparable, the step raises exactly when some document of the batch is reported as not found or differs from its
  expected value; otherwise it goes on to the next batch without an exception. A read that fails with another error is
  not reported.\<close>

theorem validation_rejects_exactly:
  fixes sdk :: "('v, 'p, 'c) sdk"
  assumes "own_reader cfg vc col" and "reads_as sdk col db (wo_conn w)" and "cfg_op_type cfg \<noteq> ''delete''" and "tk_exception t = None"
    and "go_next_batch ops False (gt_generator t) = Inr (kv, g)" and "\<forall>x \<in> set (dict_update_all [] kv). comparable vo db x"
  shows "if \<exists>x \<in> set (dict_update_all [] kv). gone db x \<or> differs vo db x
    then \<exists>m t' w'. val_next message sdk get_all vo ops cfg vc (t, w) = Some (Inl (RExc (Raised m)), t', w') \<and> tk_exception t' = Some m
    else \<exists>t' w'. val_next message sdk get_all vo ops cfg vc (t, w) = Some (Inr (), t', w') \<and> tk_exception t' = None \<and> gt_generator t' = g"
proof -
  let ?d = "dict_update_all [] kv"
  let ?mw = "(map fst (filter (gone db) ?d), map (wrong_text vo db) (filter (differs vo db) ?d))"
  have b: "go_next_batch ops (cfg_op_type cfg = ''delete'') (gt_generator t) = Inr (kv, g)" using assms(3,5) by simp
  obtain t1 w1 where s: "val_next message sdk get_all vo ops cfg vc (t, w) =
      (let t2 = judge_batch vo (cfg_op_type cfg) (batch_keys kv) ?mw t1 in
       case tk_exception t2 of None \<Rightarrow> Some (Inr (), t2, w1) | Some m \<Rightarrow> Some (Inl (RExc (Raised m)), t2, w1))"
    "tk_exception t1 = None" "gt_generator t1 = g"
    by (rule val_next_judges [OF assms(1,2) b assms(6)]) (use assms(4) in auto)
  let ?t2 = "judge_batch vo (cfg_op_type cfg) (batch_keys kv) ?mw t1"
  have "tk_exception ?t2 = None \<longleftrightarrow> \<not> (\<exists>x \<in> set ?d. gone db x \<or> differs vo db x)"
    unfolding judge_batch_exception [OF s(2) assms(3)] by (auto simp: filter_empty_conv)
  moreover have "gt_generator ?t2 = g" using s(3) by (auto simp: judge_batch_def Let_def)
  ultimately show ?thesis using s(1) by (auto simp: Let_def split: option.splits)
qed

text \<open>Documents as texts: \<open>a\<close> is as expected, \<open>b\<close> is missing.\<close>

definition text_ops :: "(string, string) val_ops" where
  "text_ops = \<lparr>vo_text = id, vo_loads = (\<lambda>s. if s = [] then Inl ValueError else Inr s), vo_mutated = (\<lambda>_. Inr 0), vo_put_mutated = (\<lambda>_ d. d),
     vo_wrong = (\<lambda>k _ _. k), vo_list = concat, vo_replicas = (\<lambda>_. [])\<rparr>"

definition has_a :: "string \<Rightarrow> string bulk_item" where
  "has_a k = \<lparr>bi_id = k, bi_status = (k = ''a''), bi_cas = 7, bi_content = ''{}'',
     bi_error = \<lparr>je_str = [], je_class = DocumentNotFoundException, je_message = Some [], je_context = []\<rparr>, bi_lookup_failed = False\<rparr>"

fun has_a_sdk :: "(string, unit, unit) sdk" where
  "has_a_sdk col (BulkGet ks opts) c = (Inr (Some (map has_a ks)), c)"
| "has_a_sdk col call c = (Inr None, c)"

definition batch_of :: "string list \<Rightarrow> (unit, string) gen_ops" where
  "batch_of ks = \<lparr>go_has_next = (\<lambda>_. True), go_next_batch = (\<lambda>_ g. Inr (map (\<lambda>k. (k, ''{}'')) ks, g)), go_reset = id\<rparr>"

definition read_config :: task_config where
  "read_config = \<lparr>cfg_op_type = ''create'', cfg_args = crud_defaults, cfg_bucket = ''b'', cfg_scope = [], cfg_collection = [],
     cfg_pool = False, cfg_own = Some ([], []), cfg_iterations = 1, cfg_track_failures = True, cfg_skip_read_success = False,
     cfg_skip_read_on_error = False, cfg_random_exp = False, cfg_exp = 0\<rparr>"

definition active_only :: val_config where
  "active_only = \<lparr>vc_check_replica = False, vc_replicas = 1, vc_nodes = 2, vc_is_sub_doc = False\<rparr>"

theorem validation_rejects_exactly_witness:
  "(\<exists>m t' w'. val_next (\<lambda>_. []) has_a_sdk (\<lambda>_ _ c. (Inr [], c)) text_ops (batch_of [''a'', ''b'']) read_config active_only
       (new_val_task [] (), \<lparr>wo_conn = (), wo_pool = new_pool\<rparr>) = Some (Inl (RExc (Raised m)), t', w')) \<and>
   (\<exists>t' w'. val_next (\<lambda>_. []) has_a_sdk (\<lambda>_ _ c. (Inr [], c)) text_ops (batch_of [''a'']) read_config active_only
       (new_val_task [] (), \<lparr>wo_conn = (), wo_pool = new_pool\<rparr>) = Some (Inr (), t', w'))"
proof -
  have own: "own_reader read_config active_only ([], [])" by (simp add: own_reader_def read_config_def active_only_def)
  have rd: "reads_as has_a_sdk ([], []) has_a (wo_conn \<lparr>wo_conn = (), wo_pool = new_pool\<rparr>)" by (simp add: reads_as_def has_a_def)
  have op: "cfg_op_type read_config \<noteq> ''delete''" by (simp add: read_config_def)
  have ex: "tk_exception (new_val_task [] () :: (unit, string, unit) val_task) = None" by (simp add: new_val_task_def)
  have b: "go_next_batch (batch_of ks) False (gt_generator (new_val_task [] () :: (unit, string, unit) val_task)) = Inr (map (\<lambda>k. (k, ''{}'')) ks, gt_generator (new_val_task [] () :: (unit, string, unit) val_task))" for ks
    by (simp add: batch_of_def)
  have c: "\<forall>x \<in> set (dict_update_all [] (map (\<lambda>k. (k, ''{}'')) ks)). comparable text_ops has_a x" if "ks = [''a''] \<or> ks = [''a'', ''b'']" for ks
    using that by (auto simp: dict_update_all_def comparable_def json_ok_def text_ops_def has_a_def)
  have gone: "gone has_a (''b'', ''{}'')"
    by (simp add: gone_def has_a_def error_text_def populate_crud_failure_reason_def DocumentNotFoundException_def startswith_def)
  have a: "\<not> gone has_a (''a'', ''{}'')" "\<not> differs text_ops has_a (''a'', ''{}'')" by (simp_all add: gone_def differs_def has_a_def)
  show ?thesis
    using validation_rejects_exactly [OF own rd op ex b c, of "[''a'', ''b'']" "\<lambda>_. []" "\<lambda>_ _ c. (Inr [], c)"]
      validation_rejects_exactly [OF own rd op ex b c, of "[''a'']" "\<lambda>_. []" "\<lambda>_ _ c. (Inr [], c)"] gone a
    by (auto simp: dict_update_all_def)
qed

text \<open>Deletions are validated with an empty text as the expected value: a document that still exists stops the check with the
  error of the JSON parser, before the message that lists such documents is made.\<close>

lemma validation_of_delete_raises:
  assumes "filed (map db ks) rd fr" and "\<forall>k. bi_id (db k) = k" and "k \<in> set ks" and "bi_status (db k)" and "vo_loads vo (vo_text vo v) = Inl e"
  shows "validate_one vo rd fr mw (k, v) = Inl e"
  using read_found [OF assms(1-4)] assms(5) by (cases mw) (auto simp: validate_one_def)

text \<open>An exception while the replicas are read does not leave \<^verbatim>\<open>next\<close>, and the client is not given back.\<close>

lemma replica_exception_kept:
  fixes t :: "('g, 'v, 'p) val_task"
  assumes "val_batch ops cfg s = Some (Inr kv, t, w)" and "vc_check_replica vc" and "\<not> vc_is_sub_doc vc"
    and "replica_reads vo vc get_all (client_col cfg t w) (map fst kv) (([], []) :: ('v, 'p) both) (wo_conn w) = (Inl e, c)"
  shows "val_next message sdk get_all vo ops cfg vc s = Some (Inr (), t\<lparr>tk_exception := Some (message e)\<rparr>, w\<lparr>wo_conn := c\<rparr>)"
  using assms by (simp add: val_next_def validate_docs_def Let_def)

end
