(* ===== verification/System_Events.thy ===== *)
theory System_Events
  imports Py_Prelude "HOL-Library.List_Lexorder" "HOL-Library.Char_ord"
begin

text \<open>
  The events of the system event log that the framework expects (\<^verbatim>\<open>lib/SystemEventLogLib\<close>, with the identifiers of
  \<^verbatim>\<open>constants/cb_constants/system_event_log.py\<close>).

  \<^item> An event is a dictionary of fields. Values are numbers, texts and \<^verbatim>\<open>None\<close> (\<open>ev_atom\<close>, ordered as Python orders them; a
    \<^verbatim>\<open>bool\<close> is the number it equals), lists of those, and dictionaries.
  \<^item> A class of identifiers is the list of its attributes; reading one that is not there raises.
\<close>

section \<open>Values\<close>

datatype ev_atom = ANone | AInt int | AStr string

instantiation ev_atom :: linorder
begin

fun less_eq_ev_atom :: "ev_atom \<Rightarrow> ev_atom \<Rightarrow> bool" where
  "less_eq_ev_atom ANone y \<longleftrightarrow> True"
| "less_eq_ev_atom (AInt i) y \<longleftrightarrow> (case y of ANone \<Rightarrow> False | AInt j \<Rightarrow> i \<le> j | AStr _ \<Rightarrow> True)"
| "less_eq_ev_atom (AStr s) y \<longleftrightarrow> (case y of AStr t \<Rightarrow> s \<le> t | _ \<Rightarrow> False)"

definition less_ev_atom :: "ev_atom \<Rightarrow> ev_atom \<Rightarrow> bool" where
  "less_ev_atom x y \<longleftrightarrow> x \<le> y \<and> \<not> y \<le> x"

instance
proof
  fix x y z :: ev_atom
  show "x < y \<longleftrightarrow> x \<le> y \<and> \<not> y \<le> x" by (rule less_ev_atom_def)
  show "x \<le> x" by (cases x) simp_all
  show "x \<le> y \<Longrightarrow> y \<le> z \<Longrightarrow> x \<le> z" by (cases x; cases y; cases z) auto
  show "x \<le> y \<Longrightarrow> y \<le> x \<Longrightarrow> x = y" by (cases x; cases y) auto
  show "x \<le> y \<or> y \<le> x" by (cases x; cases y) auto
qed

end

datatype ev_val = EAtom ev_atom | EList "ev_atom list" | EDict "(string \<times> ev_val) list"

type_synonym event = "(string \<times> ev_val) list"

abbreviation estr :: "string \<Rightarrow> ev_val" where
  "estr s \<equiv> EAtom (AStr s)"

definition ev_truth :: "ev_val \<Rightarrow> bool" where
  "ev_truth v = (case v of EAtom a \<Rightarrow> a \<noteq> ANone \<and> a \<noteq> AInt 0 \<and> a \<noteq> AStr [] | EList xs \<Rightarrow> xs \<noteq> [] | EDict d \<Rightarrow> d \<noteq> [])"

definition attribute :: "(string \<times> int) list \<Rightarrow> string \<Rightarrow> int res" where
  "attribute cls name = of_option AttributeError (map_of cls name)"

section \<open>Fields, components, severities\<close>

definition Fields :: "string list" where
  "Fields = [''uuid'', ''component'', ''event_id'', ''severity'', ''timestamp'', ''description'', ''node'', ''otp_node'',
     ''sub_component'', ''extra_attributes'']"

definition mandatory_fields :: "string list" where
  "mandatory_fields = [''event_id'', ''uuid'', ''component'', ''timestamp'', ''severity'', ''description'']"

definition Component :: "string list" where
  "Component = [''ns_server'', ''query'', ''indexing'', ''search'', ''eventing'', ''analytics'', ''backup'', ''xdcr'', ''data'',
     ''security'', ''views'']"

definition Severity :: "string list" where
  "Severity = [''info'', ''error'', ''warn'', ''fatal'']"

section \<open>Identifiers\<close>

text \<open>The valid ranges of the identifiers, as the classes document them.\<close>

definition valid_range :: "string \<Rightarrow> (int \<times> int) option" where
  "valid_range component = map_of
     [(''ns_server'', 0, 1023), (''query'', 1024, 2047), (''indexing'', 2048, 3071), (''search'', 3072, 4095),
      (''eventing'', 4096, 5119), (''analytics'', 5120, 6143), (''backup'', 6143, 7167), (''xdcr'', 7168, 8191),
      (''data'', 8192, 9215), (''security'', 9216, 10239), (''views'', 10240, 11263)] component"

definition NsServer :: "(string \<times> int) list" where
  "NsServer =
    [(''NodeAdded'', 0), (''ServiceStarted'', 1), (''RebalanceStarted'', 2), (''RebalanceComplete'', 3),
     (''RebalanceFailure'', 4), (''RebalanceInterrupted'', 5), (''GracefulFailoverStarted'', 6),
     (''GracefulFailoverComplete'', 7), (''GracefulFailoverFailed'', 8),
     (''GracefulFailoverInterrupted'', 9), (''HardFailoverStarted'', 10), (''HardFailoverComplete'', 11),
     (''HardFailoverFailed'', 12), (''HardFailoverInterrupted'', 13), (''AutoFailoverStarted'', 14),
     (''AutoFailoverComplete'', 15), (''AutoFailoverFailed'', 16), (''AutoFailoverWarning'', 17),
     (''MasterSelected'', 18), (''ServiceCrashed'', 19)]"

definition KvEngine :: "(string \<times> int) list" where
  "KvEngine =
    [(''BucketCreated'', 8192), (''BucketDeleted'', 8193), (''ScopeCreated'', 8194), (''ScopeDropped'', 8195),
     (''CollectionCreated'', 8196), (''CollectionDropped'', 8197), (''BucketFlushed'', 8198),
     (''BucketOnline'', 8199), (''BucketOffline'', 8200), (''BucketConfigChanged'', 8201),
     (''MemcachedConfigChanged'', 8202), (''EphemeralAutoReprovision'', 8203)]"

definition Security :: "(string \<times> int) list" where
  "Security =
    [(''AuditEnabled'', 9216), (''AuditDisabled'', 9217), (''AuditSettingChanged'', 9218),
     (''LdapConfigChanged'', 9219), (''SecurityConfigChanged'', 9220), (''SasldAuthConfigChanged'', 9221),
     (''PasswordPolicyChanged'', 9222), (''UserAdded'', 9223), (''UserRemoved'', 9224),
     (''GroupAdded'', 9225), (''GroupRemoved'', 9226)]"

definition Analytics :: "(string \<times> int) list" where
  "Analytics =
    [(''ProcessStarted'', 5120), (''ProcessCrashed'', 5121), (''ProcessExited'', 5122),
     (''TopologyChangeStarted'', 5123), (''TopologyChangeFailed'', 5124),
     (''TopologyChangeCompleted'', 5125), (''CollectionCreated'', 5254), (''CollectionMapped'', 5255),
     (''CollectionDropped'', 5256), (''CollectionDetached'', 5257), (''CollectionAttached'', 5258),
     (''CollectionRollback'', 5259), (''ScopeCreated'', 5260), (''ScopeDropped'', 5261),
     (''IndexCreated'', 5262), (''IndexDropped'', 5263), (''LinkCreated'', 5264), (''LinkAltered'', 5265),
     (''LinkDropped'', 5266), (''LinkConnected'', 5267), (''LinkDisconnected'', 5268),
     (''SettingChanged'', 5269), (''UserDefinedLibraryCreated'', 5270),
     (''UserDefinedLibraryReplaced'', 5271), (''UserDefinedLibraryDropped'', 5272),
     (''UserDefinedFunctionCreated'', 5273), (''UserDefinedFunctionReplaced'', 5274),
     (''UserDefinedFunctionDropped'', 5275), (''SynonymCreated'', 5276), (''SynonymDropped'', 5277),
     (''ViewCreated'', 5278), (''ViewReplaced'', 5279), (''ViewDropped'', 5280), (''BucketConnected'', 5281),
     (''BucketConnectFailed'', 5282), (''BucketDisconnected'', 5283), (''PartitionTopologyUpdated'', 5284),
     (''CollectionAnalyzed'', 5287), (''CollectionStatsDropped'', 5288)]"

definition Xdcr :: "(string \<times> int) list" where
  "Xdcr =
    [(''CreateReplication'', 0), (''IncomingReplication'', 0), (''ModifyReplication'', 0),
     (''RemoveReplication'', 0), (''ProcessCrashed'', 0), (''SettingChanged'', 0), (''Paused'', 0),
     (''Resumed'', 0)]"

section \<open>NsServerEvents\<close>

definition NsServerEvents_rebalance_started :: "string \<Rightarrow> ev_val \<Rightarrow> ev_val \<Rightarrow> ev_val \<Rightarrow> ev_val \<Rightarrow> ev_val \<Rightarrow> event res" where
  "NsServerEvents_rebalance_started node active_nodes keep_nodes eject_nodes delta_nodes failed_nodes =
     rbind (attribute NsServer ''RebalanceStarted'') (\<lambda>event_id. Inr
       ([(''node'', estr node),
         (''event_id'', EAtom (AInt event_id)),
         (''component'', estr ''ns_server''),
         (''description'', estr ''Rebalance initiated''),
         (''severity'', estr ''info''),
         (''extra_attributes'', EDict [(''nodes_info'', (EDict [(''active_nodes'', active_nodes),
           (''keep_nodes'', keep_nodes), (''eject_nodes'', eject_nodes), (''delta_nodes'', delta_nodes),
           (''failed_nodes'', failed_nodes)]))])]))"

definition NsServerEvents_rebalance_success :: "string \<Rightarrow> ev_val \<Rightarrow> ev_val \<Rightarrow> ev_val \<Rightarrow> ev_val \<Rightarrow> ev_val \<Rightarrow> event res" where
  "NsServerEvents_rebalance_success node active_nodes keep_nodes eject_nodes delta_nodes failed_nodes =
     rbind (attribute NsServer ''RebalanceComplete'') (\<lambda>event_id. Inr
       ([(''node'', estr node),
         (''event_id'', EAtom (AInt event_id)),
         (''component'', estr ''ns_server''),
         (''description'', estr ''Rebalance completed''),
         (''severity'', estr ''info''),
         (''extra_attributes'', EDict [(''completion_message'', (estr ''Rebalance completed successfully.'')),
           (''nodes_info'', (EDict [(''active_nodes'', active_nodes), (''keep_nodes'', keep_nodes),
           (''eject_nodes'', eject_nodes), (''delta_nodes'', delta_nodes), (''failed_nodes'', failed_nodes)]))])]))"

definition NsServerEvents_rebalance_failed :: "string \<Rightarrow> ev_val \<Rightarrow> ev_val \<Rightarrow> ev_val \<Rightarrow> ev_val \<Rightarrow> ev_val \<Rightarrow> event res" where
  "NsServerEvents_rebalance_failed node active_nodes keep_nodes eject_nodes delta_nodes failed_nodes =
     rbind (attribute NsServer ''RebalanceFailure'') (\<lambda>event_id. Inr
       ([(''node'', estr node),
         (''event_id'', EAtom (AInt event_id)),
         (''component'', estr ''ns_server''),
         (''description'', estr ''Rebalance failed''),
         (''severity'', estr ''error''),
         (''extra_attributes'', EDict [(''nodes_info'', (EDict [(''active_nodes'', active_nodes),
           (''keep_nodes'', keep_nodes), (''eject_nodes'', eject_nodes), (''delta_nodes'', delta_nodes),
           (''failed_nodes'', failed_nodes)]))])]))"

definition NsServerEvents_node_added :: "string \<Rightarrow> ev_val \<Rightarrow> ev_val \<Rightarrow> event res" where
  "NsServerEvents_node_added node node_added node_services =
     rbind (attribute NsServer ''NodeAdded'') (\<lambda>event_id. Inr
       ([(''node'', estr node),
         (''event_id'', EAtom (AInt event_id)),
         (''description'', estr ''Node successfully joined the cluster''),
         (''severity'', estr ''info''),
         (''component'', estr ''ns_server''),
         (''extra_attributes'', EDict [(''node_added'', node_added), (''services'', node_services)])]))"

definition NsServerEvents_service_started :: "string \<Rightarrow> ev_val \<Rightarrow> event res" where
  "NsServerEvents_service_started node extra_attrs =
     rbind (attribute NsServer ''ServiceStarted'') (\<lambda>event_id. Inr
       ([(''node'', estr node),
         (''event_id'', EAtom (AInt event_id)),
         (''description'', estr ''Service started''),
         (''component'', estr ''ns_server''),
         (''severity'', estr ''info'')] @ (if ev_truth extra_attrs then [(''extra_attributes'', extra_attrs)] else [])))"

definition NsServerEvents_node_offline :: "string \<Rightarrow> ev_val \<Rightarrow> event res" where
  "NsServerEvents_node_offline node new_node =
     rbind (attribute NsServer ''NodeOffline'') (\<lambda>event_id. Inr
       ([(''node'', estr node),
         (''event_id'', EAtom (AInt event_id)),
         (''component'', estr ''ns_server''),
         (''extra_attributes'', EDict [(''node'', new_node)])]))"

definition NsServerEvents_auto_failover_started :: "string \<Rightarrow> ev_val \<Rightarrow> ev_val \<Rightarrow> ev_val \<Rightarrow> ev_val \<Rightarrow> ev_val \<Rightarrow> event res" where
  "NsServerEvents_auto_failover_started node active_nodes failover_nodes master_node failover_reason allow_unsafe =
     rbind (attribute NsServer ''AutoFailoverStarted'') (\<lambda>event_id. Inr
       ([(''node'', estr node),
         (''event_id'', EAtom (AInt event_id)),
         (''component'', estr ''ns_server''),
         (''description'', estr ''Auto failover initiated''),
         (''severity'', estr ''info''),
         (''extra_attributes'', EDict [(''nodes_info'', (EDict [(''active_nodes'', active_nodes),
           (''failover_nodes'', failover_nodes), (''master_node'', master_node)])),
           (''failover_reason'', failover_reason), (''allow_unsafe'', allow_unsafe)])]))"

definition NsServerEvents_auto_failover_complete :: "string \<Rightarrow> ev_val \<Rightarrow> ev_val \<Rightarrow> ev_val \<Rightarrow> event res" where
  "NsServerEvents_auto_failover_complete node active_nodes failover_nodes master_node =
     rbind (attribute NsServer ''AutoFailoverComplete'') (\<lambda>event_id. Inr
       ([(''node'', estr node),
         (''event_id'', EAtom (AInt event_id)),
         (''component'', estr ''ns_server''),
         (''description'', estr ''Auto failover completed''),
         (''severity'', estr ''info''),
         (''extra_attributes'', EDict [(''nodes_info'', (EDict [(''active_nodes'', active_nodes),
           (''failover_nodes'', failover_nodes), (''master_node'', master_node)])), (''completion_message'',
           (estr ''Failover completed successfully.''))])]))"

definition NsServerEvents_auto_failover_failure :: "string \<Rightarrow> ev_val \<Rightarrow> ev_val \<Rightarrow> ev_val \<Rightarrow> event res" where
  "NsServerEvents_auto_failover_failure node active_nodes failover_nodes master_node =
     rbind (attribute NsServer ''AutoFailoverFailed'') (\<lambda>event_id. Inr
       ([(''node'', estr node),
         (''event_id'', EAtom (AInt event_id)),
         (''component'', estr ''ns_server''),
         (''description'', estr ''Auto failover failed''),
         (''severity'', estr ''info''),
         (''extra_attributes'', EDict [(''nodes_info'', (EDict [(''active_nodes'', active_nodes),
           (''failover_nodes'', failover_nodes), (''master_node'', master_node)]))])]))"

definition NsServerEvents_graceful_failover_started :: "string \<Rightarrow> ev_val \<Rightarrow> ev_val \<Rightarrow> ev_val \<Rightarrow> event res" where
  "NsServerEvents_graceful_failover_started node active_nodes failover_nodes master_node =
     rbind (attribute NsServer ''GracefulFailoverStarted'') (\<lambda>event_id. Inr
       ([(''node'', estr node),
         (''event_id'', EAtom (AInt event_id)),
         (''component'', estr ''ns_server''),
         (''description'', estr ''Graceful failover initiated''),
         (''severity'', estr ''info''),
         (''extra_attributes'', EDict [(''nodes_info'', (EDict [(''active_nodes'', active_nodes),
           (''failover_nodes'', failover_nodes), (''master_node'', master_node)]))])]))"

definition NsServerEvents_graceful_failover_complete :: "string \<Rightarrow> ev_val \<Rightarrow> ev_val \<Rightarrow> ev_val \<Rightarrow> event res" where
  "NsServerEvents_graceful_failover_complete node active_nodes failover_nodes master_node =
     rbind (attribute NsServer ''GracefulFailoverComplete'') (\<lambda>event_id. Inr
       ([(''node'', estr node),
         (''event_id'', EAtom (AInt event_id)),
         (''component'', estr ''ns_server''),
         (''description'', estr ''Graceful failover completed''),
         (''severity'', estr ''info''),
         (''extra_attributes'', EDict [(''completion_message'', (estr ''Graceful failover completed successfully.'')),
           (''nodes_info'', (EDict [(''active_nodes'', active_nodes), (''failover_nodes'', failover_nodes),
           (''master_node'', master_node)]))])]))"

definition NsServerEvents_graceful_failover_failed :: "string \<Rightarrow> ev_val \<Rightarrow> ev_val \<Rightarrow> ev_val \<Rightarrow> event res" where
  "NsServerEvents_graceful_failover_failed node active_nodes failover_nodes master_node =
     rbind (attribute NsServer ''GracefulFailoverFailed'') (\<lambda>event_id. Inr
       ([(''node'', estr node),
         (''event_id'', EAtom (AInt event_id)),
         (''component'', estr ''ns_server''),
         (''description'', estr ''Graceful failover failed''),
         (''severity'', estr ''error''),
         (''extra_attributes'', EDict [(''nodes_info'', (EDict [(''active_nodes'', active_nodes),
           (''failover_nodes'', failover_nodes), (''master_node'', master_node)]))])]))"

definition NsServerEvents_hard_failover_started :: "string \<Rightarrow> ev_val \<Rightarrow> ev_val \<Rightarrow> ev_val \<Rightarrow> ev_val \<Rightarrow> event res" where
  "NsServerEvents_hard_failover_started node active_nodes failover_nodes master_node allow_unsafe =
     rbind (attribute NsServer ''HardFailoverStarted'') (\<lambda>event_id. Inr
       ([(''node'', estr node),
         (''event_id'', EAtom (AInt event_id)),
         (''component'', estr ''ns_server''),
         (''description'', estr ''Hard failover initiated''),
         (''severity'', estr ''info''),
         (''extra_attributes'', EDict [(''nodes_info'', (EDict [(''active_nodes'', active_nodes),
           (''failover_nodes'', failover_nodes), (''master_node'', master_node)])), (''allow_unsafe'', allow_unsafe)])]))"

definition NsServerEvents_hard_failover_complete :: "string \<Rightarrow> ev_val \<Rightarrow> ev_val \<Rightarrow> ev_val \<Rightarrow> event res" where
  "NsServerEvents_hard_failover_complete node active_nodes failover_nodes master_node =
     rbind (attribute NsServer ''HardFailoverComplete'') (\<lambda>event_id. Inr
       ([(''node'', estr node),
         (''event_id'', EAtom (AInt event_id)),
         (''component'', estr ''ns_server''),
         (''description'', estr ''Hard failover completed''),
         (''severity'', estr ''info''),
         (''extra_attributes'', EDict [(''nodes_info'', (EDict [(''active_nodes'', active_nodes),
           (''failover_nodes'', failover_nodes), (''master_node'', master_node)])), (''completion_message'',
           (estr ''Failover completed successfully.''))])]))"

definition NsServerEvents_hard_failover_failed :: "string \<Rightarrow> ev_val \<Rightarrow> ev_val \<Rightarrow> ev_val \<Rightarrow> event res" where
  "NsServerEvents_hard_failover_failed node active_nodes failover_nodes master_node =
     rbind (attribute NsServer ''HardFailoverComplete'') (\<lambda>event_id. Inr
       ([(''node'', estr node),
         (''event_id'', EAtom (AInt event_id)),
         (''component'', estr ''ns_server''),
         (''description'', estr ''Hard failover failed''),
         (''severity'', estr ''info''),
         (''extra_attributes'', EDict [(''nodes_info'', (EDict [(''active_nodes'', active_nodes),
           (''failover_nodes'', failover_nodes), (''master_node'', master_node)]))])]))"

definition NsServerEvents_orchestrator_change :: "ev_val \<Rightarrow> ev_val \<Rightarrow> event res" where
  "NsServerEvents_orchestrator_change old_orchestrator new_orchestrator =
     rbind (attribute NsServer ''MasterSelected'') (\<lambda>event_id. Inr
       ([(''event_id'', EAtom (AInt event_id)),
         (''component'', estr ''ns_server''),
         (''description'', estr ''Master selected''),
         (''severity'', estr ''info''),
         (''extra_attributes'', EDict [(''old_master'', old_orchestrator), (''new_master'', new_orchestrator)])]))"

definition NsServerEvents_topology_update :: "string \<Rightarrow> ev_val \<Rightarrow> ev_val \<Rightarrow> event res" where
  "NsServerEvents_topology_update node old_topology new_topology =
     rbind (attribute NsServer ''TopologyChange'') (\<lambda>event_id. Inr
       ([(''node'', estr node),
         (''event_id'', EAtom (AInt event_id)),
         (''component'', estr ''ns_server''),
         (''extra_attributes'', EDict [(''old_topology'', old_topology), (''new_topology'', new_topology)])]))"

definition NsServerEvents_service_crashed :: "string \<Rightarrow> ev_val \<Rightarrow> ev_val \<Rightarrow> ev_val \<Rightarrow> event res" where
  "NsServerEvents_service_crashed node process_name process_id exit_status =
     rbind (attribute NsServer ''ServiceCrashed'') (\<lambda>event_id. Inr
       ([(''node'', estr node),
         (''event_id'', EAtom (AInt event_id)),
         (''component'', estr ''ns_server''),
         (''description'', estr ''Service crashed''),
         (''severity'', estr ''error''),
         (''extra_attributes'', EDict [(''name'', process_name), (''os_pid'', process_id),
           (''exit_status'', exit_status)])]))"

section \<open>DataServiceEvents\<close>

definition DataServiceEvents_bucket_offline :: "string \<Rightarrow> ev_val \<Rightarrow> event res" where
  "DataServiceEvents_bucket_offline node bucket_uuid =
     rbind (attribute KvEngine ''BucketOffline'') (\<lambda>event_id. Inr
       ([(''node'', estr node),
         (''event_id'', EAtom (AInt event_id)),
         (''component'', estr ''data''),
         (''extra_attributes'', EDict [(''bucket'', bucket_uuid)])]))"

definition DataServiceEvents_bucket_online :: "string \<Rightarrow> ev_val \<Rightarrow> ev_val \<Rightarrow> event res" where
  "DataServiceEvents_bucket_online node bucket bucket_uuid =
     rbind (attribute KvEngine ''BucketOnline'') (\<lambda>event_id. Inr
       ([(''node'', estr node),
         (''event_id'', EAtom (AInt event_id)),
         (''component'', estr ''data''),
         (''description'', estr ''Bucket online''),
         (''severity'', estr ''info''),
         (''extra_attributes'', EDict [(''bucket'', bucket), (''bucket_uuid'', bucket_uuid)])]))"

definition DataServiceEvents_bucket_create :: "string \<Rightarrow> ev_val \<Rightarrow> ev_val \<Rightarrow> ev_val \<Rightarrow> ev_val \<Rightarrow> event res" where
  "DataServiceEvents_bucket_create node bucket_type bucket bucket_uuid bucket_settings =
     rbind (attribute KvEngine ''BucketCreated'') (\<lambda>event_id. Inr
       ([(''node'', estr node),
         (''event_id'', EAtom (AInt event_id)),
         (''component'', estr ''data''),
         (''description'', estr ''Bucket created''),
         (''severity'', estr ''info''),
         (''extra_attributes'', EDict [(''bucket'', bucket), (''bucket_uuid'', bucket_uuid),
           (''bucket_type'', bucket_type), (''bucket_props'', bucket_settings)])]))"

definition DataServiceEvents_bucket_dropped :: "string \<Rightarrow> ev_val \<Rightarrow> ev_val \<Rightarrow> event res" where
  "DataServiceEvents_bucket_dropped node bucket bucket_uuid =
     rbind (attribute KvEngine ''BucketDeleted'') (\<lambda>event_id. Inr
       ([(''node'', estr node),
         (''event_id'', EAtom (AInt event_id)),
         (''component'', estr ''data''),
         (''description'', estr ''Bucket deleted''),
         (''severity'', estr ''info''),
         (''extra_attributes'', EDict [(''bucket'', bucket), (''bucket_uuid'', bucket_uuid)])]))"

definition DataServiceEvents_bucket_flushed :: "string \<Rightarrow> ev_val \<Rightarrow> ev_val \<Rightarrow> event res" where
  "DataServiceEvents_bucket_flushed node bucket bucket_uuid =
     rbind (attribute KvEngine ''BucketFlushed'') (\<lambda>event_id. Inr
       ([(''node'', estr node),
         (''event_id'', EAtom (AInt event_id)),
         (''component'', estr ''data''),
         (''description'', estr ''Bucket flushed''),
         (''severity'', estr ''info''),
         (''extra_attributes'', EDict [(''bucket'', bucket), (''bucket_uuid'', bucket_uuid)])]))"

definition DataServiceEvents_bucket_updated :: "string \<Rightarrow> ev_val \<Rightarrow> ev_val \<Rightarrow> ev_val \<Rightarrow> ev_val \<Rightarrow> ev_val \<Rightarrow> event res" where
  "DataServiceEvents_bucket_updated node bucket bucket_uuid bucket_type old_settings new_settings =
     rbind (attribute KvEngine ''BucketConfigChanged'') (\<lambda>event_id. Inr
       ([(''node'', estr node),
         (''event_id'', EAtom (AInt event_id)),
         (''component'', estr ''data''),
         (''description'', estr ''Bucket configuration changed''),
         (''severity'', estr ''info''),
         (''extra_attributes'', EDict [(''bucket'', bucket), (''bucket_uuid'', bucket_uuid), (''type'', bucket_type),
           (''old_settings'', old_settings), (''new_settings'', new_settings)])]))"

definition DataServiceEvents_collection_created :: "string \<Rightarrow> ev_val \<Rightarrow> ev_val \<Rightarrow> ev_val \<Rightarrow> event res" where
  "DataServiceEvents_collection_created node bucket scope collection =
     rbind (attribute KvEngine ''CollectionCreated'') (\<lambda>event_id. Inr
       ([(''node'', estr node),
         (''event_id'', EAtom (AInt event_id)),
         (''component'', estr ''data''),
         (''description'', estr ''Collection created''),
         (''severity'', estr ''info''),
         (''extra_attributes'', EDict [(''bucket'', bucket), (''scope'', scope), (''collection'', collection)])]))"

definition DataServiceEvents_collection_dropped :: "string \<Rightarrow> ev_val \<Rightarrow> ev_val \<Rightarrow> ev_val \<Rightarrow> event res" where
  "DataServiceEvents_collection_dropped node bucket scope collection =
     rbind (attribute KvEngine ''CollectionDropped'') (\<lambda>event_id. Inr
       ([(''node'', estr node),
         (''event_id'', EAtom (AInt event_id)),
         (''component'', estr ''data''),
         (''description'', estr ''Collection deleted''),
         (''severity'', estr ''info''),
         (''extra_attributes'', EDict [(''bucket'', bucket), (''scope'', scope), (''collection'', collection)])]))"

definition DataServiceEvents_scope_created :: "string \<Rightarrow> ev_val \<Rightarrow> ev_val \<Rightarrow> event res" where
  "DataServiceEvents_scope_created node bucket scope =
     rbind (attribute KvEngine ''ScopeCreated'') (\<lambda>event_id. Inr
       ([(''node'', estr node),
         (''event_id'', EAtom (AInt event_id)),
         (''component'', estr ''data''),
         (''description'', estr ''Scope created''),
         (''severity'', estr ''info''),
         (''extra_attributes'', EDict [(''bucket'', bucket), (''scope'', scope)])]))"

definition DataServiceEvents_scope_dropped :: "string \<Rightarrow> ev_val \<Rightarrow> ev_val \<Rightarrow> event res" where
  "DataServiceEvents_scope_dropped node bucket scope =
     rbind (attribute KvEngine ''ScopeDropped'') (\<lambda>event_id. Inr
       ([(''node'', estr node),
         (''event_id'', EAtom (AInt event_id)),
         (''component'', estr ''data''),
         (''description'', estr ''Scope deleted''),
         (''severity'', estr ''info''),
         (''extra_attributes'', EDict [(''bucket'', bucket), (''scope'', scope)])]))"

definition DataServiceEvents_ephemeral_auto_reprovision :: "string \<Rightarrow> ev_val \<Rightarrow> ev_val \<Rightarrow> string list \<Rightarrow> string list \<Rightarrow> event res" where
  "DataServiceEvents_ephemeral_auto_reprovision node bucket bucket_uuid nodes restarted_on =
     rbind (attribute KvEngine ''EphemeralAutoReprovision'') (\<lambda>event_id. Inr
       ([(''node'', estr node),
         (''event_id'', EAtom (AInt event_id)),
         (''component'', estr ''data''),
         (''description'', estr ''Bucket auto reprovisioned''),
         (''severity'', estr ''info''),
         (''extra_attributes'', EDict [(''bucket'', bucket), (''bucket_uuid'', bucket_uuid), (''nodes'',
           (EList (map (\<lambda>ip. AStr (''ns_1@'' @ ip)) nodes))), (''restarted_on'',
           (EList (map (\<lambda>ip. AStr (''ns_1@'' @ ip)) restarted_on)))])]))"

definition DataServiceEvents_memcached_settings_changed :: "string \<Rightarrow> ev_val \<Rightarrow> ev_val \<Rightarrow> event res" where
  "DataServiceEvents_memcached_settings_changed node prev_settings new_settings =
     rbind (attribute KvEngine ''MemcachedConfigChanged'') (\<lambda>event_id. Inr
       ([(''node'', estr node),
         (''event_id'', EAtom (AInt event_id)),
         (''component'', estr ''data''),
         (''description'', estr ''Memcached configuration changed''),
         (''severity'', estr ''info''),
         (''extra_attributes'', EDict [(''old_settings'', prev_settings), (''new_settings'', new_settings)])]))"

section \<open>SecurityEvents\<close>

definition SecurityEvents_audit_enabled :: "string \<Rightarrow> ev_val \<Rightarrow> ev_val \<Rightarrow> ev_val \<Rightarrow> ev_val \<Rightarrow> event res" where
  "SecurityEvents_audit_enabled node enabled_audit_ids log_path rotate_interval rotate_size =
     rbind (attribute Security ''AuditEnabled'') (\<lambda>event_id. Inr
       ([(''component'', estr ''security''),
         (''severity'', estr ''info''),
         (''event_id'', EAtom (AInt event_id)),
         (''description'', estr ''Audit enabled''),
         (''node'', estr node),
         (''otp_node'', estr (''ns_1@'' @ node)),
         (''extra_attributes'', EDict [(''new_settings'', (EDict [(''enabled_audit_ids'', enabled_audit_ids),
           (''log_path'', log_path), (''rotate_interval'', rotate_interval), (''rotate_size'', rotate_size)]))])]))"

definition SecurityEvents_audit_disabled :: "string \<Rightarrow> ev_val \<Rightarrow> ev_val \<Rightarrow> ev_val \<Rightarrow> ev_val \<Rightarrow> ev_val \<Rightarrow> event res" where
  "SecurityEvents_audit_disabled node enabled_audit_ids log_path rotate_interval rotate_size sync =
     rbind (attribute Security ''AuditDisabled'') (\<lambda>event_id. Inr
       ([(''component'', estr ''security''),
         (''severity'', estr ''info''),
         (''event_id'', EAtom (AInt event_id)),
         (''description'', estr ''Audit disabled''),
         (''node'', estr node),
         (''otp_node'', estr (''ns_1@'' @ node)),
         (''extra_attributes'', EDict [(''old_settings'', (EDict [(''enabled_audit_ids'', enabled_audit_ids),
           (''log_path'', log_path), (''rotate_interval'', rotate_interval), (''rotate_size'', rotate_size),
           (''sync'', sync)]))])]))"

definition SecurityEvents_audit_setting_changed :: "string \<Rightarrow> ev_val \<Rightarrow> ev_val \<Rightarrow> ev_val \<Rightarrow> ev_val \<Rightarrow> ev_val \<Rightarrow> ev_val \<Rightarrow> ev_val \<Rightarrow> ev_val \<Rightarrow> ev_val \<Rightarrow> event res" where
  "SecurityEvents_audit_setting_changed node old_enabled_audit_ids old_log_path old_rotate_interval old_rotate_size sync new_enabled_audit_ids new_log_path new_rotate_interval new_rotate_size =
     rbind (attribute Security ''AuditSettingChanged'') (\<lambda>event_id. Inr
       ([(''component'', estr ''security''),
         (''severity'', estr ''info''),
         (''event_id'', EAtom (AInt event_id)),
         (''description'', estr ''Audit configuration changed''),
         (''node'', estr node),
         (''otp_node'', estr (''ns_1@'' @ node)),
         (''extra_attributes'', EDict [(''old_settings'', (EDict [(''enabled_audit_ids'', old_enabled_audit_ids),
           (''log_path'', old_log_path), (''rotate_interval'', old_rotate_interval), (''rotate_size'', old_rotate_size),
           (''sync'', sync)])), (''new_settings'', (EDict [(''enabled_audit_ids'', new_enabled_audit_ids),
           (''log_path'', new_log_path), (''rotate_interval'', new_rotate_interval),
           (''rotate_size'', new_rotate_size)]))])]))"

definition SecurityEvents_user_added :: "string \<Rightarrow> ev_val \<Rightarrow> event res" where
  "SecurityEvents_user_added node domain =
     rbind (attribute Security ''UserAdded'') (\<lambda>event_id. Inr
       ([(''component'', estr ''security''),
         (''severity'', estr ''info''),
         (''event_id'', EAtom (AInt event_id)),
         (''description'', estr ''User added''),
         (''node'', estr node),
         (''otp_node'', estr (''ns_1@'' @ node)),
         (''extra_attributes'', EDict [(''user'', (estr '''')), (''domain'', domain)])]))"

definition SecurityEvents_user_deleted :: "string \<Rightarrow> ev_val \<Rightarrow> event res" where
  "SecurityEvents_user_deleted node domain =
     rbind (attribute Security ''UserRemoved'') (\<lambda>event_id. Inr
       ([(''component'', estr ''security''),
         (''severity'', estr ''info''),
         (''event_id'', EAtom (AInt event_id)),
         (''description'', estr ''User deleted''),
         (''node'', estr node),
         (''otp_node'', estr (''ns_1@'' @ node)),
         (''extra_attributes'', EDict [(''user'', (estr '''')), (''domain'', domain)])]))"

definition SecurityEvents_group_added :: "string \<Rightarrow> event res" where
  "SecurityEvents_group_added node =
     rbind (attribute Security ''GroupAdded'') (\<lambda>event_id. Inr
       ([(''component'', estr ''security''),
         (''severity'', estr ''info''),
         (''event_id'', EAtom (AInt event_id)),
         (''description'', estr ''Group added''),
         (''node'', estr node),
         (''otp_node'', estr (''ns_1@'' @ node)),
         (''extra_attributes'', EDict [(''group'', (estr ''''))])]))"

definition SecurityEvents_group_deleted :: "string \<Rightarrow> event res" where
  "SecurityEvents_group_deleted node =
     rbind (attribute Security ''GroupRemoved'') (\<lambda>event_id. Inr
       ([(''component'', estr ''security''),
         (''severity'', estr ''info''),
         (''event_id'', EAtom (AInt event_id)),
         (''description'', estr ''Group deleted''),
         (''node'', estr node),
         (''otp_node'', estr (''ns_1@'' @ node)),
         (''extra_attributes'', EDict [(''group'', (estr ''''))])]))"

definition SecurityEvents_password_policy_changed :: "string \<Rightarrow> ev_val \<Rightarrow> ev_val \<Rightarrow> ev_val \<Rightarrow> ev_val \<Rightarrow> event res" where
  "SecurityEvents_password_policy_changed node old_min_length old_must_present new_min_length new_must_present =
     rbind (attribute Security ''PasswordPolicyChanged'') (\<lambda>event_id. Inr
       ([(''component'', estr ''security''),
         (''severity'', estr ''info''),
         (''event_id'', EAtom (AInt event_id)),
         (''description'', estr ''Password policy changed''),
         (''node'', estr node),
         (''otp_node'', estr (''ns_1@'' @ node)),
         (''extra_attributes'', EDict [(''old_settings'', (EDict [(''min_length'', old_min_length),
           (''must_present'', old_must_present)])), (''new_settings'', (EDict [(''min_length'', new_min_length),
           (''must_present'', new_must_present)]))])]))"

definition SecurityEvents_sasldauth_config_changed :: "string \<Rightarrow> ev_val \<Rightarrow> ev_val \<Rightarrow> event res" where
  "SecurityEvents_sasldauth_config_changed node old_enabled new_enabled =
     rbind (attribute Security ''SasldAuthConfigChanged'') (\<lambda>event_id. Inr
       ([(''component'', estr ''security''),
         (''severity'', estr ''info''),
         (''event_id'', EAtom (AInt event_id)),
         (''description'', estr ''sasldauth config changed''),
         (''node'', estr node),
         (''otp_node'', estr (''ns_1@'' @ node)),
         (''extra_attributes'', EDict [(''old_settings'', (EDict [(''enabled'', old_enabled), (''admins'',
           (estr ''redacted'')), (''roAdmins'', (estr ''redacted''))])), (''new_settings'',
           (EDict [(''enabled'', new_enabled), (''admins'', (estr ''redacted'')), (''roAdmins'',
           (estr ''redacted''))]))])]))"

definition SecurityEvents_ldap_config_changed :: "string \<Rightarrow> ev_val \<Rightarrow> ev_val \<Rightarrow> event res" where
  "SecurityEvents_ldap_config_changed node old_settings_map new_settings_map =
     rbind (attribute Security ''LdapConfigChanged'') (\<lambda>event_id. Inr
       ([(''component'', estr ''security''),
         (''severity'', estr ''info''),
         (''event_id'', EAtom (AInt event_id)),
         (''description'', estr ''LDAP configuration changed''),
         (''node'', estr node),
         (''otp_node'', estr (''ns_1@'' @ node)),
         (''extra_attributes'', EDict [(''old_settings'', old_settings_map), (''new_settings'', new_settings_map)])]))"

definition SecurityEvents_security_config_changed :: "string \<Rightarrow> ev_val \<Rightarrow> ev_val \<Rightarrow> event res" where
  "SecurityEvents_security_config_changed node old_settings_map new_settings_map =
     rbind (attribute Security ''SecurityConfigChanged'') (\<lambda>event_id. Inr
       ([(''component'', estr ''security''),
         (''severity'', estr ''info''),
         (''event_id'', EAtom (AInt event_id)),
         (''description'', estr ''Security config changed''),
         (''node'', estr node),
         (''otp_node'', estr (''ns_1@'' @ node)),
         (''extra_attributes'', EDict [(''old_settings'', old_settings_map), (''new_settings'', new_settings_map)])]))"

section \<open>AnalyticsEvents\<close>

definition AnalyticsEvents_process_started :: "string \<Rightarrow> ev_val \<Rightarrow> event res" where
  "AnalyticsEvents_process_started node process_name =
     rbind (attribute Analytics ''ProcessStarted'') (\<lambda>event_id. Inr
       ([(''component'', estr ''analytics''),
         (''severity'', estr ''info''),
         (''event_id'', EAtom (AInt event_id)),
         (''description'', estr ''Analytics Process Started''),
         (''node'', estr node),
         (''extra_attributes'', EDict [(''process_name'', process_name)])]))"

definition AnalyticsEvents_process_crashed :: "string \<Rightarrow> ev_val \<Rightarrow> event res" where
  "AnalyticsEvents_process_crashed node process_name =
     rbind (attribute Analytics ''ProcessCrashed'') (\<lambda>event_id. Inr
       ([(''component'', estr ''analytics''),
         (''severity'', estr ''error''),
         (''event_id'', EAtom (AInt event_id)),
         (''description'', estr ''Analytics Process Crashed''),
         (''node'', estr node),
         (''extra_attributes'', EDict [(''process_name'', process_name)])]))"

definition AnalyticsEvents_process_exited :: "string \<Rightarrow> ev_val \<Rightarrow> event res" where
  "AnalyticsEvents_process_exited node process_name =
     rbind (attribute Analytics ''ProcessExited'') (\<lambda>event_id. Inr
       ([(''component'', estr ''analytics''),
         (''severity'', estr ''info''),
         (''event_id'', EAtom (AInt event_id)),
         (''description'', estr ''Analytics Process Exited''),
         (''node'', estr node),
         (''extra_attributes'', EDict [(''process_name'', process_name)])]))"

definition AnalyticsEvents_topology_change_started :: "string \<Rightarrow> ev_val \<Rightarrow> ev_val \<Rightarrow> event res" where
  "AnalyticsEvents_topology_change_started node node_in node_out =
     rbind (attribute Analytics ''TopologyChangeStarted'') (\<lambda>event_id. Inr
       ([(''component'', estr ''analytics''),
         (''severity'', estr ''info''),
         (''event_id'', EAtom (AInt event_id)),
         (''description'', estr ''Analytics Topology Change Started''),
         (''node'', estr node),
         (''extra_attributes'', EDict [(''topology'', (EDict [(''num_eject_nodes'', node_out),
           (''num_keep_nodes'', node_in)]))])]))"

definition AnalyticsEvents_topology_change_failed :: "string \<Rightarrow> ev_val \<Rightarrow> ev_val \<Rightarrow> event res" where
  "AnalyticsEvents_topology_change_failed node node_in node_out =
     rbind (attribute Analytics ''TopologyChangeFailed'') (\<lambda>event_id. Inr
       ([(''component'', estr ''analytics''),
         (''severity'', estr ''error''),
         (''event_id'', EAtom (AInt event_id)),
         (''description'', estr ''Analytics Topology Change Failed''),
         (''node'', estr node),
         (''extra_attributes'', EDict [(''topology'', (EDict [(''num_eject_nodes'', node_out),
           (''num_keep_nodes'', node_in)]))])]))"

definition AnalyticsEvents_topology_change_completed :: "string \<Rightarrow> ev_val \<Rightarrow> ev_val \<Rightarrow> event res" where
  "AnalyticsEvents_topology_change_completed node node_in node_out =
     rbind (attribute Analytics ''TopologyChangeCompleted'') (\<lambda>event_id. Inr
       ([(''component'', estr ''analytics''),
         (''severity'', estr ''info''),
         (''event_id'', EAtom (AInt event_id)),
         (''description'', estr ''Analytics Topology Change Completed''),
         (''node'', estr node),
         (''extra_attributes'', EDict [(''topology'', (EDict [(''num_eject_nodes'', node_out),
           (''num_keep_nodes'', node_in)]))])]))"

definition AnalyticsEvents_collection_created :: "string \<Rightarrow> ev_val \<Rightarrow> ev_val \<Rightarrow> ev_val \<Rightarrow> ev_val \<Rightarrow> ev_val \<Rightarrow> ev_val \<Rightarrow> ev_val \<Rightarrow> event res" where
  "AnalyticsEvents_collection_created node scope_name collection_name link_scope_name link_name kv_bucket_name kv_scope_name kv_collection_name =
     rbind (attribute Analytics ''CollectionCreated'') (\<lambda>event_id. Inr
       ([(''component'', estr ''analytics''),
         (''severity'', estr ''info''),
         (''event_id'', EAtom (AInt event_id)),
         (''description'', estr ''Analytics Collection Created''),
         (''node'', estr node),
         (''extra_attributes'', EDict [(''scope_name'', scope_name), (''collection_name'', collection_name),
           (''link_scope_name'', link_scope_name), (''link_name'', link_name), (''source'',
           (EDict [(''bucket_name'', kv_bucket_name), (''scope_name'', kv_scope_name),
           (''collection_name'', kv_collection_name)]))])]))"

definition AnalyticsEvents_collection_mapped :: "string \<Rightarrow> ev_val \<Rightarrow> ev_val \<Rightarrow> ev_val \<Rightarrow> event res" where
  "AnalyticsEvents_collection_mapped node kv_bucket_name kv_scope_name kv_collection_name =
     rbind (attribute Analytics ''CollectionMapped'') (\<lambda>event_id. Inr
       ([(''component'', estr ''analytics''),
         (''severity'', estr ''info''),
         (''event_id'', EAtom (AInt event_id)),
         (''description'', estr ''Analytics Collection Mapped''),
         (''node'', estr node),
         (''extra_attributes'', EDict [(''bucket_name'', kv_bucket_name), (''scope_name'', kv_scope_name),
           (''collection_name'', kv_collection_name)])]))"

definition AnalyticsEvents_collection_dropped :: "string \<Rightarrow> ev_val \<Rightarrow> ev_val \<Rightarrow> event res" where
  "AnalyticsEvents_collection_dropped node scope_name collection_name =
     rbind (attribute Analytics ''CollectionDropped'') (\<lambda>event_id. Inr
       ([(''component'', estr ''analytics''),
         (''severity'', estr ''info''),
         (''event_id'', EAtom (AInt event_id)),
         (''description'', estr ''Analytics Collection Dropped''),
         (''node'', estr node),
         (''extra_attributes'', EDict [(''scope_name'', scope_name), (''collection_name'', collection_name)])]))"

definition AnalyticsEvents_collection_detached :: "string \<Rightarrow> ev_val \<Rightarrow> ev_val \<Rightarrow> event res" where
  "AnalyticsEvents_collection_detached node scope_name collection_name =
     rbind (attribute Analytics ''CollectionDetached'') (\<lambda>event_id. Inr
       ([(''component'', estr ''analytics''),
         (''severity'', estr ''warn''),
         (''event_id'', EAtom (AInt event_id)),
         (''description'', estr ''Analytics Collection Detached''),
         (''node'', estr node),
         (''extra_attributes'', EDict [(''scope_name'', scope_name), (''collection_name'', collection_name)])]))"

definition AnalyticsEvents_collection_attached :: "string \<Rightarrow> ev_val \<Rightarrow> ev_val \<Rightarrow> event res" where
  "AnalyticsEvents_collection_attached node scope_name collection_name =
     rbind (attribute Analytics ''CollectionAttached'') (\<lambda>event_id. Inr
       ([(''component'', estr ''analytics''),
         (''severity'', estr ''info''),
         (''event_id'', EAtom (AInt event_id)),
         (''description'', estr ''Analytics Collection Attached''),
         (''node'', estr node),
         (''extra_attributes'', EDict [(''scope_name'', scope_name), (''collection_name'', collection_name)])]))"

definition AnalyticsEvents_scope_created :: "string \<Rightarrow> ev_val \<Rightarrow> event res" where
  "AnalyticsEvents_scope_created node scope_name =
     rbind (attribute Analytics ''ScopeCreated'') (\<lambda>event_id. Inr
       ([(''component'', estr ''analytics''),
         (''severity'', estr ''info''),
         (''event_id'', EAtom (AInt event_id)),
         (''description'', estr ''Analytics Scope Created''),
         (''node'', estr node),
         (''extra_attributes'', EDict [(''scope_name'', scope_name)])]))"

definition AnalyticsEvents_scope_dropped :: "string \<Rightarrow> ev_val \<Rightarrow> event res" where
  "AnalyticsEvents_scope_dropped node scope_name =
     rbind (attribute Analytics ''ScopeDropped'') (\<lambda>event_id. Inr
       ([(''component'', estr ''analytics''),
         (''severity'', estr ''info''),
         (''event_id'', EAtom (AInt event_id)),
         (''description'', estr ''Analytics Scope Dropped''),
         (''node'', estr node),
         (''extra_attributes'', EDict [(''scope_name'', scope_name)])]))"

definition AnalyticsEvents_index_created :: "string \<Rightarrow> ev_val \<Rightarrow> ev_val \<Rightarrow> ev_val \<Rightarrow> event res" where
  "AnalyticsEvents_index_created node scope_name index_name collection_name =
     rbind (attribute Analytics ''IndexCreated'') (\<lambda>event_id. Inr
       ([(''component'', estr ''analytics''),
         (''severity'', estr ''info''),
         (''event_id'', EAtom (AInt event_id)),
         (''description'', estr ''Analytics Index Created''),
         (''node'', estr node),
         (''extra_attributes'', EDict [(''scope_name'', scope_name), (''index_name'', index_name),
           (''collection_name'', collection_name)])]))"

definition AnalyticsEvents_index_dropped :: "string \<Rightarrow> ev_val \<Rightarrow> ev_val \<Rightarrow> ev_val \<Rightarrow> event res" where
  "AnalyticsEvents_index_dropped node scope_name index_name collection_name =
     rbind (attribute Analytics ''IndexDropped'') (\<lambda>event_id. Inr
       ([(''component'', estr ''analytics''),
         (''severity'', estr ''info''),
         (''event_id'', EAtom (AInt event_id)),
         (''description'', estr ''Analytics Index Dropped''),
         (''node'', estr node),
         (''extra_attributes'', EDict [(''scope_name'', scope_name), (''index_name'', index_name),
           (''collection_name'', collection_name)])]))"

definition AnalyticsEvents_link_created :: "string \<Rightarrow> ev_val \<Rightarrow> event res" where
  "AnalyticsEvents_link_created node attributes =
     rbind (attribute Analytics ''LinkCreated'') (\<lambda>event_id. Inr
       ([(''component'', estr ''analytics''),
         (''severity'', estr ''info''),
         (''event_id'', EAtom (AInt event_id)),
         (''description'', estr ''Analytics Link Created''),
         (''node'', estr node),
         (''extra_attributes'', attributes)]))"

definition AnalyticsEvents_link_altered :: "string \<Rightarrow> ev_val \<Rightarrow> event res" where
  "AnalyticsEvents_link_altered node attributes =
     rbind (attribute Analytics ''LinkAltered'') (\<lambda>event_id. Inr
       ([(''component'', estr ''analytics''),
         (''severity'', estr ''info''),
         (''event_id'', EAtom (AInt event_id)),
         (''description'', estr ''Analytics Link Altered''),
         (''node'', estr node),
         (''extra_attributes'', attributes)]))"

definition AnalyticsEvents_link_dropped :: "string \<Rightarrow> ev_val \<Rightarrow> ev_val \<Rightarrow> event res" where
  "AnalyticsEvents_link_dropped node scope_name link_name =
     rbind (attribute Analytics ''LinkDropped'') (\<lambda>event_id. Inr
       ([(''component'', estr ''analytics''),
         (''severity'', estr ''info''),
         (''event_id'', EAtom (AInt event_id)),
         (''description'', estr ''Analytics Link Dropped''),
         (''node'', estr node),
         (''extra_attributes'', EDict [(''scope_name'', scope_name), (''link_name'', link_name)])]))"

definition AnalyticsEvents_link_connected :: "string \<Rightarrow> ev_val \<Rightarrow> ev_val \<Rightarrow> event res" where
  "AnalyticsEvents_link_connected node scope_name link_name =
     rbind (attribute Analytics ''LinkConnected'') (\<lambda>event_id. Inr
       ([(''component'', estr ''analytics''),
         (''severity'', estr ''info''),
         (''event_id'', EAtom (AInt event_id)),
         (''description'', estr ''Analytics Link Connected''),
         (''node'', estr node),
         (''extra_attributes'', EDict [(''scope_name'', scope_name), (''link_name'', link_name)])]))"

definition AnalyticsEvents_link_disconnected :: "string \<Rightarrow> ev_val \<Rightarrow> ev_val \<Rightarrow> event res" where
  "AnalyticsEvents_link_disconnected node scope_name link_name =
     rbind (attribute Analytics ''LinkDisconnected'') (\<lambda>event_id. Inr
       ([(''component'', estr ''analytics''),
         (''severity'', estr ''info''),
         (''event_id'', EAtom (AInt event_id)),
         (''description'', estr ''Analytics Link Disconnected''),
         (''node'', estr node),
         (''extra_attributes'', EDict [(''scope_name'', scope_name), (''link_name'', link_name)])]))"

definition AnalyticsEvents_setting_changed :: "string \<Rightarrow> ev_val \<Rightarrow> ev_val \<Rightarrow> ev_val \<Rightarrow> event res" where
  "AnalyticsEvents_setting_changed node option_name old_value new_value =
     rbind (attribute Analytics ''SettingChanged'') (\<lambda>event_id. Inr
       ([(''component'', estr ''analytics''),
         (''severity'', estr ''info''),
         (''event_id'', EAtom (AInt event_id)),
         (''description'', estr ''Analytics Settings Changed''),
         (''node'', estr node),
         (''extra_attributes'', EDict [(''scope'', (estr ''service'')), (''option_name'', option_name),
           (''old_value'', old_value), (''new_value'', new_value)])]))"

definition AnalyticsEvents_user_defined_function_created :: "string \<Rightarrow> ev_val \<Rightarrow> ev_val \<Rightarrow> ev_val \<Rightarrow> event res" where
  "AnalyticsEvents_user_defined_function_created node scope_name udf_name arity =
     rbind (attribute Analytics ''UserDefinedFunctionCreated'') (\<lambda>event_id. Inr
       ([(''component'', estr ''analytics''),
         (''severity'', estr ''info''),
         (''event_id'', EAtom (AInt event_id)),
         (''description'', estr ''Analytics User-Defined Function Created''),
         (''node'', estr node),
         (''extra_attributes'', EDict [(''scope_name'', scope_name), (''udf_name'', udf_name), (''arity'', arity)])]))"

definition AnalyticsEvents_user_defined_function_replaced :: "string \<Rightarrow> ev_val \<Rightarrow> ev_val \<Rightarrow> ev_val \<Rightarrow> event res" where
  "AnalyticsEvents_user_defined_function_replaced node scope_name udf_name arity =
     rbind (attribute Analytics ''UserDefinedFunctionReplaced'') (\<lambda>event_id. Inr
       ([(''component'', estr ''analytics''),
         (''severity'', estr ''info''),
         (''event_id'', EAtom (AInt event_id)),
         (''description'', estr ''Analytics User-Defined Function Replaced''),
         (''node'', estr node),
         (''extra_attributes'', EDict [(''scope_name'', scope_name), (''udf_name'', udf_name), (''arity'', arity)])]))"

definition AnalyticsEvents_user_defined_function_dropped :: "string \<Rightarrow> ev_val \<Rightarrow> ev_val \<Rightarrow> ev_val \<Rightarrow> event res" where
  "AnalyticsEvents_user_defined_function_dropped node scope_name udf_name arity =
     rbind (attribute Analytics ''UserDefinedFunctionDropped'') (\<lambda>event_id. Inr
       ([(''component'', estr ''analytics''),
         (''severity'', estr ''info''),
         (''event_id'', EAtom (AInt event_id)),
         (''description'', estr ''Analytics User-Defined Function Dropped''),
         (''node'', estr node),
         (''extra_attributes'', EDict [(''scope_name'', scope_name), (''udf_name'', udf_name), (''arity'', arity)])]))"

definition AnalyticsEvents_synonym_created :: "string \<Rightarrow> ev_val \<Rightarrow> ev_val \<Rightarrow> ev_val \<Rightarrow> ev_val \<Rightarrow> event res" where
  "AnalyticsEvents_synonym_created node scope_name synonym_name target_scope_name target_collection_name =
     rbind (attribute Analytics ''SynonymCreated'') (\<lambda>event_id. Inr
       ([(''component'', estr ''analytics''),
         (''severity'', estr ''info''),
         (''event_id'', EAtom (AInt event_id)),
         (''description'', estr ''Analytics Synonym Created''),
         (''node'', estr node),
         (''extra_attributes'', EDict [(''scope_name'', scope_name), (''synonym_name'', synonym_name),
           (''target_scope_name'', target_scope_name), (''target_collection_name'', target_collection_name)])]))"

definition AnalyticsEvents_synonym_dropped :: "string \<Rightarrow> ev_val \<Rightarrow> ev_val \<Rightarrow> event res" where
  "AnalyticsEvents_synonym_dropped node scope_name synonym_name =
     rbind (attribute Analytics ''SynonymDropped'') (\<lambda>event_id. Inr
       ([(''component'', estr ''analytics''),
         (''severity'', estr ''info''),
         (''event_id'', EAtom (AInt event_id)),
         (''description'', estr ''Analytics Synonym Dropped''),
         (''node'', estr node),
         (''extra_attributes'', EDict [(''scope_name'', scope_name), (''synonym_name'', synonym_name)])]))"

definition AnalyticsEvents_view_created :: "string \<Rightarrow> ev_val \<Rightarrow> ev_val \<Rightarrow> event res" where
  "AnalyticsEvents_view_created node scope_name view_name =
     rbind (attribute Analytics ''ViewCreated'') (\<lambda>event_id. Inr
       ([(''component'', estr ''analytics''),
         (''severity'', estr ''info''),
         (''event_id'', EAtom (AInt event_id)),
         (''description'', estr ''Analytics View Created''),
         (''node'', estr node),
         (''extra_attributes'', EDict [(''scope_name'', scope_name), (''view_name'', view_name)])]))"

definition AnalyticsEvents_view_dropped :: "string \<Rightarrow> ev_val \<Rightarrow> ev_val \<Rightarrow> event res" where
  "AnalyticsEvents_view_dropped node scope_name view_name =
     rbind (attribute Analytics ''ViewDropped'') (\<lambda>event_id. Inr
       ([(''component'', estr ''analytics''),
         (''severity'', estr ''info''),
         (''event_id'', EAtom (AInt event_id)),
         (''description'', estr ''Analytics View Dropped''),
         (''node'', estr node),
         (''extra_attributes'', EDict [(''scope_name'', scope_name), (''view_name'', view_name)])]))"

definition AnalyticsEvents_view_replaced :: "string \<Rightarrow> ev_val \<Rightarrow> ev_val \<Rightarrow> event res" where
  "AnalyticsEvents_view_replaced node scope_name view_name =
     rbind (attribute Analytics ''ViewReplaced'') (\<lambda>event_id. Inr
       ([(''component'', estr ''analytics''),
         (''severity'', estr ''info''),
         (''event_id'', EAtom (AInt event_id)),
         (''description'', estr ''Analytics View Replaced''),
         (''node'', estr node),
         (''extra_attributes'', EDict [(''scope_name'', scope_name), (''view_name'', view_name)])]))"

definition AnalyticsEvents_bucket_connected :: "string \<Rightarrow> ev_val \<Rightarrow> ev_val \<Rightarrow> ev_val \<Rightarrow> event res" where
  "AnalyticsEvents_bucket_connected node scope_name link_name bucket_name =
     rbind (attribute Analytics ''BucketConnected'') (\<lambda>event_id. Inr
       ([(''component'', estr ''analytics''),
         (''severity'', estr ''info''),
         (''event_id'', EAtom (AInt event_id)),
         (''description'', estr ''Analytics Bucket Connected''),
         (''node'', estr node),
         (''extra_attributes'', EDict [(''scope_name'', scope_name), (''link_name'', link_name),
           (''bucket_name'', bucket_name)])]))"

definition AnalyticsEvents_bucket_connect_failed :: "string \<Rightarrow> ev_val \<Rightarrow> ev_val \<Rightarrow> ev_val \<Rightarrow> event res" where
  "AnalyticsEvents_bucket_connect_failed node scope_name link_name bucket_name =
     rbind (attribute Analytics ''BucketConnectFailed'') (\<lambda>event_id. Inr
       ([(''component'', estr ''analytics''),
         (''severity'', estr ''error''),
         (''event_id'', EAtom (AInt event_id)),
         (''description'', estr ''Analytics Bucket Connect Failed''),
         (''node'', estr node),
         (''extra_attributes'', EDict [(''scope_name'', scope_name), (''link_name'', link_name),
           (''bucket_name'', bucket_name)])]))"

definition AnalyticsEvents_bucket_disconnected :: "string \<Rightarrow> ev_val \<Rightarrow> ev_val \<Rightarrow> ev_val \<Rightarrow> event res" where
  "AnalyticsEvents_bucket_disconnected node scope_name link_name bucket_name =
     rbind (attribute Analytics ''BucketDisconnected'') (\<lambda>event_id. Inr
       ([(''component'', estr ''analytics''),
         (''severity'', estr ''info''),
         (''event_id'', EAtom (AInt event_id)),
         (''description'', estr ''Analytics Bucket Disconnected''),
         (''node'', estr node),
         (''extra_attributes'', EDict [(''scope_name'', scope_name), (''link_name'', link_name),
           (''bucket_name'', bucket_name)])]))"

definition AnalyticsEvents_partition_topology_updated :: "string \<Rightarrow> ev_val \<Rightarrow> event res" where
  "AnalyticsEvents_partition_topology_updated node num_replicas =
     rbind (attribute Analytics ''PartitionTopologyUpdated'') (\<lambda>event_id. Inr
       ([(''component'', estr ''analytics''),
         (''severity'', estr ''info''),
         (''event_id'', EAtom (AInt event_id)),
         (''description'', estr ''Analytics Partitions Topology Updated''),
         (''node'', estr node),
         (''extra_attributes'', EDict [(''num_replicas'', num_replicas)])]))"

definition AnalyticsEvents_collection_analyzed :: "string \<Rightarrow> ev_val \<Rightarrow> ev_val \<Rightarrow> event res" where
  "AnalyticsEvents_collection_analyzed node scope_name collection_name =
     rbind (attribute Analytics ''CollectionAnalyzed'') (\<lambda>event_id. Inr
       ([(''component'', estr ''analytics''),
         (''severity'', estr ''info''),
         (''event_id'', EAtom (AInt event_id)),
         (''description'', estr ''Analytics Collection Analyzed''),
         (''node'', estr node),
         (''extra_attributes'', EDict [(''scope_name'', scope_name), (''collection_name'', collection_name)])]))"

definition AnalyticsEvents_collection_stats_dropped :: "string \<Rightarrow> ev_val \<Rightarrow> ev_val \<Rightarrow> event res" where
  "AnalyticsEvents_collection_stats_dropped node scope_name collection_name =
     rbind (attribute Analytics ''CollectionStatsDropped'') (\<lambda>event_id. Inr
       ([(''component'', estr ''analytics''),
         (''severity'', estr ''info''),
         (''event_id'', EAtom (AInt event_id)),
         (''description'', estr ''Analytics Collection Statistics Dropped''),
         (''node'', estr node),
         (''extra_attributes'', EDict [(''scope_name'', scope_name), (''collection_name'', collection_name)])]))"

section \<open>All events of the framework\<close>

inductive framework_event :: "event res \<Rightarrow> bool" where
  "framework_event (NsServerEvents_rebalance_started node active_nodes keep_nodes eject_nodes delta_nodes failed_nodes)"
| "framework_event (NsServerEvents_rebalance_success node active_nodes keep_nodes eject_nodes delta_nodes failed_nodes)"
| "framework_event (NsServerEvents_rebalance_failed node active_nodes keep_nodes eject_nodes delta_nodes failed_nodes)"
| "framework_event (NsServerEvents_node_added node node_added node_services)"
| "framework_event (NsServerEvents_service_started node extra_attrs)"
| "framework_event (NsServerEvents_node_offline node new_node)"
| "framework_event (NsServerEvents_auto_failover_started node active_nodes failover_nodes master_node failover_reason allow_unsafe)"
| "framework_event (NsServerEvents_auto_failover_complete node active_nodes failover_nodes master_node)"
| "framework_event (NsServerEvents_auto_failover_failure node active_nodes failover_nodes master_node)"
| "framework_event (NsServerEvents_graceful_failover_started node active_nodes failover_nodes master_node)"
| "framework_event (NsServerEvents_graceful_failover_complete node active_nodes failover_nodes master_node)"
| "framework_event (NsServerEvents_graceful_failover_failed node active_nodes failover_nodes master_node)"
| "framework_event (NsServerEvents_hard_failover_started node active_nodes failover_nodes master_node allow_unsafe)"
| "framework_event (NsServerEvents_hard_failover_complete node active_nodes failover_nodes master_node)"
| "framework_event (NsServerEvents_hard_failover_failed node active_nodes failover_nodes master_node)"
| "framework_event (NsServerEvents_orchestrator_change old_orchestrator new_orchestrator)"
| "framework_event (NsServerEvents_topology_update node old_topology new_topology)"
| "framework_event (NsServerEvents_service_crashed node process_name process_id exit_status)"
| "framework_event (DataServiceEvents_bucket_offline node bucket_uuid)"
| "framework_event (DataServiceEvents_bucket_online node bucket bucket_uuid)"
| "framework_event (DataServiceEvents_bucket_create node bucket_type bucket bucket_uuid bucket_settings)"
| "framework_event (DataServiceEvents_bucket_dropped node bucket bucket_uuid)"
| "framework_event (DataServiceEvents_bucket_flushed node bucket bucket_uuid)"
| "framework_event (DataServiceEvents_bucket_updated node bucket bucket_uuid bucket_type old_settings new_settings)"
| "framework_event (DataServiceEvents_collection_created node bucket scope collection)"
| "framework_event (DataServiceEvents_collection_dropped node bucket scope collection)"
| "framework_event (DataServiceEvents_scope_created node bucket scope)"
| "framework_event (DataServiceEvents_scope_dropped node bucket scope)"
| "framework_event (DataServiceEvents_ephemeral_auto_reprovision node bucket bucket_uuid nodes restarted_on)"
| "framework_event (DataServiceEvents_memcached_settings_changed node prev_settings new_settings)"
| "framework_event (SecurityEvents_audit_enabled node enabled_audit_ids log_path rotate_interval rotate_size)"
| "framework_event (SecurityEvents_audit_disabled node enabled_audit_ids log_path rotate_interval rotate_size sync)"
| "framework_event (SecurityEvents_audit_setting_changed node old_enabled_audit_ids old_log_path old_rotate_interval old_rotate_size sync new_enabled_audit_ids new_log_path new_rotate_interval new_rotate_size)"
| "framework_event (SecurityEvents_user_added node domain)"
| "framework_event (SecurityEvents_user_deleted node domain)"
| "framework_event (SecurityEvents_group_added node)"
| "framework_event (SecurityEvents_group_deleted node)"
| "framework_event (SecurityEvents_password_policy_changed node old_min_length old_must_present new_min_length new_must_present)"
| "framework_event (SecurityEvents_sasldauth_config_changed node old_enabled new_enabled)"
| "framework_event (SecurityEvents_ldap_config_changed node old_settings_map new_settings_map)"
| "framework_event (SecurityEvents_security_config_changed node old_settings_map new_settings_map)"
| "framework_event (AnalyticsEvents_process_started node process_name)"
| "framework_event (AnalyticsEvents_process_crashed node process_name)"
| "framework_event (AnalyticsEvents_process_exited node process_name)"
| "framework_event (AnalyticsEvents_topology_change_started node node_in node_out)"
| "framework_event (AnalyticsEvents_topology_change_failed node node_in node_out)"
| "framework_event (AnalyticsEvents_topology_change_completed node node_in node_out)"
| "framework_event (AnalyticsEvents_collection_created node scope_name collection_name link_scope_name link_name kv_bucket_name kv_scope_name kv_collection_name)"
| "framework_event (AnalyticsEvents_collection_mapped node kv_bucket_name kv_scope_name kv_collection_name)"
| "framework_event (AnalyticsEvents_collection_dropped node scope_name collection_name)"
| "framework_event (AnalyticsEvents_collection_detached node scope_name collection_name)"
| "framework_event (AnalyticsEvents_collection_attached node scope_name collection_name)"
| "framework_event (AnalyticsEvents_scope_created node scope_name)"
| "framework_event (AnalyticsEvents_scope_dropped node scope_name)"
| "framework_event (AnalyticsEvents_index_created node scope_name index_name collection_name)"
| "framework_event (AnalyticsEvents_index_dropped node scope_name index_name collection_name)"
| "framework_event (AnalyticsEvents_link_created node attributes)"
| "framework_event (AnalyticsEvents_link_altered node attributes)"
| "framework_event (AnalyticsEvents_link_dropped node scope_name link_name)"
| "framework_event (AnalyticsEvents_link_connected node scope_name link_name)"
| "framework_event (AnalyticsEvents_link_disconnected node scope_name link_name)"
| "framework_event (AnalyticsEvents_setting_changed node option_name old_value new_value)"
| "framework_event (AnalyticsEvents_user_defined_function_created node scope_name udf_name arity)"
| "framework_event (AnalyticsEvents_user_defined_function_replaced node scope_name udf_name arity)"
| "framework_event (AnalyticsEvents_user_defined_function_dropped node scope_name udf_name arity)"
| "framework_event (AnalyticsEvents_synonym_created node scope_name synonym_name target_scope_name target_collection_name)"
| "framework_event (AnalyticsEvents_synonym_dropped node scope_name synonym_name)"
| "framework_event (AnalyticsEvents_view_created node scope_name view_name)"
| "framework_event (AnalyticsEvents_view_dropped node scope_name view_name)"
| "framework_event (AnalyticsEvents_view_replaced node scope_name view_name)"
| "framework_event (AnalyticsEvents_bucket_connected node scope_name link_name bucket_name)"
| "framework_event (AnalyticsEvents_bucket_connect_failed node scope_name link_name bucket_name)"
| "framework_event (AnalyticsEvents_bucket_disconnected node scope_name link_name bucket_name)"
| "framework_event (AnalyticsEvents_partition_topology_updated node num_replicas)"
| "framework_event (AnalyticsEvents_collection_analyzed node scope_name collection_name)"
| "framework_event (AnalyticsEvents_collection_stats_dropped node scope_name collection_name)"

definition in_range :: "ev_val option \<Rightarrow> ev_val option \<Rightarrow> bool" where
  "in_range component event_id =
     (case (component, event_id) of
        (Some (EAtom (AStr c)), Some (EAtom (AInt i))) \<Rightarrow> (case valid_range c of Some (lo, hi) \<Rightarrow> lo \<le> i \<and> i \<le> hi | None \<Rightarrow> False)
      | _ \<Rightarrow> False)"

definition valid_severity :: "ev_val option \<Rightarrow> bool" where
  "valid_severity severity = (case severity of None \<Rightarrow> True | Some (EAtom (AStr s)) \<Rightarrow> s \<in> set Severity | _ \<Rightarrow> False)"

definition well_typed :: "event \<Rightarrow> bool" where
  "well_typed e \<longleftrightarrow> dict_wf e \<and> set (dict_keys e) \<subseteq> set Fields \<and>
     in_range (map_of e ''component'') (map_of e ''event_id'') \<and> valid_severity (map_of e ''severity'')"

lemmas event_defs = NsServerEvents_rebalance_started_def NsServerEvents_rebalance_success_def NsServerEvents_rebalance_failed_def
  NsServerEvents_node_added_def NsServerEvents_service_started_def NsServerEvents_node_offline_def
  NsServerEvents_auto_failover_started_def NsServerEvents_auto_failover_complete_def
  NsServerEvents_auto_failover_failure_def NsServerEvents_graceful_failover_started_def
  NsServerEvents_graceful_failover_complete_def NsServerEvents_graceful_failover_failed_def
  NsServerEvents_hard_failover_started_def NsServerEvents_hard_failover_complete_def
  NsServerEvents_hard_failover_failed_def NsServerEvents_orchestrator_change_def
  NsServerEvents_topology_update_def NsServerEvents_service_crashed_def DataServiceEvents_bucket_offline_def
  DataServiceEvents_bucket_online_def DataServiceEvents_bucket_create_def DataServiceEvents_bucket_dropped_def
  DataServiceEvents_bucket_flushed_def DataServiceEvents_bucket_updated_def
  DataServiceEvents_collection_created_def DataServiceEvents_collection_dropped_def
  DataServiceEvents_scope_created_def DataServiceEvents_scope_dropped_def
  DataServiceEvents_ephemeral_auto_reprovision_def DataServiceEvents_memcached_settings_changed_def
  SecurityEvents_audit_enabled_def SecurityEvents_audit_disabled_def SecurityEvents_audit_setting_changed_def
  SecurityEvents_user_added_def SecurityEvents_user_deleted_def SecurityEvents_group_added_def
  SecurityEvents_group_deleted_def SecurityEvents_password_policy_changed_def
  SecurityEvents_sasldauth_config_changed_def SecurityEvents_ldap_config_changed_def
  SecurityEvents_security_config_changed_def AnalyticsEvents_process_started_def
  AnalyticsEvents_process_crashed_def AnalyticsEvents_process_exited_def
  AnalyticsEvents_topology_change_started_def AnalyticsEvents_topology_change_failed_def
  AnalyticsEvents_topology_change_completed_def AnalyticsEvents_collection_created_def
  AnalyticsEvents_collection_mapped_def AnalyticsEvents_collection_dropped_def
  AnalyticsEvents_collection_detached_def AnalyticsEvents_collection_attached_def
  AnalyticsEvents_scope_created_def AnalyticsEvents_scope_dropped_def AnalyticsEvents_index_created_def
  AnalyticsEvents_index_dropped_def AnalyticsEvents_link_created_def AnalyticsEvents_link_altered_def
  AnalyticsEvents_link_dropped_def AnalyticsEvents_link_connected_def AnalyticsEvents_link_disconnected_def
  AnalyticsEvents_setting_changed_def AnalyticsEvents_user_defined_function_created_def
  AnalyticsEvents_user_defined_function_replaced_def AnalyticsEvents_user_defined_function_dropped_def
  AnalyticsEvents_synonym_created_def AnalyticsEvents_synonym_dropped_def AnalyticsEvents_view_created_def
  AnalyticsEvents_view_dropped_def AnalyticsEvents_view_replaced_def AnalyticsEvents_bucket_connected_def
  AnalyticsEvents_bucket_connect_failed_def AnalyticsEvents_bucket_disconnected_def
  AnalyticsEvents_partition_topology_updated_def AnalyticsEvents_collection_analyzed_def
  AnalyticsEvents_collection_stats_dropped_def

lemmas class_defs = NsServer_def KvEngine_def Security_def Analytics_def Xdcr_def

end
