(* ===== verification/Event_Log.thy ===== *)
theory Event_Log
  imports System_Events
begin

text \<open>
  \<^verbatim>\<open>EventHelper\<close> of \<^verbatim>\<open>lib/SystemEventLogLib/Events.py\<close>: the events a test expects, and their validation against the log of
  the cluster.

  \<^item> A \<^verbatim>\<open>datetime\<close> is a record of its fields; order and differences are those of its number of microseconds.
  \<^item> The two lists of events the REST interface returns are arguments. \<open>show\<close> gives the text of a recorded event.
  \<^item> \<^verbatim>\<open>sort\<close> changes the lists of a recorded event in place: the operations return the events as they are left.
\<close>

section \<open>Timestamps\<close>

record datetime =
  dt_year :: nat
  dt_month :: nat
  dt_day :: nat
  dt_hour :: nat
  dt_minute :: nat
  dt_second :: nat
  dt_micro :: nat

definition is_leap :: "nat \<Rightarrow> bool" where
  "is_leap y \<longleftrightarrow> y mod 4 = 0 \<and> (y mod 100 \<noteq> 0 \<or> y mod 400 = 0)"

definition days_in_month :: "nat \<Rightarrow> nat \<Rightarrow> nat" where
  "days_in_month y m = (if m = 2 then (if is_leap y then 29 else 28) else if m \<in> set [4, 6, 9, 11] then 30 else 31)"

definition days_before_year :: "nat \<Rightarrow> int" where
  "days_before_year y = (let n = int y - 1 in n * 365 + n div 4 - n div 100 + n div 400)"

definition to_micros :: "datetime \<Rightarrow> int" where
  "to_micros d =
     (let days = days_before_year (dt_year d) + (\<Sum>m \<leftarrow> [1..<dt_month d]. int (days_in_month (dt_year d) m)) + int (dt_day d);
          seconds = ((days * 24 + int (dt_hour d)) * 60 + int (dt_minute d)) * 60 + int (dt_second d)
      in seconds * 1000000 + int (dt_micro d))"

definition valid_datetime :: "datetime \<Rightarrow> bool" where
  "valid_datetime d \<longleftrightarrow> 1 \<le> dt_year d \<and> dt_year d \<le> 9999 \<and> 1 \<le> dt_month d \<and> dt_month d \<le> 12 \<and> 1 \<le> dt_day d \<and>
     dt_day d \<le> days_in_month (dt_year d) (dt_month d) \<and> dt_hour d < 24 \<and> dt_minute d < 60 \<and> dt_second d < 60 \<and> dt_micro d < 1000000"

definition pad :: "nat \<Rightarrow> nat \<Rightarrow> string" where
  "pad w n = zfill (nat_str n) (int w)"

text \<open>\<^verbatim>\<open>strftime\<close> of Python 2 refuses years before 1900.\<close>

definition get_timestamp_format :: "datetime \<Rightarrow> string res" where
  "get_timestamp_format d =
     (if dt_year d < 1900 then Inl ValueError
      else Inr (nat_str (dt_year d) @ ''-'' @ pad 2 (dt_month d) @ ''-'' @ pad 2 (dt_day d) @ ''T'' @ pad 2 (dt_hour d) @ '':'' @
                pad 2 (dt_minute d) @ '':'' @ pad 2 (dt_second d) @ ''.'' @ take 3 (pad 6 (dt_micro d)) @ ''Z''))"

text \<open>\<^verbatim>\<open>strptime\<close> with the format \<^verbatim>\<open>%Y-%m-%dT%H:%M:%S.%fZ\<close>: every number is followed by a character that is not a digit, so
  it is a whole run of digits; letters match in either case; a day may have a blank for its first digit.\<close>

definition is_digit :: "char \<Rightarrow> bool" where
  "is_digit c \<longleftrightarrow> 48 \<le> (of_char c :: nat) \<and> (of_char c :: nat) \<le> 57"

definition number :: "nat \<Rightarrow> nat \<Rightarrow> string \<Rightarrow> (nat \<times> string) res" where
  "number lo hi s =
     (let ds = takeWhile is_digit s in
      if lo \<le> length ds \<and> length ds \<le> hi
      then rbind (of_option ValueError (digits_val 10 ds 0)) (\<lambda>n. Inr (n, dropWhile is_digit s))
      else Inl ValueError)"

definition literal :: "char \<Rightarrow> string \<Rightarrow> string res" where
  "literal c s = (case s of [] \<Rightarrow> Inl ValueError | x # xs \<Rightarrow> if lower_char x = lower_char c then Inr xs else Inl ValueError)"

definition day_number :: "string \<Rightarrow> (nat \<times> string) res" where
  "day_number s = (case s of x # xs \<Rightarrow> if x = CHR '' '' then number 1 1 xs else number 1 2 s | [] \<Rightarrow> Inl ValueError)"

definition fraction :: "string \<Rightarrow> (nat \<times> string) res" where
  "fraction s =
     (let ds = takeWhile is_digit s in
      rbind (number 1 6 s) (\<lambda>(n, rest). Inr (n * 10 ^ (6 - length ds), rest)))"

definition get_datetime_obj_from_str :: "string \<Rightarrow> datetime res" where
  "get_datetime_obj_from_str s =
     rbind (number 4 4 s) (\<lambda>(y, s). rbind (literal CHR ''-'' s) (\<lambda>s.
     rbind (number 1 2 s) (\<lambda>(m, s). rbind (literal CHR ''-'' s) (\<lambda>s.
     rbind (day_number s) (\<lambda>(d, s). rbind (literal CHR ''T'' s) (\<lambda>s.
     rbind (number 1 2 s) (\<lambda>(h, s). rbind (literal CHR '':'' s) (\<lambda>s.
     rbind (number 1 2 s) (\<lambda>(mi, s). rbind (literal CHR '':'' s) (\<lambda>s.
     rbind (number 1 2 s) (\<lambda>(sec, s). rbind (literal CHR ''.'' s) (\<lambda>s.
     rbind (fraction s) (\<lambda>(us, s). rbind (literal CHR ''Z'' s) (\<lambda>s.
     let dt = \<lparr>dt_year = y, dt_month = m, dt_day = d, dt_hour = h, dt_minute = mi, dt_second = sec, dt_micro = us\<rparr> in
     if s = [] \<and> valid_datetime dt then Inr dt else Inl ValueError))))))))))))))"

section \<open>Recording events\<close>

datatype ev_entry = One event | Parallel "event list"

record helper =
  eh_start :: "string option"
  eh_events :: "ev_entry list"
  eh_parallel :: bool
  eh_counter :: int

definition new_helper :: helper where
  "new_helper = \<lparr>eh_start = None, eh_events = [], eh_parallel = False, eh_counter = 0\<rparr>"

definition increment :: "helper \<Rightarrow> helper" where
  "increment h = h\<lparr>eh_counter := eh_counter h + 1\<rparr>"

definition max_events_reached :: "int \<Rightarrow> helper \<Rightarrow> bool" where
  "max_events_reached max_events h \<longleftrightarrow> max_events < eh_counter h"

definition set_counter :: "int \<Rightarrow> helper \<Rightarrow> helper" where
  "set_counter counter h = h\<lparr>eh_counter := counter\<rparr>"

definition set_test_start_time :: "datetime \<Rightarrow> helper \<Rightarrow> helper res" where
  "set_test_start_time now h = rbind (get_timestamp_format now) (\<lambda>s. Inr (h\<lparr>eh_start := Some s\<rparr>))"

definition enable_parallel_events :: "helper \<Rightarrow> helper" where
  "enable_parallel_events h = h\<lparr>eh_parallel := True, eh_events := eh_events h @ [Parallel []]\<rparr>"

definition disable_parallel_events :: "helper \<Rightarrow> helper" where
  "disable_parallel_events h = h\<lparr>eh_parallel := False\<rparr>"

definition update_event_extra_attrs :: "event \<Rightarrow> ev_val \<Rightarrow> event" where
  "update_event_extra_attrs e attrs = AList.update ''extra_attributes'' attrs e"

definition append_event :: "event \<Rightarrow> helper \<Rightarrow> helper res" where
  "append_event e h =
     (if eh_parallel h then
        (if eh_events h = [] then Inl IndexError
         else
           (case last (eh_events h) of
              One _ \<Rightarrow> Inl AttributeError
            | Parallel es \<Rightarrow> Inr (h\<lparr>eh_events := butlast (eh_events h) @ [Parallel (es @ [e])]\<rparr>)))
      else Inr (h\<lparr>eh_events := eh_events h @ [One e]\<rparr>))"

definition add_event :: "int \<Rightarrow> event \<Rightarrow> helper \<Rightarrow> helper res" where
  "add_event max_events e h =
     (if eh_start h = None then Inr h
      else
        rbind (append_event e h) (\<lambda>h.
        let h = increment h in
        Inr (if max_events_reached max_events h then h\<lparr>eh_events := tl (eh_events h)\<rparr> else h)))"

section \<open>Duplicates and order of the cluster's events\<close>

definition atom_of :: "ev_val \<Rightarrow> ev_atom res" where
  "atom_of v = (case v of EAtom a \<Rightarrow> Inr a | _ \<Rightarrow> Inl TypeError)"

definition text_of :: "ev_val \<Rightarrow> string res" where
  "text_of v = (case v of EAtom (AStr s) \<Rightarrow> Inr s | _ \<Rightarrow> Inl TypeError)"

definition atom_text :: "ev_atom \<Rightarrow> string" where
  "atom_text a = (case a of ANone \<Rightarrow> ''None'' | AInt i \<Rightarrow> int_str i | AStr s \<Rightarrow> s)"

definition blocked_window :: int where
  "blocked_window = 60"

record dup_state =
  du_found :: bool
  du_failures :: "string list"
  du_prev :: "string option"
  du_nodes :: "(ev_atom, (ev_atom, string) dict) dict"

definition dup_fail :: "string \<Rightarrow> dup_state \<Rightarrow> dup_state" where
  "dup_fail msg s = s\<lparr>du_found := True, du_failures := du_failures s @ [msg]\<rparr>"

definition check_order :: "ev_atom \<Rightarrow> string \<Rightarrow> dup_state \<Rightarrow> dup_state res" where
  "check_order uuid ts s =
     rbind (get_datetime_obj_from_str ts) (\<lambda>cur.
     rbind (case du_prev s of
              None \<Rightarrow> Inr s
            | Some pts \<Rightarrow>
                rbind (get_datetime_obj_from_str pts) (\<lambda>prev.
                Inr (if to_micros cur < to_micros prev
                     then dup_fail (''Events not ordered by time !! UUID '' @ atom_text uuid @ '' - timestamp (curr) '' @ ts @ '' < '' @ pts @ '' (prev)'') s
                     else s))) (\<lambda>s. Inr (s\<lparr>du_prev := Some ts\<rparr>)))"

definition check_uuid :: "ev_atom \<Rightarrow> ev_atom \<Rightarrow> string \<Rightarrow> dup_state \<Rightarrow> dup_state res" where
  "check_uuid node uuid ts s =
     (let seen = dict_get (du_nodes s) node [] in
      rbind (case map_of seen uuid of
               None \<Rightarrow> Inr s
             | Some pts \<Rightarrow>
                 rbind (get_datetime_obj_from_str pts) (\<lambda>prev.
                 rbind (get_datetime_obj_from_str ts) (\<lambda>cur.
                 Inr (if to_micros cur - to_micros prev < blocked_window * 1000000
                      then dup_fail (''Duplicate UUID detected for timestamps!! '' @ atom_text uuid @ '' is present during '' @ pts @ '' and '' @ ts) s
                      else s)))) (\<lambda>s.
      Inr (s\<lparr>du_nodes := AList.update node (AList.update uuid ts seen) (du_nodes s)\<rparr>)))"

definition dup_step :: "dup_state \<Rightarrow> event \<Rightarrow> dup_state res" where
  "dup_step s e =
     rbind (rbind (dict_lookup e ''uuid'') atom_of) (\<lambda>uuid.
     rbind (rbind (dict_lookup e ''timestamp'') text_of) (\<lambda>ts.
     rbind (check_order uuid ts s) (\<lambda>s.
     rbind (rbind (dict_lookup e ''node'') atom_of) (\<lambda>node. check_uuid node uuid ts s))))"

definition duplicate_event_ids_present :: "event list \<Rightarrow> (bool \<times> string list) res" where
  "duplicate_event_ids_present events =
     rbind (rfold dup_step \<lparr>du_found = False, du_failures = [], du_prev = None, du_nodes = []\<rparr> events) (\<lambda>s.
     Inr (du_found s, du_failures s))"

section \<open>Comparing an event with a recorded one\<close>

text \<open>\<^verbatim>\<open>key in cluster_event\<close> and \<^verbatim>\<open>cluster_event[key]\<close>, for the value a field of the cluster's event has.\<close>

definition has_key :: "ev_val \<Rightarrow> string \<Rightarrow> bool res" where
  "has_key c k =
     (case c of
        EDict d \<Rightarrow> Inr (dict_has d k)
      | EList xs \<Rightarrow> Inr (AStr k \<in> set xs)
      | EAtom (AStr s) \<Rightarrow> Inr (in_str k s)
      | EAtom _ \<Rightarrow> Inl TypeError)"

definition item :: "ev_val \<Rightarrow> string \<Rightarrow> ev_val res" where
  "item c k = (case c of EDict d \<Rightarrow> dict_lookup d k | _ \<Rightarrow> Inl TypeError)"

text \<open>The fields of the cluster's event that the recorded one has, and the recorded one with its lists sorted.\<close>

function extract_req_values :: "ev_val \<Rightarrow> event \<Rightarrow> (event \<times> event) res" where
  "extract_req_values c [] = Inr ([], [])"
| "extract_req_values c ((k, l) # rest) =
     rbind (has_key c k) (\<lambda>present.
     if \<not> present then rbind (extract_req_values c rest) (\<lambda>(out, rest'). Inr (out, (k, l) # rest'))
     else
       rbind (item c k) (\<lambda>cv.
       rbind (case l of
                EDict d \<Rightarrow> rbind (extract_req_values cv d) (\<lambda>(out, d'). Inr (EDict out, EDict d'))
              | EList ys \<Rightarrow> (case cv of EList xs \<Rightarrow> Inr (EList (sort xs), EList (sort ys)) | _ \<Rightarrow> Inr (cv, l))
              | EAtom _ \<Rightarrow> (case cv of EList _ \<Rightarrow> Inl AttributeError | _ \<Rightarrow> Inr (cv, l))) (\<lambda>(o1, l1).
       rbind (extract_req_values c rest) (\<lambda>(out, rest'). Inr ((k, o1) # out, (k, l1) # rest')))))"
  by pat_completeness auto
termination by (relation "measure (\<lambda>(c, e). size_list (size_prod (\<lambda>_. 0) size) e)") auto

section \<open>Validation\<close>

fun match_loop ::
  "int \<Rightarrow> (ev_entry \<Rightarrow> string) \<Rightarrow> int \<Rightarrow> event list \<Rightarrow> nat \<Rightarrow> ev_entry list \<Rightarrow> (string list \<times> ev_entry list) res" where
  "match_loop max_events show counter [] v recorded =
     (if v < length recorded then Inr ([''Unable to validate event: '' @ show (recorded ! v)], recorded) else Inl IndexError)"
| "match_loop max_events show counter (e # es) v recorded =
     (if v < length recorded then
        (case recorded ! v of
           Parallel _ \<Rightarrow> match_loop max_events show counter es v recorded
         | One p \<Rightarrow>
             rbind (extract_req_values (EDict e) p) (\<lambda>(out, p').
             let recorded' = recorded[v := One p'] in
             if out = p' then
               (if int (v + 1) = counter \<or> int (v + 1) = max_events then Inr ([], recorded')
                else match_loop max_events show counter es (v + 1) recorded')
             else match_loop max_events show counter es v recorded'))
      else Inl IndexError)"

definition validate_events ::
  "int \<Rightarrow> (ev_entry \<Rightarrow> string) \<Rightarrow> event list res \<Rightarrow> event list res \<Rightarrow> helper \<Rightarrow> (string list \<times> helper) res" where
  "validate_events max_events show all_events since h =
     (if eh_events h = [] then Inr ([], h)
      else
        rbind all_events (\<lambda>events.
        rbind (duplicate_event_ids_present events) (\<lambda>(found, failures).
        let failures = (if found then failures @ [''Duplicate event_ids seen''] else failures) in
        rbind since (\<lambda>events.
        rbind (match_loop max_events show (eh_counter h) events 0 (eh_events h)) (\<lambda>(fs, recorded).
        Inr (failures @ fs, h\<lparr>eh_events := recorded\<rparr>))))))"

end
