(* ===== verification/Event_Log_Props.thy ===== *)
theory Event_Log_Props
  imports Event_Log "HOL-Library.Sublist" "HOL-Library.Multiset"
begin

text \<open>
  What the event log promises: the framework's events have identifiers of their component; timestamps are read back; the
  helper keeps the last events, and its validation accepts a log exactly when it is in order, repeats no identifier within a
  minute on a node, and has the recorded events in the order they were recorded.
\<close>

section \<open>Types of events\<close>



lemma hard_failover_failed_as_complete:
  "map_option (\<lambda>e. map_of e ''event_id'') (case NsServerEvents_hard_failover_failed n a f m of Inr e \<Rightarrow> Some e | _ \<Rightarrow> None) =
   map_option (\<lambda>e. map_of e ''event_id'') (case NsServerEvents_hard_failover_complete n a f m of Inr e \<Rightarrow> Some e | _ \<Rightarrow> None)"
  by (simp add: NsServerEvents_hard_failover_failed_def NsServerEvents_hard_failover_complete_def NsServer_def attribute_def)

lemma uncallable_events:
  "NsServerEvents_node_offline n x = Inl AttributeError" "NsServerEvents_topology_update n x y = Inl AttributeError"
  by (simp_all add: NsServerEvents_node_offline_def NsServerEvents_topology_update_def NsServer_def attribute_def)

section \<open>Timestamps\<close>

fun fixed_digits :: "nat \<Rightarrow> nat \<Rightarrow> string" where
  "fixed_digits 0 n = []"
| "fixed_digits (Suc w) n = fixed_digits w (n div 10) @ [char_of (48 + n mod 10)]"

lemma length_fixed [simp]: "length (fixed_digits w n) = w"
  by (induction w arbitrary: n) simp_all

lemma zero_char: "char_of (48 :: nat) = CHR ''0''"
  by code_simp

lemma fixed_zero: "fixed_digits w 0 = replicate w CHR ''0''"
  by (induction w) (simp_all add: zero_char replicate_append_same)

lemma fixed_split: "fixed_digits (a + b) n = fixed_digits a (n div 10 ^ b) @ fixed_digits b n"
  by (induction b arbitrary: n) (simp_all add: div_mult2_eq)

lemma nat_str_long: "10 ^ w \<le> n \<Longrightarrow> n < 10 ^ Suc w \<Longrightarrow> nat_str n = fixed_digits (Suc w) n"
proof (induction w arbitrary: n)
  case 0
  then show ?case by (simp add: nat_str.simps [of n])
next
  case (Suc w)
  have "10 \<le> n" by (rule order_trans [OF _ Suc.prems(1)]) simp
  moreover have "nat_str (n div 10) = fixed_digits (Suc w) (n div 10)"
    by (rule Suc.IH) (use Suc.prems in auto)
  ultimately show ?case by (subst nat_str.simps) simp
qed

lemma nat_str_fixed: "n < 10 ^ w \<Longrightarrow> 0 < w \<Longrightarrow> zfill (nat_str n) (int w) = fixed_digits w n"
proof (induction w arbitrary: n)
  case (Suc w)
  show ?case
  proof (cases "n < 10")
    case True
    then show ?thesis by (simp add: nat_str.simps [of n] zfill_def rjust_def fixed_zero)
  next
    case False
    then have "0 < w" using Suc.prems by (cases w) auto
    have "n div 10 < 10 ^ w" using Suc.prems by simp
    from Suc.IH [OF this \<open>0 < w\<close>] False show ?thesis
      by (subst nat_str.simps) (simp add: zfill_def rjust_def)
  qed
qed simp

lemma pad_fixed: "n < 10 ^ w \<Longrightarrow> 0 < w \<Longrightarrow> pad w n = fixed_digits w n"
  by (simp add: pad_def nat_str_fixed)

lemma is_digit_char: "(d :: nat) < 10 \<Longrightarrow> is_digit (char_of (48 + d))"
  by (simp add: is_digit_def)

lemma fixed_are_digits: "c \<in> set (fixed_digits w n) \<Longrightarrow> is_digit c"
  by (induction w arbitrary: n) (auto simp: is_digit_char)

lemma digits_val_fixed: "n < 10 ^ w \<Longrightarrow> digits_val 10 (fixed_digits w n) 0 = Some n"
proof (induction w arbitrary: n)
  case (Suc w)
  have "n div 10 < 10 ^ w" using Suc.prems by simp
  from Suc.IH [OF this] show ?case by (simp add: digits_val_append digit_val_digit)
qed simp

lemma number_fixed:
  assumes "n < 10 ^ w" and "lo \<le> w" and "w \<le> hi" and "\<not> is_digit x"
  shows "number lo hi (fixed_digits w n @ x # s) = Inr (n, x # s)"
  using assms fixed_are_digits [of _ w n]
  by (simp add: number_def Let_def takeWhile_append2 dropWhile_append2 digits_val_fixed)

lemma fixed_head: "fixed_digits w n @ x # s = c # t \<Longrightarrow> 0 < w \<Longrightarrow> is_digit c"
  using fixed_are_digits [of c w n] by (cases "fixed_digits w n") (auto dest: arg_cong [of _ _ length])

lemma fraction_fixed: "n < 1000 \<Longrightarrow> fraction (fixed_digits 3 n @ CHR ''Z'' # s) = Inr (n * 1000, CHR ''Z'' # s)"
  using number_fixed [of n 3 1 6 "CHR ''Z''" s] fixed_are_digits [of _ 3 n]
  by (simp add: fraction_def Let_def takeWhile_append2 is_digit_def)

lemma day_number_fixed: "n < 100 \<Longrightarrow> day_number (fixed_digits 2 n @ CHR ''T'' # s) = Inr (n, CHR ''T'' # s)"
  using number_fixed [of n 2 1 2 "CHR ''T''" s] fixed_head [of 2 n "CHR ''T''" s]
  by (auto simp: day_number_def is_digit_def split: list.splits)

lemma literal_simps: "literal c (c # s) = Inr s"
  by (simp add: literal_def)

lemma millis_fixed: "n < 1000000 \<Longrightarrow> take 3 (fixed_digits 6 n) = fixed_digits 3 (n div 1000)"
  using fixed_split [of 3 3 n] by simp

lemma timestamp_read_back:
  assumes "valid_datetime d" and "1900 \<le> dt_year d"
  shows "rbind (get_timestamp_format d) get_datetime_obj_from_str = Inr (d\<lparr>dt_micro := dt_micro d div 1000 * 1000\<rparr>)"
proof -
  note v = assms(1) [unfolded valid_datetime_def]
  have y: "nat_str (dt_year d) = fixed_digits 4 (dt_year d)"
    using nat_str_long [of 3 "dt_year d"] v assms(2) by simp
  have day: "dt_day d < 100" using v by (auto simp: days_in_month_def split: if_splits)
  note fixed = pad_fixed [of _ 2] pad_fixed [of _ 6]
  let ?s = "fixed_digits 4 (dt_year d) @ CHR ''-'' # fixed_digits 2 (dt_month d) @ CHR ''-'' # fixed_digits 2 (dt_day d) @ CHR ''T'' #
    fixed_digits 2 (dt_hour d) @ CHR '':'' # fixed_digits 2 (dt_minute d) @ CHR '':'' # fixed_digits 2 (dt_second d) @ CHR ''.'' #
    fixed_digits 3 (dt_micro d div 1000) @ CHR ''Z'' # []"
  have fmt: "get_timestamp_format d = Inr ?s"
    using v assms(2) day by (simp add: get_timestamp_format_def y fixed millis_fixed)
  have ok: "valid_datetime (d\<lparr>dt_micro := dt_micro d div 1000 * 1000\<rparr>)"
    using v by (simp add: valid_datetime_def less_mult_imp_div_less)
  have upd: "\<lparr>dt_year = dt_year d, dt_month = dt_month d, dt_day = dt_day d, dt_hour = dt_hour d, dt_minute = dt_minute d,
    dt_second = dt_second d, dt_micro = dt_micro d div 1000 * 1000\<rparr> = d\<lparr>dt_micro := dt_micro d div 1000 * 1000\<rparr>" by simp
  have sep: "\<not> is_digit CHR ''-''" "\<not> is_digit CHR '':''" "\<not> is_digit CHR ''.''" by (simp_all add: is_digit_def)
  have ms: "dt_micro d div 1000 < 1000" using v by (simp add: less_mult_imp_div_less)
  have "get_datetime_obj_from_str ?s = Inr (d\<lparr>dt_micro := dt_micro d div 1000 * 1000\<rparr>)"
    using v day ok ms
    by (simp add: get_datetime_obj_from_str_def number_fixed sep literal_simps day_number_fixed fraction_fixed upd Let_def)
  then show ?thesis by (simp add: fmt)
qed

text \<open>A point in time that is written as a timestamp is read back, up to its milliseconds.\<close>

theorem timestamp_roundtrip:
  assumes "valid_datetime d" and "1900 \<le> dt_year d"
  shows "rbind (get_timestamp_format d) get_datetime_obj_from_str = Inr (d\<lparr>dt_micro := dt_micro d div 1000 * 1000\<rparr>)"
  by (rule timestamp_read_back [OF assms])

theorem timestamp_roundtrip_witness:
  "let d = \<lparr>dt_year = 2022, dt_month = 2, dt_day = 28, dt_hour = 23, dt_minute = 5, dt_second = 59, dt_micro = 123456\<rparr> in
   rbind (get_timestamp_format d) get_datetime_obj_from_str = Inr (d\<lparr>dt_micro := 123000\<rparr>)"
  using timestamp_roundtrip [of "\<lparr>dt_year = 2022, dt_month = 2, dt_day = 28, dt_hour = 23, dt_minute = 5, dt_second = 59, dt_micro = 123456\<rparr>"]
  by (simp add: valid_datetime_def days_in_month_def is_leap_def)

section \<open>Order and duplicates\<close>

text \<open>The node, the identifier and the time of an event of the cluster.\<close>

definition stamp :: "event \<Rightarrow> ev_atom \<times> ev_atom \<times> string" where
  "stamp e = (case (map_of e ''node'', map_of e ''uuid'', map_of e ''timestamp'') of
     (Some (EAtom n), Some (EAtom u), Some (EAtom (AStr t))) \<Rightarrow> (n, u, t) | _ \<Rightarrow> (ANone, ANone, []))"

definition stamped :: "event \<Rightarrow> bool" where
  "stamped e \<longleftrightarrow> (\<exists>n u t d. map_of e ''node'' = Some (EAtom n) \<and> map_of e ''uuid'' = Some (EAtom u) \<and>
     map_of e ''timestamp'' = Some (estr t) \<and> get_datetime_obj_from_str t = Inr d)"

definition micros :: "string \<Rightarrow> int" where
  "micros t = (case get_datetime_obj_from_str t of Inr d \<Rightarrow> to_micros d | Inl _ \<Rightarrow> 0)"

definition ev_time :: "event \<Rightarrow> int" where
  "ev_time e = micros (snd (snd (stamp e)))"

definition ev_key :: "event \<Rightarrow> ev_atom \<times> ev_atom" where
  "ev_key e = (fst (stamp e), fst (snd (stamp e)))"

text \<open>In order, and the same identifier of a node at least a minute apart.\<close>

definition orderly :: "event list \<Rightarrow> bool" where
  "orderly es \<longleftrightarrow> sorted_wrt (\<lambda>a b. ev_time a \<le> ev_time b \<and> (ev_key a = ev_key b \<longrightarrow> 60000000 \<le> ev_time b - ev_time a)) es"

definition last_seen :: "event list \<Rightarrow> ev_atom \<Rightarrow> ev_atom \<Rightarrow> string option" where
  "last_seen es n u =
     (let xs = filter (\<lambda>e. ev_key e = (n, u)) es in if xs = [] then None else Some (snd (snd (stamp (last xs)))))"

definition dup_inv :: "event list \<Rightarrow> dup_state \<Rightarrow> bool" where
  "dup_inv es s \<longleftrightarrow> du_found s = (\<not> orderly es) \<and> (du_failures s = [] \<longleftrightarrow> \<not> du_found s) \<and>
     du_prev s = (if es = [] then None else Some (snd (snd (stamp (last es))))) \<and>
     (\<forall>n u. map_of (dict_get (du_nodes s) n []) u = last_seen es n u)"

lemma stamped_obtain:
  assumes "stamped e"
  obtains n u t d where "stamp e = (n, u, t)" "map_of e ''node'' = Some (EAtom n)" "map_of e ''uuid'' = Some (EAtom u)"
    "map_of e ''timestamp'' = Some (estr t)" "get_datetime_obj_from_str t = Inr d" "micros t = to_micros d"
  using assms by (auto simp: stamped_def stamp_def micros_def)

lemma last_seen_snoc: "last_seen (es @ [e]) n u = (if ev_key e = (n, u) then Some (snd (snd (stamp e))) else last_seen es n u)"
  by (simp add: last_seen_def Let_def)

lemma orderly_snoc:
  "orderly (es @ [e]) \<longleftrightarrow> orderly es \<and>
     (\<forall>a \<in> set es. ev_time a \<le> ev_time e \<and> (ev_key a = ev_key e \<longrightarrow> 60000000 \<le> ev_time e - ev_time a))"
  by (simp add: orderly_def sorted_wrt_append)

text \<open>For events in order it is enough to look at the last one and at the last one with the same identifier.\<close>

lemma orderly_last: "orderly es \<Longrightarrow> a \<in> set es \<Longrightarrow> ev_time a \<le> ev_time (last es)"
  by (induction es rule: rev_induct) (auto simp: orderly_snoc)

lemma orderly_filter_last:
  "orderly es \<Longrightarrow> a \<in> set es \<Longrightarrow> ev_key a = k \<Longrightarrow> ev_time a \<le> ev_time (last (filter (\<lambda>e. ev_key e = k) es))"
  by (rule orderly_last) (auto simp: orderly_def sorted_wrt_filter)

lemma orderly_step:
  assumes "orderly es"
  shows "orderly (es @ [e]) \<longleftrightarrow> (es \<noteq> [] \<longrightarrow> ev_time (last es) \<le> ev_time e) \<and>
    (\<forall>t. last_seen es (fst (ev_key e)) (snd (ev_key e)) = Some t \<longrightarrow> 60000000 \<le> ev_time e - micros t)" (is "_ \<longleftrightarrow> ?A \<and> ?B")
proof
  let ?f = "filter (\<lambda>a. ev_key a = ev_key e) es"
  have lf: "?f \<noteq> [] \<Longrightarrow> last ?f \<in> set es \<and> ev_key (last ?f) = ev_key e" using last_in_set [of ?f] by auto
  have ls: "last_seen es (fst (ev_key e)) (snd (ev_key e)) = (if ?f = [] then None else Some (snd (snd (stamp (last ?f)))))"
    by (simp add: last_seen_def Let_def)
  {
    assume o: "orderly (es @ [e])"
    show "?A \<and> ?B" using o lf last_in_set [of es] by (auto simp: orderly_snoc ls ev_time_def)
  next
    assume ab: "?A \<and> ?B"
    have "ev_time a \<le> ev_time e" if "a \<in> set es" for a using orderly_last [OF assms that] ab that by fastforce
    moreover have "60000000 \<le> ev_time e - ev_time a" if "a \<in> set es" "ev_key a = ev_key e" for a
    proof -
      have "?f \<noteq> []" using that by (auto simp: filter_empty_conv)
      then have "60000000 \<le> ev_time e - ev_time (last ?f)" using ab by (simp add: ls ev_time_def)
      with orderly_filter_last [OF assms that] show ?thesis by simp
    qed
    ultimately show "orderly (es @ [e])" using assms by (simp add: orderly_snoc)
  }
qed

lemma stamped_parses: "stamped e \<Longrightarrow> \<exists>d. get_datetime_obj_from_str (snd (snd (stamp e))) = Inr d \<and> ev_time e = to_micros d"
  by (erule stamped_obtain) (simp add: ev_time_def)

lemma last_seen_parses:
  assumes "\<forall>a \<in> set es. stamped a" and "last_seen es n u = Some t"
  obtains d where "get_datetime_obj_from_str t = Inr d" "micros t = to_micros d"
proof -
  let ?f = "filter (\<lambda>e. ev_key e = (n, u)) es"
  have f: "?f \<noteq> []" "t = snd (snd (stamp (last ?f)))" using assms(2) by (auto simp: last_seen_def Let_def split: if_splits)
  then have "last ?f \<in> set es" using last_in_set [of ?f] by auto
  with assms(1) stamped_parses [of "last ?f"] f(2) that show thesis by (auto simp: ev_time_def)
qed

text \<open>The two checks of a step: each reports exactly its own failure.\<close>

definition late :: "event list \<Rightarrow> event \<Rightarrow> bool" where
  "late es e \<longleftrightarrow> es \<noteq> [] \<and> ev_time e < ev_time (last es)"

definition repeated :: "event list \<Rightarrow> event \<Rightarrow> bool" where
  "repeated es e \<longleftrightarrow> (\<exists>t. last_seen es (fst (ev_key e)) (snd (ev_key e)) = Some t \<and> ev_time e - micros t < 60000000)"

lemma check_order_result:
  assumes "stamped e" and "\<forall>a \<in> set es. stamped a" and "stamp e = (n, u, t)"
    and "du_prev s = (if es = [] then None else Some (snd (snd (stamp (last es)))))"
  shows "\<exists>s'. check_order u t s = Inr s' \<and> du_found s' = (du_found s \<or> late es e) \<and> (du_failures s' = [] \<longleftrightarrow> du_failures s = [] \<and> \<not> late es e) \<and>
    du_prev s' = Some t \<and> du_nodes s' = du_nodes s"
proof -
  obtain d where d: "get_datetime_obj_from_str t = Inr d" "ev_time e = to_micros d" using stamped_parses [OF assms(1)] assms(3) by auto
  show ?thesis
  proof (cases "es = []")
    case False
    then obtain p where "get_datetime_obj_from_str (snd (snd (stamp (last es)))) = Inr p" "ev_time (last es) = to_micros p"
      using stamped_parses [of "last es"] assms(2) by auto
    with False d show ?thesis by (simp add: check_order_def assms(4) late_def dup_fail_def)
  qed (use d in \<open>simp add: check_order_def assms(4) late_def\<close>)
qed

lemma check_uuid_result:
  assumes "stamped e" and "\<forall>a \<in> set es. stamped a" and "stamp e = (n, u, t)"
    and "\<forall>n u. map_of (dict_get (du_nodes s) n []) u = last_seen es n u"
  shows "\<exists>s'. check_uuid n u t s = Inr s' \<and> du_found s' = (du_found s \<or> repeated es e) \<and>
    (du_failures s' = [] \<longleftrightarrow> du_failures s = [] \<and> \<not> repeated es e) \<and> du_prev s' = du_prev s \<and>
    (\<forall>n u. map_of (dict_get (du_nodes s') n []) u = last_seen (es @ [e]) n u)"
proof -
  obtain d where d: "get_datetime_obj_from_str t = Inr d" "ev_time e = to_micros d" using stamped_parses [OF assms(1)] assms(3) by auto
  have k: "ev_key e = (n, u)" by (simp add: ev_key_def assms(3))
  have nodes: "map_of (dict_get (AList.update n (AList.update u t (dict_get (du_nodes s) n [])) (du_nodes s)) n' []) u' = last_seen (es @ [e]) n' u'" for n' u'
    using assms(4) by (auto simp: dict_get_def last_seen_snoc k assms(3))
  show ?thesis
  proof (cases "last_seen es n u")
    case None
    then show ?thesis using nodes by (simp add: check_uuid_def Let_def assms(4) repeated_def k)
  next
    case (Some pt)
    obtain p where p: "get_datetime_obj_from_str pt = Inr p" "micros pt = to_micros p" by (rule last_seen_parses [OF assms(2) Some])
    show ?thesis using nodes d p Some
      by (simp add: check_uuid_def Let_def assms(4) repeated_def k dup_fail_def blocked_window_def)
  qed
qed

lemma orderly_snoc_iff: "orderly (es @ [e]) \<longleftrightarrow> orderly es \<and> \<not> late es e \<and> \<not> repeated es e"
proof (cases "orderly es")
  case True
  show ?thesis unfolding orderly_step [OF True] by (auto simp: True late_def repeated_def not_less)
qed (simp add: orderly_snoc)

lemma dup_step_inv:
  assumes "dup_inv es s" and "\<forall>a \<in> set es. stamped a" and "stamped e"
  shows "\<exists>s'. dup_step s e = Inr s' \<and> dup_inv (es @ [e]) s'"
proof -
  obtain n u t where e: "stamp e = (n, u, t)" "map_of e ''node'' = Some (EAtom n)" "map_of e ''uuid'' = Some (EAtom u)"
    "map_of e ''timestamp'' = Some (estr t)" by (rule stamped_obtain [OF assms(3)])
  note inv = assms(1) [unfolded dup_inv_def]
  obtain s1 where s1: "check_order u t s = Inr s1" "du_found s1 = (du_found s \<or> late es e)"
    "du_failures s1 = [] \<longleftrightarrow> du_failures s = [] \<and> \<not> late es e" "du_prev s1 = Some t" "du_nodes s1 = du_nodes s"
    using check_order_result [OF assms(3,2) e(1), of s] inv by blast
  obtain s2 where s2: "check_uuid n u t s1 = Inr s2" "du_found s2 = (du_found s1 \<or> repeated es e)"
    "du_failures s2 = [] \<longleftrightarrow> du_failures s1 = [] \<and> \<not> repeated es e" "du_prev s2 = du_prev s1"
    "\<forall>n u. map_of (dict_get (du_nodes s2) n []) u = last_seen (es @ [e]) n u"
    using check_uuid_result [OF assms(3,2) e(1), of s1] inv s1(5) by auto
  have "dup_step s e = Inr s2" by (simp add: dup_step_def dict_lookup_def e(2-4) atom_of_def text_of_def s1(1) s2(1))
  moreover have "dup_inv (es @ [e]) s2" using inv s1 s2 by (auto simp: dup_inv_def orderly_snoc_iff e(1))
  ultimately show ?thesis by blast
qed

lemma duplicates_result:
  assumes "\<forall>e \<in> set es. stamped e"
  shows "\<exists>fs. duplicate_event_ids_present es = Inr (\<not> orderly es, fs) \<and> (fs = [] \<longleftrightarrow> orderly es)"
proof -
  let ?s = "\<lparr>du_found = False, du_failures = [], du_prev = None, du_nodes = []\<rparr>"
  have "\<exists>s'. rfold dup_step ?s es = Inr s' \<and> dup_inv es s'" using assms
  proof (induction es rule: rev_induct)
    case Nil
    then show ?case by (simp add: dup_inv_def orderly_def last_seen_def dict_get_def)
  next
    case (snoc e es)
    then obtain s1 where "rfold dup_step ?s es = Inr s1" "dup_inv es s1" by auto
    with dup_step_inv [of es s1 e] snoc.prems show ?case by (auto simp: rfold_append)
  qed
  then show ?thesis by (auto simp: duplicate_event_ids_present_def dup_inv_def)
qed

section \<open>Matching recorded events\<close>

text \<open>A recorded event is covered by one of the cluster that has all its fields, with the same values, lists in any order.\<close>

function covers :: "ev_val \<Rightarrow> event \<Rightarrow> bool" where
  "covers c [] \<longleftrightarrow> True"
| "covers c ((k, l) # rest) \<longleftrightarrow>
     (case c of
        EDict d \<Rightarrow>
          (case map_of d k of
             None \<Rightarrow> False
           | Some cv \<Rightarrow>
               (case l of
                  EDict p \<Rightarrow> covers cv p
                | EList ys \<Rightarrow> (case cv of EList xs \<Rightarrow> mset xs = mset ys | _ \<Rightarrow> False)
                | EAtom a \<Rightarrow> cv = EAtom a))
      | _ \<Rightarrow> False) \<and> covers c rest"
  by pat_completeness auto
termination by (relation "measure (\<lambda>(c, e). size_list (size_prod (\<lambda>_. 0) size) e)") auto

text \<open>The values of the two events have the same kind where both have a field: no comparison raises.\<close>

function same_kinds :: "ev_val \<Rightarrow> event \<Rightarrow> bool" where
  "same_kinds c [] \<longleftrightarrow> True"
| "same_kinds c ((k, l) # rest) \<longleftrightarrow>
     (case c of
        EDict d \<Rightarrow>
          (case map_of d k of
             None \<Rightarrow> True
           | Some cv \<Rightarrow> (case l of EDict p \<Rightarrow> same_kinds cv p | EList _ \<Rightarrow> True | EAtom _ \<Rightarrow> (case cv of EList _ \<Rightarrow> False | _ \<Rightarrow> True)))
      | _ \<Rightarrow> False) \<and> same_kinds c rest"
  by pat_completeness auto
termination by (relation "measure (\<lambda>(c, e). size_list (size_prod (\<lambda>_. 0) size) e)") auto

lemma sort_eq_iff: "sort xs = sort ys \<longleftrightarrow> mset xs = mset ys" for xs ys :: "'a :: linorder list"
  by (metis mset_sort properties_for_sort sorted_sort)

definition covers_val :: "ev_val \<Rightarrow> ev_val \<Rightarrow> bool" where
  "covers_val cv l =
     (case l of
        EDict p \<Rightarrow> covers cv p
      | EList ys \<Rightarrow> (case cv of EList xs \<Rightarrow> mset xs = mset ys | _ \<Rightarrow> False)
      | EAtom a \<Rightarrow> cv = EAtom a)"

definition kinds_val :: "ev_val \<Rightarrow> ev_val \<Rightarrow> bool" where
  "kinds_val cv l = (case l of EDict p \<Rightarrow> same_kinds cv p | EList _ \<Rightarrow> True | EAtom _ \<Rightarrow> (case cv of EList _ \<Rightarrow> False | _ \<Rightarrow> True))"

lemma covers_Cons: "covers c ((k, l) # rest) \<longleftrightarrow> (\<exists>d cv. c = EDict d \<and> map_of d k = Some cv \<and> covers_val cv l) \<and> covers c rest"
  by (cases c) (auto simp: covers_val_def split: option.split)

lemma kinds_Cons: "same_kinds c ((k, l) # rest) \<longleftrightarrow> (\<exists>d. c = EDict d \<and> (\<forall>cv. map_of d k = Some cv \<longrightarrow> kinds_val cv l)) \<and> same_kinds c rest"
  by (cases c) (auto simp: kinds_val_def split: option.split)

declare covers.simps(2) [simp del] same_kinds.simps(2) [simp del]

lemma extract_shorter: "extract_req_values c p = Inr (out, p') \<Longrightarrow> length out \<le> length p'"
proof (induction p arbitrary: out p')
  case (Cons kl rest)
  obtain k l where kl: "kl = (k, l)" by force
  from Cons.prems kl obtain o1 p1 where "extract_req_values c rest = Inr (o1, p1)" "length out \<le> Suc (length o1)" "length p' = Suc (length p1)"
    by (auto simp: rbind_eq_Inr split: if_splits)
  with Cons.IH show ?case by fastforce
qed simp

text \<open>The result for one field the cluster's event has.\<close>

definition extract_val :: "ev_val \<Rightarrow> ev_val \<Rightarrow> (ev_val \<times> ev_val) res" where
  "extract_val cv l =
     (case l of
        EDict d \<Rightarrow> rbind (extract_req_values cv d) (\<lambda>(out, d'). Inr (EDict out, EDict d'))
      | EList ys \<Rightarrow> (case cv of EList xs \<Rightarrow> Inr (EList (sort xs), EList (sort ys)) | _ \<Rightarrow> Inr (cv, l))
      | EAtom _ \<Rightarrow> (case cv of EList _ \<Rightarrow> Inl AttributeError | _ \<Rightarrow> Inr (cv, l)))"

definition extract_good :: "ev_val \<Rightarrow> event \<Rightarrow> bool" where
  "extract_good c p \<longleftrightarrow> (\<exists>out p'. extract_req_values c p = Inr (out, p') \<and> (out = p' \<longleftrightarrow> covers c p) \<and>
     (\<forall>c'. covers c' p' = covers c' p \<and> same_kinds c' p' = same_kinds c' p))"

lemma extract_val_good:
  assumes "kinds_val cv l" and "\<And>d. l = EDict d \<Longrightarrow> same_kinds cv d \<Longrightarrow> extract_good cv d"
  shows "\<exists>o1 l1. extract_val cv l = Inr (o1, l1) \<and> (o1 = l1 \<longleftrightarrow> covers_val cv l) \<and>
    (\<forall>c'. covers_val c' l1 = covers_val c' l \<and> kinds_val c' l1 = kinds_val c' l)"
proof (cases l)
  case (EAtom a)
  with assms(1) show ?thesis by (auto simp: extract_val_def covers_val_def kinds_val_def split: ev_val.splits)
next
  case (EList ys)
  then show ?thesis by (cases cv) (simp_all add: extract_val_def covers_val_def kinds_val_def sort_eq_iff split: ev_val.split)
next
  case (EDict d)
  with assms have "extract_good cv d" by (simp add: kinds_val_def)
  then show ?thesis using EDict by (auto simp: extract_good_def extract_val_def covers_val_def kinds_val_def)
qed

lemma extract_result: "same_kinds c p \<Longrightarrow> extract_good c p"
proof (induction c p rule: extract_req_values.induct)
  case (1 c)
  then show ?case by (simp add: extract_good_def)
next
  case (2 c k l rest)
  from "2.prems" obtain d where c: "c = EDict d" and rest: "same_kinds c rest" and kinds: "\<And>cv. map_of d k = Some cv \<Longrightarrow> kinds_val cv l"
    by (auto simp: kinds_Cons)
  have has: "has_key c k = Inr (dict_has d k)" by (simp add: has_key_def c)
  show ?case
  proof (cases "map_of d k")
    case None
    then have p: "has_key c k = Inr False" by (simp add: has dict_has_def)
    from "2.IH"(1) [OF p _ rest] obtain out p' where x: "extract_req_values c rest = Inr (out, p')"
      "\<forall>c'. covers c' p' = covers c' rest \<and> same_kinds c' p' = same_kinds c' rest" by (auto simp: extract_good_def)
    from extract_shorter [OF x(1)] have "out \<noteq> (k, l) # p'" by auto
    with x p None show ?thesis by (auto simp: extract_good_def c covers_Cons kinds_Cons)
  next
    case (Some cv)
    then have p: "has_key c k = Inr True" "item c k = Inr cv" by (simp_all add: has_key_def dict_has_def item_def c dict_lookup_def)
    obtain o1 l1 where v: "extract_val cv l = Inr (o1, l1)" "o1 = l1 \<longleftrightarrow> covers_val cv l"
      "\<forall>c'. covers_val c' l1 = covers_val c' l \<and> kinds_val c' l1 = kinds_val c' l"
      using extract_val_good [OF kinds [OF Some]] "2.IH"(2) [OF p(1) _ p(2)] by auto
    from "2.IH"(3) [OF p(1) _ p(2) v(1) [unfolded extract_val_def] refl rest] obtain out p' where
      x: "extract_req_values c rest = Inr (out, p')" "out = p' \<longleftrightarrow> covers c rest"
      "\<forall>c'. covers c' p' = covers c' rest \<and> same_kinds c' p' = same_kinds c' rest" by (auto simp: extract_good_def)
    have "extract_req_values c ((k, l) # rest) = Inr ((k, o1) # out, (k, l1) # p')"
      using p x(1) v(1) by (simp add: extract_val_def)
    then show ?thesis using v(2,3) x(2,3) Some by (auto simp: extract_good_def c covers_Cons kinds_Cons)
  qed
qed

section \<open>Finding recorded events in a log\<close>

definition occurs :: "('a \<Rightarrow> 'b \<Rightarrow> bool) \<Rightarrow> 'a list \<Rightarrow> 'b list \<Rightarrow> bool" where
  "occurs m es ps \<longleftrightarrow> (\<exists>es'. subseq es' es \<and> list_all2 m es' ps)"

lemma occurs_Nil: "occurs m [] ps \<longleftrightarrow> ps = []" "occurs m es []"
  by (auto simp: occurs_def dest: list_emb_Nil2)

lemma occurs_Cons: "occurs m es (p # ps) \<longleftrightarrow> (\<exists>x xs. subseq (x # xs) es \<and> m x p \<and> list_all2 m xs ps)"
  by (auto simp: occurs_def list_all2_Cons2)

lemma occurs_take: "m e p \<Longrightarrow> occurs m (e # es) (p # ps) \<longleftrightarrow> occurs m es ps"
  by (auto simp: occurs_Cons) (auto simp: occurs_def intro: subseq_Cons' split: if_splits)

lemma occurs_skip: "\<not> m e p \<Longrightarrow> occurs m (e # es) (p # ps) \<longleftrightarrow> occurs m es (p # ps)"
  by (auto simp: occurs_Cons split: if_splits)

lemma occurs_cong: "list_all2 (\<lambda>p q. \<forall>e. m e p = m e q) ps qs \<Longrightarrow> occurs m es ps = occurs m es qs"
  unfolding occurs_def by (rule ex_cong1) (auto simp: list_all2_conv_all_nth)

abbreviation matched :: "event \<Rightarrow> event \<Rightarrow> bool" where
  "matched e p \<equiv> covers (EDict e) p"

lemma match_loop_result:
  assumes "\<forall>e \<in> set es. \<forall>p \<in> set ps. same_kinds (EDict e) p" and "v < length ps"
    and "\<And>w. v < w \<Longrightarrow> w \<le> length ps \<Longrightarrow> (int w = counter \<or> int w = max_events) \<longleftrightarrow> w = length ps"
  shows "\<exists>fs recs. match_loop max_events show counter es v (map One ps) = Inr (fs, recs) \<and> (fs = [] \<longleftrightarrow> occurs matched es (drop v ps))"
  using assms
proof (induction es arbitrary: v ps)
  case Nil
  then show ?case by (simp add: occurs_Nil)
next
  case (Cons e es)
  let ?p = "ps ! v"
  have "same_kinds (EDict e) ?p" using Cons.prems(1,2) by auto
  then obtain out p' where x: "extract_req_values (EDict e) ?p = Inr (out, p')" "out = p' \<longleftrightarrow> matched e ?p"
    "\<forall>c'. covers c' p' = covers c' ?p \<and> same_kinds c' p' = same_kinds c' ?p" using extract_result [of "EDict e" ?p] unfolding extract_good_def by blast
  let ?ps = "ps[v := p']"
  have kinds: "\<forall>e \<in> set es. \<forall>p \<in> set ?ps. same_kinds (EDict e) p"
    using Cons.prems(1,2) x(3) set_update_subset_insert [of ps v p'] by fastforce
  have split: "drop v ps = ?p # drop (Suc v) ps" by (rule Cons_nth_drop_Suc [symmetric]) (rule Cons.prems(2))
  show ?case
  proof (cases "matched e ?p")
    case True
    then have o: "occurs matched (e # es) (drop v ps) = occurs matched es (drop (Suc v) ps)" by (simp add: split occurs_take)
    show ?thesis
    proof (cases "Suc v = length ps")
      case fin: True
      then show ?thesis using Cons.prems(2) Cons.prems(3) [of "Suc v"] x(1,2) True o by (simp add: Let_def occurs_Nil del: of_nat_Suc)
    next
      case False
      have "\<exists>fs recs. match_loop max_events show counter es (Suc v) (map One ?ps) = Inr (fs, recs) \<and> (fs = [] \<longleftrightarrow> occurs matched es (drop (Suc v) ?ps))"
        by (rule Cons.IH [OF kinds]) (use False Cons.prems(2,3) in auto)
      with False show ?thesis using Cons.prems(2) Cons.prems(3) [of "Suc v"] x(1,2) True o by (simp add: Let_def map_update [symmetric] del: of_nat_Suc)
    qed
  next
    case False
    have "drop v ?ps = p' # drop (Suc v) ps"
      using Cons.prems(2) Cons_nth_drop_Suc [of v ?ps] by simp
    moreover have "list_all2 (\<lambda>p q. \<forall>e. matched e p = matched e q) (p' # drop (Suc v) ps) (?p # drop (Suc v) ps)"
      using x(3) by (simp add: list_all2_same)
    ultimately have "occurs matched es (drop v ?ps) = occurs matched (e # es) (drop v ps)"
      using False by (simp add: split occurs_skip occurs_cong)
    moreover have "\<exists>fs recs. match_loop max_events show counter es v (map One ?ps) = Inr (fs, recs) \<and> (fs = [] \<longleftrightarrow> occurs matched es (drop v ?ps))"
      by (rule Cons.IH [OF kinds]) (use Cons.prems(2,3) in auto)
    ultimately show ?thesis using Cons.prems(2) x(1,2) False by (simp add: Let_def map_update [symmetric])
  qed
qed

lemma recorded_events:
  assumes "eh_start h = Some t" and "\<not> eh_parallel h" and "eh_events h = []" and "eh_counter h = 0" and "0 < max_events"
  shows "rfold (\<lambda>h e. add_event max_events e h) h xs =
    Inr (h\<lparr>eh_events := map One (drop (length xs - nat max_events) xs), eh_counter := int (length xs)\<rparr>)"
proof (induction xs rule: rev_induct)
  case Nil
  then show ?case using assms by simp
next
  case (snoc e xs)
  have d: "drop (Suc (length xs) - nat max_events) xs = (if max_events \<le> int (length xs) then tl (drop (length xs - nat max_events) xs) else xs)"
    using assms(5) by (auto simp: drop_Suc tl_drop Suc_diff_le nat_le_iff)
  have ne: "max_events \<le> int (length xs) \<Longrightarrow> drop (length xs - nat max_events) xs \<noteq> []" using assms(5) by auto
  have "add_event max_events e (h\<lparr>eh_events := map One (drop (length xs - nat max_events) xs), eh_counter := int (length xs)\<rparr>) =
    Inr (h\<lparr>eh_events := map One (drop (length (xs @ [e]) - nat max_events) (xs @ [e])), eh_counter := int (length (xs @ [e]))\<rparr>)"
    using assms(1,2,5) ne
    by (simp add: add_event_def append_event_def increment_def max_events_reached_def Let_def d map_tl)
  then show ?case by (simp add: rfold_append snoc.IH)
qed

text \<open>C29. Validation of the events a test has recorded, one at a time, against the log of the cluster, if its entries have a node, an
  identifier and a readable time and fields of the kinds recorded: nothing is reported exactly when the log is in order,
  repeats no identifier within a minute on a node, and has the last \<^verbatim>\<open>max_events\<close> recorded events in the order in which they
  were recorded, each with all recorded fields.\<close>

theorem event_validation_exact:
  assumes "set_test_start_time now new_helper = Inr h" and "0 < max_events" and "recorded \<noteq> []"
    and "\<forall>e \<in> set all_events. stamped e" and "\<forall>e \<in> set since. \<forall>p \<in> set recorded. same_kinds (EDict e) p"
  shows "\<exists>h' failures h''. rfold (\<lambda>h e. add_event max_events e h) h recorded = Inr h' \<and>
    validate_events max_events show (Inr all_events) (Inr since) h' = Inr (failures, h'') \<and>
    (failures = [] \<longleftrightarrow> orderly all_events \<and> occurs matched since (drop (length recorded - nat max_events) recorded))"
proof -
  let ?ps = "drop (length recorded - nat max_events) recorded"
  let ?h = "h\<lparr>eh_events := map One ?ps, eh_counter := int (length recorded)\<rparr>"
  have ne: "0 < length ?ps" using assms(2,3) by (simp add: diff_less_mono2)
  have "rfold (\<lambda>h e. add_event max_events e h) h recorded = Inr ?h"
    using assms(1,2) by (auto simp: set_test_start_time_def new_helper_def rbind_eq_Inr intro!: recorded_events)
  moreover obtain fs where d: "duplicate_event_ids_present all_events = Inr (\<not> orderly all_events, fs)" "fs = [] \<longleftrightarrow> orderly all_events"
    using duplicates_result [OF assms(4)] by blast
  moreover have "\<exists>gs recs. match_loop max_events show (int (length recorded)) since 0 (map One ?ps) = Inr (gs, recs) \<and> (gs = [] \<longleftrightarrow> occurs matched since (drop 0 ?ps))"
    by (rule match_loop_result) (use assms(2,5) ne in \<open>auto dest: in_set_dropD simp: nat_diff_split\<close>)
  ultimately show ?thesis using ne by (auto simp: validate_events_def Let_def)
qed

definition log_entry :: "string \<Rightarrow> string \<Rightarrow> int \<Rightarrow> event" where
  "log_entry uuid ts i = [(''node'', estr ''n1''), (''uuid'', estr uuid), (''timestamp'', estr ts), (''event_id'', EAtom (AInt i)),
     (''extra_attributes'', EDict [(''nodes'', EList [AStr ''b'', AStr ''a''])])]"

definition log_now :: datetime where
  "log_now = \<lparr>dt_year = 2022, dt_month = 2, dt_day = 28, dt_hour = 23, dt_minute = 5, dt_second = 59, dt_micro = 0\<rparr>"

definition one_recorded :: "event list" where
  "one_recorded = [[(''event_id'', EAtom (AInt 2)), (''extra_attributes'', EDict [(''nodes'', EList [AStr ''a'', AStr ''b''])])]]"

definition stamp_text :: "datetime \<Rightarrow> string" where
  "stamp_text d = (case get_timestamp_format d of Inr s \<Rightarrow> s | Inl _ \<Rightarrow> [])"

definition two_logged :: "event list" where
  "two_logged = [log_entry ''u'' (stamp_text log_now) 1, log_entry ''u'' (stamp_text (log_now\<lparr>dt_day := 1, dt_month := 3\<rparr>)) 2]"

lemma stamp_text_reads: "valid_datetime d \<Longrightarrow> 1900 \<le> dt_year d \<Longrightarrow> \<exists>d'. get_datetime_obj_from_str (stamp_text d) = Inr d'"
  using timestamp_read_back [of d] by (auto simp: stamp_text_def rbind_eq_Inr)

lemma two_logged_stamped: "\<forall>e \<in> set two_logged. stamped e"
  using stamp_text_reads [of log_now] stamp_text_reads [of "log_now\<lparr>dt_day := 1, dt_month := 3\<rparr>"]
  by (simp add: two_logged_def log_entry_def stamped_def log_now_def valid_datetime_def days_in_month_def is_leap_def)

lemma two_logged_kinds: "\<forall>e \<in> set two_logged. \<forall>p \<in> set one_recorded. same_kinds (EDict e) p"
  by (simp add: two_logged_def log_entry_def one_recorded_def same_kinds.simps)

theorem event_validation_exact_witness:
  "\<exists>h h' failures h''. set_test_start_time log_now new_helper = Inr h \<and>
    rfold (\<lambda>h e. add_event 10000 e h) h one_recorded = Inr h' \<and>
    validate_events 10000 (\<lambda>_. []) (Inr two_logged) (Inr two_logged) h' = Inr (failures, h'') \<and>
    (failures = [] \<longleftrightarrow> orderly two_logged \<and> occurs matched two_logged (drop (length one_recorded - nat 10000) one_recorded))"
proof -
  obtain h where h: "set_test_start_time log_now new_helper = Inr h"
    by (simp add: set_test_start_time_def get_timestamp_format_def log_now_def)
  have "one_recorded \<noteq> []" "(0 :: int) < 10000" by (simp_all add: one_recorded_def)
  from event_validation_exact [OF h this(2,1) two_logged_stamped two_logged_kinds, of "\<lambda>_. []"] h show ?thesis by blast
qed

text \<open>A group of events recorded as parallel is never found.\<close>

lemma parallel_never_validated:
  assumes "v < length recorded" and "recorded ! v = Parallel es"
  shows "match_loop max_events show counter events v recorded = Inr ([''Unable to validate event: '' @ show (recorded ! v)], recorded)"
  using assms by (induction events) simp_all

end
