(* ===== verification/Merge_Reports.thy ===== *)
theory Merge_Reports
  imports Reports "HOL-Library.List_Lexorder" "HOL-Library.Char_ord"
begin

text \<open>
  Merging the junit reports of several runs (\<^verbatim>\<open>scripts/merge_reports.py\<close>): a test that was run again counts with its last
  result. Tests are the same when their names agree up to the order of the parameters, after parameters of the run
  itself are removed.

  \<^item> The parsed reports come as a list, in the order in which the script reads the files. \<open>parse_time\<close> is \<^verbatim>\<open>float\<close>;
    \<open>moved\<close> says whether the directory of logs could be moved away; \<open>prefix\<close> is the path of a merged report.
\<close>

section \<open>Names of tests\<close>

definition run_prefixes :: "string \<Rightarrow> string list" where
  "run_prefixes run_params = map (\<lambda>param. hd (py_split equals_sign param)) (py_split comma run_params)"

definition filtered_word :: "string list \<Rightarrow> string \<Rightarrow> bool" where
  "filtered_word prefixes fw \<longleftrightarrow> (\<exists>p \<in> set prefixes. p \<noteq> [] \<and> startswith fw p)"

definition colon_prefixes :: "string list" where
  "colon_prefixes = [''logs_folder'', ''conf_file'', ''cluster_name:'', ''ini:'', ''case_number:'', ''num_nodes:'', ''spec:'', ''is_container:'']"

definition equals_prefixes :: "string list" where
  "equals_prefixes = [''logs_folder='', ''conf_file='', ''cluster_name='', ''ini='', ''case_number='', ''num_nodes='', ''spec='', ''is_container='']"

definition filter_fields :: "string \<Rightarrow> string \<Rightarrow> string" where
  "filter_fields run_params testname =
     (let testwords = py_split comma testname in
      if in_str ''logs_folder:'' testname then
        py_rstrip (\<lambda>c. c = comma) (concat (map (\<lambda>fw.
          if filtered_word (colon_prefixes @ run_prefixes run_params) fw then []
          else replace_first CHR '':'' equals_sign fw @ (if fw \<noteq> last testwords then [comma] else [])) testwords))
      else py_join [comma] (filter (\<lambda>fw. \<not> filtered_word (equals_prefixes @ run_prefixes run_params) fw) testwords))"

definition sorted_params :: "string \<Rightarrow> string" where
  "sorted_params key = (case py_split comma key of [] \<Rightarrow> [comma] | k # ks \<Rightarrow> k @ [comma] @ py_join [comma] (sort ks))"

definition compare_with_sort :: "(string, 'v) dict \<Rightarrow> string \<Rightarrow> string option" where
  "compare_with_sort d key = find (\<lambda>k. sorted_params key = sorted_params k) (dict_keys d)"

section \<open>Merging\<close>

record merged_case =
  mc_name :: string
  mc_time :: string
  mc_error :: string

record merged_suite =
  ms_name :: string
  ms_errors :: string
  ms_failures :: string
  ms_skips :: string
  ms_time :: string
  ms_testcount :: string
  ms_tests :: "(string, merged_case) dict"

text \<open>\<^verbatim>\<open>str(e.firstChild.nodeValue)\<close>: an element has the value \<^verbatim>\<open>None\<close>.\<close>

definition first_value :: "xml \<Rightarrow> string res" where
  "first_value e =
     (case e of
        Elem _ _ (XText s # _) \<Rightarrow> Inr s
      | Elem _ _ (Elem _ _ _ # _) \<Rightarrow> Inr ''None''
      | _ \<Rightarrow> Inl AttributeError)"

definition read_case :: "xml \<Rightarrow> merged_case res" where
  "read_case tc =
     rbind (case elements ''error'' tc of [] \<Rightarrow> Inr [] | e # _ \<Rightarrow> first_value e) (\<lambda>err.
     Inr \<lparr>mc_name = attribute ''name'' tc, mc_time = attribute ''time'' tc, mc_error = err\<rparr>)"

definition merge_case :: "string \<Rightarrow> (string, merged_case) dict \<Rightarrow> xml \<Rightarrow> (string, merged_case) dict res" where
  "merge_case run_params tests tc =
     (let tcname_filtered = filter_fields run_params (attribute ''name'' tc) in
      rbind (read_case tc) (\<lambda>testcase.
      Inr (AList.update (case compare_with_sort tests tcname_filtered of Some key \<Rightarrow> key | None \<Rightarrow> tcname_filtered) testcase tests)))"

definition merge_suite :: "string \<Rightarrow> (string, merged_suite) dict \<Rightarrow> xml \<Rightarrow> (string, merged_suite) dict res" where
  "merge_suite run_params testsuites ts =
     (let tsname = attribute ''name'' ts in
      rbind (rfold (merge_case run_params) (case map_of testsuites tsname of None \<Rightarrow> [] | Some su \<Rightarrow> ms_tests su) (elements ''testcase'' ts)) (\<lambda>tests.
      Inr (AList.update tsname
        \<lparr>ms_name = tsname, ms_errors = attribute ''errors'' ts, ms_failures = attribute ''failures'' ts, ms_skips = attribute ''skips'' ts,
         ms_time = attribute ''time'' ts, ms_testcount = attribute ''tests'' ts, ms_tests = tests\<rparr> testsuites)))"

definition merge_docs :: "string \<Rightarrow> xml list \<Rightarrow> (string, merged_suite) dict res" where
  "merge_docs run_params docs = rfold (merge_suite run_params) [] (concat (map (doc_elements ''testsuite'') docs))"

section \<open>Writing the merged reports\<close>

definition merged_report :: "(string \<Rightarrow> 't res) \<Rightarrow> merged_case \<Rightarrow> 't test_report res" where
  "merged_report parse_time testcase =
     rbind (parse_time (mc_time testcase)) (\<lambda>inttime.
     let name = mc_name testcase; tname = takeWhile (\<lambda>c. c \<noteq> comma) name; tparams = dropWhile (\<lambda>c. c \<noteq> comma) name in
     Inr (if mc_error testcase \<noteq> []
          then \<lparr>ta_name = tname, ta_time = inttime, ta_error_type = Some ''membase.error'', ta_error_message = Some (mc_error testcase),
                ta_status = ''fail'', ta_params = tparams\<rparr>
          else \<lparr>ta_name = tname, ta_time = inttime, ta_error_type = None, ta_error_message = None, ta_status = ''pass'', ta_params = tparams\<rparr>))"

definition write_suite :: "(string \<Rightarrow> ('t::{zero,plus}) res) \<Rightarrow> ('t \<Rightarrow> string) \<Rightarrow> string \<Rightarrow> merged_suite \<Rightarrow> (string \<times> xml) list res" where
  "write_suite parse_time show_time prefix su =
     rbind (rmap (\<lambda>(_, testcase). merged_report parse_time testcase) (ms_tests su)) (\<lambda>reports.
     Inr (xunit_write show_time prefix (foldl xunit_add_test [] reports)))"

definition merge_reports ::
  "(string \<Rightarrow> ('t::{zero,plus}) res) \<Rightarrow> ('t \<Rightarrow> string) \<Rightarrow> bool \<Rightarrow> string \<Rightarrow> string \<Rightarrow> xml list \<Rightarrow>
   ((string, merged_suite) dict \<times> (string \<times> xml) list) res" where
  "merge_reports parse_time show_time moved prefix run_params docs =
     rbind (merge_docs run_params docs) (\<lambda>testsuites.
     if \<not> moved then Inr ([], [])
     else
       rbind (rmap (\<lambda>(_, su). write_suite parse_time show_time prefix su) testsuites) (\<lambda>files.
       Inr (testsuites, concat files)))"

end
