(* ===== verification/Merge_Reports_Props.thy ===== *)
theory Merge_Reports_Props
  imports Merge_Reports
begin

text \<open>Of the runs of a test in the merged reports, the last one counts.\<close>

definition last_of :: "('a \<Rightarrow> bool) \<Rightarrow> 'a list \<Rightarrow> 'a option" where
  "last_of P xs = (let ys = filter P xs in if ys = [] then None else Some (last ys))"

lemma last_of_snoc: "last_of P (xs @ [x]) = (if P x then Some x else last_of P xs)"
  by (simp add: last_of_def Let_def)

lemma last_of_append: "last_of P (xs @ ys) = (case last_of P ys of None \<Rightarrow> last_of P xs | Some y \<Rightarrow> Some y)"
  by (simp add: last_of_def Let_def)

text \<open>Two test cases are runs of the same test when their names, without the parameters of the run, agree up to the order of
  the parameters.\<close>

definition test_id :: "string \<Rightarrow> xml \<Rightarrow> string" where
  "test_id run_params tc = sorted_params (filter_fields run_params (attribute ''name'' tc))"

definition merged :: "string \<Rightarrow> xml list \<Rightarrow> (string, merged_case) dict \<Rightarrow> bool" where
  "merged run_params cs tests \<longleftrightarrow> distinct (map sorted_params (dict_keys tests)) \<and>
     (\<forall>c v. (\<exists>k. sorted_params k = c \<and> map_of tests k = Some v) \<longleftrightarrow>
            (\<exists>tc. last_of (\<lambda>tc. test_id run_params tc = c) cs = Some tc \<and> read_case tc = Inr v))"

lemma keys_update: "dict_keys (AList.update k v d) = (if k \<in> set (dict_keys d) then dict_keys d else dict_keys d @ [k])"
  by (induction d) auto

lemma key_value: "k \<in> set (dict_keys d) \<longleftrightarrow> (\<exists>v. map_of d k = Some v)"
  unfolding dict_has_iff_keys [symmetric] by (auto simp: dict_has_def)

lemma same_params_unique:
  assumes "distinct (map sorted_params (dict_keys tests))" and "k \<in> set (dict_keys tests)" and "k' \<in> set (dict_keys tests)"
    and "sorted_params k = sorted_params k'"
  shows "k = k'"
  using inj_onD [OF _ assms(4,2,3)] assms(1) unfolding distinct_map by blast

lemma compare_found: "compare_with_sort d key = Some k \<Longrightarrow> k \<in> set (dict_keys d) \<and> sorted_params k = sorted_params key"
  by (auto simp: compare_with_sort_def find_Some_iff)

lemma compare_none: "compare_with_sort d key = None \<Longrightarrow> k \<in> set (dict_keys d) \<Longrightarrow> sorted_params k \<noteq> sorted_params key"
  by (auto simp: compare_with_sort_def find_None_iff)

lemma merge_case_step:
  assumes "merged run_params cs tests" and "read_case tc = Inr v"
  shows "\<exists>tests'. merge_case run_params tests tc = Inr tests' \<and> merged run_params (cs @ [tc]) tests'"
proof -
  let ?f = "filter_fields run_params (attribute ''name'' tc)"
  define key where "key = (case compare_with_sort tests ?f of Some key \<Rightarrow> key | None \<Rightarrow> ?f)"
  let ?t = "AList.update key v tests"
  have c: "sorted_params key = test_id run_params tc"
    by (auto simp: key_def test_id_def dest: compare_found split: option.split)
  have d: "distinct (map sorted_params (dict_keys tests))"
    and m: "\<And>c v. (\<exists>k. sorted_params k = c \<and> map_of tests k = Some v) \<longleftrightarrow>
        (\<exists>tc. last_of (\<lambda>tc. test_id run_params tc = c) cs = Some tc \<and> read_case tc = Inr v)"
    using assms(1) by (auto simp: merged_def)
  have only: "k = key" if k: "k \<in> set (dict_keys tests)" "sorted_params k = sorted_params key" for k
  proof (cases "compare_with_sort tests ?f")
    case None
    with k compare_none [OF None k(1)] show ?thesis by (simp add: key_def)
  next
    case (Some k')
    with same_params_unique [OF d k(1)] k(2) compare_found [OF Some] show ?thesis by (simp add: key_def)
  qed
  have "distinct (map sorted_params (dict_keys ?t))"
  proof (cases "key \<in> set (dict_keys tests)")
    case False
    then have "sorted_params key \<notin> sorted_params ` set (dict_keys tests)" using only by (auto simp del: set_map)
    with False d show ?thesis by (simp add: keys_update image_image)
  qed (use d in \<open>simp add: keys_update\<close>)
  moreover have "(\<exists>k. sorted_params k = c \<and> map_of ?t k = Some w) \<longleftrightarrow>
      (\<exists>tc'. last_of (\<lambda>tc. test_id run_params tc = c) (cs @ [tc]) = Some tc' \<and> read_case tc' = Inr w)" for c w
  proof (cases "c = test_id run_params tc")
    case True
    have "(\<exists>k. sorted_params k = c \<and> map_of ?t k = Some w) \<longleftrightarrow> w = v"
      using only [unfolded key_value] True by (auto simp: c [symmetric] split: if_splits)
    with True assms(2) show ?thesis by (auto simp: last_of_snoc)
  next
    case False
    then have "(\<exists>k. sorted_params k = c \<and> map_of ?t k = Some w) \<longleftrightarrow> (\<exists>k. sorted_params k = c \<and> map_of tests k = Some w)"
      by (auto simp: c [symmetric] split: if_splits)
    with False m show ?thesis by (auto simp: last_of_snoc)
  qed
  ultimately have "merged run_params (cs @ [tc]) ?t" by (simp add: merged_def)
  with assms(2) show ?thesis by (auto simp: merge_case_def Let_def key_def)
qed

lemma merge_cases:
  assumes "merged run_params cs tests" and "\<forall>tc \<in> set tcs. is_ok (read_case tc)"
  shows "\<exists>tests'. rfold (merge_case run_params) tests tcs = Inr tests' \<and> merged run_params (cs @ tcs) tests'"
  using assms
proof (induction tcs arbitrary: cs tests)
  case (Cons tc tcs)
  obtain v where "read_case tc = Inr v" using Cons.prems(2) by (cases "read_case tc") auto
  from merge_case_step [OF Cons.prems(1) this] obtain t1 where "merge_case run_params tests tc = Inr t1" "merged run_params (cs @ [tc]) t1" by blast
  with Cons.IH [of "cs @ [tc]" t1] Cons.prems(2) show ?case by simp
qed simp

text \<open>The test cases of all suites with a name, in the order in which they are read.\<close>

definition cases_of :: "xml list \<Rightarrow> string \<Rightarrow> xml list" where
  "cases_of tss n = concat (map (elements ''testcase'') (filter (\<lambda>ts. attribute ''name'' ts = n) tss))"

definition suites_merged :: "string \<Rightarrow> xml list \<Rightarrow> (string, merged_suite) dict \<Rightarrow> bool" where
  "suites_merged run_params tss suites \<longleftrightarrow>
     (\<forall>n. case map_of suites n of
            None \<Rightarrow> n \<notin> attribute ''name'' ` set tss
          | Some su \<Rightarrow> n \<in> attribute ''name'' ` set tss \<and> merged run_params (cases_of tss n) (ms_tests su))"

lemma merge_suite_step:
  assumes "suites_merged run_params tss suites" and "\<forall>tc \<in> set (elements ''testcase'' ts). is_ok (read_case tc)"
  shows "\<exists>suites'. merge_suite run_params suites ts = Inr suites' \<and> suites_merged run_params (tss @ [ts]) suites'"
proof -
  let ?n = "attribute ''name'' ts"
  let ?old = "case map_of suites ?n of None \<Rightarrow> [] | Some su \<Rightarrow> ms_tests su"
  have inv: "\<And>n. case map_of suites n of
            None \<Rightarrow> n \<notin> attribute ''name'' ` set tss
          | Some su \<Rightarrow> n \<in> attribute ''name'' ` set tss \<and> merged run_params (cases_of tss n) (ms_tests su)"
    using assms(1) by (simp add: suites_merged_def)
  have "merged run_params (cases_of tss ?n) ?old"
  proof (cases "map_of suites ?n")
    case None
    then have "?n \<notin> attribute ''name'' ` set tss" using inv [of ?n] by simp
    then have "filter (\<lambda>x. attribute ''name'' x = ?n) tss = []" by (auto simp: filter_empty_conv image_iff)
    then have "cases_of tss ?n = []" by (simp add: cases_of_def)
    with None show ?thesis by (simp add: merged_def last_of_def)
  qed (use inv [of ?n] in simp)
  from merge_cases [OF this assms(2)] obtain tests where t: "rfold (merge_case run_params) ?old (elements ''testcase'' ts) = Inr tests"
    "merged run_params (cases_of tss ?n @ elements ''testcase'' ts) tests" by blast
  have app: "cases_of (tss @ [ts]) n = (if n = ?n then cases_of tss n @ elements ''testcase'' ts else cases_of tss n)" for n
    by (simp add: cases_of_def)
  have "suites_merged run_params (tss @ [ts]) (AList.update ?n su suites)" if "ms_tests su = tests" for su
    unfolding suites_merged_def
  proof
    fix n
    show "case map_of (AList.update ?n su suites) n of
            None \<Rightarrow> n \<notin> attribute ''name'' ` set (tss @ [ts])
          | Some su \<Rightarrow> n \<in> attribute ''name'' ` set (tss @ [ts]) \<and> merged run_params (cases_of (tss @ [ts]) n) (ms_tests su)"
      using inv [of n] t(2) that by (cases "n = ?n") (auto simp: app split: option.splits)
  qed
  with t(1) show ?thesis by (simp add: merge_suite_def Let_def)
qed


definition run_doc :: "string \<Rightarrow> string \<Rightarrow> xml list \<Rightarrow> xml" where
  "run_doc name ptime errors = Elem ''testsuite'' [(''name'', ''m.T'')] [Elem ''testcase'' [(''name'', name), (''time'', ptime)] errors]"

text \<open>A test that fails and passes when it is run again, with its parameters in another order and another number of the case.\<close>

definition rerun_docs :: "xml list" where
  "rerun_docs = [run_doc ''m.T.t,a=1,b=2,case_number=1'' ''1.0'' [Elem ''error'' [] [XText ''boom'']],
     run_doc ''m.T.t,b=2,a=1,case_number=7'' ''2.0'' []]"

lemma rerun_readable:
  "\<forall>doc \<in> set rerun_docs. \<forall>ts \<in> set (doc_elements ''testsuite'' doc). \<forall>tc \<in> set (elements ''testcase'' ts). is_ok (read_case tc)"
  by (simp add: rerun_docs_def run_doc_def doc_elements_def read_case_def first_value_def)


lemma rerun_passes:
  "merge_docs [] rerun_docs = Inr [(''m.T'', \<lparr>ms_name = ''m.T'', ms_errors = [], ms_failures = [], ms_skips = [], ms_time = [], ms_testcount = [],
     ms_tests = [(''m.T.t,a=1,b=2'', \<lparr>mc_name = ''m.T.t,b=2,a=1,case_number=7'', mc_time = ''2.0'', mc_error = []\<rparr>)]\<rparr>)]"
  by (simp add: rerun_docs_def run_doc_def merge_docs_def doc_elements_def merge_suite_def merge_case_def read_case_def first_value_def Let_def
      filter_fields_def filtered_word_def equals_prefixes_def run_prefixes_def startswith_def compare_with_sort_def sorted_params_def dict_get_def)

text \<open>A failure without a message stops the merging; the number of skipped tests is read from an attribute that is not written.\<close>

lemma empty_message_raises:
  "tc_error t = Some e \<Longrightarrow> opt_str (ce_message e) = [] \<Longrightarrow> read_case (case_xml show_time t) = Inl AttributeError"
  by (simp add: read_case_def case_xml_def first_value_def)

lemma skips_never_read: "attribute ''skips'' (to_xml show_time su) = []"
  by (simp add: to_xml_def dict_get_def)

end
