(* ===== verification/Vb_Aware.thy ===== *)
theory Vb_Aware
  imports Crc32
begin

text \<open>
  Connections to the nodes of a cluster by vbucket: \<^verbatim>\<open>VBucketAwareMemcached\<close> of \<^verbatim>\<open>lib/memcached/helper/data_helper.py\<close>, and the
  verification of keys by threads of \<^verbatim>\<open>lib/BucketLib/MemcachedOperations.py\<close>.

  \<^item> \<open>connect\<close> is \<^verbatim>\<open>direct_client\<close>, given the address and the port of the node's REST interface; \<open>nodes\<close> and the list of
    vbuckets are what the REST interface returned.
  \<^item> Closing the connections after a failed attempt changes no map and is left out.
\<close>

section \<open>The map of vbuckets\<close>

record vBucket =
  vb_master :: string
  vb_replica :: "string list"
  vb_id :: int

record node_info =
  ni_ip :: string
  ni_memcached :: int
  ni_port :: string

record 'c vb_aware =
  va_memcacheds :: "(string, 'c) dict"
  va_map :: "(int, string) dict"
  va_replicas :: "(int, string list) dict"

text \<open>\<^verbatim>\<open>s.rsplit(":", 1)\<close>: an address without a colon has no second part.\<close>

definition host_part :: "string \<Rightarrow> string" where
  "host_part s = (if CHR '':'' \<in> set s then rev (tl (dropWhile (\<lambda>c. c \<noteq> CHR '':'') (rev s))) else s)"

definition port_part :: "string \<Rightarrow> int res" where
  "port_part s = (if CHR '':'' \<in> set s then py_int 10 (rev (takeWhile (\<lambda>c. c \<noteq> CHR '':'') (rev s))) else Inl IndexError)"

definition add_memcached ::
  "(string \<Rightarrow> string \<Rightarrow> 'c res) \<Rightarrow> node_info list \<Rightarrow> string \<Rightarrow> (string, 'c) dict \<Rightarrow> (string, 'c) dict res" where
  "add_memcached connect nodes server_str memcacheds =
     (if dict_has memcacheds server_str then Inr memcacheds
      else
        rbind (port_part server_str) (\<lambda>server_port.
        case find (\<lambda>node. ni_ip node = host_part server_str \<and> ni_memcached node = server_port) nodes of
          None \<Rightarrow> Inr memcacheds
        | Some node \<Rightarrow>
            rbind (connect (host_part server_str) (ni_port node)) (\<lambda>client. Inr (AList.update server_str client memcacheds))))"

definition add_vbucket ::
  "(string \<Rightarrow> string \<Rightarrow> 'c res) \<Rightarrow> node_info list \<Rightarrow> 'c vb_aware \<Rightarrow> vBucket \<Rightarrow> 'c vb_aware res" where
  "add_vbucket connect nodes va vb =
     rbind (add_memcached connect nodes (vb_master vb) (va_memcacheds va)) (\<lambda>m.
     rbind (rfold (\<lambda>m replica. add_memcached connect nodes replica m) m (vb_replica vb)) (\<lambda>m.
     Inr (va\<lparr>va_memcacheds := m, va_map := AList.update (vb_id vb) (vb_master vb) (va_map va),
             va_replicas := AList.update (vb_id vb) (vb_replica vb) (va_replicas va)\<rparr>)))"

text \<open>\<open>vbs\<close> is \<^verbatim>\<open>None\<close> when the map of vbuckets does not become ready.\<close>

definition request_map ::
  "(string \<Rightarrow> string \<Rightarrow> 'c res) \<Rightarrow> node_info list \<Rightarrow> vBucket list option \<Rightarrow> 'c vb_aware res" where
  "request_map connect nodes vbs =
     (case vbs of
        None \<Rightarrow> Inl (Raised ''vbucket map is not ready'')
      | Some vs \<Rightarrow> rfold (add_vbucket connect nodes) \<lparr>va_memcacheds = [], va_map = [], va_replicas = []\<rparr> vs)"

section \<open>Routing\<close>

definition get_vBucket_id :: "'c vb_aware \<Rightarrow> string \<Rightarrow> int" where
  "get_vBucket_id va key = drop_bit 16 (zlib_crc32 key) AND (int (length (va_map va)) - 1)"

definition connection_of :: "'c vb_aware \<Rightarrow> string \<Rightarrow> 'c res" where
  "connection_of va server = of_option (Raised ''does not have a mc connection for server'') (map_of (va_memcacheds va) server)"

definition memcached_for_vbucket :: "'c vb_aware \<Rightarrow> int \<Rightarrow> 'c res" where
  "memcached_for_vbucket va vbid =
     (case map_of (va_map va) vbid of
        None \<Rightarrow> Inl (Raised ''vbucket map does not have an entry'')
      | Some server \<Rightarrow> connection_of va server)"

text \<open>An index from the end counts backwards, as in Python.\<close>

definition replica_at :: "string list \<Rightarrow> int \<Rightarrow> string res" where
  "replica_at replicas i =
     (let n = int (length replicas); j = (if i < 0 then i + n else i) in
      if 0 \<le> j \<and> j < n then Inr (replicas ! nat j) else Inl IndexError)"

definition memcached_for_replica_vbucket :: "'c vb_aware \<Rightarrow> int \<Rightarrow> int \<Rightarrow> 'c res" where
  "memcached_for_replica_vbucket va vbid replica_index =
     (case map_of (va_replicas va) vbid of
        None \<Rightarrow> Inl (Raised ''replica vbucket map does not have an entry'')
      | Some replicas \<Rightarrow> rbind (replica_at replicas replica_index) (connection_of va))"

definition memcached :: "'c vb_aware \<Rightarrow> string \<Rightarrow> int option \<Rightarrow> 'c res" where
  "memcached va key replica_index =
     (case replica_index of
        None \<Rightarrow> memcached_for_vbucket va (get_vBucket_id va key)
      | Some i \<Rightarrow> memcached_for_replica_vbucket va (get_vBucket_id va key) i)"

section \<open>Flushing\<close>

text \<open>A memcached error is tried again, five times in all; then the method returns as if it had succeeded.\<close>

fun flush_attempts :: "nat \<Rightarrow> ('c \<Rightarrow> unit res \<times> 'c) \<Rightarrow> 'c \<Rightarrow> unit res \<times> 'c" where
  "flush_attempts 0 flush c = (Inr (), c)"
| "flush_attempts (Suc n) flush c =
     (case flush c of
        (Inl (MemcachedError _ _), c') \<Rightarrow> flush_attempts n flush c'
      | (r, c') \<Rightarrow> (r, c'))"

definition flush_bucket :: "('c \<Rightarrow> unit res \<times> 'c) \<Rightarrow> 'c \<Rightarrow> unit res \<times> 'c" where
  "flush_bucket flush c = flush_attempts 5 flush c"

section \<open>Looking for keys\<close>

text \<open>\<open>get\<close> is the client's \<^verbatim>\<open>get\<close> for a key of a vbucket, on the connection \<open>'c\<close>.\<close>

fun keys_dont_exist :: "(int \<Rightarrow> string \<Rightarrow> 'c \<Rightarrow> 'v res \<times> 'c) \<Rightarrow> int \<Rightarrow> string list \<Rightarrow> 'c \<Rightarrow> bool res \<times> 'c" where
  "keys_dont_exist get vbucket_count [] c = (Inr True, c)"
| "keys_dont_exist get vbucket_count (key # keys) c =
     (case get (crc32_hash key AND (vbucket_count - 1)) key c of
        (Inr _, c') \<Rightarrow> (Inr False, c')
      | (Inl (MemcachedError _ _), c') \<Rightarrow> keys_dont_exist get vbucket_count keys c'
      | (Inl e, c') \<Rightarrow> (Inl e, c'))"

text \<open>\<open>flag_ok\<close> compares the flags with the checksum of the value.\<close>

fun verify_data ::
  "(int \<Rightarrow> string \<Rightarrow> 'c \<Rightarrow> (int \<times> string) res \<times> 'c) \<Rightarrow> (int \<Rightarrow> string \<Rightarrow> bool) \<Rightarrow> bool \<Rightarrow> bool \<Rightarrow> int \<Rightarrow> string list \<Rightarrow> bool \<Rightarrow> 'c \<Rightarrow>
   bool res \<times> 'c" where
  "verify_data get flag_ok value_equal_to_key verify_flags vbucket_count [] all_verified c = (Inr all_verified, c)"
| "verify_data get flag_ok value_equal_to_key verify_flags vbucket_count (key # keys) all_verified c =
     (case get (crc32_hash key AND (vbucket_count - 1)) key c of
        (Inl (MemcachedError _ _), c') \<Rightarrow> verify_data get flag_ok value_equal_to_key verify_flags vbucket_count keys False c'
      | (Inl e, c') \<Rightarrow> (Inl e, c')
      | (Inr (flag, val), c') \<Rightarrow>
          if value_equal_to_key \<and> val \<noteq> key then (Inl AssertionError, c')
          else if verify_flags \<and> \<not> flag_ok flag val then (Inl AssertionError, c')
          else verify_data get flag_ok value_equal_to_key verify_flags vbucket_count keys all_verified c')"

text \<open>\<^verbatim>\<open>chunks\<close>: consecutive pieces of \<open>n\<close> elements by number; a step of 0 raises.\<close>

function chunk_list :: "'a list \<Rightarrow> nat \<Rightarrow> 'a list list" where
  "chunk_list l n = (if l = [] \<or> n = 0 then [] else take n l # chunk_list (drop n l) n)"
  by pat_completeness auto
termination by (relation "measure (\<lambda>(l, n). length l)") auto

declare chunk_list.simps [simp del]

definition chunks :: "'a list \<Rightarrow> nat \<Rightarrow> (nat, 'a list) dict res" where
  "chunks l n = (if n = 0 then Inl ValueError else Inr (enumerate 0 (chunk_list l n)))"

text \<open>The keys each of the \<open>concurrency\<close> threads is given; \<^verbatim>\<open>None\<close> when there is no such chunk.\<close>

definition thread_keys :: "'a list \<Rightarrow> nat \<Rightarrow> 'a list option list res" where
  "thread_keys keys concurrency =
     rmap (\<lambda>i. rbind (chunks keys (length keys div concurrency)) (\<lambda>d. Inr (map_of d i))) [0..<concurrency]"

text \<open>A thread asks \<^verbatim>\<open>MemcachedClientHelper\<close> for a \<^verbatim>\<open>proxy_client\<close>, which that class does not have.\<close>

definition keys_exist_or_assert :: "string list option \<Rightarrow> bool list res" where
  "keys_exist_or_assert keys = Inl AttributeError"

text \<open>What the threads put into the queue decides; a thread that raises puts nothing.\<close>

definition keys_exist_or_assert_in_parallel :: "string list \<Rightarrow> nat \<Rightarrow> bool res" where
  "keys_exist_or_assert_in_parallel keys concurrency =
     rbind (thread_keys keys concurrency) (\<lambda>chunks.
     Inr (list_all (\<lambda>item. item)
       (concat (map (\<lambda>c. case keys_exist_or_assert c of Inl _ \<Rightarrow> [] | Inr items \<Rightarrow> items) chunks))))"

end
