(* ===== verification/Vb_Aware_Props.thy ===== *)
theory Vb_Aware_Props
  imports Vb_Aware Mc_Client Cb_Stats
begin

text \<open>
  All parts of the framework put a key into the same vbucket, and the vbucket-aware client sends it to that vbucket's master.
\<close>

section \<open>The number of a vbucket\<close>

lemma and_low_mask:
  fixes x :: int
  assumes "k \<le> 15"
  shows "x AND (2 ^ k - 1) = (x AND 0x7fff) AND (2 ^ k - 1)"
proof -
  have m: "(0x7fff :: int) = mask 15" "(2 ^ k - 1 :: int) = mask k" by (simp_all add: mask_eq_exp_minus_1)
  show ?thesis unfolding m using assms by (intro bit_eqI) (auto simp: bit_simps)
qed

section \<open>The connections\<close>

definition node_for :: "node_info list \<Rightarrow> string \<Rightarrow> node_info option" where
  "node_for nodes server =
     (case port_part server of Inl _ \<Rightarrow> None | Inr p \<Rightarrow> find (\<lambda>node. ni_ip node = host_part server \<and> ni_memcached node = p) nodes)"

definition conns_ok :: "(string \<Rightarrow> string \<Rightarrow> 'c res) \<Rightarrow> node_info list \<Rightarrow> (string, 'c) dict \<Rightarrow> bool" where
  "conns_ok connect nodes m \<longleftrightarrow> (\<forall>s c. map_of m s = Some c \<longrightarrow>
     (\<exists>node. node_for nodes s = Some node \<and> connect (host_part s) (ni_port node) = Inr c))"

lemma add_memcached_ok:
  assumes "add_memcached connect nodes s m = Inr m'" and "conns_ok connect nodes m"
  shows "conns_ok connect nodes m' \<and> (\<forall>x. dict_has m x \<longrightarrow> dict_has m' x) \<and> (node_for nodes s \<noteq> None \<longrightarrow> dict_has m' s)"
  using assms
  by (auto simp: add_memcached_def rbind_eq_Inr conns_ok_def node_for_def split: if_splits option.splits) (metis dict_has_update)

lemma add_replicas_ok:
  assumes "rfold (\<lambda>m replica. add_memcached connect nodes replica m) m rs = Inr m'" and "conns_ok connect nodes m"
  shows "conns_ok connect nodes m' \<and> (\<forall>x. dict_has m x \<longrightarrow> dict_has m' x) \<and> (\<forall>r \<in> set rs. node_for nodes r \<noteq> None \<longrightarrow> dict_has m' r)"
  using assms
proof (induction rs arbitrary: m)
  case (Cons r rs)
  from Cons.prems(1) obtain m1 where m1: "add_memcached connect nodes r m = Inr m1" "rfold (\<lambda>m replica. add_memcached connect nodes replica m) m1 rs = Inr m'"
    by (auto simp: rbind_eq_Inr)
  from add_memcached_ok [OF m1(1) Cons.prems(2)] Cons.IH [OF m1(2)] show ?case by auto
qed simp

definition aware_inv :: "(string \<Rightarrow> string \<Rightarrow> 'c res) \<Rightarrow> node_info list \<Rightarrow> vBucket list \<Rightarrow> 'c vb_aware \<Rightarrow> bool" where
  "aware_inv connect nodes vbs va \<longleftrightarrow> conns_ok connect nodes (va_memcacheds va) \<and>
     (distinct (map vb_id vbs) \<longrightarrow> va_map va = map (\<lambda>v. (vb_id v, vb_master v)) vbs \<and> va_replicas va = map (\<lambda>v. (vb_id v, vb_replica v)) vbs) \<and>
     (\<forall>v \<in> set vbs. \<forall>s \<in> set (vb_master v # vb_replica v). node_for nodes s \<noteq> None \<longrightarrow> dict_has (va_memcacheds va) s)"

lemma add_vbucket_inv:
  assumes "aware_inv connect nodes vbs va" and "add_vbucket connect nodes va vb = Inr va'"
  shows "aware_inv connect nodes (vbs @ [vb]) va'"
proof -
  note inv = assms(1) [unfolded aware_inv_def]
  from assms(2) obtain m1 m2 where m: "add_memcached connect nodes (vb_master vb) (va_memcacheds va) = Inr m1"
    "rfold (\<lambda>m replica. add_memcached connect nodes replica m) m1 (vb_replica vb) = Inr m2"
    and va': "va' = va\<lparr>va_memcacheds := m2, va_map := AList.update (vb_id vb) (vb_master vb) (va_map va),
             va_replicas := AList.update (vb_id vb) (vb_replica vb) (va_replicas va)\<rparr>"
    by (auto simp: add_vbucket_def rbind_eq_Inr)
  note a = add_memcached_ok [OF m(1)] and b = add_replicas_ok [OF m(2)]
  have "va_map va' = map (\<lambda>v. (vb_id v, vb_master v)) (vbs @ [vb]) \<and> va_replicas va' = map (\<lambda>v. (vb_id v, vb_replica v)) (vbs @ [vb])"
    if "distinct (map vb_id (vbs @ [vb]))"
    using that inv by (simp add: va' update_new image_image)
  moreover have "conns_ok connect nodes m2" using a b inv by blast
  moreover have "dict_has m2 s" if "v \<in> set (vbs @ [vb])" "s \<in> set (vb_master v # vb_replica v)" "node_for nodes s \<noteq> None" for v s
    using that a b inv by auto
  ultimately show ?thesis by (simp add: aware_inv_def va')
qed

lemma request_map_inv:
  assumes "request_map connect nodes (Some vbs) = Inr va"
  shows "aware_inv connect nodes vbs va"
proof -
  let ?s = "\<lparr>va_memcacheds = [], va_map = [], va_replicas = []\<rparr>"
  have "rfold (add_vbucket connect nodes) ?s vbs = Inr va \<Longrightarrow> aware_inv connect nodes vbs va"
  proof (induction vbs arbitrary: va rule: rev_induct)
    case Nil
    then show ?case by (auto simp: aware_inv_def conns_ok_def)
  next
    case (snoc vb vbs)
    from snoc.prems obtain va1 where "rfold (add_vbucket connect nodes) ?s vbs = Inr va1" "add_vbucket connect nodes va1 vb = Inr va"
      by (auto simp: rfold_append rbind_eq_Inr)
    with snoc.IH add_vbucket_inv show ?case by blast
  qed
  with assms show ?thesis by (simp add: request_map_def)
qed

section \<open>Routing\<close>

lemma master_of:
  assumes "aware_inv connect nodes vbs va" and "map vb_id vbs = [0..2 ^ k - 1]" and "0 \<le> v" and "v < 2 ^ k"
  shows "map_of (va_map va) v = Some (vb_master (vbs ! nat v))" and "length (va_map va) = 2 ^ k" and "nat v < length vbs"
proof -
  have d: "distinct (map vb_id vbs)" unfolding assms(2) by simp
  have len: "length vbs = 2 ^ k" using arg_cong [OF assms(2), of length] by (simp add: nat_power_eq)
  have m: "va_map va = map (\<lambda>v. (vb_id v, vb_master v)) vbs" using assms(1) d by (simp add: aware_inv_def)
  show "length (va_map va) = 2 ^ k" by (simp add: m len)
  show n: "nat v < length vbs" using assms(3,4) by (simp add: len nat_less_iff)
  have "vb_id (vbs ! nat v) = v" using arg_cong [OF assms(2), of "\<lambda>l. l ! nat v"] n assms(3,4) by simp
  then have "(v, vb_master (vbs ! nat v)) \<in> set (va_map va)" using n by (force simp: m)
  moreover have "distinct (map fst (va_map va))" using d by (simp add: m comp_def)
  ultimately show "map_of (va_map va) v = Some (vb_master (vbs ! nat v))" by simp
qed

text \<open>C23. A key of a bucket with up to 32768 vbuckets: the generators, the statistics, the verification of keys, the memcached client
  and the vbucket-aware client compute the same vbucket number for it, and the vbucket-aware client sends it over the
  connection to the node that the map of vbuckets names as that vbucket's master.\<close>

theorem keys_routed_alike:
  assumes "request_map connect nodes (Some vbs) = Inr va" and "map vb_id vbs = [0..2 ^ k - 1]" and "k \<le> 15"
    and "\<forall>v \<in> set vbs. node_for nodes (vb_master v) \<noteq> None" and "is_ascii key" and "vbucket_count c = 2 ^ k"
  shows "\<exists>v client node. v = get_vbucket_num_for_key key (2 ^ k) \<and> 0 \<le> v \<and> v < 2 ^ k \<and> calculate_vbucket_num key (2 ^ k) = v \<and>
    (crc32_hash key AND (2 ^ k - 1)) = v \<and> vbucketId (snd (set_vbucket key (- 1) c)) = v \<and> get_vBucket_id va key = v \<and>
    memcached va key None = Inr client \<and> node_for nodes (vb_master (vbs ! nat v)) = Some node \<and>
    connect (host_part (vb_master (vbs ! nat v))) (ni_port node) = Inr client"
proof -
  let ?v = "get_vbucket_num_for_key key (2 ^ k)"
  have range: "0 \<le> ?v" "?v < 2 ^ k" using vbucket_num_in_range [of "2 ^ k" key] by simp_all
  note inv = request_map_inv [OF assms(1)]
  have conns: "conns_ok connect nodes (va_memcacheds va)" using inv by (simp add: aware_inv_def)
  note m = master_of [OF inv assms(2) range]
  let ?s = "vb_master (vbs ! nat ?v)"
  have id: "get_vBucket_id va key = ?v"
    using and_low_mask [OF assms(3), of "drop_bit 16 (zlib_crc32 key)"] by (simp add: get_vBucket_id_def m(2) get_vbucket_num_for_key_def)
  have in_vbs: "vbs ! nat ?v \<in> set vbs" by (rule nth_mem [OF m(3)])
  then have "dict_has (va_memcacheds va) ?s" using inv assms(4) by (auto simp: aware_inv_def)
  then obtain client where client: "map_of (va_memcacheds va) ?s = Some client" by (auto simp: dict_has_def)
  then obtain node where "node_for nodes ?s = Some node" "connect (host_part ?s) (ni_port node) = Inr client"
    using conns unfolding conns_ok_def by blast
  moreover have "memcached va key None = Inr client" by (simp add: memcached_def memcached_for_vbucket_def id m(1) connection_of_def client)
  moreover have "vbucketId (snd (set_vbucket key (- 1) c)) = ?v"
    using assms(5,6) by (simp add: set_vbucket_def mbind_def mlift_def mput_def get_vbucket_num_for_key_def)
  moreover have "calculate_vbucket_num key (2 ^ k) = ?v" by (simp add: calculate_vbucket_num_def get_vbucket_num_for_key_def)
  moreover have "(crc32_hash key AND (2 ^ k - 1)) = ?v" by (simp add: vbucket_num_hash)
  ultimately show ?thesis using range id by blast
qed

text \<open>The verification of keys by threads succeeds whatever the server has, since every thread raises.\<close>

lemma parallel_check_vacuous:
  assumes "0 < concurrency" and "concurrency \<le> length keys"
  shows "keys_exist_or_assert_in_parallel keys concurrency = Inr True"
proof -
  let ?n = "length keys div concurrency"
  have "0 < ?n" using assms by (simp add: div_greater_zero_iff)
  then have "thread_keys keys concurrency = Inr (map (map_of (enumerate 0 (chunk_list keys ?n))) [0..<concurrency])"
    unfolding thread_keys_def by (intro rmap_Inr) (simp add: chunks_def)
  then show ?thesis by (auto simp: keys_exist_or_assert_in_parallel_def keys_exist_or_assert_def list_all_iff)
qed

text \<open>Two nodes and two vbuckets.\<close>

definition two_nodes :: "node_info list" where
  "two_nodes = [\<lparr>ni_ip = ''a'', ni_memcached = 1, ni_port = ''8091''\<rparr>, \<lparr>ni_ip = ''b'', ni_memcached = 1, ni_port = ''8091''\<rparr>]"

definition two_vbuckets :: "vBucket list" where
  "two_vbuckets = [\<lparr>vb_master = ''a:1'', vb_replica = [''b:1''], vb_id = 0\<rparr>, \<lparr>vb_master = ''b:1'', vb_replica = [''a:1''], vb_id = 1\<rparr>]"

lemma two_known: "node_for two_nodes ''a:1'' \<noteq> None" "node_for two_nodes ''b:1'' \<noteq> None"
  by (simp_all add: node_for_def two_nodes_def port_part_def host_part_def py_int_def py_nat_def py_strip_def py_rstrip_def py_ws_def
      digit_val_def lower_char_def)

lemma two_map: "\<exists>va. request_map (\<lambda>ip port. Inr ip) two_nodes (Some two_vbuckets) = Inr va"
  by (simp add: request_map_def two_vbuckets_def add_vbucket_def add_memcached_def two_nodes_def port_part_def host_part_def
      py_int_def py_nat_def py_strip_def py_rstrip_def py_ws_def digit_val_def lower_char_def)

theorem keys_routed_alike_witness:
  "\<exists>va v client node. request_map (\<lambda>ip port. Inr ip) two_nodes (Some two_vbuckets) = Inr va \<and>
    v = get_vbucket_num_for_key ''k'' (2 ^ 1) \<and> vbucketId (snd (set_vbucket ''k'' (- 1) ((mc_init [])\<lparr>vbucket_count := 2\<rparr>))) = v \<and> get_vBucket_id va ''k'' = v \<and>
    memcached va ''k'' None = Inr client \<and> node_for two_nodes (vb_master (two_vbuckets ! nat v)) = Some node \<and>
    client = host_part (vb_master (two_vbuckets ! nat v))"
proof -
  obtain va where va: "request_map (\<lambda>ip port. Inr ip) two_nodes (Some two_vbuckets) = Inr va" using two_map by blast
  have ids: "map vb_id two_vbuckets = [0..2 ^ 1 - 1]" by (simp add: two_vbuckets_def upto.simps)
  have masters: "\<forall>v \<in> set two_vbuckets. node_for two_nodes (vb_master v) \<noteq> None" using two_known by (simp add: two_vbuckets_def)
  have asc: "is_ascii ''k''" by (simp add: is_ascii_def)
  have cnt: "vbucket_count ((mc_init [])\<lparr>vbucket_count := 2\<rparr>) = 2 ^ 1" by simp
  from keys_routed_alike [OF va ids _ masters asc cnt] va show ?thesis by auto
qed

end
