(* ===== verification/Durability.thy ===== *)
theory Durability
  imports SDK_Client Cb_Stats
begin

text \<open>
  \<^verbatim>\<open>lib/couchbase_helper/durability_helper.py\<close>: which errors durable writes survive, and the checks after a test has induced
  some.

  \<^item> The number of replicas of a bucket is an argument (the REST interface gives it), as are the statistics of the nodes
    and the documents' comparisons: \<open>differs\<close> compares the value read with the one expected, \<open>mutated_of\<close> reads the field
    \<^verbatim>\<open>mutated\<close> of a JSON text. \<open>draw k\<close> is the \<open>k\<close>-th random number.
\<close>

definition BucketDurability :: "(string, string) dict" where
  "BucketDurability = [(''NONE'', ''none''), (''MAJORITY'', ''majority''), (''MAJORITY_AND_PERSIST_TO_ACTIVE'', ''majorityAndPersistActive''),
     (''PERSIST_TO_MAJORITY'', ''persistToMajority'')]"

record durability_helper =
  dh_cluster_len :: int
  dh_durability :: string
  dh_replicate_to :: int
  dh_persist_to :: int

definition disk_error_types :: "string list" where
  "disk_error_types = [''disk_failure'', ''disk_full'']"

definition dh_compare :: "int \<Rightarrow> int \<Rightarrow> string \<Rightarrow> bool" where
  "dh_compare lhs_val rhs_val comparison =
     (if comparison = ''=='' then lhs_val = rhs_val else if comparison = ''>='' then lhs_val \<ge> rhs_val else False)"

section \<open>Nodes to be affected\<close>

text \<open>The loop ends only when enough different nodes have been drawn.\<close>

partial_function (option) select_nodes :: "(nat \<Rightarrow> nat) \<Rightarrow> 'n list \<Rightarrow> int \<Rightarrow> nat \<Rightarrow> 'n list \<Rightarrow> 'n list res option" where
  "select_nodes draw nodes num_nodes_affected k node_list =
     (if int (length node_list) = num_nodes_affected then Some (Inr node_list)
      else if length nodes \<le> draw k then Some (Inl IndexError)
      else
        select_nodes draw nodes num_nodes_affected (Suc k)
          (if nodes ! draw k \<in> set node_list then node_list else node_list @ [nodes ! draw k]))"

definition getTargetNodes :: "(nat \<Rightarrow> nat) \<Rightarrow> 'n list \<Rightarrow> 'n \<Rightarrow> int \<Rightarrow> int \<Rightarrow> 'n list res option" where
  "getTargetNodes draw nodes master nodes_init num_nodes_affected =
     (if 1 < length nodes then
        (if num_nodes_affected = 0 then Some (Inr [])
         else if nodes_init - 1 < 1 then Some (Inl ValueError)
         else select_nodes draw nodes num_nodes_affected 0 [])
      else Some (Inr [master]))"

section \<open>Durable writes\<close>

definition is_sync_write_enabled :: "string \<Rightarrow> string \<Rightarrow> bool" where
  "is_sync_write_enabled bucket_durability doc_durability \<longleftrightarrow>
     bucket_durability \<noteq> ''none'' \<or> doc_durability \<noteq> [] \<and> py_lower doc_durability \<noteq> ''none''"

text \<open>\<^verbatim>\<open>failed_nodes\<close> is used as a number without an induced error and as a list with one.\<close>

datatype 'n failed_nodes = FailedNum int | FailedList "'n list"

definition majority_value :: "int \<Rightarrow> int" where
  "majority_value replica_number = (replica_number + 1) div 2 + 1"

definition durability_succeeds :: "durability_helper \<Rightarrow> int \<Rightarrow> string option \<Rightarrow> 'n failed_nodes \<Rightarrow> bool res" where
  "durability_succeeds h replica_number induced_error failed_nodes =
     (let majority = majority_value replica_number in
      case induced_error of
        None \<Rightarrow> (case failed_nodes of FailedNum n \<Rightarrow> Inr (\<not> dh_cluster_len h - n < majority) | FailedList _ \<Rightarrow> Inl TypeError)
      | Some err \<Rightarrow>
          if dh_durability h = ''MAJORITY'' \<and> err \<in> set disk_error_types then Inr True
          else (case failed_nodes of FailedNum _ \<Rightarrow> Inl TypeError | FailedList ns \<Rightarrow> Inr (\<not> dh_cluster_len h - int (length ns) < majority)))"

definition validate_durability_exception :: "('v, 'p) results \<Rightarrow> string \<Rightarrow> string option \<Rightarrow> bool res" where
  "validate_durability_exception failed_docs expected_exception retry_reason =
     rfold (\<lambda>passed (key, failed_doc).
       rbind (of_option KeyError (en_error failed_doc)) (\<lambda>err.
       Inr (passed \<and> in_str expected_exception err \<and>
            (case retry_reason of None \<Rightarrow> True | Some r \<Rightarrow> r = [] \<or> in_str r err)))) True failed_docs"

section \<open>Retrying\<close>

record ('v, 'j) doc_info =
  di_value :: "('v, 'j) py_doc"
  di_exp :: "int option"

definition helper_args :: "durability_helper \<Rightarrow> int \<Rightarrow> int \<Rightarrow> crud_args" where
  "helper_args h exp timeout =
     crud_defaults\<lparr>ca_exp := exp, ca_replicate_to := Some (dh_replicate_to h), ca_persist_to := Some (dh_persist_to h),
       ca_durability := dh_durability h, ca_timeout := timeout, ca_time_unit := ''seconds''\<rparr>"

text \<open>\<^verbatim>\<open>result["status"]\<close>: an operation that \<^verbatim>\<open>crud\<close> does not know returns \<^verbatim>\<open>None\<close>.\<close>

definition crud_status where
  "crud_status sdk oo col op_type key v a c =
     (case crud_doc sdk oo col op_type key v a c of
        (Inl e, c') \<Rightarrow> (Inl e, c')
      | (Inr None, c') \<Rightarrow> (Inl TypeError, c')
      | (Inr (Some r), c') \<Rightarrow> (Inr (cr_status r), c'))"

fun retry_with_no_error where
  "retry_with_no_error sdk oo col h op_type timeout [] op_failed c = (Inr op_failed, c)"
| "retry_with_no_error sdk oo col h op_type timeout ((key, info) # docs) op_failed c =
     (case crud_status sdk oo col op_type key (di_value info) (helper_args h (case di_exp info of None \<Rightarrow> 0 | Some e \<Rightarrow> e) timeout) c of
        (Inl e, c') \<Rightarrow> (Inl e, c')
      | (Inr status, c') \<Rightarrow> retry_with_no_error sdk oo col h op_type timeout docs (op_failed \<or> \<not> status) c')"

text \<open>Whether the operation has to be tried again (first component) and whether it can be (second).\<close>

definition ambiguous_outcome where
  "ambiguous_outcome differs mutated_of op_type info r =
     (if op_type = ''create'' then Inr (differs (cr_value r) (di_value info), True)
      else if op_type = ''delete'' then Inr (cr_cas r \<noteq> 0, True)
      else if op_type = ''read'' then Inr (False, False)
      else if op_type = ''update'' then
        rbind (mutated_of (Inl (di_value info))) (\<lambda>expected.
        rbind (mutated_of (Inr (cr_value r))) (\<lambda>current. Inr (expected \<noteq> (current :: int), True)))
      else Inr (False, False))"

definition retry_for_ambiguous_exception where
  "retry_for_ambiguous_exception differs mutated_of sdk oo col h op_type key info c =
     (case sdk_read sdk col key crud_defaults c of
        (r, c1) \<Rightarrow>
          (case ambiguous_outcome differs mutated_of op_type info r of
             Inl e \<Rightarrow> (Inl e, c1)
           | Inr (retry_op, retry_success) \<Rightarrow>
               if retry_op then
                 (case crud_status sdk oo col op_type key (di_value info) (helper_args h 0 10) c1 of
                    (Inl e, c2) \<Rightarrow> (Inl e, c2)
                  | (Inr status, c2) \<Rightarrow> (Inr (retry_success \<and> status), c2))
               else (Inr retry_success, c1)))"

section \<open>Statistics\<close>

definition counted_ops :: "string list" where
  "counted_ops = [''ops_create'', ''ops_delete'', ''ops_update'', ''ops_reject'', ''ops_get'', ''rollback_item_count'',
     ''sync_write_aborted_count'', ''sync_write_committed_count'', ''pending_writes'']"

definition stat_int :: "stat_val \<Rightarrow> int res" where
  "stat_int v = (case v of SInt i \<Rightarrow> Inr i | SStr s \<Rightarrow> py_int 10 s)"

definition add_stats ::
  "(string, (string, stat_val) dict) dict \<Rightarrow> (string, int) dict \<Rightarrow> nat \<Rightarrow> (string, int) dict res" where
  "add_stats details ops_val vb_num =
     rfold (\<lambda>acc op_type.
       rbind (dict_lookup details (nat_str vb_num)) (\<lambda>st.
       rbind (dict_lookup st op_type) (\<lambda>v.
       rbind (stat_int v) (\<lambda>i. Inr (AList.update op_type (dict_get acc op_type 0 + i) acc))))) ops_val counted_ops"

definition verify_vbucket_details_stats ::
  "(string, (string, stat_val) dict) dict list \<Rightarrow> nat \<Rightarrow> (string, int) dict \<Rightarrow> bool res" where
  "verify_vbucket_details_stats node_details vbuckets expected_val =
     (let details = foldl dict_update_all [] node_details in
      rbind (rfold (add_stats details) (map (\<lambda>op_type. (op_type, 0)) counted_ops) [0..<vbuckets]) (\<lambda>ops_val.
      Inr (\<exists>(op_type, n) \<in> set ops_val. \<exists>e. map_of expected_val op_type = Some e \<and> \<not> dh_compare n e ''==''  )))"

definition get_vb_and_error_type :: "string \<Rightarrow> string \<times> string" where
  "get_vb_and_error_type d_level =
     (if d_level = ''MAJORITY'' then (''replica'', ''stop_memcached'')
      else if d_level = ''MAJORITY_AND_PERSIST_TO_ACTIVE'' then (''active'', ''stop_persistence'')
      else if d_level = ''PERSIST_TO_MAJORITY'' then (''replica'', ''stop_persistence'')
      else (''replica'', ''stop_memcached''))"

end
