(* ===== verification/Durability_Props.thy ===== *)
theory Durability_Props
  imports Durability
begin

text \<open>When the choice of nodes to be affected ends, and what it chooses; what the check of statistics compares.\<close>

section \<open>Nodes to be affected\<close>

text \<open>Random numbers in a range, each of which comes up again and again.\<close>

definition fair_draws :: "(nat \<Rightarrow> nat) \<Rightarrow> nat \<Rightarrow> nat \<Rightarrow> bool" where
  "fair_draws draw lo hi \<longleftrightarrow> (\<forall>k. lo \<le> draw k \<and> draw k \<le> hi) \<and> (\<forall>i k. lo \<le> i \<longrightarrow> i \<le> hi \<longrightarrow> (\<exists>k' \<ge> k. draw k' = i))"

definition candidates :: "'n list \<Rightarrow> nat \<Rightarrow> 'n list" where
  "candidates nodes nodes_init = take (nodes_init - 1) (tl nodes)"

lemma candidate_iff:
  assumes "nodes_init \<le> length nodes"
  shows "x \<in> set (candidates nodes nodes_init) \<longleftrightarrow> (\<exists>i. 1 \<le> i \<and> i \<le> nodes_init - 1 \<and> x = nodes ! i)"
proof -
  have "x \<in> set (candidates nodes nodes_init) \<longleftrightarrow> (\<exists>j < nodes_init - 1. x = nodes ! Suc j)"
    using assms by (force simp: candidates_def in_set_conv_nth nth_tl)
  also have "\<dots> \<longleftrightarrow> (\<exists>i. 1 \<le> i \<and> i \<le> nodes_init - 1 \<and> x = nodes ! i)"
  proof
    assume "\<exists>j < nodes_init - 1. x = nodes ! Suc j"
    then show "\<exists>i. 1 \<le> i \<and> i \<le> nodes_init - 1 \<and> x = nodes ! i" by (metis One_nat_def Suc_leI le_add1 plus_1_eq_Suc)
  next
    assume "\<exists>i. 1 \<le> i \<and> i \<le> nodes_init - 1 \<and> x = nodes ! i"
    then obtain i where "1 \<le> i" "i \<le> nodes_init - 1" "x = nodes ! i" by blast
    then show "\<exists>j < nodes_init - 1. x = nodes ! Suc j" by (intro exI [of _ "i - 1"]) auto
  qed
  finally show ?thesis .
qed

definition chosen :: "'n list \<Rightarrow> nat \<Rightarrow> 'n list \<Rightarrow> bool" where
  "chosen nodes nodes_init ns \<longleftrightarrow> distinct ns \<and> set ns \<subseteq> set (candidates nodes nodes_init)"

text \<open>Drawing until a node comes up that has not been chosen yet.\<close>

lemma select_skip:
  assumes "\<forall>k. draw k < length nodes" and "int (length ns) \<noteq> m" and "k \<le> k'" and "\<forall>j. k \<le> j \<and> j < k' \<longrightarrow> nodes ! draw j \<in> set ns"
  shows "select_nodes draw nodes m k ns = select_nodes draw nodes m k' ns"
  using assms(3,4)
proof (induction "k' - k" arbitrary: k)
  case (Suc n)
  then have lt: "k < k'" by simp
  then have "select_nodes draw nodes m k ns = select_nodes draw nodes m (Suc k) ns"
    using Suc.prems(2) assms(1) [rule_format, of k] assms(2) by (subst select_nodes.simps) (simp add: not_le)
  also have "\<dots> = select_nodes draw nodes m k' ns" using Suc.hyps Suc.prems lt by (intro Suc.hyps(1)) auto
  finally show ?case .
qed simp

lemma select_next:
  assumes "fair_draws draw 1 (nodes_init - 1)" and "nodes_init \<le> length nodes" and "int (length ns) \<noteq> m"
    and "x \<in> set (candidates nodes nodes_init)" and "x \<notin> set ns" and "1 < nodes_init"
  obtains k' y where "y \<in> set (candidates nodes nodes_init)" "y \<notin> set ns" "select_nodes draw nodes m k ns = select_nodes draw nodes m k' (ns @ [y])"
proof -
  have bound: "1 \<le> draw j \<and> draw j \<le> nodes_init - 1" for j using assms(1) by (simp add: fair_draws_def)
  then have lt: "\<forall>k. draw k < length nodes" using assms(2,6) by (metis One_nat_def Suc_lessD Suc_pred le_neq_implies_less less_le_trans not_less_eq zero_less_Suc)
  obtain i where "1 \<le> i" "i \<le> nodes_init - 1" "x = nodes ! i" using assms(4) candidate_iff [OF assms(2)] by blast
  then obtain j where "k \<le> j" "draw j = i" using assms(1) unfolding fair_draws_def by blast
  then have ex: "k \<le> j \<and> nodes ! draw j \<notin> set ns" using assms(5) \<open>x = nodes ! i\<close> by simp
  define k' where "k' = (LEAST j. k \<le> j \<and> nodes ! draw j \<notin> set ns)"
  have k': "k \<le> k' \<and> nodes ! draw k' \<notin> set ns" unfolding k'_def by (rule LeastI [of "\<lambda>j. k \<le> j \<and> nodes ! draw j \<notin> set ns", OF ex])
  have "\<forall>j. k \<le> j \<and> j < k' \<longrightarrow> nodes ! draw j \<in> set ns" unfolding k'_def by (blast dest: not_less_Least)
  then have "select_nodes draw nodes m k ns = select_nodes draw nodes m k' ns" using k' by (intro select_skip [OF lt assms(3)]) auto
  also have "\<dots> = select_nodes draw nodes m (Suc k') (ns @ [nodes ! draw k'])"
    using k' lt [rule_format, of k'] assms(3) by (subst select_nodes.simps) (simp add: not_le)
  finally show thesis using k' bound [of k'] candidate_iff [OF assms(2)] that by blast
qed

lemma candidates_distinct:
  assumes "distinct nodes" and "nodes_init \<le> length nodes"
  shows "distinct (candidates nodes nodes_init)" and "length (candidates nodes nodes_init) = nodes_init - 1"
  using assms by (simp_all add: candidates_def distinct_tl)

lemma select_ends:
  assumes "fair_draws draw 1 (nodes_init - 1)" and "distinct nodes" and "nodes_init \<le> length nodes" and "m < nodes_init"
    and "chosen nodes nodes_init ns" and "length ns \<le> m"
  shows "\<exists>ns'. select_nodes draw nodes (int m) k ns = Some (Inr ns') \<and> length ns' = m \<and> chosen nodes nodes_init ns'"
  using assms(5,6)
proof (induction "m - length ns" arbitrary: ns k)
  case 0
  then have "length ns = m" by simp
  with 0 show ?case by (subst select_nodes.simps) simp
next
  case (Suc d)
  have "length ns < nodes_init - 1" using Suc.hyps(2) assms(4) by simp
  then have "set (candidates nodes nodes_init) \<noteq> set ns"
    using candidates_distinct [OF assms(2,3)] Suc.prems(1) distinct_card [of ns] distinct_card [of "candidates nodes nodes_init"]
    by (auto simp: chosen_def)
  then obtain x where x: "x \<in> set (candidates nodes nodes_init)" "x \<notin> set ns" using Suc.prems(1) by (auto simp: chosen_def)
  have ne: "int (length ns) \<noteq> int m" "1 < nodes_init" using Suc.hyps(2) assms(4) by auto
  obtain k' y where y: "y \<in> set (candidates nodes nodes_init)" "y \<notin> set ns"
    "select_nodes draw nodes (int m) k ns = select_nodes draw nodes (int m) k' (ns @ [y])"
    by (rule select_next [OF assms(1,3) ne(1) x ne(2)])
  have "\<exists>ns'. select_nodes draw nodes (int m) k' (ns @ [y]) = Some (Inr ns') \<and> length ns' = m \<and> chosen nodes nodes_init ns'"
    by (rule Suc.hyps(1)) (use Suc.hyps(2) Suc.prems y(1,2) in \<open>auto simp: chosen_def\<close>)
  with y(3) show ?case by simp
qed

lemma select_result:
  assumes "select_nodes draw nodes m k ns = Some r" and "fair_draws draw 1 (nodes_init - 1)" and "1 < nodes_init" and "nodes_init \<le> length nodes"
    and "chosen nodes nodes_init ns"
  shows "\<exists>ns'. r = Inr ns' \<and> int (length ns') = m \<and> chosen nodes nodes_init ns'"
  using assms
proof (induction rule: select_nodes.raw_induct [rotated, consumes 1])
  case (1 sel draw nodes m k ns r)
  have d: "1 \<le> draw k" "draw k \<le> nodes_init - 1" using 1(3) by (simp_all add: fair_draws_def)
  then have lt: "\<not> length nodes \<le> draw k" using 1(4,5) by linarith
  let ?ns = "if nodes ! draw k \<in> set ns then ns else ns @ [nodes ! draw k]"
  have "nodes ! draw k \<in> set (candidates nodes nodes_init)" using d candidate_iff [OF 1(5)] by blast
  then have "chosen nodes nodes_init ?ns" using 1(6) by (auto simp: chosen_def)
  with 1 lt show ?case by (auto split: if_splits)
qed

text \<open>C40. Choosing nodes to be affected from a cluster of several nodes, with random numbers that each come up again and again: the
  choice ends if and only if fewer nodes are asked for than the cluster was set up with, and then with that many
  different nodes, never the first one.\<close>

theorem target_nodes_chosen:
  assumes "fair_draws draw 1 (nodes_init - 1)" and "distinct nodes" and "1 < nodes_init" and "nodes_init \<le> length nodes"
  shows "if m < nodes_init
    then \<exists>ns. getTargetNodes draw nodes master (int nodes_init) (int m) = Some (Inr ns) \<and> length ns = m \<and> distinct ns \<and>
      set ns \<subseteq> set (take (nodes_init - 1) (tl nodes))
    else getTargetNodes draw nodes master (int nodes_init) (int m) = None"
proof (cases "m < nodes_init")
  case True
  have n: "1 < length nodes" using assms(3,4) by simp
  have "\<exists>ns. select_nodes draw nodes (int m) 0 [] = Some (Inr ns) \<and> length ns = m \<and> chosen nodes nodes_init ns"
    by (rule select_ends [OF assms(1,2,4) True]) (simp_all add: chosen_def)
  with True n assms(3) show ?thesis by (auto simp: getTargetNodes_def chosen_def candidates_def)
next
  case False
  have "select_nodes draw nodes (int m) 0 [] = None"
  proof (rule ccontr)
    assume "select_nodes draw nodes (int m) 0 [] \<noteq> None"
    then obtain r where "select_nodes draw nodes (int m) 0 [] = Some r" by auto
    from select_result [OF this assms(1,3,4)] obtain ns where ns: "length ns = m" "distinct ns" "set ns \<subseteq> set (candidates nodes nodes_init)"
      by (auto simp: chosen_def)
    have "m \<le> nodes_init - 1" using card_mono [OF _ ns(3)] ns(1,2) candidates_distinct [OF assms(2,4)] by (simp add: distinct_card)
    with False assms(3) show False by simp
  qed
  with False assms(3,4) show ?thesis by (simp add: getTargetNodes_def)
qed

theorem target_nodes_chosen_witness:
  "\<exists>ns. getTargetNodes (\<lambda>k. 1 + k mod 2) [''a'', ''b'', ''c''] ''a'' 3 2 = Some (Inr ns) \<and> length ns = 2 \<and> distinct ns \<and>
    set ns \<subseteq> set (take (3 - 1) (tl [''a'', ''b'', ''c'']))"
proof -
  have "\<exists>k' \<ge> k. 1 + k' mod 2 = i" if "1 \<le> i" "i \<le> (2 :: nat)" for i k :: nat
  proof -
    have "i = 1 \<or> i = 2" using that by auto
    then show ?thesis by (intro exI [of _ "2 * k + (i - 1)"]) auto
  qed
  then have "fair_draws (\<lambda>k. 1 + k mod 2) 1 (3 - 1)" by (auto simp: fair_draws_def)
  from target_nodes_chosen [OF this, of "[''a'', ''b'', ''c'']" 2 "''a''"] show ?thesis by simp
qed

text \<open>The default of \<^verbatim>\<open>failed_nodes\<close> is an empty list, which cannot be subtracted.\<close>

lemma default_failed_nodes_raise: "durability_succeeds h replica_number None (FailedList []) = Inl TypeError"
  by (simp add: durability_succeeds_def)

end
