(* ===== verification/Spec_Tasks.thy ===== *)
theory Spec_Tasks
  imports Doc_Loading Doc_Validation
begin

text \<open>
  The tasks that carry out a specification of mutations and validate its documents afterwards
  (\<^verbatim>\<open>MutateDocsFromSpecTask\<close> and \<^verbatim>\<open>ValidateDocsFromSpecTask\<close> of \<^verbatim>\<open>lib/Jython_tasks/task.py\<close>).

  \<^item> As in \<open>Doc_Loading\<close>, the three levels of the dictionaries are one: a collection is a \<open>place\<close>. \<open>mt_buckets\<close> are the keys
    of the outermost.
  \<^item> The threads that create the sub-tasks of a collection run one after the other and end. One that raises ends with the
    sub-tasks it has made; nobody sees the exception.
  \<^item> Sub-tasks run as in \<open>Load_Tasks\<close>. The future delivers what a sub-task raised as an \<^verbatim>\<open>Exception\<close>. Waiting for a count that
    the executor's threads have not written yet is left out.
  \<^item> The batching generators of documents and of sub-documents come as their methods, \<open>ops\<close> and \<open>sub_ops\<close>; so do the calls of the
    SDK, \<open>sdk\<close> and \<open>sub_sdk\<close>, which act on one connection.
  \<^item> \<open>now\<close> is the text of the time, \<open>message\<close> the text of an exception.
\<close>

section \<open>Specifications\<close>

record ('g, 'v, 'p) op_spec =
  os_gen :: 'g
  os_doc_ttl :: int
  os_durability :: string
  os_timeout :: int
  os_timeout_unit :: string
  os_skip_read_on_error :: bool
  os_skip_read_success :: bool
  os_xattr :: "bool option"
  os_track_failures :: "bool option"
  os_iterations :: "int option"
  os_success :: "('v, 'p) results"
  os_fail :: "('v, 'p) results"

type_synonym ('g, 'v, 'p) loader_spec = "(place, (string, ('g, 'v, 'p) op_spec) dict) dict"

type_synonym ('g, 'v, 'p) spec_task = "('g, 'v, 'p) load_task \<times> task_config \<times> sub_config"

record ('g, 'v, 'p) mutate_task = task +
  mt_buckets :: "string list"
  mt_spec :: "('g, 'v, 'p) loader_spec"
  mt_load :: "('g, 'v, 'p) spec_task list"
  mt_sub :: "('g, 'v, 'p) spec_task list"
  mt_cont :: "('g, 'v, 'p) spec_task list"
  mt_result :: bool
  mt_stats :: "(string, bucket_stats) dict"
  mt_manager :: "unit task_manager"

text \<open>The fixed arguments of the task.\<close>

record spec_args =
  sa_pool :: bool
  sa_batch_size :: int
  sa_concurrency :: int
  sa_print_ops_rate :: bool
  sa_track_failures :: bool

definition new_mutate_task ::
  "string \<Rightarrow> string list \<Rightarrow> ('g, 'v, 'p) loader_spec \<Rightarrow> (string, bucket_stats) dict \<Rightarrow> unit task_manager \<Rightarrow> ('g, 'v, 'p) mutate_task" where
  "new_mutate_task now buckets spec stats tm =
     \<lparr>tk_name = ''MutateDocsFromSpecTask_'' @ now, tk_exception = None, tk_completed = False, tk_started = False,
      mt_buckets = buckets, mt_spec = spec, mt_load = [], mt_sub = [], mt_cont = [], mt_result = True, mt_stats = stats,
      mt_manager = tm\<rparr>"

definition update_op ::
  "place \<Rightarrow> string \<Rightarrow> (('g, 'v, 'p) op_spec \<Rightarrow> ('g, 'v, 'p) op_spec) \<Rightarrow> ('g, 'v, 'p) loader_spec \<Rightarrow> ('g, 'v, 'p) loader_spec res" where
  "update_op pl op f spec =
     rbind (dict_lookup spec pl) (\<lambda>ops.
     rbind (dict_lookup ops op) (\<lambda>os.
     Inr (AList.update pl (AList.update op (f os) ops) spec)))"

section \<open>Creating the sub-tasks\<close>

datatype spec_kind = DocKind | SubKind | ContKind

definition kind_of :: "string \<Rightarrow> spec_kind option" where
  "kind_of op =
     (if op \<in> set DOC_OPS then Some DocKind else if op \<in> set SUB_DOC_OPS then Some SubKind
      else if op \<in> set [''cont_update'', ''cont_replace''] then Some ContKind else None)"

text \<open>\<^verbatim>\<open>op_type.replace("cont_", "")\<close> on the two operations it is applied to.\<close>

definition task_op :: "spec_kind \<Rightarrow> string \<Rightarrow> string" where
  "task_op k op = (if k = ContKind then drop 5 op else op)"

definition spec_config :: "spec_args \<Rightarrow> place \<Rightarrow> spec_kind \<Rightarrow> string \<Rightarrow> ('g, 'v, 'p) op_spec \<Rightarrow> task_config" where
  "spec_config a pl k op os =
     (case pl of (bn, sn, cn) \<Rightarrow>
        \<lparr>cfg_op_type = task_op k op,
         cfg_args = crud_defaults\<lparr>ca_exp := os_doc_ttl os, ca_durability := os_durability os, ca_timeout := os_timeout os,
           ca_time_unit := os_timeout_unit os\<rparr>,
         cfg_bucket = bn, cfg_scope = sn, cfg_collection = cn, cfg_pool = sa_pool a, cfg_own = None,
         cfg_iterations = (if k = SubKind then 1 else case os_iterations os of None \<Rightarrow> 1 | Some n \<Rightarrow> n),
         cfg_track_failures = (case os_track_failures os of None \<Rightarrow> sa_track_failures a | Some b \<Rightarrow> b),
         cfg_skip_read_success = os_skip_read_success os,
         cfg_skip_read_on_error = (k \<noteq> SubKind \<and> os_skip_read_on_error os),
         cfg_random_exp = False, cfg_exp = os_doc_ttl os\<rparr>)"

definition spec_task_id :: "string \<Rightarrow> place \<Rightarrow> string \<Rightarrow> int \<Rightarrow> string" where
  "spec_task_id thread_name pl op ttl =
     (case pl of (bn, sn, cn) \<Rightarrow>
        thread_name @ ''_'' @ bn @ ''_'' @ sn @ ''_'' @ cn @ ''_'' @ op @ ''_ttl='' @ int_str ttl)"

definition sub_task_name :: "string \<Rightarrow> int \<Rightarrow> int \<Rightarrow> string \<Rightarrow> string \<Rightarrow> string" where
  "sub_task_name task_identifier start stop op_type durability =
     ''LoadSubDocsTask-'' @ task_identifier @ ''_'' @ int_str start @ ''_'' @ int_str stop @ ''_'' @ op_type @ ''_'' @ durability"

definition spec_task_name :: "string \<Rightarrow> string \<Rightarrow> spec_kind \<Rightarrow> task_config \<Rightarrow> int \<Rightarrow> int \<Rightarrow> string" where
  "spec_task_name now task_id k cfg start stop =
     (if k = SubKind then sub_task_name task_id start stop (cfg_op_type cfg) (ca_durability (cfg_args cfg))
      else load_task_name task_id (cfg_op_type cfg) (ca_durability (cfg_args cfg)) start stop now)"

definition op_tasks ::
  "string \<Rightarrow> spec_args \<Rightarrow> string \<Rightarrow> place \<Rightarrow> spec_kind \<Rightarrow> string \<Rightarrow> ('a kvgen_scheme, 'v, 'p) op_spec \<Rightarrow> 'a kvgen_scheme list \<Rightarrow>
   ('a kvgen_scheme, 'v, 'p) spec_task list" where
  "op_tasks now a thread_name pl k op os gs =
     (let cfg = spec_config a pl k op os; task_id = spec_task_id thread_name pl op (os_doc_ttl os) in
      map (\<lambda>g. (new_load_task (spec_task_name now task_id k cfg (kg_start g) (kg_end g)) g (os_doc_ttl os), cfg,
                \<lparr>sb_create_path = True, sb_xattr = (os_xattr os = Some True), sb_access_deleted = False\<rparr>)) gs)"

definition add_tasks ::
  "spec_kind \<Rightarrow> ('g, 'v, 'p) spec_task list \<Rightarrow> ('g, 'v, 'p) mutate_task \<Rightarrow> ('g, 'v, 'p) mutate_task" where
  "add_tasks k ts t =
     (case k of
        DocKind \<Rightarrow> t\<lparr>mt_load := mt_load t @ ts\<rparr>
      | SubKind \<Rightarrow> t\<lparr>mt_sub := mt_sub t @ ts\<rparr>
      | ContKind \<Rightarrow> t\<lparr>mt_cont := mt_cont t @ ts\<rparr>)"

text \<open>One round of the loop of \<^verbatim>\<open>create_tasks_for_collections\<close>.\<close>

definition create_op_tasks ::
  "string \<Rightarrow> spec_args \<Rightarrow> place \<Rightarrow> string \<times> ('a kvgen_scheme, 'v, 'p) op_spec \<Rightarrow> ('a kvgen_scheme, 'v, 'p) mutate_task \<Rightarrow>
   unit res \<times> ('a kvgen_scheme, 'v, 'p) mutate_task" where
  "create_op_tasks now a pl op_os t =
     (case op_os of (op, os) \<Rightarrow>
        (case update_op pl op (\<lambda>os. os\<lparr>os_success := [], os_fail := []\<rparr>) (mt_spec t) of
           Inl e \<Rightarrow> (Inl e, t)
         | Inr spec \<Rightarrow>
             let t = t\<lparr>mt_spec := spec\<rparr> in
             (case partition_gens (sa_concurrency a) (sa_batch_size a) (os_gen os) of
                Inl e \<Rightarrow> (Inl e, t)
              | Inr gs \<Rightarrow>
                  (case kind_of op of
                     None \<Rightarrow> (Inr (), t)
                   | Some k \<Rightarrow>
                       if k = SubKind \<and> gs \<noteq> [] \<and> os_xattr os = None then (Inl KeyError, t)
                       else (Inr (), add_tasks k (op_tasks now a (tk_name t) pl k op os gs) t)))))"

fun create_tasks_for_collections ::
  "string \<Rightarrow> spec_args \<Rightarrow> place \<Rightarrow> (string \<times> ('a kvgen_scheme, 'v, 'p) op_spec) list \<Rightarrow> ('a kvgen_scheme, 'v, 'p) mutate_task \<Rightarrow>
   unit res \<times> ('a kvgen_scheme, 'v, 'p) mutate_task" where
  "create_tasks_for_collections now a pl [] t = (Inr (), t)"
| "create_tasks_for_collections now a pl (o1 # os) t =
     (case create_op_tasks now a pl o1 t of
        (Inl e, t') \<Rightarrow> (Inl e, t')
      | (Inr _, t') \<Rightarrow> create_tasks_for_collections now a pl os t')"

definition mutate_get_tasks ::
  "string \<Rightarrow> spec_args \<Rightarrow> ('a kvgen_scheme, 'v, 'p) mutate_task \<Rightarrow> ('a kvgen_scheme, 'v, 'p) mutate_task" where
  "mutate_get_tasks now a t =
     fold (\<lambda>(pl, ops) t. snd (create_tasks_for_collections now a pl ops t)) (mt_spec t) t"

section \<open>Waiting for the sub-tasks\<close>

definition place_of :: "task_config \<Rightarrow> place" where
  "place_of cfg = (cfg_bucket cfg, cfg_scope cfg, cfg_collection cfg)"

definition file_results ::
  "('g, 'v, 'p) load_task \<Rightarrow> ('g, 'v, 'p) op_spec \<Rightarrow> ('g, 'v, 'p) op_spec" where
  "file_results sub os =
     os\<lparr>os_success := dict_update_all (os_success os) (lt_success sub), os_fail := dict_update_all (os_fail os) (lt_fail sub)\<rparr>"

definition wait_one ::
  "bool \<Rightarrow> ('g, 'v, 'p) load_task \<times> task_config \<Rightarrow> ('g, 'v, 'p) mutate_task \<Rightarrow> unit res \<times> ('g, 'v, 'p) mutate_task" where
  "wait_one cont_load sub_cfg t =
     (case sub_cfg of (sub, cfg) \<Rightarrow>
        let op_type = (if cont_load then ''cont_'' @ cfg_op_type cfg else cfg_op_type cfg);
            t = (case get_task_result (tk_name sub) (mt_manager t) of None \<Rightarrow> t | Some (_, tm) \<Rightarrow> t\<lparr>mt_manager := tm\<rparr>) in
        case update_op (place_of cfg) op_type (file_results sub) (mt_spec t) of
          Inl e \<Rightarrow> (Inl e, t)
        | Inr spec \<Rightarrow> (Inr (), t\<lparr>mt_spec := spec, mt_result := (mt_result t \<and> lt_fail sub = [])\<rparr>))"

fun wait_each ::
  "bool \<Rightarrow> (('g, 'v, 'p) load_task \<times> task_config) list \<Rightarrow> ('g, 'v, 'p) mutate_task \<Rightarrow> unit res \<times> ('g, 'v, 'p) mutate_task" where
  "wait_each cont_load [] t = (Inr (), t)"
| "wait_each cont_load (s # ss) t =
     (case wait_one cont_load s t of
        (Inl e, t') \<Rightarrow> (Inl e, t')
      | (Inr _, t') \<Rightarrow> wait_each cont_load ss t')"

text \<open>\<^verbatim>\<open>__wait_for_task_completion\<close>: the \<^verbatim>\<open>finally\<close> stops the sub-tasks, all of which are done.\<close>

definition wait_for_task_completion ::
  "(py_error \<Rightarrow> string) \<Rightarrow> bool \<Rightarrow> (('g, 'v, 'p) load_task \<times> task_config) list \<Rightarrow> ('g, 'v, 'p) mutate_task \<Rightarrow>
   (raised + unit) \<times> ('g, 'v, 'p) mutate_task" where
  "wait_for_task_completion message cont_load subs t =
     (let (r, t) = wait_each cont_load subs t;
          (r', t) = (case r of Inl e \<Rightarrow> set_exception (message e) t | Inr _ \<Rightarrow> (Inr (), t)) in
      (r', t\<lparr>mt_manager := fold (\<lambda>(sub, _). stop_task (\<lambda>f. f) (tk_name sub)) subs (mt_manager t)\<rparr>))"

section \<open>The task\<close>

text \<open>Starting tasks runs them; what they are afterwards comes with their configurations.\<close>

definition start_tasks ::
  "(('g, 'v, 'p) load_task \<Rightarrow> task_config \<times> sub_config \<Rightarrow> 'w \<Rightarrow> ((raised + unit) \<times> ('g, 'v, 'p) load_task \<times> 'w) option) \<Rightarrow>
   ('g, 'v, 'p) spec_task list \<Rightarrow> ('g, 'v, 'p) mutate_task \<Rightarrow> 'w \<Rightarrow>
   ((('g, 'v, 'p) load_task \<times> task_config) list \<times> ('g, 'v, 'p) mutate_task \<times> 'w) option" where
  "start_tasks run tasks t w =
     (case run_tasks run tasks w of
        None \<Rightarrow> None
      | Some (rs, w') \<Rightarrow>
          Some (zip (map snd rs) (map (fst \<circ> snd) tasks), t\<lparr>mt_manager := submit rs (mt_manager t)\<rparr>, w'))"

definition print_ops_task :: "spec_args \<Rightarrow> string \<Rightarrow> ('g, 'v, 'p) mutate_task \<Rightarrow> unit res \<times> ('g, 'v, 'p) mutate_task" where
  "print_ops_task a operation t =
     (if sa_print_ops_rate a then
        (case manage_stats operation (mt_buckets t) (mt_stats t) of
           Inl e \<Rightarrow> (Inl e, t)
         | Inr stats \<Rightarrow> (Inr (), t\<lparr>mt_stats := stats\<rparr>))
      else (Inr (), t))"

definition mutate_call where
  "mutate_call message now a run_doc run_sub t w =
     (case print_ops_task a ''start'' (mutate_get_tasks now a (start_task t)) of
        (Inl e, t) \<Rightarrow> Some (Inl (RExc e), t, w)
      | (Inr _, t) \<Rightarrow>
      (case start_tasks run_doc (mt_cont t) t w of
         None \<Rightarrow> None
       | Some (conts, t, w) \<Rightarrow>
      (case start_tasks run_doc (mt_load t) t w of
         None \<Rightarrow> None
       | Some (loads, t, w) \<Rightarrow>
      (case wait_for_task_completion message False loads t of
         (Inl r, t) \<Rightarrow> Some (Inl r, t, w)
       | (Inr _, t) \<Rightarrow>
      (case start_tasks run_sub (mt_sub t) t w of
         None \<Rightarrow> None
       | Some (subs, t, w) \<Rightarrow>
      (case wait_for_task_completion message False subs t of
         (Inl r, t) \<Rightarrow> Some (Inl r, t, w)
       | (Inr _, t) \<Rightarrow>
      (case wait_for_task_completion message True conts t of
         (Inl r, t) \<Rightarrow> Some (Inl r, t, w)
       | (Inr _, t) \<Rightarrow>
      (case print_ops_task a ''stop'' t of
         (Inl e, t) \<Rightarrow> Some (Inl (RExc e), t, w)
       | (Inr _, t) \<Rightarrow> let t = complete_task t in Some (Inr (mt_result t), t, w)))))))))"

definition mutate_docs_from_spec where
  "mutate_docs_from_spec stopped message sdk sub_sdk dict_eq draw ops sub_ops now a t w =
     mutate_call message now a (\<lambda>sub (cfg, _). load_documents stopped message sdk dict_eq draw ops cfg sub)
       (\<lambda>sub (cfg, sb). load_sub_documents stopped message sub_sdk sub_ops cfg sb sub) t w"

text \<open>\<^verbatim>\<open>stop_indefinite_doc_loading_tasks\<close>\<close>

definition stop_indefinite_doc_loading_tasks :: "('g, 'v, 'p) mutate_task \<Rightarrow> ('g, 'v, 'p) mutate_task" where
  "stop_indefinite_doc_loading_tasks t =
     t\<lparr>mt_cont := map (\<lambda>(sub, cfg, sb). (if cfg_iterations cfg = -1 then end_task sub else sub, cfg, sb)) (mt_cont t)\<rparr>"

section \<open>Validating the documents of a specification\<close>

text \<open>Sub-document operations get no task. After the first range of a collection with a TTL the operation is \<^verbatim>\<open>delete\<close>, as its
  documents have expired.\<close>

definition val_spec_config :: "spec_args \<Rightarrow> place \<Rightarrow> string \<Rightarrow> ('g, 'v, 'p) op_spec \<Rightarrow> task_config" where
  "val_spec_config a pl op os =
     (spec_config a pl DocKind (if 0 < os_doc_ttl os then ''delete'' else op) os)
       \<lparr>cfg_args := crud_defaults\<lparr>ca_timeout := os_timeout os\<rparr>, cfg_iterations := 1\<rparr>"

definition val_op_tasks ::
  "string \<Rightarrow> spec_args \<Rightarrow> place \<Rightarrow> string \<times> ('a kvgen_scheme, 'v, 'p) op_spec \<Rightarrow>
   (('a kvgen_scheme, 'v, 'p) val_task \<times> task_config) list res" where
  "val_op_tasks now a pl op_os =
     (case op_os of (op, os) \<Rightarrow>
        rbind (partition_gens (sa_concurrency a) (sa_batch_size a) (os_gen os)) (\<lambda>gs.
        Inr (if op \<in> set DOC_OPS then
               (let cfg = val_spec_config a pl op os in
                map (\<lambda>g. (new_val_task (val_task_name cfg (kg_start g) (kg_end g) now) g, cfg)) gs)
             else [])))"

fun val_collection_tasks ::
  "string \<Rightarrow> spec_args \<Rightarrow> place \<Rightarrow> (string \<times> ('a kvgen_scheme, 'v, 'p) op_spec) list \<Rightarrow>
   (('a kvgen_scheme, 'v, 'p) val_task \<times> task_config) list" where
  "val_collection_tasks now a pl [] = []"
| "val_collection_tasks now a pl (o1 # os) =
     (case val_op_tasks now a pl o1 of Inl e \<Rightarrow> [] | Inr ts \<Rightarrow> ts @ val_collection_tasks now a pl os)"

text \<open>The same loop empties the results of the operations it comes to, those of the mutations before included.\<close>

fun val_cleared_ops :: "spec_args \<Rightarrow> (string \<times> ('a kvgen_scheme, 'v, 'p) op_spec) list \<Rightarrow> (string \<times> ('a kvgen_scheme, 'v, 'p) op_spec) list" where
  "val_cleared_ops a [] = []"
| "val_cleared_ops a ((op, os) # ops) =
     (op, os\<lparr>os_success := [], os_fail := []\<rparr>) #
       (case partition_gens (sa_concurrency a) (sa_batch_size a) (os_gen os) of Inl _ \<Rightarrow> ops | Inr _ \<Rightarrow> val_cleared_ops a ops)"

definition validate_spec_tasks where
  "validate_spec_tasks now a spec = concat (map (\<lambda>(pl, ops). val_collection_tasks now a pl ops) spec)"

record ('g, 'v, 'p) spec_val_task = task +
  vs_result :: bool
  vs_spec :: "('g, 'v, 'p) loader_spec"

text \<open>The first sub-task that raised fails the task: the wait for the others is given up.\<close>

definition validate_spec_call where
  "validate_spec_call raised_text run now a t w =
     (let tasks = validate_spec_tasks now a (vs_spec t);
          t = (start_task t)\<lparr>vs_spec := map (\<lambda>(pl, ops). (pl, val_cleared_ops a ops)) (vs_spec t)\<rparr> in
      case run_tasks run tasks w of
        None \<Rightarrow> None
      | Some (rs, w') \<Rightarrow>
          (case first_raised rs of
             Some r \<Rightarrow> (case set_exception (raised_text r) (t\<lparr>vs_result := False\<rparr>) of (res, t') \<Rightarrow> Some (res, t', w'))
           | None \<Rightarrow> let t = complete_task t in Some (Inr (vs_result t), t, w')))"

definition validate_docs_from_spec where
  "validate_docs_from_spec raised_text message sdk get_all vo ops vc now a t w =
     validate_spec_call raised_text (\<lambda>sub cfg. validate_documents message sdk get_all vo ops cfg vc sub) now a t w"

end
