(* ===== verification/Spec_Tasks_Props.thy ===== *)
theory Spec_Tasks_Props
  imports Spec_Tasks Load_Tasks_Props
begin

text \<open>
  Properties of the tasks that carry out a specification: every operation of every collection is split, run and its results are
  filed where they belong.
\<close>

section \<open>Looking up operations\<close>

definition spec_op :: "('g, 'v, 'p) loader_spec \<Rightarrow> place \<times> string \<Rightarrow> ('g, 'v, 'p) op_spec option" where
  "spec_op spec key = (case map_of spec (fst key) of None \<Rightarrow> None | Some ops \<Rightarrow> map_of ops (snd key))"

lemma update_op_ok:
  assumes "spec_op spec (pl, op) = Some os"
  shows "\<exists>spec'. update_op pl op f spec = Inr spec' \<and> spec_op spec' = (spec_op spec)((pl, op) \<mapsto> f os)"
  using assms by (auto simp: spec_op_def update_op_def dict_lookup_def fun_eq_iff split: option.splits)

definition cleared :: "('g, 'v, 'p) op_spec \<Rightarrow> ('g, 'v, 'p) op_spec" where
  "cleared os = os\<lparr>os_success := [], os_fail := []\<rparr>"

lemma cleared_cleared [simp]: "cleared (cleared os) = cleared os"
  by (simp add: cleared_def)

lemma map_cleared_cleared [simp]: "map_option cleared (map_option cleared z) = map_option cleared z"
  by (cases z) simp_all

text \<open>The ranges of an operation, and the sub-tasks of the operations of one kind.\<close>

definition parts :: "spec_args \<Rightarrow> ('a kvgen_scheme, 'v, 'p) op_spec \<Rightarrow> 'a kvgen_scheme list" where
  "parts a os = (case partition_gens (sa_concurrency a) (sa_batch_size a) (os_gen os) of Inl _ \<Rightarrow> [] | Inr gs \<Rightarrow> gs)"

definition blocks where
  "blocks now a nm k pl ops =
     map (\<lambda>(op, os). ((pl, op), op_tasks now a nm pl k op os (parts a os))) (filter (\<lambda>(op, os). kind_of op = Some k) ops)"

definition spec_blocks where
  "spec_blocks now a nm k spec = concat (map (\<lambda>(pl, ops). blocks now a nm k pl ops) spec)"

definition op_ok :: "string \<times> ('g, 'v, 'p) op_spec \<Rightarrow> bool" where
  "op_ok x \<longleftrightarrow> kind_of (fst x) \<noteq> None \<and> (kind_of (fst x) = Some SubKind \<longrightarrow> os_xattr (snd x) \<noteq> None)"

definition args_ok :: "spec_args \<Rightarrow> bool" where
  "args_ok a \<longleftrightarrow> sa_concurrency a \<noteq> 0 \<and> 0 < sa_batch_size a"

definition spec_ok :: "('g, 'v, 'p) loader_spec \<Rightarrow> bool" where
  "spec_ok spec \<longleftrightarrow> dict_wf spec \<and> (\<forall>(pl, ops) \<in> set spec. dict_wf ops \<and> (\<forall>x \<in> set ops. op_ok x))"

lemma parts_ok: "args_ok a \<Longrightarrow> partition_gens (sa_concurrency a) (sa_batch_size a) (os_gen os) = Inr (parts a os)"
proof -
  assume "args_ok a"
  then obtain r where "gen_range (kg_start (os_gen os)) (kg_end (os_gen os)) (sa_concurrency a) = Inr r" "0 < nat (sa_batch_size a)"
    by (auto simp: args_ok_def gen_range_def)
  then show ?thesis using partition_gens_eq [of "os_gen os" "sa_concurrency a" r "sa_batch_size a"]
    by (auto simp: parts_def)
qed

section \<open>Creating the sub-tasks\<close>

lemma concat_snd_blocks_Cons:
  "concat (map snd (blocks now a nm k pl ((op, os) # ops))) =
     (if kind_of op = Some k then op_tasks now a nm pl k op os (parts a os) else []) @ concat (map snd (blocks now a nm k pl ops))"
  by (simp add: blocks_def)

lemma create_op_tasks_ok:
  assumes "args_ok a" and "op_ok (op, os)" and "spec_op (mt_spec t) (pl, op) = Some os0"
  shows "\<exists>spec'. create_op_tasks now a pl (op, os) t = (Inr (),
      t\<lparr>mt_spec := spec',
        mt_load := mt_load t @ concat (map snd (blocks now a (tk_name t) DocKind pl [(op, os)])),
        mt_sub := mt_sub t @ concat (map snd (blocks now a (tk_name t) SubKind pl [(op, os)])),
        mt_cont := mt_cont t @ concat (map snd (blocks now a (tk_name t) ContKind pl [(op, os)]))\<rparr>) \<and>
    spec_op spec' = (spec_op (mt_spec t))((pl, op) \<mapsto> cleared os0)"
proof -
  obtain spec' where u: "update_op pl op (\<lambda>os. os\<lparr>os_success := [], os_fail := []\<rparr>) (mt_spec t) = Inr spec'"
    "spec_op spec' = (spec_op (mt_spec t))((pl, op) \<mapsto> cleared os0)"
    using update_op_ok [OF assms(3), where f = cleared] by (auto simp: cleared_def [abs_def])
  obtain k where k: "kind_of op = Some k" using assms(2) by (auto simp: op_ok_def)
  have x: "\<not> (k = SubKind \<and> os_xattr os = None)" using assms(2) k by (auto simp: op_ok_def)
  have "create_op_tasks now a pl (op, os) t =
     (Inr (), add_tasks k (op_tasks now a (tk_name t) pl k op os (parts a os)) (t\<lparr>mt_spec := spec'\<rparr>))"
    using x by (auto simp: create_op_tasks_def u(1) Let_def parts_ok [OF assms(1)] k)
  with u(2) show ?thesis by (cases k) (auto simp: add_tasks_def blocks_def k)
qed

lemma create_tasks_ok:
  assumes "args_ok a" and "\<forall>x \<in> set ops. op_ok x \<and> spec_op (mt_spec t) (pl, fst x) \<noteq> None"
  shows "\<exists>spec'. create_tasks_for_collections now a pl ops t = (Inr (),
      t\<lparr>mt_spec := spec',
        mt_load := mt_load t @ concat (map snd (blocks now a (tk_name t) DocKind pl ops)),
        mt_sub := mt_sub t @ concat (map snd (blocks now a (tk_name t) SubKind pl ops)),
        mt_cont := mt_cont t @ concat (map snd (blocks now a (tk_name t) ContKind pl ops))\<rparr>) \<and>
    (\<forall>key. spec_op spec' key = (if fst key = pl \<and> snd key \<in> fst ` set ops then map_option cleared (spec_op (mt_spec t) key) else spec_op (mt_spec t) key))"
  using assms(2)
proof (induction ops arbitrary: t)
  case Nil
  show ?case by (rule exI [of _ "mt_spec t"]) (simp add: blocks_def)
next
  case (Cons x ops)
  obtain op os where x: "x = (op, os)" by (cases x)
  obtain os0 where os0: "spec_op (mt_spec t) (pl, op) = Some os0" using Cons.prems by (auto simp: x)
  obtain spec1 where one: "create_op_tasks now a pl x t = (Inr (),
      t\<lparr>mt_spec := spec1,
        mt_load := mt_load t @ concat (map snd (blocks now a (tk_name t) DocKind pl [x])),
        mt_sub := mt_sub t @ concat (map snd (blocks now a (tk_name t) SubKind pl [x])),
        mt_cont := mt_cont t @ concat (map snd (blocks now a (tk_name t) ContKind pl [x]))\<rparr>)" (is "_ = (_, ?t)")
    "spec_op spec1 = (spec_op (mt_spec t))((pl, op) \<mapsto> cleared os0)"
    using create_op_tasks_ok [OF assms(1) _ os0, of os now] Cons.prems x by auto
  have present: "\<forall>y \<in> set ops. op_ok y \<and> spec_op (mt_spec ?t) (pl, fst y) \<noteq> None" using Cons.prems one(2) by auto
  from Cons.IH [OF this] obtain spec' where rest: "create_tasks_for_collections now a pl ops ?t = (Inr (),
      ?t\<lparr>mt_spec := spec',
        mt_load := mt_load ?t @ concat (map snd (blocks now a (tk_name t) DocKind pl ops)),
        mt_sub := mt_sub ?t @ concat (map snd (blocks now a (tk_name t) SubKind pl ops)),
        mt_cont := mt_cont ?t @ concat (map snd (blocks now a (tk_name t) ContKind pl ops))\<rparr>)"
    "\<forall>key. spec_op spec' key = (if fst key = pl \<and> snd key \<in> fst ` set ops then map_option cleared (spec_op (mt_spec ?t) key) else spec_op (mt_spec ?t) key)"
    by auto
  have look: "spec_op spec' key = (if fst key = pl \<and> snd key \<in> fst ` set (x # ops) then map_option cleared (spec_op (mt_spec t) key) else spec_op (mt_spec t) key)" for key
  proof -
    have "spec_op spec' key = (if fst key = pl \<and> snd key \<in> fst ` set ops then map_option cleared (spec_op spec1 key) else spec_op spec1 key)"
      using rest(2) [THEN spec, of key] by simp
    then show ?thesis using os0 by (cases "key = (pl, op)") (auto simp: x one(2) cleared_cleared)
  qed
  show ?case using look by (intro exI [of _ spec']) (simp add: one(1) rest(1), simp add: x blocks_def)
qed

lemma mutate_get_tasks_fold:
  assumes "args_ok a" and "\<forall>(pl, ops) \<in> set places. \<forall>x \<in> set ops. op_ok x \<and> spec_op (mt_spec t) (pl, fst x) \<noteq> None"
  shows "\<exists>spec'. fold (\<lambda>(pl, ops) t. snd (create_tasks_for_collections now a pl ops t)) places t =
      t\<lparr>mt_spec := spec',
        mt_load := mt_load t @ concat (map snd (spec_blocks now a (tk_name t) DocKind places)),
        mt_sub := mt_sub t @ concat (map snd (spec_blocks now a (tk_name t) SubKind places)),
        mt_cont := mt_cont t @ concat (map snd (spec_blocks now a (tk_name t) ContKind places))\<rparr> \<and>
    (\<forall>key. spec_op spec' key = (if \<exists>ops. (fst key, ops) \<in> set places \<and> snd key \<in> fst ` set ops
       then map_option cleared (spec_op (mt_spec t) key) else spec_op (mt_spec t) key))"
  using assms(2)
proof (induction places arbitrary: t)
  case Nil
  show ?case by (rule exI [of _ "mt_spec t"]) (simp add: spec_blocks_def)
next
  case (Cons p places)
  obtain pl ops where p: "p = (pl, ops)" by (cases p)
  let ?t = "snd (create_tasks_for_collections now a pl ops t)"
  obtain spec1 where one: "?t = t\<lparr>mt_spec := spec1,
        mt_load := mt_load t @ concat (map snd (blocks now a (tk_name t) DocKind pl ops)),
        mt_sub := mt_sub t @ concat (map snd (blocks now a (tk_name t) SubKind pl ops)),
        mt_cont := mt_cont t @ concat (map snd (blocks now a (tk_name t) ContKind pl ops))\<rparr>"
    "\<forall>key. spec_op spec1 key = (if fst key = pl \<and> snd key \<in> fst ` set ops then map_option cleared (spec_op (mt_spec t) key) else spec_op (mt_spec t) key)"
    using create_tasks_ok [OF assms(1), of ops t pl now] Cons.prems by (auto simp: p)
  have spec1: "mt_spec ?t = spec1" unfolding one(1) by simp
  have "\<forall>(pl, ops) \<in> set places. \<forall>x \<in> set ops. op_ok x \<and> spec_op (mt_spec ?t) (pl, fst x) \<noteq> None"
    using Cons.prems by (auto simp: one)
  from Cons.IH [OF this] obtain spec' where rest: "fold (\<lambda>(pl, ops) t. snd (create_tasks_for_collections now a pl ops t)) places ?t =
      ?t\<lparr>mt_spec := spec',
        mt_load := mt_load ?t @ concat (map snd (spec_blocks now a (tk_name ?t) DocKind places)),
        mt_sub := mt_sub ?t @ concat (map snd (spec_blocks now a (tk_name ?t) SubKind places)),
        mt_cont := mt_cont ?t @ concat (map snd (spec_blocks now a (tk_name ?t) ContKind places))\<rparr>"
    "\<forall>key. spec_op spec' key = (if \<exists>ops. (fst key, ops) \<in> set places \<and> snd key \<in> fst ` set ops
       then map_option cleared (spec_op (mt_spec ?t) key) else spec_op (mt_spec ?t) key)" by blast
  have look: "spec_op spec' key = (if \<exists>ops. (fst key, ops) \<in> set (p # places) \<and> snd key \<in> fst ` set ops
       then map_option cleared (spec_op (mt_spec t) key) else spec_op (mt_spec t) key)" for key
  proof -
    have "spec_op spec' key = (if \<exists>ops. (fst key, ops) \<in> set places \<and> snd key \<in> fst ` set ops
       then map_option cleared (spec_op spec1 key) else spec_op spec1 key)" using rest(2) [THEN spec, of key] unfolding spec1 .
    then show ?thesis using one(2) [THEN spec, of key] by (auto simp: p)
  qed
  show ?case using look by (intro exI [of _ spec']) (simp add: p rest(1), simp add: one(1) spec_blocks_def)
qed

section \<open>Filing results\<close>

text \<open>Where a sub-task's results are filed, and the sub-tasks filed at a key.\<close>

definition target_key :: "bool \<Rightarrow> task_config \<Rightarrow> place \<times> string" where
  "target_key cont_load cfg = (place_of cfg, if cont_load then ''cont_'' @ cfg_op_type cfg else cfg_op_type cfg)"

definition subs_for :: "bool \<Rightarrow> place \<times> string \<Rightarrow> ('l \<times> task_config) list \<Rightarrow> 'l list" where
  "subs_for cont_load key ss = map fst (filter (\<lambda>(sub, cfg). target_key cont_load cfg = key) ss)"

lemma update_not_Nil: "AList.update k v d \<noteq> []"
  by (cases d) auto

lemma dict_update_all_Nil: "dict_update_all d e = [] \<longleftrightarrow> d = [] \<and> e = []"
proof (induction e arbitrary: d)
  case (Cons kv e)
  have "dict_update_all d (kv # e) = dict_update_all (AList.update (fst kv) (snd kv) d) e"
    by (simp add: dict_update_all_def case_prod_beta)
  with Cons show ?case by (simp add: update_not_Nil)
qed (simp add: dict_update_all_def)

lemma fold_file_results_fail:
  "os_fail (fold file_results subs os) = [] \<longleftrightarrow> os_fail os = [] \<and> (\<forall>sub \<in> set subs. lt_fail sub = [])"
  by (induction subs arbitrary: os) (simp_all add: file_results_def dict_update_all_Nil conj_assoc)

lemma wait_one_ok:
  assumes "spec_op (mt_spec t) (target_key cont_load cfg) = Some os"
  shows "\<exists>spec' tm. wait_one cont_load (sub, cfg) t =
      (Inr (), t\<lparr>mt_spec := spec', mt_result := (mt_result t \<and> lt_fail sub = []), mt_manager := tm\<rparr>) \<and>
    spec_op spec' = (spec_op (mt_spec t))(target_key cont_load cfg \<mapsto> file_results sub os)"
proof -
  let ?op = "if cont_load then ''cont_'' @ cfg_op_type cfg else cfg_op_type cfg"
  obtain spec' where u: "update_op (place_of cfg) ?op (file_results sub) (mt_spec t) = Inr spec'"
    "spec_op spec' = (spec_op (mt_spec t))((place_of cfg, ?op) \<mapsto> file_results sub os)"
    using update_op_ok assms unfolding target_key_def by blast
  let ?tm = "case get_task_result (tk_name sub) (mt_manager t) of None \<Rightarrow> mt_manager t | Some (_, tm) \<Rightarrow> tm"
  have t: "(case get_task_result (tk_name sub) (mt_manager t) of None \<Rightarrow> t | Some (_, tm) \<Rightarrow> t\<lparr>mt_manager := tm\<rparr>) = t\<lparr>mt_manager := ?tm\<rparr>"
    by (cases "get_task_result (tk_name sub) (mt_manager t)") (auto split: prod.splits)
  have "wait_one cont_load (sub, cfg) t = (Inr (), t\<lparr>mt_spec := spec', mt_result := (mt_result t \<and> lt_fail sub = []), mt_manager := ?tm\<rparr>)"
    unfolding wait_one_def Let_def prod.case t using u(1) by (simp del: if_split)
  with u(2) show ?thesis unfolding target_key_def by blast
qed

lemma wait_each_ok:
  assumes "\<forall>(sub, cfg) \<in> set ss. spec_op (mt_spec t) (target_key cont_load cfg) \<noteq> None"
  shows "\<exists>spec' tm. wait_each cont_load ss t =
      (Inr (), t\<lparr>mt_spec := spec', mt_result := (mt_result t \<and> (\<forall>(sub, _) \<in> set ss. lt_fail sub = [])), mt_manager := tm\<rparr>) \<and>
    (\<forall>key. spec_op spec' key = map_option (fold file_results (subs_for cont_load key ss)) (spec_op (mt_spec t) key))"
  using assms
proof (induction ss arbitrary: t)
  case Nil
  show ?case by (rule exI [of _ "mt_spec t"], rule exI [of _ "mt_manager t"]) (simp add: subs_for_def option.map_id0 [unfolded id_def])
next
  case (Cons s ss)
  obtain sub cfg where s: "s = (sub, cfg)" by (cases s)
  obtain os where os: "spec_op (mt_spec t) (target_key cont_load cfg) = Some os" using Cons.prems by (auto simp: s)
  obtain spec1 tm1 where one: "wait_one cont_load s t =
      (Inr (), t\<lparr>mt_spec := spec1, mt_result := (mt_result t \<and> lt_fail sub = []), mt_manager := tm1\<rparr>)" (is "_ = (_, ?t)")
    "spec_op spec1 = (spec_op (mt_spec t))(target_key cont_load cfg \<mapsto> file_results sub os)"
    using wait_one_ok [OF os] s by blast
  have "\<forall>(sub, cfg) \<in> set ss. spec_op (mt_spec ?t) (target_key cont_load cfg) \<noteq> None"
    using Cons.prems by (auto simp: one(2))
  from Cons.IH [OF this] obtain spec' tm where rest: "wait_each cont_load ss ?t =
      (Inr (), ?t\<lparr>mt_spec := spec', mt_result := (mt_result ?t \<and> (\<forall>(sub, _) \<in> set ss. lt_fail sub = [])), mt_manager := tm\<rparr>)"
    "\<forall>key. spec_op spec' key = map_option (fold file_results (subs_for cont_load key ss)) (spec_op (mt_spec ?t) key)" by blast
  have "spec_op spec' key = map_option (fold file_results (subs_for cont_load key (s # ss))) (spec_op (mt_spec t) key)" for key
    using rest(2) [THEN spec, of key] os by (auto simp: one(2) s subs_for_def)
  then show ?case by (intro exI [of _ spec'] exI [of _ tm]) (simp add: one(1) rest(1), simp add: s conj_assoc)
qed

lemma wait_for_task_completion_ok:
  assumes "\<forall>(sub, cfg) \<in> set ss. spec_op (mt_spec t) (target_key cont_load cfg) \<noteq> None"
  shows "\<exists>spec' tm. wait_for_task_completion message cont_load ss t =
      (Inr (), t\<lparr>mt_spec := spec', mt_result := (mt_result t \<and> (\<forall>(sub, _) \<in> set ss. lt_fail sub = [])), mt_manager := tm\<rparr>) \<and>
    (\<forall>key. spec_op spec' key = map_option (fold file_results (subs_for cont_load key ss)) (spec_op (mt_spec t) key))"
proof -
  obtain spec' tm where w: "wait_each cont_load ss t =
      (Inr (), t\<lparr>mt_spec := spec', mt_result := (mt_result t \<and> (\<forall>(sub, _) \<in> set ss. lt_fail sub = [])), mt_manager := tm\<rparr>)"
    "\<forall>key. spec_op spec' key = map_option (fold file_results (subs_for cont_load key ss)) (spec_op (mt_spec t) key)"
    using wait_each_ok [OF assms] by blast
  then show ?thesis
    by (intro exI [of _ spec'] exI [of _ "fold (\<lambda>(sub, _). stop_task (\<lambda>f. f) (tk_name sub)) ss tm"])
       (simp add: wait_for_task_completion_def w(1))
qed

section \<open>Running sub-tasks\<close>

definition ran_by :: "('t \<Rightarrow> 'k \<Rightarrow> 'w \<Rightarrow> ((raised + unit) \<times> 't \<times> 'w) option) \<Rightarrow> 't \<times> 'k \<Rightarrow> 't \<Rightarrow> bool" where
  "ran_by run x sub' \<longleftrightarrow> (\<exists>w r w'. run (fst x) (snd x) w = Some (r, sub', w'))"

lemma run_tasks_all:
  assumes "\<And>sub k w. run sub k w \<noteq> None"
  shows "\<exists>rs w'. run_tasks run ts w = Some (rs, w') \<and>
    list_all2 (ran_by run) ts (map snd rs)"
proof (induction ts arbitrary: w)
  case (Cons x ts)
  obtain sub k where x: "x = (sub, k)" by (cases x)
  obtain r sub' w1 where one: "run sub k w = Some (r, sub', w1)" using assms [of sub k w] by auto
  from Cons [of w1] obtain rs w' where "run_tasks run ts w1 = Some (rs, w')"
    "list_all2 (ran_by run) ts (map snd rs)" by blast
  moreover have "ran_by run x sub'" using one by (auto simp: ran_by_def x)
  ultimately show ?case using one by (simp add: x)
qed simp

lemma start_tasks_ok:
  assumes "\<And>sub k w. run sub k w \<noteq> None"
  shows "\<exists>outs tm w'. start_tasks run ts t w = Some (zip outs (map (fst \<circ> snd) ts), t\<lparr>mt_manager := tm\<rparr>, w') \<and>
    list_all2 (ran_by run) ts outs"
proof -
  obtain rs w' where "run_tasks run ts w = Some (rs, w')"
    "list_all2 (ran_by run) ts (map snd rs)"
    using run_tasks_all [where run = run and ts = ts and w = w] assms by blast
  then show ?thesis by (auto simp: start_tasks_def)
qed

text \<open>The sub-tasks of one operation among those of all.\<close>

lemma filter_blocks:
  assumes "distinct (map fst bs)" and "\<forall>(key, ts) \<in> set bs. \<forall>x \<in> set ts. f x = key"
  shows "filter (\<lambda>x. f x = key) (concat (map snd bs)) = (case map_of bs key of None \<Rightarrow> [] | Some ts \<Rightarrow> ts)"
  using assms
proof (induction bs)
  case (Cons b bs)
  obtain k ts where b: "b = (k, ts)" by (cases b)
  have "filter (\<lambda>x. f x = key) ts = (if k = key then ts else [])" using Cons.prems(2) by (auto simp: b filter_empty_conv intro: filter_True)
  moreover have "map_of bs key = None" if "k = key" using Cons.prems(1) that by (auto simp: b map_of_eq_None_iff image_iff)
  ultimately show ?case using Cons by (auto simp: b)
qed simp

lemma list_all2_selected:
  "list_all2 R xs ys \<Longrightarrow> list_all2 R (filter (\<lambda>x. P (g x)) xs) (map fst (filter (\<lambda>(y, z). P z) (zip ys (map g xs))))"
  by (induction rule: list_all2_induct) auto

lemma subs_of_block:
  assumes "list_all2 R (concat (map snd bs)) outs" and "distinct (map fst bs)"
    and "\<forall>(key, ts) \<in> set bs. \<forall>x \<in> set ts. target_key cont_load ((fst \<circ> snd) x) = key"
  shows "list_all2 R (case map_of bs key of None \<Rightarrow> [] | Some ts \<Rightarrow> ts) (subs_for cont_load key (zip outs (map (fst \<circ> snd) (concat (map snd bs)))))"
  using list_all2_selected [OF assms(1), where P = "\<lambda>cfg. target_key cont_load cfg = key" and g = "fst \<circ> snd"]
  unfolding subs_for_def filter_blocks [where f = "\<lambda>x. target_key cont_load ((fst \<circ> snd) x)", OF assms(2,3)] .

lemma spec_blocks_in:
  "(key, ts) \<in> set (spec_blocks now a nm k spec) \<longleftrightarrow>
     (\<exists>pl ops op os. (pl, ops) \<in> set spec \<and> (op, os) \<in> set ops \<and> kind_of op = Some k \<and> key = (pl, op) \<and>
        ts = op_tasks now a nm pl k op os (parts a os))"
  by (fastforce simp: spec_blocks_def blocks_def)

lemma spec_blocks_distinct: "spec_ok spec \<Longrightarrow> distinct (map fst (spec_blocks now a nm k spec))"
proof (induction spec)
  case (Cons p spec)
  obtain pl ops where p: "p = (pl, ops)" by (cases p)
  have ok: "spec_ok spec" "distinct (map fst ops)" "pl \<notin> fst ` set spec" using Cons.prems by (auto simp: p spec_ok_def dict_wf_def)
  have "map fst (blocks now a nm k pl ops) = map (Pair pl) (map fst (filter (\<lambda>(op, os). kind_of op = Some k) ops))"
    by (simp add: blocks_def case_prod_beta comp_def)
  moreover have "distinct (map fst (filter (\<lambda>(op, os). kind_of op = Some k) ops))" by (rule distinct_map_filter [OF ok(2)])
  ultimately have d: "distinct (map fst (blocks now a nm k pl ops))"
    by (metis (no_types, lifting) distinct_map inj_on_def prod.inject)
  have d2: "fst ` fst ` set (blocks now a nm k pl ops) \<subseteq> {pl}" by (auto simp: blocks_def)
  have disj: "fst ` set (blocks now a nm k pl ops) \<inter> fst ` set (spec_blocks now a nm k spec) = {}"
  proof (rule equals0I)
    fix key assume "key \<in> fst ` set (blocks now a nm k pl ops) \<inter> fst ` set (spec_blocks now a nm k spec)"
    then obtain ts where "(key, ts) \<in> set (spec_blocks now a nm k spec)" "fst key \<in> fst ` fst ` set (blocks now a nm k pl ops)" by force
    with d2 have "fst key = pl" "(key, ts) \<in> set (spec_blocks now a nm k spec)" by blast+
    then have "pl \<in> fst ` set spec" unfolding spec_blocks_in by (metis fst_conv imageI)
    with ok(3) show False ..
  qed
  with d Cons.IH [OF ok(1)] disj show ?case by (simp add: p spec_blocks_def)
qed (simp add: spec_blocks_def)

lemma spec_op_Some: "spec_ok spec \<Longrightarrow> spec_op spec (pl, op) = Some os \<longleftrightarrow> (\<exists>ops. (pl, ops) \<in> set spec \<and> (op, os) \<in> set ops)"
proof -
  assume ok: "spec_ok spec"
  then have spec: "map_of spec pl = Some ops \<longleftrightarrow> (pl, ops) \<in> set spec" for ops by (simp add: spec_ok_def dict_wf_map_of)
  moreover have "map_of ops op = Some os \<longleftrightarrow> (op, os) \<in> set ops" if "(pl, ops) \<in> set spec" for ops
    using ok that unfolding spec_ok_def by (metis (no_types, lifting) case_prodD dict_wf_map_of)
  moreover have "spec_op spec (pl, op) = Some os \<longleftrightarrow> (\<exists>ops. map_of spec pl = Some ops \<and> map_of ops op = Some os)"
    by (simp add: spec_op_def split: option.splits)
  ultimately show ?thesis by blast
qed

lemma map_of_spec_blocks:
  assumes "spec_ok spec" and "spec_op spec (pl, op) = Some os"
  shows "map_of (spec_blocks now a nm k spec) (pl, op) =
    (if kind_of op = Some k then Some (op_tasks now a nm pl k op os (parts a os)) else None)"
proof -
  have "((pl, op), ts) \<in> set (spec_blocks now a nm k spec) \<longleftrightarrow> kind_of op = Some k \<and> ts = op_tasks now a nm pl k op os (parts a os)" for ts
    using assms(2) spec_op_Some [OF assms(1)] unfolding spec_blocks_in by (metis option.inject prod.inject)
  then show ?thesis
    using spec_blocks_distinct [OF assms(1), of now a nm k] by (auto simp: map_of_eq_None_iff image_iff)
qed

lemma op_tasks_target:
  assumes "kind_of op = Some k" and "x \<in> set (op_tasks now a nm pl k op os gs)"
  shows "target_key (k = ContKind) ((fst \<circ> snd) x) = (pl, op)"
proof -
  have "fst (snd x) = spec_config a pl k op os" using assms(2) by (auto simp: op_tasks_def Let_def)
  moreover have "''cont_'' @ drop 5 op = op" if "k = ContKind" using assms(1) that by (auto simp: kind_of_def split: if_splits)
  ultimately show ?thesis by (cases pl) (auto simp: target_key_def place_of_def spec_config_def task_op_def)
qed

text \<open>Waiting for the sub-tasks of one kind files each operation's results.\<close>

lemma kind_outcomes:
  assumes "spec_ok spec" and "list_all2 R (concat (map snd (spec_blocks now a nm k spec))) outs"
    and "ss = zip outs (map (fst \<circ> snd) (concat (map snd (spec_blocks now a nm k spec))))"
  shows "(sub, cfg) \<in> set ss \<Longrightarrow> spec_op spec (target_key (k = ContKind) cfg) \<noteq> None"
    and "spec_op spec (pl, op) = Some os \<Longrightarrow>
      list_all2 R (if kind_of op = Some k then op_tasks now a nm pl k op os (parts a os) else []) (subs_for (k = ContKind) (pl, op) ss)"
proof -
  let ?bs = "spec_blocks now a nm k spec"
  have tk: "\<forall>(key, ts) \<in> set ?bs. \<forall>x \<in> set ts. target_key (k = ContKind) ((fst \<circ> snd) x) = key"
  proof clarify
    fix pl op ts x
    assume "((pl, op), ts) \<in> set ?bs" "x \<in> set ts"
    then show "target_key (k = ContKind) ((fst \<circ> snd) x) = (pl, op)" using op_tasks_target unfolding spec_blocks_in by blast
  qed
  show "list_all2 R (if kind_of op = Some k then op_tasks now a nm pl k op os (parts a os) else []) (subs_for (k = ContKind) (pl, op) ss)"
    if "spec_op spec (pl, op) = Some os"
    using subs_of_block [OF assms(2) spec_blocks_distinct [OF assms(1)] tk, of "(pl, op)"] map_of_spec_blocks [OF assms(1) that, of now a nm k]
    by (cases "kind_of op = Some k") (simp_all add: assms(3))
  show "spec_op spec (target_key (k = ContKind) cfg) \<noteq> None" if "(sub, cfg) \<in> set ss"
  proof -
    from that have "cfg \<in> set (map (fst \<circ> snd) (concat (map snd ?bs)))" unfolding assms(3) by (rule set_zip_rightD)
    then obtain x where x: "x \<in> set (concat (map snd ?bs))" "cfg = (fst \<circ> snd) x" unfolding set_map by blast
    then obtain key ts where b: "(key, ts) \<in> set ?bs" "x \<in> set ts" by auto
    then have "target_key (k = ContKind) cfg = key" using tk x(2) by blast
    with b(1) obtain pl op ops os where "(pl, ops) \<in> set spec" "(op, os) \<in> set ops" "target_key (k = ContKind) cfg = (pl, op)"
      unfolding spec_blocks_in by blast
    with spec_op_Some [OF assms(1)] show ?thesis by (metis option.distinct(1))
  qed
qed

lemma manage_stats_other: "manage_stats operation bs d = Inr d' \<Longrightarrow> b \<notin> set bs \<Longrightarrow> map_of d' b = map_of d b"
  by (induction bs arbitrary: d) (auto simp: manage_stats_def rbind_eq_Inr)

lemma manage_stats_all:
  assumes "operation = ''start'' \<or> operation = ''stop''" and "distinct bs"
    and "\<forall>b \<in> set bs. \<exists>st. map_of d b = Some st \<and> stats_inv st \<and> (operation = ''stop'' \<longrightarrow> 0 < bs_task_count st)"
  shows "\<exists>d'. manage_stats operation bs d = Inr d' \<and>
    (\<forall>b \<in> set bs. \<exists>st. map_of d' b = Some st \<and> stats_inv st \<and> (operation = ''start'' \<longrightarrow> 0 < bs_task_count st))"
  using assms(2,3)
proof (induction bs arbitrary: d)
  case (Cons b bs)
  obtain st where st: "map_of d b = Some st" "stats_inv st" "operation = ''stop'' \<longrightarrow> 0 < bs_task_count st" using Cons.prems(2) by auto
  have "operation = ''start'' \<or> operation = ''stop'' \<and> 0 < bs_task_count st" using assms(1) st(3) by blast
  from manage_task_step [OF st(2) this] obtain st' where st': "manage_task operation st = Inr st'" "stats_inv st'"
    "operation = ''start'' \<longrightarrow> bs_task_count st' = bs_task_count st + 1" by auto
  let ?d = "AList.update b st' d"
  have "\<forall>b \<in> set bs. \<exists>st. map_of ?d b = Some st \<and> stats_inv st \<and> (operation = ''stop'' \<longrightarrow> 0 < bs_task_count st)"
    using Cons.prems by auto
  from Cons.IH [OF _ this] Cons.prems(1) obtain d' where d': "manage_stats operation bs ?d = Inr d'"
    "\<forall>b \<in> set bs. \<exists>st. map_of d' b = Some st \<and> stats_inv st \<and> (operation = ''start'' \<longrightarrow> 0 < bs_task_count st)" by auto
  have "manage_stats operation (b # bs) d = manage_stats operation bs ?d" by (simp add: manage_stats_def dict_lookup_def st(1) st'(1))
  moreover have "map_of d' b = Some st'" using manage_stats_other [OF d'(1), of b] Cons.prems(1) by simp
  moreover have "operation = ''start'' \<longrightarrow> 0 < bs_task_count st'" using st'(3) st(2) by (auto simp: stats_inv_def)
  ultimately show ?case using d' st'(2) by auto
qed (simp add: manage_stats_def)

section \<open>The whole task\<close>

text \<open>The sub-tasks of one operation, each run once on its part of the range.\<close>

definition ran where
  "ran now a nm run_doc run_sub pl op os subs \<longleftrightarrow>
     (\<exists>k. kind_of op = Some k \<and>
        list_all2 (ran_by (if k = SubKind then run_sub else run_doc)) (op_tasks now a nm pl k op os (parts a os)) subs)"

lemma mutate_get_tasks_ok:
  assumes "args_ok a" and "spec_ok spec"
  shows "\<exists>spec'. mutate_get_tasks now a (start_task (new_mutate_task began bs spec stats tm)) =
      (start_task (new_mutate_task began bs spec stats tm))\<lparr>mt_spec := spec',
        mt_load := concat (map snd (spec_blocks now a (''MutateDocsFromSpecTask_'' @ began) DocKind spec)),
        mt_sub := concat (map snd (spec_blocks now a (''MutateDocsFromSpecTask_'' @ began) SubKind spec)),
        mt_cont := concat (map snd (spec_blocks now a (''MutateDocsFromSpecTask_'' @ began) ContKind spec))\<rparr> \<and>
    (\<forall>key. spec_op spec' key = map_option cleared (spec_op spec key))"
proof -
  let ?t = "start_task (new_mutate_task began bs spec stats tm)"
  have t: "mt_spec ?t = spec" "mt_load ?t = []" "mt_sub ?t = []" "mt_cont ?t = []" "tk_name ?t = ''MutateDocsFromSpecTask_'' @ began"
    by (simp_all add: start_task_def new_mutate_task_def)
  have present: "op_ok x \<and> spec_op (mt_spec ?t) (pl, fst x) \<noteq> None" if "(pl, ops) \<in> set spec" "x \<in> set ops" for pl ops x
    using that assms(2) spec_op_Some [OF assms(2), of pl "fst x" "snd x"] by (auto simp: t(1) spec_ok_def)
  obtain spec' where f: "fold (\<lambda>(pl, ops) t. snd (create_tasks_for_collections now a pl ops t)) spec ?t =
      ?t\<lparr>mt_spec := spec',
        mt_load := mt_load ?t @ concat (map snd (spec_blocks now a (tk_name ?t) DocKind spec)),
        mt_sub := mt_sub ?t @ concat (map snd (spec_blocks now a (tk_name ?t) SubKind spec)),
        mt_cont := mt_cont ?t @ concat (map snd (spec_blocks now a (tk_name ?t) ContKind spec))\<rparr>"
    "\<forall>key. spec_op spec' key = (if \<exists>ops. (fst key, ops) \<in> set spec \<and> snd key \<in> fst ` set ops
       then map_option cleared (spec_op (mt_spec ?t) key) else spec_op (mt_spec ?t) key)"
    using mutate_get_tasks_fold [OF assms(1), where places = spec and t = ?t and now = now] present by blast
  have "spec_op spec' key = map_option cleared (spec_op spec key)" for key
  proof (cases "spec_op spec key")
    case None
    then show ?thesis using f(2) [THEN spec, of key] by (simp add: t(1))
  next
    case (Some os)
    then have "\<exists>ops. (fst key, ops) \<in> set spec \<and> snd key \<in> fst ` set ops"
      using spec_op_Some [OF assms(2), of "fst key" "snd key" os] by (metis fst_conv imageI prod.collapse)
    then show ?thesis using f(2) [THEN spec, of key] by (simp add: t(1))
  qed
  with f(1) show ?thesis unfolding mutate_get_tasks_def t by auto
qed

definition stats_ready :: "string \<Rightarrow> spec_args \<Rightarrow> string list \<Rightarrow> (string, bucket_stats) dict \<Rightarrow> bool" where
  "stats_ready operation a bs d \<longleftrightarrow> (sa_print_ops_rate a \<longrightarrow> distinct bs \<and>
     (\<forall>b \<in> set bs. \<exists>st. map_of d b = Some st \<and> stats_inv st \<and> (operation = ''stop'' \<longrightarrow> 0 < bs_task_count st)))"

lemma print_ops_start:
  assumes "stats_ready ''start'' a (mt_buckets t) (mt_stats t)"
  shows "\<exists>d. print_ops_task a ''start'' t = (Inr (), t\<lparr>mt_stats := d\<rparr>) \<and> stats_ready ''stop'' a (mt_buckets t) d"
proof (cases "sa_print_ops_rate a")
  case True
  then obtain d where "manage_stats ''start'' (mt_buckets t) (mt_stats t) = Inr d"
    "\<forall>b \<in> set (mt_buckets t). \<exists>st. map_of d b = Some st \<and> stats_inv st \<and> 0 < bs_task_count st" "distinct (mt_buckets t)"
    using manage_stats_all [of "''start''" "mt_buckets t" "mt_stats t"] assms by (auto simp: stats_ready_def)
  with True show ?thesis by (auto simp: print_ops_task_def stats_ready_def)
qed (auto simp: print_ops_task_def stats_ready_def intro: exI [of _ "mt_stats t"])

lemma print_ops_stop:
  assumes "stats_ready ''stop'' a (mt_buckets t) (mt_stats t)"
  shows "\<exists>d. print_ops_task a ''stop'' t = (Inr (), t\<lparr>mt_stats := d\<rparr>)"
proof (cases "sa_print_ops_rate a")
  case True
  then obtain d where "manage_stats ''stop'' (mt_buckets t) (mt_stats t) = Inr d"
    using manage_stats_all [of "''stop''" "mt_buckets t" "mt_stats t"] assms by (auto simp: stats_ready_def)
  with True show ?thesis by (auto simp: print_ops_task_def)
qed (auto simp: print_ops_task_def intro: exI [of _ "mt_stats t"])

text \<open>One phase of the task: the sub-tasks of a kind \<open>k\<close>, which became \<open>outs\<close>, are waited for.\<close>

definition kind_tasks where
  "kind_tasks now a nm spec k = concat (map snd (spec_blocks now a nm k spec))"

definition kind_subs where
  "kind_subs now a nm spec k outs key = subs_for (k = ContKind) key (zip outs (map (fst \<circ> snd) (kind_tasks now a nm spec k)))"

definition same_keys where
  "same_keys spec spec' \<longleftrightarrow> (\<forall>key. spec_op spec key = None \<longleftrightarrow> spec_op spec' key = None)"

lemma phase_ok:
  assumes "spec_ok spec" and "same_keys spec (mt_spec t)" and "list_all2 R (kind_tasks now a nm spec k) outs"
  shows "\<exists>spec' tm. wait_for_task_completion message (k = ContKind) (zip outs (map (fst \<circ> snd) (kind_tasks now a nm spec k))) t =
      (Inr (), t\<lparr>mt_spec := spec', mt_result := (mt_result t \<and> (\<forall>sub \<in> set outs. lt_fail sub = [])), mt_manager := tm\<rparr>) \<and>
    same_keys spec spec' \<and>
    (\<forall>key. spec_op spec' key = map_option (fold file_results (kind_subs now a nm spec k outs key)) (spec_op (mt_spec t) key))"
proof -
  let ?ss = "zip outs (map (fst \<circ> snd) (kind_tasks now a nm spec k))"
  have "spec_op (mt_spec t) (target_key (k = ContKind) cfg) \<noteq> None" if "(sub, cfg) \<in> set ?ss" for sub cfg
    using kind_outcomes(1) [OF assms(1) assms(3) [unfolded kind_tasks_def] refl] that assms(2) unfolding same_keys_def kind_tasks_def by blast
  then have p: "\<forall>(sub, cfg) \<in> set ?ss. spec_op (mt_spec t) (target_key (k = ContKind) cfg) \<noteq> None" by blast
  have "map fst ?ss = outs" using assms(3) by (simp add: list_all2_lengthD)
  then have "set outs = fst ` set ?ss" by (metis set_map)
  then have f: "(\<forall>(sub, _) \<in> set ?ss. lt_fail sub = []) \<longleftrightarrow> (\<forall>sub \<in> set outs. lt_fail sub = [])" by auto
  show ?thesis using wait_for_task_completion_ok [OF p, of message] assms(2) unfolding f by (auto simp: kind_subs_def same_keys_def)
qed

lemma mutate_call_phases:
  assumes "args_ok a" and "spec_ok spec" and "\<forall>sub k w. run_doc sub k w \<noteq> None" and "\<forall>sub k w. run_sub sub k w \<noteq> None"
    and "stats_ready ''start'' a bs stats" and nm: "nm = ''MutateDocsFromSpecTask_'' @ began"
  shows "\<exists>t w' oc ol ou. mutate_call message now a run_doc run_sub (new_mutate_task began bs spec stats tm) w = Some (Inr (mt_result t), t, w') \<and>
    tk_completed t \<and> tk_exception t = None \<and>
    list_all2 (ran_by run_doc) (kind_tasks now a nm spec ContKind) oc \<and> list_all2 (ran_by run_doc) (kind_tasks now a nm spec DocKind) ol \<and>
    list_all2 (ran_by run_sub) (kind_tasks now a nm spec SubKind) ou \<and>
    (\<forall>key. spec_op (mt_spec t) key = map_option (\<lambda>os. fold file_results (kind_subs now a nm spec ContKind oc key)
       (fold file_results (kind_subs now a nm spec SubKind ou key)
       (fold file_results (kind_subs now a nm spec DocKind ol key) (cleared os)))) (spec_op spec key)) \<and>
    (mt_result t \<longleftrightarrow> (\<forall>sub \<in> set ol \<union> set ou \<union> set oc. lt_fail sub = []))"
proof -
  let ?ts = "kind_tasks now a nm spec" and ?cfgs = "\<lambda>k. map (fst \<circ> snd) (kind_tasks now a nm spec k)"
  define t where "t = start_task (new_mutate_task began bs spec stats tm)"
  have t: "mt_buckets t = bs" "mt_stats t = stats" "mt_result t" "tk_exception t = None"
    by (simp_all add: t_def start_task_def new_mutate_task_def)
  obtain spec0 t0 where t0: "mutate_get_tasks now a t = t0" "\<forall>key. spec_op spec0 key = map_option cleared (spec_op spec key)"
    and e0: "t0 = t\<lparr>mt_spec := spec0, mt_load := ?ts DocKind, mt_sub := ?ts SubKind, mt_cont := ?ts ContKind\<rparr>"
    using mutate_get_tasks_ok [OF assms(1,2)] nm unfolding kind_tasks_def t_def by blast
  obtain d td where d: "print_ops_task a ''start'' t0 = (Inr (), td)" "stats_ready ''stop'' a bs d" and ed: "td = t0\<lparr>mt_stats := d\<rparr>"
    using print_ops_start [of a t0] assms(5) by (auto simp: e0 t)
  obtain oc tm1 w1 t1 where c: "start_tasks run_doc (?ts ContKind) td w = Some (zip oc (?cfgs ContKind), t1, w1)"
    "list_all2 (ran_by run_doc) (?ts ContKind) oc" and e1: "t1 = td\<lparr>mt_manager := tm1\<rparr>"
    using start_tasks_ok [where run = run_doc and w = w and ts = "?ts ContKind" and t = td] assms(3) by blast
  obtain ol tm2 w2 t2 where l: "start_tasks run_doc (?ts DocKind) t1 w1 = Some (zip ol (?cfgs DocKind), t2, w2)"
    "list_all2 (ran_by run_doc) (?ts DocKind) ol" and e2: "t2 = t1\<lparr>mt_manager := tm2\<rparr>"
    using start_tasks_ok [where run = run_doc and w = w1 and ts = "?ts DocKind" and t = t1] assms(3) by blast
  have "same_keys spec (mt_spec t2)" using t0(2) by (simp add: same_keys_def e2 e1 ed e0)
  from phase_ok [OF assms(2) this l(2), of message] obtain spec1 tm3 t3 where
    w1: "wait_for_task_completion message False (zip ol (?cfgs DocKind)) t2 = (Inr (), t3)" "same_keys spec spec1"
      "\<forall>key. spec_op spec1 key = map_option (fold file_results (kind_subs now a nm spec DocKind ol key)) (spec_op (mt_spec t2) key)"
    and e3: "t3 = t2\<lparr>mt_spec := spec1, mt_result := (mt_result t2 \<and> (\<forall>sub \<in> set ol. lt_fail sub = [])), mt_manager := tm3\<rparr>" by auto
  obtain ou tm4 w3 t4 where u: "start_tasks run_sub (?ts SubKind) t3 w2 = Some (zip ou (?cfgs SubKind), t4, w3)"
    "list_all2 (ran_by run_sub) (?ts SubKind) ou" and e4: "t4 = t3\<lparr>mt_manager := tm4\<rparr>"
    using start_tasks_ok [where run = run_sub and w = w2 and ts = "?ts SubKind" and t = t3] assms(4) by blast
  have "same_keys spec (mt_spec t4)" using w1(2) by (simp add: e4 e3)
  from phase_ok [OF assms(2) this u(2), of message] obtain spec2 tm5 t5 where
    w2: "wait_for_task_completion message False (zip ou (?cfgs SubKind)) t4 = (Inr (), t5)" "same_keys spec spec2"
      "\<forall>key. spec_op spec2 key = map_option (fold file_results (kind_subs now a nm spec SubKind ou key)) (spec_op (mt_spec t4) key)"
    and e5: "t5 = t4\<lparr>mt_spec := spec2, mt_result := (mt_result t4 \<and> (\<forall>sub \<in> set ou. lt_fail sub = [])), mt_manager := tm5\<rparr>" by auto
  have "same_keys spec (mt_spec t5)" using w2(2) by (simp add: e5)
  from phase_ok [OF assms(2) this c(2), of message] obtain spec3 tm6 t6 where
    w3: "wait_for_task_completion message True (zip oc (?cfgs ContKind)) t5 = (Inr (), t6)"
      "\<forall>key. spec_op spec3 key = map_option (fold file_results (kind_subs now a nm spec ContKind oc key)) (spec_op (mt_spec t5) key)"
    and e6: "t6 = t5\<lparr>mt_spec := spec3, mt_result := (mt_result t5 \<and> (\<forall>sub \<in> set oc. lt_fail sub = [])), mt_manager := tm6\<rparr>" by auto
  note es = e6 e5 e4 e3 e2 e1 ed e0
  obtain d' where d': "print_ops_task a ''stop'' t6 = (Inr (), t6\<lparr>mt_stats := d'\<rparr>)" using print_ops_stop [of a t6] d(2) by (auto simp: es t)
  have ms: "mt_cont td = ?ts ContKind" "mt_load t1 = ?ts DocKind" "mt_sub t3 = ?ts SubKind" by (simp_all add: e3 e2 e1 ed e0)
  let ?t7 = "complete_task (t6\<lparr>mt_stats := d'\<rparr>)"
  have "mutate_call message now a run_doc run_sub (new_mutate_task began bs spec stats tm) w = Some (Inr (mt_result ?t7), ?t7, w3)"
    by (simp add: mutate_call_def t_def [symmetric] t0(1) d(1) ms c(1) l(1) w1(1) u(1) w2(1) w3(1) d' Let_def)
  moreover have "spec_op (mt_spec ?t7) key = map_option (\<lambda>os. fold file_results (kind_subs now a nm spec ContKind oc key)
       (fold file_results (kind_subs now a nm spec SubKind ou key)
       (fold file_results (kind_subs now a nm spec DocKind ol key) (cleared os)))) (spec_op spec key)" for key
    using t0(2) [THEN spec, of key] w1(3) [THEN spec, of key] w2(3) [THEN spec, of key] w3(2) [THEN spec, of key]
    by (simp add: complete_task_def option.map_comp comp_def es)
  moreover have "mt_result ?t7 \<longleftrightarrow> (\<forall>sub \<in> set ol \<union> set ou \<union> set oc. lt_fail sub = [])" "tk_completed ?t7" "tk_exception ?t7 = None"
    by (auto simp: complete_task_def es t)
  ultimately show ?thesis using c(2) l(2) u(2) by blast
qed

lemma out_filed:
  assumes "spec_ok spec" and "list_all2 R (kind_tasks now a nm spec k) outs" and "sub \<in> set outs"
  shows "\<exists>key os. spec_op spec key = Some os \<and> sub \<in> set (kind_subs now a nm spec k outs key)"
proof -
  let ?ss = "zip outs (map (fst \<circ> snd) (kind_tasks now a nm spec k))"
  have "map fst ?ss = outs" using assms(2) by (simp add: list_all2_lengthD)
  then have "sub \<in> fst ` set ?ss" using assms(3) by (metis set_map)
  then obtain cfg where c: "(sub, cfg) \<in> set ?ss" by auto
  then obtain os where "spec_op spec (target_key (k = ContKind) cfg) = Some os"
    using kind_outcomes(1) [OF assms(1) assms(2) [unfolded kind_tasks_def] refl] unfolding kind_tasks_def by blast
  moreover have "sub \<in> set (kind_subs now a nm spec k outs (target_key (k = ContKind) cfg))"
    using c unfolding kind_subs_def subs_for_def by (auto intro: rev_image_eqI)
  ultimately show ?thesis by blast
qed

lemma kind_subs_ran:
  assumes "spec_ok spec" and "list_all2 R (kind_tasks now a nm spec k) outs" and "spec_op spec (pl, op) = Some os"
  shows "list_all2 R (if kind_of op = Some k then op_tasks now a nm pl k op os (parts a os) else []) (kind_subs now a nm spec k outs (pl, op))"
  using kind_outcomes(2) [OF assms(1) assms(2) [unfolded kind_tasks_def] refl assms(3)] unfolding kind_subs_def kind_tasks_def .

lemma spec_kind_known: "spec_ok spec \<Longrightarrow> spec_op spec (pl, op) = Some os \<Longrightarrow> kind_of op \<noteq> None"
  by (fastforce simp: spec_op_Some spec_ok_def op_ok_def)

lemma operation_filed:
  assumes "spec_ok spec" and "spec_op spec (pl, op) = Some os"
    and "list_all2 (ran_by run_doc) (kind_tasks now a nm spec ContKind) oc" and "list_all2 (ran_by run_doc) (kind_tasks now a nm spec DocKind) ol"
    and "list_all2 (ran_by run_sub) (kind_tasks now a nm spec SubKind) ou"
  shows "\<exists>subs. ran now a nm run_doc run_sub pl op os subs \<and>
    fold f (kind_subs now a nm spec ContKind oc (pl, op)) (fold f (kind_subs now a nm spec SubKind ou (pl, op))
      (fold f (kind_subs now a nm spec DocKind ol (pl, op)) x)) = fold f subs x"
proof -
  obtain k where k: "kind_of op = Some k" using spec_kind_known [OF assms(1,2)] by blast
  note r = kind_subs_ran [OF assms(1) assms(3) assms(2)] kind_subs_ran [OF assms(1) assms(4) assms(2)] kind_subs_ran [OF assms(1) assms(5) assms(2)]
  show ?thesis by (cases k) (use r k in \<open>auto simp: ran_def\<close>)
qed


definition small_spec :: "(kvgen, unit, unit) loader_spec" where
  "small_spec = [((''b'', ''s'', ''c''), [(''create'', \<lparr>os_gen = (kvgen_init ''d'')\<lparr>kg_end := 2\<rparr>, os_doc_ttl = 0, os_durability = [], os_timeout = 5,
     os_timeout_unit = ''seconds'', os_skip_read_on_error = False, os_skip_read_success = False, os_xattr = None, os_track_failures = None,
     os_iterations = None, os_success = [], os_fail = []\<rparr>)])]"

definition small_args :: spec_args where
  "small_args = \<lparr>sa_pool = True, sa_batch_size = 1, sa_concurrency = 2, sa_print_ops_rate = False, sa_track_failures = True\<rparr>"


section \<open>Deviations\<close>

text \<open>What a sub-task raised does not count: when all of them raise before they write anything, the task reports success.\<close>

lemma mutation_ignores_exceptions:
  fixes w :: 'w
  assumes "args_ok a" and "spec_ok spec" and "stats_ready ''start'' a bs stats"
  shows "\<exists>t w'. mutate_call message now a (\<lambda>sub k w. Some (Inl r, sub, w)) (\<lambda>sub k w. Some (Inl r, sub, w))
     (new_mutate_task began bs spec stats tm) w = Some (Inr True, t, w')"
proof -
  let ?run = "\<lambda>sub k (v :: 'w). Some (Inl r, sub, v)"
  have fresh: "lt_fail (fst x) = []" if "x \<in> set (kind_tasks now a nm spec k)" for x nm k
    using that by (auto simp: kind_tasks_def op_tasks_def Let_def new_load_task_def spec_blocks_in)
  have none: "lt_fail sub = []" if l: "list_all2 (ran_by ?run) (kind_tasks now a nm spec k) outs" and o: "sub \<in> set outs" for nm k outs sub
  proof -
    obtain i where i: "i < length outs" "outs ! i = sub" using o by (auto simp: in_set_conv_nth)
    have "ran_by ?run (kind_tasks now a nm spec k ! i) (outs ! i)" by (rule list_all2_nthD2 [OF l i(1)])
    moreover have "i < length (kind_tasks now a nm spec k)" using i(1) list_all2_lengthD [OF l] by simp
    ultimately show ?thesis using fresh [OF nth_mem] i(2) by (fastforce simp: ran_by_def)
  qed
  show ?thesis
    using mutate_call_phases [where a = a and spec = spec and bs = bs and stats = stats and run_doc = ?run and run_sub = ?run and
      message = message and now = now and began = began and tm = tm and w = w, OF assms(1,2) _ _ assms(3) refl] none by fastforce
qed

text \<open>The name under which a sub-task is known to the task manager does not determine its collection: two collections can get the
  same, and then one of the two tasks is forgotten.\<close>

lemma spec_task_names_collide:
  "spec_task_name now (spec_task_id thread_name (''b'', ''s_x'', ''y'') op ttl) k cfg start stop =
   spec_task_name now (spec_task_id thread_name (''b'', ''s'', ''x_y'') op ttl) k cfg start stop"
  by (simp add: spec_task_id_def)

lemma same_name_forgets:
  "get_task_result n (add_new_task n f tm) = Some (r, tm') \<Longrightarrow> (\<exists>x. r = Inr x) \<Longrightarrow> get_task_result n tm' = Some (Inl (RExc KeyError), tm')"
  by (auto simp: get_task_result_def add_new_task_def split: future.splits sum.splits)

text \<open>Validating a specification empties the results that the mutation has filed.\<close>

lemma validation_clears_results:
  assumes "args_ok a" and "(op, os) \<in> set (val_cleared_ops a ops)"
  shows "os_success os = [] \<and> os_fail os = []"
  using assms(2) by (induction ops) (auto simp: parts_ok [OF assms(1)])

end
