(* ===== verification/Bulk_Tasks.thy ===== *)
theory Bulk_Tasks
  imports Spec_Tasks
begin

text \<open>
  Further loading tasks of \<^verbatim>\<open>lib/Jython_tasks/task.py\<close>: sub-documents of whole generators, the same documents over and over until
  the task is told to end, and documents until a bucket no longer fits into memory. What \<^verbatim>\<open>cluster.py\<close> prepares for them.

  \<^item> Sub-tasks run as in \<open>Load_Tasks\<close>; closing clients is left out.
  \<^item> \<open>stopped n\<close> says whether another thread has called \<^verbatim>\<open>end_task\<close> when the flag is read after \<open>n\<close> rounds. \<open>seen\<close> gives the failures
    of a sub-task that are already there when it has just been submitted.
  \<^item> \<open>fetch\<close> reads the last sample of a statistic of a bucket; ratios are numbers of any ordered kind.
\<close>

section \<open>Waiting\<close>

text \<open>Waiting for all sub-tasks without catching what they raise: the first exception ends it. All futures are done.\<close>

fun await_results :: "((raised + unit) \<times> 'a task_scheme) list \<Rightarrow> unit task_manager \<Rightarrow> (raised + unit) \<times> unit task_manager" where
  "await_results [] tm = (Inr (), tm)"
| "await_results ((_, sub) # rs) tm =
     (case get_task_result (tk_name sub) tm of
        None \<Rightarrow> (Inr (), tm)
      | Some (Inl r, tm') \<Rightarrow> (Inl r, tm')
      | Some (Inr _, tm') \<Rightarrow> await_results rs tm')"

section \<open>Sub-documents of whole generators\<close>

text \<open>\<^verbatim>\<open>get_tasks\<close>: every generator but an empty one has to be a \<^verbatim>\<open>SubdocDocumentGenerator\<close>. The sub-tasks get no identifier.\<close>

definition sub_get_tasks ::
  "('a kvgen_scheme \<Rightarrow> bool) \<Rightarrow> int \<Rightarrow> int \<Rightarrow> sub_config \<Rightarrow> (string \<times> string) option list \<Rightarrow> task_config \<Rightarrow> 'a kvgen_scheme \<Rightarrow>
   raised + ('a kvgen_scheme, 'v, 'p) spec_task list" where
  "sub_get_tasks is_subdoc process_concurrency batch_size sb clients cfg g =
     (if process_concurrency = 0 then Inl (RExc ZeroDivisionError)
      else if kg_start g < kg_end g \<and> \<not> is_subdoc g then Inl (RBase ''Document generator needs to be of type SubdocDocumentGenerator'')
      else
        case rbind (partition_gens process_concurrency batch_size g) (\<lambda>gs.
          rmap (\<lambda>(i, p). rbind (py_nth clients (int i)) (\<lambda>cl.
            Inr (new_load_task (sub_task_name [] (kg_start p) (kg_end p) (cfg_op_type cfg) (ca_durability (cfg_args cfg))) p (cfg_exp cfg),
                 cfg\<lparr>cfg_own := cl\<rparr>, sb)))
            (enumerate 0 gs)) of
          Inl e \<Rightarrow> Inl (RExc e)
        | Inr ts \<Rightarrow> Inr ts)"

fun all_sub_tasks where
  "all_sub_tasks tasks_of op_types buckets cfg i [] = Inr []"
| "all_sub_tasks tasks_of op_types buckets cfg i (g # gs) =
     (case gens_config op_types buckets cfg i of
        Inl e \<Rightarrow> Inl (RExc e)
      | Inr cfg' \<Rightarrow>
          (case tasks_of cfg' g of
             Inl r \<Rightarrow> Inl r
           | Inr ts \<Rightarrow> (case all_sub_tasks tasks_of op_types buckets cfg (Suc i) gs of Inl r \<Rightarrow> Inl r | Inr tss \<Rightarrow> Inr (ts @ tss))))"

text \<open>\<^verbatim>\<open>set_exception\<close> leaves its mark on the task, another exception does not.\<close>

definition raise_in :: "raised \<Rightarrow> 'a task_scheme \<Rightarrow> 'a task_scheme" where
  "raise_in r t = (case r of RBase m \<Rightarrow> complete_task (t\<lparr>tk_exception := Some m\<rparr>) | RExc _ \<Rightarrow> t)"

definition load_sub_generators_call where
  "load_sub_generators_call run tasks_of print_ops_rate op_types buckets cfg gens t w =
     (case check_lists op_types buckets (length gens) (start_task t) of
        (Inl r, t) \<Rightarrow> Some (Inl r, t, w)
      | (Inr _, t) \<Rightarrow>
          (case all_sub_tasks tasks_of op_types buckets cfg 0 gens of
             Inl r \<Rightarrow> Some (Inl r, raise_in r t, w)
           | Inr tasks \<Rightarrow>
               let rated = (if \<not> print_ops_rate then [] else if buckets \<noteq> [] then buckets else [cfg_bucket cfg]) in
               (case manage_stats ''start'' rated (gs_stats t) of
                  Inl e \<Rightarrow> Some (Inl (RExc e), t, w)
                | Inr stats \<Rightarrow>
                    (case run_tasks run tasks w of
                       None \<Rightarrow> None
                     | Some (rs, w') \<Rightarrow>
                         let t = t\<lparr>gs_stats := stats, gs_manager := submit rs (gs_manager t)\<rparr>;
                             t = fold (\<lambda>(_, sub). collect_result True sub) rs t in
                         (case manage_stats ''stop'' rated (gs_stats t) of
                            Inl e \<Rightarrow> Some (Inl (RExc e), t, w')
                          | Inr stats \<Rightarrow>
                              let t = complete_task (t\<lparr>gs_stats := stats\<rparr>) in
                              Some (Inr (gs_fail t), t, w'))))))"

definition load_sub_generators where
  "load_sub_generators stopped message sdk ops is_subdoc process_concurrency batch_size sb clients print_ops_rate op_types buckets cfg gens t w =
     load_sub_generators_call (\<lambda>sub (cfg, sb). load_sub_documents stopped message sdk ops cfg sb sub)
       (sub_get_tasks is_subdoc process_concurrency batch_size sb clients) print_ops_rate op_types buckets cfg gens t w"

text \<open>\<^verbatim>\<open>async_load_gen_sub_docs\<close> checks the generator and makes the clients.\<close>

definition async_load_gen_sub_docs ::
  "('a kvgen_scheme \<Rightarrow> bool) \<Rightarrow> bool \<Rightarrow> string \<Rightarrow> string \<Rightarrow> int \<Rightarrow> 'a kvgen_scheme \<Rightarrow> (string \<times> string) option list res" where
  "async_load_gen_sub_docs is_subdoc pool scope collection process_concurrency g =
     (if \<not> is_subdoc g then Inl (Raised ''Document generator needs to be of type SubdocDocumentGenerator'')
      else gen_clients pool scope collection process_concurrency g)"

section \<open>The same documents over and over\<close>

record ('v, 'p) cont_task = task +
  ct_stop_updates :: bool
  ct_itr_count :: nat
  ct_fail :: "('v, 'p) results"
  ct_manager :: "unit task_manager"

definition cont_end_task :: "('v, 'p) cont_task \<Rightarrow> ('v, 'p) cont_task" where
  "cont_end_task t = t\<lparr>ct_stop_updates := True\<rparr>"

text \<open>One sub-task for each client, on a copy of the generator. Waiting for the first one that raised ends the round.\<close>

definition cont_sub_tasks ::
  "(nat \<Rightarrow> string) \<Rightarrow> int \<Rightarrow> task_config \<Rightarrow> (string \<times> string) option list \<Rightarrow> 'a kvgen_scheme \<Rightarrow> string \<Rightarrow>
   (('a kvgen_scheme, 'v, 'p) load_task \<times> task_config) list res" where
  "cont_sub_tasks now batch_size cfg clients g name =
     rmap (\<lambda>(i, cl). rbind (batch_init g batch_size) (\<lambda>(g, _).
       Inr (new_load_task (load_task_name (name @ ''_'' @ nat_str (Suc i)) (cfg_op_type cfg) (ca_durability (cfg_args cfg)) (kg_start g) (kg_end g) (now i))
              g (cfg_exp cfg), cfg\<lparr>cfg_own := cl, cfg_skip_read_success := True\<rparr>)))
       (enumerate 0 clients)"

definition cont_round where
  "cont_round run seen now batch_size cfg clients g t w =
     (let t = t\<lparr>ct_itr_count := Suc (ct_itr_count t)\<rparr> in
      case cont_sub_tasks now batch_size cfg clients g (tk_name t) of
        Inl e \<Rightarrow> Some (Inl (RExc e), t, w)
      | Inr tasks \<Rightarrow>
          (case run_tasks run tasks w of
             None \<Rightarrow> None
           | Some (rs, w') \<Rightarrow>
               let t = t\<lparr>ct_manager := submit rs (ct_manager t), ct_fail := fold (\<lambda>(_, sub) d. dict_update_all d (seen (lt_fail sub))) rs (ct_fail t)\<rparr> in
               (case await_results rs (ct_manager t) of (r, tm) \<Rightarrow> Some (r, t\<lparr>ct_manager := tm\<rparr>, w'))))"

partial_function (option) start_doc_ops ::
  "(nat \<Rightarrow> bool) \<Rightarrow> (('v, 'p) cont_task \<Rightarrow> 'w \<Rightarrow> ((raised + unit) \<times> ('v, 'p) cont_task \<times> 'w) option) \<Rightarrow> ('v, 'p) cont_task \<Rightarrow> 'w \<Rightarrow>
   ((raised + unit) \<times> ('v, 'p) cont_task \<times> 'w) option" where
  "start_doc_ops stopped round t w =
     (if ct_stop_updates t \<or> stopped (ct_itr_count t) then Some (Inr (), cont_end_task t, w)
      else
        (case round t w of
           None \<Rightarrow> None
         | Some (Inl r, t', w') \<Rightarrow> Some (Inl r, t', w')
         | Some (Inr _, t', w') \<Rightarrow> start_doc_ops stopped round t' w'))"

fun each_bucket where
  "each_bucket stopped round_of [] t w = Some (Inr (), t, w)"
| "each_bucket stopped round_of (b # bs) t w =
     (case start_doc_ops stopped (round_of b) t w of
        None \<Rightarrow> None
      | Some (Inl r, t', w') \<Rightarrow> Some (Inl r, t', w')
      | Some (Inr _, t', w') \<Rightarrow> each_bucket stopped round_of bs t' w')"

definition continuous_doc_ops where
  "continuous_doc_ops stopped run seen now batch_size cfg clients g buckets t w =
     (case each_bucket stopped (\<lambda>b. cont_round run seen now batch_size (cfg\<lparr>cfg_bucket := b\<rparr>) clients g) buckets (start_task t) w of
        None \<Rightarrow> None
      | Some (Inl r, t', w') \<Rightarrow> Some (Inl r, t', w')
      | Some (Inr _, t', w') \<Rightarrow> Some (Inr (), complete_task t', w'))"

text \<open>\<^verbatim>\<open>async_continuous_doc_ops\<close> does not hand its scope and collection to the clients it makes.\<close>

definition async_continuous_clients :: "bool \<Rightarrow> int \<Rightarrow> string \<Rightarrow> string \<Rightarrow> (string \<times> string) option list" where
  "async_continuous_clients pool process_concurrency scope collection =
     map (\<lambda>_. if pool then None else Some (target_of ''_default'' ''_default'')) (py_range 0 process_concurrency 1)"

section \<open>Loading until a bucket does not fit into memory\<close>

record dgm_task = task +
  dg_doc_index :: int
  dg_loaded :: "(string, int) dict"
  dg_manager :: "unit task_manager"

text \<open>The documents go on from the start of the generator.\<close>

definition new_dgm_task :: "string \<Rightarrow> 'a kvgen_scheme \<Rightarrow> unit task_manager \<Rightarrow> dgm_task" where
  "new_dgm_task name g tm =
     \<lparr>tk_name = name, tk_exception = None, tk_completed = False, tk_started = False, dg_doc_index = kg_start g, dg_loaded = [], dg_manager = tm\<rparr>"

definition get_bucket_dgm :: "(string \<Rightarrow> 'r :: linordered_idom res) \<Rightarrow> ('r \<times> 'r) res" where
  "get_bucket_dgm fetch =
     (case fetch ''vb_active_resident_items_ratio'' of
        Inl e \<Rightarrow> if e = KeyError then Inr (100, 100) else Inl e
      | Inr active \<Rightarrow>
          (case fetch ''vb_replica_resident_items_ratio'' of
             Inl e \<Rightarrow> if e = KeyError then Inr (100, 100) else Inl e
           | Inr replica \<Rightarrow> Inr (active, replica)))"

text \<open>The ranges of the next batch, one for each of \<open>process_concurrency\<close> sub-tasks; they are counted before any sub-task runs. A
  missing client is found after the sub-tasks before it have been submitted.\<close>

definition dgm_ranges :: "nat \<Rightarrow> int \<Rightarrow> int \<Rightarrow> (int \<times> int) list" where
  "dgm_ranges process_concurrency dgm_batch doc_index =
     map (\<lambda>i. (doc_index + int i * dgm_batch, doc_index + (int i + 1) * dgm_batch)) [0..<process_concurrency]"

definition dgm_sub_tasks ::
  "(nat \<Rightarrow> string) \<Rightarrow> task_config \<Rightarrow> (string \<times> string) option list \<Rightarrow> 'a kvgen_scheme \<Rightarrow> string \<Rightarrow> (int \<times> int) list \<Rightarrow>
   (('a kvgen_scheme, 'v, 'p) load_task \<times> task_config) list" where
  "dgm_sub_tasks now cfg clients g name ranges =
     map (\<lambda>(i, cl, r). (new_load_task (load_task_name name ''create'' (ca_durability (cfg_args cfg)) (fst r) (snd r) (now i))
        (partition_gen g r) (cfg_exp cfg), cfg\<lparr>cfg_op_type := ''create'', cfg_own := cl\<rparr>))
       (enumerate 0 (zip clients ranges))"

definition load_next_batch_of_docs where
  "load_next_batch_of_docs run now process_concurrency dgm_batch batch_size cfg clients g t w =
     (let ranges = dgm_ranges process_concurrency dgm_batch (dg_doc_index t) in
      case map_of (dg_loaded t) (cfg_bucket cfg) of
        None \<Rightarrow> Some (Inl (RExc KeyError), t, w)
      | Some n \<Rightarrow>
          let t = t\<lparr>dg_doc_index := dg_doc_index t + int process_concurrency * dgm_batch,
                    dg_loaded := AList.update (cfg_bucket cfg) (n + int process_concurrency * dgm_batch) (dg_loaded t)\<rparr> in
          if batch_size \<le> (0 :: int) \<and> 0 < process_concurrency then Some (Inl (RExc ValueError), t, w)
          else
            (case run_tasks run (dgm_sub_tasks now cfg clients g (tk_name t) ranges) w of
               None \<Rightarrow> None
             | Some (rs, w') \<Rightarrow>
                 let t = t\<lparr>dg_manager := submit rs (dg_manager t)\<rparr> in
                 if length clients < process_concurrency then Some (Inl (RExc IndexError), t, w')
                 else
                   (case await_results rs (dg_manager t) of (r, tm) \<Rightarrow> Some (r, t\<lparr>dg_manager := tm\<rparr>, w'))))"

partial_function (option) load_bucket_into_dgm ::
  "('w \<Rightarrow> string \<Rightarrow> 'r :: linordered_idom res) \<Rightarrow> 'r \<Rightarrow> (dgm_task \<Rightarrow> 'w \<Rightarrow> ((raised + unit) \<times> dgm_task \<times> 'w) option) \<Rightarrow>
   dgm_task \<Rightarrow> 'w \<Rightarrow> ((raised + unit) \<times> dgm_task \<times> 'w) option" where
  "load_bucket_into_dgm fetch threshold load_batch t w =
     (case get_bucket_dgm (fetch w) of
        Inl e \<Rightarrow> Some (Inl (RExc e), t, w)
      | Inr (active, replica) \<Rightarrow>
          if threshold < active \<and> threshold < replica then
            (case load_batch t w of
               None \<Rightarrow> None
             | Some (Inl r, t', w') \<Rightarrow> Some (Inl r, t', w')
             | Some (Inr _, t', w') \<Rightarrow> load_bucket_into_dgm fetch threshold load_batch t' w')
          else Some (Inr (), t, w))"

text \<open>The collection object of the bucket counts the new documents.\<close>

definition count_loaded :: "int \<Rightarrow> collection \<Rightarrow> collection" where
  "count_loaded n c = c\<lparr>c_num_items := c_num_items c + n, c_doc_index := (fst (c_doc_index c), snd (c_doc_index c) + n)\<rparr>"

fun dgm_buckets where
  "dgm_buckets fetch threshold load_batch [] t bs w = Some (Inr (), t, bs, w)"
| "dgm_buckets fetch threshold load_batch (cfg # cfgs) t bs w =
     (case load_bucket_into_dgm (\<lambda>w. fetch w (cfg_bucket cfg)) threshold (load_batch cfg)
             (t\<lparr>dg_loaded := AList.update (cfg_bucket cfg) 0 (dg_loaded t)\<rparr>) w of
        None \<Rightarrow> None
      | Some (Inl r, t', w') \<Rightarrow> Some (Inl r, t', bs, w')
      | Some (Inr _, t', w') \<Rightarrow>
          (case get_bucket_obj bs (cfg_bucket cfg) of
             None \<Rightarrow> Some (Inl (RExc AttributeError), t', bs, w')
           | Some b \<Rightarrow>
               (case the_collection b (cfg_scope cfg) (cfg_collection cfg) of
                  None \<Rightarrow> Some (Inl (RExc KeyError), t', bs, w')
                | Some _ \<Rightarrow>
                    dgm_buckets fetch threshold load_batch cfgs t'
                      (replace_bucket (cfg_bucket cfg)
                         (update_collection (cfg_scope cfg) (cfg_collection cfg) (count_loaded (dict_get (dg_loaded t') (cfg_bucket cfg) 0))) bs) w')))"

definition load_documents_for_dgm where
  "load_documents_for_dgm fetch threshold run now process_concurrency dgm_batch batch_size clients g cfgs t bs w =
     (case dgm_buckets fetch threshold (\<lambda>cfg. load_next_batch_of_docs run now process_concurrency dgm_batch batch_size cfg clients g)
             cfgs (start_task t) bs w of
        None \<Rightarrow> None
      | Some (Inl r, t', bs', w') \<Rightarrow> Some (Inl r, t', bs', w')
      | Some (Inr _, t', bs', w') \<Rightarrow> Some (Inr (), complete_task t', bs', w'))"

end
