(* ===== verification/Bulk_Tasks_Props.thy ===== *)
theory Bulk_Tasks_Props
  imports Bulk_Tasks Load_Tasks_Props Manifest_Props
begin

text \<open>
  Properties of the bulk loading tasks: what the task that loads until a bucket does not fit into memory writes and counts; who
  is served by the one that repeats its documents; names of sub-tasks.
\<close>

section \<open>Names of sub-tasks\<close>

lemma nat_str_code: "c \<in> set (nat_str n) \<Longrightarrow> 48 \<le> (of_char c :: nat) \<and> (of_char c :: nat) < 58"
proof -
  assume "c \<in> set (nat_str n)"
  from nat_str_chars [OF this] obtain d :: nat where "d < 10" "c = char_of (48 + d)" by blast
  then show ?thesis by simp
qed

lemma nat_str_no: "CHR ''-'' \<notin> set (nat_str n)" "CHR ''_'' \<notin> set (nat_str n)"
  using nat_str_code [of "CHR ''-''" n] nat_str_code [of "CHR ''_''" n] by auto

lemma int_str_inj: "int_str a = int_str b \<Longrightarrow> a = b"
proof -
  assume eq: "int_str a = int_str b"
  have hd: "hd (nat_str n) \<noteq> CHR ''-''" for n using nat_str_no(1) [of n] by (metis hd_in_set nat_str_ne)
  show ?thesis
  proof (cases "a < 0")
    case True
    with eq hd [of "nat b"] have "b < 0" by (cases "b < 0") (auto simp: int_str_def, metis list.sel(1))
    with True eq show ?thesis by (simp add: int_str_def nat_str_inj)
  next
    case False
    with eq hd [of "nat a"] have "\<not> b < 0" by (cases "b < 0") (auto simp: int_str_def)
    with False eq show ?thesis by (simp add: int_str_def nat_str_inj)
  qed
qed

lemma int_str_no_underscore: "CHR ''_'' \<notin> set (int_str a)"
  using nat_str_no(2) by (auto simp: int_str_def)

lemma load_task_name_start:
  assumes "load_task_name i op d a b n = load_task_name i op d a' b' n'"
  shows "a = a'"
proof -
  have split: "takeWhile (\<lambda>c. c \<noteq> CHR ''_'') (int_str z @ ''_'' @ x) = int_str z" for z x
    using int_str_no_underscore [of z] by (subst takeWhile_append2) auto
  have "int_str a @ ''_'' @ int_str b @ ''_'' @ n = int_str a' @ ''_'' @ int_str b' @ ''_'' @ n'"
    using assms by (simp add: load_task_name_def)
  then have "takeWhile (\<lambda>c. c \<noteq> CHR ''_'') (int_str a @ ''_'' @ int_str b @ ''_'' @ n) =
    takeWhile (\<lambda>c. c \<noteq> CHR ''_'') (int_str a' @ ''_'' @ int_str b' @ ''_'' @ n')" by simp
  then show ?thesis unfolding split by (rule int_str_inj)
qed

section \<open>Waiting\<close>

lemma await_results_ok:
  assumes "distinct (map (\<lambda>(_, sub). tk_name sub) rs)"
    and "\<forall>(_, sub) \<in> set rs. map_of (tm_futures tm) (tk_name sub) = Some (Finished (Inr ()))"
  shows "\<exists>tm'. await_results rs tm = (Inr (), tm')"
  using assms
proof (induction rs arbitrary: tm)
  case (Cons x rs)
  obtain r sub where x: "x = (r, sub)" by (cases x)
  let ?tm = "tm\<lparr>tm_futures := AList.delete (tk_name sub) (tm_futures tm)\<rparr>"
  have "get_task_result (tk_name sub) tm = Some (Inr (Some ()), ?tm)" using Cons.prems(2) by (auto simp: x get_task_result_def)
  moreover have "\<forall>(_, s') \<in> set rs. map_of (tm_futures ?tm) (tk_name s') = Some (Finished (Inr ()))"
    using Cons.prems by (force simp: x delete_conv')
  ultimately show ?case using Cons.IH [of ?tm] Cons.prems(1) by (simp add: x)
qed simp

lemma submit_futures:
  assumes "distinct (map (\<lambda>(_, sub). tk_name sub) rs)" and "(r, sub) \<in> set rs"
  shows "map_of (tm_futures (submit rs tm)) (tk_name sub) = Some (Finished r)"
proof -
  have other: "map_of (tm_futures (submit rs tm)) n = map_of (tm_futures tm) n" if "n \<notin> set (map (\<lambda>(_, sub). tk_name sub) rs)" for rs tm n
    using that by (induction rs arbitrary: tm) (auto simp: submit_def add_new_task_def)
  show ?thesis using assms
  proof (induction rs arbitrary: tm)
    case (Cons x rs)
    have s: "submit (x # rs) tm = submit rs (add_new_task (tk_name (snd x)) (Finished (fst x)) tm)"
      by (simp add: submit_def case_prod_beta)
    show ?case
    proof (cases "x = (r, sub)")
      case True
      then show ?thesis using Cons.prems(1) other [of "tk_name sub" rs] unfolding s by (simp add: add_new_task_def)
    next
      case False
      then show ?thesis using Cons by (auto simp: s)
    qed
  qed simp
qed

section \<open>Loading until a bucket does not fit into memory\<close>

lemma dgm_ranges_cover:
  assumes "0 < b"
  shows "concat (map (\<lambda>r. [fst r..snd r - 1]) (dgm_ranges pc b i)) = [i..i + int pc * b - 1]"
proof (induction pc)
  case (Suc pc)
  have "dgm_ranges (Suc pc) b i = dgm_ranges pc b i @ [(i + int pc * b, i + (int pc + 1) * b)]" by (simp add: dgm_ranges_def)
  moreover have "i \<le> i + int pc * b" "i + int pc * b \<le> i + int (Suc pc) * b" using assms by (simp_all add: algebra_simps)
  ultimately show ?case using Suc upto_glue [of i "i + int pc * b" "i + int (Suc pc) * b"] by (simp add: algebra_simps)
qed (simp add: dgm_ranges_def)

lemma dgm_ranges_starts: "0 < b \<Longrightarrow> distinct (map fst (dgm_ranges pc b i))"
  by (auto simp: dgm_ranges_def distinct_map inj_on_def)

lemma part_keys:
  assumes "kg_name g \<noteq> ''random_keys''" and "\<not> kg_mix_key_size g"
  shows "docgen_keys rg (kvgen_reset (partition_gen g r)) = map (kv_next_key g) [fst r..snd r - 1]"
  using docgen_keys_plain [of "kvgen_reset (partition_gen g r)" rg] assms
  by (simp add: kvgen_reset_def partition_gen_def) (simp add: kv_next_key_def)

text \<open>A task with a client for each of its sub-tasks.\<close>

definition dgm_setting :: "task_config \<Rightarrow> string \<times> string \<Rightarrow> nat \<Rightarrow> int \<Rightarrow> (string \<times> string) option list \<Rightarrow> 't docgen \<Rightarrow> bool" where
  "dgm_setting cfg col pc b clients g \<longleftrightarrow> \<not> cfg_pool cfg \<and> \<not> cfg_random_exp cfg \<and> cfg_iterations cfg = 1 \<and> 0 < pc \<and> 0 < b \<and>
     clients = replicate pc (Some col) \<and> docgen_ok g \<and> kg_name g \<noteq> ''random_keys'' \<and> \<not> kg_mix_key_size g"

lemma enumerate_map: "enumerate k (map f xs) = map (\<lambda>(i, x). (i, f x)) (enumerate k xs)"
  by (induction xs arbitrary: k) auto

lemma dgm_sub_tasks_eq:
  assumes "length clients = length rs" and "set clients \<subseteq> {cl}"
  shows "dgm_sub_tasks now cfg clients g name rs = map (\<lambda>(i, r).
    (new_load_task (load_task_name name ''create'' (ca_durability (cfg_args cfg)) (fst r) (snd r) (now i)) (partition_gen g r) (cfg_exp cfg),
     cfg\<lparr>cfg_op_type := ''create'', cfg_own := cl\<rparr>)) (enumerate 0 rs)"
proof -
  have "clients = replicate (length rs) cl" using assms by (metis replicate_eqI singletonD subset_iff)
  then have "zip clients rs = map (Pair cl) rs" by (metis zip_replicate1 take_all order_refl)
  then show ?thesis by (simp add: dgm_sub_tasks_def enumerate_map comp_def case_prod_beta)
qed

lemma dgm_sub_tasks_ok:
  fixes g :: "'t docgen"
  assumes "dgm_setting cfg col pc b clients g"
    and ts_def: "(ts :: (('t docgen, 't docval, 'p) load_task \<times> task_config) list) = dgm_sub_tasks now cfg clients g name (dgm_ranges pc b i)"
  shows "\<forall>tc \<in> set ts. fresh_task col tc" and "distinct (map (\<lambda>tc. tk_name (fst tc)) ts)"
    and "concat (map (\<lambda>tc. docgen_keys r (kvgen_reset (gt_generator (fst tc)))) ts) = map (kv_next_key g) [i..i + int pc * b - 1]"
proof -
  let ?rs = "dgm_ranges pc b i"
  have len: "length clients = length ?rs" "set clients \<subseteq> {Some col}" using assms(1) by (auto simp: dgm_setting_def dgm_ranges_def)
  have ts: "ts = map (\<lambda>(i, r). (new_load_task (load_task_name name ''create'' (ca_durability (cfg_args cfg)) (fst r) (snd r) (now i)) (partition_gen g r) (cfg_exp cfg),
     cfg\<lparr>cfg_op_type := ''create'', cfg_own := Some col\<rparr>)) (enumerate 0 ?rs)"
    unfolding ts_def by (rule dgm_sub_tasks_eq [OF len])
  show "\<forall>tc \<in> set ts. fresh_task col tc"
    using assms(1) by (fastforce simp: ts fresh_task_def own_writer_def is_write_def dgm_setting_def docgen_ok_def partition_gen_def)
  have "map (\<lambda>tc. tk_name (fst tc)) ts = map (\<lambda>(i, r). load_task_name name ''create'' (ca_durability (cfg_args cfg)) (fst r) (snd r) (now i)) (enumerate 0 ?rs)"
    by (simp add: ts new_load_task_def comp_def case_prod_beta)
  moreover have "distinct \<dots>"
  proof -
    have "distinct (map (\<lambda>x. fst (snd x)) (enumerate 0 ?rs))"
      using dgm_ranges_starts [of b pc i] assms(1) by (simp add: map_snd_enum dgm_setting_def)
    then show ?thesis unfolding distinct_map inj_on_def by (metis (no_types, lifting) case_prod_beta load_task_name_start)
  qed
  ultimately show "distinct (map (\<lambda>tc. tk_name (fst tc)) ts)" by simp
  have "map (\<lambda>tc. docgen_keys r (kvgen_reset (gt_generator (fst tc)))) ts = map (\<lambda>x. docgen_keys r (kvgen_reset (partition_gen g (snd x)))) (enumerate 0 ?rs)"
    by (simp add: ts new_load_task_def comp_def case_prod_beta)
  also have "\<dots> = map (\<lambda>r. map (kv_next_key g) [fst r..snd r - 1]) ?rs"
    using part_keys [of g r] assms(1) map_snd_enum [where f = "\<lambda>r. map (kv_next_key g) [fst r..snd r - 1]"] unfolding dgm_setting_def by simp
  finally show "concat (map (\<lambda>tc. docgen_keys r (kvgen_reset (gt_generator (fst tc)))) ts) = map (kv_next_key g) [i..i + int pc * b - 1]"
    using dgm_ranges_cover [of b pc i] assms(1) map_concat [of "kv_next_key g" "map (\<lambda>r. [fst r..snd r - 1]) ?rs"] by (simp add: dgm_setting_def comp_def)
qed

lemma dgm_batch_ok:
  fixes g :: "'t docgen" and sdk :: "('t docval, 'p, 'c) sdk"
  assumes "dgm_setting cfg col pc b clients g" and "0 < n" and "fst ` set (snd (wo_conn w)) \<subseteq> {col}" and "map_of (dg_loaded t) (cfg_bucket cfg) = Some l"
    and run_def: "run = (\<lambda>sub cfg. load_documents (\<lambda>_. False) message (recorded sdk) dict_eq draw (batched_ops jo r (nat n)) cfg sub)"
  shows "\<exists>t' w'. load_next_batch_of_docs run now pc b n cfg clients g t w = Some (Inr (), t', w') \<and>
    dg_doc_index t' = dg_doc_index t + int pc * b \<and> map_of (dg_loaded t') (cfg_bucket cfg) = Some (l + int pc * b) \<and>
    fst ` set (snd (wo_conn w')) \<subseteq> {col} \<and>
    log_writes (snd (wo_conn w')) = log_writes (snd (wo_conn w)) @ map (kv_next_key g) [dg_doc_index t..dg_doc_index t + int pc * b - 1]"
proof -
  define ts :: "(('t docgen, 't docval, 'p) load_task \<times> task_config) list"
    where "ts = dgm_sub_tasks now cfg clients g (tk_name t) (dgm_ranges pc b (dg_doc_index t))"
  note ok = dgm_sub_tasks_ok [OF assms(1) ts_def]
  obtain rs w' where run: "run_tasks run ts w = Some (rs, w')" "list_all2 (\<lambda>tc (res, t'). res = Inr () \<and> tk_completed t' \<and> tk_name t' = tk_name (fst tc)) ts rs"
    "fst ` set (snd (wo_conn w')) \<subseteq> {col}"
    "log_writes (snd (wo_conn w')) = log_writes (snd (wo_conn w)) @ map (kv_next_key g) [dg_doc_index t..dg_doc_index t + int pc * b - 1]"
    using run_tasks_once [OF _ ok(1) assms(3), of "nat n" message sdk dict_eq draw jo r] assms(2) ok(3) [of r] unfolding run_def by auto
  have "map (\<lambda>(_, sub). tk_name sub) rs = map (\<lambda>tc. tk_name (fst tc)) ts" using run(2) by (induction rule: list_all2_induct) auto
  then have d: "distinct (map (\<lambda>(_, sub). tk_name sub) rs)" using ok(2) by simp
  have fin: "res = Inr ()" if "(res, sub) \<in> set rs" for res sub using run(2) that by (induction rule: list_all2_induct) auto
  have "\<forall>(_, sub) \<in> set rs. map_of (tm_futures (submit rs (dg_manager t))) (tk_name sub) = Some (Finished (Inr ()))"
    using submit_futures [OF d] fin by auto
  then obtain tm' where a: "await_results rs (submit rs (dg_manager t)) = (Inr (), tm')" using await_results_ok [OF d] by blast
  have "\<not> length clients < pc" "\<not> n \<le> 0" using assms(1,2) by (auto simp: dgm_setting_def)
  then show ?thesis using run(1,3,4) a assms(4) by (simp add: load_next_batch_of_docs_def ts_def [symmetric] Let_def)
qed

text \<open>The loop ends if, once some number of documents has been written, the ratios are at the threshold; until then each batch
  moves it nearer.\<close>

definition dgm_reached where
  "dgm_reached fetch threshold w \<longleftrightarrow> (\<exists>active replica. get_bucket_dgm (fetch w) = Inr (active, replica) \<and> \<not> (threshold < active \<and> threshold < replica))"

lemma load_bucket_into_dgm_ok:
  fixes g :: "'t docgen" and sdk :: "('t docval, 'p, 'c) sdk"
  assumes set: "dgm_setting cfg col pc b clients g" "0 < n"
    and fetch: "\<forall>w. \<exists>x. get_bucket_dgm (fetch w) = Inr x" "\<forall>w. m \<le> length (log_writes (snd (wo_conn w))) \<longrightarrow> dgm_reached fetch threshold w"
    and run: "run = (\<lambda>sub cfg. load_documents (\<lambda>_. False) message (recorded sdk) dict_eq draw (batched_ops jo r (nat n)) cfg sub)"
    and "fst ` set (snd (wo_conn w)) \<subseteq> {col}" and "map_of (dg_loaded t) (cfg_bucket cfg) = Some l"
  shows "\<exists>k t' w'. load_bucket_into_dgm fetch threshold (load_next_batch_of_docs run now pc b n cfg clients g) t w = Some (Inr (), t', w') \<and>
    dgm_reached fetch threshold w' \<and> map_of (dg_loaded t') (cfg_bucket cfg) = Some (l + int k) \<and> fst ` set (snd (wo_conn w')) \<subseteq> {col} \<and>
    dg_doc_index t' = dg_doc_index t + int k \<and>
    log_writes (snd (wo_conn w')) = log_writes (snd (wo_conn w)) @ map (kv_next_key g) [dg_doc_index t..dg_doc_index t + int k - 1]"
  using assms(6,7)
proof (induction "m - length (log_writes (snd (wo_conn w)))" arbitrary: w t l rule: less_induct)
  case less
  obtain active replica where f: "get_bucket_dgm (fetch w) = Inr (active, replica)" using fetch(1) by (metis surj_pair)
  show ?case
  proof (cases "threshold < active \<and> threshold < replica")
    case False
    then have "load_bucket_into_dgm fetch threshold (load_next_batch_of_docs run now pc b n cfg clients g) t w = Some (Inr (), t, w)"
      by (subst load_bucket_into_dgm.simps) (auto simp: f)
    moreover have "dgm_reached fetch threshold w" using False f by (auto simp: dgm_reached_def)
    ultimately show ?thesis using less.prems by (intro exI [of _ 0]) simp
  next
    case True
    obtain t1 w1 where one: "load_next_batch_of_docs run now pc b n cfg clients g t w = Some (Inr (), t1, w1)"
      "dg_doc_index t1 = dg_doc_index t + int pc * b" "map_of (dg_loaded t1) (cfg_bucket cfg) = Some (l + int pc * b)"
      "fst ` set (snd (wo_conn w1)) \<subseteq> {col}"
      "log_writes (snd (wo_conn w1)) = log_writes (snd (wo_conn w)) @ map (kv_next_key g) [dg_doc_index t..dg_doc_index t + int pc * b - 1]"
      using dgm_batch_ok [OF set less.prems run] by blast
    have pos: "0 < int pc * b" using set(1) by (simp add: dgm_setting_def)
    have "\<not> m \<le> length (log_writes (snd (wo_conn w)))" using fetch(2) True f by (auto simp: dgm_reached_def)
    then have "m - length (log_writes (snd (wo_conn w1))) < m - length (log_writes (snd (wo_conn w)))" using pos one(5) by simp
    from less.hyps [OF this one(4,3)] obtain k t' w' where rest:
      "load_bucket_into_dgm fetch threshold (load_next_batch_of_docs run now pc b n cfg clients g) t1 w1 = Some (Inr (), t', w')"
      "dgm_reached fetch threshold w'" "map_of (dg_loaded t') (cfg_bucket cfg) = Some (l + int pc * b + int k)" "fst ` set (snd (wo_conn w')) \<subseteq> {col}"
      "dg_doc_index t' = dg_doc_index t1 + int k"
      "log_writes (snd (wo_conn w')) = log_writes (snd (wo_conn w1)) @ map (kv_next_key g) [dg_doc_index t1..dg_doc_index t1 + int k - 1]" by blast
    have "load_bucket_into_dgm fetch threshold (load_next_batch_of_docs run now pc b n cfg clients g) t w = Some (Inr (), t', w')"
      using True one(1) rest(1) by (subst load_bucket_into_dgm.simps) (simp add: f)
    moreover have "[dg_doc_index t..dg_doc_index t + int pc * b - 1] @ [dg_doc_index t1..dg_doc_index t1 + int k - 1] =
      [dg_doc_index t..dg_doc_index t + (int pc * b + int k) - 1]"
      using upto_glue [of "dg_doc_index t" "dg_doc_index t + int pc * b" "dg_doc_index t + (int pc * b + int k)"] pos by (simp add: one(2) add.assoc)
    ultimately show ?thesis using rest one pos
      by (intro exI [of _ "nat (int pc * b) + k"]) (simp add: add.assoc flip: map_append)
  qed
qed

text \<open>The collection object after the load.\<close>

lemma replaced_bucket_collection:
  assumes "get_bucket_obj bs bn = Some b" and "the_collection b sn cn = Some c"
  shows "\<exists>b'. get_bucket_obj (replace_bucket bn (update_collection sn cn f) bs) bn = Some b' \<and> the_collection b' sn cn = Some (f c)"
proof -
  let ?P = "\<lambda>b. b_name b = BStr bn" and ?u = "update_collection sn cn f"
  have "\<exists>rest. dropWhile (\<lambda>b. \<not> ?P b) bs = b # rest" and P: "?P b" using assms(1) unfolding get_bucket_obj_def by (induction bs) (auto split: if_splits)
  then obtain rest where "replace_bucket bn ?u bs = takeWhile (\<lambda>b. \<not> ?P b) bs @ ?u b # rest" using assms(1) by (auto simp: replace_bucket_def)
  moreover have "find ?P (takeWhile (\<lambda>b. \<not> ?P b) xs @ ?u b # rest) = Some (?u b)" for xs
    using P by (induction xs) (auto simp: update_collection_def update_scope_def split: option.splits)
  moreover have "the_collection (?u b) sn cn = Some (f c)"
    using assms(2) by (auto simp: the_collection_def update_collection_scope bind_eq_Some_conv)
  ultimately show ?thesis by (simp add: get_bucket_obj_def)
qed


text \<open>The bucket fits into memory until two documents are written.\<close>

definition two_docs_fit :: "('c \<times> ((string \<times> string) \<times> ('v, 'p) bulk_call) list) world \<Rightarrow> string \<Rightarrow> string \<Rightarrow> int res" where
  "two_docs_fit w bn stat = Inr (if 2 \<le> length (log_writes (snd (wo_conn w))) then 50 else 100)"


section \<open>Deviations\<close>

text \<open>With several buckets, the task that repeats its documents works on the first one only: the flag that ends the loop is still
  set when the next begins.\<close>

lemma start_doc_ops_stops: "start_doc_ops stopped round t w = Some y \<Longrightarrow> fst y = Inr () \<longrightarrow> ct_stop_updates (fst (snd y))"
proof (induction rule: start_doc_ops.raw_induct [rotated, consumes 1])
  case (1 f stopped round t w y)
  from 1(2) show ?case by (auto simp: cont_end_task_def split: if_splits option.splits prod.splits sum.splits dest: 1(1))
qed

lemma continuous_ops_first_bucket_only:
  assumes "start_doc_ops stopped (round_of b) t w = Some (Inr (), t', w')"
  shows "each_bucket stopped round_of (b # bs) t w = Some (Inr (), t', w')"
proof -
  have stop: "ct_stop_updates t'" using start_doc_ops_stops [OF assms] by simp
  then have "cont_end_task t' = t'" by (cases t') (simp add: cont_end_task_def)
  with stop have "each_bucket stopped round_of bs t' w' = Some (Inr (), t', w')"
    by (induction bs) (simp_all add: start_doc_ops.simps)
  then show ?thesis by (simp add: assms)
qed

text \<open>Failures that are not there yet when a sub-task is submitted are lost.\<close>

lemma fold_no_update: "fold (\<lambda>(x, sub) d. dict_update_all d []) rs d = d"
  by (induction rs) (auto simp: dict_update_all_def)

lemma continuous_ops_lose_failures:
  assumes "cont_round run (\<lambda>_. []) now batch_size cfg clients g t w = Some (res, t', w')"
  shows "ct_fail t' = ct_fail t"
  using assms by (auto simp: cont_round_def Let_def fold_no_update split: sum.splits option.splits prod.splits)

text \<open>The names of sub-tasks for sub-documents do not contain the bucket: those of two buckets agree.\<close>

lemma rmap_map: "rmap f xs = Inr ys \<Longrightarrow> (\<And>x y. f x = Inr y \<Longrightarrow> h y = k x) \<Longrightarrow> map h ys = map k xs"
  by (induction xs arbitrary: ys) (auto simp: rbind_eq_Inr)

lemma sub_task_names:
  assumes "sub_get_tasks is_subdoc pc n sb clients cfg g = Inr ts"
  shows "\<exists>gs. partition_gens pc n g = Inr gs \<and>
    map (tk_name \<circ> fst) ts = map (\<lambda>(i, p). sub_task_name [] (kg_start p) (kg_end p) (cfg_op_type cfg) (ca_durability (cfg_args cfg))) (enumerate 0 gs)"
proof -
  obtain gs where gs: "partition_gens pc n g = Inr gs" "rmap (\<lambda>(i, p). rbind (py_nth clients (int i)) (\<lambda>cl.
      Inr (new_load_task (sub_task_name [] (kg_start p) (kg_end p) (cfg_op_type cfg) (ca_durability (cfg_args cfg))) p (cfg_exp cfg),
           cfg\<lparr>cfg_own := cl\<rparr>, sb))) (enumerate 0 gs) = Inr ts"
    using assms by (auto simp: sub_get_tasks_def rbind_eq_Inr split: if_splits sum.splits)
  have "map (tk_name \<circ> fst) ts = map (\<lambda>(i, p). sub_task_name [] (kg_start p) (kg_end p) (cfg_op_type cfg) (ca_durability (cfg_args cfg))) (enumerate 0 gs)"
    by (rule rmap_map [OF gs(2)]) (auto simp: rbind_eq_Inr new_load_task_def)
  with gs(1) show ?thesis by blast
qed

lemma sub_task_names_agree:
  assumes "sub_get_tasks is_subdoc pc n sb clients cfg g = Inr ts" and "sub_get_tasks is_subdoc pc n sb clients (cfg\<lparr>cfg_bucket := b\<rparr>) g = Inr ts'"
  shows "map (tk_name \<circ> fst) ts = map (tk_name \<circ> fst) ts'"
  using sub_task_names [OF assms(1)] sub_task_names [OF assms(2)] by auto

end
