(* ===== verification/Durable_Load.thy ===== *)
theory Durable_Load
  imports Load_Tasks Vb_Aware
begin

text \<open>
  The task that writes documents with durability and checks them while it writes (\<^verbatim>\<open>Durability\<close> in
  \<^verbatim>\<open>lib/Jython_tasks/task.py\<close>). \<^verbatim>\<open>Durability.call\<close> splits the generator into ranges with one \<^verbatim>\<open>Loader\<close>
  each; a loader runs up to three threads on one object: the writer (\<^verbatim>\<open>call\<close> and \<^verbatim>\<open>next\<close>), the reader
  (\<^verbatim>\<open>Reader\<close>), which follows the writer's offset and asks all replicas for each document, and
  \<^verbatim>\<open>Persistence\<close>, which asks the nodes whether they have stored it.

  A thread is a function from the shared state to the state after its next step, \<open>None\<close> when it
  waits. A step touches the server or the attributes that several threads use once. The threads
  are interleaved arbitrarily by \<open>dl_step\<close>; a run collects what the reader and the persistence
  thread found out.

  The client, the SDK, the request for all copies and the statistics of a key are parameters. Sleeping and
  logging are left out.
\<close>

section \<open>The state\<close>

text \<open>What the results of the check have for a key: the document, or (for deletions, where
  the first copy itself is added to the results) the fields of the copy.\<close>

datatype 'v report = Doc 'v | CopyKey string | CopyValue 'v | CopyCas int | CopyStatus bool

datatype ('v, 'p) writer_pc =
    WIdle
  | WFetched "(string \<times> 'v) list"
  | WOld "(string \<times> 'v) list" "('v, 'p) results"
  | WReady "(string \<times> 'v) list"
  | WWrote "(string \<times> 'v) list" "('v, 'p) results"
  | WFiled "(string \<times> 'v) list"
  | WDone
  | WOver
  | WFailed

datatype 'v reader_pc =
    RStart
  | RCheck
  | RDoc string 'v
  | RResult string 'v "'v replica_doc list"
  | RAfter
  | REnd
  | RDead

datatype 'v persist_pc =
    PStart
  | PCheck
  | PDoc string 'v
  | PCount string 'v nat
  | PAfter
  | PEnd
  | PDead

record ('t, 'p, 'c) loader = task +
  dl_gen :: "'t docgen"
  dl_end :: int
  dl_write_offset :: int
  dl_create_failed :: "('t docval, 'p) results"
  dl_update_failed :: "('t docval, 'p) results"
  dl_delete_failed :: "('t docval, 'p) results"
  dl_docs_to_be_updated :: "('t docval, 'p) results"
  dl_docs_to_be_deleted :: "('t docval, 'p) results"
  dl_sdk_acked_curd_failed :: "(string, 't docval report) dict"
  dl_sdk_exception_crud_succeed :: "(string, 't docval report) dict"
  dl_sdk_acked_pers_failed :: "(string, 't docval report) dict"
  dl_conn :: 'c
  dl_writer :: "('t docval, 'p) writer_pc"
  dl_reader :: "'t docval reader_pc"
  dl_reader_gen :: "'t docgen"
  dl_read_offset :: int
  dl_persist :: "'t docval persist_pc"
  dl_persist_gen :: "'t docgen"
  dl_persistence_offset :: int

record ('t, 'p, 'c) loader_env =
  le_json :: "'t json_ops"
  le_rng :: rng
  le_sdk :: "('t docval, 'p, 'c) sdk"
  le_get_all :: "string \<times> string \<Rightarrow> string \<Rightarrow> 'c \<Rightarrow> ('t docval \<times> int) list res \<times> 'c"
  le_vkey_stat :: "string \<Rightarrow> string \<Rightarrow> 'c \<Rightarrow> (string, string) dict res \<times> 'c"
  le_dict_eq :: "('t docval, 'p) entry \<Rightarrow> 't docval rvalue option \<Rightarrow> bool"
  le_message :: "py_error \<Rightarrow> string"
  le_op_type :: string
  le_args :: crud_args
  le_col :: "string \<times> string"
  le_batch_size :: nat
  le_check_persistence :: bool
  le_replicaNumber :: int
  le_vbuckets :: "vBucket list"
  le_servers :: "string list"

text \<open>\<^verbatim>\<open>DurableDocLoaderTask_%d_%s_%d_%d_%s\<close>.\<close>

definition loader_name :: "nat \<Rightarrow> string \<Rightarrow> 'a kvgen_scheme \<Rightarrow> string \<Rightarrow> string" where
  "loader_name instance_num bucket g op_type =
     ''DurableDocLoaderTask_'' @ nat_str instance_num @ ''_'' @ bucket @ ''_'' @ int_str (kg_start g) @ ''_'' @
     int_str (kg_end g) @ ''_'' @ op_type"

definition loader_init :: "('t, 'p, 'c) loader_env \<Rightarrow> string \<Rightarrow> 't docgen \<Rightarrow> 'c \<Rightarrow> ('t, 'p, 'c) loader" where
  "loader_init env name g c =
     task.extend (start_task (new_task name))
     \<lparr>dl_gen = g, dl_end = kg_end g, dl_write_offset = kg_start g, dl_create_failed = [], dl_update_failed = [],
      dl_delete_failed = [], dl_docs_to_be_updated = [], dl_docs_to_be_deleted = [],
      dl_sdk_acked_curd_failed = [], dl_sdk_exception_crud_succeed = [], dl_sdk_acked_pers_failed = [], dl_conn = c,
      dl_writer = WIdle, dl_reader = RStart, dl_reader_gen = g, dl_read_offset = kg_start g,
      dl_persist = (if le_check_persistence env then PStart else PEnd), dl_persist_gen = g,
      dl_persistence_offset = kg_start g\<rparr>"


section \<open>The writer\<close>

definition writer_raises :: "string \<Rightarrow> ('t, 'p, 'c) loader \<Rightarrow> ('t, 'p, 'c) loader" where
  "writer_raises msg s = (snd (set_exception msg s :: (raised + unit) \<times> ('t, 'p, 'c) loader))\<lparr>dl_writer := WFailed\<rparr>"

definition fetch_batch ::
  "('t, 'p, 'c) loader_env \<Rightarrow> 't docgen \<Rightarrow> ((string \<times> 't docval) list \<times> 't docgen) res" where
  "fetch_batch env g =
     next_batch kv_has_next (docgen_next (le_json env) (le_rng env)) (docgen_next_key (le_rng env)) kg_deep_copy
       (le_batch_size env) False (DText []) g"

text \<open>The documents as they are before an update or a deletion.\<close>

definition writer_read ::
  "('t, 'p, 'c) loader_env \<Rightarrow> (string \<times> 't docval) list \<Rightarrow> ('t, 'p, 'c) loader \<Rightarrow> ('t, 'p, 'c) loader" where
  "writer_read env kv s =
     (if le_op_type env = ''create'' then s\<lparr>dl_writer := WReady kv\<rparr>
      else if le_op_type env \<in> set [''update'', ''delete'']
      then (case batch_read (le_sdk env) (Some (le_col env)) (map fst kv) (le_args env) (dl_conn s) of
              (Inl e, c) \<Rightarrow> writer_raises (le_message env e) (s\<lparr>dl_conn := c\<rparr>)
            | (Inr (found, _), c) \<Rightarrow> s\<lparr>dl_conn := c, dl_writer := WOld kv found\<rparr>)
      else writer_raises (''Bad operation type: '' @ le_op_type env) s)"

definition writer_write ::
  "('t, 'p, 'c) loader_env \<Rightarrow> (string \<times> 't docval) list \<Rightarrow> ('t, 'p, 'c) loader \<Rightarrow> ('t, 'p, 'c) loader" where
  "writer_write env kv s =
     (let wrote = (\<lambda>((_, fail), c). s\<lparr>dl_conn := c, dl_writer := WWrote kv fail\<rparr>); col = Some (le_col env) in
      if le_op_type env = ''create'' then wrote (batch_create (le_sdk env) col kv (le_args env) False (dl_conn s))
      else if le_op_type env = ''update''
      then wrote (batch_update (le_sdk env) (le_dict_eq env) col kv (le_args env) False (dl_conn s))
      else (case batch_delete (le_sdk env) col kv (le_args env) (dl_conn s) of
              (Inl e, c) \<Rightarrow> writer_raises (le_message env e) (s\<lparr>dl_conn := c\<rparr>)
            | (Inr sf, c) \<Rightarrow> wrote (sf, c)))"

definition file_failures ::
  "('t, 'p, 'c) loader_env \<Rightarrow> ('t docval, 'p) results \<Rightarrow> ('t, 'p, 'c) loader \<Rightarrow> ('t, 'p, 'c) loader" where
  "file_failures env f_docs s =
     (if le_op_type env = ''create''
      then (if f_docs \<noteq> [] then s\<lparr>dl_create_failed := dict_update_all (dl_create_failed s) f_docs\<rparr> else s)
      else if le_op_type env = ''update'' then s\<lparr>dl_update_failed := dict_update_all (dl_update_failed s) f_docs\<rparr>
      else s\<lparr>dl_delete_failed := dict_update_all (dl_delete_failed s) f_docs\<rparr>)"

definition keep_old ::
  "('t, 'p, 'c) loader_env \<Rightarrow> ('t docval, 'p) results \<Rightarrow> ('t, 'p, 'c) loader \<Rightarrow> ('t, 'p, 'c) loader" where
  "keep_old env found s =
     (if le_op_type env = ''update''
      then s\<lparr>dl_docs_to_be_updated := dict_update_all (dl_docs_to_be_updated s) found\<rparr>
      else s\<lparr>dl_docs_to_be_deleted := dict_update_all (dl_docs_to_be_deleted s) found\<rparr>)"

definition checks_over :: "('t, 'p, 'c) loader \<Rightarrow> bool" where
  "checks_over s \<longleftrightarrow> dl_reader s \<in> {REnd, RDead} \<and> dl_persist s \<in> {PEnd, PDead}"

fun writer_at ::
  "('t, 'p, 'c) loader_env \<Rightarrow> ('t docval, 'p) writer_pc \<Rightarrow> ('t, 'p, 'c) loader \<Rightarrow> ('t, 'p, 'c) loader option" where
  "writer_at env WIdle s =
     Some (if kv_has_next (dl_gen s) then
             (case fetch_batch env (dl_gen s) of
                Inl e \<Rightarrow> writer_raises (le_message env e) s
              | Inr (kv, g) \<Rightarrow> s\<lparr>dl_gen := g, dl_writer := WFetched kv\<rparr>)
           else s\<lparr>dl_writer := WDone\<rparr>)"
| "writer_at env (WFetched kv) s = Some (writer_read env kv s)"
| "writer_at env (WOld kv found) s = Some ((keep_old env found s)\<lparr>dl_writer := WReady kv\<rparr>)"
| "writer_at env (WReady kv) s = Some (writer_write env kv s)"
| "writer_at env (WWrote kv f_docs) s = Some ((file_failures env f_docs s)\<lparr>dl_writer := WFiled kv\<rparr>)"
| "writer_at env (WFiled kv) s =
     Some (s\<lparr>dl_write_offset := dl_write_offset s + int (length kv), dl_writer := WIdle\<rparr>)"
| "writer_at env WDone s = (if checks_over s then Some ((complete_task s)\<lparr>dl_writer := WOver\<rparr>) else None)"
| "writer_at env WOver s = None"
| "writer_at env WFailed s = None"

definition writer_step :: "('t, 'p, 'c) loader_env \<Rightarrow> ('t, 'p, 'c) loader \<Rightarrow> ('t, 'p, 'c) loader option" where
  "writer_step env s = writer_at env (dl_writer s) s"


section \<open>The reader\<close>

definition DurabilityAmbiguousException :: string where
  "DurabilityAmbiguousException = ''com.couchbase.client.core.error.DurabilityAmbiguousException''"

definition sdk_TimeoutException :: string where
  "sdk_TimeoutException = ''com.couchbase.client.core.error.TimeoutException''"

definition acked_failed :: "string \<Rightarrow> 't docval \<Rightarrow> ('t, 'p, 'c) loader \<Rightarrow> ('t, 'p, 'c) loader" where
  "acked_failed key val s = s\<lparr>dl_sdk_acked_curd_failed := AList.update key (Doc val) (dl_sdk_acked_curd_failed s)\<rparr>"

definition exception_succeeded :: "string \<Rightarrow> 't docval \<Rightarrow> ('t, 'p, 'c) loader \<Rightarrow> ('t, 'p, 'c) loader" where
  "exception_succeeded key val s =
     s\<lparr>dl_sdk_exception_crud_succeed := AList.update key (Doc val) (dl_sdk_exception_crud_succeed s)\<rparr>"

definition judge_create ::
  "string \<Rightarrow> 't docval \<Rightarrow> 't docval replica_doc list \<Rightarrow> ('t, 'p, 'c) loader \<Rightarrow> ('t, 'p, 'c) loader res" where
  "judge_create key val result s =
     (case map_of (dl_create_failed s) key of
        None \<Rightarrow> Inr (if result = [] then acked_failed key val s else s)
      | Some e \<Rightarrow>
          if result \<noteq> [] then
            (case en_error e of
               None \<Rightarrow> Inl KeyError
             | Some error \<Rightarrow>
                 Inr (if in_str DurabilityAmbiguousException error \<or> in_str sdk_TimeoutException error then s
                      else exception_succeeded key val s))
          else Inr s)"

text \<open>\<^verbatim>\<open>doc["value"] == self.docs_to_be_updated[key]["value"]\<close>, read for each copy.\<close>

definition judge_update ::
  "string \<Rightarrow> 't docval \<Rightarrow> 't docval replica_doc list \<Rightarrow> ('t, 'p, 'c) loader \<Rightarrow> ('t, 'p, 'c) loader res" where
  "judge_update key val result s =
     (case result of
        [] \<Rightarrow> Inr (if \<not> dict_has (dl_update_failed s) key then acked_failed key val s else s)
      | _ \<Rightarrow>
          rbind (dict_lookup (dl_docs_to_be_updated s) key) (\<lambda>old.
          case en_value old of
            None \<Rightarrow> Inl KeyError
          | Some v \<Rightarrow>
              let changed = \<lambda>d. RValue (rd_value d) \<noteq> v in
              Inr (if \<not> dict_has (dl_update_failed s) key
                   then (if list_ex changed result then s else acked_failed key val s)
                   else (if list_ex changed result then exception_succeeded key val s else s))))"

definition judge_delete ::
  "('t, 'p, 'c) loader_env \<Rightarrow> string \<Rightarrow> 't docval replica_doc list \<Rightarrow> ('t, 'p, 'c) loader \<Rightarrow> ('t, 'p, 'c) loader res" where
  "judge_delete env key result s =
     (if \<not> dict_has (dl_delete_failed s) key \<and> le_replicaNumber env < int (length result) then
        (case result of
           [] \<Rightarrow> Inl IndexError
         | d # _ \<Rightarrow>
             Inr (s\<lparr>dl_sdk_acked_curd_failed := dict_update_all (dl_sdk_acked_curd_failed s)
                     [(''key'', CopyKey key), (''value'', CopyValue (rd_value d)), (''cas'', CopyCas (rd_cas d)),
                      (''status'', CopyStatus True)]\<rparr>))
      else Inr s)"

definition judge_copies ::
  "('t, 'p, 'c) loader_env \<Rightarrow> string \<Rightarrow> 't docval \<Rightarrow> 't docval replica_doc list \<Rightarrow> ('t, 'p, 'c) loader \<Rightarrow>
   ('t, 'p, 'c) loader res" where
  "judge_copies env key val result s =
     (if le_op_type env = ''create'' then judge_create key val result s
      else if le_op_type env = ''update'' then judge_update key val result s
      else judge_delete env key result s)"

datatype 'v check_event = Looked string "'v replica_doc list" | Counted string nat

text \<open>The copy of the generator that a checking thread makes of the writer's when it starts.\<close>

definition copy_gen :: "('t, 'p, 'c) loader \<Rightarrow> 't docgen" where
  "copy_gen s = partition_gen (dl_gen s) (kg_start (dl_gen s), kg_end (dl_gen s))"

definition reader_take :: "('t, 'p, 'c) loader_env \<Rightarrow> ('t, 'p, 'c) loader \<Rightarrow> ('t, 'p, 'c) loader" where
  "reader_take env s =
     (if kv_has_next (dl_reader_gen s) then
        (case docgen_next (le_json env) (le_rng env) (dl_reader_gen s) of
           Inl e \<Rightarrow> s\<lparr>dl_reader := RDead\<rparr>
         | Inr ((key, val), g) \<Rightarrow> s\<lparr>dl_reader_gen := g, dl_reader := RDoc key val\<rparr>)
      else s\<lparr>dl_reader := RAfter\<rparr>)"

definition reader_look ::
  "('t, 'p, 'c) loader_env \<Rightarrow> string \<Rightarrow> 't docval \<Rightarrow> ('t, 'p, 'c) loader \<Rightarrow> 't docval check_event list \<times> ('t, 'p, 'c) loader" where
  "reader_look env key val s =
     (if le_op_type env \<in> set [''create'', ''update'', ''delete''] then
        (case get_from_all_replicas (le_get_all env) (le_col env) key (dl_conn s) of
           (Inl e, c) \<Rightarrow> ([], s\<lparr>dl_conn := c, dl_reader := RDead\<rparr>)
         | (Inr result, c) \<Rightarrow> ([Looked key result], s\<lparr>dl_conn := c, dl_reader := RResult key val result\<rparr>))
      else ([], s\<lparr>dl_reader := RAfter\<rparr>))"

fun reader_at ::
  "('t, 'p, 'c) loader_env \<Rightarrow> 't docval reader_pc \<Rightarrow> ('t, 'p, 'c) loader \<Rightarrow>
   ('t docval check_event list \<times> ('t, 'p, 'c) loader) option" where
  "reader_at env RStart s =
     Some ([], s\<lparr>dl_reader_gen := copy_gen s, dl_read_offset := kg_start (dl_gen s), dl_reader := RCheck\<rparr>)"
| "reader_at env RCheck s =
     (if dl_read_offset s < dl_write_offset s \<or> dl_read_offset s = dl_end s
      then Some ([], reader_take env s) else None)"
| "reader_at env (RDoc key val) s = Some (reader_look env key val s)"
| "reader_at env (RResult key val result) s =
     Some ([], case judge_copies env key val result s of
                 Inl e \<Rightarrow> s\<lparr>dl_reader := RDead\<rparr>
               | Inr s' \<Rightarrow> s'\<lparr>dl_reader := RAfter\<rparr>)"
| "reader_at env RAfter s =
     Some ([], if dl_read_offset s = dl_end s then s\<lparr>dl_reader := REnd\<rparr>
               else s\<lparr>dl_read_offset := dl_read_offset s + 1, dl_reader := RCheck\<rparr>)"
| "reader_at env REnd s = None"
| "reader_at env RDead s = None"

definition reader_step where
  "reader_step env s = reader_at env (dl_reader s) s"


section \<open>The check of persistence\<close>

text \<open>The nodes of the document's vbucket.\<close>

definition persist_nodes :: "('t, 'p, 'c) loader_env \<Rightarrow> string \<Rightarrow> string list res" where
  "persist_nodes env key =
     rbind (py_nth (le_vbuckets env) (get_vbucket_num_for_key key (int (length (le_vbuckets env))))) (\<lambda>vb.
     Inr (vb_master vb # (if ca_durability (le_args env) = ''PERSIST_TO_MAJORITY'' then vb_replica vb else [])))"

definition node_clean ::
  "('t, 'p, 'c) loader_env \<Rightarrow> string \<Rightarrow> string \<Rightarrow> 'c \<Rightarrow> bool res \<times> 'c" where
  "node_clean env key node c =
     (let ip = hd (py_split (CHR '':'') node) in
      if ip \<in> set (le_servers env)
      then (case le_vkey_stat env ip key c of
              (r, c') \<Rightarrow> (rbind r (\<lambda>st. rbind (dict_lookup st ''is_dirty'') (\<lambda>d. Inr (py_lower d \<noteq> ''true''))), c'))
      else (Inl KeyError, c))"

text \<open>The loop over the nodes inside one \<^verbatim>\<open>try\<close>: the first exception ends it.\<close>

fun count_clean :: "('t, 'p, 'c) loader_env \<Rightarrow> string \<Rightarrow> string list \<Rightarrow> nat \<Rightarrow> 'c \<Rightarrow> nat \<times> 'c" where
  "count_clean env key [] count c = (count, c)"
| "count_clean env key (node # nodes) count c =
     (case node_clean env key node c of
        (Inl e, c') \<Rightarrow> (count, c')
      | (Inr clean, c') \<Rightarrow> count_clean env key nodes (if clean then Suc count else count) c')"

text \<open>For deletions the \<^verbatim>\<open>try\<close> is inside the loop.\<close>

fun count_clean_each :: "('t, 'p, 'c) loader_env \<Rightarrow> string \<Rightarrow> string list \<Rightarrow> nat \<Rightarrow> 'c \<Rightarrow> nat \<times> 'c" where
  "count_clean_each env key [] count c = (count, c)"
| "count_clean_each env key (node # nodes) count c =
     (case node_clean env key node c of
        (r, c') \<Rightarrow> count_clean_each env key nodes (if r = Inr True then Suc count else count) c')"

text \<open>\<^verbatim>\<open>self.update_failed[self.instance]\<close> and \<^verbatim>\<open>self.delete_failed[self.instance]\<close> look up the number of the
  loader among keys of documents: \<^verbatim>\<open>KeyError\<close>, before the nodes are asked for updates and after it for
  deletions.\<close>

definition persist_count ::
  "('t, 'p, 'c) loader_env \<Rightarrow> string \<Rightarrow> 't docval \<Rightarrow> ('t, 'p, 'c) loader \<Rightarrow> 't docval check_event list \<times> ('t, 'p, 'c) loader" where
  "persist_count env key val s =
     (case persist_nodes env key of
        Inl e \<Rightarrow> ([], s\<lparr>dl_persist := PDead\<rparr>)
      | Inr nodes \<Rightarrow>
          if le_op_type env = ''create''
          then (case count_clean env key nodes 0 (dl_conn s) of
                  (n, c) \<Rightarrow> ([Counted key n], s\<lparr>dl_conn := c, dl_persist := PCount key val n\<rparr>))
          else if le_op_type env = ''update'' then ([], s\<lparr>dl_persist := PDead\<rparr>)
          else if le_op_type env = ''delete''
          then (case count_clean_each env key nodes 0 (dl_conn s) of
                  (n, c) \<Rightarrow> ([Counted key n], s\<lparr>dl_conn := c, dl_persist := PDead\<rparr>))
          else ([], s\<lparr>dl_persist := PAfter\<rparr>))"

definition judge_persistence ::
  "string \<Rightarrow> 't docval \<Rightarrow> nat \<Rightarrow> ('t, 'p, 'c) loader \<Rightarrow> ('t, 'p, 'c) loader" where
  "judge_persistence key val count s =
     (if \<not> dict_has (dl_create_failed s) key
      then (if count = 0
            then s\<lparr>dl_sdk_acked_pers_failed := AList.update key (Doc val) (dl_sdk_acked_pers_failed s)\<rparr> else s)
      else if 0 < count then exception_succeeded key val s else s)"

definition persist_take :: "('t, 'p, 'c) loader_env \<Rightarrow> ('t, 'p, 'c) loader \<Rightarrow> ('t, 'p, 'c) loader" where
  "persist_take env s =
     (if kv_has_next (dl_persist_gen s) then
        (case docgen_next (le_json env) (le_rng env) (dl_persist_gen s) of
           Inl e \<Rightarrow> s\<lparr>dl_persist := PDead\<rparr>
         | Inr ((key, val), g) \<Rightarrow> s\<lparr>dl_persist_gen := g, dl_persist := PDoc key val\<rparr>)
      else s\<lparr>dl_persist := PAfter\<rparr>)"

fun persist_at ::
  "('t, 'p, 'c) loader_env \<Rightarrow> 't docval persist_pc \<Rightarrow> ('t, 'p, 'c) loader \<Rightarrow>
   ('t docval check_event list \<times> ('t, 'p, 'c) loader) option" where
  "persist_at env PStart s =
     Some ([], s\<lparr>dl_persist_gen := copy_gen s, dl_persistence_offset := kg_start (dl_gen s), dl_persist := PCheck\<rparr>)"
| "persist_at env PCheck s =
     (if dl_persistence_offset s < dl_write_offset s \<or> dl_persistence_offset s = dl_end s
      then Some ([], persist_take env s) else None)"
| "persist_at env (PDoc key val) s = Some (persist_count env key val s)"
| "persist_at env (PCount key val count) s = Some ([], (judge_persistence key val count s)\<lparr>dl_persist := PAfter\<rparr>)"
| "persist_at env PAfter s =
     Some ([], if dl_persistence_offset s = dl_end s then s\<lparr>dl_persist := PEnd\<rparr>
               else s\<lparr>dl_persistence_offset := dl_write_offset s, dl_persist := PCheck\<rparr>)"
| "persist_at env PEnd s = None"
| "persist_at env PDead s = None"

definition persist_step where
  "persist_step env s = persist_at env (dl_persist s) s"


section \<open>Runs\<close>

inductive dl_step ::
  "('t, 'p, 'c) loader_env \<Rightarrow> ('t, 'p, 'c) loader \<Rightarrow> 't docval check_event list \<Rightarrow> ('t, 'p, 'c) loader \<Rightarrow> bool" for env where
  writer: "writer_step env s = Some s' \<Longrightarrow> dl_step env s [] s'"
| reader: "reader_step env s = Some (ev, s') \<Longrightarrow> dl_step env s ev s'"
| persist: "persist_step env s = Some (ev, s') \<Longrightarrow> dl_step env s ev s'"

text \<open>A run of \<open>n\<close> steps and what was found out in it.\<close>

inductive dl_run ::
  "('t, 'p, 'c) loader_env \<Rightarrow> ('t, 'p, 'c) loader \<Rightarrow> nat \<Rightarrow> 't docval check_event list \<Rightarrow> ('t, 'p, 'c) loader \<Rightarrow> bool"
  for env s0 where
  start: "dl_run env s0 0 [] s0"
| step: "dl_run env s0 n tr s \<Longrightarrow> dl_step env s ev s' \<Longrightarrow> dl_run env s0 (Suc n) (tr @ ev) s'"


section \<open>The main task\<close>

text \<open>The ranges and the generators of \<^verbatim>\<open>Durability.call\<close>: the end of the whole range is at least one.\<close>

definition durability_gens :: "int \<Rightarrow> int \<Rightarrow> 'a kvgen_scheme \<Rightarrow> 'a kvgen_scheme list res" where
  "durability_gens process_concurrency batch_size g =
     rbind (gen_range (kg_start g) (kg_end g) process_concurrency) (\<lambda>r.
     rmap (\<lambda>pos. rbind (batch_init (partition_gen g (pos, if kg_end g < pos + r then kg_end g else pos + r)) batch_size)
                   (\<lambda>(p, _). Inr p))
       (py_range (kg_start g) (max (kg_end g) 1) r))"

text \<open>What the main task collects from its loaders.\<close>

record ('v, 'p) dur_results =
  dr_create_failed :: "('v, 'p) results"
  dr_update_failed :: "('v, 'p) results"
  dr_delete_failed :: "('v, 'p) results"
  dr_sdk_acked_curd_failed :: "(string, 'v report) dict"
  dr_sdk_exception_crud_succeed :: "(string, 'v report) dict"
  dr_sdk_acked_pers_failed :: "(string, 'v report) dict"

definition collect_loader :: "('t, 'p, 'c) loader \<Rightarrow> ('t docval, 'p) dur_results \<Rightarrow> ('t docval, 'p) dur_results" where
  "collect_loader s d =
     d\<lparr>dr_create_failed := dict_update_all (dr_create_failed d) (dl_create_failed s),
       dr_update_failed := dict_update_all (dr_update_failed d) (dl_update_failed s),
       dr_delete_failed := dict_update_all (dr_delete_failed d) (dl_delete_failed s),
       dr_sdk_acked_curd_failed := dict_update_all (dr_sdk_acked_curd_failed d) (dl_sdk_acked_curd_failed s),
       dr_sdk_exception_crud_succeed := dict_update_all (dr_sdk_exception_crud_succeed d) (dl_sdk_exception_crud_succeed s),
       dr_sdk_acked_pers_failed := dict_update_all (dr_sdk_acked_pers_failed d) (dl_sdk_acked_pers_failed s)\<rparr>"

definition no_results :: "('v, 'p) dur_results" where
  "no_results = \<lparr>dr_create_failed = [], dr_update_failed = [], dr_delete_failed = [], dr_sdk_acked_curd_failed = [],
     dr_sdk_exception_crud_succeed = [], dr_sdk_acked_pers_failed = []\<rparr>"

text \<open>The loaders: loader \<open>i\<close> uses \<^verbatim>\<open>clients[i]\<close>, of which the collection is given.\<close>

definition durability_loaders ::
  "('t, 'p, 'c) loader_env \<Rightarrow> string \<Rightarrow> int \<Rightarrow> (string \<times> string) list \<Rightarrow> 't docgen \<Rightarrow> 'c \<Rightarrow>
   (('t, 'p, 'c) loader_env \<times> ('t, 'p, 'c) loader) list res" where
  "durability_loaders env bucket process_concurrency clients g c =
     rbind (durability_gens process_concurrency (int (le_batch_size env)) g) (\<lambda>gs.
     rmap (\<lambda>(i, p). rbind (py_nth clients (int i)) (\<lambda>col.
       let env' = env\<lparr>le_col := col\<rparr> in
       Inr (env', loader_init env' (loader_name i bucket p (le_op_type env)) p c)))
       (enumerate 0 gs))"

text \<open>Waiting for the loaders in order: \<open>outcomes\<close> are what their \<^verbatim>\<open>call\<close> returned or raised. The first
  that raised ends the collection; an \<^verbatim>\<open>Exception\<close> becomes the exception of the main task.\<close>

fun collect_loaders ::
  "((raised + unit) \<times> ('t, 'p, 'c) loader) list \<Rightarrow> ('t docval, 'p) dur_results \<Rightarrow>
   (raised + unit) \<times> ('t docval, 'p) dur_results" where
  "collect_loaders [] d = (Inr (), d)"
| "collect_loaders ((Inl e, s) # outcomes) d = (Inl e, d)"
| "collect_loaders ((Inr _, s) # outcomes) d = collect_loaders outcomes (collect_loader s d)"

definition durability_finish ::
  "(py_error \<Rightarrow> string) \<Rightarrow> ((raised + unit) \<times> ('t, 'p, 'c) loader) list \<Rightarrow> task \<Rightarrow>
   (raised + unit) \<times> task \<times> ('t docval, 'p) dur_results" where
  "durability_finish message outcomes t =
     (case collect_loaders outcomes no_results of
        (Inr _, d) \<Rightarrow> (Inr (), t, d)
      | (Inl (RExc e), d) \<Rightarrow> (case set_exception (message e) t of (r, t') \<Rightarrow> (r, t', d))
      | (Inl (RBase m), d) \<Rightarrow> (Inl (RBase m), t, d))"

end
