(* ===== verification/Durable_Load_Props.thy ===== *)
theory Durable_Load_Props
  imports Durable_Load Doc_Gen_Props
begin

text \<open>
  What the interleaved threads of a durable load guarantee: the reader never overtakes the writer and asks for
  every document exactly once, in order, after the write of its batch is over and its failures are
  filed; its report is then exactly what it saw. Every run is finite, and a run that cannot go on is either complete or
  one in which the writer raised; after that the reader never ends.
\<close>

section \<open>Generators of the same documents\<close>

definition same_gen :: "'t docgen \<Rightarrow> 't docgen \<Rightarrow> bool" where
  "same_gen g h \<longleftrightarrow> kg_start h = kg_start g \<and> kg_end h = kg_end g \<and> kg_name h = kg_name g \<and>
     kg_key_size h = kg_key_size g \<and> kg_mix_key_size h = kg_mix_key_size g \<and> dg_random_string h = dg_random_string g \<and>
     kg_randomize h = kg_randomize g \<and> kg_randomize_value h = kg_randomize_value g"

lemma same_gen_refl [simp]: "same_gen g g"
  by (simp add: same_gen_def)

lemma same_gen_trans [trans]: "same_gen g h \<Longrightarrow> same_gen h i \<Longrightarrow> same_gen g i"
  by (simp add: same_gen_def)

lemma same_gen_ok: "same_gen g h \<Longrightarrow> docgen_ok g \<Longrightarrow> docgen_ok h"
  by (simp add: same_gen_def docgen_ok_def)

lemma next_key_same: "docgen_next_key r g = Inr (k, h) \<Longrightarrow> same_gen g h"
  by (auto simp: docgen_next_key_def rbind_eq_Inr same_gen_def)

lemma next_same: "docgen_next jo r g = Inr (kv, h) \<Longrightarrow> same_gen g h"
  by (auto simp: docgen_next_def rbind_eq_Inr same_gen_def docgen_next_key_def split: if_splits)

lemma batch_loop_same:
  "batch_loop has (docgen_next jo r) (docgen_next_key r) deep n skip v acc g = Inr (kvs, h) \<Longrightarrow> same_gen g h"
proof (induction n arbitrary: skip v acc g)
  case (Suc n)
  show ?case
  proof (cases "has g")
    case True
    with Suc.prems obtain h1 where "same_gen g h1" and
      "\<exists>skip v acc. batch_loop has (docgen_next jo r) (docgen_next_key r) deep n skip v acc h1 = Inr (kvs, h)"
      by (auto simp: rbind_eq_Inr dest: next_same next_key_same split: if_splits)
    with Suc.IH same_gen_trans show ?thesis by blast
  qed (use Suc.prems in simp)
qed simp

lemma copy_keys:
  assumes "same_gen g h" and "kg_itr g = kg_start g"
  shows "docgen_keys r (partition_gen h (kg_start h, kg_end h)) = docgen_keys r g"
    and "same_gen g (partition_gen h (kg_start h, kg_end h))"
proof -
  have "docgen_key_at r (partition_gen h (kg_start h, kg_end h)) = docgen_key_at r g"
    by (rule ext, rule docgen_key_at_cong) (use assms(1) in \<open>simp_all add: same_gen_def partition_gen_def\<close>)
  moreover have "kg_itr (partition_gen h (kg_start h, kg_end h)) = kg_itr g"
    "kg_end (partition_gen h (kg_start h, kg_end h)) = kg_end g"
    using assms by (simp_all add: same_gen_def partition_gen_def)
  ultimately show "docgen_keys r (partition_gen h (kg_start h, kg_end h)) = docgen_keys r g"
    unfolding docgen_keys_def by metis
  show "same_gen g (partition_gen h (kg_start h, kg_end h))"
    using assms by (simp add: same_gen_def partition_gen_def)
qed

lemma fetch_batch_keys:
  assumes "docgen_ok g" and "0 < le_batch_size env" and "kv_has_next g"
  obtains kv h where "fetch_batch env g = Inr (kv, h)" and "same_gen g h" and "kv \<noteq> []"
    and "map fst kv @ docgen_keys (le_rng env) h = docgen_keys (le_rng env) g"
proof -
  from dg.next_batch_keys [OF assms(1)] obtain kv h where
    b: "fetch_batch env g = Inr (kv, h)" "map fst kv = take (le_batch_size env) (docgen_keys (le_rng env) g)"
       "docgen_keys (le_rng env) h = drop (le_batch_size env) (docgen_keys (le_rng env) g)"
    unfolding fetch_batch_def by blast
  have "docgen_keys (le_rng env) g \<noteq> []" using dg.has_nxt_iff assms(1,3) by blast
  with b(2) assms(2) have "kv \<noteq> []" by auto
  moreover have "same_gen g h" using b(1) batch_loop_same unfolding fetch_batch_def next_batch_def by blast
  ultimately show thesis using that b by (metis append_take_drop_id)
qed


section \<open>What each thread leaves alone\<close>

definition writer_part where
  "writer_part s = (dl_writer s, dl_gen s, dl_write_offset s, dl_end s, dl_create_failed s)"

definition reader_part where
  "reader_part s = (dl_reader s, dl_reader_gen s, dl_read_offset s, dl_sdk_acked_curd_failed s)"

definition persist_part where
  "persist_part s = (dl_persist s, dl_persistence_offset s)"

lemmas parts = writer_part_def reader_part_def persist_part_def

lemma judge_copies_shape:
  assumes "judge_copies env key val result s = Inr s'"
  shows "s' = s \<or> s' = exception_succeeded key val s \<or> (\<exists>x. s' = s\<lparr>dl_sdk_acked_curd_failed := x\<rparr>)"
proof -
  consider (c) "judge_create key val result s = Inr s'" | (u) "judge_update key val result s = Inr s'"
    | (d) "judge_delete env key result s = Inr s'"
    using assms by (auto simp: judge_copies_def split: if_splits)
  then show ?thesis
  proof cases
    case c
    then show ?thesis by (auto simp: judge_create_def acked_failed_def split: option.splits if_splits)
  next
    case u
    then show ?thesis
      by (auto simp: judge_update_def acked_failed_def Let_def rbind_eq_Inr split: option.splits if_splits list.splits)
  next
    case d
    then show ?thesis by (auto simp: judge_delete_def split: if_splits list.splits)
  qed
qed

lemma judge_copies_frame:
  assumes "judge_copies env key val result s = Inr s'"
  shows "writer_part s' = writer_part s" and "persist_part s' = persist_part s" and "dl_reader s' = dl_reader s"
    and "dl_reader_gen s' = dl_reader_gen s" and "dl_read_offset s' = dl_read_offset s"
  using judge_copies_shape [OF assms] by (auto simp: parts exception_succeeded_def)

lemma reader_take_frame [simp]:
  "writer_part (reader_take env s) = writer_part s" "persist_part (reader_take env s) = persist_part s"
  by (simp_all add: reader_take_def parts split: sum.split prod.split)

lemma reader_look_frame:
  "reader_look env key val s = (ev, s') \<Longrightarrow> writer_part s' = writer_part s \<and> persist_part s' = persist_part s"
  by (auto simp: reader_look_def parts split: sum.splits prod.splits if_splits)

lemma reader_frame:
  assumes "reader_step env s = Some (ev, s')"
  shows "writer_part s' = writer_part s \<and> persist_part s' = persist_part s"
proof (cases "dl_reader s")
  case RCheck
  with assms show ?thesis by (auto simp: reader_step_def split: if_splits)
next
  case (RDoc k v)
  with assms show ?thesis by (simp add: reader_step_def reader_look_frame)
next
  case (RResult k v res)
  show ?thesis
  proof (cases "judge_copies env k v res s")
    case (Inr t)
    from judge_copies_frame(1,2) [OF this] Inr RResult assms show ?thesis by (auto simp: reader_step_def parts)
  qed (use RResult assms in \<open>auto simp: reader_step_def parts\<close>)
qed (use assms in \<open>auto simp: reader_step_def parts split: if_splits\<close>)

lemma persist_take_frame [simp]:
  "writer_part (persist_take env s) = writer_part s" "reader_part (persist_take env s) = reader_part s"
  by (simp_all add: persist_take_def parts split: sum.split prod.split)

lemma persist_count_frame:
  "persist_count env key val s = (ev, s') \<Longrightarrow> writer_part s' = writer_part s \<and> reader_part s' = reader_part s"
  by (auto simp: persist_count_def parts split: sum.splits prod.splits if_splits)

lemma judge_persistence_frame:
  "writer_part (judge_persistence key val n s) = writer_part s" "reader_part (judge_persistence key val n s) = reader_part s"
  by (simp_all add: judge_persistence_def exception_succeeded_def parts)

lemma persist_frame:
  assumes "persist_step env s = Some (ev, s')"
  shows "writer_part s' = writer_part s \<and> reader_part s' = reader_part s"
proof (cases "dl_persist s")
  case PCheck
  with assms show ?thesis by (auto simp: persist_step_def split: if_splits)
next
  case (PDoc k v)
  with assms show ?thesis by (simp add: persist_step_def persist_count_frame)
next
  case (PCount k v n)
  have "writer_part (t\<lparr>dl_persist := PAfter\<rparr>) = writer_part t" "reader_part (t\<lparr>dl_persist := PAfter\<rparr>) = reader_part t"
    for t :: "('a, 'b, 'c) loader" by (simp_all add: parts)
  with PCount assms show ?thesis by (auto simp: persist_step_def judge_persistence_frame)
qed (use assms in \<open>auto simp: persist_step_def parts split: if_splits\<close>)

lemma writer_frame:
  assumes "writer_step env s = Some s'"
  shows "reader_part s' = reader_part s \<and> persist_part s' = persist_part s \<and> dl_end s' = dl_end s"
proof -
  have raises: "reader_part (writer_raises m t) = reader_part t" "persist_part (writer_raises m t) = persist_part t"
    "dl_end (writer_raises m t) = dl_end t" for m and t :: "('a, 'b, 'c) loader"
    by (simp_all add: writer_raises_def set_exception_def complete_task_def parts)
  show ?thesis
  proof (cases "dl_writer s")
    case WIdle
    with assms show ?thesis
      by (auto simp: writer_step_def raises split: sum.splits if_splits) (simp_all add: parts)
  next
    case (WFetched kv)
    with assms show ?thesis
      by (auto simp: writer_step_def writer_read_def raises split: sum.splits prod.splits if_splits) (simp_all add: parts)
  next
    case (WReady kv)
    with assms show ?thesis
      by (auto simp: writer_step_def writer_write_def Let_def raises split: sum.splits prod.splits if_splits)
        (simp_all add: parts)
  qed (use assms in \<open>auto simp: writer_step_def keep_old_def file_failures_def complete_task_def parts split: if_splits\<close>)
qed


section \<open>Positions\<close>

text \<open>\<open>K\<close> are the keys of all documents and \<open>a\<close> is the offset of the first.\<close>

fun in_hand :: "('v, 'p) writer_pc \<Rightarrow> (string \<times> 'v) list" where
  "in_hand (WFetched kv) = kv"
| "in_hand (WOld kv found) = kv"
| "in_hand (WReady kv) = kv"
| "in_hand (WWrote kv f_docs) = kv"
| "in_hand (WFiled kv) = kv"
| "in_hand _ = []"

definition writer_inv ::
  "('t, 'p, 'c) loader_env \<Rightarrow> 't docgen \<Rightarrow> ('t, 'p, 'c) loader \<Rightarrow> bool" where
  "writer_inv env g s \<longleftrightarrow>
     (let K = docgen_keys (le_rng env) g; p = nat (dl_write_offset s - kg_start g) in
      same_gen g (dl_gen s) \<and> dl_end s = kg_end g \<and> kg_start g \<le> dl_write_offset s \<and> p \<le> length K \<and>
      (dl_writer s \<noteq> WFailed \<longrightarrow> map fst (in_hand (dl_writer s)) @ docgen_keys (le_rng env) (dl_gen s) = drop p K) \<and>
      (dl_writer s \<in> {WDone, WOver} \<longrightarrow> docgen_keys (le_rng env) (dl_gen s) = []))"

definition le_ok :: "('t, 'p, 'c) loader_env \<Rightarrow> 't docgen \<Rightarrow> bool" where
  "le_ok env g \<longleftrightarrow> docgen_ok g \<and> kg_itr g = kg_start g \<and> kg_start g \<le> kg_end g \<and> 0 < le_batch_size env \<and>
     le_op_type env \<in> set [''create'', ''update'', ''delete'']"

lemma writer_raises_simps [simp]:
  "dl_writer (writer_raises m s) = WFailed" "dl_gen (writer_raises m s) = dl_gen s"
  "dl_write_offset (writer_raises m s) = dl_write_offset s" "dl_end (writer_raises m s) = dl_end s"
  "dl_create_failed (writer_raises m s) = dl_create_failed s"
  by (simp_all add: writer_raises_def set_exception_def complete_task_def)

lemma writer_inv_raises: "writer_inv env g s \<Longrightarrow> writer_inv env g (writer_raises m s)"
  by (simp add: writer_inv_def Let_def)

text \<open>A step that only moves the program counter of the writer on, with the same batch in hand.\<close>

lemma writer_inv_move:
  assumes "writer_inv env g s" and "in_hand (dl_writer s') = in_hand (dl_writer s)" and "dl_writer s \<noteq> WFailed"
    and "dl_writer s' \<notin> {WDone, WOver}" and "dl_gen s' = dl_gen s" and "dl_write_offset s' = dl_write_offset s"
    and "dl_end s' = dl_end s"
  shows "writer_inv env g s'"
  using assms by (simp add: writer_inv_def Let_def)

lemma writer_inv_publish:
  assumes "writer_inv env g s" and "dl_writer s = WFiled kv"
  shows "writer_inv env g (s\<lparr>dl_write_offset := dl_write_offset s + int (length kv), dl_writer := WIdle\<rparr>)"
proof -
  let ?K = "docgen_keys (le_rng env) g" and ?p = "nat (dl_write_offset s - kg_start g)"
  have i: "map fst kv @ docgen_keys (le_rng env) (dl_gen s) = drop ?p ?K" and a: "kg_start g \<le> dl_write_offset s"
    and le: "?p \<le> length ?K"
    using assms by (auto simp: writer_inv_def Let_def)
  have n: "nat (dl_write_offset s + int (length kv) - kg_start g) = length kv + ?p" using a by linarith
  have "docgen_keys (le_rng env) (dl_gen s) = drop (length kv) (drop ?p ?K)"
    by (simp flip: i)
  moreover have "length kv + ?p \<le> length ?K" using arg_cong [OF i, of length] le by simp
  ultimately show ?thesis using assms(1) a by (simp add: writer_inv_def Let_def n add.commute)
qed

lemma writer_inv_idle:
  assumes "writer_inv env g s" and "le_ok env g" and "dl_writer s = WIdle" and "writer_at env WIdle s = Some s'"
  shows "writer_inv env g s'"
proof (cases "kv_has_next (dl_gen s)")
  case True
  have "docgen_ok (dl_gen s)" using assms(1,2) same_gen_ok by (auto simp: writer_inv_def le_ok_def Let_def)
  moreover have "0 < le_batch_size env" using assms(2) by (simp add: le_ok_def)
  ultimately obtain kv h where f: "fetch_batch env (dl_gen s) = Inr (kv, h)" "same_gen (dl_gen s) h"
    "map fst kv @ docgen_keys (le_rng env) h = docgen_keys (le_rng env) (dl_gen s)"
    using fetch_batch_keys True by metis
  with True assms(4) have "s' = s\<lparr>dl_gen := h, dl_writer := WFetched kv\<rparr>" by simp
  with f(2,3) assms(1,3) same_gen_trans [of g "dl_gen s" h] show ?thesis by (simp add: writer_inv_def Let_def)
next
  case False
  have "docgen_ok (dl_gen s)" using assms(1,2) same_gen_ok by (auto simp: writer_inv_def le_ok_def Let_def)
  with False dg.has_nxt_iff have "docgen_keys (le_rng env) (dl_gen s) = []" by blast
  with False assms show ?thesis by (auto simp: writer_inv_def Let_def)
qed

lemma writer_read_inv:
  "writer_inv env g s \<Longrightarrow> dl_writer s = WFetched kv \<Longrightarrow> writer_inv env g (writer_read env kv s)"
  by (auto simp: writer_read_def split: sum.split prod.split
      intro!: writer_inv_raises) (auto intro: writer_inv_move simp: writer_inv_def)

lemma writer_write_inv:
  "writer_inv env g s \<Longrightarrow> dl_writer s = WReady kv \<Longrightarrow> writer_inv env g (writer_write env kv s)"
  by (auto simp: writer_write_def Let_def split: sum.split prod.split
      intro!: writer_inv_raises) (auto intro: writer_inv_move simp: writer_inv_def)

lemma writer_inv_writer:
  assumes "writer_inv env g s" and "le_ok env g" and "writer_step env s = Some s'"
  shows "writer_inv env g s'"
proof (cases "dl_writer s")
  case WIdle
  with assms writer_inv_idle show ?thesis by (simp add: writer_step_def)
next
  case (WFetched kv)
  with assms writer_read_inv show ?thesis by (auto simp: writer_step_def)
next
  case (WOld kv found)
  with assms(3) have "s' = (keep_old env found s)\<lparr>dl_writer := WReady kv\<rparr>" by (simp add: writer_step_def)
  with WOld show ?thesis by (intro writer_inv_move [OF assms(1)]) (simp_all add: keep_old_def)
next
  case (WReady kv)
  with assms writer_write_inv show ?thesis by (auto simp: writer_step_def)
next
  case (WWrote kv f)
  with assms(3) have "s' = (file_failures env f s)\<lparr>dl_writer := WFiled kv\<rparr>" by (simp add: writer_step_def)
  with WWrote show ?thesis by (intro writer_inv_move [OF assms(1)]) (simp_all add: file_failures_def)
next
  case (WFiled kv)
  with assms writer_inv_publish show ?thesis by (auto simp: writer_step_def)
next
  case WDone
  with assms show ?thesis by (auto simp: writer_step_def writer_inv_def complete_task_def Let_def split: if_splits)
qed (use assms in \<open>simp_all add: writer_step_def\<close>)

lemma writer_inv_part: "writer_inv env g s \<Longrightarrow> writer_part s' = writer_part s \<Longrightarrow> writer_inv env g s'"
  by (simp add: writer_inv_def parts)

text \<open>The reader: \<open>looked\<close> are the keys it has asked for.\<close>

definition at_key :: "('t, 'p, 'c) loader_env \<Rightarrow> 't docgen \<Rightarrow> nat \<Rightarrow> 't docgen \<Rightarrow> bool" where
  "at_key env g i h \<longleftrightarrow> docgen_ok h \<and> docgen_keys (le_rng env) h = drop i (docgen_keys (le_rng env) g)"

definition reader_inv ::
  "('t, 'p, 'c) loader_env \<Rightarrow> 't docgen \<Rightarrow> string list \<Rightarrow> ('t, 'p, 'c) loader \<Rightarrow> bool" where
  "reader_inv env g looked s \<longleftrightarrow>
     (let K = docgen_keys (le_rng env) g; q = nat (dl_read_offset s - kg_start g) in
      kg_start g \<le> dl_read_offset s \<and> q \<le> length K \<and> dl_read_offset s \<le> dl_write_offset s \<and>
      (case dl_reader s of
         RStart \<Rightarrow> q = 0 \<and> looked = []
       | RCheck \<Rightarrow> at_key env g q (dl_reader_gen s) \<and> looked = take q K
       | RDoc key val \<Rightarrow> at_key env g (Suc q) (dl_reader_gen s) \<and> looked = take q K \<and>
           q < length K \<and> K ! q = key \<and> dl_read_offset s < dl_write_offset s
       | RResult key val result \<Rightarrow> at_key env g (Suc q) (dl_reader_gen s) \<and> looked = take (Suc q) K \<and>
           q < length K \<and> K ! q = key \<and> dl_read_offset s < dl_write_offset s
       | RAfter \<Rightarrow> at_key env g (Suc q) (dl_reader_gen s) \<and> looked = take (Suc q) K \<and>
           (q < length K \<longrightarrow> dl_read_offset s < dl_write_offset s)
       | REnd \<Rightarrow> looked = K \<and> q = length K
       | RDead \<Rightarrow> (\<exists>i. looked = take i K \<and> kg_start g + int i \<le> dl_write_offset s)))"

lemma docgen_keys_length: "kg_itr g = kg_start g \<Longrightarrow> length (docgen_keys r g) = nat (kg_end g - kg_start g)"
  by (simp add: docgen_keys_def)

text \<open>Where the writer is further on, the reader is still behind it.\<close>

lemma reader_inv_later:
  assumes "reader_inv env g looked s" and "reader_part s' = reader_part s" and "dl_write_offset s \<le> dl_write_offset s'"
  shows "reader_inv env g looked s'"
  using assms by (auto simp: reader_inv_def parts Let_def split: reader_pc.splits)

lemma writer_offset_mono: "writer_step env s = Some s' \<Longrightarrow> dl_write_offset s \<le> dl_write_offset s'"
  by (cases "dl_writer s")
    (auto simp: writer_step_def writer_read_def writer_write_def keep_old_def file_failures_def complete_task_def Let_def
      split: sum.splits prod.splits if_splits)

fun looked_key :: "'v check_event \<Rightarrow> string list" where
  "looked_key (Looked key result) = [key]"
| "looked_key (Counted key n) = []"

definition looked_keys :: "'v check_event list \<Rightarrow> string list" where
  "looked_keys tr = concat (map looked_key tr)"

lemma looked_keys_simps [simp]:
  "looked_keys [] = []" "looked_keys (tr @ ev) = looked_keys tr @ looked_keys ev"
  "looked_keys [Looked key result] = [key]" "looked_keys [Counted key n] = []"
  by (simp_all add: looked_keys_def)

lemma at_key_next:
  assumes "at_key env g q h"
  shows "kv_has_next h \<longleftrightarrow> q < length (docgen_keys (le_rng env) g)"
    and "q < length (docgen_keys (le_rng env) g) \<Longrightarrow>
      \<exists>v h'. docgen_next jo (le_rng env) h = Inr ((docgen_keys (le_rng env) g ! q, v), h') \<and> at_key env g (Suc q) h'"
proof -
  have ok: "docgen_ok h" and k: "docgen_keys (le_rng env) h = drop q (docgen_keys (le_rng env) g)"
    using assms by (simp_all add: at_key_def)
  show "kv_has_next h \<longleftrightarrow> q < length (docgen_keys (le_rng env) g)"
    using dg.has_nxt_iff [OF ok, of "le_rng env"] k by auto
  assume "q < length (docgen_keys (le_rng env) g)"
  with k have c: "docgen_keys (le_rng env) h =
      docgen_keys (le_rng env) g ! q # drop (Suc q) (docgen_keys (le_rng env) g)"
    by (simp add: Cons_nth_drop_Suc)
  from dg.nxt_ok [OF ok c] show "\<exists>v h'. docgen_next jo (le_rng env) h =
      Inr ((docgen_keys (le_rng env) g ! q, v), h') \<and> at_key env g (Suc q) h'"
    by (auto simp: at_key_def)
qed

lemma reader_end_iff:
  assumes "le_ok env g" and "writer_inv env g s" and "reader_inv env g looked s"
  shows "dl_read_offset s = dl_end s \<longleftrightarrow>
     nat (dl_read_offset s - kg_start g) = length (docgen_keys (le_rng env) g)"
  using assms docgen_keys_length [of g] by (auto simp: le_ok_def writer_inv_def reader_inv_def Let_def)

lemma reader_inv_take:
  assumes "le_ok env g" and "writer_inv env g s" and "reader_inv env g looked s" and "dl_reader s = RCheck"
    and "dl_read_offset s < dl_write_offset s \<or> dl_read_offset s = dl_end s"
  shows "reader_inv env g looked (reader_take env s)"
proof -
  let ?K = "docgen_keys (le_rng env) g" and ?q = "nat (dl_read_offset s - kg_start g)"
  have a: "at_key env g ?q (dl_reader_gen s)" and l: "looked = take ?q ?K" and q: "?q \<le> length ?K"
    and o: "kg_start g \<le> dl_read_offset s" "dl_read_offset s \<le> dl_write_offset s"
    using assms(3,4) by (auto simp: reader_inv_def Let_def)
  show ?thesis
  proof (cases "?q < length ?K")
    case True
    from at_key_next(2) [OF a True] obtain v h where
      n: "docgen_next (le_json env) (le_rng env) (dl_reader_gen s) = Inr ((?K ! ?q, v), h)" "at_key env g (Suc ?q) h"
      by blast
    have t: "reader_take env s = s\<lparr>dl_reader_gen := h, dl_reader := RDoc (?K ! ?q) v\<rparr>"
      using n(1) at_key_next(1) [OF a] True by (simp add: reader_take_def)
    have "dl_read_offset s < dl_write_offset s" using reader_end_iff [OF assms(1-3)] assms(5) True by auto
    with n(2) l o True show ?thesis unfolding t by (simp add: reader_inv_def Let_def)
  next
    case False
    then have t: "reader_take env s = s\<lparr>dl_reader := RAfter\<rparr>"
      using at_key_next(1) [OF a] by (simp add: reader_take_def)
    from False q a l o show ?thesis unfolding t by (simp add: reader_inv_def Let_def at_key_def)
  qed
qed

lemma reader_inv_start:
  assumes "le_ok env g" and "writer_inv env g s"
  shows "reader_inv env g [] (s\<lparr>dl_reader_gen := copy_gen s, dl_read_offset := kg_start (dl_gen s), dl_reader := RCheck\<rparr>)"
proof -
  have g: "same_gen g (dl_gen s)" "kg_itr g = kg_start g" "docgen_ok g" and w: "kg_start g \<le> dl_write_offset s"
    using assms by (auto simp: writer_inv_def le_ok_def Let_def)
  note c = copy_keys [OF g(1,2)]
  have "at_key env g 0 (copy_gen s)"
    using c(1) same_gen_ok [OF c(2) g(3)] by (simp add: at_key_def copy_gen_def)
  moreover have "kg_start (dl_gen s) = kg_start g" using g(1) by (simp add: same_gen_def)
  ultimately show ?thesis using w by (simp add: reader_inv_def Let_def)
qed

lemma reader_inv_after:
  assumes "le_ok env g" and "writer_inv env g s" and "reader_inv env g looked s" and "dl_reader s = RAfter"
    and "reader_at env RAfter s = Some (ev, s')"
  shows "ev = [] \<and> reader_inv env g looked s'"
proof (cases "dl_read_offset s = dl_end s")
  case True
  then show ?thesis using assms reader_end_iff [OF assms(1-3)] by (auto simp: reader_inv_def Let_def)
next
  case False
  then have q: "nat (dl_read_offset s - kg_start g) < length (docgen_keys (le_rng env) g)"
    using reader_end_iff [OF assms(1-3)] assms(3) by (auto simp: reader_inv_def Let_def)
  have o: "kg_start g \<le> dl_read_offset s" using assms(3) by (simp add: reader_inv_def Let_def)
  then have "nat (dl_read_offset s + 1 - kg_start g) = Suc (nat (dl_read_offset s - kg_start g))" by linarith
  with q o assms(3-5) False show ?thesis by (auto simp: reader_inv_def Let_def)
qed

lemma reader_inv_reader:
  assumes "le_ok env g" and "writer_inv env g s" and "reader_inv env g looked s"
    and "reader_step env s = Some (ev, s')"
  shows "reader_inv env g (looked @ looked_keys ev) s'"
proof (cases "dl_reader s")
  case RStart
  then have l: "looked = []" using assms(3) by (simp add: reader_inv_def Let_def)
  from RStart assms(4) reader_inv_start [OF assms(1,2)] show ?thesis unfolding l by (auto simp: reader_step_def)
next
  case RCheck
  with assms reader_inv_take show ?thesis by (auto simp: reader_step_def split: if_splits)
next
  case (RDoc key val)
  let ?q = "nat (dl_read_offset s - kg_start g)"
  have op: "le_op_type env \<in> set [''create'', ''update'', ''delete'']" using assms(1) by (simp add: le_ok_def)
  from RDoc assms(4) have "reader_look env key val s = (ev, s')" by (simp add: reader_step_def)
  moreover from RDoc assms(3) have "take (Suc ?q) (docgen_keys (le_rng env) g) = looked @ [key]"
    by (auto simp: reader_inv_def Let_def take_Suc_conv_app_nth)
  ultimately show ?thesis using RDoc assms(3) op
    by (auto simp: reader_look_def reader_inv_def Let_def simp del: list.set split: sum.splits prod.splits
        intro!: exI [of _ ?q])
next
  case (RResult key val result)
  let ?q = "nat (dl_read_offset s - kg_start g)"
  show ?thesis
  proof (cases "judge_copies env key val result s")
    case (Inl e)
    with RResult assms(4) have "ev = []" "s' = s\<lparr>dl_reader := RDead\<rparr>" by (auto simp: reader_step_def)
    with RResult assms(3) show ?thesis by (auto simp: reader_inv_def Let_def intro!: exI [of _ "Suc ?q"])
  next
    case (Inr t)
    with RResult assms(4) have e: "ev = []" "s' = t\<lparr>dl_reader := RAfter\<rparr>" by (auto simp: reader_step_def)
    note f = judge_copies_frame [OF Inr]
    from f(1) have "dl_write_offset t = dl_write_offset s" by (simp add: parts)
    with RResult assms(3) f(4,5) show ?thesis unfolding e by (auto simp: reader_inv_def Let_def)
  qed
next
  case RAfter
  then have "reader_at env RAfter s = Some (ev, s')" using assms(4) by (simp only: reader_step_def)
  from reader_inv_after [OF assms(1-3) RAfter this] show ?thesis by simp
qed (use assms in \<open>simp_all add: reader_step_def\<close>)

text \<open>The persistence thread.\<close>

fun persist_busy :: "'v persist_pc \<Rightarrow> bool" where
  "persist_busy (PDoc key val) \<longleftrightarrow> True"
| "persist_busy (PCount key val n) \<longleftrightarrow> True"
| "persist_busy PAfter \<longleftrightarrow> True"
| "persist_busy _ \<longleftrightarrow> False"

definition persist_inv :: "'t docgen \<Rightarrow> ('t, 'p, 'c) loader \<Rightarrow> bool" where
  "persist_inv g s \<longleftrightarrow> dl_persistence_offset s \<le> dl_write_offset s \<and>
     (dl_persist s = PStart \<longrightarrow> dl_persistence_offset s = kg_start g) \<and>
     (persist_busy (dl_persist s) \<longrightarrow> dl_persistence_offset s < dl_write_offset s \<or> dl_persistence_offset s = dl_end s)"

fun persist_rank :: "'v persist_pc \<Rightarrow> nat" where
  "persist_rank PStart = 5"
| "persist_rank PCheck = 4"
| "persist_rank (PDoc key val) = 3"
| "persist_rank (PCount key val n) = 2"
| "persist_rank PAfter = 1"
| "persist_rank _ = 0"

lemma persist_take_shape [simp]:
  "dl_persistence_offset (persist_take env s) = dl_persistence_offset s"
  "dl_write_offset (persist_take env s) = dl_write_offset s" "dl_end (persist_take env s) = dl_end s"
  "persist_rank (dl_persist (persist_take env s)) \<le> 3" "dl_persist (persist_take env s) \<noteq> PStart"
  by (simp_all add: persist_take_def split: sum.split prod.split)

lemma persist_count_shape:
  assumes "persist_count env key val s = (ev, s')"
  shows "looked_keys ev = []" and "dl_persistence_offset s' = dl_persistence_offset s"
    and "dl_write_offset s' = dl_write_offset s" and "dl_end s' = dl_end s"
    and "persist_rank (dl_persist s') \<le> 2" and "dl_persist s' \<noteq> PStart"
  using assms by (auto simp: persist_count_def split: sum.splits prod.splits if_splits)

lemma judge_persistence_simps [simp]:
  "dl_persistence_offset (judge_persistence key val n s) = dl_persistence_offset s"
  "dl_write_offset (judge_persistence key val n s) = dl_write_offset s" "dl_end (judge_persistence key val n s) = dl_end s"
  by (simp_all add: judge_persistence_def exception_succeeded_def)

lemma persist_inv_persist:
  assumes "writer_inv env g s" and "persist_inv g s" and "persist_step env s = Some (ev, s')"
  shows "persist_inv g s' \<and> looked_keys ev = []"
proof (cases "dl_persist s")
  case PStart
  have "kg_start (dl_gen s) = kg_start g" "kg_start g \<le> dl_write_offset s"
    using assms(1) by (auto simp: writer_inv_def same_gen_def Let_def)
  with PStart assms(3) show ?thesis by (auto simp: persist_inv_def persist_step_def)
next
  case PCheck
  with assms(3) have c: "dl_persistence_offset s < dl_write_offset s \<or> dl_persistence_offset s = dl_end s"
    and e: "ev = []" "s' = persist_take env s" by (auto simp: persist_step_def split: if_splits)
  from persist_take_shape [of env s] c assms(2) e show ?thesis by (auto simp: persist_inv_def)
next
  case (PDoc key val)
  with assms(3) have "persist_count env key val s = (ev, s')" by (simp add: persist_step_def)
  from persist_count_shape [OF this] PDoc assms(2) show ?thesis by (auto simp: persist_inv_def)
next
  case (PCount key val n)
  with assms show ?thesis by (auto simp: persist_inv_def persist_step_def)
qed (use assms in \<open>auto simp: persist_inv_def persist_step_def split: if_splits\<close>)

lemma persist_inv_later:
  assumes "persist_inv g s" and "persist_part s' = persist_part s" and "dl_write_offset s \<le> dl_write_offset s'"
    and "dl_end s' = dl_end s"
  shows "persist_inv g s'"
  using assms by (auto simp: persist_inv_def parts)

definition dl_inv ::
  "('t, 'p, 'c) loader_env \<Rightarrow> 't docgen \<Rightarrow> 't docval check_event list \<Rightarrow> ('t, 'p, 'c) loader \<Rightarrow> bool" where
  "dl_inv env g tr s \<longleftrightarrow> writer_inv env g s \<and> reader_inv env g (looked_keys tr) s \<and> persist_inv g s"

lemma dl_inv_init: "le_ok env g \<Longrightarrow> dl_inv env g [] (loader_init env name g c)"
  by (auto simp: dl_inv_def writer_inv_def reader_inv_def persist_inv_def loader_init_def task.defs le_ok_def Let_def)

lemma dl_inv_step:
  assumes "le_ok env g" and "dl_inv env g tr s" and "dl_step env s ev s'"
  shows "dl_inv env g (tr @ ev) s'"
  using assms(3)
proof cases
  case writer
  with writer_frame [OF writer(2)] writer_offset_mono [OF writer(2)] writer_inv_writer assms(1,2) show ?thesis
    by (auto simp: dl_inv_def intro: reader_inv_later persist_inv_later)
next
  case reader
  from reader_frame [OF reader] have f: "writer_part s' = writer_part s" "persist_part s' = persist_part s" by auto
  moreover from f(1) have "dl_write_offset s' = dl_write_offset s" "dl_end s' = dl_end s" by (auto simp: parts)
  ultimately show ?thesis using assms(1,2) reader_inv_reader [OF assms(1) _ _ reader]
    by (auto simp: dl_inv_def intro: writer_inv_part persist_inv_later)
next
  case persist
  from persist_frame [OF persist] have f: "writer_part s' = writer_part s" "reader_part s' = reader_part s" by auto
  moreover from f(1) have "dl_write_offset s' = dl_write_offset s" by (auto simp: parts)
  ultimately show ?thesis using assms(1,2) persist_inv_persist [OF _ _ persist]
    by (auto simp: dl_inv_def intro: writer_inv_part reader_inv_later)
qed

lemma dl_inv_run:
  assumes "le_ok env g" and "dl_run env (loader_init env name g c) n tr s"
  shows "dl_inv env g tr s"
  using assms(2)
proof induction
  case start
  show ?case by (rule dl_inv_init [OF assms(1)])
next
  case step
  then show ?case using dl_inv_step [OF assms(1)] by blast
qed


section \<open>Every run ends\<close>

fun writer_rank :: "('v, 'p) writer_pc \<Rightarrow> nat" where
  "writer_rank WIdle = 3"
| "writer_rank (WFetched kv) = 8"
| "writer_rank (WOld kv found) = 7"
| "writer_rank (WReady kv) = 6"
| "writer_rank (WWrote kv f_docs) = 5"
| "writer_rank (WFiled kv) = 4"
| "writer_rank WDone = 1"
| "writer_rank _ = 0"

fun reader_rank :: "'v reader_pc \<Rightarrow> nat" where
  "reader_rank RStart = 5"
| "reader_rank RCheck = 4"
| "reader_rank (RDoc key val) = 3"
| "reader_rank (RResult key val result) = 2"
| "reader_rank RAfter = 1"
| "reader_rank _ = 0"

definition writer_work :: "('t, 'p, 'c) loader_env \<Rightarrow> ('t, 'p, 'c) loader \<Rightarrow> nat" where
  "writer_work env s = 6 * length (docgen_keys (le_rng env) (dl_gen s)) + writer_rank (dl_writer s)"

definition reader_work :: "('t, 'p, 'c) loader \<Rightarrow> nat" where
  "reader_work s = 4 * nat (dl_end s - dl_read_offset s) + reader_rank (dl_reader s)"

definition persist_work :: "('t, 'p, 'c) loader \<Rightarrow> nat" where
  "persist_work s = 4 * nat (dl_end s - dl_persistence_offset s) + persist_rank (dl_persist s)"

lemma writer_works:
  assumes "le_ok env g" and "writer_inv env g s" and "writer_step env s = Some s'"
  shows "writer_work env s' < writer_work env s"
proof (cases "dl_writer s")
  case WIdle
  have ok: "docgen_ok (dl_gen s)" using assms(1,2) same_gen_ok by (auto simp: writer_inv_def le_ok_def Let_def)
  have "0 < le_batch_size env" using assms(1) by (simp add: le_ok_def)
  show ?thesis
  proof (cases "kv_has_next (dl_gen s)")
    case True
    from fetch_batch_keys [OF ok \<open>0 < le_batch_size env\<close> this] obtain kv h where
      f: "fetch_batch env (dl_gen s) = Inr (kv, h)" "kv \<noteq> []"
         "map fst kv @ docgen_keys (le_rng env) h = docgen_keys (le_rng env) (dl_gen s)" by metis
    from arg_cong [OF f(3), of length] f(2) have
      "length (docgen_keys (le_rng env) h) < length (docgen_keys (le_rng env) (dl_gen s))" by (cases kv) auto
    with WIdle True f(1) assms(3) show ?thesis by (auto simp: writer_step_def writer_work_def)
  qed (use WIdle assms(3) in \<open>auto simp: writer_step_def writer_work_def\<close>)
next
  case (WFetched kv)
  with assms(3) show ?thesis
    by (auto simp: writer_step_def writer_read_def writer_work_def split: sum.splits prod.splits if_splits)
next
  case (WReady kv)
  with assms(3) show ?thesis
    by (auto simp: writer_step_def writer_write_def writer_work_def Let_def split: sum.splits prod.splits if_splits)
qed (use assms(3) in \<open>auto simp: writer_step_def keep_old_def file_failures_def complete_task_def writer_work_def
      split: if_splits\<close>)

lemma offsets_in_range:
  assumes "le_ok env g" and "writer_inv env g s"
  shows "dl_write_offset s \<le> dl_end s" and "reader_inv env g looked s \<Longrightarrow> dl_read_offset s \<le> dl_end s"
  using assms docgen_keys_length [of g] by (auto simp: le_ok_def writer_inv_def reader_inv_def Let_def)

lemma reader_works:
  assumes "writer_inv env g s" and "reader_inv env g looked s" and "reader_step env s = Some (ev, s')" and "le_ok env g"
  shows "reader_work s' < reader_work s"
proof (cases "dl_reader s")
  case RStart
  have "kg_start (dl_gen s) = kg_start g" "dl_read_offset s = kg_start g"
    using assms(1,2) RStart by (auto simp: writer_inv_def reader_inv_def same_gen_def Let_def)
  with RStart assms(3) show ?thesis by (auto simp: reader_step_def reader_work_def)
next
  case RCheck
  with assms(3) show ?thesis
    by (auto simp: reader_step_def reader_take_def reader_work_def split: if_splits sum.splits prod.splits)
next
  case (RDoc key val)
  with assms(3) show ?thesis
    by (auto simp: reader_step_def reader_look_def reader_work_def split: if_splits sum.splits prod.splits)
next
  case (RResult key val result)
  show ?thesis
  proof (cases "judge_copies env key val result s")
    case (Inr t)
    from judge_copies_frame [OF this] have "dl_end t = dl_end s" "dl_read_offset t = dl_read_offset s" by (auto simp: parts)
    with RResult Inr assms(3) show ?thesis by (auto simp: reader_step_def reader_work_def)
  qed (use RResult assms(3) in \<open>auto simp: reader_step_def reader_work_def\<close>)
next
  case RAfter
  with assms(3) offsets_in_range(2) [OF assms(4,1,2)] show ?thesis
    by (auto simp: reader_step_def reader_work_def split: if_splits)
qed (use assms(3) in \<open>simp_all add: reader_step_def\<close>)

lemma persist_works:
  assumes "le_ok env g" and "writer_inv env g s" and "persist_inv g s" and "persist_step env s = Some (ev, s')"
  shows "persist_work s' < persist_work s"
proof (cases "dl_persist s")
  case PStart
  have "kg_start (dl_gen s) = kg_start g" using assms(2) by (auto simp: writer_inv_def same_gen_def Let_def)
  with PStart assms(3,4) show ?thesis by (auto simp: persist_step_def persist_work_def persist_inv_def)
next
  case PCheck
  with assms(4) have "s' = persist_take env s" by (auto simp: persist_step_def split: if_splits)
  moreover have "persist_rank (dl_persist (persist_take env s)) < 4" by (rule le_less_trans [OF persist_take_shape(4)]) simp
  ultimately show ?thesis using PCheck by (simp add: persist_work_def)
next
  case (PDoc key val)
  with assms(4) have "persist_count env key val s = (ev, s')" by (simp add: persist_step_def)
  from persist_count_shape [OF this] PDoc show ?thesis by (simp add: persist_work_def)
next
  case (PCount key val n)
  with assms(4) show ?thesis by (auto simp: persist_step_def persist_work_def)
next
  case PAfter
  with assms(3,4) offsets_in_range(1) [OF assms(1,2)] show ?thesis
    by (auto simp: persist_step_def persist_work_def persist_inv_def split: if_splits)
qed (use assms(4) in \<open>simp_all add: persist_step_def\<close>)

definition work :: "('t, 'p, 'c) loader_env \<Rightarrow> ('t, 'p, 'c) loader \<Rightarrow> nat" where
  "work env s = writer_work env s + reader_work s + persist_work s"

lemma step_works:
  assumes "le_ok env g" and "dl_inv env g tr s" and "dl_step env s ev s'"
  shows "work env s' < work env s"
proof -
  have i: "writer_inv env g s" "reader_inv env g (looked_keys tr) s" "persist_inv g s"
    using assms(2) by (simp_all add: dl_inv_def)
  from assms(3) show ?thesis
  proof cases
    case writer
    from writer_frame [OF writer(2)] have "reader_work s' = reader_work s" "persist_work s' = persist_work s"
      by (auto simp: reader_work_def persist_work_def parts)
    with writer_works [OF assms(1) i(1) writer(2)] show ?thesis by (simp add: work_def)
  next
    case reader
    from reader_frame [OF reader] have "writer_work env s' = writer_work env s" "persist_work s' = persist_work s"
      by (auto simp: writer_work_def persist_work_def parts)
    with reader_works [OF i(1,2) reader assms(1)] show ?thesis by (simp add: work_def)
  next
    case persist
    from persist_frame [OF persist] have "writer_work env s' = writer_work env s" "reader_work s' = reader_work s"
      by (auto simp: writer_work_def reader_work_def parts)
    with persist_works [OF assms(1) i(1,3) persist] show ?thesis by (simp add: work_def)
  qed
qed

lemma run_works:
  assumes "le_ok env g" and "dl_run env (loader_init env name g c) n tr s"
  shows "n + work env s \<le> work env (loader_init env name g c)"
  using assms(2)
proof induction
  case start
  show ?case by simp
next
  case (step n tr s ev s')
  have "work env s' < work env s" by (rule step_works [OF assms(1) dl_inv_run [OF assms(1) step(1)] step(2)])
  with step.IH show ?case by simp
qed

lemma work_init:
  "le_ok env g \<Longrightarrow> work env (loader_init env name g c) \<le> 14 * nat (kg_end g - kg_start g) + 13"
  using docgen_keys_length [of g "le_rng env"]
  by (auto simp: work_def writer_work_def reader_work_def persist_work_def loader_init_def task.defs le_ok_def)

text \<open>When the writer is through its documents, neither of the other threads waits.\<close>

lemma done_offset:
  assumes "le_ok env g" and "writer_inv env g s" and "dl_writer s \<in> {WDone, WOver}"
  shows "dl_write_offset s = dl_end s"
proof -
  have "drop (nat (dl_write_offset s - kg_start g)) (docgen_keys (le_rng env) g) = []"
    using assms(2,3) by (auto simp: writer_inv_def Let_def)
  with assms(1,2) docgen_keys_length [of g "le_rng env"] show ?thesis by (auto simp: writer_inv_def le_ok_def Let_def)
qed

lemma waits_only_for_writer:
  assumes "le_ok env g" and "dl_inv env g tr s" and "dl_write_offset s = dl_end s"
  shows "reader_step env s = None \<Longrightarrow> dl_reader s \<in> {REnd, RDead}"
    and "persist_step env s = None \<Longrightarrow> dl_persist s \<in> {PEnd, PDead}"
proof -
  have i: "dl_read_offset s \<le> dl_end s" "dl_persistence_offset s \<le> dl_end s"
    using assms(2,3) offsets_in_range(2) [OF assms(1), of s "looked_keys tr"] by (simp_all add: dl_inv_def persist_inv_def)
  then show "reader_step env s = None \<Longrightarrow> dl_reader s \<in> {REnd, RDead}"
    using assms(3) by (cases "dl_reader s") (auto simp: reader_step_def split: if_splits)
  show "persist_step env s = None \<Longrightarrow> dl_persist s \<in> {PEnd, PDead}"
    using i assms(3) by (cases "dl_persist s") (auto simp: persist_step_def split: if_splits)
qed

lemma stuck_over:
  assumes "le_ok env g" and "dl_inv env g tr s" and stuck: "\<nexists>ev s'. dl_step env s ev s'"
  shows "dl_writer s \<in> {WOver, WFailed}"
proof (rule ccontr)
  assume n: "dl_writer s \<notin> {WOver, WFailed}"
  from stuck have none: "writer_step env s = None" "reader_step env s = None" "persist_step env s = None"
    using dl_step.intros by (metis option.exhaust prod.exhaust)+
  from n none(1) have d: "dl_writer s = WDone" "\<not> checks_over s"
    by (cases "dl_writer s"; auto simp: writer_step_def split: if_splits)+
  have "dl_write_offset s = dl_end s" using done_offset [OF assms(1)] assms(2) d(1) by (simp add: dl_inv_def)
  from waits_only_for_writer [OF assms(1,2) this] none(2,3) d(2) show False by (simp add: checks_over_def)
qed


section \<open>What the reader reports\<close>

text \<open>The SDK answers an insertion with entries for documents of the request only.\<close>

definition answers_asked :: "('t, 'p, 'c) loader_env \<Rightarrow> bool" where
  "answers_asked env \<longleftrightarrow> (\<forall>col items opts c rs c'.
     le_sdk env col (BulkInsert items opts) c = (Inr (Some rs), c') \<longrightarrow> bi_id ` set rs \<subseteq> fst ` set items)"

lemma dict_has_all_updates: "dict_has (dict_update_all d e) k \<longleftrightarrow> dict_has d k \<or> k \<in> fst ` set e"
  by (induction e arbitrary: d) (auto simp: dict_update_all_def)

lemma translate_fail_keys:
  assumes "translate_upsert_multi_results (Some rs) = Inr (success, fail)"
  shows "fst ` set fail \<subseteq> bi_id ` set rs"
proof -
  have "fst ` set (snd (success, fail)) \<subseteq> bi_id ` set rs"
    using assms unfolding translate_upsert_multi_results_def translate_items_def option.case
  proof (rule rfold_invariant [where P = "\<lambda>sf. fst ` set (snd sf) \<subseteq> bi_id ` set rs"])
    fix sf r sf' assume i: "fst ` set (snd sf) \<subseteq> bi_id ` set rs" and r: "r \<in> set rs"
      and s: "(case sf of (success, fail) \<Rightarrow>
          if bi_status r then Inr (AList.update (bi_id r) (ok_entry (Some (bi_content r)) (bi_cas r)) success, fail)
          else rbind (error_text (bi_error r)) (\<lambda>e.
               Inr (success, AList.update (bi_id r) (fail_entry (RValue (bi_content r)) (bi_cas r) e) fail))) = Inr sf'"
    obtain su fa where sf: "sf = (su, fa)" by force
    from s sf have "snd sf' = fa \<or> (\<exists>v. snd sf' = AList.update (bi_id r) v fa)"
      by (auto simp: rbind_eq_Inr split: if_splits)
    then have "fst ` set (snd sf') \<subseteq> {bi_id r} \<union> fst ` set fa"
      by (elim disjE exE) (simp_all only: dom_update order_refl Un_upper2)
    moreover have "{bi_id r} \<union> fst ` set fa \<subseteq> bi_id ` set rs" using i r sf by simp
    ultimately show "fst ` set (snd sf') \<subseteq> bi_id ` set rs" by (rule order_trans)
  qed simp
  then show ?thesis by simp
qed

lemma rescue_fail_keys: "rescue rd same fl (success, fail) = (success', fail') \<Longrightarrow> fst ` set fail' \<subseteq> fst ` set fail"
proof (induction fl arbitrary: success fail)
  case (Cons p fl)
  obtain key vl where p: "p = (key, vl)" by force
  have d: "fst ` set (AList.delete key fail) \<subseteq> fst ` set fail" by (rule dom_delete_subset)
  from Cons.prems p have "fail' = fail \<or> (\<exists>s'. rescue rd same fl (s', fail) = (success', fail')) \<or>
      (\<exists>s'. rescue rd same fl (s', AList.delete key fail) = (success', fail'))"
    by (auto split: option.splits if_splits)
  with Cons.IH d show ?case by blast
qed simp

lemma create_fail_keys:
  fixes env :: "('t, 'p, 'c) loader_env"
  assumes "answers_asked env" and "batch_create (le_sdk env) (Some col) kv a skip c = ((success, fail), c')"
  shows "fst ` set fail \<subseteq> fst ` set kv"
proof (cases "set_multi (le_sdk env) col kv a c :: ('t docval, 'p) both res \<times> 'c")
  case (Pair r c1)
  show ?thesis
  proof (cases r)
    case (Inl e)
    with Pair assms(2) show ?thesis by (simp add: batch_create_def batch_write_def on_client_def)
  next
    case (Inr sf)
    obtain su fa where sf: "sf = (su, fa)" by force
    from Pair Inr sf have fa: "fst ` set fa \<subseteq> fst ` set kv"
      unfolding set_multi_def bulk_def
    proof (cases "le_sdk env col (BulkInsert kv (with_transcoder (ca_doc_type a) (get_insert_options a))) c")
      case (Pair q c2)
      with \<open>set_multi (le_sdk env) col kv a c = (r, c1)\<close> Inr sf obtain d where
        q: "q = Inr d" and d: "translate_upsert_multi_results d = Inr (su, fa)"
        by (auto simp: set_multi_def bulk_def rbind_eq_Inr)
      show ?thesis
      proof (cases d)
        case None
        with d show ?thesis by (simp add: translate_upsert_multi_results_def translate_items_def)
      next
        case (Some rs)
        from Pair q Some assms(1) have "bi_id ` set rs \<subseteq> fst ` set kv" unfolding answers_asked_def by blast
        with translate_fail_keys [of rs su fa] d Some show ?thesis by blast
      qed
    qed
    have m: "on_client (Some col) (\<lambda>col. set_multi (le_sdk env) col kv a) c = (Inr (su, fa), c1)"
      using Pair Inr sf by (simp add: on_client_def)
    have "fail = fa \<or> (\<exists>rd. rescue rd (\<lambda>_ _. True) fa (su, fa) = (success, fail))"
      using assms(2) unfolding batch_create_def batch_write_def m
      by (cases "batch_read (le_sdk env) (Some col) (map fst fa) a c1 :: ('t docval, 'p) both res \<times> 'c")
        (auto split: if_splits sum.splits prod.splits)
    with fa rescue_fail_keys [of _ _ fa su fa success fail] show ?thesis by blast
  qed
qed

definition judging :: "'v reader_pc \<Rightarrow> string set" where
  "judging pc = (case pc of RResult key val result \<Rightarrow> {key} | _ \<Rightarrow> {})"

definition fails_within :: "('v, 'p) results \<Rightarrow> (string \<times> 'v) list \<Rightarrow> bool" where
  "fails_within f kv \<longleftrightarrow> fst ` set f \<subseteq> fst ` set kv"

definition report_inv ::
  "('t, 'p, 'c) loader_env \<Rightarrow> 't docval check_event list \<Rightarrow> ('t, 'p, 'c) loader \<Rightarrow> bool" where
  "report_inv env tr s \<longleftrightarrow>
     (\<forall>kv f. dl_writer s = WWrote kv f \<longrightarrow> fails_within f kv) \<and>
     (\<forall>key val result. dl_reader s = RResult key val result \<longrightarrow> (\<forall>r. Looked key r \<in> set tr \<longleftrightarrow> r = result)) \<and>
     (\<forall>k. dict_has (dl_sdk_acked_curd_failed s) k \<longleftrightarrow>
        Looked k [] \<in> set tr \<and> k \<notin> judging (dl_reader s) \<and> \<not> dict_has (dl_create_failed s) k)"

lemma looked_in: "Looked k r \<in> set tr \<Longrightarrow> k \<in> set (looked_keys tr)"
  by (force simp: looked_keys_def)

text \<open>Only documents whose batch is over have been asked for.\<close>

lemma looked_published:
  assumes "reader_inv env g looked s" and "k \<in> set looked"
  shows "k \<in> set (take (nat (dl_write_offset s - kg_start g)) (docgen_keys (le_rng env) g))"
proof -
  let ?K = "docgen_keys (le_rng env) g"
  have "\<exists>i. looked = take i ?K \<and> kg_start g + int (min i (length ?K)) \<le> dl_write_offset s"
  proof (cases "dl_reader s")
    case RAfter
    then show ?thesis using assms(1)
      by (intro exI [of _ "Suc (nat (dl_read_offset s - kg_start g))"]) (auto simp: reader_inv_def Let_def min_def)
  next
    case RDead
    then obtain i where "looked = take i ?K" "kg_start g + int i \<le> dl_write_offset s"
      using assms(1) by (auto simp: reader_inv_def Let_def)
    then show ?thesis by (intro exI [of _ i]) auto
  next
    case (RResult key val result)
    then show ?thesis using assms(1)
      by (intro exI [of _ "Suc (nat (dl_read_offset s - kg_start g))"]) (auto simp: reader_inv_def Let_def min_def)
  qed (use assms(1) in \<open>auto simp: reader_inv_def Let_def intro!: exI [of _ "nat (dl_read_offset s - kg_start g)"]\<close>)
  then obtain i where i: "looked = take i ?K" "kg_start g + int (min i (length ?K)) \<le> dl_write_offset s" by blast
  from i(1) have "looked = take (min i (length ?K)) ?K" by (simp add: min_def)
  moreover from i(2) have "min i (length ?K) \<le> nat (dl_write_offset s - kg_start g)" by linarith
  ultimately show ?thesis
    using set_take_subset_set_take [of "min i (length ?K)" "nat (dl_write_offset s - kg_start g)" ?K] assms(2) by blast
qed

lemma filing_keeps_judged:
  assumes "writer_inv env g s" and "reader_inv env g (looked_keys tr) s" and "distinct (docgen_keys (le_rng env) g)"
    and "dl_writer s = WWrote kv f" and "fails_within f kv" and "Looked k r \<in> set tr"
  shows "k \<notin> fst ` set f"
proof
  let ?K = "docgen_keys (le_rng env) g" and ?p = "nat (dl_write_offset s - kg_start g)"
  assume "k \<in> fst ` set f"
  with assms(5) have "k \<in> set (map fst kv)" by (auto simp: fails_within_def)
  moreover have "map fst kv @ docgen_keys (le_rng env) (dl_gen s) = drop ?p ?K"
    using assms(1,4) by (simp add: writer_inv_def Let_def)
  ultimately have "k \<in> set (drop ?p ?K)" by (metis UnCI set_append)
  moreover have "k \<in> set (take ?p ?K)" by (rule looked_published [OF assms(2) looked_in [OF assms(6)]])
  moreover have "set (take ?p ?K) \<inter> set (drop ?p ?K) = {}"
    by (rule set_take_disj_set_drop_if_distinct [OF assms(3)]) simp
  ultimately show False by blast
qed

lemma report_inv_writer:
  assumes "dl_inv env g tr s" and "distinct (docgen_keys (le_rng env) g)" and "le_op_type env = ''create''"
    and "answers_asked env" and "report_inv env tr s" and "writer_step env s = Some s'"
  shows "report_inv env tr s'"
proof -
  have f: "dl_reader s' = dl_reader s" "dl_sdk_acked_curd_failed s' = dl_sdk_acked_curd_failed s"
    using writer_frame [OF assms(6)] by (auto simp: parts)
  have w: "fails_within f kv" if "dl_writer s' = WWrote kv f" for kv f
  proof -
    from that assms(6,3) obtain su c' where "dl_writer s = WReady kv"
      "batch_create (le_sdk env) (Some (le_col env)) kv (le_args env) False (dl_conn s) = ((su, f), c')"
      by (cases "dl_writer s") (auto simp: writer_step_def writer_read_def writer_write_def keep_old_def
          file_failures_def complete_task_def Let_def split: if_splits sum.splits prod.splits)
    with create_fail_keys [OF assms(4)] show ?thesis unfolding fails_within_def by blast
  qed
  have j: "dict_has (dl_create_failed s') k \<longleftrightarrow> dict_has (dl_create_failed s) k" if "Looked k [] \<in> set tr" for k
  proof (cases "dl_writer s")
    case (WWrote kv fl)
    have "fails_within fl kv" using assms(5) WWrote by (simp add: report_inv_def)
    with filing_keeps_judged [OF _ _ assms(2) WWrote _ that] assms(1) have "k \<notin> fst ` set fl" by (simp add: dl_inv_def)
    with WWrote assms(3,6) show ?thesis by (auto simp: writer_step_def file_failures_def dict_has_all_updates split: if_splits)
  qed (use assms(6) in \<open>auto simp: writer_step_def writer_read_def writer_write_def keep_old_def complete_task_def
        Let_def split: if_splits sum.splits prod.splits\<close>)
  from assms(5) f w j show ?thesis unfolding report_inv_def by metis
qed

text \<open>A document the reader is about to ask for has not been asked for.\<close>

lemma next_not_looked:
  assumes "reader_inv env g (looked_keys tr) s" and "distinct (docgen_keys (le_rng env) g)" and "dl_reader s = RDoc key val"
  shows "Looked key r \<notin> set tr"
proof
  let ?K = "docgen_keys (le_rng env) g" and ?q = "nat (dl_read_offset s - kg_start g)"
  assume "Looked key r \<in> set tr"
  moreover have "looked_keys tr = take ?q ?K" "?q < length ?K" "?K ! ?q = key"
    using assms(1,3) by (auto simp: reader_inv_def Let_def)
  ultimately have "?K ! ?q \<in> set (take ?q ?K)" using looked_in by metis
  then obtain j where "j < ?q" "?K ! j = ?K ! ?q" using \<open>?q < length ?K\<close> by (auto simp: in_set_conv_nth)
  with assms(2) \<open>?q < length ?K\<close> show False by (simp add: nth_eq_iff_index_eq)
qed

lemma report_inv_look:
  assumes "dl_inv env g tr s" and "distinct (docgen_keys (le_rng env) g)" and "report_inv env tr s"
    and "dl_reader s = RDoc key val" and "reader_look env key val s = (ev, s')"
  shows "report_inv env (tr @ ev) s'"
proof -
  have new: "Looked key r \<notin> set tr" for r
    by (rule next_not_looked [OF _ assms(2,4)]) (use assms(1) in \<open>simp add: dl_inv_def\<close>)
  have f: "dl_writer s' = dl_writer s" "dl_create_failed s' = dl_create_failed s"
    using reader_look_frame [OF assms(5)] by (auto simp: parts)
  have a: "dl_sdk_acked_curd_failed s' = dl_sdk_acked_curd_failed s"
    using assms(5) by (auto simp: reader_look_def split: if_splits sum.splits prod.splits)
  have "ev = [] \<and> dl_reader s' \<in> {RDead, RAfter} \<or> (\<exists>result. ev = [Looked key result] \<and> dl_reader s' = RResult key val result)"
    using assms(5) by (auto simp: reader_look_def split: if_splits sum.splits prod.splits)
  then show ?thesis using assms(3,4) f a new unfolding report_inv_def judging_def by auto
qed

lemma report_inv_judge:
  assumes "report_inv env tr s" and "dl_reader s = RResult key val result" and "le_op_type env = ''create''"
    and "reader_at env (RResult key val result) s = Some (ev, s')"
  shows "report_inv env (tr @ ev) s'"
proof -
  have l: "Looked key r \<in> set tr \<longleftrightarrow> r = result" for r using assms(1,2) by (simp add: report_inv_def)
  have key: "\<not> dict_has (dl_sdk_acked_curd_failed s) key" using assms(1,2) by (simp add: report_inv_def judging_def)
  show ?thesis
  proof (cases "map_of (dl_create_failed s) key")
    case None
    then have n: "ev = []" "s' = (if result = [] then acked_failed key val s else s)\<lparr>dl_reader := RAfter\<rparr>"
      using assms(3,4) by (auto simp: judge_copies_def judge_create_def)
    show ?thesis
    proof (cases "result = []")
      case True
      with n assms(1,2) None l show ?thesis
        by (auto simp: report_inv_def judging_def acked_failed_def dict_has_def)
    next
      case False
      with n assms(1,2) l key show ?thesis by (auto simp: report_inv_def judging_def)
    qed
  next
    case (Some e)
    then have "dict_has (dl_create_failed s) key" by (simp add: dict_has_def)
    moreover from Some assms(3,4) have "ev = []" "dl_sdk_acked_curd_failed s' = dl_sdk_acked_curd_failed s"
      "dl_writer s' = dl_writer s" "dl_create_failed s' = dl_create_failed s" "dl_reader s' \<in> {RDead, RAfter}"
      by (auto simp: judge_copies_def judge_create_def exception_succeeded_def split: if_splits option.splits)
    ultimately show ?thesis using assms(1,2) unfolding report_inv_def judging_def by auto
  qed
qed

lemma report_inv_reader:
  assumes "dl_inv env g tr s" and "distinct (docgen_keys (le_rng env) g)" and "le_op_type env = ''create''"
    and "report_inv env tr s" and "reader_step env s = Some (ev, s')"
  shows "report_inv env (tr @ ev) s'"
proof (cases "dl_reader s")
  case RCheck
  have "dl_sdk_acked_curd_failed (reader_take env s) = dl_sdk_acked_curd_failed s"
    "judging (dl_reader (reader_take env s)) = {}" "dl_writer (reader_take env s) = dl_writer s"
    "dl_create_failed (reader_take env s) = dl_create_failed s" "\<forall>key val result. dl_reader (reader_take env s) \<noteq> RResult key val result"
    by (auto simp: reader_take_def judging_def split: sum.splits prod.splits)
  with RCheck assms(4,5) show ?thesis by (auto simp: reader_step_def report_inv_def judging_def split: if_splits)
next
  case (RDoc key val)
  with assms(5) report_inv_look [OF assms(1,2,4) RDoc] show ?thesis by (simp add: reader_step_def)
next
  case (RResult key val result)
  with assms(5) report_inv_judge [OF assms(4) RResult assms(3)] show ?thesis by (simp only: reader_step_def)
qed (use assms(4,5) in \<open>auto simp: reader_step_def report_inv_def judging_def split: if_splits\<close>)

lemma report_inv_persist:
  assumes "writer_inv env g s" and "persist_inv g s" and "report_inv env tr s" and "persist_step env s = Some (ev, s')"
  shows "report_inv env (tr @ ev) s'"
proof -
  have "looked_keys ev = []" using persist_inv_persist [OF assms(1,2,4)] by simp
  then have "Looked k r \<notin> set ev" for k r using looked_in by force
  with assms(3) persist_frame [OF assms(4)] show ?thesis unfolding report_inv_def by (auto simp: parts)
qed

lemma report_inv_run:
  assumes "le_ok env g" and "le_op_type env = ''create''" and "distinct (docgen_keys (le_rng env) g)" and "answers_asked env"
    and "dl_run env (loader_init env name g c) n tr s"
  shows "report_inv env tr s"
  using assms(5)
proof induction
  case start
  show ?case by (simp add: report_inv_def judging_def loader_init_def task.defs dict_has_def)
next
  case (step n tr s ev s')
  note inv = dl_inv_run [OF assms(1) step(1)]
  from step(2) show ?case
  proof cases
    case writer
    from report_inv_writer [OF inv assms(3,2,4) step.IH writer(2)] writer(1) show ?thesis by simp
  next
    case reader
    from report_inv_reader [OF inv assms(3,2) step.IH reader] show ?thesis .
  next
    case persist
    from inv have "writer_inv env g s" "persist_inv g s" by (simp_all add: dl_inv_def)
    from report_inv_persist [OF this step.IH persist] show ?thesis .
  qed
qed


section \<open>Schedules\<close>

text \<open>A run by the order in which the threads take their steps.\<close>

datatype thread = Wr | Rd | Ps

definition thread_step where
  "thread_step env th s =
     (case th of
        Wr \<Rightarrow> map_option (\<lambda>s'. ([], s')) (writer_step env s)
      | Rd \<Rightarrow> reader_step env s
      | Ps \<Rightarrow> persist_step env s)"

fun schedule ::
  "('t, 'p, 'c) loader_env \<Rightarrow> thread list \<Rightarrow> ('t, 'p, 'c) loader \<Rightarrow> ('t docval check_event list \<times> ('t, 'p, 'c) loader) option" where
  "schedule env [] s = Some ([], s)"
| "schedule env (th # ths) s =
     (case thread_step env th s of
        None \<Rightarrow> None
      | Some (ev, s') \<Rightarrow> map_option (\<lambda>(tr, s''). (ev @ tr, s'')) (schedule env ths s'))"

lemma thread_step_step: "thread_step env th s = Some (ev, s') \<Longrightarrow> dl_step env s ev s'"
  by (cases th) (auto simp: thread_step_def intro: dl_step.intros)

lemma schedule_run:
  assumes "schedule env ths s = Some (ev, s')" and "dl_run env s0 n tr s"
  shows "dl_run env s0 (n + length ths) (tr @ ev) s'"
  using assms
proof (induction ths arbitrary: s n tr ev)
  case (Cons th ths)
  then obtain e1 s1 e2 where 1: "thread_step env th s = Some (e1, s1)" and 2: "schedule env ths s1 = Some (e2, s')"
    and e: "ev = e1 @ e2" by (auto split: option.splits prod.splits)
  have "dl_run env s0 (Suc n) (tr @ e1) s1" by (rule dl_run.step [OF Cons.prems(2) thread_step_step [OF 1]])
  from Cons.IH [OF 2 this] e show ?case by simp
qed simp


section \<open>The guarantees\<close>

text \<open>C10. A durable load of new documents, whatever the order in which the threads run and whatever the
  server answers: at any time the documents that the reader has asked for are the first ones, in order and each once, and all of
  them belong to batches whose write is over and whose failures are filed; when the reader has ended, they are
  all documents of the range, and the documents reported as acknowledged but not found are exactly those for which no copy was
  returned and whose write had not failed.\<close>

theorem durable_create_report:
  assumes "le_ok env g" and "le_op_type env = ''create''" and "distinct (docgen_keys (le_rng env) g)" and "answers_asked env"
    and "dl_run env (loader_init env name g c) n tr s"
  shows "(\<exists>i. looked_keys tr = take i (docgen_keys (le_rng env) g)) \<and>
     set (looked_keys tr) \<subseteq> set (take (nat (dl_write_offset s - kg_start g)) (docgen_keys (le_rng env) g)) \<and>
     (dl_reader s = REnd \<longrightarrow> looked_keys tr = docgen_keys (le_rng env) g \<and>
        (\<forall>k. dict_has (dl_sdk_acked_curd_failed s) k \<longleftrightarrow> Looked k [] \<in> set tr \<and> \<not> dict_has (dl_create_failed s) k))"
proof -
  have r: "reader_inv env g (looked_keys tr) s" using dl_inv_run [OF assms(1,5)] by (simp add: dl_inv_def)
  have "\<exists>i. looked_keys tr = take i (docgen_keys (le_rng env) g)"
  proof (cases "dl_reader s")
    case REnd
    then show ?thesis using r by (intro exI [of _ "length (docgen_keys (le_rng env) g)"]) (simp add: reader_inv_def Let_def)
  qed (use r in \<open>auto simp: reader_inv_def Let_def intro: exI [of _ 0]\<close>)
  moreover have "dl_reader s = REnd \<longrightarrow> looked_keys tr = docgen_keys (le_rng env) g"
    using r by (auto simp: reader_inv_def Let_def)
  ultimately show ?thesis using looked_published [OF r] report_inv_run [OF assms]
    by (auto simp: report_inv_def judging_def)
qed

definition mini_sdk :: "(unit docval, unit, unit) sdk" where
  "mini_sdk col call c =
     (case call of
        BulkInsert items opts \<Rightarrow>
          (Inr (Some (map (\<lambda>(k, v). \<lparr>bi_id = k, bi_status = True, bi_cas = 1, bi_content = v,
             bi_error = \<lparr>je_str = [], je_class = [], je_message = Some [], je_context = []\<rparr>, bi_lookup_failed = False\<rparr>) items)), c)
      | _ \<Rightarrow> (Inr None, c))"

definition mini_env :: "(unit, unit, unit) loader_env" where
  "mini_env = \<lparr>le_json = unit_json, le_rng = const_rng, le_sdk = mini_sdk, le_get_all = (\<lambda>_ _ c. (Inr [], c)),
     le_vkey_stat = (\<lambda>_ _ c. (Inr [(''is_dirty'', ''false'')], c)), le_dict_eq = (\<lambda>_ _. False), le_message = (\<lambda>_. []),
     le_op_type = ''create'', le_args = crud_defaults, le_col = (''_default'', ''_default''), le_batch_size = 2,
     le_check_persistence = False, le_replicaNumber = 0, le_vbuckets = [], le_servers = []\<rparr>"

definition one_doc :: "unit docgen" where
  "one_doc = three_docs\<lparr>kg_end := 1\<rparr>"

definition mini_loader :: "(unit, unit, unit) loader" where
  "mini_loader = loader_init mini_env ''load'' one_doc ()"

definition mini_schedule :: "thread list" where
  "mini_schedule = [Rd, Wr, Wr, Wr, Wr, Wr, Rd, Rd, Rd, Rd, Rd, Rd, Wr, Wr]"

lemma mini_ran:
  "map_option (\<lambda>(tr, s). (tr, dl_reader s, map fst (dl_sdk_acked_curd_failed s), dl_writer s))
     (schedule mini_env mini_schedule mini_loader) =
   Some ([Looked ''doc-0000'' []], REnd, [''doc-0000''], WOver)"
  by code_simp

lemma mini_ok: "le_ok mini_env one_doc" "answers_asked mini_env" "docgen_keys (le_rng mini_env) one_doc = [''doc-0000'']"
proof -
  show "le_ok mini_env one_doc"
    by (simp add: le_ok_def mini_env_def one_doc_def three_docs_def docgen_ok_def kvgen_init_def kvgen.defs)
  show "answers_asked mini_env"
    by (force simp: answers_asked_def mini_env_def mini_sdk_def)
  show "docgen_keys (le_rng mini_env) one_doc = [''doc-0000'']" by code_simp
qed

lemma mini_run:
  obtains tr s where "dl_run mini_env (loader_init mini_env ''load'' one_doc ()) 14 tr s" and "dl_reader s = REnd"
    and "map fst (dl_sdk_acked_curd_failed s) = [''doc-0000'']" and "dl_writer s = WOver"
proof -
  from mini_ran obtain tr s where s: "schedule mini_env mini_schedule mini_loader = Some (tr, s)"
    and e: "dl_reader s = REnd" "map fst (dl_sdk_acked_curd_failed s) = [''doc-0000'']" "dl_writer s = WOver" by auto
  have "0 + length mini_schedule = 14" by (simp add: mini_schedule_def)
  with schedule_run [OF s [unfolded mini_loader_def] dl_run.start]
  have "dl_run mini_env (loader_init mini_env ''load'' one_doc ()) 14 tr s" by (simp only: append_Nil)
  from that [OF this e] show thesis .
qed

theorem durable_create_report_witness:
  "\<exists>tr s. dl_run mini_env mini_loader 14 tr s \<and> dl_reader s = REnd \<and> looked_keys tr = [''doc-0000''] \<and>
     dict_has (dl_sdk_acked_curd_failed s) ''doc-0000''"
proof -
  obtain tr s where run: "dl_run mini_env (loader_init mini_env ''load'' one_doc ()) 14 tr s"
    and e: "dl_reader s = REnd" "map fst (dl_sdk_acked_curd_failed s) = [''doc-0000'']" by (rule mini_run)
  have "le_op_type mini_env = ''create''" by (simp add: mini_env_def)
  from durable_create_report [OF mini_ok(1) this _ mini_ok(2) run] e(1) mini_ok(3)
  have "looked_keys tr = [''doc-0000'']" by simp
  moreover have "dict_has (dl_sdk_acked_curd_failed s) ''doc-0000''" using e(2) by (simp add: dict_has_iff_keys)
  ultimately show ?thesis using run e(1) unfolding mini_loader_def by blast
qed



text \<open>After an exception of the writer before the end of the range, the reader never ends: \<^verbatim>\<open>read_offset\<close> does not reach \<^verbatim>\<open>end\<close>.
  The task itself is over, and its thread goes on asking for the offset.\<close>

lemma reader_never_ends:
  assumes "le_ok env g" and "dl_run env (loader_init env name g c) n tr s" and "dl_write_offset s < dl_end s"
  shows "dl_reader s \<noteq> REnd"
proof
  have i: "writer_inv env g s" "reader_inv env g (looked_keys tr) s"
    using dl_inv_run [OF assms(1,2)] by (simp_all add: dl_inv_def)
  assume "dl_reader s = REnd"
  then have "dl_read_offset s = dl_end s"
    using reader_end_iff [OF assms(1) i] i(2) by (simp add: reader_inv_def Let_def)
  moreover have "dl_read_offset s \<le> dl_write_offset s" using i(2) by (simp add: reader_inv_def Let_def)
  ultimately show False using assms(3) by simp
qed

text \<open>For updates and deletions the persistence thread dies at the first document it looks at.\<close>

lemma persistence_dies:
  assumes "le_op_type env \<in> {''update'', ''delete''}" and "dl_persist s = PDoc key val" and "persist_step env s = Some (ev, s')"
  shows "dl_persist s' = PDead"
  using assms by (auto simp: persist_step_def persist_count_def split: sum.splits prod.splits)

text \<open>After one document the persistence thread takes the offset of the writer for its own, so the
  other documents of the batch are skipped, unless a later batch makes it go on.\<close>

lemma persistence_skips:
  assumes "dl_persist s = PAfter" and "dl_persistence_offset s \<noteq> dl_end s" and "persist_step env s = Some (ev, s')"
    and "dl_write_offset s \<noteq> dl_end s"
  shows "persist_step env s' = None"
  using assms by (auto simp: persist_step_def)

text \<open>A document that is still there on all nodes after its deletion was acknowledged is reported under the
  names of the fields of its copy; of several such documents only the last is left.\<close>

lemma undeleted_reported_by_field:
  assumes "judge_delete env key (d # ds) s = Inr s'" and "\<not> dict_has (dl_delete_failed s) key"
    and "le_replicaNumber env < int (length (d # ds))"
  shows "map_of (dl_sdk_acked_curd_failed s') ''key'' = Some (CopyKey key)"
    and "key \<notin> {''key'', ''value'', ''cas'', ''status''} \<Longrightarrow>
      map_of (dl_sdk_acked_curd_failed s') key = map_of (dl_sdk_acked_curd_failed s) key"
  using assms by (auto simp: judge_delete_def dict_update_all_def)

end
