(* ===== verification/Mc_Ascii.thy ===== *)
theory Mc_Ascii
  imports Mc_Wire
begin

text \<open>
  The client of the text protocol of memcached (\<^verbatim>\<open>lib/mc_ascii_client.py\<close>): lines and data blocks
  read from a socket that delivers the bytes in arbitrary pieces, the exchanges \<^verbatim>\<open>_doStore\<close>,
  \<^verbatim>\<open>_doRetrieve\<close>, \<^verbatim>\<open>_doStatsVersion\<close> and \<^verbatim>\<open>_doIncrDecr\<close>, and the commands.

  The socket is part of the client: the bytes sent, the pieces that the successive \<^verbatim>\<open>recv\<close> calls
  find (none left: closed by the peer), the answers of the \<^verbatim>\<open>select\<close> calls (\<open>False\<close> is a
  timeout) and the numbers of bytes that the \<^verbatim>\<open>send\<close> calls take. When one of the two lists of
  answers is used up, \<^verbatim>\<open>select\<close> finds the socket ready and \<^verbatim>\<open>send\<close> takes everything.

  The theorems: the answer to a retrieval is read back entry by entry, however it is cut into
  pieces and whatever bytes the values have; the number of bytes that a storage command announces
  is the number it sends; a missing key makes \<^verbatim>\<open>get\<close> raise \<^verbatim>\<open>IndexError\<close>; and \<^verbatim>\<open>touch\<close> fails exactly
  when the server did what it was asked.
\<close>

section \<open>The client\<close>

record ascii_client =
  ac_sent :: string
  ac_in :: "string list"
  ac_polls :: "bool list"
  ac_takes :: "nat list"

type_synonym 'a ac = "ascii_client \<Rightarrow> 'a res \<times> ascii_client"

definition abind :: "'a ac \<Rightarrow> ('a \<Rightarrow> 'b ac) \<Rightarrow> 'b ac" where
  "abind m f c = (case m c of (Inl e, c') \<Rightarrow> (Inl e, c') | (Inr x, c') \<Rightarrow> f x c')"

definition alift :: "'a res \<Rightarrow> 'a ac" where
  "alift r c = (r, c)"

lemma alift_simp [simp]: "alift r c = (r, c)"
  by (simp add: alift_def)

lemma abind_Inr: "m c = (Inr x, c') \<Longrightarrow> abind m f c = f x c'"
  by (simp add: abind_def)

lemma abind_Inl: "m c = (Inl e, c') \<Longrightarrow> abind m f c = (Inl e, c')"
  by (simp add: abind_def)

definition sock_select :: "ascii_client \<Rightarrow> bool \<times> ascii_client" where
  "sock_select c =
     (case ac_polls c of [] \<Rightarrow> (True, c) | b # bs \<Rightarrow> (b, c\<lparr>ac_polls := bs\<rparr>))"

definition sock_send :: "string \<Rightarrow> ascii_client \<Rightarrow> ascii_client" where
  "sock_send cmd c =
     (case ac_takes c of
        [] \<Rightarrow> c\<lparr>ac_sent := ac_sent c @ cmd\<rparr>
      | n # ns \<Rightarrow> c\<lparr>ac_sent := ac_sent c @ take n cmd, ac_takes := ns\<rparr>)"


section \<open>Messages\<close>

abbreviation crlf :: string where
  "crlf \<equiv> [CHR 0x0D, CHR 0x0A]"

definition ascii_sendMsg :: "string \<Rightarrow> unit ac" where
  "ascii_sendMsg cmd c =
     (case sock_select c of
        (True, c') \<Rightarrow> (Inr (), sock_send cmd c')
      | (False, c') \<Rightarrow> (Inl EOFError, c'))"

text \<open>The loop of \<^verbatim>\<open>_recvMsg\<close>, one byte a time, and its result \<^verbatim>\<open>response[:-2]\<close>.\<close>

function recv_line :: "string \<Rightarrow> string list \<Rightarrow> string res \<times> string list" where
  "recv_line response pieces =
     (if endswith response crlf then (Inr (take (length response - 2) response), pieces)
      else case sock_recv 1 pieces of
             (data, rest) \<Rightarrow>
               if data = [] then (Inl EOFError, rest) else recv_line (response @ data) rest)"
  by pat_completeness auto

lemma sock_recv_shorter:
  "sock_recv n ps = (d, ps') \<Longrightarrow> length (concat ps') = length (concat ps) - length d"
  "sock_recv n ps = (d, ps') \<Longrightarrow> length d \<le> length (concat ps)"
  by (auto simp: sock_recv_def split: list.splits if_splits)

termination recv_line
proof (relation "measure (\<lambda>(_, ps). length (concat ps))", goal_cases)
  case (2 response pieces data rest)
  then have "sock_recv 1 pieces = (data, rest)" by simp
  with sock_recv_shorter [OF this] 2 show ?case
    by (cases data) auto
qed simp

declare recv_line.simps [simp del]

definition ascii_recvMsg :: "string ac" where
  "ascii_recvMsg c =
     (case sock_select c of
        (False, c') \<Rightarrow> (Inl EOFError, c')
      | (True, c') \<Rightarrow>
          (case recv_line [] (ac_in c') of (r, rest) \<Rightarrow> (r, c'\<lparr>ac_in := rest\<rparr>)))"

text \<open>\<^verbatim>\<open>_recvData\<close>: the data and the line end after it; the two last bytes are cut off whatever they
  are. A negative length that the server sent gives the empty string.\<close>

definition ascii_recvData :: "int \<Rightarrow> string ac" where
  "ascii_recvData len c =
     (case sock_select c of
        (False, c') \<Rightarrow> (Inl EOFError, c')
      | (True, c') \<Rightarrow>
          (case recv_exact (nat (len + 2)) [] (ac_in c') of
             (Inl e, rest) \<Rightarrow> (Inl e, c'\<lparr>ac_in := rest\<rparr>)
           | (Inr response, rest) \<Rightarrow>
               (Inr (take (length response - 2) response), c'\<lparr>ac_in := rest\<rparr>)))"


section \<open>Exchanges\<close>

definition ascii_doStore :: "string \<Rightarrow> string ac" where
  "ascii_doStore cmd = abind (ascii_sendMsg cmd) (\<lambda>_. ascii_recvMsg)"

definition word_at :: "string \<Rightarrow> nat \<Rightarrow> string res" where
  "word_at msg i =
     (let ws = py_split (CHR '' '') msg in if i < length ws then Inr (ws ! i) else Inl IndexError)"

abbreviation head_word :: "string \<Rightarrow> string" where
  "head_word msg \<equiv> hd (py_split (CHR '' '') msg)"

type_synonym ascii_value = "int \<times> int \<times> string" \<comment> \<open>flags, cas, data\<close>

text \<open>The four fields of a \<^verbatim>\<open>VALUE\<close> line: key, flags, length and cas, read in this order.\<close>

definition value_line :: "string \<Rightarrow> (string \<times> int \<times> int \<times> int) res" where
  "value_line msg =
     rbind (word_at msg 1) (\<lambda>key.
     rbind (rbind (word_at msg 2) (py_int 10)) (\<lambda>flags.
     rbind (rbind (word_at msg 3) (py_int 10)) (\<lambda>len.
     rbind (rbind (word_at msg 4) (py_int 10)) (\<lambda>cas.
     Inr (key, flags mod 2 ^ 32, len, cas)))))"

text \<open>How many bytes the socket still has: the loops of the exchanges end because each line uses
  up at least its line end.\<close>

definition ac_left :: "ascii_client \<Rightarrow> nat" where
  "ac_left c = length (concat (ac_in c))"

lemma sock_select_in: "sock_select c = (b, c') \<Longrightarrow> ac_in c' = ac_in c"
  by (auto simp: sock_select_def split: list.splits)

lemma recv_line_shorter:
  "recv_line r ps = (Inr s, ps') \<Longrightarrow>
     length (concat ps') + length s + 2 = length (concat ps) + length r"
proof (induction r ps rule: recv_line.induct)
  case (1 response pieces)
  show ?case
  proof (cases "endswith response crlf")
    case True
    then have "take 2 (rev response) = rev crlf" by (simp add: endswith_def startswith_def numeral_2_eq_2)
    from arg_cong [OF this, of length] have "2 \<le> length response" by simp
    with True 1(2) show ?thesis by (subst (asm) recv_line.simps) auto
  next
    case False
    obtain d rest where r: "sock_recv 1 pieces = (d, rest)" by force
    show ?thesis using 1(2) False 1(1) [OF False r [symmetric]] r sock_recv_shorter [OF r]
      by (subst (asm) recv_line.simps) (auto split: if_splits)
  qed
qed

lemma recvMsg_shorter: "ascii_recvMsg c = (Inr msg, c') \<Longrightarrow> ac_left c' < ac_left c"
  by (auto simp: ascii_recvMsg_def ac_left_def split: prod.splits bool.splits
      dest!: recv_line_shorter sock_select_in)

lemma recv_exact_shorter:
  "recv_exact n acc ps = (r, ps') \<Longrightarrow> length (concat ps') \<le> length (concat ps)"
proof (induction n acc ps arbitrary: r rule: recv_exact.induct)
  case (1 n acc ps)
  obtain d rest where s: "sock_recv n ps = (d, rest)" by force
  show ?case using 1(2) 1(1) [OF _ s [symmetric]] s sock_recv_shorter [OF s]
    by (subst (asm) recv_exact.simps) (fastforce split: if_splits)
qed

lemma recvData_shorter: "ascii_recvData n c = (r, c') \<Longrightarrow> ac_left c' \<le> ac_left c"
  by (auto simp: ascii_recvData_def ac_left_def split: prod.splits bool.splits sum.splits
      dest!: recv_exact_shorter sock_select_in)

text \<open>The loop of \<^verbatim>\<open>_doRetrieve\<close> from the message that was read last.\<close>

function retrieve_loop ::
  "string \<Rightarrow> (string, ascii_value) dict \<Rightarrow> ((string, ascii_value) dict \<times> string) ac" where
  "retrieve_loop msg result c =
     (if head_word msg = ''VALUE'' then
        (case value_line msg of
           Inl e \<Rightarrow> (Inl e, c)
         | Inr (key, flags, len, cas) \<Rightarrow>
             (case ascii_recvData len c of
                (Inl e, c1) \<Rightarrow> (Inl e, c1)
              | (Inr data, c1) \<Rightarrow>
                  (case ascii_recvMsg c1 of
                     (Inl e, c2) \<Rightarrow> (Inl e, c2)
                   | (Inr msg', c2) \<Rightarrow>
                       retrieve_loop msg' (AList.update key (flags, cas, data) result) c2)))
      else (Inr (result, if msg = ''END'' then [] else msg), c))"
  by pat_completeness auto
termination
  by (relation "measure (\<lambda>(_, _, c). ac_left c)")
    (auto dest!: recvMsg_shorter [OF sym] recvData_shorter [OF sym])

declare retrieve_loop.simps [simp del]

definition ascii_doRetrieve :: "string \<Rightarrow> ((string, ascii_value) dict \<times> string) ac" where
  "ascii_doRetrieve cmd =
     abind (ascii_sendMsg cmd) (\<lambda>_. abind ascii_recvMsg (\<lambda>msg. retrieve_loop msg []))"

datatype stats_answer = StatVersion string | StatDict "(string, string) dict"

function ascii_stats_loop :: "string \<Rightarrow> (string, string) dict \<Rightarrow> (stats_answer \<times> string) ac" where
  "ascii_stats_loop msg result c =
     (if head_word msg = ''STAT'' \<or> head_word msg = ''VERSION'' then
        (case word_at msg 1 of
           Inl e \<Rightarrow> (Inl e, c)
         | Inr key \<Rightarrow>
             if head_word msg = ''VERSION'' then (Inr (StatVersion key, []), c)
             else (case word_at msg 2 of
                     Inl e \<Rightarrow> (Inl e, c)
                   | Inr value \<Rightarrow>
                       (case ascii_recvMsg c of
                          (Inl e, c2) \<Rightarrow> (Inl e, c2)
                        | (Inr msg', c2) \<Rightarrow> ascii_stats_loop msg' (AList.update key value result) c2)))
      else (Inr (StatDict result, if msg = ''END'' then [] else msg), c))"
  by pat_completeness auto
termination
  by (relation "measure (\<lambda>(_, _, c). ac_left c)") (auto dest!: recvMsg_shorter [OF sym])

declare ascii_stats_loop.simps [simp del]

definition ascii_doStatsVersion :: "string \<Rightarrow> (stats_answer \<times> string) ac" where
  "ascii_doStatsVersion cmd =
     abind (ascii_sendMsg cmd) (\<lambda>_. abind ascii_recvMsg (\<lambda>msg. ascii_stats_loop msg []))"

definition ascii_doIncrDecr :: "string \<Rightarrow> ((int \<times> int) option \<times> string) ac" where
  "ascii_doIncrDecr cmd =
     abind (ascii_sendMsg cmd) (\<lambda>_. abind ascii_recvMsg (\<lambda>msg.
       alift (case py_int 10 msg of Inr n \<Rightarrow> Inr (Some (n, 0), []) | Inl _ \<Rightarrow> Inr (None, msg))))"


section \<open>Commands\<close>

definition expect :: "string \<Rightarrow> string \<Rightarrow> unit ac" where
  "expect answer cmd =
     abind (ascii_doStore cmd) (\<lambda>response.
       alift (if response \<noteq> answer then Inl (MemcachedError (- 1) response) else Inr ()))"

text \<open>\<^verbatim>\<open>"... {0} ...".format(...)\<close>: the words of the command line, separated by blanks, and its end.\<close>

definition cmd_line :: "string list \<Rightarrow> string" where
  "cmd_line ws = py_join '' '' ws @ crlf"

definition len_str :: "string \<Rightarrow> string" where
  "len_str s = int_str (int (length s))"

definition append_cmd :: "string \<Rightarrow> string \<Rightarrow> int \<Rightarrow> string" where
  "append_cmd key value cas =
     cmd_line [''append'', key, ''0'', ''0'', len_str value, int_str cas] @ value @ crlf"

definition ascii_append :: "string \<Rightarrow> string \<Rightarrow> int \<Rightarrow> unit ac" where
  "ascii_append key value cas = expect ''STORED'' (append_cmd key value cas)"

definition prepend_cmd :: "string \<Rightarrow> string \<Rightarrow> int \<Rightarrow> string" where
  "prepend_cmd key value cas =
     cmd_line [''prepend'', key, ''0'', ''0'', len_str value, int_str cas] @ value @ crlf"

definition ascii_prepend :: "string \<Rightarrow> string \<Rightarrow> int \<Rightarrow> unit ac" where
  "ascii_prepend key value cas = expect ''STORED'' (prepend_cmd key value cas)"

text \<open>\<^verbatim>\<open>if error: raise MemcachedError(-1, error)\<close>.\<close>

definition no_error :: "'a \<times> string \<Rightarrow> 'a res" where
  "no_error = (\<lambda>(response, error).
     if error \<noteq> [] then Inl (MemcachedError (- 1) error) else Inr response)"

definition ascii_incr :: "string \<Rightarrow> int \<Rightarrow> int \<Rightarrow> int \<Rightarrow> (int \<times> int) option ac" where
  "ascii_incr key amt init exp =
     abind (ascii_doIncrDecr (cmd_line [''incr'', key, int_str amt])) (\<lambda>r. alift (no_error r))"

definition ascii_decr :: "string \<Rightarrow> int \<Rightarrow> int \<Rightarrow> int \<Rightarrow> (int \<times> int) option ac" where
  "ascii_decr key amt init exp =
     abind (ascii_doIncrDecr (cmd_line [''decr'', key, int_str amt])) (\<lambda>r. alift (no_error r))"

definition store_cmd :: "string \<Rightarrow> string \<Rightarrow> int \<Rightarrow> int \<Rightarrow> string \<Rightarrow> string" where
  "store_cmd verb key exp flags val =
     cmd_line [verb, key, int_str flags, int_str exp, len_str val] @ val @ crlf"

definition ascii_set :: "string \<Rightarrow> int \<Rightarrow> int \<Rightarrow> string \<Rightarrow> unit ac" where
  "ascii_set key exp flags val = expect ''STORED'' (store_cmd ''set'' key exp flags val)"

definition ascii_add :: "string \<Rightarrow> int \<Rightarrow> int \<Rightarrow> string \<Rightarrow> unit ac" where
  "ascii_add key exp flags val = expect ''STORED'' (store_cmd ''add'' key exp flags val)"

definition ascii_replace :: "string \<Rightarrow> int \<Rightarrow> int \<Rightarrow> string \<Rightarrow> unit ac" where
  "ascii_replace key exp flags val = expect ''STORED'' (store_cmd ''replace'' key exp flags val)"

text \<open>\<^verbatim>\<open>response.items()[0][1]\<close>.\<close>

definition first_item :: "(string, ascii_value) dict \<Rightarrow> ascii_value res" where
  "first_item d = (case d of [] \<Rightarrow> Inl IndexError | (k, v) # _ \<Rightarrow> Inr v)"

definition retrieve_first :: "string \<Rightarrow> ascii_value ac" where
  "retrieve_first cmd =
     abind (ascii_doRetrieve cmd) (\<lambda>r. alift (rbind (no_error r) first_item))"

definition ascii_get :: "string \<Rightarrow> ascii_value ac" where
  "ascii_get key = retrieve_first (cmd_line [''gets'', key])"

definition ascii_getl :: "string \<Rightarrow> int \<Rightarrow> ascii_value ac" where
  "ascii_getl key exp = retrieve_first (cmd_line [''getl'', key, int_str exp])"

definition cas_cmd :: "string \<Rightarrow> int \<Rightarrow> int \<Rightarrow> int \<Rightarrow> string \<Rightarrow> string" where
  "cas_cmd key exp flags oldVal val =
     cmd_line [''cas'', key, int_str flags, int_str exp, len_str val, int_str oldVal] @ val @ crlf"

definition ascii_cas :: "string \<Rightarrow> int \<Rightarrow> int \<Rightarrow> int \<Rightarrow> string \<Rightarrow> unit ac" where
  "ascii_cas key exp flags oldVal val = expect ''STORED'' (cas_cmd key exp flags oldVal val)"

definition ascii_touch :: "string \<Rightarrow> int \<Rightarrow> unit ac" where
  "ascii_touch key exp = expect ''STORED'' (cmd_line [''touch'', key, int_str exp])"

definition ascii_gat :: "string \<Rightarrow> int \<Rightarrow> ascii_value ac" where
  "ascii_gat key exp = retrieve_first (cmd_line [''gat'', key, int_str exp])"

definition ascii_version :: "stats_answer ac" where
  "ascii_version = abind (ascii_doStatsVersion (cmd_line [''version''])) (\<lambda>r. alift (no_error r))"

definition ascii_getMulti :: "string list \<Rightarrow> (string, ascii_value) dict ac" where
  "ascii_getMulti keys =
     abind (ascii_doRetrieve (foldl (\<lambda>cmd key. cmd @ '' '' @ key) ''gets'' keys @ crlf))
       (\<lambda>r. alift (no_error r))"

definition ascii_stats :: "string \<Rightarrow> stats_answer ac" where
  "ascii_stats sub =
     abind (ascii_doStatsVersion (''stats'' @ (if sub \<noteq> [] then '' '' @ sub else sub) @ crlf))
       (\<lambda>r. alift (no_error r))"

definition ascii_delete :: "string \<Rightarrow> int \<Rightarrow> unit ac" where
  "ascii_delete key cas = expect ''DELETED'' (cmd_line [''delete'', key, int_str cas])"

text \<open>The class has no method \<^verbatim>\<open>_doCmd\<close>.\<close>

definition ascii_flush :: "int \<Rightarrow> unit ac" where
  "ascii_flush timebomb c = (Inl AttributeError, c)"


section \<open>Reading lines\<close>

lemma endswith_crlf: "endswith s crlf \<longleftrightarrow> (\<exists>t. s = t @ crlf)"
proof -
  have "endswith s crlf \<longleftrightarrow> (\<exists>t. rev s = rev crlf @ t)" by (simp add: endswith_def startswith_iff)
  also have "\<dots> \<longleftrightarrow> (\<exists>t. s = t @ crlf)"
    by (metis append_Nil2 rev_append rev_rev_ident)
  finally show ?thesis .
qed

text \<open>A line has no line end inside: for every beginning that ends with the two characters, the
  beginning is more than the line. Without a carriage return there is none.\<close>

definition line_ok :: "string \<Rightarrow> bool" where
  "line_ok l \<longleftrightarrow> CHR 0x0D \<notin> set l"

lemma line_not_ended: "line_ok l \<Longrightarrow> l @ crlf = a @ b \<Longrightarrow> b \<noteq> [] \<Longrightarrow> \<not> endswith a crlf"
proof
  assume l: "line_ok l" "l @ crlf = a @ b" "b \<noteq> []" and "endswith a crlf"
  then obtain t where "a = t @ crlf" by (auto simp: endswith_crlf)
  with l(2) have e: "l @ crlf = (t @ [CHR 0x0D]) @ CHR 0x0A # b" by simp
  have "length (t @ [CHR 0x0D]) \<le> length l" using arg_cong [OF e, of length] l(3) by (cases b) auto
  then have "take (length (t @ [CHR 0x0D])) l = t @ [CHR 0x0D]"
    using arg_cong [OF e, of "take (length (t @ [CHR 0x0D]))"] by simp
  then have "CHR 0x0D \<in> set l" by (metis in_set_takeD in_set_conv_decomp)
  with l(1) show False by (simp add: line_ok_def)
qed

lemma recv_line_read:
  assumes "live_pieces ps" and "concat ps = b @ s" and "line_ok l" and "l @ crlf = a @ b"
  shows "\<exists>ps'. recv_line a ps = (Inr l, ps') \<and> live_pieces ps' \<and> concat ps' = s"
  using assms
proof (induction b arbitrary: a ps)
  case Nil
  then show ?case by (subst recv_line.simps) (auto simp: endswith_crlf)
next
  case (Cons x b)
  obtain d ps1 where r: "sock_recv 1 ps = (d, ps1)" by force
  note p = sock_recv_props [OF Cons.prems(1) _ r]
  have "d \<noteq> []" using p(4) Cons.prems(2) by fastforce
  then have d: "d = [x]" using p(1,2) Cons.prems(2) by (cases d) auto
  have "\<exists>ps'. recv_line (a @ [x]) ps1 = (Inr l, ps') \<and> live_pieces ps' \<and> concat ps' = s"
    by (rule Cons.IH) (use p d Cons.prems in auto)
  with line_not_ended [OF Cons.prems(3,4)] r d show ?case
    by (subst recv_line.simps) simp
qed

text \<open>Bytes that wait in the socket, all \<^verbatim>\<open>select\<close> calls finding it ready.\<close>

definition waiting :: "ascii_client \<Rightarrow> string \<Rightarrow> bool" where
  "waiting c s \<longleftrightarrow> live_pieces (ac_in c) \<and> concat (ac_in c) = s \<and> ac_polls c = []"

lemma sock_select_ready [simp]: "waiting c s \<Longrightarrow> sock_select c = (True, c)"
  by (simp add: sock_select_def waiting_def)

lemma sock_send_socket [simp]:
  "ac_in (sock_send cmd c) = ac_in c" "ac_polls (sock_send cmd c) = ac_polls c"
  by (simp_all add: sock_send_def split: list.split)

lemma recvMsg_read:
  assumes "waiting c (l @ crlf @ s)" and "line_ok l"
  shows "\<exists>ps. ascii_recvMsg c = (Inr l, c\<lparr>ac_in := ps\<rparr>) \<and> waiting (c\<lparr>ac_in := ps\<rparr>) s"
  using recv_line_read [of "ac_in c" "l @ crlf" s l "[]"] assms
  by (auto simp: ascii_recvMsg_def waiting_def sock_select_def)

lemma recvData_read:
  assumes "waiting c (v @ crlf @ s)"
  shows "\<exists>ps. ascii_recvData (int (length v)) c = (Inr v, c\<lparr>ac_in := ps\<rparr>) \<and>
     waiting (c\<lparr>ac_in := ps\<rparr>) s"
proof -
  have "nat (int (length v) + 2) = length v + 2" by simp
  with recv_exact_props [of "ac_in c" "length v + 2" "[]"] assms show ?thesis
    by (auto simp: ascii_recvData_def waiting_def sock_select_def)
qed


section \<open>Reading numbers and the lines of an answer\<close>

lemma nat_str_excl:
  assumes "c \<in> set (nat_str n)"
  shows "\<not> py_ws c" and "c \<noteq> CHR ''-''" and "c \<noteq> CHR ''+''" and "c \<noteq> CHR '' ''" and "c \<noteq> CHR 0x0D"
proof -
  from nat_str_chars [OF assms] obtain d where "d < 10" and c: "c = char_of (48 + d :: nat)" by blast
  then have n: "of_char c = (48 + d :: nat)" by simp
  show "\<not> py_ws c" and "c \<noteq> CHR ''-''" and "c \<noteq> CHR ''+''" and "c \<noteq> CHR '' ''" and "c \<noteq> CHR 0x0D"
    using n by (auto simp: py_ws_def)
qed

lemma py_strip_no_ws: "(\<And>c. c \<in> set s \<Longrightarrow> \<not> py_ws c) \<Longrightarrow> py_strip s = s"
proof -
  assume ws: "\<And>c. c \<in> set s \<Longrightarrow> \<not> py_ws c"
  have d: "dropWhile py_ws t = t" if "set t \<subseteq> set s" for t
    using ws that by (cases t) auto
  show ?thesis by (simp add: py_strip_def py_rstrip_def d)
qed

lemma int_str_excl:
  assumes "c \<in> set (int_str i)"
  shows "\<not> py_ws c" and "c \<noteq> CHR '' ''" and "c \<noteq> CHR 0x0D"
  using assms nat_str_excl [of c] by (auto simp: int_str_def py_ws_def split: if_splits)

lemma py_int_int_str [simp]: "py_int 10 (int_str i) = Inr i"
proof (cases "i < 0")
  case True
  then have "py_nat 10 (nat_str (nat (- i))) = Inr (nat (- i))"
    by (simp add: py_nat_def digits_val_nat_str)
  moreover have "py_strip (int_str i) = int_str i" by (rule py_strip_no_ws) (rule int_str_excl(1))
  ultimately show ?thesis using True by (simp add: py_int_def int_str_def)
next
  case False
  obtain c cs where s: "nat_str (nat i) = c # cs" by (meson list.exhaust nat_str_ne)
  with digits_val_nat_str [of "nat i"] have "py_nat 10 (c # cs) = Inr (nat i)"
    by (simp add: py_nat_def del: digits_val.simps)
  moreover have "py_strip (int_str i) = int_str i" by (rule py_strip_no_ws) (rule int_str_excl(1))
  ultimately show ?thesis using False s nat_str_excl(2,3) [of c "nat i"]
    by (simp add: py_int_def int_str_def)
qed

definition key_ok :: "string \<Rightarrow> bool" where
  "key_ok k \<longleftrightarrow> CHR '' '' \<notin> set k \<and> line_ok k"

definition value_block :: "string \<times> ascii_value \<Rightarrow> string" where
  "value_block = (\<lambda>(k, f, cas, d).
     cmd_line [''VALUE'', k, int_str f, len_str d, int_str cas] @ d @ crlf)"

definition value_head :: "string \<Rightarrow> int \<Rightarrow> string \<Rightarrow> int \<Rightarrow> string" where
  "value_head k f d cas = py_join '' '' [''VALUE'', k, int_str f, len_str d, int_str cas]"

lemma words_value:
  "key_ok k \<Longrightarrow> py_split (CHR '' '') (value_head k f d cas) =
     [''VALUE'', k, int_str f, len_str d, int_str cas]"
  unfolding value_head_def using int_str_excl(2) by (subst py_split_join) (auto simp: key_ok_def len_str_def)

lemma line_ok_value: "key_ok k \<Longrightarrow> line_ok (value_head k f d cas)"
  using int_str_excl(3) by (auto simp: value_head_def key_ok_def line_ok_def len_str_def)

lemma value_line_read:
  assumes "key_ok k" and "0 \<le> f" and "f < 2 ^ 32"
  shows "value_line (value_head k f d cas) = Inr (k, f, int (length d), cas)"
  unfolding value_line_def word_at_def words_value [OF assms(1)] Let_def
  using assms by (simp add: len_str_def mod_pos_pos_trivial)

section \<open>The answer to a retrieval\<close>

definition entry_ok :: "string \<times> ascii_value \<Rightarrow> bool" where
  "entry_ok = (\<lambda>(k, f, cas, d). key_ok k \<and> 0 \<le> f \<and> f < 2 ^ 32)"

text \<open>A line that ends the answer: \<^verbatim>\<open>END\<close> or an error message.\<close>

definition last_line :: "string \<Rightarrow> bool" where
  "last_line l \<longleftrightarrow> line_ok l \<and> head_word l \<noteq> ''VALUE''"

definition answer_text :: "(string \<times> ascii_value) list \<Rightarrow> string \<Rightarrow> string" where
  "answer_text es l = concat (map value_block es) @ l @ crlf"

text \<open>The first line of an answer and what follows it.\<close>

fun answer_head :: "(string \<times> ascii_value) list \<Rightarrow> string \<Rightarrow> string" where
  "answer_head [] l = l"
| "answer_head ((k, f, cas, d) # es) l = value_head k f d cas"

fun answer_tail :: "(string \<times> ascii_value) list \<Rightarrow> string \<Rightarrow> string" where
  "answer_tail [] l = []"
| "answer_tail ((k, f, cas, d) # es) l = d @ crlf @ answer_text es l"

lemma answer_text_head: "answer_text es l = answer_head es l @ crlf @ answer_tail es l"
  by (cases "(es, l)" rule: answer_head.cases)
    (simp_all add: answer_text_def value_block_def cmd_line_def value_head_def)

lemma answer_head_ok: "list_all entry_ok es \<Longrightarrow> last_line l \<Longrightarrow> line_ok (answer_head es l)"
  using line_ok_value
  by (cases "(es, l)" rule: answer_head.cases) (auto simp: entry_ok_def last_line_def)

lemma retrieve_loop_last:
  "last_line l \<Longrightarrow> retrieve_loop l result c = (Inr (result, if l = ''END'' then [] else l), c)"
  by (subst retrieve_loop.simps) (simp add: last_line_def)

lemma retrieve_loop_value:
  assumes "entry_ok (k, f, cas, d)"
    and "ascii_recvData (int (length d)) c = (Inr d, c1)" and "ascii_recvMsg c1 = (Inr msg, c2)"
  shows "retrieve_loop (value_head k f d cas) result c =
     retrieve_loop msg (AList.update k (f, cas, d) result) c2"
proof -
  have k: "key_ok k" and "value_line (value_head k f d cas) = Inr (k, f, int (length d), cas)"
    using assms(1) by (auto simp: entry_ok_def intro: value_line_read)
  with assms(2,3) show ?thesis
    unfolding retrieve_loop.simps [of "value_head k f d cas"] words_value [OF k] by simp
qed

lemma retrieve_loop_answer:
  assumes "list_all entry_ok es" and "last_line l" and "waiting c (answer_tail es l @ s)"
  shows "\<exists>ps. retrieve_loop (answer_head es l) result c =
       (Inr (dict_update_all result es, if l = ''END'' then [] else l), c\<lparr>ac_in := ps\<rparr>) \<and>
     waiting (c\<lparr>ac_in := ps\<rparr>) s"
  using assms(1,3)
proof (induction es arbitrary: result c)
  case Nil
  then have "c\<lparr>ac_in := ac_in c\<rparr> = c \<and> waiting c s" by simp
  then show ?case using assms(2)
    by (intro exI [of _ "ac_in c"]) (simp add: retrieve_loop_last dict_update_all_def)
next
  case (Cons e es)
  obtain k f cas d where e: "e = (k, f, cas, d)" by (metis prod.exhaust)
  from Cons.prems e obtain ps1 where
    1: "ascii_recvData (int (length d)) c = (Inr d, c\<lparr>ac_in := ps1\<rparr>)"
       "waiting (c\<lparr>ac_in := ps1\<rparr>) (answer_text es l @ s)"
    using recvData_read [of c d "answer_text es l @ s"] by auto
  from 1(2) Cons.prems(1) assms(2) obtain ps2 where
    2: "ascii_recvMsg (c\<lparr>ac_in := ps1\<rparr>) = (Inr (answer_head es l), c\<lparr>ac_in := ps2\<rparr>)"
       "waiting (c\<lparr>ac_in := ps2\<rparr>) (answer_tail es l @ s)"
    using recvMsg_read [of "c\<lparr>ac_in := ps1\<rparr>" "answer_head es l" "answer_tail es l @ s"]
      answer_head_ok [of es l] by (auto simp: answer_text_head [of es])
  from Cons.IH [OF _ 2(2), of "AList.update k (f, cas, d) result"] Cons.prems(1) e
  show ?case
    using retrieve_loop_value [OF _ 1(1) 2(1), of k f cas]
    by (simp add: dict_update_all_def)
qed

lemma doRetrieve_answer:
  assumes "list_all entry_ok es" and "last_line l" and "waiting c (answer_text es l @ s)"
  shows "\<exists>ps. ascii_doRetrieve cmd c =
       (Inr (dict_update_all [] es, if l = ''END'' then [] else l), sock_send cmd c\<lparr>ac_in := ps\<rparr>) \<and>
     concat ps = s"
proof -
  let ?c = "sock_send cmd c"
  have "answer_head es l @ crlf @ answer_tail es l @ s = answer_text es l @ s"
    unfolding answer_text_head [of es l] by simp
  then have w: "waiting ?c (answer_head es l @ crlf @ answer_tail es l @ s)"
    using assms(3) unfolding waiting_def sock_send_socket by simp
  from recvMsg_read [OF w answer_head_ok [OF assms(1,2)]] obtain ps where
    m: "ascii_recvMsg ?c = (Inr (answer_head es l), ?c\<lparr>ac_in := ps\<rparr>)"
       "waiting (?c\<lparr>ac_in := ps\<rparr>) (answer_tail es l @ s)" by blast
  have send: "ascii_sendMsg cmd c = (Inr (), ?c)" using assms(3) by (simp add: ascii_sendMsg_def)
  from retrieve_loop_answer [OF assms(1,2) m(2), of "[]"] obtain ps' where
    r: "retrieve_loop (answer_head es l) [] (?c\<lparr>ac_in := ps\<rparr>) =
         (Inr (dict_update_all [] es, if l = ''END'' then [] else l), ?c\<lparr>ac_in := ps, ac_in := ps'\<rparr>)"
    and w': "waiting (?c\<lparr>ac_in := ps, ac_in := ps'\<rparr>) s" by blast
  have "ascii_doRetrieve cmd c = retrieve_loop (answer_head es l) [] (?c\<lparr>ac_in := ps\<rparr>)"
    unfolding ascii_doRetrieve_def by (simp add: abind_def send m(1))
  moreover have "?c\<lparr>ac_in := ps, ac_in := ps'\<rparr> = ?c\<lparr>ac_in := ps'\<rparr>" by simp
  moreover have "concat ps' = s" using w' by (simp add: waiting_def)
  ultimately show ?thesis using r by metis
qed

text \<open>The answer to one request of several keys, read back: the dictionary has the entries of the
  answer, and an error message that ends the answer is raised. An empty last line passes for
  \<^verbatim>\<open>END\<close>.\<close>

definition gets_cmd :: "string list \<Rightarrow> string" where
  "gets_cmd keys = cmd_line (''gets'' # keys)"

lemma foldl_words: "foldl (\<lambda>cmd key. cmd @ '' '' @ key) a ks = py_join '' '' (a # ks)"
proof (induction ks arbitrary: a)
  case (Cons k ks)
  show ?case using Cons.IH [of "a @ '' '' @ k"] by (cases ks) simp_all
qed simp

lemma dict_update_all_distinct:
  "distinct (map fst (d @ es)) \<Longrightarrow> dict_update_all d es = d @ es"
proof (induction es arbitrary: d)
  case (Cons e es)
  obtain k v where e: "e = (k, v)" by force
  have "AList.update k v d = d @ [(k, v)]" by (rule update_new) (use Cons.prems e in auto)
  with Cons.IH [of "d @ [(k, v)]"] Cons.prems e show ?case by (simp add: dict_update_all_def)
qed (simp add: dict_update_all_def)

text \<open>C19. A retrieval reads back the answer of the server. Whatever bytes the values have (line ends
  and the text of other lines too), however the bytes are cut into pieces, and for keys without
  blanks and line ends: \<^verbatim>\<open>getMulti\<close> sends one line with all keys and returns exactly the entries
  of the answer with their flags, cas and data, leaving in the socket what comes after the
  answer; if the answer ends with anything but \<^verbatim>\<open>END\<close> or an empty line, that line is raised as
  the message of a \<^verbatim>\<open>MemcachedError\<close> and the entries are lost.\<close>

theorem getMulti_reads_answer:
  assumes "list_all entry_ok es" and "distinct (map fst es)" and "last_line l"
    and "waiting c (answer_text es l @ s)" and "ac_takes c = []"
  shows "\<exists>ps. ascii_getMulti keys c =
       (if l \<in> {''END'', []} then Inr es else Inl (MemcachedError (- 1) l),
        c\<lparr>ac_sent := ac_sent c @ gets_cmd keys, ac_in := ps\<rparr>) \<and> concat ps = s"
proof -
  have sent: "sock_send (gets_cmd keys) c = c\<lparr>ac_sent := ac_sent c @ gets_cmd keys\<rparr>"
    using assms(5) by (simp add: sock_send_def)
  from doRetrieve_answer [OF assms(1,3,4), of "gets_cmd keys"] obtain ps where
    r: "ascii_doRetrieve (gets_cmd keys) c =
         (Inr (es, if l = ''END'' then [] else l), sock_send (gets_cmd keys) c\<lparr>ac_in := ps\<rparr>)"
    and s: "concat ps = s"
    using dict_update_all_distinct [of "[]" es] assms(2) by auto
  have cmd: "foldl (\<lambda>cmd key. cmd @ '' '' @ key) ''gets'' keys @ crlf = gets_cmd keys"
    unfolding gets_cmd_def cmd_line_def foldl_words ..
  show ?thesis unfolding ascii_getMulti_def cmd
    by (intro exI [of _ ps]) (simp add: abind_def r sent s no_error_def)
qed

text \<open>The keys \<^verbatim>\<open>a\<close> and \<^verbatim>\<open>b\<close>, the value of the first being the text of a last line, in three pieces.\<close>

definition two_values :: "(string \<times> ascii_value) list" where
  "two_values = [(''a'', 5, 77, ''END'' @ crlf), (''b'', 0, 78, [])]"

definition two_values_client :: ascii_client where
  "two_values_client = (let t = answer_text two_values ''END'' in
     \<lparr>ac_sent = [], ac_in = [take 3 t, take 20 (drop 3 t), drop 23 t], ac_polls = [], ac_takes = []\<rparr>)"

theorem getMulti_reads_answer_witness:
  "\<exists>ps. ascii_getMulti [''a'', ''b'', ''c''] two_values_client =
     (Inr two_values, two_values_client\<lparr>ac_sent := ''gets a b c'' @ crlf, ac_in := ps\<rparr>) \<and> concat ps = []"
proof -
  have ok: "list_all entry_ok two_values" "distinct (map fst two_values)" "last_line ''END''"
    by (simp_all add: two_values_def entry_ok_def key_ok_def last_line_def line_ok_def)
  have w: "waiting two_values_client (answer_text two_values ''END'' @ [])"
    by (simp add: waiting_def two_values_client_def two_values_def answer_text_def value_block_def
        cmd_line_def len_str_def int_str_def nat_str.simps live_pieces_def Let_def)
  have t: "ac_takes two_values_client = []" "ac_sent two_values_client = []"
    by (simp_all add: two_values_client_def Let_def)
  show ?thesis using getMulti_reads_answer [OF ok w t(1), of "[''a'', ''b'', ''c'']"] t(2)
    by (simp add: gets_cmd_def cmd_line_def)
qed


section \<open>Single commands\<close>

text \<open>A key that the server does not have is no error of the exchange, but \<^verbatim>\<open>get\<close>, \<^verbatim>\<open>getl\<close> and
  \<^verbatim>\<open>gat\<close> take the first of no items.\<close>

lemma get_miss_index_error:
  assumes "waiting c (''END'' @ crlf @ s)"
  shows "fst (ascii_get key c) = Inl IndexError"
  using doRetrieve_answer [of "[]" "''END''" c s "cmd_line [''gets'', key]"] assms
  by (auto simp: ascii_get_def retrieve_first_def abind_def answer_text_def last_line_def
      line_ok_def no_error_def first_item_def dict_update_all_def)

lemma doStore_answer:
  assumes "waiting c (l @ crlf @ s)" and "line_ok l"
  shows "fst (ascii_doStore cmd c) = Inr l"
proof -
  have w: "waiting (sock_send cmd c) (l @ crlf @ s)"
    using assms(1) unfolding waiting_def sock_send_socket .
  have "ascii_sendMsg cmd c = (Inr (), sock_send cmd c)"
    using assms(1) by (simp add: ascii_sendMsg_def)
  with recvMsg_read [OF w assms(2)] show ?thesis by (auto simp: ascii_doStore_def abind_def)
qed

lemma expect_answer:
  assumes "waiting c (l @ crlf @ s)" and "line_ok l"
  shows "fst (expect answer cmd c) =
     (if l = answer then Inr () else Inl (MemcachedError (- 1) l))"
  using doStore_answer [OF assms, of cmd]
  by (cases "ascii_doStore cmd c") (auto simp: expect_def abind_def)

text \<open>The server answers \<^verbatim>\<open>TOUCHED\<close> to a \<^verbatim>\<open>touch\<close> that it carried out; the client takes it for a
  failure.\<close>

lemma touch_success_raises:
  assumes "waiting c (''TOUCHED'' @ crlf @ s)"
  shows "fst (ascii_touch key exp c) = Inl (MemcachedError (- 1) ''TOUCHED'')"
  using expect_answer [OF assms] by (simp add: ascii_touch_def line_ok_def)

text \<open>The socket of a peer that reads a storage command with the same two readers: the line has
  the words of the command, and the data block that it announces is the value.\<close>

lemma store_cmd_understood:
  assumes "waiting p (store_cmd verb key exp flags val @ s)" and "key_ok verb" and "key_ok key"
  obtains line p1 p2 where "ascii_recvMsg p = (Inr line, p1)"
    and "py_split (CHR '' '') line = [verb, key, int_str flags, int_str exp, len_str val]"
    and "ascii_recvData (int (length val)) p1 = (Inr val, p2)" and "waiting p2 s"
proof -
  let ?ws = "[verb, key, int_str flags, int_str exp, len_str val]"
  have w: "waiting p (py_join '' '' ?ws @ crlf @ val @ crlf @ s)"
    using assms(1) by (simp add: store_cmd_def cmd_line_def)
  have l: "line_ok (py_join '' '' ?ws)"
    using assms(2,3) int_str_excl(3) by (auto simp: line_ok_def key_ok_def len_str_def)
  have ws: "py_split (CHR '' '') (py_join '' '' ?ws) = ?ws"
    using assms(2,3) int_str_excl(2) by (subst py_split_join) (auto simp: key_ok_def len_str_def)
  from recvMsg_read [OF w l] recvData_read that ws show thesis by blast
qed

text \<open>\<^verbatim>\<open>send\<close> may take only the beginning of the command; \<^verbatim>\<open>_sendMsg\<close> does not look at the number it
  returns, and the rest is never sent.\<close>

lemma partial_send_truncates:
  assumes "ac_polls c = []" and "ac_takes c = n # ns"
  shows "ascii_sendMsg cmd c = (Inr (), c\<lparr>ac_sent := ac_sent c @ take n cmd, ac_takes := ns\<rparr>)"
  using assms by (simp add: ascii_sendMsg_def sock_select_def sock_send_def)

text \<open>A statistic whose value has blanks is cut at the first one.\<close>

lemma stats_value_cut:
  assumes "key_ok k" and "CHR '' '' \<notin> set v" and "ascii_recvMsg c = (Inr msg, c')"
  shows "ascii_stats_loop (''STAT '' @ k @ '' '' @ v @ '' '' @ w) result c =
     ascii_stats_loop msg (AList.update k v result) c'"
proof -
  have "py_split (CHR '' '') (''STAT '' @ k @ '' '' @ v @ '' '' @ w) =
      ''STAT'' # k # v # py_split (CHR '' '') w"
    using assms(1,2) by (simp add: key_ok_def py_split_append)
  with assms(3) show ?thesis by (subst ascii_stats_loop.simps) (simp add: word_at_def)
qed

end
