(* ===== verification/Bucket_Spec.thy ===== *)
theory Bucket_Spec
  imports Bucket_Model
begin

text \<open>
  Expansion of a specification of buckets (\<^verbatim>\<open>expand_buckets_spec\<close> and the functions around it in \<^verbatim>\<open>bucket_ready_functions.py\<close>):
  missing buckets, scopes and collections are added under new names until the requested numbers
  are reached, missing settings are filled in from the level above, and the numbers of documents are
  distributed; the limits for serverless profiles; the units that operations are charged.

  A setting is a number (booleans are the numbers 0 and 1) or a text. Comparing a number with a text, Python 2 puts the
  number first. The names of \<^verbatim>\<open>get_random_name\<close> are the function \<open>names\<close> of the kind of name and the number of
  names drawn so far. An exception leaves a half-expanded specification, which nothing uses; the loops that draw names need not
  end.
\<close>

section \<open>Specifications\<close>

datatype setting = PNum int | PText string

type_synonym settings = "(string, setting) dict"

record coll_spec =
  cs_num_items :: "setting option"
  cs_other :: settings

record scope_spec =
  ss_settings :: settings
  ss_collections :: "(string, coll_spec) dict option"

text \<open>An entry of the dictionary of scopes may be something that is not a dictionary.\<close>

datatype scope_entry = ScopeSpec scope_spec | NoScope setting

record bucket_spec =
  bs_settings :: settings
  bs_scopes :: "(string, scope_entry) dict option"

record buckets_spec =
  sp_settings :: settings
  sp_buckets :: "(string, bucket_spec) dict option"

abbreviation USE_SIMPLE_NAMES where "USE_SIMPLE_NAMES \<equiv> ''use_simple_names''"
abbreviation NUM_BUCKETS where "NUM_BUCKETS \<equiv> ''num_buckets''"
abbreviation NUM_SCOPES_PER_BUCKET where "NUM_SCOPES_PER_BUCKET \<equiv> ''num_scopes_per_bucket''"
abbreviation NUM_COLLECTIONS_PER_SCOPE where "NUM_COLLECTIONS_PER_SCOPE \<equiv> ''num_collections_per_scope''"
abbreviation NUM_ITEMS_PER_COLLECTION where "NUM_ITEMS_PER_COLLECTION \<equiv> ''num_items''"
abbreviation REMOVE_DEFAULT_COLLECTION where "REMOVE_DEFAULT_COLLECTION \<equiv> ''remove_default_collection''"
abbreviation LOAD_COLLECTIONS_EXPONENTIALLY where "LOAD_COLLECTIONS_EXPONENTIALLY \<equiv> ''load_collections_exponentially''"

definition MetaConstants_get_params :: "string list" where
  "MetaConstants_get_params = [USE_SIMPLE_NAMES, NUM_BUCKETS, NUM_SCOPES_PER_BUCKET, NUM_COLLECTIONS_PER_SCOPE,
     NUM_ITEMS_PER_COLLECTION, REMOVE_DEFAULT_COLLECTION, ''create_collections_using_manifest_import'',
     ''bucket_tar_dir'', ''bucket_tar_src'', LOAD_COLLECTIONS_EXPONENTIALLY]"

fun setting_true :: "setting \<Rightarrow> bool" where
  "setting_true (PNum n) \<longleftrightarrow> n \<noteq> 0"
| "setting_true (PText s) \<longleftrightarrow> s \<noteq> []"

text \<open>\<open>i < v\<close> of Python 2.\<close>

fun below :: "nat \<Rightarrow> setting \<Rightarrow> bool" where
  "below i (PNum n) \<longleftrightarrow> int i < n"
| "below i (PText s) \<longleftrightarrow> True"

fun as_num :: "setting \<Rightarrow> int res" where
  "as_num (PNum n) = Inr n"
| "as_num (PText s) = Inl TypeError"


section \<open>Adding entries under new names\<close>

datatype name_kind = BucketName | ScopeName | CollectionName

type_synonym name_source = "name_kind \<Rightarrow> nat \<Rightarrow> string"
type_synonym drawn = "name_kind \<Rightarrow> nat"

definition draw_name :: "name_source \<Rightarrow> name_kind \<Rightarrow> drawn \<Rightarrow> string \<times> drawn" where
  "draw_name names kind st = (names kind (st kind), st(kind := Suc (st kind)))"

text \<open>The loop that the three levels share: \<open>i\<close> entries are there and \<open>req\<close> are asked for; a name that is taken is
  drawn again; \<open>mk\<close> makes the entry for a new name, drawing names itself.\<close>

partial_function (option) fill_loop ::
  "name_source \<Rightarrow> name_kind \<Rightarrow> (string \<Rightarrow> drawn \<Rightarrow> ('e res \<times> drawn) option) \<Rightarrow> setting \<Rightarrow> nat \<Rightarrow> drawn \<Rightarrow>
   (string, 'e) dict \<Rightarrow> ((string, 'e) dict res \<times> drawn) option" where
  "fill_loop names kind mk req i st d =
     (if below i req then
        (let (name, st1) = draw_name names kind st in
         if dict_has d name then fill_loop names kind mk req i st1 d
         else (case mk name st1 of
                 None \<Rightarrow> None
               | Some (Inl e, st2) \<Rightarrow> Some (Inl e, st2)
               | Some (Inr entry, st2) \<Rightarrow> fill_loop names kind mk req (Suc i) st2 (AList.update name entry d)))
      else Some (Inr d, st))"


section \<open>Collections\<close>

definition no_coll_spec :: coll_spec where
  "no_coll_spec = \<lparr>cs_num_items = None, cs_other = []\<rparr>"

definition fill_num_items :: "setting \<Rightarrow> coll_spec \<Rightarrow> coll_spec" where
  "fill_num_items def_num_docs cs =
     (case cs_num_items cs of None \<Rightarrow> cs\<lparr>cs_num_items := Some def_num_docs\<rparr> | Some _ \<Rightarrow> cs)"

definition map_entries :: "('v \<Rightarrow> 'w) \<Rightarrow> (string, 'v) dict \<Rightarrow> (string, 'w) dict" where
  "map_entries f d = map (\<lambda>(k, v). (k, f v)) d"

text \<open>\<open>glob\<close> and \<open>bucket\<close> are the settings of the levels above.\<close>

definition expand_collection_spec ::
  "name_source \<Rightarrow> settings \<Rightarrow> settings \<Rightarrow> string \<Rightarrow> scope_spec \<Rightarrow> drawn \<Rightarrow> (scope_spec res \<times> drawn) option" where
  "expand_collection_spec names glob bucket scope_name sc st =
     (let req = dict_get (ss_settings sc) NUM_COLLECTIONS_PER_SCOPE (dict_get bucket NUM_COLLECTIONS_PER_SCOPE (PNum 0));
          def_num_docs = dict_get (ss_settings sc) NUM_ITEMS_PER_COLLECTION (dict_get bucket NUM_ITEMS_PER_COLLECTION (PNum 0))
      in case ss_collections sc of
           None \<Rightarrow> Some (Inl KeyError, st)
         | Some cs0 \<Rightarrow>
             let cs = (if scope_name = ''_default'' \<and> \<not> setting_true (dict_get (ss_settings sc) REMOVE_DEFAULT_COLLECTION (PNum 0))
                       then AList.update ''_default'' no_coll_spec cs0 else cs0)
             in if \<not> dict_has glob USE_SIMPLE_NAMES then Some (Inl KeyError, st)
                else (case fill_loop names CollectionName (\<lambda>_ st. Some (Inr no_coll_spec, st)) req (length cs) st cs of
                        None \<Rightarrow> None
                      | Some (Inl e, st') \<Rightarrow> Some (Inl e, st')
                      | Some (Inr cs', st') \<Rightarrow>
                          Some (Inr (sc\<lparr>ss_collections := Some (map_entries (fill_num_items def_num_docs) cs')\<rparr>), st')))"


section \<open>Scopes\<close>

definition no_scope_spec :: scope_spec where
  "no_scope_spec = \<lparr>ss_settings = [], ss_collections = Some []\<rparr>"

definition fill_setting :: "string \<Rightarrow> setting \<Rightarrow> settings \<Rightarrow> settings" where
  "fill_setting k v d = (if dict_has d k then d else AList.update k v d)"

text \<open>The loop over the scopes that are given.\<close>

fun expand_scopes ::
  "name_source \<Rightarrow> settings \<Rightarrow> settings \<Rightarrow> setting \<Rightarrow> (string, scope_entry) dict \<Rightarrow> drawn \<Rightarrow>
   ((string, scope_entry) dict res \<times> drawn) option" where
  "expand_scopes names glob bucket remove [] st = Some (Inr [], st)"
| "expand_scopes names glob bucket remove ((name, NoScope v) # scopes) st =
     (case expand_scopes names glob bucket remove scopes st of
        None \<Rightarrow> None
      | Some (Inl e, st') \<Rightarrow> Some (Inl e, st')
      | Some (Inr rest, st') \<Rightarrow> Some (Inr ((name, NoScope v) # rest), st'))"
| "expand_scopes names glob bucket remove ((name, ScopeSpec sc) # scopes) st =
     (let sc1 = sc\<lparr>ss_settings := fill_setting REMOVE_DEFAULT_COLLECTION remove (ss_settings sc)\<rparr> in
      case expand_collection_spec names glob bucket name sc1 st of
        None \<Rightarrow> None
      | Some (Inl e, st') \<Rightarrow> Some (Inl e, st')
      | Some (Inr sc2, st') \<Rightarrow>
          (case expand_scopes names glob bucket remove scopes st' of
             None \<Rightarrow> None
           | Some (Inl e, st'') \<Rightarrow> Some (Inl e, st'')
           | Some (Inr rest, st'') \<Rightarrow> Some (Inr ((name, ScopeSpec sc2) # rest), st'')))"

definition new_scope_entry ::
  "name_source \<Rightarrow> settings \<Rightarrow> settings \<Rightarrow> string \<Rightarrow> drawn \<Rightarrow> (scope_entry res \<times> drawn) option" where
  "new_scope_entry names glob bucket scope_name st =
     (case expand_collection_spec names glob bucket scope_name no_scope_spec st of
        None \<Rightarrow> None
      | Some (Inl e, st') \<Rightarrow> Some (Inl e, st')
      | Some (Inr sc, st') \<Rightarrow> Some (Inr (ScopeSpec sc), st'))"

definition expand_scope_spec ::
  "name_source \<Rightarrow> settings \<Rightarrow> bucket_spec \<Rightarrow> drawn \<Rightarrow> (bucket_spec res \<times> drawn) option" where
  "expand_scope_spec names glob b st =
     (case bs_scopes b of
        None \<Rightarrow> Some (Inl KeyError, st)
      | Some given \<Rightarrow>
          let scopes = (if dict_has given ''_default'' then given else AList.update ''_default'' (ScopeSpec no_scope_spec) given) in
          case (map_of glob REMOVE_DEFAULT_COLLECTION, map_of glob NUM_SCOPES_PER_BUCKET) of
            (Some remove, Some def_scopes) \<Rightarrow>
              (case expand_scopes names glob (bs_settings b) remove scopes st of
                 None \<Rightarrow> None
               | Some (Inl e, st1) \<Rightarrow> Some (Inl e, st1)
               | Some (Inr scopes1, st1) \<Rightarrow>
                   if \<not> dict_has glob USE_SIMPLE_NAMES then Some (Inl KeyError, st1)
                   else (case fill_loop names ScopeName (new_scope_entry names glob (bs_settings b))
                           (dict_get (bs_settings b) NUM_SCOPES_PER_BUCKET def_scopes) (length scopes1) st1 scopes1 of
                           None \<Rightarrow> None
                         | Some (Inl e, st2) \<Rightarrow> Some (Inl e, st2)
                         | Some (Inr scopes2, st2) \<Rightarrow> Some (Inr (b\<lparr>bs_scopes := Some scopes2\<rparr>), st2)))
          | _ \<Rightarrow> Some (Inl KeyError, st))"


section \<open>Buckets\<close>

definition explicit_ram :: "(string, bucket_spec) dict \<Rightarrow> int res" where
  "explicit_ram buckets =
     rfold (\<lambda>total (_, b). case map_of (bs_settings b) ''ramQuotaMB'' of
         None \<Rightarrow> Inr total
       | Some v \<Rightarrow> rbind (as_num v) (\<lambda>n. Inr (total + n))) 0 buckets"

text \<open>\<open>memory_quota\<close> is what the node answers.\<close>

definition set_ram_quota :: "int \<Rightarrow> int \<Rightarrow> setting \<Rightarrow> settings \<Rightarrow> settings res" where
  "set_ram_quota memory_quota explicit req_num_buckets glob =
     (if \<not> dict_has glob ''ramQuotaMB'' \<and> 0 < memory_quota then
        rbind (as_num req_num_buckets) (\<lambda>n.
        if n = 0 then Inl ZeroDivisionError
        else Inr (AList.update ''ramQuotaMB'' (PNum ((memory_quota - explicit) div n)) glob))
      else Inr glob)"

definition bucket_defaults :: "settings \<Rightarrow> settings" where
  "bucket_defaults glob =
     dict_update_all
       (map (\<lambda>p. (p, dict_get glob p (PNum 0))) (filter (\<lambda>p. p \<noteq> NUM_BUCKETS) MetaConstants_get_params))
       (concat (map (\<lambda>p. case map_of glob p of None \<Rightarrow> [] | Some v \<Rightarrow> [(p, v)]) get_params))"

definition fill_defaults :: "settings \<Rightarrow> settings \<Rightarrow> settings" where
  "fill_defaults defaults d = fold (\<lambda>(k, v). fill_setting k v) defaults d"

fun expand_given_buckets ::
  "name_source \<Rightarrow> settings \<Rightarrow> settings \<Rightarrow> (string, bucket_spec) dict \<Rightarrow> drawn \<Rightarrow>
   ((string, bucket_spec) dict res \<times> drawn) option" where
  "expand_given_buckets names glob defaults [] st = Some (Inr [], st)"
| "expand_given_buckets names glob defaults ((name, b) # buckets) st =
     (let b1 = b\<lparr>bs_settings := fill_defaults defaults (bs_settings b),
                 bs_scopes := (case bs_scopes b of None \<Rightarrow> Some [] | Some s \<Rightarrow> Some s)\<rparr> in
      case expand_scope_spec names glob b1 st of
        None \<Rightarrow> None
      | Some (Inl e, st') \<Rightarrow> Some (Inl e, st')
      | Some (Inr b2, st') \<Rightarrow>
          (case expand_given_buckets names glob defaults buckets st' of
             None \<Rightarrow> None
           | Some (Inl e, st'') \<Rightarrow> Some (Inl e, st'')
           | Some (Inr rest, st'') \<Rightarrow> Some (Inr ((name, b2) # rest), st'')))"

definition new_bucket_spec :: "settings \<Rightarrow> bucket_spec" where
  "new_bucket_spec defaults = \<lparr>bs_settings = defaults, bs_scopes = Some []\<rparr>"


section \<open>Exponential numbers of documents\<close>

definition next_share :: "int \<Rightarrow> int \<times> int" where
  "next_share remaining =
     (let n_items = remaining div 2 in
      if n_items = 0 \<and> remaining \<noteq> 0 then (remaining, 0) else (n_items, remaining - n_items))"

definition num_items_of :: "coll_spec \<Rightarrow> int res" where
  "num_items_of cs = rbind (of_option KeyError (cs_num_items cs)) as_num"

text \<open>\<^verbatim>\<open>s_spec["collections"]\<close>; a setting has none.\<close>

definition entry_collections :: "scope_entry \<Rightarrow> (string, coll_spec) dict res" where
  "entry_collections e =
     (case e of NoScope v \<Rightarrow> Inl TypeError | ScopeSpec sc \<Rightarrow> of_option KeyError (ss_collections sc))"

definition total_items :: "(string, scope_entry) dict \<Rightarrow> int res" where
  "total_items scopes =
     rfold (\<lambda>n (_, e). rbind (entry_collections e) (\<lambda>cs.
       rfold (\<lambda>n (_, c). rbind (num_items_of c) (\<lambda>k. Inr (n + k))) n cs)) 0 scopes"

fun share_collections :: "int \<Rightarrow> (string, coll_spec) dict \<Rightarrow> (string, coll_spec) dict \<times> int" where
  "share_collections remaining [] = ([], remaining)"
| "share_collections remaining ((name, cs) # rest) =
     (let (n_items, remaining1) = next_share remaining; (rest', remaining2) = share_collections remaining1 rest in
      ((name, cs\<lparr>cs_num_items := Some (PNum n_items)\<rparr>) # rest', remaining2))"

fun share_scopes :: "int \<Rightarrow> (string, scope_entry) dict \<Rightarrow> ((string, scope_entry) dict \<times> int) res" where
  "share_scopes remaining [] = Inr ([], remaining)"
| "share_scopes remaining ((name, NoScope v) # rest) = Inl TypeError"
| "share_scopes remaining ((name, ScopeSpec sc) # rest) =
     (case ss_collections sc of
        None \<Rightarrow> Inl KeyError
      | Some cs \<Rightarrow>
          (let (cs', remaining1) = share_collections remaining cs in
           rbind (share_scopes remaining1 rest) (\<lambda>(rest', remaining2).
           Inr ((name, ScopeSpec (sc\<lparr>ss_collections := Some cs'\<rparr>)) # rest', remaining2))))"

definition share_bucket :: "bucket_spec \<Rightarrow> bucket_spec res" where
  "share_bucket b =
     (if setting_true (dict_get (bs_settings b) LOAD_COLLECTIONS_EXPONENTIALLY (PNum 0)) then
        (case bs_scopes b of
           None \<Rightarrow> Inl KeyError
         | Some scopes \<Rightarrow>
             rbind (total_items scopes) (\<lambda>n. rbind (share_scopes n scopes) (\<lambda>(scopes', _).
             Inr (b\<lparr>bs_scopes := Some scopes'\<rparr>))))
      else Inr b)"

definition share_buckets :: "(string, bucket_spec) dict \<Rightarrow> (string, bucket_spec) dict res" where
  "share_buckets buckets = rmap (\<lambda>(name, b). rbind (share_bucket b) (\<lambda>b'. Inr (name, b'))) buckets"

definition expand_buckets_spec ::
  "name_source \<Rightarrow> int \<Rightarrow> buckets_spec \<Rightarrow> drawn \<Rightarrow> ((string, bucket_spec) dict res \<times> drawn) option" where
  "expand_buckets_spec names memory_quota spec st =
     (let given = (case sp_buckets spec of None \<Rightarrow> [] | Some bs \<Rightarrow> bs);
          req = dict_get (sp_settings spec) NUM_BUCKETS (PNum (int (length given))) in
      case rbind (explicit_ram given) (\<lambda>ram. set_ram_quota memory_quota ram req (sp_settings spec)) of
        Inl e \<Rightarrow> Some (Inl e, st)
      | Inr glob \<Rightarrow>
          (let defaults = bucket_defaults glob in
           case expand_given_buckets names glob defaults given st of
             None \<Rightarrow> None
           | Some (Inl e, st1) \<Rightarrow> Some (Inl e, st1)
           | Some (Inr buckets1, st1) \<Rightarrow>
               if \<not> dict_has glob USE_SIMPLE_NAMES then Some (Inl KeyError, st1)
               else (case fill_loop names BucketName (\<lambda>_. expand_scope_spec names glob (new_bucket_spec defaults)) req
                       (length buckets1) st1 buckets1 of
                       None \<Rightarrow> None
                     | Some (Inl e, st2) \<Rightarrow> Some (Inl e, st2)
                     | Some (Inr buckets2, st2) \<Rightarrow> Some (share_buckets buckets2, st2))))"


section \<open>Limits for serverless profiles\<close>

definition get_divisor :: "nat \<Rightarrow> nat" where
  "get_divisor m = (let factors = filter (\<lambda>i. i * i \<le> m \<and> m mod i = 0) [1..<Suc m] in factors ! (length factors div 2))"

definition clamp_limit :: "int \<Rightarrow> nat" where
  "clamp_limit max_limits = (if 100 \<le> max_limits \<or> max_limits \<le> 0 then 80 else nat max_limits)"

definition num_setting :: "settings \<Rightarrow> string \<Rightarrow> int res" where
  "num_setting d k = rbind (dict_lookup d k) as_num"

definition inherit_setting :: "settings \<Rightarrow> string \<Rightarrow> settings \<Rightarrow> settings res" where
  "inherit_setting default_spec k d =
     (if dict_has d k then Inr d else rbind (dict_lookup default_spec k) (\<lambda>v. Inr (AList.update k v d)))"

text \<open>The quotient of two integers is rounded down before \<^verbatim>\<open>math.ceil\<close> sees it.\<close>

definition balance_scopes_collections_items :: "int \<Rightarrow> settings option \<Rightarrow> settings \<Rightarrow> settings res" where
  "balance_scopes_collections_items max_limits default_spec spec =
     rbind (case default_spec of
              None \<Rightarrow> Inr spec
            | Some dflt \<Rightarrow>
                if dflt = [] then Inr spec
                else rfold (\<lambda>d k. inherit_setting dflt k d) spec
                       [NUM_SCOPES_PER_BUCKET, NUM_ITEMS_PER_COLLECTION, NUM_COLLECTIONS_PER_SCOPE]) (\<lambda>d.
     rbind (num_setting d NUM_SCOPES_PER_BUCKET) (\<lambda>scopes.
     rbind (num_setting d NUM_COLLECTIONS_PER_SCOPE) (\<lambda>colls.
     let limit = clamp_limit max_limits in
     if int limit < scopes * colls then
       (let new_colls = get_divisor limit; new_scopes = limit div new_colls in
        rbind (num_setting d NUM_ITEMS_PER_COLLECTION) (\<lambda>items.
        Inr (dict_update_all d
          [(NUM_ITEMS_PER_COLLECTION, PNum ((items * scopes * colls) div int (new_colls * new_scopes))),
           (NUM_COLLECTIONS_PER_SCOPE, PNum (int new_colls)), (NUM_SCOPES_PER_BUCKET, PNum (int new_scopes))])))
     else Inr d)))"

definition specs_for_serverless :: "int \<Rightarrow> buckets_spec \<Rightarrow> buckets_spec res" where
  "specs_for_serverless max_limits spec =
     rbind (balance_scopes_collections_items max_limits None (sp_settings spec)) (\<lambda>glob.
     case sp_buckets spec of
       None \<Rightarrow> Inr (spec\<lparr>sp_settings := glob\<rparr>)
     | Some bs \<Rightarrow>
         rbind (rmap (\<lambda>(name, b). rbind (balance_scopes_collections_items max_limits (Some glob) (bs_settings b))
                   (\<lambda>d. Inr (name, b\<lparr>bs_settings := d\<rparr>))) bs) (\<lambda>bs'.
         Inr (spec\<lparr>sp_settings := glob, sp_buckets := Some bs'\<rparr>)))"

text \<open>What an operation on documents is charged.\<close>

definition calculate_units :: "int \<Rightarrow> int \<Rightarrow> int \<Rightarrow> int \<Rightarrow> bool \<Rightarrow> int \<Rightarrow> string \<Rightarrow> int" where
  "calculate_units key val sub_doc_size xattr read num_items durability =
     (let limit = (if read then 4096 else 1024); total_size = key + val + sub_doc_size + xattr;
          expected_cu = total_size div limit + (if total_size mod limit \<noteq> 0 then 1 else 0);
          expected_cu = (if durability \<noteq> ''NONE'' \<and> \<not> read then expected_cu * 2 else expected_cu)
      in expected_cu * num_items)"

text \<open>The numbers of documents on the servers of a bucket; a server without statistics ends the sum.\<close>

fun get_total_items_bucket :: "int option list \<Rightarrow> int" where
  "get_total_items_bucket [] = 0"
| "get_total_items_bucket (None # stats) = 0"
| "get_total_items_bucket (Some n # stats) = n + get_total_items_bucket stats"

record unit_stats =
  us_num_throttled :: int
  us_ru :: int
  us_wu :: int

definition throttled :: "int \<Rightarrow> int \<Rightarrow> int res" where
  "throttled units limit =
     (if units = 0 then Inr 0 else if limit = 0 then Inl ZeroDivisionError else Inr (units div limit))"

definition update_stat_on_bucket :: "int \<Rightarrow> int \<Rightarrow> int \<Rightarrow> unit_stats \<Rightarrow> unit_stats res" where
  "update_stat_on_bucket throttle_limit write_units read_units s =
     rbind (if throttle_limit \<noteq> -1
            then rbind (throttled write_units throttle_limit) (\<lambda>w.
                 rbind (throttled read_units throttle_limit) (\<lambda>r. Inr (w + r)))
            else Inr 0) (\<lambda>num_throttle.
     Inr (s\<lparr>us_wu := us_wu s + write_units, us_ru := us_ru s + read_units,
            us_num_throttled := us_num_throttled s + num_throttle\<rparr>))"

text \<open>\<^verbatim>\<open>get_actual_items_loaded_to_calculate_wu\<close>: \<open>totals i\<close> is the number of documents at the \<open>i\<close>-th look; \<open>n\<close> looks are left.\<close>

fun actual_items_loop :: "(nat \<Rightarrow> int) \<Rightarrow> int \<Rightarrow> int \<Rightarrow> nat \<Rightarrow> nat \<Rightarrow> int \<Rightarrow> int" where
  "actual_items_loop totals expected_items previous_items 0 i actual_items = actual_items"
| "actual_items_loop totals expected_items previous_items (Suc n) i actual_items =
     (let actual_items = totals i - previous_items in
      if expected_items = actual_items then actual_items
      else actual_items_loop totals expected_items previous_items n (Suc i) actual_items)"

definition get_actual_items_loaded_to_calculate_wu :: "(nat \<Rightarrow> int) \<Rightarrow> int \<Rightarrow> int \<Rightarrow> int" where
  "get_actual_items_loaded_to_calculate_wu totals expected_items previous_items =
     actual_items_loop totals expected_items previous_items 4 0 expected_items"

end
