(* ===== verification/Bucket_Spec_Props.thy ===== *)
theory Bucket_Spec_Props
  imports Bucket_Spec
begin

text \<open>
  What the expansion of a specification guarantees: it ends when the drawn names do not repeat, every
  level has the number of entries that is asked for, what was given is kept, and every collection has a number
  of documents. Distributing the documents exponentially keeps their total exactly when there are enough
  collections. The limits for serverless profiles hold after balancing.
\<close>

section \<open>Filling with new names\<close>

text \<open>The names that are taken among those still to be drawn.\<close>

definition taken :: "(nat \<Rightarrow> string) \<Rightarrow> nat \<Rightarrow> (string, 'e) dict \<Rightarrow> nat set" where
  "taken nm m d = {j. m \<le> j \<and> dict_has d (nm j)}"

lemma finite_taken: "inj nm \<Longrightarrow> finite (taken nm m d)"
proof -
  assume i: "inj nm"
  have "nm ` taken nm m d \<subseteq> set (map fst d)" by (auto simp: taken_def dict_has_iff_keys)
  then have "finite (nm ` taken nm m d)" by (rule finite_subset) simp
  then show ?thesis using i by (meson finite_imageD inj_on_subset subset_UNIV)
qed

lemma taken_next: "dict_has d (nm m) \<Longrightarrow> taken nm m d = insert m (taken nm (Suc m) d) \<and> m \<notin> taken nm (Suc m) d"
  by (auto simp: taken_def Suc_le_eq order_le_less)

definition makes :: "name_kind \<Rightarrow> (string \<Rightarrow> drawn \<Rightarrow> ('e res \<times> drawn) option) \<Rightarrow> ('e \<Rightarrow> bool) \<Rightarrow> bool" where
  "makes kind mk P \<longleftrightarrow> (\<forall>name st. \<exists>e st'. mk name st = Some (Inr e, st') \<and> st \<le> st' \<and> P e)"

text \<open>Drawing past the names that are taken.\<close>

lemma fill_loop_skip:
  assumes "inj (names kind)" and "below i req"
  shows "\<exists>st'. fill_loop names kind mk req i st d = fill_loop names kind mk req i st' d \<and> st \<le> st' \<and>
     \<not> dict_has d (names kind (st' kind))"
  using assms
proof (induction "card (taken (names kind) (st kind) d)" arbitrary: st rule: less_induct)
  case less
  show ?case
  proof (cases "dict_has d (names kind (st kind))")
    case False
    then show ?thesis by blast
  next
    case True
    let ?st = "st(kind := Suc (st kind))"
    have "card (taken (names kind) (?st kind) d) < card (taken (names kind) (st kind) d)"
      using taken_next [where nm = "names kind", OF True] finite_taken [OF assms(1), of "Suc (st kind)" d]
      by (simp add: card_insert_disjoint)
    from less.hyps [of ?st, OF this assms] obtain st' where
      s: "fill_loop names kind mk req i ?st d = fill_loop names kind mk req i st' d" "?st \<le> st'"
         "\<not> dict_has d (names kind (st' kind))" by blast
    have "fill_loop names kind mk req i st d = fill_loop names kind mk req i ?st d"
      using True assms(2) by (subst fill_loop.simps) (simp add: draw_name_def)
    moreover have "st \<le> ?st" by (simp add: le_fun_def)
    ultimately show ?thesis using s by (metis order_trans)
  qed
qed

lemma fill_loop_add:
  assumes "below i req" and "\<not> dict_has d (names kind (st kind))"
    and "mk (names kind (st kind)) (st(kind := Suc (st kind))) = Some (Inr e, st')"
  shows "fill_loop names kind mk req i st d =
     fill_loop names kind mk req (Suc i) st' (d @ [(names kind (st kind), e)])"
proof -
  have "AList.update (names kind (st kind)) e d = d @ [(names kind (st kind), e)]"
    by (rule update_new) (use assms(2) in \<open>simp add: dict_has_iff_keys\<close>)
  with assms show ?thesis by (subst fill_loop.simps) (simp add: draw_name_def)
qed

lemma fill_loop_fills:
  assumes "inj (names kind)" and "makes kind mk P" and "dict_wf d" and "i = length d"
  shows "\<exists>new st'. fill_loop names kind mk (PNum n) i st d = Some (Inr (d @ new), st') \<and> st \<le> st' \<and>
     dict_wf (d @ new) \<and> int (length (d @ new)) = max (int (length d)) n \<and> list_all (\<lambda>(k, e). P e) new"
  using assms(3,4)
proof (induction "nat (n - int i)" arbitrary: i st d)
  case 0
  then have "fill_loop names kind mk (PNum n) i st d = Some (Inr (d @ []), st)" by (subst fill_loop.simps) simp
  with 0 show ?case by (intro exI [of _ "[]"] exI [of _ st]) simp
next
  case (Suc m)
  have b: "below i (PNum n)" using Suc.hyps(2) by simp
  from fill_loop_skip [where names = names and kind = kind, OF assms(1) b] obtain st1 where
    s: "fill_loop names kind mk (PNum n) i st d = fill_loop names kind mk (PNum n) i st1 d" "st \<le> st1"
       "\<not> dict_has d (names kind (st1 kind))" by blast
  let ?nm = "names kind (st1 kind)" and ?st = "st1(kind := Suc (st1 kind))"
  from assms(2) obtain e st2 where mk: "mk ?nm ?st = Some (Inr e, st2)" "?st \<le> st2" "P e" unfolding makes_def by blast
  have "st1 \<le> ?st" by (simp add: le_fun_def)
  with s(2) mk(2) have le: "st \<le> st2" by (meson order_trans)
  have wf: "dict_wf (d @ [(?nm, e)])" using Suc.prems(1) s(3) by (simp add: dict_wf_def dict_has_iff_keys)
  have "m = nat (n - int (Suc i))" "Suc i = length (d @ [(?nm, e)])" using Suc.hyps(2) Suc.prems(2) by auto
  from Suc.hyps(1) [OF this(1) wf this(2), of st2] obtain new st' where
    r: "fill_loop names kind mk (PNum n) (Suc i) st2 (d @ [(?nm, e)]) = Some (Inr ((d @ [(?nm, e)]) @ new), st')"
       "st2 \<le> st'" "dict_wf ((d @ [(?nm, e)]) @ new)" "int (length ((d @ [(?nm, e)]) @ new)) = max (int (length (d @ [(?nm, e)]))) n"
       "list_all (\<lambda>(k, e). P e) new" by blast
  have "fill_loop names kind mk (PNum n) i st d = Some (Inr (d @ (?nm, e) # new), st')"
    using s(1) fill_loop_add [where names = names and kind = kind and mk = mk, OF b s(3) mk(1)] r(1) by simp
  moreover have "int (length (d @ (?nm, e) # new)) = max (int (length d)) n" using r(4) b Suc.prems(2) by auto
  moreover have "list_all (\<lambda>(k, e). P e) ((?nm, e) # new)" using r(5) mk(3) by simp
  moreover have "dict_wf (d @ (?nm, e) # new)" using r(3) by simp
  ultimately show ?case using le r(2) by (meson order_trans)
qed


section \<open>Collections and scopes\<close>

definition is_number :: "setting \<Rightarrow> bool" where
  "is_number v \<longleftrightarrow> (\<exists>n. v = PNum n)"

definition num_keys :: "string list" where
  "num_keys = [NUM_BUCKETS, NUM_SCOPES_PER_BUCKET, NUM_COLLECTIONS_PER_SCOPE, NUM_ITEMS_PER_COLLECTION, ''ramQuotaMB'']"

text \<open>The settings that count something are numbers.\<close>

definition nums_ok :: "settings \<Rightarrow> bool" where
  "nums_ok d \<longleftrightarrow> (\<forall>k v. k \<in> set num_keys \<longrightarrow> map_of d k = Some v \<longrightarrow> is_number v)"

definition coll_ok :: "coll_spec \<Rightarrow> bool" where
  "coll_ok c \<longleftrightarrow> (\<forall>v. cs_num_items c = Some v \<longrightarrow> is_number v)"

definition coll_full :: "coll_spec \<Rightarrow> bool" where
  "coll_full c \<longleftrightarrow> (\<exists>n. cs_num_items c = Some (PNum n))"

definition scope_spec_ok :: "scope_spec \<Rightarrow> bool" where
  "scope_spec_ok sc \<longleftrightarrow> nums_ok (ss_settings sc) \<and>
     (\<exists>cs. ss_collections sc = Some cs \<and> dict_wf cs \<and> list_all (\<lambda>(k, c). coll_ok c) cs)"

fun spec_entry_ok :: "scope_entry \<Rightarrow> bool" where
  "spec_entry_ok (ScopeSpec sc) \<longleftrightarrow> scope_spec_ok sc"
| "spec_entry_ok (NoScope v) \<longleftrightarrow> False"

text \<open>The number of collections that a scope has to have.\<close>

definition wanted_colls :: "settings \<Rightarrow> settings \<Rightarrow> int" where
  "wanted_colls bucket scope =
     (case dict_get scope NUM_COLLECTIONS_PER_SCOPE (dict_get bucket NUM_COLLECTIONS_PER_SCOPE (PNum 0)) of
        PNum n \<Rightarrow> n | PText _ \<Rightarrow> 0)"

definition scope_full :: "settings \<Rightarrow> scope_spec \<Rightarrow> bool" where
  "scope_full bucket sc \<longleftrightarrow>
     (\<exists>cs. ss_collections sc = Some cs \<and> dict_wf cs \<and> wanted_colls bucket (ss_settings sc) \<le> int (length cs) \<and>
        list_all (\<lambda>(k, c). coll_full c) cs)"

definition full_entry :: "settings \<Rightarrow> scope_entry \<Rightarrow> bool" where
  "full_entry bucket e \<longleftrightarrow> (\<exists>sc. e = ScopeSpec sc \<and> scope_full bucket sc)"

lemma nums_ok_get: "nums_ok d \<Longrightarrow> k \<in> set num_keys \<Longrightarrow> is_number v \<Longrightarrow> is_number (dict_get d k v)"
  by (auto simp: nums_ok_def dict_get_def split: option.split)

lemma keys_map_entries [simp]: "map fst (map_entries f d) = map fst d"
  by (simp add: map_entries_def case_prod_unfold comp_def)

lemma dict_wf_map_entries [simp]: "dict_wf (map_entries f d) \<longleftrightarrow> dict_wf d"
  by (simp add: dict_wf_def)

lemma length_map_entries [simp]: "length (map_entries f d) = length d"
  by (simp add: map_entries_def)

lemma fill_num_items_full: "is_number v \<Longrightarrow> coll_ok c \<Longrightarrow> coll_full (fill_num_items v c)"
  by (auto simp: fill_num_items_def coll_full_def coll_ok_def is_number_def split: option.split)

lemma list_all_update: "list_all (\<lambda>(k, c). P c) d \<Longrightarrow> P v \<Longrightarrow> list_all (\<lambda>(k, c). P c) (AList.update k v d)"
  by (induction d) auto

lemma expand_collection_spec_full:
  assumes "inj (names CollectionName)" and "dict_has glob USE_SIMPLE_NAMES" and "nums_ok bucket" and "scope_spec_ok sc"
  shows "\<exists>sc' st'. expand_collection_spec names glob bucket name sc st = Some (Inr sc', st') \<and> st \<le> st' \<and>
     ss_settings sc' = ss_settings sc \<and> scope_full bucket sc'"
proof -
  let ?def = "dict_get (ss_settings sc) NUM_ITEMS_PER_COLLECTION (dict_get bucket NUM_ITEMS_PER_COLLECTION (PNum 0))"
  let ?req = "dict_get (ss_settings sc) NUM_COLLECTIONS_PER_SCOPE (dict_get bucket NUM_COLLECTIONS_PER_SCOPE (PNum 0))"
  from assms(4) obtain cs0 where cs0: "ss_collections sc = Some cs0" "dict_wf cs0" "list_all (\<lambda>(k, c). coll_ok c) cs0"
    and n: "nums_ok (ss_settings sc)" by (auto simp: scope_spec_ok_def)
  define cs where "cs = (if name = ''_default'' \<and> \<not> setting_true (dict_get (ss_settings sc) REMOVE_DEFAULT_COLLECTION (PNum 0))
      then AList.update ''_default'' no_coll_spec cs0 else cs0)"
  have ok0: "coll_ok no_coll_spec" by (simp add: coll_ok_def no_coll_spec_def)
  have cs: "dict_wf cs" "list_all (\<lambda>(k, c). coll_ok c) cs"
    using cs0 list_all_update [of coll_ok cs0] ok0 by (auto simp: cs_def)
  have num: "is_number ?def" "is_number ?req"
    by (intro nums_ok_get n assms(3); simp add: num_keys_def is_number_def)+
  then obtain m where req: "?req = PNum m" by (auto simp: is_number_def)
  have mk: "makes CollectionName (\<lambda>_ st. Some (Inr no_coll_spec, st)) coll_ok" using ok0 by (simp add: makes_def)
  from fill_loop_fills [where names = names and kind = CollectionName, OF assms(1) mk cs(1) refl, of m st]
  obtain new st' where f: "fill_loop names CollectionName (\<lambda>_ st. Some (Inr no_coll_spec, st)) (PNum m) (length cs) st cs =
      Some (Inr (cs @ new), st')" "st \<le> st'" "dict_wf (cs @ new)" "int (length (cs @ new)) = max (int (length cs)) m"
      "list_all (\<lambda>(k, e). coll_ok e) new" by blast
  have e: "expand_collection_spec names glob bucket name sc st =
      Some (Inr (sc\<lparr>ss_collections := Some (map_entries (fill_num_items ?def) (cs @ new))\<rparr>), st')"
    using cs0(1) assms(2) f(1) req unfolding expand_collection_spec_def by (simp add: Let_def cs_def)
  have "list_all (\<lambda>(k, c). coll_full c) (map_entries (fill_num_items ?def) (cs @ new))"
    using f(5) cs(2) fill_num_items_full [OF num(1)] by (auto simp: list_all_iff map_entries_def)
  with f(3,4) req have "scope_full bucket (sc\<lparr>ss_collections := Some (map_entries (fill_num_items ?def) (cs @ new))\<rparr>)"
    unfolding scope_full_def
    by (intro exI [of _ "map_entries (fill_num_items ?def) (cs @ new)"]) (simp add: wanted_colls_def)
  with e f(2) show ?thesis by simp
qed

lemma nums_ok_fill: "nums_ok d \<Longrightarrow> k \<notin> set num_keys \<Longrightarrow> nums_ok (fill_setting k v d)"
  by (auto simp: nums_ok_def fill_setting_def)

lemma expand_scopes_full:
  assumes "inj (names CollectionName)" and "dict_has glob USE_SIMPLE_NAMES" and "nums_ok bucket"
    and "list_all (\<lambda>(k, e). spec_entry_ok e) scopes"
  shows "\<exists>scopes' st'. expand_scopes names glob bucket remove scopes st = Some (Inr scopes', st') \<and> st \<le> st' \<and>
     map fst scopes' = map fst scopes \<and> list_all (\<lambda>(k, e). full_entry bucket e) scopes'"
  using assms(4)
proof (induction scopes arbitrary: st)
  case (Cons p scopes)
  from Cons.prems obtain name sc where p: "p = (name, ScopeSpec sc)" "scope_spec_ok sc"
    by (cases p; cases "snd p") auto
  let ?sc = "sc\<lparr>ss_settings := fill_setting REMOVE_DEFAULT_COLLECTION remove (ss_settings sc)\<rparr>"
  have "scope_spec_ok ?sc" using p(2) nums_ok_fill by (auto simp: scope_spec_ok_def num_keys_def)
  from expand_collection_spec_full [where names = names, OF assms(1-3) this, of name st] obtain sc' st1 where
    1: "expand_collection_spec names glob bucket name ?sc st = Some (Inr sc', st1)" "st \<le> st1" "scope_full bucket sc'" by blast
  from Cons.IH [of st1] Cons.prems obtain rest st2 where
    2: "expand_scopes names glob bucket remove scopes st1 = Some (Inr rest, st2)" "st1 \<le> st2"
       "map fst rest = map fst scopes" "list_all (\<lambda>(k, e). full_entry bucket e) rest" by auto
  from 1 2 p(1) show ?case by (auto simp: full_entry_def Let_def intro: order_trans)
qed simp

lemma new_scope_entry_makes:
  assumes "inj (names CollectionName)" and "dict_has glob USE_SIMPLE_NAMES" and "nums_ok bucket"
  shows "makes ScopeName (new_scope_entry names glob bucket) (full_entry bucket)"
  unfolding makes_def
proof (intro allI)
  fix name st
  have "scope_spec_ok no_scope_spec" by (simp add: scope_spec_ok_def no_scope_spec_def nums_ok_def)
  from expand_collection_spec_full [where names = names, OF assms this, of name st]
  show "\<exists>e st'. new_scope_entry names glob bucket name st = Some (Inr e, st') \<and> st \<le> st' \<and> full_entry bucket e"
    by (auto simp: new_scope_entry_def full_entry_def)
qed


section \<open>Buckets\<close>

definition bucket_spec_ok :: "bucket_spec \<Rightarrow> bool" where
  "bucket_spec_ok b \<longleftrightarrow> nums_ok (bs_settings b) \<and>
     (\<forall>scopes. bs_scopes b = Some scopes \<longrightarrow> dict_wf scopes \<and> list_all (\<lambda>(k, e). spec_entry_ok e) scopes)"

text \<open>What has to be given for all buckets.\<close>

definition glob_ok :: "settings \<Rightarrow> bool" where
  "glob_ok glob \<longleftrightarrow> nums_ok glob \<and> dict_has glob USE_SIMPLE_NAMES \<and> dict_has glob REMOVE_DEFAULT_COLLECTION \<and>
     dict_has glob NUM_SCOPES_PER_BUCKET"

definition wanted_scopes :: "settings \<Rightarrow> int" where
  "wanted_scopes bucket = (case map_of bucket NUM_SCOPES_PER_BUCKET of Some (PNum n) \<Rightarrow> n | _ \<Rightarrow> 0)"

definition bucket_full :: "bucket_spec \<Rightarrow> bool" where
  "bucket_full b \<longleftrightarrow>
     (\<exists>scopes. bs_scopes b = Some scopes \<and> dict_wf scopes \<and> dict_has scopes ''_default'' \<and>
        wanted_scopes (bs_settings b) \<le> int (length scopes) \<and> list_all (\<lambda>(k, e). full_entry (bs_settings b) e) scopes)"

lemma expand_scope_spec_full:
  assumes "\<forall>kind. inj (names kind)" and "glob_ok glob" and "bucket_spec_ok b" and "bs_scopes b = Some given"
  shows "\<exists>b' st'. expand_scope_spec names glob b st = Some (Inr b', st') \<and> st \<le> st' \<and>
     bs_settings b' = bs_settings b \<and> bucket_full b'"
proof -
  define scopes where "scopes = (if dict_has given ''_default'' then given else AList.update ''_default'' (ScopeSpec no_scope_spec) given)"
  have inj: "inj (names CollectionName)" "inj (names ScopeName)" using assms(1) by auto
  have ok: "nums_ok (bs_settings b)" "dict_wf given" "list_all (\<lambda>(k, e). spec_entry_ok e) given"
    using assms(3,4) by (auto simp: bucket_spec_ok_def)
  have u: "dict_has glob USE_SIMPLE_NAMES" using assms(2) by (simp add: glob_ok_def)
  obtain remove where r: "map_of glob REMOVE_DEFAULT_COLLECTION = Some remove"
    using assms(2) by (auto simp: glob_ok_def dict_has_def)
  obtain df where df: "map_of glob NUM_SCOPES_PER_BUCKET = Some (PNum df)"
  proof -
    obtain v where v: "map_of glob NUM_SCOPES_PER_BUCKET = Some v" using assms(2) by (auto simp: glob_ok_def dict_has_def)
    moreover have "NUM_SCOPES_PER_BUCKET \<in> set num_keys" by (simp add: num_keys_def)
    ultimately have "is_number v" using assms(2) unfolding glob_ok_def nums_ok_def by blast
    with v that show thesis by (auto simp: is_number_def)
  qed
  have sc0: "spec_entry_ok (ScopeSpec no_scope_spec)" by (simp add: scope_spec_ok_def no_scope_spec_def nums_ok_def)
  have s: "dict_wf scopes" "list_all (\<lambda>(k, e). spec_entry_ok e) scopes" "dict_has scopes ''_default''"
    using ok(2,3) list_all_update [of spec_entry_ok given "ScopeSpec no_scope_spec" "''_default''", OF ok(3) sc0]
    by (simp_all add: scopes_def)
  from expand_scopes_full [where names = names, OF inj(1) u ok(1) s(2), of remove st] obtain sc1 st1 where
    1: "expand_scopes names glob (bs_settings b) remove scopes st = Some (Inr sc1, st1)" "st \<le> st1"
       "map fst sc1 = map fst scopes" "list_all (\<lambda>(k, e). full_entry (bs_settings b) e) sc1" by blast
  have wf1: "dict_wf sc1" and d1: "dict_has sc1 ''_default''"
    using s(1,3) 1(3) by (simp_all add: dict_wf_def dict_has_iff_keys)
  have "is_number (dict_get (bs_settings b) NUM_SCOPES_PER_BUCKET (PNum df))"
    by (rule nums_ok_get [OF ok(1)]) (simp_all add: num_keys_def is_number_def)
  then obtain m where m: "dict_get (bs_settings b) NUM_SCOPES_PER_BUCKET (PNum df) = PNum m" by (auto simp: is_number_def)
  from fill_loop_fills [where names = names and kind = ScopeName,
      OF inj(2) new_scope_entry_makes [where names = names, OF inj(1) u ok(1)] wf1 refl, of m st1]
  obtain new st2 where 2: "fill_loop names ScopeName (new_scope_entry names glob (bs_settings b)) (PNum m) (length sc1) st1 sc1 =
      Some (Inr (sc1 @ new), st2)" "st1 \<le> st2" "dict_wf (sc1 @ new)" "int (length (sc1 @ new)) = max (int (length sc1)) m"
      "list_all (\<lambda>(k, e). full_entry (bs_settings b) e) new" by blast
  have e: "expand_scope_spec names glob b st = Some (Inr (b\<lparr>bs_scopes := Some (sc1 @ new)\<rparr>), st2)"
    unfolding expand_scope_spec_def using assms(4) r df 1(1) u m 2(1) by (simp add: scopes_def Let_def)
  have "wanted_scopes (bs_settings b) \<le> int (length (sc1 @ new))"
    using m 2(4) by (auto simp: wanted_scopes_def dict_get_def split: option.splits setting.splits)
  moreover have "dict_has (sc1 @ new) ''_default''" using d1 by (simp add: dict_has_iff_keys)
  ultimately have "bucket_full (b\<lparr>bs_scopes := Some (sc1 @ new)\<rparr>)" using 2(3,5) 1(4) by (simp add: bucket_full_def)
  with e 1(2) 2(2) show ?thesis by (auto intro: order_trans)
qed

lemma map_of_fill_defaults:
  "map_of (fill_defaults defaults d) k = (case map_of d k of Some v \<Rightarrow> Some v | None \<Rightarrow> map_of defaults k)"
proof (induction defaults arbitrary: d)
  case (Cons p defaults)
  obtain j v where p: "p = (j, v)" by force
  have "fill_defaults (p # defaults) d = fill_defaults defaults (fill_setting j v d)" by (simp add: fill_defaults_def p)
  with Cons.IH [of "fill_setting j v d"] show ?case
    by (auto simp: p fill_setting_def dict_has_def split: option.splits)
qed (simp add: fill_defaults_def split: option.split)

lemma nums_ok_fill_defaults: "nums_ok defaults \<Longrightarrow> nums_ok d \<Longrightarrow> nums_ok (fill_defaults defaults d)"
  unfolding nums_ok_def map_of_fill_defaults by (metis option.case_eq_if option.collapse)

lemma nums_ok_update_all:
  "nums_ok d \<Longrightarrow> \<forall>(k, v) \<in> set e. k \<in> set num_keys \<longrightarrow> is_number v \<Longrightarrow> nums_ok (dict_update_all d e)"
proof (induction e arbitrary: d)
  case (Cons p e)
  obtain k v where p: "p = (k, v)" by force
  with Cons.prems have "nums_ok (AList.update k v d)" by (auto simp: nums_ok_def)
  with Cons.IH [of "AList.update k v d"] Cons.prems(2) p show ?case by (simp add: dict_update_all_def)
qed (simp add: dict_update_all_def)

lemma nums_ok_bucket_defaults:
  assumes "nums_ok glob"
  shows "nums_ok (bucket_defaults glob)"
  unfolding bucket_defaults_def
proof (rule nums_ok_update_all)
  have m: "map_of (map (\<lambda>p. (p, f p)) ps) k = Some v \<Longrightarrow> v = f k" for f :: "string \<Rightarrow> setting" and ps k v
    by (induction ps) (auto split: if_splits)
  show "nums_ok (map (\<lambda>p. (p, dict_get glob p (PNum 0))) (filter (\<lambda>p. p \<noteq> NUM_BUCKETS) MetaConstants_get_params))"
    unfolding nums_ok_def
  proof (intro allI impI)
    fix k v
    assume k: "k \<in> set num_keys"
      and "map_of (map (\<lambda>p. (p, dict_get glob p (PNum 0))) (filter (\<lambda>p. p \<noteq> NUM_BUCKETS) MetaConstants_get_params)) k = Some v"
    from m [OF this(2)] nums_ok_get [OF assms k, of "PNum 0"] show "is_number v" by (simp add: is_number_def)
  qed
  show "\<forall>(k, v) \<in> set (concat (map (\<lambda>p. case map_of glob p of None \<Rightarrow> [] | Some v \<Rightarrow> [(p, v)]) get_params)).
      k \<in> set num_keys \<longrightarrow> is_number v"
    using assms by (auto simp: nums_ok_def split: option.splits)
qed

text \<open>A given bucket and what the expansion makes of it.\<close>

definition expands :: "string \<times> bucket_spec \<Rightarrow> string \<times> bucket_spec \<Rightarrow> bool" where
  "expands p q \<longleftrightarrow> fst q = fst p \<and> bucket_full (snd q) \<and> map_of (bs_settings (snd p)) \<subseteq>\<^sub>m map_of (bs_settings (snd q))"

lemma expand_given_buckets_full:
  assumes "\<forall>kind. inj (names kind)" and "glob_ok glob" and "nums_ok defaults" and "list_all (\<lambda>(k, b). bucket_spec_ok b) given"
  shows "\<exists>bs st'. expand_given_buckets names glob defaults given st = Some (Inr bs, st') \<and> st \<le> st' \<and> list_all2 expands given bs"
  using assms(4)
proof (induction given arbitrary: st)
  case (Cons p given)
  obtain name b where p: "p = (name, b)" by force
  let ?b = "b\<lparr>bs_settings := fill_defaults defaults (bs_settings b),
      bs_scopes := (case bs_scopes b of None \<Rightarrow> Some [] | Some s \<Rightarrow> Some s)\<rparr>"
  have ok: "bucket_spec_ok b" using Cons.prems p by simp
  then have "bucket_spec_ok ?b" using nums_ok_fill_defaults [OF assms(3)] by (auto simp: bucket_spec_ok_def split: option.splits)
  moreover obtain sc where "bs_scopes ?b = Some sc" by (cases "bs_scopes b") auto
  ultimately obtain b' st1 where 1: "expand_scope_spec names glob ?b st = Some (Inr b', st1)" "st \<le> st1"
    "bs_settings b' = bs_settings ?b" "bucket_full b'"
    using expand_scope_spec_full [OF assms(1,2), of ?b sc st] by blast
  from Cons.IH [of st1] Cons.prems p obtain bs st2 where
    2: "expand_given_buckets names glob defaults given st1 = Some (Inr bs, st2)" "st1 \<le> st2" "list_all2 expands given bs" by auto
  have "expands p (name, b')"
    using 1(3,4) p by (auto simp: expands_def map_le_def map_of_fill_defaults split: option.split)
  with 1 2 p show ?case by (auto simp: Let_def intro: order_trans)
qed simp

lemma new_bucket_makes:
  assumes "\<forall>kind. inj (names kind)" and "glob_ok glob" and "nums_ok defaults"
  shows "makes BucketName (\<lambda>_. expand_scope_spec names glob (new_bucket_spec defaults)) bucket_full"
proof -
  have "bucket_spec_ok (new_bucket_spec defaults)" "bs_scopes (new_bucket_spec defaults) = Some []"
    using assms(3) by (simp_all add: bucket_spec_ok_def new_bucket_spec_def)
  from expand_scope_spec_full [OF assms(1,2) this] show ?thesis unfolding makes_def by blast
qed


section \<open>Sharing documents out\<close>

definition items_of :: "coll_spec \<Rightarrow> int" where
  "items_of c = (case cs_num_items c of Some (PNum n) \<Rightarrow> n | _ \<Rightarrow> 0)"

fun entry_colls :: "scope_entry \<Rightarrow> coll_spec list" where
  "entry_colls (ScopeSpec sc) = (case ss_collections sc of None \<Rightarrow> [] | Some cs \<Rightarrow> map snd cs)"
| "entry_colls (NoScope v) = []"

definition scopes_colls :: "(string, scope_entry) dict \<Rightarrow> coll_spec list" where
  "scopes_colls scopes = concat (map (\<lambda>(k, e). entry_colls e) scopes)"

definition bucket_colls :: "bucket_spec \<Rightarrow> coll_spec list" where
  "bucket_colls b = (case bs_scopes b of None \<Rightarrow> [] | Some scopes \<Rightarrow> scopes_colls scopes)"

definition bucket_items :: "bucket_spec \<Rightarrow> int" where
  "bucket_items b = sum_list (map items_of (bucket_colls b))"

fun unshared :: "int \<Rightarrow> nat \<Rightarrow> int" where
  "unshared n 0 = n"
| "unshared n (Suc k) = unshared (snd (next_share n)) k"

lemma unshared_add: "unshared n (j + k) = unshared (unshared n j) k"
  by (induction j arbitrary: n) auto

lemma next_share_sum: "fst (next_share n) + snd (next_share n) = n"
  by (simp add: next_share_def Let_def)

lemma next_share_rest: "0 \<le> n \<Longrightarrow> snd (next_share n) = (if n \<le> 1 then 0 else n - n div 2)"
  by (auto simp: next_share_def Let_def)

lemma next_share_nonneg: "0 \<le> n \<Longrightarrow> 0 \<le> snd (next_share n)"
  by (auto simp: next_share_rest)

lemma unshared_nonneg: "0 \<le> n \<Longrightarrow> 0 \<le> unshared n k"
  by (induction k arbitrary: n) (simp_all add: next_share_nonneg)

text \<open>Nothing is left over exactly when the halving reaches one document before the last collection.\<close>

lemma unshared_zero: "0 \<le> n \<Longrightarrow> unshared n (Suc k) = 0 \<longleftrightarrow> n \<le> 2 ^ k"
proof (induction k arbitrary: n)
  case 0
  then show ?case by (auto simp: next_share_rest)
next
  case (Suc k)
  have "unshared n (Suc (Suc k)) = 0 \<longleftrightarrow> snd (next_share n) \<le> 2 ^ k"
    unfolding unshared.simps(2) [of n "Suc k"] by (rule Suc.IH [OF next_share_nonneg [OF Suc.prems]])
  also have "\<dots> \<longleftrightarrow> n \<le> 2 ^ Suc k"
  proof (cases "n \<le> 1")
    case True
    moreover have "(1::int) \<le> 2 ^ Suc k" by (rule one_le_power) simp
    ultimately show ?thesis using Suc.prems by (simp add: next_share_rest)
  next
    case False
    then show ?thesis using Suc.prems by (simp add: next_share_rest) linarith
  qed
  finally show ?case .
qed

lemma share_collections_result:
  assumes "share_collections n cs = (cs', r)"
  shows "map fst cs' = map fst cs \<and> list_all (\<lambda>(k, c). coll_full c) cs' \<and>
     sum_list (map (\<lambda>(k, c). items_of c) cs') = n - r \<and> r = unshared n (length cs)"
  using assms
proof (induction cs arbitrary: n cs' r)
  case (Cons p cs)
  obtain name c where p: "p = (name, c)" by force
  obtain a m where a: "next_share n = (a, m)" by force
  obtain cs2 r2 where s: "share_collections m cs = (cs2, r2)" by force
  from Cons.prems p a s have c: "cs' = (name, c\<lparr>cs_num_items := Some (PNum a)\<rparr>) # cs2" "r = r2" by auto
  have "a = n - m" using next_share_sum [of n] a by simp
  with Cons.IH [OF s] c p a show ?case by (auto simp: coll_full_def items_of_def)
qed simp

lemma share_scopes_result:
  assumes "list_all (\<lambda>(k, e). full_entry bucket e) scopes"
  shows "\<exists>scopes' r. share_scopes n scopes = Inr (scopes', r) \<and> map fst scopes' = map fst scopes \<and>
     list_all (\<lambda>(k, e). full_entry bucket e) scopes' \<and> length (scopes_colls scopes') = length (scopes_colls scopes) \<and>
     sum_list (map items_of (scopes_colls scopes')) = n - r \<and> r = unshared n (length (scopes_colls scopes))"
  using assms
proof (induction scopes arbitrary: n)
  case Nil
  then show ?case by (simp add: scopes_colls_def)
next
  case (Cons p scopes)
  from Cons.prems obtain name sc cs where p: "p = (name, ScopeSpec sc)" and cs: "ss_collections sc = Some cs"
    "dict_wf cs" "wanted_colls bucket (ss_settings sc) \<le> int (length cs)"
    by (cases p) (auto simp: full_entry_def scope_full_def)
  obtain cs' m where s: "share_collections n cs = (cs', m)" by force
  note r = share_collections_result [OF s]
  from r have len: "length cs' = length cs" by (metis length_map)
  from Cons.IH [of m] Cons.prems obtain scopes' r' where
    i: "share_scopes m scopes = Inr (scopes', r')" "map fst scopes' = map fst scopes"
       "list_all (\<lambda>(k, e). full_entry bucket e) scopes'" "length (scopes_colls scopes') = length (scopes_colls scopes)"
       "sum_list (map items_of (scopes_colls scopes')) = m - r'" "r' = unshared m (length (scopes_colls scopes))" by auto
  have f: "full_entry bucket (ScopeSpec (sc\<lparr>ss_collections := Some cs'\<rparr>))"
    using cs(2,3) r len by (simp add: full_entry_def scope_full_def dict_wf_def)
  have "map items_of (map snd cs') = map (\<lambda>(k, c). items_of c) cs'" by (simp add: case_prod_unfold)
  then have t: "sum_list (map (items_of \<circ> snd) cs') = n - m" using r by (simp add: comp_def case_prod_unfold)
  have c: "scopes_colls (p # scopes) = map snd cs @ scopes_colls scopes"
    "scopes_colls ((name, ScopeSpec (sc\<lparr>ss_collections := Some cs'\<rparr>)) # scopes') = map snd cs' @ scopes_colls scopes'"
    using p cs(1) by (simp_all add: scopes_colls_def)
  have "share_scopes n (p # scopes) = Inr ((name, ScopeSpec (sc\<lparr>ss_collections := Some cs'\<rparr>)) # scopes', r')"
    using p cs(1) s i(1) by simp
  moreover have "r' = unshared n (length (scopes_colls (p # scopes)))" using i(6) r by (simp add: c unshared_add)
  moreover have "sum_list (map items_of (scopes_colls ((name, ScopeSpec (sc\<lparr>ss_collections := Some cs'\<rparr>)) # scopes'))) = n - r'"
    using i(5) t by (simp add: c)
  moreover have "length (scopes_colls ((name, ScopeSpec (sc\<lparr>ss_collections := Some cs'\<rparr>)) # scopes')) =
      length (scopes_colls (p # scopes))" using i(4) len by (simp add: c)
  ultimately show ?case using f i(2,3) p by fastforce
qed

lemma total_items_full:
  assumes "list_all (\<lambda>(k, e). full_entry bucket e) scopes"
  shows "total_items scopes = Inr (sum_list (map items_of (scopes_colls scopes)))"
proof -
  have inner: "rfold (\<lambda>n (_, c). rbind (num_items_of c) (\<lambda>k. Inr (n + k))) n cs = Inr (n + sum_list (map items_of (map snd cs)))"
    if "list_all (\<lambda>(k, c). coll_full c) cs" for n and cs :: "(string, coll_spec) dict"
    using that by (induction cs arbitrary: n) (auto simp: num_items_of_def coll_full_def items_of_def)
  have "rfold (\<lambda>n (_, e). rbind (entry_collections e) (\<lambda>cs.
       rfold (\<lambda>n (_, c). rbind (num_items_of c) (\<lambda>k. Inr (n + k))) n cs)) n scopes =
      Inr (n + sum_list (map items_of (scopes_colls scopes)))" for n
    using assms
  proof (induction scopes arbitrary: n)
    case (Cons p scopes)
    from Cons.prems obtain name sc cs where p: "p = (name, ScopeSpec sc)" and cs: "ss_collections sc = Some cs"
      "list_all (\<lambda>(k, c). coll_full c) cs" by (cases p) (auto simp: full_entry_def scope_full_def)
    have "scopes_colls (p # scopes) = map snd cs @ scopes_colls scopes" using p cs(1) by (simp add: scopes_colls_def)
    with Cons p cs inner show ?case by (simp add: entry_collections_def add.assoc)
  qed (simp add: scopes_colls_def)
  from this [of 0] show ?thesis by (simp add: total_items_def)
qed

lemma share_bucket_result:
  assumes "bucket_full b"
  shows "\<exists>b'. share_bucket b = Inr b' \<and> bucket_full b' \<and> bs_settings b' = bs_settings b \<and>
     length (bucket_colls b') = length (bucket_colls b) \<and>
     (setting_true (dict_get (bs_settings b) LOAD_COLLECTIONS_EXPONENTIALLY (PNum 0)) \<longrightarrow>
        bucket_items b' = bucket_items b - unshared (bucket_items b) (length (bucket_colls b)))"
proof (cases "setting_true (dict_get (bs_settings b) LOAD_COLLECTIONS_EXPONENTIALLY (PNum 0))")
  case True
  from assms obtain scopes where s: "bs_scopes b = Some scopes" "dict_wf scopes" "dict_has scopes ''_default''"
    "wanted_scopes (bs_settings b) \<le> int (length scopes)" "list_all (\<lambda>(k, e). full_entry (bs_settings b) e) scopes"
    by (auto simp: bucket_full_def)
  let ?n = "sum_list (map items_of (scopes_colls scopes))"
  from share_scopes_result [OF s(5), of ?n] obtain scopes' r where
    r: "share_scopes ?n scopes = Inr (scopes', r)" "map fst scopes' = map fst scopes"
       "list_all (\<lambda>(k, e). full_entry (bs_settings b) e) scopes'" "length (scopes_colls scopes') = length (scopes_colls scopes)"
       "sum_list (map items_of (scopes_colls scopes')) = ?n - r" "r = unshared ?n (length (scopes_colls scopes))" by blast
  have res: "share_bucket b = Inr (b\<lparr>bs_scopes := Some scopes'\<rparr>)"
    using True s(1) total_items_full [OF s(5)] r(1) by (simp add: share_bucket_def)
  have "length scopes' = length scopes" using r(2) by (metis length_map)
  moreover have "dict_has scopes' ''_default''" using s(3) r(2) by (simp only: dict_has_iff_keys)
  moreover have "dict_wf scopes'" using s(2) r(2) by (simp only: dict_wf_def)
  ultimately have "bucket_full (b\<lparr>bs_scopes := Some scopes'\<rparr>)" using s(4) r(3) by (simp add: bucket_full_def)
  then show ?thesis using res r(4-6) s(1) by (simp add: bucket_colls_def bucket_items_def)
qed (use assms in \<open>simp add: share_bucket_def\<close>)

lemma share_buckets_result:
  assumes "list_all (\<lambda>(k, b). bucket_full b) bs"
  shows "\<exists>bs'. share_buckets bs = Inr bs' \<and>
     list_all2 (\<lambda>(k, b) (k', b'). k' = k \<and> bucket_full b' \<and> bs_settings b' = bs_settings b) bs bs'"
  using assms
proof (induction bs)
  case (Cons p bs)
  obtain k b where p: "p = (k, b)" by force
  from share_bucket_result [of b] Cons.prems p obtain b' where
    "share_bucket b = Inr b'" "bucket_full b'" "bs_settings b' = bs_settings b" by auto
  moreover from Cons obtain bs' where "share_buckets bs = Inr bs'"
    "list_all2 (\<lambda>(k, b) (k', b'). k' = k \<and> bucket_full b' \<and> bs_settings b' = bs_settings b) bs bs'" by auto
  ultimately show ?case using p by (simp add: share_buckets_def)
qed (simp add: share_buckets_def)


section \<open>The whole specification\<close>

definition given_buckets :: "buckets_spec \<Rightarrow> (string, bucket_spec) dict" where
  "given_buckets spec = (case sp_buckets spec of None \<Rightarrow> [] | Some bs \<Rightarrow> bs)"

definition wanted_buckets :: "buckets_spec \<Rightarrow> int" where
  "wanted_buckets spec =
     (case map_of (sp_settings spec) NUM_BUCKETS of Some (PNum n) \<Rightarrow> n | _ \<Rightarrow> int (length (given_buckets spec)))"

definition buckets_spec_ok :: "buckets_spec \<Rightarrow> bool" where
  "buckets_spec_ok spec \<longleftrightarrow> glob_ok (sp_settings spec) \<and> dict_wf (given_buckets spec) \<and>
     list_all (\<lambda>(k, b). bucket_spec_ok b) (given_buckets spec) \<and>
     (dict_has (sp_settings spec) ''ramQuotaMB'' \<or> wanted_buckets spec \<noteq> 0)"

lemma explicit_ram_ok: "list_all (\<lambda>(k, b). bucket_spec_ok b) bs \<Longrightarrow> \<exists>n. explicit_ram bs = Inr n"
proof -
  have "\<exists>n. rfold (\<lambda>total (_, b). case map_of (bs_settings b) ''ramQuotaMB'' of
      None \<Rightarrow> Inr total | Some v \<Rightarrow> rbind (as_num v) (\<lambda>n. Inr (total + n))) m bs = Inr n"
    if "list_all (\<lambda>(k, b). bucket_spec_ok b) bs" for m
    using that
  proof (induction bs arbitrary: m)
    case (Cons p bs)
    obtain k b where p: "p = (k, b)" by force
    show ?case
    proof (cases "map_of (bs_settings b) ''ramQuotaMB''")
      case (Some v)
      have "''ramQuotaMB'' \<in> set num_keys" by (simp add: num_keys_def)
      with Some Cons.prems p have "is_number v" unfolding bucket_spec_ok_def nums_ok_def by auto
      with Cons Some p show ?thesis by (auto simp: is_number_def)
    qed (use Cons p in auto)
  qed simp
  then show "list_all (\<lambda>(k, b). bucket_spec_ok b) bs \<Longrightarrow> ?thesis" by (simp add: explicit_ram_def)
qed

lemma wanted_buckets_num:
  assumes "nums_ok (sp_settings spec)"
  shows "dict_get (sp_settings spec) NUM_BUCKETS (PNum (int (length (given_buckets spec)))) = PNum (wanted_buckets spec)"
proof (cases "map_of (sp_settings spec) NUM_BUCKETS")
  case (Some v)
  have "NUM_BUCKETS \<in> set num_keys" by (simp add: num_keys_def)
  with Some assms have "is_number v" unfolding nums_ok_def by blast
  with Some show ?thesis by (auto simp: is_number_def wanted_buckets_def dict_get_def)
qed (simp add: wanted_buckets_def dict_get_def)

lemma set_ram_quota_ok:
  assumes "buckets_spec_ok spec"
  shows "\<exists>glob. set_ram_quota q ram (PNum (wanted_buckets spec)) (sp_settings spec) = Inr glob \<and> glob_ok glob"
proof -
  have "glob_ok (AList.update ''ramQuotaMB'' (PNum n) (sp_settings spec))" for n
    using assms by (auto simp: buckets_spec_ok_def glob_ok_def nums_ok_def is_number_def)
  then show ?thesis using assms by (auto simp: set_ram_quota_def buckets_spec_ok_def)
qed


definition two_level_names :: name_source where
  "two_level_names kind n = (case kind of BucketName \<Rightarrow> ''b'' | ScopeName \<Rightarrow> ''s'' | CollectionName \<Rightarrow> ''c'') @ nat_str n"

definition small_buckets_spec :: buckets_spec where
  "small_buckets_spec = \<lparr>sp_settings = [(USE_SIMPLE_NAMES, PNum 1), (REMOVE_DEFAULT_COLLECTION, PNum 0),
       (NUM_BUCKETS, PNum 2), (NUM_SCOPES_PER_BUCKET, PNum 3), (NUM_COLLECTIONS_PER_SCOPE, PNum 2), (NUM_ITEMS_PER_COLLECTION, PNum 10)],
     sp_buckets = Some [(''b0'', \<lparr>bs_settings = [(NUM_SCOPES_PER_BUCKET, PNum 1)], bs_scopes = None\<rparr>)]\<rparr>"


text \<open>C37. The documents of a bucket whose collections are to be filled exponentially: sharing them out
  (half of what is left to each collection in turn) never makes more of them, and keeps all exactly when the bucket has so many
  collections that their total is at most two to the power of their number less one; the others are lost.\<close>

theorem exponential_load_total:
  assumes "bucket_full b" and "setting_true (dict_get (bs_settings b) LOAD_COLLECTIONS_EXPONENTIALLY (PNum 0))"
    and "0 \<le> bucket_items b" and "length (bucket_colls b) = Suc k"
  shows "\<exists>b'. share_bucket b = Inr b' \<and> length (bucket_colls b') = Suc k \<and> bucket_items b' \<le> bucket_items b \<and>
     (bucket_items b' = bucket_items b \<longleftrightarrow> bucket_items b \<le> 2 ^ k)"
proof -
  from share_bucket_result [OF assms(1)] assms(2) obtain b' where
    "share_bucket b = Inr b'" "length (bucket_colls b') = length (bucket_colls b)"
    "bucket_items b' = bucket_items b - unshared (bucket_items b) (length (bucket_colls b))" by auto
  with assms(4) unshared_nonneg [OF assms(3), of "Suc k"] unshared_zero [OF assms(3), of k] show ?thesis by auto
qed

definition two_colls_bucket :: bucket_spec where
  "two_colls_bucket = \<lparr>bs_settings = [(LOAD_COLLECTIONS_EXPONENTIALLY, PNum 1)],
     bs_scopes = Some [(''_default'', ScopeSpec \<lparr>ss_settings = [], ss_collections =
       Some [(''a'', \<lparr>cs_num_items = Some (PNum 5), cs_other = []\<rparr>), (''b'', \<lparr>cs_num_items = Some (PNum 5), cs_other = []\<rparr>)]\<rparr>)]\<rparr>"

theorem exponential_load_total_witness:
  "bucket_items two_colls_bucket = 10 \<and> (\<exists>b'. share_bucket two_colls_bucket = Inr b' \<and> bucket_items b' < 10)"
proof -
  have full: "bucket_full two_colls_bucket"
    by (simp add: bucket_full_def two_colls_bucket_def dict_wf_def dict_has_def wanted_scopes_def full_entry_def scope_full_def
        wanted_colls_def dict_get_def coll_full_def)
  have n: "bucket_items two_colls_bucket = 10" "length (bucket_colls two_colls_bucket) = Suc 1"
    "setting_true (dict_get (bs_settings two_colls_bucket) LOAD_COLLECTIONS_EXPONENTIALLY (PNum 0))"
    by (simp_all add: bucket_items_def bucket_colls_def scopes_colls_def items_of_def two_colls_bucket_def dict_get_def)
  from exponential_load_total [OF full n(3) _ n(2)] n(1) obtain b' where
    "share_bucket two_colls_bucket = Inr b'" "bucket_items b' \<le> 10" "bucket_items b' \<noteq> 10" by auto
  with n(1) show ?thesis by force
qed


section \<open>Limits and units\<close>

lemma get_divisor_divides:
  assumes "0 < m"
  shows "get_divisor m dvd m" and "0 < get_divisor m"
proof -
  let ?f = "filter (\<lambda>i. i * i \<le> m \<and> m mod i = 0) [1..<Suc m]"
  have "1 \<in> set ?f" using assms by auto
  then have "0 < length ?f" by (rule length_pos_if_in_set)
  then have "length ?f div 2 < length ?f" by (intro div_less_dividend) simp_all
  then have "get_divisor m \<in> set ?f" unfolding get_divisor_def Let_def by (rule nth_mem)
  then show "get_divisor m dvd m" and "0 < get_divisor m" by auto
qed

text \<open>After balancing, a bucket has at most the allowed number of collections, and its documents are at most as
  many as before: the remainder of their division among the collections is lost (\<^verbatim>\<open>math.ceil\<close> gets a number that is rounded
  down already).\<close>

lemma balanced_within_limit:
  assumes "balance_scopes_collections_items max_limits None spec = Inr d" and "dict_wf spec"
    and "num_setting d NUM_SCOPES_PER_BUCKET = Inr s'" and "num_setting d NUM_COLLECTIONS_PER_SCOPE = Inr c'"
    and "num_setting spec NUM_SCOPES_PER_BUCKET = Inr s" and "num_setting spec NUM_COLLECTIONS_PER_SCOPE = Inr c"
    and "num_setting spec NUM_ITEMS_PER_COLLECTION = Inr i" and "num_setting d NUM_ITEMS_PER_COLLECTION = Inr i'"
  shows "s' * c' \<le> int (clamp_limit max_limits)" and "i' * (s' * c') \<le> i * s * c"
proof -
  let ?l = "clamp_limit max_limits"
  have pos: "0 < ?l" by (auto simp: clamp_limit_def)
  have dv: "get_divisor ?l * (?l div get_divisor ?l) = ?l" using get_divisor_divides(1) [OF pos] by simp
  have both: "s' * c' \<le> int ?l \<and> i' * (s' * c') \<le> i * s * c"
  proof (cases "int ?l < s * c")
    case True
    with assms have d: "d = dict_update_all spec
        [(NUM_ITEMS_PER_COLLECTION, PNum ((i * s * c) div int (get_divisor ?l * (?l div get_divisor ?l)))),
         (NUM_COLLECTIONS_PER_SCOPE, PNum (int (get_divisor ?l))), (NUM_SCOPES_PER_BUCKET, PNum (int (?l div get_divisor ?l)))]"
      by (simp add: balance_scopes_collections_items_def Let_def)
    with assms(3,4,8) have v: "c' = int (get_divisor ?l)" "s' = int (?l div get_divisor ?l)" "i' = (i * s * c) div int ?l"
      unfolding dv by (simp_all add: num_setting_def dict_update_all_def dict_lookup_def)
    have "s' * c' = int ?l" unfolding v using dv by (metis mult.commute of_nat_mult)
    moreover have "(i * s * c) div int ?l * int ?l = i * s * c - (i * s * c) mod int ?l" by (simp only: minus_mod_eq_div_mult)
    moreover have "0 \<le> (i * s * c) mod int ?l" using pos by (intro pos_mod_sign) simp
    ultimately show ?thesis unfolding v(3) by simp
  next
    case False
    with assms have "d = spec" by (simp add: balance_scopes_collections_items_def Let_def)
    with False assms show ?thesis by (simp add: mult.assoc)
  qed
  then show "s' * c' \<le> int ?l" and "i' * (s' * c') \<le> i * s * c" by simp_all
qed

text \<open>The units are the size divided by the size of a unit, rounded up, twice for a durable write.\<close>

lemma calculate_units_ceiling:
  "calculate_units key val sub xattr read n d =
     (key + val + sub + xattr + (if read then 4095 else 1023)) div (if read then 4096 else 1024) *
     (if d \<noteq> ''NONE'' \<and> \<not> read then 2 else 1) * n"
proof -
  have c: "t div b + (if t mod b \<noteq> 0 then 1 else 0) = (t + (b - 1)) div b" if "0 < b" for t b :: int
  proof -
    have t: "t = b * (t div b) + t mod b" and m: "0 \<le> t mod b" "t mod b < b" using that by simp_all
    show ?thesis
    proof (cases "t mod b = 0")
      case True
      have "t + (b - 1) = b * (t div b) + (b - 1)" using t True by linarith
      from int_div_pos_eq [OF this] that True show ?thesis by simp
    next
      case False
      have "t + (b - 1) = b * (t div b + 1) + (t mod b - 1)" using t by (simp add: distrib_left)
      from int_div_pos_eq [OF this] False m show ?thesis by simp
    qed
  qed
  from c [of 4096] c [of 1024] show ?thesis by (simp add: calculate_units_def Let_def)
qed

text \<open>The settings that a specification gives for the default collection are discarded when the collection is kept.\<close>

lemma default_collection_reset:
  assumes "expand_collection_spec names glob bucket ''_default'' sc st = Some (Inr sc', st')"
    and "\<not> setting_true (dict_get (ss_settings sc) REMOVE_DEFAULT_COLLECTION (PNum 0))"
    and "ss_collections sc = Some cs" and "dict_get (ss_settings sc) NUM_COLLECTIONS_PER_SCOPE (PNum 0) = PNum 0"
    and "dict_has (ss_settings sc) NUM_COLLECTIONS_PER_SCOPE"
  shows "map_of (the (ss_collections sc')) ''_default'' = Some (fill_num_items
     (dict_get (ss_settings sc) NUM_ITEMS_PER_COLLECTION (dict_get bucket NUM_ITEMS_PER_COLLECTION (PNum 0))) no_coll_spec)"
proof -
  have r: "dict_get (ss_settings sc) NUM_COLLECTIONS_PER_SCOPE v = PNum 0" for v
    using assms(4,5) by (auto simp: dict_get_def dict_has_def)
  have f: "fill_loop names CollectionName mk (PNum 0) i st d = Some (Inr d, st)" for mk i and d :: "(string, coll_spec) dict"
    by (subst fill_loop.simps) simp
  have m: "map_of (map_entries g d) k = map_option g (map_of d k)" for g :: "coll_spec \<Rightarrow> coll_spec" and d k
    by (induction d) (auto simp: map_entries_def)
  show ?thesis using assms(1-3) by (auto simp: expand_collection_spec_def r f m Let_def split: if_splits)
qed

text \<open>The expected number of documents is returned as soon as it is seen, otherwise the number seen last.\<close>

lemma actual_items_waits:
  "get_actual_items_loaded_to_calculate_wu totals n p =
     (if \<exists>i<4. totals i - p = n then n else totals 3 - p)"
proof -
  have "(\<exists>i<4. totals i - p = n) \<longleftrightarrow> totals 0 - p = n \<or> totals 1 - p = n \<or> totals 2 - p = n \<or> totals 3 - p = n"
    by (simp add: numeral_eq_Suc less_Suc_eq) blast
  then show ?thesis by (simp add: get_actual_items_loaded_to_calculate_wu_def numeral_eq_Suc Let_def)
qed

end
