(* ===== verification/Spec2Isabelle.thy ===== *)
theory Spec2Isabelle
  imports Crc32 KV_Store KV_Locks Mc_Bulk Doc_Gen_Props Test_Runner_Props Manifest_Props Doc_Loading_Props Vb_Consistency_Props Load_Tasks_Props Doc_Validation_Props
    Event_Log_Props Merge_Reports_Props Vb_Aware_Props Durability_Props
    Spec_Tasks_Props Bulk_Tasks_Props Durable_Load_Props Mc_Ascii Bucket_Spec_Props
begin

text \<open>
  A verification library for TAF, the functional test framework for Couchbase Server. Paths are relative to the
  repository.

  \<^bold>\<open>The program.\<close> \<^verbatim>\<open>testrunner.py\<close> reads the command line and an ini file of servers (\<^verbatim>\<open>TestInput.py\<close>), collects test
  names from conf files, filters them, runs each with \<^verbatim>\<open>unittest\<close> and writes a junit report (\<^verbatim>\<open>lib/xunit.py\<close>). The
  tests keep their own picture of the cluster: bucket, scope and collection objects (\<^verbatim>\<open>lib/BucketLib/bucket.py\<close>) that
  \<^verbatim>\<open>bucket_ready_functions.py\<close> updates beside each REST call; the range of documents each collection holds, from which
  document generators (\<^verbatim>\<open>documentgenerator.py\<close>) are made; and stores of what was written (\<^verbatim>\<open>kvstore.py\<close>). They talk to a
  node with the memcached binary protocol (\<^verbatim>\<open>mc_bin_client.py\<close>, \<^verbatim>\<open>memcacheConstants.py\<close>). A document's vbucket comes
  from a CRC of its key (\<^verbatim>\<open>crc32.py\<close>), computed alike by the generators, the client and the stores.

  \<^bold>\<open>Theories.\<close>
  \<^item> \<open>Py_Prelude\<close>: exceptions as values (\<open>'a res\<close>), dictionaries, Python's strings and numbers, loops that may raise.
  \<^item> \<open>Crc32\<close>: \<^verbatim>\<open>lib/crc32.py\<close> and \<^verbatim>\<open>get_vbucket_num_for_key\<close>. The table is the one its polynomial generates, and the
    table-driven loop computes the bits of \<^verbatim>\<open>zlib.crc32\<close> that the other components use.
  \<^item> \<open>KV_Store\<close>, \<open>KV_Locks\<close>: \<^verbatim>\<open>lib/memcached/helper/kvstore.py\<close> and \<^verbatim>\<open>old_kvstore.py\<close>. A partition and a whole store
    are both instances of the interface \<open>status_store\<close>: each operation acts on a map from keys to their status, so runs of
    operations refine runs on that map. \<open>lock_step\<close> interleaves threads in \<^verbatim>\<open>acquire_partitions\<close> and
    \<^verbatim>\<open>release_partitions\<close>: no lock has two holders and not all threads are stuck.
  \<^item> \<open>Struct_Pack\<close>, \<open>Mc_Constants\<close>, \<open>Mc_Wire\<close>, \<open>Mc_Client\<close>, \<open>Mc_Admin\<close>, \<open>Mc_Bulk\<close>: the memcached client from
    Python's \<^verbatim>\<open>struct\<close> up to \<^verbatim>\<open>getMulti\<close>. Requests are read back however the socket cuts them; responses are accepted by
    opaque and status; the loops over many responses end because each response consumes bytes of the stream.
  \<^item> \<open>Mc_Ascii\<close>: \<^verbatim>\<open>lib/mc_ascii_client.py\<close>, the client of the text protocol. The answer to a retrieval is read back entry by
    entry, however the socket cuts it and whatever the values contain.
  \<^item> \<open>Doc_Gen\<close>, \<open>Doc_Gen_Props\<close>: \<^verbatim>\<open>lib/couchbase_helper/documentgenerator.py\<close>. The batching wrapper is verified once, in
    the locale \<open>key_generator\<close>, and the document generators are shown to be instances.
  \<^item> \<open>Test_Input\<close>, \<open>Reports\<close>, \<open>Test_Runner\<close>, \<open>Test_Runner_Props\<close>: command line and ini file, reports and tables, the
    main program. Every selected test is run and reported once; what is written can be read back, up to a defect stated
    as it is.
  \<^item> \<open>Bucket_Model\<close>, \<open>Manifest\<close>, \<open>Manifest_Props\<close>: bucket objects and the operations on scopes and collections. The
    locale \<open>manifest_keeper\<close> says when an object that is told of the accepted requests has the manifest of the server;
    the bucket object is shown to be such a keeper.
  \<^item> \<open>Bucket_Spec\<close>, \<open>Bucket_Spec_Props\<close>: expansion of a specification of buckets. One loop, \<open>fill_loop\<close>, adds entries under new
    names at all three levels; the expansion ends and every bucket, scope and collection that is asked for is there; sharing
    documents out exponentially loses some exactly when there are too few collections.
  \<^item> \<open>Doc_Loading\<close>, \<open>Doc_Loading_Props\<close>: \<^verbatim>\<open>DocLoaderUtils\<close>: the indices of a collection are exactly its documents, in
    every run; what the validation of a load makes of its failures; expiry.
  \<^item> \<open>Cb_Stats\<close>, \<open>Data_Analysis\<close>, \<open>Vb_Consistency\<close>, \<open>Vb_Consistency_Props\<close>: \<^verbatim>\<open>cbstats.py\<close>, \<^verbatim>\<open>data_analysis_helper.py\<close>
    and the checks of \<^verbatim>\<open>bucket_ready_functions.py\<close> over them. Grouping flat statistics by vbucket loses nothing; comparing
    data sets reports exactly the differences; the locale \<open>node_check\<close> says when a check over all nodes decides agreement,
    and the checks of sequence numbers and of failover logs are its instances.
  \<^item> \<open>SDK_Pool\<close>, \<open>SDK_Pool_Props\<close>: \<^verbatim>\<open>SDKClientPool\<close> of \<^verbatim>\<open>lib/sdk_client3.py\<close>. An invariant of all runs of tasks that get and
    release clients: no client serves two collections, none is lost.
  \<^item> \<open>SDK_Client\<close>: \<^verbatim>\<open>java_sdk.py\<close> and the document operations of \<^verbatim>\<open>SDKClient\<close>: how their arguments become options of the Java
    SDK and its answers the dictionaries of successful and failed documents. The SDK is a parameter (\<open>sdk\<close>).
  \<^item> \<open>Load_Tasks\<close>, \<open>Load_Tasks_Props\<close>, \<open>Batch_Props\<close>: the loading tasks of \<^verbatim>\<open>lib/Jython_tasks/task.py\<close> and the task manager. The
    locale \<open>batch_consumer\<close> says what a task's \<^verbatim>\<open>next\<close> has to keep for its loop to hand over a whole generator; a load through
    sub-tasks hands each document to the client exactly once; a batch gives its client back to the pool; failures of a batch
    are those that cannot be read back.
  \<^item> \<open>Doc_Validation\<close>, \<open>Doc_Validation_Props\<close>: the tasks that read documents back. A batch is rejected exactly when a document is
    missing or different.
  \<^item> \<open>Spec_Tasks\<close>, \<open>Spec_Tasks_Props\<close>: the tasks that carry out a specification of mutations and validate its documents. Every
    operation is split, run and its results are filed where they belong.
  \<^item> \<open>Bulk_Tasks\<close>, \<open>Bulk_Tasks_Props\<close>: loading sub-documents of generators, documents over and over, and documents until a bucket
    does not fit into memory; the last ends when the statistics say so and counts what it wrote.
  \<^item> \<open>Durable_Load\<close>, \<open>Durable_Load_Props\<close>: the task \<^verbatim>\<open>Durability\<close>, whose loaders write documents while two threads check them. A
    thread is a step function and \<open>dl_step\<close> interleaves them: the reader stays behind the writer, asks for every document once
    and reports what it saw; every run ends, and only when the load is complete or the writer raised.
  \<^item> \<open>System_Events\<close>, \<open>Event_Log\<close>, \<open>Event_Log_Props\<close>: \<^verbatim>\<open>lib/SystemEventLogLib\<close>. Every event the framework makes has the
    fields and identifiers the event log documents; validation of recorded events against the log of the cluster is exact.
  \<^item> \<open>Merge_Reports\<close>, \<open>Merge_Reports_Props\<close>: \<^verbatim>\<open>scripts/merge_reports.py\<close>. In a merged report the last run of a test counts.
  \<^item> \<open>Vb_Aware\<close>, \<open>Vb_Aware_Props\<close>: \<^verbatim>\<open>VBucketAwareMemcached\<close> of \<^verbatim>\<open>data_helper.py\<close> and the check of keys by threads. All
    components compute the same vbucket for a key, and requests go to that vbucket's master.
  \<^item> \<open>Durability\<close>, \<open>Durability_Props\<close>: \<^verbatim>\<open>durability_helper.py\<close>: which errors durable writes survive, the checks of sequence
    numbers and documents, the choice of the nodes to be affected.

  \<^bold>\<open>Conventions.\<close> A method that changes an object takes and returns it. Raising is \<open>Inl\<close> of an exception; where the code
  leaves a changed object behind an exception, the definition returns both. A call that would wait for a held lock is
  \<open>None\<close>. Clocks, random choices, files, sockets, REST replies, the SDK client, the JSON library and iteration orders of
  sets are arguments, and the theorems hold for all of them or name what they assume. The code runs on Python 2 (Jython):
  integers are unbounded, \<^verbatim>\<open>/\<close> on integers rounds down, and \<^verbatim>\<open>zlib.crc32\<close> is signed.

  \<^bold>\<open>Loops.\<close> No definition uses fuel. Loops over data are structural recursion; \<open>get_loop\<close>, \<open>leb_loop\<close> and the like
  carry a measure; loops that need not end (drawing random names until one is free, searching keys for a vbucket)
  are \<open>partial_function (option)\<close>, and the theorems about them prove that they return under stated conditions.

  \<^bold>\<open>Not modelled.\<close> Remote shells, REST and HTTP clients, connections of the SDK client, Capella and analytics helpers:
  they are sequences of network calls whose results other services decide. The tasks of \<^verbatim>\<open>lib/Jython_tasks/task.py\<close> around
  such calls (rebalance, failover, views, queries, analytics, backup). Threads of the executor: sub-tasks run one after the
  other (the threads of \<open>Durable_Load\<close> are interleaved). Vendored and generated libraries (\<^verbatim>\<open>httplib2\<close>, \<^verbatim>\<open>BeautifulSoup\<close>, the backup service client). The test cases
  under \<^verbatim>\<open>pytests\<close> and \<^verbatim>\<open>pytests_stale\<close>: they are users of the framework.
\<close>

end
